(* ===== verification/Prelude.thy ===== *)
theory Prelude
  imports Main "HOL-Library.Word"
begin

text \<open>
  Shared vocabulary of the development: the machine types of the C code, the outcome of
  a call that may hit undefined behaviour or terminate the process, the \<open>int\<close> result
  convention (0 or -1) of the library, size_t subtraction, and generic lemmas on words
  and lists that the component theories use.
\<close>

unbundle bit_operations_syntax

subsection \<open>Machine types\<close>

type_synonym byte = "8 word"
type_synonym u16 = "16 word"
type_synonym u32 = "32 word"
type_synonym u64 = "64 word"

text \<open>C's \<open>int\<close> result: 0 on success, -1 on failure.\<close>

datatype crc = C_OK | C_ERR

text \<open>
  What a call can do beside returning: read or write outside an object, read an object
  that was never written, touch a freed object, dereference NULL, link an object into a queue
  that holds it already (which makes the queue a cycle), or terminate the process through
  \<open>errx\<close>.
\<close>

datatype fault =
    Overread
  | Overwrite
  | Uninitialised
  | Use_after_free
  | Null_deref
  | Relinked
  | Process_exit

datatype 'a run = Fault fault | Done 'a

fun run_bind :: "'a run \<Rightarrow> ('a \<Rightarrow> 'b run) \<Rightarrow> 'b run" where
  "run_bind (Fault e) f = Fault e"
| "run_bind (Done x) f = f x"

named_theorems wire_simps \<open>bytes on the wire: nibbles, shifts and masks as arithmetic\<close>
named_theorems fsm_simps \<open>transition tables and final states of the transaction machines\<close>

lemma run_bind_Done_iff: "run_bind m f = Done y \<longleftrightarrow> (\<exists>x. m = Done x \<and> f x = Done y)"
  by (cases m) auto

lemma run_bind_Fault_iff:
  "run_bind m f = Fault e \<longleftrightarrow> m = Fault e \<or> (\<exists>x. m = Done x \<and> f x = Fault e)"
  by (cases m) auto

lemma run_bind_assoc [simp]: "run_bind (run_bind m f) g = run_bind m (\<lambda>x. run_bind (f x) g)"
  by (cases m) auto

subsection \<open>size_t\<close>

text \<open>Subtraction of unsigned 64-bit sizes wraps around.\<close>

definition size_sub :: "nat \<Rightarrow> nat \<Rightarrow> nat" where
  "size_sub a b = (a + 2 ^ 64 - b) mod 2 ^ 64"

lemma wrap_sub_le: "b \<le> a \<Longrightarrow> a < m \<Longrightarrow> (a + m - b) mod m = a - (b :: nat)"
proof -
  assume ab: "b \<le> a" and am: "a < m"
  have "(a + m - b) mod m = (a - b + m) mod m" using ab by simp
  also have "\<dots> = a - b" using am by simp
  finally show ?thesis .
qed

lemma size_sub_le [simp]: "b \<le> a \<Longrightarrow> a < 2 ^ 64 \<Longrightarrow> size_sub a b = a - b"
  unfolding size_sub_def by (rule wrap_sub_le)

lemma wrap_sub_gt: "a < b \<Longrightarrow> b \<le> m \<Longrightarrow> (a + m - b) mod m = m - (b - (a :: nat))"
proof -
  assume ab: "a < b" and bm: "b \<le> m"
  have "a + m - b = m - (b - a)" using ab bm by arith
  then have "(a + m - b) mod m = (m - (b - a)) mod m" by (rule arg_cong)
  also have "\<dots> = m - (b - a)" using ab bm by simp
  finally show ?thesis .
qed

lemma size_sub_wraps: "a < b \<Longrightarrow> b \<le> 2 ^ 64 \<Longrightarrow> size_sub a b = 2 ^ 64 - (b - a)"
  unfolding size_sub_def by (rule wrap_sub_gt)

subsection \<open>Bytes and nibbles\<close>

lemma unat_byte_lt [simp]: "unat (b :: byte) < 256"
  using unsigned_less [of b, where ?'a = nat] by simp

lemma unat_drop_bit4 [wire_simps]: "unat (drop_bit 4 b) = unat (b :: byte) div 16"
  by (simp only: unsigned_drop_bit_eq) (simp add: drop_bit_eq_div take_bit_nat_eq_self)

lemma and_mask4: "(b :: byte) AND 15 = take_bit 4 b"
  by (simp add: take_bit_eq_mask mask_eq_exp_minus_1)

lemma unat_and_15 [wire_simps]: "unat (b AND 15) = unat (b :: byte) mod 16"
  by (simp only: and_mask4 unsigned_take_bit_eq) (simp add: take_bit_eq_mod)

lemma unat_of_nat_byte [wire_simps]: "n < 256 \<Longrightarrow> unat (of_nat n :: byte) = n"
  by (simp add: unsigned_of_nat take_bit_nat_eq_self)

lemma unat_shift_or [wire_simps]:
  assumes "d < 16" and "n < 16"
  shows "unat (push_bit 4 (of_nat d) OR of_nat n :: byte) = 16 * d + n"
proof -
  have "unat (push_bit 4 (of_nat d) OR of_nat n :: byte) = push_bit 4 d OR n"
    using assms by (simp only: unsigned_or_eq unsigned_push_bit_eq unsigned_of_nat)
      (simp add: take_bit_nat_eq_self push_bit_eq_mult)
  also have "\<dots> = push_bit 4 d OR take_bit 4 n"
    using assms by (simp add: take_bit_nat_eq_self)
  also have "\<dots> = push_bit 4 d + take_bit 4 n"
    by (rule disjunctive_add_eq_or [symmetric]) (simp add: bit_eq_iff bit_simps)
  finally show ?thesis using assms by (simp add: push_bit_eq_mult take_bit_nat_eq_self)
qed

lemma bit_of_small: assumes "unat (w :: 'a :: len word) < 2 ^ n" and "bit w i" shows "i < n"
proof (rule ccontr)
  assume "\<not> i < n"
  then have "unat w < 2 ^ i" using assms(1) by (meson less_le_trans not_le one_le_numeral power_increasing)
  then have "\<not> bit (unat w) i" by (simp add: bit_iff_odd)
  with assms(2) show False by (simp add: bit_unsigned_iff bit_imp_le_length)
qed

subsection \<open>Lists\<close>

lemma drop_append_exact: "length xs = n \<Longrightarrow> drop n (xs @ ys) = ys"
  by simp

lemma nth_append_exact: "length xs = n \<Longrightarrow> (xs @ y # ys) ! n = y"
  by auto

lemma sorted_wrt_split_insert:
  assumes "sorted (map f (xs @ ys))" and "\<forall>y \<in> set ys. k < f y" and "\<forall>x \<in> set xs. f x \<le> k" "f a = k"
  shows "sorted (map f (xs @ a # ys))"
  using assms by (auto simp: sorted_append)

subsection \<open>Text\<close>

text \<open>The bytes of a string literal; a number in decimal.\<close>

definition ascii :: "string \<Rightarrow> byte list" where
  "ascii s = map of_char s"

fun digits :: "nat \<Rightarrow> string" where
  "digits n = (if n < 10 then [char_of (48 + n)] else digits (n div 10) @ [char_of (48 + n mod 10)])"

declare digits.simps [simp del]

definition print_int :: "int \<Rightarrow> string" where
  "print_int i = (if i < 0 then CHR ''-'' # digits (nat (- i)) else digits (nat i))"

lemma length_ascii [simp]: "length (ascii s) = length s"
  by (simp add: ascii_def)

lemma ascii_nil [simp]: "ascii s = [] \<longleftrightarrow> s = []"
  by (simp add: ascii_def)

lemma digits_nonempty [simp]: "digits n \<noteq> []"
  by (subst digits.simps) simp

lemma length_digits: "n < 10 ^ k \<Longrightarrow> 0 < k \<Longrightarrow> length (digits n) \<le> k"
proof (induction n arbitrary: k rule: digits.induct)
  case (1 n)
  show ?case
  proof (cases "n < 10")
    case True
    with 1 show ?thesis by (subst digits.simps) simp
  next
    case False
    with 1 obtain j where k: "k = Suc j" "0 < j" by (cases k; cases "k - 1") auto
    with 1(2) have "n div 10 < 10 ^ j" by (simp add: less_mult_imp_div_less mult.commute)
    with 1(1) [OF False this k(2)] False k show ?thesis by (subst digits.simps) simp
  qed
qed

end
