(* ===== verification/Enums.thy ===== *)
theory Enums
  imports Prelude
begin

text \<open>
  The enumerations of \<open>include/evcoap_enums.h\<close> and the functions of
  \<open>lib/evcoap/src/evcoap_enums.c\<close>: message types, methods and method masks, media
  types, response codes, the client and server transaction states, and their printable
  forms. Enumerations the program only compares (the states, the callback results) are
  datatypes; those it casts from or to wire integers (types, methods, codes, media types)
  are numbers with named constants.
\<close>

subsection \<open>Protocol constants\<close>

abbreviation (input) EC_COAP_VERSION_1 :: byte where "EC_COAP_VERSION_1 \<equiv> 1"
abbreviation (input) EC_COAP_DEFAULT_PORT :: nat where "EC_COAP_DEFAULT_PORT \<equiv> 5683"
abbreviation (input) EC_COAP_OPT_LEN_MAX :: nat where "EC_COAP_OPT_LEN_MAX \<equiv> 270"
abbreviation (input) EC_COAP_MAX_OPTIONS :: nat where "EC_COAP_MAX_OPTIONS \<equiv> 15"
abbreviation (input) EC_COAP_HDR_SIZE :: nat where "EC_COAP_HDR_SIZE \<equiv> 4"
abbreviation (input) EC_COAP_DEFAULT_MAX_AGE :: nat where "EC_COAP_DEFAULT_MAX_AGE \<equiv> 60"
abbreviation (input) EC_COAP_BLOCK_MIN :: nat where "EC_COAP_BLOCK_MIN \<equiv> 16"
abbreviation (input) EC_COAP_BLOCK_MAX :: nat where "EC_COAP_BLOCK_MAX \<equiv> 1024"
abbreviation (input) EC_COAP_RESP_TIMEOUT :: nat where "EC_COAP_RESP_TIMEOUT \<equiv> 2"
abbreviation (input) EC_COAP_MAX_RETRANSMIT :: nat where "EC_COAP_MAX_RETRANSMIT \<equiv> 4"
abbreviation (input) EC_URI_MAX :: nat where "EC_URI_MAX \<equiv> 512"

subsection \<open>Message types and methods\<close>

abbreviation (input) EC_COAP_CON :: byte where "EC_COAP_CON \<equiv> 0"
abbreviation (input) EC_COAP_NON :: byte where "EC_COAP_NON \<equiv> 1"
abbreviation (input) EC_COAP_ACK :: byte where "EC_COAP_ACK \<equiv> 2"
abbreviation (input) EC_COAP_RST :: byte where "EC_COAP_RST \<equiv> 3"

definition ec_model_str :: "byte \<Rightarrow> string option" where
  "ec_model_str m =
     (if m = EC_COAP_CON then Some ''CON''
      else if m = EC_COAP_NON then Some ''NON''
      else if m = EC_COAP_ACK then Some ''ACK''
      else if m = EC_COAP_RST then Some ''RST''
      else None)"

type_synonym ec_method = nat

abbreviation (input) EC_METHOD_UNSET :: ec_method where "EC_METHOD_UNSET \<equiv> 0"
abbreviation (input) EC_COAP_GET :: ec_method where "EC_COAP_GET \<equiv> 1"
abbreviation (input) EC_COAP_POST :: ec_method where "EC_COAP_POST \<equiv> 2"
abbreviation (input) EC_COAP_PUT :: ec_method where "EC_COAP_PUT \<equiv> 3"
abbreviation (input) EC_COAP_DELETE :: ec_method where "EC_COAP_DELETE \<equiv> 4"
abbreviation (input) EC_METHOD_MAX :: ec_method where "EC_METHOD_MAX \<equiv> 5"

definition EC_IS_METHOD :: "ec_method \<Rightarrow> bool" where
  "EC_IS_METHOD m \<longleftrightarrow> m > EC_METHOD_UNSET \<and> m < EC_METHOD_MAX"

definition ec_method_str :: "ec_method \<Rightarrow> string option" where
  "ec_method_str m =
     (if m = EC_METHOD_UNSET then Some ''UNSET''
      else if m = EC_COAP_GET then Some ''GET''
      else if m = EC_COAP_POST then Some ''POST''
      else if m = EC_COAP_PUT then Some ''PUT''
      else if m = EC_COAP_DELETE then Some ''DELETE''
      else None)"

text \<open>Method masks: one bit per method, and every bit set for what is no method.\<close>

type_synonym ec_method_mask = u32

abbreviation (input) EC_METHOD_MASK_UNSET :: ec_method_mask where "EC_METHOD_MASK_UNSET \<equiv> 0"
abbreviation (input) EC_GET_MASK :: ec_method_mask where "EC_GET_MASK \<equiv> 1"
abbreviation (input) EC_POST_MASK :: ec_method_mask where "EC_POST_MASK \<equiv> 2"
abbreviation (input) EC_PUT_MASK :: ec_method_mask where "EC_PUT_MASK \<equiv> 4"
abbreviation (input) EC_DELETE_MASK :: ec_method_mask where "EC_DELETE_MASK \<equiv> 8"
abbreviation (input) EC_METHOD_MASK_ALL :: ec_method_mask where "EC_METHOD_MASK_ALL \<equiv> 15"

definition EC_IS_METHOD_MASK :: "ec_method_mask \<Rightarrow> bool" where
  "EC_IS_METHOD_MASK m \<longleftrightarrow> m > EC_METHOD_MASK_UNSET \<and> m \<le> EC_METHOD_MASK_ALL"

definition ec_method_to_mask :: "ec_method \<Rightarrow> ec_method_mask" where
  "ec_method_to_mask m =
     (if m = EC_COAP_GET then EC_GET_MASK
      else if m = EC_COAP_PUT then EC_PUT_MASK
      else if m = EC_COAP_POST then EC_POST_MASK
      else if m = EC_COAP_DELETE then EC_DELETE_MASK
      else -1)"

subsection \<open>Media types\<close>

type_synonym ec_mt = nat

abbreviation (input) EC_MT_TEXT_PLAIN :: ec_mt where "EC_MT_TEXT_PLAIN \<equiv> 0"
abbreviation (input) EC_MT_APPLICATION_LINK_FORMAT :: ec_mt where "EC_MT_APPLICATION_LINK_FORMAT \<equiv> 40"
abbreviation (input) EC_MT_APPLICATION_XML :: ec_mt where "EC_MT_APPLICATION_XML \<equiv> 41"
abbreviation (input) EC_MT_APPLICATION_OCTET_STREAM :: ec_mt where "EC_MT_APPLICATION_OCTET_STREAM \<equiv> 42"
abbreviation (input) EC_MT_APPLICATION_EXI :: ec_mt where "EC_MT_APPLICATION_EXI \<equiv> 47"
abbreviation (input) EC_MT_APPLICATION_JSON :: ec_mt where "EC_MT_APPLICATION_JSON \<equiv> 50"
abbreviation (input) EC_MT_ANY :: ec_mt where "EC_MT_ANY \<equiv> 255"

text \<open>ASCII case folding, and C's \<open>strcasecmp\<close> as an equality test.\<close>

definition to_lower :: "char \<Rightarrow> char" where
  "to_lower c = (let n = (of_char c :: nat) in if 65 \<le> n \<and> n \<le> 90 then char_of (n + 32) else c)"

definition str_case_eq :: "string \<Rightarrow> string \<Rightarrow> bool" where
  "str_case_eq a b \<longleftrightarrow> map to_lower a = map to_lower b"

text \<open>The result is the code and, on success, the media type stored through \<open>pmt\<close>.\<close>

definition ec_mt_from_string :: "string \<Rightarrow> crc \<times> ec_mt option" where
  "ec_mt_from_string s =
     (if s = [] then (C_ERR, None)
      else if str_case_eq s ''text/plain'' then (C_OK, Some EC_MT_TEXT_PLAIN)
      else if str_case_eq s ''application/link-format''
        then (C_OK, Some EC_MT_APPLICATION_LINK_FORMAT)
      else if str_case_eq s ''application/xml'' then (C_OK, Some EC_MT_APPLICATION_XML)
      else if str_case_eq s ''application/octet-stream''
        then (C_OK, Some EC_MT_APPLICATION_OCTET_STREAM)
      else if str_case_eq s ''application/exi'' then (C_OK, Some EC_MT_APPLICATION_EXI)
      else if str_case_eq s ''application/json'' then (C_OK, Some EC_MT_APPLICATION_JSON)
      else (C_ERR, None))"

subsection \<open>Response codes\<close>

type_synonym ec_rc = int

abbreviation (input) EC_RC_UNSET :: ec_rc where "EC_RC_UNSET \<equiv> 0"
abbreviation (input) EC_CREATED :: ec_rc where "EC_CREATED \<equiv> 65"
abbreviation (input) EC_DELETED :: ec_rc where "EC_DELETED \<equiv> 66"
abbreviation (input) EC_VALID :: ec_rc where "EC_VALID \<equiv> 67"
abbreviation (input) EC_CHANGED :: ec_rc where "EC_CHANGED \<equiv> 68"
abbreviation (input) EC_CONTENT :: ec_rc where "EC_CONTENT \<equiv> 69"
abbreviation (input) EC_200_UNKNOWN :: ec_rc where "EC_200_UNKNOWN \<equiv> 95"
abbreviation (input) EC_BAD_REQUEST :: ec_rc where "EC_BAD_REQUEST \<equiv> 128"
abbreviation (input) EC_UNAUTHORIZED :: ec_rc where "EC_UNAUTHORIZED \<equiv> 129"
abbreviation (input) EC_BAD_OPTION :: ec_rc where "EC_BAD_OPTION \<equiv> 130"
abbreviation (input) EC_FORBIDDEN :: ec_rc where "EC_FORBIDDEN \<equiv> 131"
abbreviation (input) EC_NOT_FOUND :: ec_rc where "EC_NOT_FOUND \<equiv> 132"
abbreviation (input) EC_METHOD_NOT_ALLOWED :: ec_rc where "EC_METHOD_NOT_ALLOWED \<equiv> 133"
abbreviation (input) EC_NOT_ACCEPTABLE :: ec_rc where "EC_NOT_ACCEPTABLE \<equiv> 134"
abbreviation (input) EC_PRECONDITION_FAILED :: ec_rc where "EC_PRECONDITION_FAILED \<equiv> 140"
abbreviation (input) EC_REQUEST_ENTITY_TOO_LARGE :: ec_rc where "EC_REQUEST_ENTITY_TOO_LARGE \<equiv> 141"
abbreviation (input) EC_UNSUPPORTED_MEDIA_TYPE :: ec_rc where "EC_UNSUPPORTED_MEDIA_TYPE \<equiv> 143"
abbreviation (input) EC_400_UNKNOWN :: ec_rc where "EC_400_UNKNOWN \<equiv> 159"
abbreviation (input) EC_INTERNAL_SERVER_ERROR :: ec_rc where "EC_INTERNAL_SERVER_ERROR \<equiv> 160"
abbreviation (input) EC_NOT_IMPLEMENTED :: ec_rc where "EC_NOT_IMPLEMENTED \<equiv> 161"
abbreviation (input) EC_BAD_GATEWAY :: ec_rc where "EC_BAD_GATEWAY \<equiv> 162"
abbreviation (input) EC_SERVICE_UNAVAILABLE :: ec_rc where "EC_SERVICE_UNAVAILABLE \<equiv> 163"
abbreviation (input) EC_GATEWAY_TIMEOUT :: ec_rc where "EC_GATEWAY_TIMEOUT \<equiv> 164"
abbreviation (input) EC_PROXYING_NOT_SUPPORTED :: ec_rc where "EC_PROXYING_NOT_SUPPORTED \<equiv> 165"
abbreviation (input) EC_500_UNKNOWN :: ec_rc where "EC_500_UNKNOWN \<equiv> 191"

definition EC_IS_OK :: "ec_rc \<Rightarrow> bool" where
  "EC_IS_OK rc \<longleftrightarrow> rc \<ge> EC_CREATED \<and> rc \<le> EC_200_UNKNOWN"

definition EC_IS_RESP_CODE :: "ec_rc \<Rightarrow> bool" where
  "EC_IS_RESP_CODE rc \<longleftrightarrow> rc \<ge> EC_CREATED \<and> rc \<le> EC_500_UNKNOWN"

definition rc_names :: "(ec_rc \<times> string) list" where
  "rc_names =
     [(EC_CREATED, ''2.01 (Created)''), (EC_DELETED, ''2.02 (Deleted)''),
      (EC_VALID, ''2.03 (Valid)''), (EC_CHANGED, ''2.04 (Changed)''),
      (EC_CONTENT, ''2.05 (Content)''), (EC_BAD_REQUEST, ''4.00 (Bad Request)''),
      (EC_UNAUTHORIZED, ''4.01 (Unauthorized)''), (EC_BAD_OPTION, ''4.02 (Bad Option)''),
      (EC_FORBIDDEN, ''4.03 (Forbidden)''), (EC_NOT_FOUND, ''4.04 (Not Found)''),
      (EC_METHOD_NOT_ALLOWED, ''4.05 (Method Not Allowed)''),
      (EC_NOT_ACCEPTABLE, ''4.06 (Not Acceptable)''),
      (EC_PRECONDITION_FAILED, ''4.12 (Precondition Failed)''),
      (EC_REQUEST_ENTITY_TOO_LARGE, ''4.13 (Request Entity Too Large)''),
      (EC_UNSUPPORTED_MEDIA_TYPE, ''4.15 (Unsupported Media Type)''),
      (EC_INTERNAL_SERVER_ERROR, ''5.00 (Internal Server Error)''),
      (EC_NOT_IMPLEMENTED, ''5.01 (Not Implemented)''), (EC_BAD_GATEWAY, ''5.02 (Bad Gateway)''),
      (EC_SERVICE_UNAVAILABLE, ''5.03 (Service Unavailable)''),
      (EC_GATEWAY_TIMEOUT, ''5.04 (Gateway Timeout)''),
      (EC_PROXYING_NOT_SUPPORTED, ''5.05 (Proxying Not Supported)'')]"

definition ec_rc_str :: "ec_rc \<Rightarrow> string" where
  "ec_rc_str rc =
     (case map_of rc_names rc of
        Some s \<Rightarrow> s
      | None \<Rightarrow>
          if rc = EC_RC_UNSET then ''response code unset''
          else if rc \<le> EC_200_UNKNOWN then ''unknown success code''
          else if rc \<le> EC_400_UNKNOWN then ''unknown client failure''
          else if rc \<le> EC_500_UNKNOWN then ''unknown server failure''
          else ''unknown response code'')"

definition ec_code_str :: "nat \<Rightarrow> string option" where
  "ec_code_str c =
     (if c = 0 then Some ''Empty''
      else if 1 \<le> c \<and> c \<le> 31 then ec_method_str c
      else if 32 \<le> c \<and> c \<le> 63 then Some ''Reserved''
      else if 64 \<le> c \<and> c \<le> 191 then Some (ec_rc_str (int c))
      else if 192 \<le> c \<and> c \<le> 255 then Some ''Reserved''
      else None)"

subsection \<open>Transaction states\<close>

datatype ec_cli_state =
    EC_CLI_STATE_NONE
  | EC_CLI_STATE_INTERNAL_ERR
  | EC_CLI_STATE_DNS_FAILED
  | EC_CLI_STATE_DNS_OK
  | EC_CLI_STATE_SEND_FAILED
  | EC_CLI_STATE_REQ_SENT
  | EC_CLI_STATE_REQ_ACKD
  | EC_CLI_STATE_APP_TIMEOUT
  | EC_CLI_STATE_COAP_RETRY
  | EC_CLI_STATE_COAP_TIMEOUT
  | EC_CLI_STATE_REQ_DONE
  | EC_CLI_STATE_REQ_RST
  | EC_CLI_STATE_WAIT_NFY
  | EC_CLI_STATE_OBS_TIMEOUT

fun ec_cli_state_str :: "ec_cli_state \<Rightarrow> string" where
  "ec_cli_state_str EC_CLI_STATE_NONE = ''NULL STATE''"
| "ec_cli_state_str EC_CLI_STATE_INTERNAL_ERR = ''INTERNAL ERR (FINAL)''"
| "ec_cli_state_str EC_CLI_STATE_DNS_FAILED = ''DNS FAILED (FINAL)''"
| "ec_cli_state_str EC_CLI_STATE_DNS_OK = ''DNS OK''"
| "ec_cli_state_str EC_CLI_STATE_SEND_FAILED = ''SEND FAILED (FINAL)''"
| "ec_cli_state_str EC_CLI_STATE_REQ_SENT = ''REQ SENT''"
| "ec_cli_state_str EC_CLI_STATE_REQ_ACKD = ''REQ ACKD (separate message)''"
| "ec_cli_state_str EC_CLI_STATE_APP_TIMEOUT = ''APP TIMEOUT (FINAL)''"
| "ec_cli_state_str EC_CLI_STATE_COAP_RETRY = ''COAP RETRY''"
| "ec_cli_state_str EC_CLI_STATE_COAP_TIMEOUT = ''COAP TIMEOUT (FINAL)''"
| "ec_cli_state_str EC_CLI_STATE_REQ_DONE = ''REQ DONE (FINAL)''"
| "ec_cli_state_str EC_CLI_STATE_REQ_RST = ''REQ RST (FINAL)''"
| "ec_cli_state_str EC_CLI_STATE_WAIT_NFY = ''WAIT NOTIFICATION''"
| "ec_cli_state_str EC_CLI_STATE_OBS_TIMEOUT = ''OBSERVE TIMEOUT (FINAL)''"

datatype ec_srv_state =
    EC_SRV_STATE_NONE
  | EC_SRV_STATE_INTERNAL_ERR
  | EC_SRV_STATE_DUP_REQ
  | EC_SRV_STATE_BAD_REQ
  | EC_SRV_STATE_REQ_OK
  | EC_SRV_STATE_ACK_SENT
  | EC_SRV_STATE_WAIT_ACK
  | EC_SRV_STATE_RESP_ACK_TIMEOUT
  | EC_SRV_STATE_RESP_DONE
  | EC_SRV_STATE_COAP_RETRY
  | EC_SRV_STATE_CLIENT_RST

fun ec_srv_state_str :: "ec_srv_state \<Rightarrow> string" where
  "ec_srv_state_str EC_SRV_STATE_NONE = ''NULL STATE''"
| "ec_srv_state_str EC_SRV_STATE_INTERNAL_ERR = ''INTERNAL ERR (FINAL)''"
| "ec_srv_state_str EC_SRV_STATE_DUP_REQ = ''DUP REQ (FINAL)''"
| "ec_srv_state_str EC_SRV_STATE_BAD_REQ = ''BAD REQ (FINAL)''"
| "ec_srv_state_str EC_SRV_STATE_REQ_OK = ''REQ OK''"
| "ec_srv_state_str EC_SRV_STATE_ACK_SENT = ''ACK SENT''"
| "ec_srv_state_str EC_SRV_STATE_WAIT_ACK = ''WAIT ACK''"
| "ec_srv_state_str EC_SRV_STATE_RESP_ACK_TIMEOUT = ''ACK TIMEDOUT (FINAL)''"
| "ec_srv_state_str EC_SRV_STATE_RESP_DONE = ''RESP DONE (FINAL)''"
| "ec_srv_state_str EC_SRV_STATE_COAP_RETRY = ''COAP RETRY''"
| "ec_srv_state_str EC_SRV_STATE_CLIENT_RST = ''CLIENT RST (FINAL)''"

text \<open>What a server callback tells the engine.\<close>

datatype ec_cbrc = EC_CBRC_READY | EC_CBRC_WAIT | EC_CBRC_POLL | EC_CBRC_ERROR

subsection \<open>Facts\<close>

lemma ec_method_to_mask_bits:
  assumes "EC_IS_METHOD m" and "EC_IS_METHOD m'"
  shows "ec_method_to_mask m AND ec_method_to_mask m' \<noteq> 0 \<longleftrightarrow> m = m'"
proof -
  have "m \<in> {1, 2, 3, 4}" and "m' \<in> {1, 2, 3, 4}"
    using assms by (auto simp: EC_IS_METHOD_def)
  then show ?thesis by (auto simp: ec_method_to_mask_def)
qed

lemma ec_method_to_mask_is_mask:
  "EC_IS_METHOD m \<Longrightarrow> EC_IS_METHOD_MASK (ec_method_to_mask m)"
  by (auto simp: EC_IS_METHOD_def EC_IS_METHOD_MASK_def ec_method_to_mask_def)

lemma EC_IS_OK_is_resp_code: "EC_IS_OK rc \<Longrightarrow> EC_IS_RESP_CODE rc"
  by (simp add: EC_IS_OK_def EC_IS_RESP_CODE_def)

end
