(* ===== verification/Opt.thy ===== *)
theory Opt
  imports Enums
begin

text \<open>
  CoAP options (\<open>include/evcoap_opt.h\<close>, \<open>lib/evcoap/src/evcoap_opt.c\<close>): the option
  symbols and their table, one option, the ordered bundle of a PDU's options, and the
  operations that create options and put them in the bundle.

  A pointer to a value is the bytes stored there, \<open>None\<close> for NULL. \<open>TAILQ\<close> queues are
  lists, first element first. The 4050-byte encoding buffer of \<^verbatim>\<open>struct ec_opts_s\<close> is a
  list of bytes. Heap allocation (\<open>u_zalloc\<close>, \<open>u_malloc\<close>) is taken to succeed.
\<close>

subsection \<open>Option symbols\<close>

datatype ec_opt_sym =
    EC_OPT_NONE
  | EC_OPT_CONTENT_TYPE
  | EC_OPT_MAX_AGE
  | EC_OPT_PROXY_URI
  | EC_OPT_ETAG
  | EC_OPT_URI_HOST
  | EC_OPT_LOCATION_PATH
  | EC_OPT_URI_PORT
  | EC_OPT_LOCATION_QUERY
  | EC_OPT_URI_PATH
  | EC_OPT_OBSERVE
  | EC_OPT_TOKEN
  | EC_OPT_ACCEPT
  | EC_OPT_IF_MATCH
  | EC_OPT_URI_QUERY
  | EC_OPT_BLOCK2
  | EC_OPT_BLOCK1
  | EC_OPT_IF_NONE_MATCH
  | EC_OPT_PUBLISH
  | EC_OPT_MAX

text \<open>The integer value of a symbol (its index in \<open>g_opts\<close>), and the cast back.\<close>

fun sym_index :: "ec_opt_sym \<Rightarrow> nat" where
  "sym_index EC_OPT_NONE = 0"
| "sym_index EC_OPT_CONTENT_TYPE = 1"
| "sym_index EC_OPT_MAX_AGE = 2"
| "sym_index EC_OPT_PROXY_URI = 3"
| "sym_index EC_OPT_ETAG = 4"
| "sym_index EC_OPT_URI_HOST = 5"
| "sym_index EC_OPT_LOCATION_PATH = 6"
| "sym_index EC_OPT_URI_PORT = 7"
| "sym_index EC_OPT_LOCATION_QUERY = 8"
| "sym_index EC_OPT_URI_PATH = 9"
| "sym_index EC_OPT_OBSERVE = 10"
| "sym_index EC_OPT_TOKEN = 11"
| "sym_index EC_OPT_ACCEPT = 12"
| "sym_index EC_OPT_IF_MATCH = 13"
| "sym_index EC_OPT_URI_QUERY = 14"
| "sym_index EC_OPT_BLOCK2 = 15"
| "sym_index EC_OPT_BLOCK1 = 16"
| "sym_index EC_OPT_IF_NONE_MATCH = 17"
| "sym_index EC_OPT_PUBLISH = 18"
| "sym_index EC_OPT_MAX = 19"

definition all_syms :: "ec_opt_sym list" where
  "all_syms =
     [EC_OPT_NONE, EC_OPT_CONTENT_TYPE, EC_OPT_MAX_AGE, EC_OPT_PROXY_URI, EC_OPT_ETAG,
      EC_OPT_URI_HOST, EC_OPT_LOCATION_PATH, EC_OPT_URI_PORT, EC_OPT_LOCATION_QUERY,
      EC_OPT_URI_PATH, EC_OPT_OBSERVE, EC_OPT_TOKEN, EC_OPT_ACCEPT, EC_OPT_IF_MATCH,
      EC_OPT_URI_QUERY, EC_OPT_BLOCK2, EC_OPT_BLOCK1, EC_OPT_IF_NONE_MATCH, EC_OPT_PUBLISH,
      EC_OPT_MAX]"

definition sym_of :: "nat \<Rightarrow> ec_opt_sym" where
  "sym_of i = (if i < length all_syms then all_syms ! i else EC_OPT_MAX)"

lemma sym_of_index [simp]: "sym_of (sym_index s) = s"
  by (cases s) (simp_all add: sym_of_def all_syms_def)

lemma sym_index_inject [simp]: "sym_index s = sym_index s' \<longleftrightarrow> s = s'"
  by (metis sym_of_index)

text \<open>C compares symbols as integers.\<close>

instantiation ec_opt_sym :: linorder
begin

definition less_eq_ec_opt_sym :: "ec_opt_sym \<Rightarrow> ec_opt_sym \<Rightarrow> bool" where
  "less_eq_ec_opt_sym a b \<longleftrightarrow> sym_index a \<le> sym_index b"

definition less_ec_opt_sym :: "ec_opt_sym \<Rightarrow> ec_opt_sym \<Rightarrow> bool" where
  "less_ec_opt_sym a b \<longleftrightarrow> sym_index a < sym_index b"

instance
  by standard (auto simp: less_eq_ec_opt_sym_def less_ec_opt_sym_def)

end

definition EC_OPT_SYM_VALID :: "ec_opt_sym \<Rightarrow> bool" where
  "EC_OPT_SYM_VALID sy \<longleftrightarrow> sy > EC_OPT_NONE \<and> sy < EC_OPT_MAX"

datatype ec_opt_type =
    EC_OPT_TYPE_INVALID
  | EC_OPT_TYPE_UINT
  | EC_OPT_TYPE_STRING
  | EC_OPT_TYPE_OPAQUE
  | EC_OPT_TYPE_EMPTY

record opt_rec =
  rec_n :: nat
  rec_s :: string
  rec_t :: ec_opt_type

definition g_opts :: "opt_rec list" where
  "g_opts =
     [\<lparr>rec_n = 0, rec_s = ''Invalid'', rec_t = EC_OPT_TYPE_INVALID\<rparr>,
      \<lparr>rec_n = 1, rec_s = ''Content-Type'', rec_t = EC_OPT_TYPE_UINT\<rparr>,
      \<lparr>rec_n = 2, rec_s = ''Max-Age'', rec_t = EC_OPT_TYPE_UINT\<rparr>,
      \<lparr>rec_n = 3, rec_s = ''Proxy-URI'', rec_t = EC_OPT_TYPE_STRING\<rparr>,
      \<lparr>rec_n = 4, rec_s = ''ETag'', rec_t = EC_OPT_TYPE_OPAQUE\<rparr>,
      \<lparr>rec_n = 5, rec_s = ''URI-Host'', rec_t = EC_OPT_TYPE_STRING\<rparr>,
      \<lparr>rec_n = 6, rec_s = ''Location-Path'', rec_t = EC_OPT_TYPE_STRING\<rparr>,
      \<lparr>rec_n = 7, rec_s = ''URI-Port'', rec_t = EC_OPT_TYPE_UINT\<rparr>,
      \<lparr>rec_n = 8, rec_s = ''Location-Query'', rec_t = EC_OPT_TYPE_STRING\<rparr>,
      \<lparr>rec_n = 9, rec_s = ''URI-Path'', rec_t = EC_OPT_TYPE_STRING\<rparr>,
      \<lparr>rec_n = 10, rec_s = ''Observe'', rec_t = EC_OPT_TYPE_UINT\<rparr>,
      \<lparr>rec_n = 11, rec_s = ''Token'', rec_t = EC_OPT_TYPE_OPAQUE\<rparr>,
      \<lparr>rec_n = 12, rec_s = ''Accept'', rec_t = EC_OPT_TYPE_UINT\<rparr>,
      \<lparr>rec_n = 13, rec_s = ''If-Match'', rec_t = EC_OPT_TYPE_OPAQUE\<rparr>,
      \<lparr>rec_n = 15, rec_s = ''URI-Query'', rec_t = EC_OPT_TYPE_STRING\<rparr>,
      \<lparr>rec_n = 17, rec_s = ''Block2'', rec_t = EC_OPT_TYPE_UINT\<rparr>,
      \<lparr>rec_n = 19, rec_s = ''Block1'', rec_t = EC_OPT_TYPE_UINT\<rparr>,
      \<lparr>rec_n = 21, rec_s = ''If-None-Match'', rec_t = EC_OPT_TYPE_EMPTY\<rparr>,
      \<lparr>rec_n = 23, rec_s = ''Publish'', rec_t = EC_OPT_TYPE_UINT\<rparr>]"

definition EC_OPTS_MAX :: nat where
  "EC_OPTS_MAX = length g_opts"

definition EC_OPT_NUM_IS_FENCEPOST :: "nat \<Rightarrow> bool" where
  "EC_OPT_NUM_IS_FENCEPOST n \<longleftrightarrow> n \<noteq> 0 \<and> n mod 14 = 0"

definition ec_opt_sym2type :: "ec_opt_sym \<Rightarrow> ec_opt_type" where
  "ec_opt_sym2type sy =
     (if \<not> EC_OPT_SYM_VALID sy then EC_OPT_TYPE_INVALID else rec_t (g_opts ! sym_index sy))"

definition ec_opt_sym2num :: "ec_opt_sym \<Rightarrow> nat" where
  "ec_opt_sym2num sy =
     (if \<not> EC_OPT_SYM_VALID sy then 0 else rec_n (g_opts ! sym_index sy))"

definition ec_opt_sym2str :: "ec_opt_sym \<Rightarrow> string option" where
  "ec_opt_sym2str sy =
     (if \<not> EC_OPT_SYM_VALID sy then None else Some (rec_s (g_opts ! sym_index sy)))"

text \<open>The linear search of \<open>ec_opt_num2sym\<close>, from index \<open>i\<close> on.\<close>

fun num2sym_from :: "nat \<Rightarrow> nat \<Rightarrow> opt_rec list \<Rightarrow> ec_opt_sym" where
  "num2sym_from num i [] = EC_OPT_NONE"
| "num2sym_from num i (r # rs) = (if num = rec_n r then sym_of i else num2sym_from num (Suc i) rs)"

definition ec_opt_num2sym :: "nat \<Rightarrow> ec_opt_sym" where
  "ec_opt_num2sym num = num2sym_from num 0 g_opts"

subsection \<open>Options and bundles\<close>

record ec_opt =
  o_sym :: ec_opt_sym
  o_t :: ec_opt_type
  o_l :: nat
  o_v :: "byte list option"

record ec_opts =
  enc :: "byte list"
  enc_sz :: nat
  noptions :: nat
  opts_bundle :: "ec_opt list"

abbreviation (input) EC_PROTO_MAX_OPTIONS :: nat where "EC_PROTO_MAX_OPTIONS \<equiv> 15"

definition EC_OPTS_MAX_LEN :: nat where
  "EC_OPTS_MAX_LEN = EC_COAP_MAX_OPTIONS * EC_COAP_OPT_LEN_MAX"

definition ec_opts_init :: ec_opts where
  "ec_opts_init =
     \<lparr>enc = replicate EC_OPTS_MAX_LEN 0, enc_sz = 0, noptions = 0, opts_bundle = []\<rparr>"

text \<open>Freeing every option leaves an initialised bundle, whatever it held.\<close>

definition ec_opts_clear :: "ec_opts \<Rightarrow> ec_opts" where
  "ec_opts_clear opts = ec_opts_init"

text \<open>
  \<open>ec_opt_new sy l v\<close> reads \<open>l\<close> bytes at \<open>v\<close> when it reaches its \<open>memcpy\<close>;
  \<open>opt_new_copies\<close> says when it does. \<open>v\<close> is the memory from that address on: the
  callers that could pass fewer than \<open>l\<close> readable bytes test this first.
\<close>

definition opt_new_copies :: "ec_opt_sym \<Rightarrow> nat \<Rightarrow> bool" where
  "opt_new_copies sy l \<longleftrightarrow>
     l \<le> EC_COAP_OPT_LEN_MAX \<and>
     (case ec_opt_sym2type sy of
        EC_OPT_TYPE_STRING \<Rightarrow> True
      | EC_OPT_TYPE_OPAQUE \<Rightarrow> True
      | EC_OPT_TYPE_UINT \<Rightarrow> l \<noteq> 0
      | _ \<Rightarrow> False)"

definition ec_opt_new :: "ec_opt_sym \<Rightarrow> nat \<Rightarrow> byte list \<Rightarrow> ec_opt option" where
  "ec_opt_new sy l v =
     (if l > EC_COAP_OPT_LEN_MAX then None
      else case ec_opt_sym2type sy of
        EC_OPT_TYPE_INVALID \<Rightarrow> None
      | EC_OPT_TYPE_EMPTY \<Rightarrow>
          Some \<lparr>o_sym = sy, o_t = EC_OPT_TYPE_EMPTY, o_l = l, o_v = None\<rparr>
      | EC_OPT_TYPE_UINT \<Rightarrow>
          Some \<lparr>o_sym = sy, o_t = EC_OPT_TYPE_UINT, o_l = l,
                o_v = (if l = 0 then None else Some (take l v))\<rparr>
      | EC_OPT_TYPE_STRING \<Rightarrow>
          Some \<lparr>o_sym = sy, o_t = EC_OPT_TYPE_STRING, o_l = l, o_v = Some (take l v @ [0])\<rparr>
      | EC_OPT_TYPE_OPAQUE \<Rightarrow>
          Some \<lparr>o_sym = sy, o_t = EC_OPT_TYPE_OPAQUE, o_l = l, o_v = Some (take l v)\<rparr>)"

text \<open>
  Ordered insertion, scanning from the tail for the first option whose symbol is not
  greater: the new option goes right after it, or to the head when there is none.
\<close>

fun insert_from_tail :: "ec_opt \<Rightarrow> ec_opt list \<Rightarrow> ec_opt list" where
  "insert_from_tail o' [] = [o']"
| "insert_from_tail o' (tmp # rest) =
     (if o_sym o' \<ge> o_sym tmp then o' # tmp # rest else tmp # insert_from_tail o' rest)"

definition bundle_insert :: "ec_opt \<Rightarrow> ec_opt list \<Rightarrow> ec_opt list" where
  "bundle_insert o' b = rev (insert_from_tail o' (rev b))"

definition ec_opts_push :: "ec_opts \<Rightarrow> ec_opt \<Rightarrow> crc \<times> ec_opts" where
  "ec_opts_push opts o' =
     (if noptions opts = EC_PROTO_MAX_OPTIONS then (C_ERR, opts)
      else (C_OK, opts\<lparr>opts_bundle := bundle_insert o' (opts_bundle opts), noptions := noptions opts + 1\<rparr>))"

definition ec_opts_add :: "ec_opts \<Rightarrow> ec_opt_sym \<Rightarrow> byte list \<Rightarrow> nat \<Rightarrow> crc \<times> ec_opts" where
  "ec_opts_add opts sy v l =
     (case ec_opt_new sy l v of
        None \<Rightarrow> (C_ERR, opts)
      | Some o' \<Rightarrow> ec_opts_push opts o')"

text \<open>The fragment loop of \<open>ec_opts_add_raw\<close>: \<open>n\<close> full segments, the value consumed as it goes.\<close>

fun add_full_segs :: "nat \<Rightarrow> ec_opts \<Rightarrow> ec_opt_sym \<Rightarrow> byte list \<Rightarrow> crc \<times> ec_opts \<times> byte list" where
  "add_full_segs 0 opts sy v = (C_OK, opts, v)"
| "add_full_segs (Suc n) opts sy v =
     (case ec_opts_add opts sy v EC_COAP_OPT_LEN_MAX of
        (C_ERR, opts') \<Rightarrow> (C_ERR, opts', v)
      | (C_OK, opts') \<Rightarrow> add_full_segs n opts' sy (drop EC_COAP_OPT_LEN_MAX v))"

definition ec_opts_add_raw :: "ec_opts \<Rightarrow> ec_opt_sym \<Rightarrow> byte list \<Rightarrow> nat \<Rightarrow> crc \<times> ec_opts" where
  "ec_opts_add_raw opts sy v l =
     (let full_seg_no = l div EC_COAP_OPT_LEN_MAX;
          rem = l mod EC_COAP_OPT_LEN_MAX;
          to_be_used_opts = full_seg_no + (if rem \<noteq> 0 \<or> l = 0 then 1 else 0)
      in if noptions opts + to_be_used_opts > EC_PROTO_MAX_OPTIONS then (C_ERR, opts)
         else case add_full_segs full_seg_no opts sy v of
           (C_ERR, opts', v') \<Rightarrow> (C_ERR, opts')
         | (C_OK, opts', v') \<Rightarrow>
             if rem \<noteq> 0 \<or> l = 0 then ec_opts_add opts' sy v' (if l = 0 then 0 else rem)
             else (C_OK, opts'))"

subsection \<open>Lookup\<close>

text \<open>\<open>ec_opts_count_sym\<close> adds to the counter the caller passes in.\<close>

definition ec_opts_count_sym :: "ec_opts \<Rightarrow> ec_opt_sym \<Rightarrow> nat \<Rightarrow> nat" where
  "ec_opts_count_sym opts sy n = fold (\<lambda>o' k. if o_sym o' = sy then k + 1 else k) (opts_bundle opts) n"

fun get_nth_from :: "ec_opt list \<Rightarrow> ec_opt_sym \<Rightarrow> nat \<Rightarrow> ec_opt option" where
  "get_nth_from [] sy n = None"
| "get_nth_from (o' # os) sy n =
     (if o_sym o' = sy then (if n = 0 then Some o' else get_nth_from os sy (n - 1))
      else get_nth_from os sy n)"

definition ec_opts_get_nth :: "ec_opts \<Rightarrow> ec_opt_sym \<Rightarrow> nat \<Rightarrow> ec_opt option" where
  "ec_opts_get_nth opts sy n = get_nth_from (opts_bundle opts) sy n"

definition ec_opts_get :: "ec_opts \<Rightarrow> ec_opt_sym \<Rightarrow> ec_opt option" where
  "ec_opts_get opts sy = ec_opts_get_nth opts sy 0"

end
