(* ===== verification/Opt_Bundle.thy ===== *)
theory Opt_Bundle
  imports Opt "HOL-Library.Multiset"
begin

text \<open>
  What the option bundle promises: the option table is consistent with the symbol order,
  insertion keeps the bundle sorted and stable, adding keeps it well formed, and a value
  longer than one option is split into fragments that concatenate to it.
\<close>

subsection \<open>The option table\<close>

lemmas opt_table_defs =
  ec_opt_sym2type_def ec_opt_sym2num_def EC_OPT_SYM_VALID_def g_opts_def
  less_ec_opt_sym_def less_eq_ec_opt_sym_def

lemma sym_valid_cases:
  "EC_OPT_SYM_VALID sy \<longleftrightarrow> sy \<noteq> EC_OPT_NONE \<and> sy \<noteq> EC_OPT_MAX"
  by (cases sy) (simp_all add: EC_OPT_SYM_VALID_def less_ec_opt_sym_def)

lemma num2sym_sym2num [simp]: "EC_OPT_SYM_VALID sy \<Longrightarrow> ec_opt_num2sym (ec_opt_sym2num sy) = sy"
  by (cases sy) (simp_all add: opt_table_defs ec_opt_num2sym_def sym_of_def all_syms_def)

lemma sym2num_mono:
  "EC_OPT_SYM_VALID a \<Longrightarrow> EC_OPT_SYM_VALID b \<Longrightarrow> a < b \<Longrightarrow> ec_opt_sym2num a < ec_opt_sym2num b"
  by (cases a; cases b) (simp_all add: opt_table_defs)

lemma sym2num_mono_le:
  "EC_OPT_SYM_VALID a \<Longrightarrow> EC_OPT_SYM_VALID b \<Longrightarrow> a \<le> b \<Longrightarrow> ec_opt_sym2num a \<le> ec_opt_sym2num b"
  by (metis le_less sym2num_mono)

lemma sym2num_range: "EC_OPT_SYM_VALID sy \<Longrightarrow> 1 \<le> ec_opt_sym2num sy \<and> ec_opt_sym2num sy \<le> 23"
  by (cases sy) (simp_all add: opt_table_defs)

lemma sym2num_not_fencepost:
  "EC_OPT_SYM_VALID sy \<Longrightarrow> \<not> EC_OPT_NUM_IS_FENCEPOST (ec_opt_sym2num sy)"
  by (cases sy) (simp_all add: opt_table_defs EC_OPT_NUM_IS_FENCEPOST_def)

lemma num2sym_14: "ec_opt_num2sym 14 = EC_OPT_NONE"
  by (simp add: ec_opt_num2sym_def g_opts_def)

lemma sym2type_valid: "ec_opt_sym2type sy \<noteq> EC_OPT_TYPE_INVALID \<longleftrightarrow> EC_OPT_SYM_VALID sy"
  by (cases sy) (simp_all add: opt_table_defs)

subsection \<open>Sorted, stable insertion as an interface\<close>

text \<open>
  A bag kept as a list in key order. The one law a provider owes: the new element goes
  in front of a suffix of strictly greater keys, and what precedes it ends with a key
  that is not greater.
\<close>

locale sorted_bag =
  fixes key :: "'a \<Rightarrow> 'k :: linorder"
    and ins :: "'a \<Rightarrow> 'a list \<Rightarrow> 'a list"
  assumes ins_split: "\<exists>pre post. xs = pre @ post \<and> ins x xs = pre @ x # post \<and>
    (\<forall>y \<in> set post. key x < key y) \<and> (pre \<noteq> [] \<longrightarrow> key (last pre) \<le> key x)"
begin

lemma mset_ins: "mset (ins x xs) = add_mset x (mset xs)"
  using ins_split [of xs x] by auto

lemma set_ins [simp]: "set (ins x xs) = insert x (set xs)"
  using mset_ins [of x xs] by (metis set_mset_add_mset_insert set_mset_mset)

lemma length_ins [simp]: "length (ins x xs) = Suc (length xs)"
  using mset_ins [of x xs] by (metis size_add_mset size_mset)

lemma sorted_pre_le:
  assumes "sorted (map key pre)" and "pre \<noteq> []" and "key (last pre) \<le> k" and "y \<in> set pre"
  shows "key y \<le> k"
proof -
  obtain ys z where pre: "pre = ys @ [z]" using assms(2) by (cases pre rule: rev_exhaust) auto
  have "key y \<le> key z" using assms(1,4) by (auto simp: pre sorted_append)
  with assms(3) show ?thesis by (simp add: pre)
qed

lemma sorted_ins:
  assumes "sorted (map key xs)" shows "sorted (map key (ins x xs))"
proof -
  obtain pre post where s: "xs = pre @ post" "ins x xs = pre @ x # post"
    "\<forall>y \<in> set post. key x < key y" "pre \<noteq> [] \<longrightarrow> key (last pre) \<le> key x"
    using ins_split by blast
  have "\<forall>y \<in> set pre. key y \<le> key x"
    using s(1,4) assms sorted_pre_le [of pre "key x"] by (cases "pre = []") (auto simp: sorted_append)
  then show ?thesis using s assms by (auto simp: sorted_append)
qed

lemma filter_ins:
  assumes "sorted (map key xs)"
  shows "filter (\<lambda>y. key y = k) (ins x xs) =
    filter (\<lambda>y. key y = k) xs @ (if key x = k then [x] else [])"
proof -
  obtain pre post where s: "xs = pre @ post" "ins x xs = pre @ x # post"
    "\<forall>y \<in> set post. key x < key y"
    using ins_split by blast
  have "key x = k \<Longrightarrow> filter (\<lambda>y. key y = k) post = []"
    using s(3) by (auto simp: filter_empty_conv)
  then show ?thesis using s(1,2) by auto
qed

lemma ins_last:
  assumes "\<forall>y \<in> set xs. key y \<le> key x" shows "ins x xs = xs @ [x]"
proof -
  obtain pre post where s: "xs = pre @ post" "ins x xs = pre @ x # post"
    "\<forall>y \<in> set post. key x < key y"
    using ins_split by blast
  then have "post = []" using assms by (cases post) (auto simp: not_le [symmetric])
  with s show ?thesis by simp
qed

end

lemma insert_from_tail_split:
  "\<exists>pre post. xs = pre @ post \<and> insert_from_tail x xs = pre @ x # post \<and>
    (\<forall>y \<in> set pre. o_sym x < o_sym y) \<and> (post \<noteq> [] \<longrightarrow> o_sym (hd post) \<le> o_sym x)"
proof (induction xs)
  case Nil
  then show ?case by auto
next
  case (Cons t xs)
  show ?case
  proof (cases "o_sym x \<ge> o_sym t")
    case True
    then show ?thesis by (intro exI [of _ "[]"] exI [of _ "t # xs"]) simp
  next
    case False
    from Cons.IH obtain pre post where
      "xs = pre @ post \<and> insert_from_tail x xs = pre @ x # post \<and>
        (\<forall>y \<in> set pre. o_sym x < o_sym y) \<and> (post \<noteq> [] \<longrightarrow> o_sym (hd post) \<le> o_sym x)" by blast
    with False show ?thesis by (intro exI [of _ "t # pre"] exI [of _ post]) auto
  qed
qed

interpretation ob: sorted_bag o_sym bundle_insert
proof
  fix xs x
  obtain pre post where s: "rev xs = pre @ post" "insert_from_tail x (rev xs) = pre @ x # post"
    "\<forall>y \<in> set pre. o_sym x < o_sym y" "post \<noteq> [] \<longrightarrow> o_sym (hd post) \<le> o_sym x"
    using insert_from_tail_split [of "rev xs" x] by blast
  have "xs = rev post @ rev pre" using s(1) by (metis rev_append rev_rev_ident)
  with s show "\<exists>pre post. xs = pre @ post \<and> bundle_insert x xs = pre @ x # post \<and>
    (\<forall>y \<in> set post. o_sym x < o_sym y) \<and> (pre \<noteq> [] \<longrightarrow> o_sym (last pre) \<le> o_sym x)"
    by (intro exI [of _ "rev post"] exI [of _ "rev pre"]) (auto simp: bundle_insert_def last_rev)
qed

subsection \<open>Well-formed options and bundles\<close>

definition opt_bytes :: "ec_opt \<Rightarrow> byte list" where
  "opt_bytes o' = (case o_v o' of None \<Rightarrow> [] | Some b \<Rightarrow> take (o_l o') b)"

definition wf_opt :: "ec_opt \<Rightarrow> bool" where
  "wf_opt o' \<longleftrightarrow>
     o_t o' = ec_opt_sym2type (o_sym o') \<and> o_l o' \<le> EC_COAP_OPT_LEN_MAX \<and>
     (case o_t o' of
        EC_OPT_TYPE_INVALID \<Rightarrow> False
      | EC_OPT_TYPE_EMPTY \<Rightarrow> o_v o' = None
      | EC_OPT_TYPE_UINT \<Rightarrow>
          (case o_v o' of None \<Rightarrow> o_l o' = 0 | Some b \<Rightarrow> o_l o' > 0 \<and> length b = o_l o')
      | EC_OPT_TYPE_STRING \<Rightarrow>
          (case o_v o' of None \<Rightarrow> False | Some b \<Rightarrow> length b = o_l o' + 1 \<and> last b = 0)
      | EC_OPT_TYPE_OPAQUE \<Rightarrow>
          (case o_v o' of None \<Rightarrow> False | Some b \<Rightarrow> length b = o_l o'))"

definition wf_opts :: "ec_opts \<Rightarrow> bool" where
  "wf_opts opts \<longleftrightarrow>
     sorted (map o_sym (opts_bundle opts)) \<and> (\<forall>o' \<in> set (opts_bundle opts). wf_opt o') \<and>
     noptions opts = length (opts_bundle opts) \<and> noptions opts \<le> EC_PROTO_MAX_OPTIONS"

lemma wf_opt_valid: "wf_opt o' \<Longrightarrow> EC_OPT_SYM_VALID (o_sym o')"
  by (auto simp: wf_opt_def sym2type_valid [symmetric] split: ec_opt_type.splits)

lemma wf_opts_init: "wf_opts ec_opts_init"
  by (simp add: wf_opts_def ec_opts_init_def)

lemma ec_opt_new_sym: "ec_opt_new sy l v = Some o' \<Longrightarrow> o_sym o' = sy \<and> o_l o' = l"
  by (auto simp: ec_opt_new_def split: if_splits ec_opt_type.splits)

lemma ec_opt_new_wf: "ec_opt_new sy l v = Some o' \<Longrightarrow> l \<le> length v \<Longrightarrow> wf_opt o'"
  by (auto simp: ec_opt_new_def wf_opt_def split: if_splits ec_opt_type.splits)

lemma ec_opt_new_bytes:
  "ec_opt_new sy l v = Some o' \<Longrightarrow> ec_opt_sym2type sy \<noteq> EC_OPT_TYPE_EMPTY \<Longrightarrow> l \<le> length v \<Longrightarrow>
   opt_bytes o' = take l v"
  by (auto simp: ec_opt_new_def opt_bytes_def split: if_splits ec_opt_type.splits)

lemma ec_opt_new_None_iff:
  "ec_opt_new sy l v = None \<longleftrightarrow> l > EC_COAP_OPT_LEN_MAX \<or> \<not> EC_OPT_SYM_VALID sy"
  by (auto simp: ec_opt_new_def sym2type_valid [symmetric] split: ec_opt_type.splits)

text \<open>A well-formed option is what \<open>ec_opt_new\<close> makes of its own bytes.\<close>

lemma ec_opt_new_of_wf:
  assumes "wf_opt o'" shows "ec_opt_new (o_sym o') (o_l o') (opt_bytes o' @ rest) = Some o'"
proof (cases "o_v o'")
  case None
  with assms show ?thesis
    by (cases o') (auto simp: wf_opt_def ec_opt_new_def opt_bytes_def split: ec_opt_type.splits)
next
  case (Some b)
  have str: "b = take (o_l o') b @ [0]" if "o_t o' = EC_OPT_TYPE_STRING"
  proof -
    from assms Some that have l: "length b = o_l o' + 1" and z: "last b = 0"
      by (auto simp: wf_opt_def)
    from l obtain ys y where "b = ys @ [y]" by (cases b rule: rev_exhaust) auto
    with l z show ?thesis by simp
  qed
  from assms Some str show ?thesis
    by (cases o') (auto simp: wf_opt_def ec_opt_new_def opt_bytes_def split: ec_opt_type.splits)
qed

subsection \<open>Adding\<close>

lemma ec_opts_push_ok_iff: "fst (ec_opts_push opts o') = C_OK \<longleftrightarrow> noptions opts \<noteq> EC_PROTO_MAX_OPTIONS"
  by (simp add: ec_opts_push_def)

lemma ec_opts_push_wf:
  "wf_opts opts \<Longrightarrow> wf_opt o' \<Longrightarrow> wf_opts (snd (ec_opts_push opts o'))"
  by (auto simp: wf_opts_def ec_opts_push_def ob.sorted_ins)

lemma ec_opts_add_wf:
  "wf_opts opts \<Longrightarrow> l \<le> length v \<Longrightarrow> wf_opts (snd (ec_opts_add opts sy v l))"
  by (auto simp: ec_opts_add_def split: option.splits intro!: ec_opts_push_wf ec_opt_new_wf)

lemma ec_opts_add_ok_iff:
  "fst (ec_opts_add opts sy v l) = C_OK \<longleftrightarrow>
   l \<le> EC_COAP_OPT_LEN_MAX \<and> EC_OPT_SYM_VALID sy \<and> noptions opts \<noteq> EC_PROTO_MAX_OPTIONS"
  using ec_opt_new_None_iff [of sy l v]
  by (auto simp: ec_opts_add_def ec_opts_push_ok_iff split: option.splits)

lemma ec_opts_add_err: "ec_opts_add opts sy v l = (C_ERR, opts') \<Longrightarrow> opts' = opts"
  by (auto simp: ec_opts_add_def ec_opts_push_def split: option.splits if_splits)

lemma ec_opts_add_Some:
  assumes "ec_opts_add opts sy v l = (C_OK, opts')"
  obtains o' where "ec_opt_new sy l v = Some o'" "noptions opts \<noteq> EC_PROTO_MAX_OPTIONS"
    "opts' = opts\<lparr>opts_bundle := bundle_insert o' (opts_bundle opts), noptions := noptions opts + 1\<rparr>"
  using assms by (auto simp: ec_opts_add_def ec_opts_push_def split: option.splits if_splits)

text \<open>The options of one symbol, in bundle order.\<close>

definition opts_of :: "ec_opts \<Rightarrow> ec_opt_sym \<Rightarrow> ec_opt list" where
  "opts_of opts sy = filter (\<lambda>o'. o_sym o' = sy) (opts_bundle opts)"

lemma ec_opts_add_opts_of:
  assumes "ec_opts_add opts sy v l = (C_OK, opts')" and "wf_opts opts"
  shows "opts_of opts' k = opts_of opts k @ (if k = sy then [the (ec_opt_new sy l v)] else [])"
proof -
  obtain o' where "ec_opt_new sy l v = Some o'"
    "opts' = opts\<lparr>opts_bundle := bundle_insert o' (opts_bundle opts), noptions := noptions opts + 1\<rparr>"
    using assms(1) by (rule ec_opts_add_Some)
  then show ?thesis
    using assms(2) by (auto simp: opts_of_def wf_opts_def ob.filter_ins dest: ec_opt_new_sym)
qed

lemma get_nth_from_conv:
  "get_nth_from os sy n =
    (let fs = filter (\<lambda>o'. o_sym o' = sy) os in if n < length fs then Some (fs ! n) else None)"
  by (induction os sy n rule: get_nth_from.induct) (auto simp: Let_def nth_Cons')

lemma ec_opts_get_nth_conv:
  "ec_opts_get_nth opts sy n =
    (if n < length (opts_of opts sy) then Some (opts_of opts sy ! n) else None)"
  by (simp add: ec_opts_get_nth_def get_nth_from_conv opts_of_def Let_def)

lemma ec_opts_get_conv:
  "ec_opts_get opts sy = (case opts_of opts sy of [] \<Rightarrow> None | o' # _ \<Rightarrow> Some o')"
  by (auto simp: ec_opts_get_def ec_opts_get_nth_conv split: list.splits)

lemma ec_opts_count_sym_conv: "ec_opts_count_sym opts sy n = n + length (opts_of opts sy)"
proof -
  have "fold (\<lambda>o' k. if o_sym o' = sy then k + 1 else k) os n = n + length (filter (\<lambda>o'. o_sym o' = sy) os)"
    for os by (induction os arbitrary: n) auto
  then show ?thesis by (simp add: ec_opts_count_sym_def opts_of_def)
qed

subsection \<open>Fragmentation\<close>

text \<open>
  What one or more successful additions of symbol \<open>sy\<close> did to a bundle: it is still well
  formed, \<open>n\<close> options longer, the bytes \<open>bs\<close> were appended to those of \<open>sy\<close>, and no other
  symbol was touched. An option without a value (If-None-Match) has no bytes to append.
\<close>

definition opts_value :: "ec_opts \<Rightarrow> ec_opt_sym \<Rightarrow> byte list" where
  "opts_value opts sy = concat (map opt_bytes (opts_of opts sy))"

definition opts_extended :: "ec_opts \<Rightarrow> ec_opt_sym \<Rightarrow> nat \<Rightarrow> byte list \<Rightarrow> ec_opts \<Rightarrow> bool" where
  "opts_extended opts sy n bs opts' \<longleftrightarrow>
     wf_opts opts' \<and> noptions opts' = noptions opts + n \<and>
     (ec_opt_sym2type sy \<noteq> EC_OPT_TYPE_EMPTY \<longrightarrow> opts_value opts' sy = opts_value opts sy @ bs) \<and>
     (\<forall>k. k \<noteq> sy \<longrightarrow> opts_of opts' k = opts_of opts k)"

lemma opts_extended_trans:
  "opts_extended opts sy n bs opts' \<Longrightarrow> opts_extended opts' sy m cs opts'' \<Longrightarrow>
   opts_extended opts sy (n + m) (bs @ cs) opts''"
  by (auto simp: opts_extended_def)

lemma opts_extended_refl: "wf_opts opts \<Longrightarrow> opts_extended opts sy 0 [] opts"
  by (simp add: opts_extended_def)

lemma ec_opts_add_extends:
  assumes "wf_opts opts" and "EC_OPT_SYM_VALID sy" and "l \<le> EC_COAP_OPT_LEN_MAX"
    and "l \<le> length v" and "noptions opts < EC_PROTO_MAX_OPTIONS"
  shows "\<exists>opts'. ec_opts_add opts sy v l = (C_OK, opts') \<and> opts_extended opts sy 1 (take l v) opts'"
proof -
  have "fst (ec_opts_add opts sy v l) = C_OK" using assms by (simp add: ec_opts_add_ok_iff)
  then obtain opts' where a: "ec_opts_add opts sy v l = (C_OK, opts')" by (metis prod.collapse)
  then obtain o' where n: "ec_opt_new sy l v = Some o'"
    and o: "opts' = opts\<lparr>opts_bundle := bundle_insert o' (opts_bundle opts), noptions := noptions opts + 1\<rparr>"
    by (rule ec_opts_add_Some)
  have "wf_opts opts'" using ec_opts_add_wf [OF assms(1,4), of sy] a by simp
  then have "opts_extended opts sy 1 (take l v) opts'"
    using ec_opts_add_opts_of [OF a assms(1)] n o assms(4)
    by (auto simp: opts_extended_def opts_value_def ec_opt_new_bytes)
  with a show ?thesis by blast
qed

lemma add_full_segs_extends:
  assumes "wf_opts opts" and "EC_OPT_SYM_VALID sy" and "n * EC_COAP_OPT_LEN_MAX \<le> length v"
    and "noptions opts + n \<le> EC_PROTO_MAX_OPTIONS"
  shows "\<exists>opts'. add_full_segs n opts sy v = (C_OK, opts', drop (n * EC_COAP_OPT_LEN_MAX) v) \<and>
    opts_extended opts sy n (take (n * EC_COAP_OPT_LEN_MAX) v) opts'"
  using assms
proof (induction n arbitrary: opts v)
  case 0
  then show ?case by (simp add: opts_extended_refl)
next
  case (Suc n)
  obtain opts1 where a: "ec_opts_add opts sy v EC_COAP_OPT_LEN_MAX = (C_OK, opts1)"
    and e1: "opts_extended opts sy 1 (take EC_COAP_OPT_LEN_MAX v) opts1"
    using ec_opts_add_extends [of opts sy EC_COAP_OPT_LEN_MAX v] Suc.prems by auto
  have w: "wf_opts opts1" and "noptions opts1 = noptions opts + 1"
    using e1 by (auto simp: opts_extended_def)
  then have room: "noptions opts1 + n \<le> EC_PROTO_MAX_OPTIONS" using Suc.prems(4) by simp
  have len: "n * EC_COAP_OPT_LEN_MAX \<le> length (drop EC_COAP_OPT_LEN_MAX v)"
    using Suc.prems(3) by simp
  from Suc.IH [OF w Suc.prems(2) len room] obtain opts2 where s: "add_full_segs n opts1 sy (drop EC_COAP_OPT_LEN_MAX v) =
      (C_OK, opts2, drop (n * EC_COAP_OPT_LEN_MAX) (drop EC_COAP_OPT_LEN_MAX v))"
    and e2: "opts_extended opts1 sy n (take (n * EC_COAP_OPT_LEN_MAX) (drop EC_COAP_OPT_LEN_MAX v)) opts2"
    by blast
  from opts_extended_trans [OF e1 e2]
  have "opts_extended opts sy (Suc n) (take (Suc n * EC_COAP_OPT_LEN_MAX) v) opts2"
    by (simp add: take_add)
  with a s show ?case by (simp add: add.commute)
qed

definition slots_needed :: "nat \<Rightarrow> nat" where
  "slots_needed l = l div EC_COAP_OPT_LEN_MAX + (if l mod EC_COAP_OPT_LEN_MAX \<noteq> 0 \<or> l = 0 then 1 else 0)"

lemma ec_opts_add_raw_full:
  "noptions opts + slots_needed l > EC_PROTO_MAX_OPTIONS \<Longrightarrow> ec_opts_add_raw opts sy v l = (C_ERR, opts)"
  by (simp add: ec_opts_add_raw_def slots_needed_def Let_def)

lemma ec_opts_add_raw_extends:
  assumes "wf_opts opts" and "EC_OPT_SYM_VALID sy" and "l \<le> length v"
    and "noptions opts + slots_needed l \<le> EC_PROTO_MAX_OPTIONS"
  shows "\<exists>opts'. ec_opts_add_raw opts sy v l = (C_OK, opts') \<and>
    opts_extended opts sy (slots_needed l) (take l v) opts'"
proof -
  define n where "n = l div EC_COAP_OPT_LEN_MAX"
  have nl: "n * EC_COAP_OPT_LEN_MAX + l mod EC_COAP_OPT_LEN_MAX = l" by (simp add: n_def)
  have room: "noptions opts + n \<le> EC_PROTO_MAX_OPTIONS"
    using assms(4) by (simp add: slots_needed_def n_def)
  obtain opts1 where s: "add_full_segs n opts sy v = (C_OK, opts1, drop (n * EC_COAP_OPT_LEN_MAX) v)"
    and e: "opts_extended opts sy n (take (n * EC_COAP_OPT_LEN_MAX) v) opts1"
    using add_full_segs_extends [OF assms(1,2) _ room] nl assms(3) by (metis le_add1 le_trans)
  show ?thesis
  proof (cases "l mod EC_COAP_OPT_LEN_MAX \<noteq> 0 \<or> l = 0")
    case False
    then have "n * EC_COAP_OPT_LEN_MAX = l" using nl by simp
    with False s e assms(4) show ?thesis
      by (simp add: ec_opts_add_raw_def slots_needed_def n_def)
  next
    case True
    let ?r = "l mod EC_COAP_OPT_LEN_MAX" and ?v = "drop (n * EC_COAP_OPT_LEN_MAX) v"
    have w: "wf_opts opts1" "noptions opts1 = noptions opts + n" using e by (auto simp: opts_extended_def)
    have "noptions opts1 < EC_PROTO_MAX_OPTIONS"
      using assms(4) True w(2) by (simp add: slots_needed_def n_def)
    moreover have "?r \<le> length ?v" using assms(3) nl by simp
    ultimately obtain opts2 where a: "ec_opts_add opts1 sy ?v ?r = (C_OK, opts2)"
      and e2: "opts_extended opts1 sy 1 (take ?r ?v) opts2"
      using ec_opts_add_extends [OF w(1) assms(2), of ?r ?v] by auto
    from opts_extended_trans [OF e e2] True
    have "opts_extended opts sy (slots_needed l) (take l v) opts2"
      by (simp add: slots_needed_def n_def take_add [symmetric])
    moreover have "(if l = 0 then 0 else ?r) = ?r" by simp
    ultimately show ?thesis
      using a s assms(4) True by (simp add: ec_opts_add_raw_def slots_needed_def n_def)
  qed
qed

end
