(* ===== verification/Opt_Uint.thy ===== *)
theory Opt_Uint
  imports Opt_Bundle
begin

text \<open>
  The variable-length unsigned integers of option values (\<open>ec_opt_encode_uint\<close> and
  \<open>ec_opt_decode_uint\<close> of \<open>lib/evcoap/src/evcoap_opt.c\<close>) and the typed accessors built
  on them. The compile-time switch \<^verbatim>\<open>EC_LITTLE_ENDIAN\<close> is the argument \<open>le\<close>.
\<close>

subsection \<open>Encoding\<close>

definition ui_bytes :: "u64 list" where
  "ui_bytes = [0xff, 0xffff, 0xffffff, 0xffffffff, 0xffffffffff, 0xffffffffffff,
     0xffffffffffffff, 0xffffffffffffffff]"

text \<open>The search loop: \<open>i + 1\<close> at the first entry that is not less than \<open>ui\<close>.\<close>

fun pick_size :: "nat \<Rightarrow> u64 list \<Rightarrow> u64 \<Rightarrow> nat" where
  "pick_size i [] ui = i"
| "pick_size i (m # ms) ui = (if m \<ge> ui then i + 1 else pick_size (i + 1) ms ui)"

text \<open>\<open>None\<close> is the error return; the bytes are \<open>e\<close>, their number the new \<open>*elen\<close>.\<close>

definition ec_opt_encode_uint :: "bool \<Rightarrow> u64 \<Rightarrow> nat \<Rightarrow> byte list option" where
  "ec_opt_encode_uint le ui elen =
     (if ui = 0 then Some []
      else let e_bytes = pick_size 0 ui_bytes ui;
               i = e_bytes - 1;
               digit = (\<lambda>j. ucast (drop_bit (8 * j) ui AND 0xff) :: byte)
           in if elen < e_bytes then None
              else Some (map (\<lambda>k. if le then digit (i - k) else digit k) [0..<e_bytes]))"

definition ec_opt_decode_uint :: "bool \<Rightarrow> byte list \<Rightarrow> nat \<Rightarrow> u64 option" where
  "ec_opt_decode_uint le v l =
     (if l > 8 then None
      else Some (fold (\<lambda>i ui. ui OR push_bit (if le then 8 * (l - (i + 1)) else 8 * i) (ucast (v ! i)))
                   [0..<l] 0))"

subsection \<open>Size\<close>

lemma pick_size_bytes:
  "pick_size 0 ui_bytes ui =
    (if ui \<le> 0xff then 1 else if ui \<le> 0xffff then 2 else if ui \<le> 0xffffff then 3
     else if ui \<le> 0xffffffff then 4 else if ui \<le> 0xffffffffff then 5
     else if ui \<le> 0xffffffffffff then 6 else if ui \<le> 0xffffffffffffff then 7 else 8)"
proof -
  have "ui \<le> 0xffffffffffffffff" using unsigned_less [of ui, where ?'a = nat] by (simp add: word_le_nat_alt)
  then show ?thesis by (simp add: ui_bytes_def)
qed

lemma pick_size_range: "1 \<le> pick_size 0 ui_bytes ui \<and> pick_size 0 ui_bytes ui \<le> 8"
  by (simp add: pick_size_bytes)

lemma pick_size_upper: "unat ui < 2 ^ (8 * pick_size 0 ui_bytes ui)"
  using unsigned_less [of ui, where ?'a = nat]
  by (auto simp: pick_size_bytes word_le_nat_alt)

lemma pick_size_lower:
  "pick_size 0 ui_bytes ui \<noteq> 1 \<Longrightarrow> 2 ^ (8 * (pick_size 0 ui_bytes ui - 1)) \<le> unat ui"
  by (auto simp: pick_size_bytes word_le_nat_alt split: if_splits)

lemma bit_lt_size: "bit ui m \<Longrightarrow> m < 8 * pick_size 0 ui_bytes ui"
  by (rule bit_of_small [OF pick_size_upper])

subsection \<open>Round trip\<close>

lemma bit_fold_or:
  "bit (fold (\<lambda>i a. a OR f i) xs a :: 'a :: len word) m \<longleftrightarrow> bit a m \<or> (\<exists>i \<in> set xs. bit (f i) m)"
  by (induction xs arbitrary: a) (auto simp: bit_or_iff)

lemma bit_digit:
  "bit (ucast (drop_bit (8 * j) (ui :: u64) AND 0xff) :: byte) r \<longleftrightarrow> r < 8 \<and> bit ui (8 * j + r)"
proof -
  have ff: "(0xff :: u64) = mask 8" by (simp add: mask_eq_exp_minus_1)
  show ?thesis
    unfolding ff by (auto simp: bit_simps ac_simps dest: bit_imp_le_length)
qed

lemma bit_shifted_digit:
  "bit (push_bit (8 * j) (ucast (ucast (drop_bit (8 * j) (ui :: u64) AND 0xff) :: byte)) :: u64) m \<longleftrightarrow>
    8 * j \<le> m \<and> m < 8 * j + 8 \<and> bit ui m"
  by (simp only: bit_push_bit_iff bit_unsigned_iff [where 'b = 8] bit_digit)
    (auto dest: bit_imp_le_length)

definition int_digits :: "bool \<Rightarrow> nat \<Rightarrow> nat \<Rightarrow> nat" where
  "int_digits le n k = (if le then n - (k + 1) else k)"

lemma int_digits_surj: "j < n \<Longrightarrow> \<exists>k<n. int_digits le n k = j"
  by (cases le) (auto simp: int_digits_def intro!: exI [of _ "n - (j + 1)"])

lemma decode_digits:
  assumes "n \<le> 8" and "\<And>m. bit ui m \<Longrightarrow> m < 8 * n"
    and v: "\<And>k. k < n \<Longrightarrow> v ! k = (ucast (drop_bit (8 * int_digits le n k) ui AND 0xff) :: byte)"
  shows "ec_opt_decode_uint le v n = Some ui"
proof -
  let ?d = "\<lambda>i. push_bit (if le then 8 * (n - (i + 1)) else 8 * i) (ucast (v ! i)) :: u64"
  have d: "?d k = push_bit (8 * int_digits le n k)
      (ucast (ucast (drop_bit (8 * int_digits le n k) ui AND 0xff) :: byte))" if "k < n" for k
    by (simp add: v [OF that]) (simp add: int_digits_def)
  have "bit (fold (\<lambda>i a. a OR ?d i) [0..<n] 0) m \<longleftrightarrow> bit ui m" for m
  proof -
    have "bit (fold (\<lambda>i a. a OR ?d i) [0..<n] 0) m \<longleftrightarrow>
        (\<exists>k<n. 8 * int_digits le n k \<le> m \<and> m < 8 * int_digits le n k + 8 \<and> bit ui m)"
      by (simp only: bit_fold_or) (auto simp: d bit_shifted_digit)
    also have "\<dots> \<longleftrightarrow> bit ui m"
    proof
      assume b: "bit ui m"
      then have "m div 8 < n" using assms(2) by (simp add: less_mult_imp_div_less mult.commute)
      then obtain k where "k < n" "int_digits le n k = m div 8" using int_digits_surj by blast
      with b show "\<exists>k<n. 8 * int_digits le n k \<le> m \<and> m < 8 * int_digits le n k + 8 \<and> bit ui m"
        by (intro exI [of _ k]) auto
    qed blast
    finally show ?thesis .
  qed
  then have "fold (\<lambda>i a. a OR ?d i) [0..<n] 0 = ui" by (rule bit_word_eqI)
  with assms(1) show ?thesis by (simp add: ec_opt_decode_uint_def)
qed

lemma encode_uint_length:
  "ec_opt_encode_uint le ui 8 = Some e \<Longrightarrow> length e = (if ui = 0 then 0 else pick_size 0 ui_bytes ui)"
  by (auto simp: ec_opt_encode_uint_def Let_def split: if_splits)

lemma encode_uint_total: "\<exists>e. ec_opt_encode_uint le ui 8 = Some e"
  using pick_size_range [of ui] by (auto simp: ec_opt_encode_uint_def Let_def)

lemma encode_decode_uint:
  assumes "ec_opt_encode_uint le ui n = Some e"
  shows "ec_opt_decode_uint le (e @ rest) (length e) = Some ui"
proof (cases "ui = 0")
  case True
  with assms show ?thesis by (auto simp: ec_opt_encode_uint_def ec_opt_decode_uint_def)
next
  case False
  let ?n = "pick_size 0 ui_bytes ui"
  have e: "e = map (\<lambda>k. if le then ucast (drop_bit (8 * (?n - 1 - k)) ui AND 0xff)
      else ucast (drop_bit (8 * k) ui AND 0xff)) [0..<?n]"
    using assms False by (auto simp: ec_opt_encode_uint_def Let_def split: if_splits)
  then have "length e = ?n" by simp
  moreover have "ec_opt_decode_uint le (e @ rest) ?n = Some ui"
    by (rule decode_digits) (use pick_size_range [of ui] in \<open>auto simp: e nth_append int_digits_def bit_lt_size\<close>)
  ultimately show ?thesis by simp
qed

text \<open>No encoding has a leading zero byte: it is the shortest that holds the value.\<close>

lemma encode_uint_minimal:
  assumes "ec_opt_encode_uint le ui 8 = Some e"
  shows "unat ui < 256 ^ length e" and "e \<noteq> [] \<Longrightarrow> 256 ^ (length e - 1) \<le> unat ui"
proof -
  have p: "(256 :: nat) ^ k = 2 ^ (8 * k)" for k by (simp add: power_mult)
  show "unat ui < 256 ^ length e"
    using encode_uint_length [OF assms] pick_size_upper [of ui] by (auto simp: p)
  assume "e \<noteq> []"
  with encode_uint_length [OF assms] have "length e = pick_size 0 ui_bytes ui" "ui \<noteq> 0"
    by (auto split: if_splits)
  then show "256 ^ (length e - 1) \<le> unat ui"
    using pick_size_lower [of ui] by (cases "pick_size 0 ui_bytes ui = 1") (auto simp: p unat_gt_0 Suc_leI)
qed

end
