(* ===== verification/Opt_Api.thy ===== *)
theory Opt_Api
  imports Opt_Uint
begin

text \<open>
  The typed setters and getters of options (\<open>lib/evcoap/src/evcoap_opt.c\<close>). A C string
  argument is the memory at the pointer, \<open>cstr\<close> the bytes before its terminator. The
  caller's output variable is part of the result; an \<open>option\<close> result is \<open>None\<close> for -1
  or NULL.
\<close>

subsection \<open>Generic setters and getters\<close>

definition cstr :: "byte list \<Rightarrow> byte list" where
  "cstr s = takeWhile (\<lambda>b. b \<noteq> 0) s"

definition strlen :: "byte list \<Rightarrow> nat" where
  "strlen s = length (cstr s)"

definition ec_opts_add_uint :: "bool \<Rightarrow> ec_opts \<Rightarrow> ec_opt_sym \<Rightarrow> u64 \<Rightarrow> crc \<times> ec_opts" where
  "ec_opts_add_uint le opts sy v =
     (if ec_opt_sym2type sy \<noteq> EC_OPT_TYPE_UINT then (C_ERR, opts)
      else case ec_opt_encode_uint le v 8 of
        None \<Rightarrow> (C_ERR, opts)
      | Some e \<Rightarrow> ec_opts_add_raw opts sy e (length e))"

definition ec_opts_add_string :: "ec_opts \<Rightarrow> ec_opt_sym \<Rightarrow> byte list \<Rightarrow> crc \<times> ec_opts" where
  "ec_opts_add_string opts sy s =
     (if ec_opt_sym2type sy \<noteq> EC_OPT_TYPE_STRING then (C_ERR, opts)
      else ec_opts_add_raw opts sy s (strlen s))"

definition ec_opts_add_opaque :: "ec_opts \<Rightarrow> ec_opt_sym \<Rightarrow> byte list \<Rightarrow> nat \<Rightarrow> crc \<times> ec_opts" where
  "ec_opts_add_opaque opts sy v l =
     (if ec_opt_sym2type sy \<noteq> EC_OPT_TYPE_OPAQUE then (C_ERR, opts)
      else ec_opts_add_raw opts sy v l)"

definition ec_opts_add_empty :: "ec_opts \<Rightarrow> ec_opt_sym \<Rightarrow> crc \<times> ec_opts" where
  "ec_opts_add_empty opts sy =
     (if ec_opt_sym2type sy \<noteq> EC_OPT_TYPE_EMPTY then (C_ERR, opts)
      else ec_opts_add_raw opts sy [] 0)"

definition ec_opts_get_string :: "ec_opts \<Rightarrow> ec_opt_sym \<Rightarrow> byte list option" where
  "ec_opts_get_string opts sy =
     (if ec_opt_sym2type sy \<noteq> EC_OPT_TYPE_STRING then None
      else case ec_opts_get opts sy of Some o' \<Rightarrow> o_v o' | None \<Rightarrow> None)"

definition opt_mem :: "ec_opt \<Rightarrow> byte list" where
  "opt_mem o' = (case o_v o' of Some b \<Rightarrow> b | None \<Rightarrow> [])"

definition ec_opts_get_uint :: "bool \<Rightarrow> ec_opts \<Rightarrow> ec_opt_sym \<Rightarrow> u64 option" where
  "ec_opts_get_uint le opts sy =
     (if ec_opt_sym2type sy \<noteq> EC_OPT_TYPE_UINT then None
      else case ec_opts_get opts sy of
        Some o' \<Rightarrow> ec_opt_decode_uint le (opt_mem o') (o_l o')
      | None \<Rightarrow> None)"

subsection \<open>Setters\<close>

definition ec_opts_add_publish :: "bool \<Rightarrow> ec_opts \<Rightarrow> byte \<Rightarrow> crc \<times> ec_opts" where
  "ec_opts_add_publish le opts mm = ec_opts_add_uint le opts EC_OPT_PUBLISH (ucast mm)"

definition ec_opts_add_content_type :: "bool \<Rightarrow> ec_opts \<Rightarrow> u16 \<Rightarrow> crc \<times> ec_opts" where
  "ec_opts_add_content_type le opts ct = ec_opts_add_uint le opts EC_OPT_CONTENT_TYPE (ucast ct)"

definition ec_opts_add_max_age :: "bool \<Rightarrow> ec_opts \<Rightarrow> u32 \<Rightarrow> crc \<times> ec_opts" where
  "ec_opts_add_max_age le opts ma = ec_opts_add_uint le opts EC_OPT_MAX_AGE (ucast ma)"

definition ec_opts_add_uri_port :: "bool \<Rightarrow> ec_opts \<Rightarrow> u16 \<Rightarrow> crc \<times> ec_opts" where
  "ec_opts_add_uri_port le opts up = ec_opts_add_uint le opts EC_OPT_URI_PORT (ucast up)"

definition ec_opts_add_accept :: "bool \<Rightarrow> ec_opts \<Rightarrow> u16 \<Rightarrow> crc \<times> ec_opts" where
  "ec_opts_add_accept le opts a = ec_opts_add_uint le opts EC_OPT_ACCEPT (ucast a)"

definition ec_opts_add_observe :: "bool \<Rightarrow> ec_opts \<Rightarrow> u16 \<Rightarrow> crc \<times> ec_opts" where
  "ec_opts_add_observe le opts ov = ec_opts_add_uint le opts EC_OPT_OBSERVE (ucast ov)"

definition ec_opts_add_if_none_match :: "ec_opts \<Rightarrow> crc \<times> ec_opts" where
  "ec_opts_add_if_none_match opts = ec_opts_add_empty opts EC_OPT_IF_NONE_MATCH"

text \<open>\<open>u_uri_is_absolute\<close> of libu is the argument \<open>is_abs\<close>.\<close>

definition ec_opts_add_proxy_uri :: "(byte list \<Rightarrow> bool) \<Rightarrow> ec_opts \<Rightarrow> byte list \<Rightarrow> crc \<times> ec_opts" where
  "ec_opts_add_proxy_uri is_abs opts pu =
     (if strlen pu = 0 then (C_ERR, opts)
      else if \<not> is_abs pu then (C_ERR, opts)
      else ec_opts_add_string opts EC_OPT_PROXY_URI pu)"

definition ec_opts_add_etag :: "ec_opts \<Rightarrow> byte list \<Rightarrow> nat \<Rightarrow> crc \<times> ec_opts" where
  "ec_opts_add_etag opts et et_len =
     (if et_len = 0 \<or> et_len > 8 then (C_ERR, opts) else ec_opts_add_opaque opts EC_OPT_ETAG et et_len)"

definition ec_opts_add_token :: "ec_opts \<Rightarrow> byte list \<Rightarrow> nat \<Rightarrow> crc \<times> ec_opts" where
  "ec_opts_add_token opts t t_len =
     (if t_len = 0 \<or> t_len > 8 then (C_ERR, opts) else ec_opts_add_opaque opts EC_OPT_TOKEN t t_len)"

definition ec_opts_add_if_match :: "ec_opts \<Rightarrow> byte list \<Rightarrow> nat \<Rightarrow> crc \<times> ec_opts" where
  "ec_opts_add_if_match opts im im_len =
     (if im_len = 0 \<or> im_len > 8 then (C_ERR, opts) else ec_opts_add_opaque opts EC_OPT_IF_MATCH im im_len)"

definition ec_opts_add_uri_host :: "ec_opts \<Rightarrow> byte list \<Rightarrow> crc \<times> ec_opts" where
  "ec_opts_add_uri_host opts uh =
     (if strlen uh = 0 \<or> strlen uh > 270 then (C_ERR, opts) else ec_opts_add_string opts EC_OPT_URI_HOST uh)"

definition ec_opts_add_location_path :: "ec_opts \<Rightarrow> byte list \<Rightarrow> crc \<times> ec_opts" where
  "ec_opts_add_location_path opts lp =
     (if strlen lp = 0 \<or> strlen lp > 270 then (C_ERR, opts) else ec_opts_add_string opts EC_OPT_LOCATION_PATH lp)"

definition ec_opts_add_location_query :: "ec_opts \<Rightarrow> byte list \<Rightarrow> crc \<times> ec_opts" where
  "ec_opts_add_location_query opts lq =
     (if strlen lq = 0 \<or> strlen lq > 270 then (C_ERR, opts) else ec_opts_add_string opts EC_OPT_LOCATION_QUERY lq)"

definition ec_opts_add_uri_path :: "ec_opts \<Rightarrow> byte list \<Rightarrow> crc \<times> ec_opts" where
  "ec_opts_add_uri_path opts up =
     (if strlen up = 0 \<or> strlen up > 270 then (C_ERR, opts) else ec_opts_add_string opts EC_OPT_URI_PATH up)"

definition ec_opts_add_uri_query :: "ec_opts \<Rightarrow> byte list \<Rightarrow> crc \<times> ec_opts" where
  "ec_opts_add_uri_query opts uq =
     (if strlen uq = 0 \<or> strlen uq > 270 then (C_ERR, opts) else ec_opts_add_string opts EC_OPT_URI_QUERY uq)"

definition ec_opts_add_block ::
    "bool \<Rightarrow> ec_opts \<Rightarrow> ec_opt_sym \<Rightarrow> u32 \<Rightarrow> bool \<Rightarrow> byte \<Rightarrow> crc \<times> ec_opts" where
  "ec_opts_add_block le opts which num m szx =
     (if which \<noteq> EC_OPT_BLOCK1 \<and> which \<noteq> EC_OPT_BLOCK2 then (C_ERR, opts)
      else if num > 0xfffff then (C_ERR, opts)
      else if szx > 7 then (C_ERR, opts)
      else let b = ucast szx :: u32;
               b = b OR push_bit 3 (if m then 1 else 0);
               b = b OR push_bit 4 num
           in ec_opts_add_uint le opts which (ucast b))"

definition ec_opts_add_block1 :: "bool \<Rightarrow> ec_opts \<Rightarrow> u32 \<Rightarrow> bool \<Rightarrow> byte \<Rightarrow> crc \<times> ec_opts" where
  "ec_opts_add_block1 le opts num m szx = ec_opts_add_block le opts EC_OPT_BLOCK1 num m szx"

definition ec_opts_add_block2 :: "bool \<Rightarrow> ec_opts \<Rightarrow> u32 \<Rightarrow> bool \<Rightarrow> byte \<Rightarrow> crc \<times> ec_opts" where
  "ec_opts_add_block2 le opts num m szx = ec_opts_add_block le opts EC_OPT_BLOCK2 num m szx"

subsection \<open>Getters\<close>

definition ec_opts_get_uri_host :: "ec_opts \<Rightarrow> byte list option" where
  "ec_opts_get_uri_host opts = ec_opts_get_string opts EC_OPT_URI_HOST"

definition ec_opts_get_location_path :: "ec_opts \<Rightarrow> byte list option" where
  "ec_opts_get_location_path opts = ec_opts_get_string opts EC_OPT_LOCATION_PATH"

definition ec_opts_get_location_query :: "ec_opts \<Rightarrow> byte list option" where
  "ec_opts_get_location_query opts = ec_opts_get_string opts EC_OPT_LOCATION_QUERY"

definition ec_opts_get_uri_port :: "bool \<Rightarrow> ec_opts \<Rightarrow> u16 option" where
  "ec_opts_get_uri_port le opts =
     (case ec_opts_get_uint le opts EC_OPT_URI_PORT of
        None \<Rightarrow> None
      | Some tmp \<Rightarrow> if tmp > 0xffff then None else Some (ucast tmp))"

definition ec_opts_get_publish :: "bool \<Rightarrow> ec_opts \<Rightarrow> byte option" where
  "ec_opts_get_publish le opts =
     (case ec_opts_get_uint le opts EC_OPT_PUBLISH of
        None \<Rightarrow> None
      | Some tmp \<Rightarrow> if tmp > 0xff then None else Some (ucast tmp))"

definition ec_opts_get_content_type :: "bool \<Rightarrow> ec_opts \<Rightarrow> u16 option" where
  "ec_opts_get_content_type le opts =
     (case ec_opts_get_uint le opts EC_OPT_CONTENT_TYPE of
        None \<Rightarrow> None
      | Some tmp \<Rightarrow> if tmp > 0xffff then None else Some (ucast tmp))"

definition ec_opts_get_observe :: "bool \<Rightarrow> ec_opts \<Rightarrow> u16 option" where
  "ec_opts_get_observe le opts =
     (case ec_opts_get_uint le opts EC_OPT_OBSERVE of
        None \<Rightarrow> None
      | Some tmp \<Rightarrow> if tmp > 0xffff then None else Some (ucast tmp))"

definition ec_opts_get_max_age :: "bool \<Rightarrow> ec_opts \<Rightarrow> u32 option" where
  "ec_opts_get_max_age le opts =
     (case ec_opts_get_uint le opts EC_OPT_MAX_AGE of
        None \<Rightarrow> Some 3600
      | Some tmp \<Rightarrow> if tmp > 0xffffffff then None else Some (ucast tmp))"

definition ec_opts_get_if_none_match :: "ec_opts \<Rightarrow> crc" where
  "ec_opts_get_if_none_match opts =
     (case ec_opts_get opts EC_OPT_IF_NONE_MATCH of Some o' \<Rightarrow> C_OK | None \<Rightarrow> C_ERR)"

definition ec_opts_get_block :: "bool \<Rightarrow> ec_opts \<Rightarrow> ec_opt_sym \<Rightarrow> (u32 \<times> bool \<times> byte) option" where
  "ec_opts_get_block le opts which =
     (if which \<noteq> EC_OPT_BLOCK1 \<and> which \<noteq> EC_OPT_BLOCK2 then None
      else case ec_opts_get_uint le opts which of
        None \<Rightarrow> None
      | Some tmp \<Rightarrow>
          if tmp > 0xffffff then None
          else Some (ucast (drop_bit 4 tmp), tmp AND 0x8 \<noteq> 0, ucast (tmp AND 0x7)))"

definition ec_opts_get_block1 :: "bool \<Rightarrow> ec_opts \<Rightarrow> (u32 \<times> bool \<times> byte) option" where
  "ec_opts_get_block1 le opts = ec_opts_get_block le opts EC_OPT_BLOCK1"

definition ec_opts_get_block2 :: "bool \<Rightarrow> ec_opts \<Rightarrow> (u32 \<times> bool \<times> byte) option" where
  "ec_opts_get_block2 le opts = ec_opts_get_block le opts EC_OPT_BLOCK2"

text \<open>The value pointer and the size stored through \<open>etag_sz\<close> (\<open>token_sz\<close>).\<close>

definition ec_opts_get_etag_nth :: "ec_opts \<Rightarrow> nat \<Rightarrow> (byte list option \<times> nat) option" where
  "ec_opts_get_etag_nth opts n =
     (case ec_opts_get_nth opts EC_OPT_ETAG n of None \<Rightarrow> None | Some o' \<Rightarrow> Some (o_v o', o_l o'))"

definition ec_opts_get_if_match_nth :: "ec_opts \<Rightarrow> nat \<Rightarrow> (byte list option \<times> nat) option" where
  "ec_opts_get_if_match_nth opts n =
     (case ec_opts_get_nth opts EC_OPT_IF_MATCH n of None \<Rightarrow> None | Some o' \<Rightarrow> Some (o_v o', o_l o'))"

definition ec_opts_get_token :: "ec_opts \<Rightarrow> (byte list option \<times> nat) option" where
  "ec_opts_get_token opts =
     (case ec_opts_get opts EC_OPT_TOKEN of None \<Rightarrow> None | Some o' \<Rightarrow> Some (o_v o', o_l o'))"

text \<open>The scan of \<open>ec_opts_get_accept_all\<close> with \<open>room\<close> entries of the array left.\<close>

fun accept_scan :: "bool \<Rightarrow> ec_opt list \<Rightarrow> nat \<Rightarrow> u32 list \<Rightarrow> u32 list option" where
  "accept_scan le [] room acc = Some acc"
| "accept_scan le (o' # os) room acc =
     (if o_sym o' = EC_OPT_ACCEPT then
        (case ec_opt_decode_uint le (opt_mem o') (o_l o') of
           None \<Rightarrow> None
         | Some mt \<Rightarrow>
             if room = 1 then Some (acc @ [ucast mt])
             else accept_scan le os (room - 1) (acc @ [ucast mt]))
      else accept_scan le os room acc)"

definition ec_opts_get_accept_all :: "bool \<Rightarrow> ec_opts \<Rightarrow> nat \<Rightarrow> u32 list option" where
  "ec_opts_get_accept_all le opts mta_sz =
     (if mta_sz = 0 then None else accept_scan le (opts_bundle opts) mta_sz [])"

subsection \<open>One option per setter\<close>

lemma ec_opts_add_raw_single:
  assumes "l \<le> EC_COAP_OPT_LEN_MAX"
  shows "ec_opts_add_raw opts sy v l =
    (if noptions opts \<ge> EC_PROTO_MAX_OPTIONS then (C_ERR, opts) else ec_opts_add opts sy v l)"
proof (cases "l = EC_COAP_OPT_LEN_MAX")
  case True
  then show ?thesis
    by (simp add: ec_opts_add_raw_def numeral_eq_Suc [of num.One] eval_nat_numeral(1) split: prod.splits crc.splits)
next
  case False
  then have "l < EC_COAP_OPT_LEN_MAX" using assms by simp
  then have "l div EC_COAP_OPT_LEN_MAX = 0" "l mod EC_COAP_OPT_LEN_MAX = l" by simp_all
  then show ?thesis by (simp add: ec_opts_add_raw_def)
qed

lemma ec_opts_add_raw_new:
  assumes "wf_opts opts" and "EC_OPT_SYM_VALID sy" and "l \<le> EC_COAP_OPT_LEN_MAX" and "l \<le> length v"
    and "noptions opts < EC_PROTO_MAX_OPTIONS"
  shows "\<exists>opts' o'. ec_opts_add_raw opts sy v l = (C_OK, opts') \<and> ec_opt_new sy l v = Some o' \<and>
    wf_opts opts' \<and> opts_of opts' sy = opts_of opts sy @ [o'] \<and> noptions opts' = noptions opts + 1 \<and>
    (\<forall>k. k \<noteq> sy \<longrightarrow> opts_of opts' k = opts_of opts k)"
proof -
  from ec_opts_add_extends [OF assms(1-5)] obtain opts'
    where a: "ec_opts_add opts sy v l = (C_OK, opts')"
      and e: "opts_extended opts sy 1 (take l v) opts'" by blast
  from a obtain o' where "ec_opt_new sy l v = Some o'" by (rule ec_opts_add_Some)
  moreover have "ec_opts_add_raw opts sy v l = (C_OK, opts')"
    using ec_opts_add_raw_single [OF assms(3)] assms(5) a by simp
  ultimately show ?thesis
    using e ec_opts_add_opts_of [OF a assms(1)] by (auto simp: opts_extended_def)
qed

lemma opt_new_uint_mem:
  "ec_opt_new sy l v = Some o' \<Longrightarrow> ec_opt_sym2type sy = EC_OPT_TYPE_UINT \<Longrightarrow> l \<le> length v \<Longrightarrow>
   opt_mem o' = take l v \<and> o_l o' = l"
  by (auto simp: ec_opt_new_def opt_mem_def split: if_splits)

text \<open>The first unsigned option of a symbol is read back as it was written.\<close>

lemma ec_opts_uint_roundtrip:
  assumes "wf_opts opts" and "ec_opt_sym2type sy = EC_OPT_TYPE_UINT" and "opts_of opts sy = []"
    and "noptions opts < EC_PROTO_MAX_OPTIONS"
  obtains opts' where "ec_opts_add_uint le opts sy v = (C_OK, opts')" "wf_opts opts'"
    "ec_opts_get_uint le opts' sy = Some v"
proof -
  obtain e where e: "ec_opt_encode_uint le v 8 = Some e" using encode_uint_total by blast
  have "length e \<le> 8"
    using encode_uint_length [OF e] pick_size_range [of v] by simp
  moreover have "EC_OPT_SYM_VALID sy" using assms(2) sym2type_valid [of sy] by simp
  ultimately obtain opts' o' where a: "ec_opts_add_raw opts sy e (length e) = (C_OK, opts')"
    "ec_opt_new sy (length e) e = Some o'" "wf_opts opts'" "opts_of opts' sy = [o']"
    using ec_opts_add_raw_new [of opts sy "length e" e] assms by auto
  have "opt_mem o' = e" "o_l o' = length e" using opt_new_uint_mem [OF a(2) assms(2)] by simp_all
  then have "ec_opts_get_uint le opts' sy = Some v"
    using encode_decode_uint [OF e, of "[]"] assms(2) a(4)
    by (simp add: ec_opts_get_uint_def ec_opts_get_conv)
  moreover have "ec_opts_add_uint le opts sy v = (C_OK, opts')"
    using assms(2) e a(1) by (simp add: ec_opts_add_uint_def)
  ultimately show ?thesis using that a(3) by blast
qed

text \<open>The first string option of a symbol is read back with its terminator.\<close>

lemma strlen_le: "strlen s \<le> length s"
  by (simp add: strlen_def cstr_def length_takeWhile_le)

lemma take_strlen: "take (strlen s) s = cstr s"
  by (simp add: strlen_def cstr_def takeWhile_eq_take [symmetric])

lemma cstr_terminated: "cstr (cstr s @ [0]) = cstr s"
  by (simp add: cstr_def takeWhile_append)

lemma opt_new_string_mem:
  "ec_opt_new sy l v = Some o' \<Longrightarrow> ec_opt_sym2type sy = EC_OPT_TYPE_STRING \<Longrightarrow>
   o_v o' = Some (take l v @ [0])"
  by (auto simp: ec_opt_new_def split: if_splits)

lemma ec_opts_string_roundtrip:
  assumes "wf_opts opts" and "ec_opt_sym2type sy = EC_OPT_TYPE_STRING" and "opts_of opts sy = []"
    and "noptions opts < EC_PROTO_MAX_OPTIONS" and "strlen s \<le> EC_COAP_OPT_LEN_MAX"
  obtains opts' where "ec_opts_add_string opts sy s = (C_OK, opts')" "wf_opts opts'"
    "ec_opts_get_string opts' sy = Some (cstr s @ [0])"
proof -
  have "EC_OPT_SYM_VALID sy" using assms(2) sym2type_valid [of sy] by simp
  then obtain opts' o' where a: "ec_opts_add_raw opts sy s (strlen s) = (C_OK, opts')"
    "ec_opt_new sy (strlen s) s = Some o'" "wf_opts opts'" "opts_of opts' sy = [o']"
    using ec_opts_add_raw_new [of opts sy "strlen s" s] assms strlen_le [of s] by auto
  then have "ec_opts_get_string opts' sy = Some (cstr s @ [0])"
    using assms(2) opt_new_string_mem [OF a(2) assms(2)]
    by (simp add: ec_opts_get_string_def ec_opts_get_conv take_strlen)
  moreover have "ec_opts_add_string opts sy s = (C_OK, opts')"
    using assms(2) a(1) by (simp add: ec_opts_add_string_def)
  ultimately show ?thesis using that a(3) by blast
qed

subsection \<open>Block options\<close>

definition block_word :: "u32 \<Rightarrow> bool \<Rightarrow> byte \<Rightarrow> u64" where
 "block_word num m szx = ucast ((ucast szx OR push_bit 3 (if m then 1 else 0)) OR push_bit 4 num :: u32)"

lemma bit_block_word:
  assumes "unat num < 2 ^ 20" and "unat szx < 2 ^ 3"
  shows "bit (block_word num m szx) i \<longleftrightarrow>
    (i < 3 \<and> bit szx i) \<or> (i = 3 \<and> m) \<or> (4 \<le> i \<and> i < 24 \<and> bit num (i - 4))"
proof -
  have "bit num j \<Longrightarrow> j < 20" for j using assms(1) by (rule bit_of_small)
  moreover have "bit szx j \<Longrightarrow> j < 3" for j using assms(2) by (rule bit_of_small)
  moreover have "bit (if m then 1 else 0 :: u32) j \<longleftrightarrow> m \<and> j = 0" for j by (simp add: bit_1_iff)
  ultimately show ?thesis
    unfolding block_word_def
    by (simp only: bit_unsigned_iff bit_or_iff bit_push_bit_iff) fastforce
qed

lemma block_word_fields:
  assumes "unat num < 2 ^ 20" and "unat szx < 2 ^ 3"
  shows "unat (block_word num m szx) < 2 ^ 24"
    and "ucast (drop_bit 4 (block_word num m szx)) = num"
    and "block_word num m szx AND 8 \<noteq> 0 \<longleftrightarrow> m"
    and "ucast (block_word num m szx AND 7) = szx"
proof -
  note b = bit_block_word [OF assms, where m = m]
  have num: "bit num j \<Longrightarrow> j < 20" for j using assms(1) by (rule bit_of_small)
  have szx: "bit szx j \<Longrightarrow> j < 3" for j using assms(2) by (rule bit_of_small)
  have "take_bit 24 (block_word num m szx) = block_word num m szx"
    by (rule bit_word_eqI) (auto simp: bit_take_bit_iff b)
  then have "unat (take_bit 24 (block_word num m szx)) = unat (block_word num m szx)" by simp
  then show "unat (block_word num m szx) < 2 ^ 24"
    by (metis unsigned_take_bit_eq take_bit_nat_less_exp)
  show "ucast (drop_bit 4 (block_word num m szx)) = num"
    by (rule bit_word_eqI) (use num in \<open>auto simp: bit_unsigned_iff bit_drop_bit_eq b\<close>)
  have e: "(8 :: u64) = push_bit 3 1" "(7 :: u64) = mask 3" by (simp_all add: mask_eq_exp_minus_1)
  have "bit (push_bit 3 (1 :: u64)) j \<longleftrightarrow> j = 3" for j
    by (simp only: bit_push_bit_iff bit_1_iff) auto
  then have "bit (block_word num m szx AND push_bit 3 1) j \<longleftrightarrow> m \<and> j = 3" for j
    by (auto simp only: bit_and_iff b)
  then show "block_word num m szx AND 8 \<noteq> 0 \<longleftrightarrow> m"
    unfolding e by (metis bit_0_eq bot_apply bot_bool_def bit_word_eqI)
  show "ucast (block_word num m szx AND 7) = szx"
    unfolding e by (rule bit_word_eqI) (use szx in \<open>auto simp: bit_unsigned_iff bit_and_iff bit_mask_iff b\<close>)
qed

lemma block_args:
  "num \<le> (0xfffff :: u32) \<Longrightarrow> unat num < 2 ^ 20"
  "szx \<le> (7 :: byte) \<Longrightarrow> unat szx < 2 ^ 3"
  "(0xffffff :: u64) < b \<longleftrightarrow> \<not> unat b < 2 ^ 24"
  by (auto simp: word_le_nat_alt word_less_nat_alt)

lemma ec_opts_block_roundtrip:
  assumes "wf_opts opts" and "which = EC_OPT_BLOCK1 \<or> which = EC_OPT_BLOCK2" and "opts_of opts which = []"
    and "noptions opts < EC_PROTO_MAX_OPTIONS" and "num \<le> 0xfffff" and "szx \<le> 7"
  obtains opts' where "ec_opts_add_block le opts which num m szx = (C_OK, opts')" "wf_opts opts'"
    "ec_opts_get_block le opts' which = Some (num, m, szx)"
proof -
  have "ec_opt_sym2type which = EC_OPT_TYPE_UINT"
    using assms(2) by (auto simp: opt_table_defs)
  then obtain opts' where o: "ec_opts_add_uint le opts which (block_word num m szx) = (C_OK, opts')"
    "wf_opts opts'" "ec_opts_get_uint le opts' which = Some (block_word num m szx)"
    by (rule ec_opts_uint_roundtrip [OF assms(1) _ assms(3,4)])
  note f = block_word_fields [OF block_args(1) [OF assms(5)] block_args(2) [OF assms(6)], of m]
  have "ec_opts_add_block le opts which num m szx = (C_OK, opts')"
    using assms(2,5,6) o(1) by (auto simp: ec_opts_add_block_def block_word_def Let_def not_less [symmetric])
  moreover have "ec_opts_get_block le opts' which = Some (num, m, szx)"
    using assms(2) o(3) f by (auto simp: ec_opts_get_block_def block_args(3))
  ultimately show ?thesis using that o(2) by blast
qed

end
