(* ===== verification/Opt_Codec.thy ===== *)
theory Opt_Codec
  imports Opt_Bundle
begin

text \<open>
  The wire format of the options of a PDU (\<open>ec_opts_encode\<close>, \<open>ec_opts_decode\<close> and the
  fencepost helpers of \<open>lib/evcoap/src/evcoap_opt.c\<close>), with the abstract encoding of a
  sorted list of options that the two are proved against.
\<close>

subsection \<open>Encoding\<close>

definition fenceposts_encsz :: "nat \<Rightarrow> nat \<Rightarrow> nat" where
  "fenceposts_encsz cur prev =
     (if size_sub cur prev > 14 then length (filter EC_OPT_NUM_IS_FENCEPOST [prev..<cur]) else 0)"

text \<open>The loop of \<open>add_fenceposts\<close>: bytes written, last option number, \<open>noptions\<close>.\<close>

definition fencepost_step :: "nat \<Rightarrow> byte list \<times> nat \<times> nat \<Rightarrow> byte list \<times> nat \<times> nat" where
  "fencepost_step opt_num = (\<lambda>(out, prev, n).
     if EC_OPT_NUM_IS_FENCEPOST opt_num
     then (out @ [push_bit 4 (of_nat (opt_num - prev))], opt_num, n + 1) else (out, prev, n))"

definition add_fenceposts :: "ec_opts \<Rightarrow> byte list \<Rightarrow> nat \<Rightarrow> nat \<Rightarrow> ec_opts \<times> byte list \<times> nat" where
  "add_fenceposts opts out cur delta =
     (case fold fencepost_step [cur - delta..<cur] (out, cur - delta, noptions opts) of
        (out', prev, n) \<Rightarrow> (opts\<lparr>noptions := n\<rparr>, out', cur - prev))"

text \<open>
  One round of the loop of \<open>ec_opts_encode\<close> for option \<open>o'\<close> of number \<open>cur\<close>, after the
  space check; \<open>out\<close> is what lies before the write pointer.
\<close>

definition encode_one :: "ec_opts \<Rightarrow> byte list \<Rightarrow> nat \<Rightarrow> nat \<Rightarrow> ec_opt \<Rightarrow> ec_opts \<times> byte list" where
  "encode_one opts out prev cur o' =
     (let delta = size_sub cur prev;
          (opts, out, delta) = (if delta > 14 then add_fenceposts opts out cur delta else (opts, out, delta));
          out = (if o_l o' > 14
                 then out @ [push_bit 4 (of_nat delta) OR 0x0f, of_nat (o_l o' - 15)]
                 else out @ [push_bit 4 (of_nat delta) OR (of_nat (o_l o') AND 0x0f)]);
          out = (case o_v o' of None \<Rightarrow> out | Some v \<Rightarrow> out @ take (o_l o') v)
      in (opts, out))"

fun encode_loop ::
    "ec_opts \<Rightarrow> byte list \<Rightarrow> nat \<Rightarrow> nat \<Rightarrow> ec_opt list \<Rightarrow> crc \<times> ec_opts \<times> byte list \<times> nat" where
  "encode_loop opts out prev left [] = (C_OK, opts, out, left)"
| "encode_loop opts out prev left (o' # os) =
     (let cur = ec_opt_sym2num (o_sym o');
          elen = (if o_l o' > 14 then 2 else 1) + o_l o' + fenceposts_encsz cur prev
      in if cur = 0 then (C_ERR, opts, out, left)
         else if elen > left then (C_ERR, opts, out, left)
         else case encode_one opts out prev cur o' of
           (opts', out') \<Rightarrow> encode_loop opts' out' cur (left - elen) os)"

text \<open>The bytes before the write pointer overwrite the start of the buffer.\<close>

definition write_enc :: "ec_opts \<Rightarrow> byte list \<Rightarrow> ec_opts" where
  "write_enc opts out = opts\<lparr>enc := out @ drop (length out) (enc opts)\<rparr>"

definition ec_opts_encode :: "ec_opts \<Rightarrow> crc \<times> ec_opts" where
  "ec_opts_encode opts =
     (case encode_loop (opts\<lparr>enc_sz := EC_OPTS_MAX_LEN\<rparr>) [] 0 EC_OPTS_MAX_LEN (opts_bundle opts) of
        (C_ERR, opts', out, left) \<Rightarrow> (C_ERR, write_enc opts' out)
      | (C_OK, opts', out, left) \<Rightarrow> (C_OK, (write_enc opts' out)\<lparr>enc_sz := EC_OPTS_MAX_LEN - left\<rparr>))"

subsection \<open>Decoding\<close>

text \<open>
  \<open>pdu\<close> is the readable memory from the start of the message on. \<open>decode_one\<close> is
  the body of the loop: it stops with a response code, or goes on with the next read
  position, the option number and the options so far. The result of the loop is the
  response code, the options and the value stored in \<open>*olen\<close>.
\<close>

definition read_byte :: "byte list \<Rightarrow> nat \<Rightarrow> byte run" where
  "read_byte mem i = (if i < length mem then Done (mem ! i) else Fault Overread)"

definition opt_known :: "ec_opt_sym \<Rightarrow> bool" where
  "opt_known sy \<longleftrightarrow> sy \<noteq> EC_OPT_NONE \<and> sy \<noteq> EC_OPT_MAX"

definition read_opt_len :: "byte list \<Rightarrow> nat \<Rightarrow> byte \<Rightarrow> nat run" where
  "read_opt_len pdu p b =
     (if unat (b AND 0x0f) = 15 then run_bind (read_byte pdu (p + 1)) (\<lambda>b1. Done (unat b1 + 15))
      else Done (unat (b AND 0x0f)))"

datatype decode_res = Dec_stop ec_rc ec_opts | Dec_next nat nat ec_opts

definition decode_one :: "byte list \<Rightarrow> nat \<Rightarrow> nat \<Rightarrow> ec_opts \<Rightarrow> decode_res run" where
  "decode_one pdu p opt_num opts =
     run_bind (read_byte pdu p) (\<lambda>b.
       let num = opt_num + unat (drop_bit 4 b);
           sy = ec_opt_num2sym num
       in if \<not> opt_known sy \<and> odd num then Done (Dec_stop EC_BAD_OPTION opts)
          else run_bind (read_opt_len pdu p b) (\<lambda>opt_len.
            let skip_this = (\<not> opt_known sy \<or> opt_len = 0 \<and> EC_OPT_NUM_IS_FENCEPOST num);
                p = p + (if opt_len > 15 then 2 else 1)
            in if skip_this then Done (Dec_next (p + opt_len) num opts)
               else if opt_new_copies sy opt_len \<and> length pdu < p + opt_len then Fault Overread
               else case ec_opts_add opts sy (drop p pdu) opt_len of
                 (C_ERR, opts') \<Rightarrow> Done (Dec_stop EC_INTERNAL_SERVER_ERROR opts')
               | (C_OK, opts') \<Rightarrow> Done (Dec_next (p + opt_len) num opts')))"

fun decode_loop :: "byte list \<Rightarrow> nat \<Rightarrow> nat \<Rightarrow> nat \<Rightarrow> ec_opts \<Rightarrow> (ec_rc \<times> ec_opts \<times> nat) run" where
  "decode_loop pdu 0 p opt_num opts = Done (EC_RC_UNSET, opts, p - EC_COAP_HDR_SIZE)"
| "decode_loop pdu (Suc opt_count) p opt_num opts =
     run_bind (decode_one pdu p opt_num opts) (\<lambda>r. case r of
       Dec_stop rc opts' \<Rightarrow> Done (rc, opts', 0)
     | Dec_next p' num opts' \<Rightarrow> decode_loop pdu opt_count p' num opts')"

definition ec_opts_decode ::
    "ec_opts \<Rightarrow> byte list \<Rightarrow> nat \<Rightarrow> nat \<Rightarrow> (ec_rc \<times> ec_opts \<times> nat) run" where
  "ec_opts_decode opts pdu pdu_sz oc =
     (if pdu_sz < EC_COAP_HDR_SIZE then Done (-1, opts, 0)
      else if oc = 0 then Done (0, opts, 0)
      else decode_loop pdu oc EC_COAP_HDR_SIZE 0 opts)"

subsection \<open>The abstract encoding\<close>

definition fencepost_bytes :: "nat \<Rightarrow> nat \<Rightarrow> byte list" where
  "fencepost_bytes prev cur = (if cur - prev > 14 then [push_bit 4 (of_nat (14 - prev))] else [])"

definition last_number :: "nat \<Rightarrow> nat \<Rightarrow> nat" where
  "last_number prev cur = (if cur - prev > 14 then 14 else prev)"

definition head_bytes :: "nat \<Rightarrow> nat \<Rightarrow> byte list" where
  "head_bytes delta l =
     (if l > 14 then [push_bit 4 (of_nat delta) OR 0x0f, of_nat (l - 15)]
      else [push_bit 4 (of_nat delta) OR of_nat l])"

abbreviation opt_number :: "ec_opt \<Rightarrow> nat" where
  "opt_number o' \<equiv> ec_opt_sym2num (o_sym o')"

definition wire_one :: "nat \<Rightarrow> ec_opt \<Rightarrow> byte list" where
  "wire_one prev o' =
     fencepost_bytes prev (opt_number o') @
     head_bytes (opt_number o' - last_number prev (opt_number o')) (o_l o') @ opt_bytes o'"

fun wire_opts :: "nat \<Rightarrow> ec_opt list \<Rightarrow> byte list" where
  "wire_opts prev [] = []"
| "wire_opts prev (o' # os) = wire_one prev o' @ wire_opts (opt_number o') os"

fun wire_count :: "nat \<Rightarrow> ec_opt list \<Rightarrow> nat" where
  "wire_count prev [] = 0"
| "wire_count prev (o' # os) =
     length (fencepost_bytes prev (opt_number o')) + 1 + wire_count (opt_number o') os"

text \<open>An option whose value has the length that is announced: an empty option has length 0.\<close>

definition full_opt :: "ec_opt \<Rightarrow> bool" where
  "full_opt o' \<longleftrightarrow> wf_opt o' \<and> length (opt_bytes o') = o_l o'"

subsection \<open>The encoder writes the abstract encoding\<close>

lemma fencepost_28: "n < 28 \<Longrightarrow> EC_OPT_NUM_IS_FENCEPOST n \<longleftrightarrow> n = 14"
  by (auto simp: EC_OPT_NUM_IS_FENCEPOST_def mod_eq_0_iff_dvd elim!: dvdE)

lemma fold_fencepost_none:
  "\<forall>i \<in> set xs. \<not> EC_OPT_NUM_IS_FENCEPOST i \<Longrightarrow> fold fencepost_step xs s = s"
  by (induction xs arbitrary: s) (auto simp: fencepost_step_def)

lemma upt_split_14:
  assumes "a \<le> 14" and "14 < (b :: nat)" shows "[a..<b] = [a..<14] @ 14 # [15..<b]"
proof -
  have "[a..<b] = [a..<14] @ [14..<b]" using assms upt_add_eq_append [of a 14 "b - 14"] by simp
  moreover have "[14..<b] = 14 # [15..<b]" using assms(2) by (simp add: upt_conv_Cons)
  ultimately show ?thesis by simp
qed

lemma fenceposts_encsz_eq:
  assumes "prev \<le> cur" and "cur < 28" and "cur - prev > 14 \<Longrightarrow> prev < 14"
  shows "fenceposts_encsz cur prev = length (fencepost_bytes prev cur)"
proof (cases "cur - prev > 14")
  case True
  then have s: "[prev..<cur] = [prev..<14] @ 14 # [15..<cur]" using assms(3) by (intro upt_split_14) auto
  have f: "filter EC_OPT_NUM_IS_FENCEPOST [i..<j] = []" if "j \<le> 14 \<or> 14 < i" "j < 28" for i j
    using that by (auto simp: filter_empty_conv fencepost_28)
  have "EC_OPT_NUM_IS_FENCEPOST 14" by (simp add: fencepost_28)
  then have "length (filter EC_OPT_NUM_IS_FENCEPOST [prev..<cur]) = 1"
    unfolding s using assms(2) by (simp add: f)
  with True assms(1,2) show ?thesis by (simp add: fenceposts_encsz_def fencepost_bytes_def)
next
  case False
  with assms(1,2) show ?thesis by (simp add: fenceposts_encsz_def fencepost_bytes_def)
qed

lemma add_fenceposts_eq:
  assumes "prev < 14" and "cur < 28" and "cur - prev > 14"
  shows "add_fenceposts opts out cur (cur - prev) =
    (opts\<lparr>noptions := noptions opts + 1\<rparr>, out @ fencepost_bytes prev cur, cur - 14)"
proof -
  have s: "[prev..<cur] = [prev..<14] @ 14 # [15..<cur]" using assms by (intro upt_split_14) auto
  have f: "fold fencepost_step [i..<j] t = t" if "j \<le> 14 \<or> 14 < i" "j < 28" for i j t
    using that by (intro fold_fencepost_none) (auto simp: fencepost_28)
  have "EC_OPT_NUM_IS_FENCEPOST 14" by (simp add: fencepost_28)
  then have "fold fencepost_step [prev..<cur] (out, prev, noptions opts) =
      (out @ [push_bit 4 (of_nat (14 - prev))], 14, noptions opts + 1)"
    unfolding s using assms(2) by (simp add: f) (simp add: fencepost_step_def)
  with assms show ?thesis by (simp add: add_fenceposts_def fencepost_bytes_def)
qed

lemma nibble_and: "l < 16 \<Longrightarrow> (of_nat l AND 0x0f :: byte) = of_nat l"
proof -
  assume "l < 16"
  then have "unat (of_nat l AND 0x0f :: byte) = unat (of_nat l :: byte)"
    by (simp only: unat_and_15) (simp add: unat_of_nat_byte)
  then show ?thesis by (rule unsigned_word_eqI)
qed

lemma encode_one_eq:
  assumes "prev \<le> cur" and "cur < 28" and "cur - prev > 14 \<Longrightarrow> prev < 14" and "cur = opt_number o'"
  shows "encode_one opts out prev cur o' =
    (opts\<lparr>noptions := noptions opts + length (fencepost_bytes prev cur)\<rparr>, out @ wire_one prev o')"
proof (cases "cur - prev > 14")
  case True
  with assms show ?thesis
    by (simp add: encode_one_def add_fenceposts_eq fencepost_bytes_def wire_one_def last_number_def
        head_bytes_def opt_bytes_def nibble_and split: option.split)
next
  case False
  with assms show ?thesis
    by (simp add: encode_one_def fencepost_bytes_def wire_one_def last_number_def
        head_bytes_def opt_bytes_def nibble_and split: option.split)
qed

lemma length_wire_one:
  "length (opt_bytes o') = o_l o' \<Longrightarrow> length (wire_one prev o') =
    (if o_l o' > 14 then 2 else 1) + o_l o' + length (fencepost_bytes prev (opt_number o'))"
  by (simp add: wire_one_def head_bytes_def)

text \<open>What the encoder relies on: full options, in the order of their numbers, from \<open>prev\<close> on.\<close>

fun wire_ready :: "nat \<Rightarrow> ec_opt list \<Rightarrow> bool" where
  "wire_ready prev [] = True"
| "wire_ready prev (o' # os) \<longleftrightarrow>
     full_opt o' \<and> prev \<le> opt_number o' \<and> wire_ready (opt_number o') os"

lemma full_opt_number:
  assumes "full_opt o'" shows "1 \<le> opt_number o' \<and> opt_number o' \<le> 23"
  using assms wf_opt_valid sym2num_range by (auto simp: full_opt_def)

lemma wire_count_ge: "length os \<le> wire_count prev os"
  by (induction os arbitrary: prev) (auto simp: trans_le_add2)

lemma encode_loop_eq:
  assumes "wire_ready prev os"
  shows "length (wire_opts prev os) \<le> left \<Longrightarrow> encode_loop opts out prev left os =
      (C_OK, opts\<lparr>noptions := noptions opts + (wire_count prev os - length os)\<rparr>,
       out @ wire_opts prev os, left - length (wire_opts prev os))"
    and "\<not> length (wire_opts prev os) \<le> left \<Longrightarrow> fst (encode_loop opts out prev left os) = C_ERR"
  using assms
proof (induction os arbitrary: prev opts out left)
  case Nil
  case 1 then show ?case by simp
next
  case Nil
  case 2 then show ?case by simp
next
  case (Cons o' os)
  let ?c = "opt_number o'" and ?n = "\<lambda>prev. length (fencepost_bytes prev (opt_number o'))"
  have r: "full_opt o'" "prev \<le> ?c" "wire_ready ?c os" if "wire_ready prev (o' # os)" for prev
    using that by auto
  have step: "encode_loop opts out prev left (o' # os) =
      (if length (wire_one prev o') > left then (C_ERR, opts, out, left)
       else encode_loop (opts\<lparr>noptions := noptions opts + ?n prev\<rparr>) (out @ wire_one prev o') ?c
         (left - length (wire_one prev o')) os)" if "wire_ready prev (o' # os)" for prev opts out left
  proof -
    note r = r [OF that]
    have c: "1 \<le> ?c" "?c < 28" "?c - prev > 14 \<Longrightarrow> prev < 14"
      using full_opt_number [OF r(1)] by auto
    have "(if o_l o' > 14 then 2 else 1) + o_l o' + fenceposts_encsz ?c prev = length (wire_one prev o')"
      using r(1) fenceposts_encsz_eq [OF r(2) c(2,3)] by (simp add: length_wire_one full_opt_def)
    then show ?thesis
      using c(1) encode_one_eq [OF r(2) c(2,3) refl] by (simp add: Let_def)
  qed
  note cnt = wire_count_ge [of os ?c]
  {
    case 1
    then show ?case
      using step [OF 1(2)] r [OF 1(2)] Cons.IH(1) [of ?c "left - length (wire_one prev o')"] cnt
      by (simp add: ac_simps)
  next
    case 2
    then show ?case
      using step [OF 2(2)] r [OF 2(2)] Cons.IH(2) [of ?c "left - length (wire_one prev o')"]
      by auto
  }
qed

text \<open>A well-formed bundle is ready, when no option without a value announces a length.\<close>

definition sendable :: "ec_opts \<Rightarrow> bool" where
  "sendable opts \<longleftrightarrow> wf_opts opts \<and> (\<forall>o' \<in> set (opts_bundle opts). full_opt o')"

lemma wire_ready_sorted:
  assumes "sorted (map o_sym os)" and "\<forall>o' \<in> set os. full_opt o'"
    and "os \<noteq> [] \<Longrightarrow> prev \<le> opt_number (hd os)"
  shows "wire_ready prev os"
  using assms
proof (induction os arbitrary: prev)
  case Nil
  then show ?case by simp
next
  case (Cons o' os)
  have "opt_number o' \<le> opt_number (hd os)" if "os \<noteq> []"
    using that Cons.prems(1,2)
    by (intro sym2num_mono_le wf_opt_valid) (auto simp: full_opt_def)
  with Cons show ?case by auto
qed

lemma sendable_ready: "sendable opts \<Longrightarrow> wire_ready 0 (opts_bundle opts)"
  unfolding sendable_def wf_opts_def by (intro wire_ready_sorted) auto

definition wire_of :: "ec_opts \<Rightarrow> byte list" where
  "wire_of opts = wire_opts 0 (opts_bundle opts)"

lemma ec_opts_encode_sendable:
  assumes "sendable opts" and "length (wire_of opts) \<le> EC_OPTS_MAX_LEN"
  shows "ec_opts_encode opts = (C_OK, (write_enc opts (wire_of opts))
    \<lparr>enc_sz := length (wire_of opts), noptions := wire_count 0 (opts_bundle opts)\<rparr>)"
proof -
  have "noptions opts = length (opts_bundle opts)"
    using assms(1) by (simp add: sendable_def wf_opts_def)
  then show ?thesis
    using encode_loop_eq(1) [OF sendable_ready [OF assms(1)], of EC_OPTS_MAX_LEN] assms(2)
      wire_count_ge [of "opts_bundle opts" 0]
    by (simp add: ec_opts_encode_def wire_of_def write_enc_def)
qed

lemma ec_opts_encode_too_long:
  assumes "sendable opts" and "\<not> length (wire_of opts) \<le> EC_OPTS_MAX_LEN"
  shows "fst (ec_opts_encode opts) = C_ERR"
proof -
  have "fst (encode_loop (opts\<lparr>enc_sz := EC_OPTS_MAX_LEN\<rparr>) [] 0 EC_OPTS_MAX_LEN (opts_bundle opts)) = C_ERR"
    using encode_loop_eq(2) [OF sendable_ready [OF assms(1)]] assms(2) by (simp add: wire_of_def)
  then show ?thesis by (auto simp: ec_opts_encode_def split: prod.splits crc.splits)
qed

lemma write_enc_take:
  "length out \<le> length (enc opts) \<Longrightarrow> take (length out) (enc (write_enc opts out)) = out"
  by (simp add: write_enc_def)

subsection \<open>The decoder reads the abstract encoding\<close>

lemma read_byte_at [simp]: "length pre = p \<Longrightarrow> read_byte (pre @ b # rest) p = Done b"
  by (auto simp: read_byte_def)

lemma decode_fencepost:
  assumes "prev < 14" and "length pre = p"
  shows "decode_loop (pre @ push_bit 4 (of_nat (14 - prev)) # rest) (Suc n) p prev opts =
    decode_loop (pre @ push_bit 4 (of_nat (14 - prev)) # rest) n (p + 1) 14 opts"
proof -
  let ?b = "push_bit 4 (of_nat (14 - prev)) :: byte"
  have b: "unat ?b = 16 * (14 - prev)" using unat_shift_or [of "14 - prev" 0] assms(1) by simp
  have "unat (drop_bit 4 ?b) = 14 - prev" "unat (?b AND 0x0f) = 0"
    by (simp_all only: unat_drop_bit4 unat_and_15 b) simp_all
  with assms show ?thesis
    by (simp add: decode_one_def num2sym_14 opt_known_def read_opt_len_def)
qed

lemma unat_head:
  assumes "d < 15" and "l < 16"
  shows "unat (drop_bit 4 (push_bit 4 (of_nat d) OR of_nat l :: byte)) = d"
    and "unat ((push_bit 4 (of_nat d) OR of_nat l :: byte) AND 0x0f) = l"
  using assms by (simp_all only: unat_drop_bit4 unat_and_15 unat_shift_or) simp_all

lemma read_opt_len_head:
  assumes "d < 15" and "l \<le> EC_COAP_OPT_LEN_MAX" and "length pre = p"
  shows "\<exists>b. head_bytes d l @ rest = b # tl (head_bytes d l) @ rest \<and> unat (drop_bit 4 b) = d \<and>
    read_opt_len (pre @ head_bytes d l @ rest) p b = Done l"
proof (cases "l > 14")
  case True
  have "unat (of_nat (l - 15) :: byte) = l - 15" using assms(2) by (simp add: unat_of_nat_byte)
  moreover have "read_byte (pre @ b # b1 # rest) (p + 1) = Done b1" for b b1
    using read_byte_at [of "pre @ [b]" "p + 1" b1 rest] assms(3) by simp
  ultimately show ?thesis
    using True unat_head [OF assms(1), of 15] by (simp add: head_bytes_def read_opt_len_def)
next
  case False
  then show ?thesis
    using unat_head [OF assms(1), of l] by (simp add: head_bytes_def read_opt_len_def)
qed

text \<open>
  The decoder skips one byte instead of two after an extended length of exactly 15, so
  the options it reads back are those of any other length.
\<close>

definition readable_opt :: "ec_opt \<Rightarrow> bool" where
  "readable_opt o' \<longleftrightarrow> full_opt o' \<and> o_l o' \<noteq> 15"

lemma decode_option:
  assumes "readable_opt o'" and "prev \<le> opt_number o'" and "opt_number o' - prev < 15" and "length pre = p"
    and "noptions opts < EC_PROTO_MAX_OPTIONS" and "\<forall>x \<in> set (opts_bundle opts). o_sym x \<le> o_sym o'"
  shows "decode_loop (pre @ head_bytes (opt_number o' - prev) (o_l o') @ opt_bytes o' @ rest) (Suc n) p prev opts =
    decode_loop (pre @ head_bytes (opt_number o' - prev) (o_l o') @ opt_bytes o' @ rest) n
      (p + length (head_bytes (opt_number o' - prev) (o_l o') @ opt_bytes o')) (opt_number o')
      (opts\<lparr>opts_bundle := opts_bundle opts @ [o'], noptions := noptions opts + 1\<rparr>)"
proof -
  let ?h = "head_bytes (opt_number o' - prev) (o_l o')"
  have w: "wf_opt o'" "length (opt_bytes o') = o_l o'" "o_l o' \<noteq> 15"
    using assms(1) by (auto simp: readable_opt_def full_opt_def)
  have v: "EC_OPT_SYM_VALID (o_sym o')" using w(1) by (rule wf_opt_valid)
  then have sy: "ec_opt_num2sym (opt_number o') = o_sym o'" "opt_known (o_sym o')"
    by (simp_all add: opt_known_def sym_valid_cases)
  have l: "o_l o' \<le> EC_COAP_OPT_LEN_MAX" using w(1) by (simp add: wf_opt_def)
  obtain b where b: "?h @ opt_bytes o' @ rest = b # tl ?h @ opt_bytes o' @ rest"
    "unat (drop_bit 4 b) = opt_number o' - prev"
    "read_opt_len (pre @ ?h @ opt_bytes o' @ rest) p b = Done (o_l o')"
    using read_opt_len_head [OF assms(3) l assms(4), of "opt_bytes o' @ rest"] by blast
  have rb: "read_byte (pre @ ?h @ opt_bytes o' @ rest) p = Done b"
    unfolding b(1) using assms(4) by simp
  have hl: "length ?h = (if o_l o' > 15 then 2 else 1)" using w(3) by (simp add: head_bytes_def)
  have dr: "drop (p + length ?h) (pre @ ?h @ opt_bytes o' @ rest) = opt_bytes o' @ rest"
    using assms(4) by simp
  have add: "ec_opts_add opts (o_sym o') (opt_bytes o' @ rest) (o_l o') =
      (C_OK, opts\<lparr>opts_bundle := opts_bundle opts @ [o'], noptions := noptions opts + 1\<rparr>)"
    using ec_opt_new_of_wf [OF w(1), of rest] assms(5) ob.ins_last [OF assms(6)]
    by (simp add: ec_opts_add_def ec_opts_push_def)
  have fp: "\<not> EC_OPT_NUM_IS_FENCEPOST (opt_number o')" using v by (rule sym2num_not_fencepost)
  show ?thesis
    using sy fp add w(2) hl dr assms(2,4) b(2,3) rb
    by (simp add: decode_one_def Let_def)
qed

definition appended :: "ec_opts \<Rightarrow> ec_opt list \<Rightarrow> ec_opts" where
  "appended opts os =
     opts\<lparr>opts_bundle := opts_bundle opts @ os, noptions := noptions opts + length os\<rparr>"

lemma appended_appended [simp]: "appended (appended opts os) os' = appended opts (os @ os')"
  by (simp add: appended_def)

lemma appended_Nil [simp]: "appended opts [] = opts"
  by (simp add: appended_def)

lemma decode_wire_one:
  assumes "readable_opt o'" and "prev \<le> opt_number o'" and "length pre = p"
    and "noptions opts < EC_PROTO_MAX_OPTIONS" and "\<forall>x \<in> set (opts_bundle opts). o_sym x \<le> o_sym o'"
  shows "decode_loop (pre @ wire_one prev o' @ rest)
      (length (fencepost_bytes prev (opt_number o')) + 1 + n) p prev opts =
    decode_loop (pre @ wire_one prev o' @ rest) n (p + length (wire_one prev o')) (opt_number o')
      (appended opts [o'])"
proof -
  let ?c = "opt_number o'"
  have c: "?c \<le> 23" using full_opt_number assms(1) by (simp add: readable_opt_def)
  show ?thesis
  proof (cases "?c - prev > 14")
    case True
    let ?f = "push_bit 4 (of_nat (14 - prev)) :: byte"
    let ?r = "head_bytes (?c - 14) (o_l o') @ opt_bytes o' @ rest"
    have w: "wire_one prev o' @ rest = ?f # ?r"
      using True by (simp add: wire_one_def fencepost_bytes_def last_number_def)
    have "decode_loop (pre @ ?f # ?r) (Suc (Suc n)) p prev opts =
        decode_loop ((pre @ [?f]) @ ?r) (Suc n) (p + 1) 14 opts"
      using decode_fencepost [OF _ assms(3)] True c by simp
    also have "\<dots> = decode_loop ((pre @ [?f]) @ ?r) n
        (p + 1 + length (head_bytes (?c - 14) (o_l o') @ opt_bytes o')) ?c (appended opts [o'])"
      using True c assms by (subst decode_option) (simp_all add: appended_def)
    finally show ?thesis
      unfolding w using True by (simp add: wire_one_def fencepost_bytes_def last_number_def)
  next
    case False
    then have w: "wire_one prev o' @ rest = head_bytes (?c - prev) (o_l o') @ opt_bytes o' @ rest"
      by (simp add: wire_one_def fencepost_bytes_def last_number_def)
    from False show ?thesis
      unfolding w using decode_option [OF assms(1,2) _ assms(3-5), of rest n]
      by (simp add: appended_def wire_one_def fencepost_bytes_def last_number_def)
  qed
qed

lemma decode_wire:
  assumes "wire_ready prev os" and "\<forall>o' \<in> set os. readable_opt o'" and "sorted (map o_sym os)"
    and "\<forall>x \<in> set (opts_bundle opts). \<forall>o' \<in> set os. o_sym x \<le> o_sym o'"
    and "noptions opts + length os \<le> EC_PROTO_MAX_OPTIONS" and "length pre = p"
  shows "decode_loop (pre @ wire_opts prev os @ rest) (wire_count prev os) p prev opts =
    Done (EC_RC_UNSET, appended opts os, p + length (wire_opts prev os) - EC_COAP_HDR_SIZE)"
  using assms
proof (induction os arbitrary: prev opts pre p)
  case Nil
  then show ?case by simp
next
  case (Cons o' os)
  let ?c = "opt_number o'" and ?w = "wire_one prev o'"
  have "decode_loop (pre @ ?w @ wire_opts ?c os @ rest) (wire_count prev (o' # os)) p prev opts =
      decode_loop (pre @ ?w @ wire_opts ?c os @ rest) (wire_count ?c os) (p + length ?w) ?c (appended opts [o'])"
    unfolding wire_count.simps using Cons.prems by (intro decode_wire_one) auto
  also have "\<dots> = decode_loop ((pre @ ?w) @ wire_opts ?c os @ rest) (wire_count ?c os) (p + length ?w) ?c (appended opts [o'])"
    by simp
  also have "\<dots> = Done (EC_RC_UNSET, appended (appended opts [o']) os,
      p + length ?w + length (wire_opts ?c os) - EC_COAP_HDR_SIZE)"
    using Cons.prems by (intro Cons.IH) (auto simp: appended_def)
  finally show ?case by simp
qed

definition readable :: "ec_opts \<Rightarrow> bool" where
  "readable opts \<longleftrightarrow> wf_opts opts \<and> (\<forall>o' \<in> set (opts_bundle opts). readable_opt o')"

lemma readable_sendable: "readable opts \<Longrightarrow> sendable opts"
  by (auto simp: readable_def sendable_def readable_opt_def)

lemma decode_wire_of:
  assumes "readable opts" and "length hdr = EC_COAP_HDR_SIZE" and "EC_COAP_HDR_SIZE \<le> sz"
  shows "ec_opts_decode ec_opts_init (hdr @ wire_of opts @ rest) sz (wire_count 0 (opts_bundle opts)) =
    Done (EC_RC_UNSET, appended ec_opts_init (opts_bundle opts), length (wire_of opts))"
proof (cases "opts_bundle opts = []")
  case True
  with assms(3) show ?thesis by (simp add: ec_opts_decode_def wire_of_def)
next
  case False
  have "wire_count 0 (opts_bundle opts) \<noteq> 0"
    using wire_count_ge [of "opts_bundle opts" 0] False by (metis le_zero_eq length_0_conv)
  moreover have "decode_loop (hdr @ wire_of opts @ rest) (wire_count 0 (opts_bundle opts))
      EC_COAP_HDR_SIZE 0 ec_opts_init =
    Done (EC_RC_UNSET, appended ec_opts_init (opts_bundle opts),
      EC_COAP_HDR_SIZE + length (wire_opts 0 (opts_bundle opts)) - EC_COAP_HDR_SIZE)"
    unfolding wire_of_def
    using assms(1,2) sendable_ready [OF readable_sendable [OF assms(1)]]
    by (intro decode_wire) (auto simp: readable_def wf_opts_def ec_opts_init_def)
  ultimately show ?thesis
    using assms(3) by (simp add: ec_opts_decode_def wire_of_def)
qed

text \<open>Each option occupies at most 272 bytes, which bounds what the decoder may touch.\<close>

lemma read_opt_len_le: "read_opt_len pdu p b = Done l \<Longrightarrow> l \<le> 270"
proof -
  assume r: "read_opt_len pdu p b = Done l"
  have "unat c \<le> 255" for c :: byte using unat_byte_lt [of c] by linarith
  moreover have "unat (b AND 15) \<le> 15" using unat_and_15 [of b] by simp
  ultimately show ?thesis
    using r by (auto simp: read_opt_len_def run_bind_Done_iff read_byte_def split: if_splits)
qed

lemma read_opt_len_done: "p + 2 \<le> length pdu \<Longrightarrow> \<exists>l. read_opt_len pdu p b = Done l"
  by (auto simp: read_opt_len_def read_byte_def)

lemma ec_opt_new_wf_copies:
  "ec_opt_new sy l v = Some o' \<Longrightarrow> (opt_new_copies sy l \<Longrightarrow> l \<le> length v) \<Longrightarrow> wf_opt o'"
  by (cases "opt_new_copies sy l")
    (auto simp: ec_opt_new_wf, auto simp: ec_opt_new_def opt_new_copies_def wf_opt_def
      split: if_splits ec_opt_type.splits)

lemma ec_opts_add_wf_copies:
  "wf_opts opts \<Longrightarrow> (opt_new_copies sy l \<Longrightarrow> l \<le> length v) \<Longrightarrow> wf_opts (snd (ec_opts_add opts sy v l))"
  by (auto simp: ec_opts_add_def split: option.splits intro!: ec_opts_push_wf ec_opt_new_wf_copies)

lemma decode_one_wf:
  "decode_one pdu p num opts = Done r \<Longrightarrow> wf_opts opts \<Longrightarrow>
   (case r of Dec_stop rc opts' \<Rightarrow> wf_opts opts' | Dec_next p' num' opts' \<Rightarrow> wf_opts opts')"
proof -
  assume d: "decode_one pdu p num opts = Done r" and w: "wf_opts opts"
  have add: "wf_opts opts'"
    if "ec_opts_add opts sy (drop q pdu) l = (c, opts')" "\<not> (opt_new_copies sy l \<and> length pdu < q + l)"
    for sy q l c opts'
    using ec_opts_add_wf_copies [OF w, of sy l "drop q pdu"] that by auto
  show ?thesis
    using d w
    by (auto simp: decode_one_def run_bind_Done_iff Let_def split: if_splits prod.splits crc.splits
        dest!: add)
qed

lemma decode_one_next:
  "decode_one pdu p num opts = Done (Dec_next p' num' opts') \<Longrightarrow> p' \<le> p + 272"
  by (auto simp: decode_one_def run_bind_Done_iff Let_def split: if_splits prod.splits crc.splits
      dest!: read_opt_len_le)

lemma decode_one_done:
  assumes "p + 272 \<le> length pdu" shows "\<exists>r. decode_one pdu p num opts = Done r"
proof -
  have b: "read_byte pdu p = Done (pdu ! p)" using assms by (simp add: read_byte_def)
  obtain l where l: "read_opt_len pdu p (pdu ! p) = Done l"
    using read_opt_len_done [of p pdu] assms by auto
  then have "l \<le> 270" by (rule read_opt_len_le)
  with assms b l show ?thesis
    by (auto simp: decode_one_def Let_def split: prod.splits crc.splits)
qed

lemma decode_loop_no_fault:
  "p + 272 * n \<le> length pdu \<Longrightarrow> decode_loop pdu n p num opts \<noteq> Fault e"
proof (induction n arbitrary: p num opts)
  case 0
  then show ?case by simp
next
  case (Suc n)
  obtain r where r: "decode_one pdu p num opts = Done r"
    using decode_one_done [of p pdu] Suc.prems by auto
  show ?case
  proof (cases r)
    case (Dec_next p' num' opts')
    then have "p' \<le> p + 272" using r by (auto intro: decode_one_next)
    then have "decode_loop pdu n p' num' opts' \<noteq> Fault e" using Suc.prems by (intro Suc.IH) simp
    with r Dec_next show ?thesis by simp
  qed (simp add: r)
qed

lemma decode_no_fault:
  "EC_COAP_HDR_SIZE + 272 * oc \<le> length pdu \<Longrightarrow> ec_opts_decode opts pdu sz oc \<noteq> Fault e"
  using decode_loop_no_fault [of EC_COAP_HDR_SIZE oc pdu 0 opts] by (simp add: ec_opts_decode_def)

lemma decode_loop_wf:
  "decode_loop pdu n p num opts = Done (rc, opts', olen) \<Longrightarrow> wf_opts opts \<Longrightarrow> wf_opts opts'"
proof (induction n arbitrary: p num opts)
  case 0
  then show ?case by simp
next
  case (Suc n)
  from Suc.prems(1) obtain r where r: "decode_one pdu p num opts = Done r"
    by (auto simp: run_bind_Done_iff)
  then show ?case
    using decode_one_wf [OF r Suc.prems(2)] Suc by (cases r) auto
qed

lemma ec_opts_decode_wf:
  "ec_opts_decode opts pdu sz oc = Done (rc, opts', olen) \<Longrightarrow> wf_opts opts \<Longrightarrow> wf_opts opts'"
  by (auto simp: ec_opts_decode_def dest: decode_loop_wf split: if_splits)

text \<open>What an extended length of exactly 15 is read as.\<close>

lemma decode_len_15:
  assumes "d < 15" and "length pre = p" and "length v = 15" and "v' = 0 # take 14 v"
    and "ec_opt_num2sym (prev + d) = sy" and "opt_known sy"
  shows "decode_loop (pre @ head_bytes d 15 @ v @ rest) (Suc n) p prev opts =
    (case ec_opts_add opts sy (v' @ drop 14 v @ rest) 15 of
       (C_ERR, opts') \<Rightarrow> Done (EC_INTERNAL_SERVER_ERROR, opts', 0)
     | (C_OK, opts') \<Rightarrow> decode_loop (pre @ head_bytes d 15 @ v @ rest) n (p + 16) (prev + d) opts')"
proof -
  define m where "m = pre @ head_bytes d 15 @ v @ rest"
  obtain b where b: "head_bytes d 15 @ v @ rest = b # tl (head_bytes d 15) @ v @ rest"
    "unat (drop_bit 4 b) = d" "read_opt_len m p b = Done 15"
    unfolding m_def using read_opt_len_head [OF assms(1) _ assms(2), of 15 "v @ rest"] by auto
  have rb: "read_byte m p = Done b"
    unfolding m_def b(1) using assms(2) by simp
  have dr: "drop (Suc p) m = v' @ drop 14 v @ rest"
    using assms(2) by (simp add: m_def head_bytes_def assms(4))
  have len: "\<not> length m < p + 16"
    using assms(2,3) by (simp add: m_def head_bytes_def)
  show ?thesis
    unfolding m_def [symmetric] using rb b(2,3) dr len assms(5,6)
    by (simp add: decode_one_def Let_def add.commute [of p] split: prod.split crc.split)
qed

end
