(* ===== verification/Opt_Spec.thy ===== *)
theory Opt_Spec
  imports Opt_Api Opt_Codec
begin

text \<open>
  The properties of the option subsystem: the bundle as a refinement of a map from symbols
  to lists of values, its invariant, fragmentation, the integer and block codecs, and the
  round trip through the wire format with its two defects (values of 15 bytes, and reading
  past the received message).
\<close>

subsection \<open>The bundle as a multimap\<close>

definition abs_opts :: "ec_opts \<Rightarrow> ec_opt_sym \<Rightarrow> byte list list" where
  "abs_opts opts sy = map opt_bytes (opts_of opts sy)"

definition abs_add ::
    "(ec_opt_sym \<Rightarrow> byte list list) \<Rightarrow> ec_opt_sym \<Rightarrow> byte list \<Rightarrow> ec_opt_sym \<Rightarrow> byte list list" where
  "abs_add m sy v = m(sy := m sy @ [v])"

lemma ec_opts_add_abs:
  assumes "ec_opts_add opts sy v l = (C_OK, opts')" and "wf_opts opts" and "l \<le> length v"
    and "ec_opt_sym2type sy \<noteq> EC_OPT_TYPE_EMPTY"
  shows "abs_opts opts' = abs_add (abs_opts opts) sy (take l v)"
proof
  fix k
  obtain o' where n: "ec_opt_new sy l v = Some o'" using assms(1) by (rule ec_opts_add_Some)
  then have "opt_bytes o' = take l v" using assms(3,4) by (rule_tac ec_opt_new_bytes)
  then show "abs_opts opts' k = abs_add (abs_opts opts) sy (take l v) k"
    using ec_opts_add_opts_of [OF assms(1,2), of k] n by (simp add: abs_opts_def abs_add_def)
qed

text \<open>A concrete bundle for the witnesses: Uri-Host \<^verbatim>\<open>"a"\<close> and Publish 1, added in the wrong order.\<close>

definition demo_opts :: ec_opts where
  "demo_opts = snd (ec_opts_add (snd (ec_opts_add ec_opts_init EC_OPT_PUBLISH [1] 1)) EC_OPT_URI_HOST [97] 1)"

lemma demo_opts_eq:
  "demo_opts = ec_opts_init\<lparr>noptions := 2, opts_bundle :=
    [\<lparr>o_sym = EC_OPT_URI_HOST, o_t = EC_OPT_TYPE_STRING, o_l = 1, o_v = Some [97, 0]\<rparr>,
     \<lparr>o_sym = EC_OPT_PUBLISH, o_t = EC_OPT_TYPE_UINT, o_l = 1, o_v = Some [1]\<rparr>]\<rparr>"
  by (simp add: demo_opts_def ec_opts_add_def ec_opt_new_def ec_opts_push_def bundle_insert_def
      ec_opts_init_def opt_table_defs)

lemma demo_opts_readable: "readable demo_opts"
  by (simp add: demo_opts_eq readable_def readable_opt_def full_opt_def wf_opts_def wf_opt_def
      opt_bytes_def ec_opts_init_def opt_table_defs)

lemma demo_opts_wf: "wf_opts demo_opts"
  using demo_opts_readable by (simp add: readable_def)

text \<open>C8: Adding an option succeeds exactly when its value is at most 270 bytes long, its
  symbol is valid and a slot is free; it then refines appending the value to the list of its
  symbol. In every case the bundle stays well formed (sorted by symbol, values of the right
  type and size, an exact count of at most 15), and a failed addition changes nothing.\<close>

theorem ec_opts_add_refines:
  assumes "wf_opts opts" and "l \<le> length v" and "ec_opt_sym2type sy \<noteq> EC_OPT_TYPE_EMPTY"
    and "ec_opts_add opts sy v l = (rc, opts')"
  shows "(rc = C_OK \<longleftrightarrow> l \<le> EC_COAP_OPT_LEN_MAX \<and> EC_OPT_SYM_VALID sy \<and> noptions opts < EC_PROTO_MAX_OPTIONS) \<and>
    wf_opts opts' \<and>
    abs_opts opts' = (if rc = C_OK then abs_add (abs_opts opts) sy (take l v) else abs_opts opts) \<and>
    (rc = C_ERR \<longrightarrow> opts' = opts)"
proof -
  have "noptions opts \<le> EC_PROTO_MAX_OPTIONS" using assms(1) by (simp add: wf_opts_def)
  then show ?thesis
    using ec_opts_add_ok_iff [of opts sy v l] ec_opts_add_wf [OF assms(1,2), of sy] assms
      ec_opts_add_err [of opts sy v l] ec_opts_add_abs [of opts sy v l]
    by (cases rc) auto
qed

theorem ec_opts_add_refines_witness:
  "ec_opts_add demo_opts EC_OPT_URI_PATH [98, 99, 7] 2 = (C_OK, snd (ec_opts_add demo_opts EC_OPT_URI_PATH [98, 99, 7] 2)) \<and>
   abs_opts (snd (ec_opts_add demo_opts EC_OPT_URI_PATH [98, 99, 7] 2)) EC_OPT_URI_PATH = [[98, 99]]"
proof -
  let ?r = "ec_opts_add demo_opts EC_OPT_URI_PATH [98, 99, 7] 2"
  have e: "ec_opts_add demo_opts EC_OPT_URI_PATH [98, 99, 7] 2 = (fst ?r, snd ?r)" by simp
  have n: "noptions demo_opts = 2" by (simp add: demo_opts_eq)
  have a: "abs_opts demo_opts EC_OPT_URI_PATH = []"
    by (simp add: demo_opts_eq abs_opts_def opts_of_def opt_bytes_def)
  show ?thesis
    using ec_opts_add_refines [OF demo_opts_wf _ _ e] a n
    by (simp add: abs_add_def opt_table_defs prod_eq_iff)
qed

text \<open>A value of any length is stored: it is cut into fragments of 270 bytes whose
  concatenation extends the value of its symbol, no other symbol is touched, and the
  call fails, without changing the bundle, exactly when the fragments do not fit in the
  15 slots.\<close>

theorem ec_opts_add_raw_fragments:
  assumes "wf_opts opts" and "EC_OPT_SYM_VALID sy" and "ec_opt_sym2type sy \<noteq> EC_OPT_TYPE_EMPTY"
    and "l \<le> length v"
  shows "if noptions opts + slots_needed l \<le> EC_PROTO_MAX_OPTIONS
    then \<exists>opts'. ec_opts_add_raw opts sy v l = (C_OK, opts') \<and> wf_opts opts' \<and>
           noptions opts' = noptions opts + slots_needed l \<and>
           concat (abs_opts opts' sy) = concat (abs_opts opts sy) @ take l v \<and>
           (\<forall>k. k \<noteq> sy \<longrightarrow> abs_opts opts' k = abs_opts opts k)
    else ec_opts_add_raw opts sy v l = (C_ERR, opts)"
  using ec_opts_add_raw_extends [OF assms(1,2,4)] ec_opts_add_raw_full [of opts l sy v] assms(3)
  by (auto simp: opts_extended_def opts_value_def abs_opts_def not_le)

theorem ec_opts_add_raw_fragments_witness:
  "\<exists>opts'. ec_opts_add_raw ec_opts_init EC_OPT_PROXY_URI (replicate 600 65) 600 = (C_OK, opts') \<and>
    wf_opts opts' \<and> noptions opts' = 3 \<and> concat (abs_opts opts' EC_OPT_PROXY_URI) = replicate 600 65"
proof -
  have "EC_OPT_SYM_VALID EC_OPT_PROXY_URI" "ec_opt_sym2type EC_OPT_PROXY_URI \<noteq> EC_OPT_TYPE_EMPTY"
    by (simp_all add: opt_table_defs)
  moreover have "slots_needed 600 = 3" by (simp add: slots_needed_def)
  moreover have "noptions ec_opts_init = 0" "abs_opts ec_opts_init EC_OPT_PROXY_URI = []"
    by (simp_all add: ec_opts_init_def abs_opts_def opts_of_def)
  ultimately show ?thesis
    using ec_opts_add_raw_fragments [OF wf_opts_init, of EC_OPT_PROXY_URI 600 "replicate 600 65"] by auto
qed

subsection \<open>Unsigned integers and blocks\<close>

text \<open>Encoding an unsigned integer never fails on the 8-byte buffer of the callers, gives
  the shortest byte string that holds the value, and decoding it returns the value, on hosts
  of either endianness.\<close>

theorem uint_codec:
  "\<exists>e. ec_opt_encode_uint le ui 8 = Some e \<and> length e \<le> 8 \<and>
     unat ui < 256 ^ length e \<and> (e = [] \<or> 256 ^ (length e - 1) \<le> unat ui) \<and>
     ec_opt_decode_uint le e (length e) = Some ui"
proof -
  obtain e where e: "ec_opt_encode_uint le ui 8 = Some e" using encode_uint_total by blast
  have "length e \<le> 8" using encode_uint_length [OF e] pick_size_range [of ui] by simp
  with e show ?thesis
    using encode_uint_minimal [OF e] encode_decode_uint [OF e, of "[]"] by auto
qed

text \<open>On a little-endian host the encoding is in network byte order, most significant byte
  first, as the protocol requires; without that switch the bytes are in the reverse order.\<close>

theorem uint_byte_order:
  "ec_opt_encode_uint False ui 8 = map_option rev (ec_opt_encode_uint True ui 8)"
proof (cases "ui = 0")
  case True
  then show ?thesis by (simp add: ec_opt_encode_uint_def)
next
  case False
  have "\<not> 8 < pick_size 0 ui_bytes ui" using pick_size_range [of ui] by simp
  with False show ?thesis
    by (auto simp: ec_opt_encode_uint_def Let_def rev_nth intro!: nth_equalityI)
qed



subsection \<open>The wire format\<close>

lemma encode_decode_readable:
  assumes "readable opts" and "length (enc opts) = EC_OPTS_MAX_LEN" and "ec_opts_encode opts = (C_OK, opts')"
    and "length hdr = EC_COAP_HDR_SIZE" and "EC_COAP_HDR_SIZE \<le> sz"
  shows "\<exists>decoded. ec_opts_decode ec_opts_init (hdr @ take (enc_sz opts') (enc opts') @ payload) sz (noptions opts') =
      Done (EC_RC_UNSET, decoded, enc_sz opts') \<and>
    opts_bundle decoded = opts_bundle opts \<and> wf_opts decoded"
proof -
  have s: "sendable opts" by (rule readable_sendable [OF assms(1)])
  then have fits: "length (wire_of opts) \<le> EC_OPTS_MAX_LEN"
    using ec_opts_encode_too_long [OF s] assms(3) by (metis crc.distinct(1) fst_conv)
  then have o: "opts' = (write_enc opts (wire_of opts))
      \<lparr>enc_sz := length (wire_of opts), noptions := wire_count 0 (opts_bundle opts)\<rparr>"
    using ec_opts_encode_sendable [OF s] assms(3) by simp
  have "take (length (wire_of opts)) (enc (write_enc opts (wire_of opts))) = wire_of opts"
    using fits assms(2) by (intro write_enc_take) simp
  then have t: "take (enc_sz opts') (enc opts') = wire_of opts" by (simp add: o)
  let ?d = "appended ec_opts_init (opts_bundle opts)"
  have "wf_opts ?d" using assms(1) by (auto simp: readable_def wf_opts_def appended_def ec_opts_init_def)
  moreover have "opts_bundle ?d = opts_bundle opts" by (simp add: appended_def ec_opts_init_def)
  ultimately show ?thesis
    using decode_wire_of [OF assms(1,4,5)] unfolding t by (auto simp: o)
qed

lemma encode_readable_fits:
  assumes "readable opts" and "ec_opts_encode opts = (C_OK, opts')" and "length (enc opts) = EC_OPTS_MAX_LEN"
  shows "opts_bundle opts' = opts_bundle opts \<and> length (enc opts') = EC_OPTS_MAX_LEN \<and> enc_sz opts' \<le> EC_OPTS_MAX_LEN"
proof -
  have s: "sendable opts" by (rule readable_sendable [OF assms(1)])
  then have fits: "length (wire_of opts) \<le> EC_OPTS_MAX_LEN"
    using ec_opts_encode_too_long [OF s] assms(2) by (metis crc.distinct(1) fst_conv)
  with ec_opts_encode_sendable [OF s fits] assms(2,3) show ?thesis
    by (auto simp: write_enc_def)
qed

text \<open>C10: What the encoder writes, the decoder reads back: the same options in the same
  order, and the exact number of bytes. This holds for every well-formed bundle whose values
  are not 15 bytes long and whose empty options have length 0, whatever follows on the wire.\<close>

theorem options_roundtrip:
  assumes "readable opts" and "length (enc opts) = EC_OPTS_MAX_LEN" and "ec_opts_encode opts = (C_OK, opts')"
    and "length hdr = EC_COAP_HDR_SIZE" and "EC_COAP_HDR_SIZE \<le> sz"
  shows "\<exists>decoded. ec_opts_decode ec_opts_init (hdr @ take (enc_sz opts') (enc opts') @ payload) sz (noptions opts') =
      Done (EC_RC_UNSET, decoded, enc_sz opts') \<and>
    opts_bundle decoded = opts_bundle opts \<and> wf_opts decoded"
  by (rule encode_decode_readable [OF assms])

lemma demo_wire:
  "wire_of demo_opts = [0x51, 97, 0x90, 0x91, 1]" "wire_count 0 (opts_bundle demo_opts) = 3"
  by (simp_all add: demo_opts_eq ec_opts_init_def wire_of_def wire_one_def head_bytes_def fencepost_bytes_def last_number_def opt_bytes_def opt_table_defs)

theorem options_roundtrip_witness:
  "\<exists>opts' decoded. ec_opts_encode demo_opts = (C_OK, opts') \<and>
    ec_opts_decode ec_opts_init ([0x42, 0x01, 0, 7] @ take (enc_sz opts') (enc opts') @ [1, 2]) 9 (noptions opts') =
      Done (EC_RC_UNSET, decoded, enc_sz opts') \<and>
    opts_bundle decoded = opts_bundle demo_opts"
proof -
  have e: "fst (ec_opts_encode demo_opts) = C_OK"
    using ec_opts_encode_sendable [OF readable_sendable [OF demo_opts_readable]]
    by (simp add: demo_wire EC_OPTS_MAX_LEN_def)
  have l: "length (enc demo_opts) = EC_OPTS_MAX_LEN" by (simp add: demo_opts_eq ec_opts_init_def)
  obtain opts' where o: "ec_opts_encode demo_opts = (C_OK, opts')" using e by (metis prod.collapse)
  then show ?thesis
    using options_roundtrip [OF demo_opts_readable l o, of "[0x42, 0x01, 0, 7]" 9 "[1, 2]"] by auto
qed

text \<open>The encoder rejects a bundle of full options exactly when its encoding is longer
  than the 4050-byte buffer, so it never writes past it.\<close>

theorem encode_fits_buffer:
  assumes "sendable opts"
  shows "fst (ec_opts_encode opts) = C_OK \<longleftrightarrow> length (wire_of opts) \<le> EC_OPTS_MAX_LEN"
  using ec_opts_encode_sendable [OF assms] ec_opts_encode_too_long [OF assms] by fastforce

theorem encode_fits_buffer_witness:
  "fst (ec_opts_encode demo_opts) = C_OK \<longleftrightarrow> length (wire_of demo_opts) \<le> EC_OPTS_MAX_LEN"
  by (rule encode_fits_buffer [OF readable_sendable [OF demo_opts_readable]])

lemma decode_single_15:
  assumes "length v = 15" and "EC_OPT_SYM_VALID sy" and "length hdr = EC_COAP_HDR_SIZE"
    and "ec_opts_add ec_opts_init sy (0 # take 14 v @ drop 14 v @ rest) 15 = (C_OK, decoded)"
  defines "n \<equiv> ec_opt_sym2num sy"
  shows "decode_loop (hdr @ fencepost_bytes 0 n @ head_bytes (n - last_number 0 n) 15 @ v @ rest)
      (length (fencepost_bytes 0 n) + 1) EC_COAP_HDR_SIZE 0 ec_opts_init =
    Done (EC_RC_UNSET, decoded, length (fencepost_bytes 0 n) + 16)"
proof -
  have n: "1 \<le> n" "n \<le> 23" using sym2num_range [OF assms(2)] by (simp_all add: n_def)
  have sy: "ec_opt_num2sym n = sy" "opt_known sy"
    using assms(2) by (simp_all add: n_def opt_known_def sym_valid_cases)
  show ?thesis
  proof (cases "n > 14")
    case False
    then show ?thesis
      using decode_len_15 [of n hdr EC_COAP_HDR_SIZE v _ 0 sy rest 0 ec_opts_init] sy assms(1,3,4)
      by (simp add: fencepost_bytes_def last_number_def)
  next
    case True
    let ?f = "push_bit 4 (of_nat 14) :: byte"
    have "decode_loop (hdr @ ?f # head_bytes (n - 14) 15 @ v @ rest) (Suc 1) EC_COAP_HDR_SIZE 0 ec_opts_init =
        decode_loop ((hdr @ [?f]) @ head_bytes (n - 14) 15 @ v @ rest) (Suc 0) 5 14 ec_opts_init"
      using decode_fencepost [of 0 hdr EC_COAP_HDR_SIZE] assms(3) by simp
    also have "\<dots> = Done (EC_RC_UNSET, decoded, 17)"
      using decode_len_15 [of "n - 14" "hdr @ [?f]" 5 v _ 14 sy rest 0 ec_opts_init] sy assms(1,3,4) n True
      by simp
    finally show ?thesis using True by (simp add: fencepost_bytes_def last_number_def)
  qed
qed

text \<open>C11: An option of exactly 15 bytes does not survive the wire: the decoder takes the
  extended length byte as the first byte of the value, drops the last one, and reports one
  byte less than was encoded, so that the payload starts with the value's last byte.\<close>

theorem decode_15_byte_option:
  assumes "length v = 15" and "EC_OPT_SYM_VALID sy" and "ec_opt_sym2type sy \<noteq> EC_OPT_TYPE_EMPTY"
    and "ec_opts_add ec_opts_init sy v 15 = (C_OK, opts)"
    and "length hdr = EC_COAP_HDR_SIZE" and "EC_COAP_HDR_SIZE \<le> sz"
  shows "\<exists>opts' decoded. ec_opts_encode opts = (C_OK, opts') \<and>
    ec_opts_decode ec_opts_init (hdr @ take (enc_sz opts') (enc opts') @ payload) sz (noptions opts') =
      Done (EC_RC_UNSET, decoded, enc_sz opts' - 1) \<and>
    abs_opts opts sy = [v] \<and> abs_opts decoded sy = [0 # take 14 v]"
proof -
  let ?n = "ec_opt_sym2num sy" and ?v' = "0 # take 14 v @ drop 14 v @ payload"
  obtain o' where o: "ec_opt_new sy 15 v = Some o'"
    and opts: "opts = ec_opts_init\<lparr>opts_bundle := bundle_insert o' (opts_bundle ec_opts_init),
      noptions := noptions ec_opts_init + 1\<rparr>"
    using assms(4) by (rule ec_opts_add_Some)
  have w: "wf_opt o'" "o_sym o' = sy" "o_l o' = 15" "opt_bytes o' = v"
    using ec_opt_new_wf [OF o] ec_opt_new_sym [OF o] ec_opt_new_bytes [OF o assms(3)] assms(1) by simp_all
  have b: "opts_bundle opts = [o']" "noptions opts = 1" "length (enc opts) = EC_OPTS_MAX_LEN"
    by (simp_all add: opts bundle_insert_def ec_opts_init_def)
  have s: "sendable opts" using b w assms(1) by (simp add: sendable_def wf_opts_def full_opt_def)
  define h where "h = head_bytes (?n - last_number 0 ?n) 15"
  have hl: "length h = 2" by (simp add: h_def head_bytes_def)
  have wire: "wire_of opts = fencepost_bytes 0 ?n @ h @ v" "wire_count 0 (opts_bundle opts) = length (fencepost_bytes 0 ?n) + 1"
    using b(1) w by (simp_all add: wire_of_def wire_one_def h_def)
  have fits: "length (wire_of opts) \<le> EC_OPTS_MAX_LEN"
    using wire hl assms(1) by (simp add: EC_OPTS_MAX_LEN_def fencepost_bytes_def)
  let ?opts' = "(write_enc opts (wire_of opts))
    \<lparr>enc_sz := length (wire_of opts), noptions := wire_count 0 (opts_bundle opts)\<rparr>"
  have enc: "ec_opts_encode opts = (C_OK, ?opts')" by (rule ec_opts_encode_sendable [OF s fits])
  have t: "take (length (wire_of opts)) (enc (write_enc opts (wire_of opts))) = wire_of opts"
    using fits b(3) by (intro write_enc_take) simp
  obtain decoded where d: "ec_opts_add ec_opts_init sy ?v' 15 = (C_OK, decoded)"
    using ec_opts_add_extends [OF wf_opts_init assms(2), of 15 ?v'] assms(1)
    by (auto simp: ec_opts_init_def)
  have "decode_loop (hdr @ fencepost_bytes 0 ?n @ h @ v @ payload)
      (length (fencepost_bytes 0 ?n) + 1) EC_COAP_HDR_SIZE 0 ec_opts_init =
    Done (EC_RC_UNSET, decoded, length (fencepost_bytes 0 ?n) + 16)"
    unfolding h_def by (rule decode_single_15 [OF assms(1,2,5) d])
  then have "ec_opts_decode ec_opts_init (hdr @ wire_of opts @ payload) sz (wire_count 0 (opts_bundle opts)) =
    Done (EC_RC_UNSET, decoded, length (wire_of opts) - 1)"
    using wire hl assms(1,6) by (simp add: ec_opts_decode_def)
  moreover have "abs_opts decoded sy = [0 # take 14 v]" "abs_opts opts sy = [v]"
    using ec_opts_add_abs [OF d wf_opts_init _ assms(3)] ec_opts_add_abs [OF assms(4) wf_opts_init _ assms(3)] assms(1)
    by (simp_all add: abs_add_def abs_opts_def opts_of_def ec_opts_init_def)
  ultimately show ?thesis using enc t by auto
qed

theorem decode_15_byte_option_witness:
  "\<exists>opts opts' decoded. ec_opts_add ec_opts_init EC_OPT_URI_PATH (replicate 15 97) 15 = (C_OK, opts) \<and>
    ec_opts_encode opts = (C_OK, opts') \<and>
    ec_opts_decode ec_opts_init ([0x41, 0x01, 0, 7] @ take (enc_sz opts') (enc opts') @ []) 21 (noptions opts') =
      Done (EC_RC_UNSET, decoded, enc_sz opts' - 1) \<and>
    abs_opts decoded EC_OPT_URI_PATH = [0 # replicate 14 97]"
proof -
  have v: "EC_OPT_SYM_VALID EC_OPT_URI_PATH" "ec_opt_sym2type EC_OPT_URI_PATH \<noteq> EC_OPT_TYPE_EMPTY"
    by (simp_all add: opt_table_defs)
  obtain opts where o: "ec_opts_add ec_opts_init EC_OPT_URI_PATH (replicate 15 97) 15 = (C_OK, opts)"
    using ec_opts_add_extends [OF wf_opts_init v(1), of 15 "replicate 15 97"]
    by (auto simp: ec_opts_init_def)
  show ?thesis
    using decode_15_byte_option [OF _ v o, of "[0x41, 0x01, 0, 7]" 21 "[]"] o by auto
qed

text \<open>C12: Decoding leaves a well-formed bundle whatever bytes arrive, and reads at most 272
  bytes per announced option past the header: with that much memory behind the message it
  cannot read outside it.\<close>

theorem decode_safe:
  assumes "wf_opts opts" and "EC_COAP_HDR_SIZE + 272 * oc \<le> length pdu"
  shows "\<exists>rc opts' olen. ec_opts_decode opts pdu sz oc = Done (rc, opts', olen) \<and> wf_opts opts'"
proof (cases "ec_opts_decode opts pdu sz oc")
  case (Fault e)
  with decode_no_fault [OF assms(2)] show ?thesis by blast
next
  case (Done r)
  then show ?thesis using ec_opts_decode_wf [of opts pdu sz oc] assms(1) by (cases r) blast
qed

theorem decode_safe_witness:
  "\<exists>rc opts' olen. ec_opts_decode ec_opts_init (replicate 600 255) 600 2 = Done (rc, opts', olen) \<and> wf_opts opts'"
  by (rule decode_safe [OF wf_opts_init]) simp

text \<open>The length of the received message is not consulted past the header: a message that
  announces an option and ends right after its header is read beyond its end.\<close>

theorem decode_past_end:
  "length pdu = EC_COAP_HDR_SIZE \<Longrightarrow> 0 < oc \<Longrightarrow> ec_opts_decode opts pdu (length pdu) oc = Fault Overread"
  by (cases oc) (simp_all add: ec_opts_decode_def decode_one_def read_byte_def)

theorem decode_past_end_witness:
  "ec_opts_decode ec_opts_init [0x41, 0x01, 0, 7] 4 1 = Fault Overread"
  using decode_past_end [of "[0x41, 0x01, 0, 7]" 1] by (simp add: numeral_eq_Suc)

text \<open>An option with an unassigned odd number (a critical one) makes the decoder stop with
  4.02 (Bad Option); an unassigned even one (elective) is skipped without a trace.\<close>

theorem decode_unknown_option:
  assumes "p + 272 \<le> length pdu" and "num = opt_num + unat (drop_bit 4 (pdu ! p))" and "ec_opt_num2sym num = EC_OPT_NONE"
  shows "if odd num then decode_loop pdu (Suc n) p opt_num opts = Done (EC_BAD_OPTION, opts, 0)
    else \<exists>p'. p < p' \<and> p' \<le> p + 272 \<and> decode_loop pdu (Suc n) p opt_num opts = decode_loop pdu n p' num opts"
proof -
  obtain l where l: "read_opt_len pdu p (pdu ! p) = Done l" "l \<le> 270"
    using read_opt_len_done [of p pdu "pdu ! p"] read_opt_len_le assms(1) by fastforce
  have b: "read_byte pdu p = Done (pdu ! p)" using assms(1) by (simp add: read_byte_def)
  show ?thesis
    using l b assms(2,3)
    by (auto simp: decode_one_def Let_def opt_known_def intro: exI [of _ "p + (if 15 < l then 2 else 1) + l"])
qed

theorem decode_unknown_option_witness:
  "decode_loop (replicate 600 0xf0) 3 0 10 ec_opts_init = Done (EC_BAD_OPTION, ec_opts_init, 0)"
proof -
  have "unat (drop_bit 4 (0xf0 :: byte)) = 15" by (simp add: unat_drop_bit4)
  then show ?thesis
    using decode_unknown_option [of 0 "replicate 600 0xf0" 25 10 2 ec_opts_init]
    by (simp add: ec_opt_num2sym_def g_opts_def numeral_3_eq_3)
qed

end
