(* ===== verification/Net.thy ===== *)
theory Net
  imports Enums
begin

text \<open>
  Datagrams and connections (\<open>include/evcoap_net.h\<close>, \<open>lib/evcoap/src/evcoap_net.c\<close>), and the
  outside world as the library sees it.

  Everything that is not under \<^verbatim>\<open>src/\<close> (libu, libevent, the sockets) is a field of \<open>env\<close>.
  Calls whose result may change from one call to the next (sending, random numbers,
  creating an event) are functions of \<open>w_tick\<close>, the number of such calls made so far.
\<close>

subsection \<open>Socket addresses\<close>

text \<open>
  The address family and the bytes after it. \<open>AF_INET\<close>, \<open>AF_INET6\<close> and the sizes of the
  two address structures are those of Linux.
\<close>

record sockaddr =
  ss_family :: nat
  ss_body :: "byte list"

abbreviation (input) AF_INET :: nat where "AF_INET \<equiv> 2"
abbreviation (input) AF_INET6 :: nat where "AF_INET6 \<equiv> 10"

definition sockaddr_zero :: sockaddr where
  "sockaddr_zero = \<lparr>ss_family = 0, ss_body = replicate 126 0\<rparr>"

definition ec_net_socklen :: "sockaddr \<Rightarrow> nat option" where
  "ec_net_socklen ss =
     (if ss_family ss = AF_INET then Some 16
      else if ss_family ss = AF_INET6 then Some 28
      else None)"

text \<open>\<open>memcpy(dst, src, n)\<close> and \<open>memcmp(a, b, n)\<close> on address structures, family included.\<close>

definition copy_addr :: "nat \<Rightarrow> sockaddr \<Rightarrow> sockaddr \<Rightarrow> sockaddr" where
  "copy_addr n src dst =
     \<lparr>ss_family = ss_family src, ss_body = take (n - 2) (ss_body src) @ drop (n - 2) (ss_body dst)\<rparr>"

definition same_addr :: "nat \<Rightarrow> sockaddr \<Rightarrow> sockaddr \<Rightarrow> bool" where
  "same_addr n a b \<longleftrightarrow> ss_family a = ss_family b \<and> take (n - 2) (ss_body a) = take (n - 2) (ss_body b)"

subsection \<open>Strings\<close>

text \<open>Case-insensitive comparison of C strings (\<open>strcasecmp\<close>), ASCII letters only.\<close>

definition byte_lower :: "byte \<Rightarrow> byte" where
  "byte_lower b = (if 65 \<le> b \<and> b \<le> 90 then b + 32 else b)"

definition strcasecmp_eq :: "byte list \<Rightarrow> byte list \<Rightarrow> bool" where
  "strcasecmp_eq a b \<longleftrightarrow> map byte_lower a = map byte_lower b"

subsection \<open>The environment and the world\<close>

type_synonym u_uri = "byte list"
type_synonym timeval = "nat \<times> nat"

text \<open>
  \<open>u_uri\<close> is the content of a libu URI object, which the model never looks into.
  \<open>e_strlcpy src sz\<close> and \<open>e_strlcat dst src sz\<close> give the result code and the bytes of the
  destination before its terminator; other fallible functions of libu give \<open>None\<close> on error.
  The hash map of libu is a type \<open>'m\<close> with three operations on string keys, its values
  the addresses of the stored records, which \<open>e_hm_vals\<close> lists in the order of iteration.
  \<open>e_rng_bytes t n\<close> are \<open>n\<close> random bytes; \<open>e_num_snprintf sz v\<close> prints \<open>v\<close> in decimal into
  \<open>sz\<close> bytes; \<open>e_strtok s c\<close> splits \<open>s\<close> at \<open>c\<close>.
\<close>

record 'm env =
  e_le :: bool
  e_send_ok :: "nat \<Rightarrow> bool"
  e_rng16 :: "nat \<Rightarrow> u16"
  e_junk16 :: "nat \<Rightarrow> u16"
  e_ev_ok :: "nat \<Rightarrow> bool"
  e_time :: "nat \<Rightarrow> u64 option"
  e_getsockname :: "nat \<Rightarrow> int \<Rightarrow> sockaddr option"
  e_memdup :: "byte list option \<Rightarrow> nat \<Rightarrow> byte list option"
  e_fmt_addr :: "sockaddr \<Rightarrow> string"
  e_key_snprintf :: "u16 \<Rightarrow> string \<Rightarrow> string option"
  e_hm_get :: "'m \<Rightarrow> string \<Rightarrow> nat option"
  e_hm_put :: "'m \<Rightarrow> string \<Rightarrow> nat \<Rightarrow> 'm option"
  e_hm_del :: "'m \<Rightarrow> string \<Rightarrow> 'm option"
  e_hm_vals :: "'m \<Rightarrow> nat list"
  e_URI_STRMAX :: nat
  e_TOKEN_SZ :: nat
  e_strlcpy :: "byte list \<Rightarrow> nat \<Rightarrow> crc \<times> byte list"
  e_strlcat :: "byte list \<Rightarrow> byte list \<Rightarrow> nat \<Rightarrow> crc \<times> byte list"
  e_port_snprintf :: "u64 \<Rightarrow> byte list option"
  e_fmt_addr_bytes :: "sockaddr \<Rightarrow> byte list"
  e_uri_new :: "u_uri option"
  e_uri_crumble :: "byte list \<Rightarrow> u_uri option"
  e_uri_knead :: "u_uri \<Rightarrow> byte list option"
  e_uri_set_scheme :: "u_uri \<Rightarrow> byte list \<Rightarrow> u_uri"
  e_uri_set_host :: "u_uri \<Rightarrow> byte list \<Rightarrow> u_uri"
  e_uri_set_port :: "u_uri \<Rightarrow> byte list \<Rightarrow> u_uri"
  e_uri_set_authority :: "u_uri \<Rightarrow> byte list \<Rightarrow> u_uri"
  e_uri_set_path :: "u_uri \<Rightarrow> byte list \<Rightarrow> u_uri"
  e_uri_set_query :: "u_uri \<Rightarrow> byte list \<Rightarrow> u_uri"
  e_uri_scheme :: "u_uri \<Rightarrow> byte list"
  e_uri_host :: "u_uri \<Rightarrow> byte list"
  e_uri_port :: "u_uri \<Rightarrow> byte list"
  e_uri_path :: "u_uri \<Rightarrow> byte list"
  e_uri_query :: "u_uri \<Rightarrow> byte list"
  e_uri_host_is_ipliteral :: "u_uri \<Rightarrow> bool"
  e_uri_is_regname :: "u_uri \<Rightarrow> bool"
  e_uri_is_absolute :: "byte list \<Rightarrow> bool"
  e_rng_bytes :: "nat \<Rightarrow> nat \<Rightarrow> byte list"
  e_num_snprintf :: "nat \<Rightarrow> nat \<Rightarrow> byte list option"
  e_strtok :: "byte list \<Rightarrow> byte \<Rightarrow> byte list list option"

text \<open>A datagram handed to the kernel: socket, destination and the gathered bytes.\<close>

record datagram =
  dg_sd :: int
  dg_to :: sockaddr
  dg_bytes :: "byte list"

record world =
  w_tick :: nat
  w_sent :: "datagram list"

definition tick :: "'z world_scheme \<Rightarrow> 'z world_scheme" where
  "tick w = w\<lparr>w_tick := w_tick w + 1\<rparr>"

subsection \<open>Sending\<close>

text \<open>The gather list of \<open>ec_net_send\<close>: options and payload only when present and not empty.\<close>

definition gather :: "byte list option \<Rightarrow> nat \<Rightarrow> byte list" where
  "gather b sz = (case b of None \<Rightarrow> [] | Some bs \<Rightarrow> take sz bs)"

definition ec_net_send ::
    "'m env \<Rightarrow> byte list \<Rightarrow> byte list option \<Rightarrow> nat \<Rightarrow> byte list option \<Rightarrow> nat \<Rightarrow> int \<Rightarrow> sockaddr \<Rightarrow>
     'z world_scheme \<Rightarrow> crc \<times> 'z world_scheme" where
  "ec_net_send e h opts o_sz p p_sz sd d w =
     (if sd = -1 then (C_ERR, w)
      else case ec_net_socklen d of
        None \<Rightarrow> (C_ERR, w)
      | Some dlen \<Rightarrow>
          if \<not> e_send_ok e (w_tick w) then (C_ERR, tick w)
          else (C_OK, (tick w)\<lparr>w_sent := w_sent w @
             [\<lparr>dg_sd = sd, dg_to = d,
               dg_bytes = take EC_COAP_HDR_SIZE h @ gather opts o_sz @ gather p p_sz\<rparr>]\<rparr>))"

subsection \<open>Receiving\<close>

datatype ec_net_cbrc = EC_NET_CBRC_SUCCESS | EC_NET_CBRC_DEAD | EC_NET_CBRC_ERROR

datatype errno = EAGAIN | EINTR | E_other

text \<open>What successive \<open>recvmsg\<close> calls report on a socket; an exhausted list is \<open>EAGAIN\<close>.\<close>

datatype recv_event = Recv "byte list" sockaddr | Recv_error errno

abbreviation (input) EC_COAP_MAX_REQ_SIZE :: nat where "EC_COAP_MAX_REQ_SIZE \<equiv> 1500"

text \<open>
  \<open>recvmsg\<close> stores at most the size of the buffer, and leaves the bytes after the datagram
  as they were: the handler sees the whole buffer \<open>d\<close> and the length.
\<close>

definition fill_buffer :: "byte list \<Rightarrow> byte list \<Rightarrow> byte list" where
  "fill_buffer d bs = take (length d) bs @ drop (length bs) d"

fun ec_net_pullup_all ::
    "(byte list \<Rightarrow> nat \<Rightarrow> sockaddr \<Rightarrow> 's \<Rightarrow> (ec_net_cbrc \<times> 's) run) \<Rightarrow> byte list \<Rightarrow> recv_event list \<Rightarrow> 's \<Rightarrow> 's run" where
  "ec_net_pullup_all pdu_proc d [] s = Done s"
| "ec_net_pullup_all pdu_proc d (Recv_error e # evs) s =
     (if e = EINTR then ec_net_pullup_all pdu_proc d evs s else Done s)"
| "ec_net_pullup_all pdu_proc d (Recv bs peer # evs) s =
     (let n = min (length bs) (length d); d' = fill_buffer d bs
      in if n = 0 \<or> n = length d then ec_net_pullup_all pdu_proc d' evs s
         else run_bind (pdu_proc d' n peer s) (\<lambda>(rc, s').
           if rc = EC_NET_CBRC_DEAD then Done s' else ec_net_pullup_all pdu_proc d' evs s'))"

subsection \<open>Connections\<close>

record ec_conn =
  c_socket :: int
  c_us :: sockaddr
  c_peer :: sockaddr
  c_is_multicast :: bool
  c_is_confirmable :: nat
  c_use_proxy :: bool
  c_proxy_addr :: "byte list"
  c_proxy_port :: u16

definition ec_conn_init :: ec_conn where
  "ec_conn_init =
     \<lparr>c_socket = -1, c_us = sockaddr_zero, c_peer = sockaddr_zero, c_is_multicast = False,
      c_is_confirmable = 0, c_use_proxy = False, c_proxy_addr = [], c_proxy_port = 0\<rparr>"

definition ec_conn_save_us ::
    "'m env \<Rightarrow> ec_conn \<Rightarrow> int \<Rightarrow> 'z world_scheme \<Rightarrow> crc \<times> ec_conn \<times> 'z world_scheme" where
  "ec_conn_save_us e conn sd w =
     (if sd = -1 then (C_ERR, conn, w)
      else case e_getsockname e (w_tick w) sd of
        None \<Rightarrow> (C_ERR, conn, tick w)
      | Some us \<Rightarrow> (C_OK, conn\<lparr>c_us := us, c_socket := sd\<rparr>, tick w))"

definition ec_conn_save_peer :: "ec_conn \<Rightarrow> sockaddr \<Rightarrow> crc \<times> ec_conn" where
  "ec_conn_save_peer conn peer =
     (case ec_net_socklen peer of
        None \<Rightarrow> (C_ERR, conn)
      | Some n \<Rightarrow> (C_OK, conn\<lparr>c_peer := copy_addr n peer (c_peer conn)\<rparr>))"

definition ec_conn_set_confirmable :: "ec_conn \<Rightarrow> bool \<Rightarrow> ec_conn" where
  "ec_conn_set_confirmable conn is_con = conn\<lparr>c_is_confirmable := (if is_con then 1 else 2)\<rparr>"

definition ec_conn_get_confirmable :: "ec_conn \<Rightarrow> bool option" where
  "ec_conn_get_confirmable conn =
     (if c_is_confirmable conn = 1 then Some True
      else if c_is_confirmable conn = 2 then Some False
      else None)"

definition ec_conn_copy :: "ec_conn \<Rightarrow> ec_conn \<Rightarrow> ec_conn" where
  "ec_conn_copy src dst = dst\<lparr>c_socket := c_socket src, c_peer := c_peer src\<rparr>"

text \<open>The second result: the socket that was closed, if any.\<close>

definition ec_conn_term :: "ec_conn \<Rightarrow> bool \<Rightarrow> ec_conn \<times> int option" where
  "ec_conn_term conn do_not_close_socket =
     (if c_socket conn \<noteq> -1 \<and> \<not> do_not_close_socket
      then (conn\<lparr>c_socket := -1\<rparr>, Some (c_socket conn)) else (conn, None))"

subsection \<open>Facts\<close>

lemma same_addr_copy [simp]:
  "n - 2 \<le> length (ss_body src) \<Longrightarrow> same_addr n (copy_addr n src dst) src"
  by (simp add: same_addr_def copy_addr_def)

lemma tick_simps [simp]:
  "w_tick (tick w) = w_tick w + 1" "w_sent (tick w) = w_sent w"
  by (simp_all add: tick_def)

lemma ec_net_send_sent:
  "ec_net_send e h opts o_sz p p_sz sd d w = (rc, w') \<Longrightarrow>
   w_sent w' = w_sent w @ (if rc = C_OK
     then [\<lparr>dg_sd = sd, dg_to = d, dg_bytes = take EC_COAP_HDR_SIZE h @ gather opts o_sz @ gather p p_sz\<rparr>] else [])"
  by (auto simp: ec_net_send_def split: if_splits option.splits)

lemma ec_conn_confirmable [simp]:
  "ec_conn_get_confirmable (ec_conn_set_confirmable conn b) = Some b"
  by (simp add: ec_conn_get_confirmable_def ec_conn_set_confirmable_def)

text \<open>The datagrams that reach the handler when it never asks to stop.\<close>

fun deliverable :: "nat \<Rightarrow> recv_event list \<Rightarrow> (byte list \<times> sockaddr) list" where
  "deliverable sz [] = []"
| "deliverable sz (Recv_error e # evs) = (if e = EINTR then deliverable sz evs else [])"
| "deliverable sz (Recv bs peer # evs) =
     (if bs = [] \<or> sz \<le> length bs then deliverable sz evs else (bs, peer) # deliverable sz evs)"

lemma length_fill_buffer [simp]: "length (fill_buffer d bs) = length d"
  by (auto simp: fill_buffer_def)

lemma take_fill_buffer: "length bs \<le> length d \<Longrightarrow> take (length bs) (fill_buffer d bs) = bs"
  by (simp add: fill_buffer_def)

text \<open>A handler that looks at the received bytes only is run on the deliverable ones, in order.\<close>

lemma ec_net_pullup_all_fold:
  assumes h: "\<And>d n peer s. n \<le> length d \<Longrightarrow> pdu_proc d n peer s = Done (rc (take n d) peer s, f (take n d) peer s)"
    and nd: "\<And>bs peer s. rc bs peer s \<noteq> EC_NET_CBRC_DEAD"
  shows "ec_net_pullup_all pdu_proc d evs s =
    Done (fold (\<lambda>(bs, peer). f bs peer) (deliverable (length d) evs) s)"
proof (induction evs arbitrary: d s)
  case Nil
  then show ?case by simp
next
  case (Cons ev evs)
  show ?case
  proof (cases ev)
    case (Recv bs peer)
    show ?thesis
    proof (cases "bs = [] \<or> length d \<le> length bs")
      case True
      then have "ec_net_pullup_all pdu_proc d (ev # evs) s = ec_net_pullup_all pdu_proc (fill_buffer d bs) evs s"
        by (auto simp: Recv Let_def min_def)
      with True Cons.IH [of "fill_buffer d bs" s] show ?thesis by (auto simp: Recv)
    next
      case False
      then have n: "min (length bs) (length d) = length bs" "length bs \<noteq> length d" "bs \<noteq> []"
        "take (length bs) (fill_buffer d bs) = bs" by (auto simp: take_fill_buffer)
      then have "pdu_proc (fill_buffer d bs) (length bs) peer s = Done (rc bs peer s, f bs peer s)"
        using h [of "length bs" "fill_buffer d bs" peer s] False by simp
      with n False Cons.IH [of "fill_buffer d bs"] nd show ?thesis by (simp add: Recv)
    qed
  next
    case (Recv_error e)
    with Cons.IH [of d s] show ?thesis by simp
  qed
qed

end
