(* ===== verification/Flow.thy ===== *)
theory Flow
  imports Net
begin

text \<open>
  Timers (\<open>lib/evcoap/src/evcoap_timer.c\<close>) and message flows
  (\<open>lib/evcoap/src/evcoap_flow.c\<close>).
\<close>

subsection \<open>Timers\<close>

text \<open>
  \<open>evti\<close> is \<open>None\<close> for a NULL event, otherwise whether the event is pending. A timer event
  is not persistent: it stops pending when it fires.
\<close>

record ec_timer =
  retries_left :: nat
  evti :: "bool option"
  tout :: timeval

definition timer_zero :: ec_timer where
  "timer_zero = \<lparr>retries_left = 0, evti = None, tout = (0, 0)\<rparr>"

definition ec_timer_remove :: "ec_timer \<Rightarrow> ec_timer" where
  "ec_timer_remove ti = (if evti ti \<noteq> None then ti\<lparr>evti := None, retries_left := 0\<rparr> else ti)"

definition ec_timer_start ::
    "'m env \<Rightarrow> ec_timer \<Rightarrow> nat \<Rightarrow> 'z world_scheme \<Rightarrow> crc \<times> ec_timer \<times> 'z world_scheme" where
  "ec_timer_start e ti max_retry w =
     (if max_retry = 0 then (C_ERR, ti, w)
      else if evti ti \<noteq> None then (C_ERR, ti, w)
      else let ti = ti\<lparr>retries_left := max_retry\<rparr>
           in if \<not> e_ev_ok e (w_tick w) then (C_ERR, ec_timer_remove ti, tick w)
              else let ti = ti\<lparr>evti := Some False\<rparr>; w = tick w
                   in if \<not> e_ev_ok e (w_tick w) then (C_ERR, ec_timer_remove ti, tick w)
                      else (C_OK, ti\<lparr>evti := Some True\<rparr>, tick w))"

definition ec_timer_restart ::
    "'m env \<Rightarrow> ec_timer \<Rightarrow> 'z world_scheme \<Rightarrow> (crc \<times> ec_timer \<times> 'z world_scheme) run" where
  "ec_timer_restart e ti w =
     (case evti ti of
        None \<Rightarrow> Fault Null_deref
      | Some p \<Rightarrow>
          if \<not> e_ev_ok e (w_tick w) then Done (C_ERR, ti, tick w)
          else let ti = ti\<lparr>evti := Some False\<rparr>; w = tick w
               in if \<not> e_ev_ok e (w_tick w) then Done (C_ERR, ti, tick w)
                  else Done (C_OK, ti\<lparr>evti := Some True\<rparr>, tick w))"

text \<open>libevent: a pending timer fires.\<close>

definition timer_fired :: "ec_timer \<Rightarrow> ec_timer" where
  "timer_fired ti = ti\<lparr>evti := Some False\<rparr>"

definition timer_pending :: "ec_timer \<Rightarrow> bool" where
  "timer_pending ti \<longleftrightarrow> evti ti = Some True"

subsection \<open>Flows\<close>

record ec_flow =
  f_conn :: ec_conn
  f_method :: ec_method
  f_resp_code :: ec_rc
  f_uri :: "u_uri option"
  f_urlstr :: "byte list"
  f_origin :: "byte list"
  f_proxy_uri :: bool
  f_is_sep :: bool
  f_token :: "byte list"
  f_token_sz :: nat

definition ec_flow_init :: ec_flow where
  "ec_flow_init =
     \<lparr>f_conn = ec_conn_init, f_method = EC_METHOD_UNSET, f_resp_code = EC_RC_UNSET, f_uri = None,
      f_urlstr = [], f_origin = [], f_proxy_uri = False, f_is_sep = False,
      f_token = replicate 8 0, f_token_sz = 0\<rparr>"

definition ec_flow_term :: "ec_flow \<Rightarrow> bool \<Rightarrow> ec_flow \<times> int option" where
  "ec_flow_term flow do_not_close_socket =
     (case ec_conn_term (f_conn flow) do_not_close_socket of
        (conn, closed) \<Rightarrow> (flow\<lparr>f_conn := conn\<rparr>, closed))"

text \<open>The token array of a flow has 8 bytes: copying more writes past it.\<close>

definition ec_flow_save_token :: "ec_flow \<Rightarrow> byte list option \<Rightarrow> nat \<Rightarrow> ec_flow run" where
  "ec_flow_save_token flow tok tok_sz =
     (case tok of
        None \<Rightarrow> Done (flow\<lparr>f_token := replicate 8 0, f_token_sz := 0\<rparr>)
      | Some t \<Rightarrow>
          if tok_sz = 0 then Done (flow\<lparr>f_token := replicate 8 0, f_token_sz := 0\<rparr>)
          else if tok_sz > 8 then Fault Overwrite
          else Done (flow\<lparr>f_token := take tok_sz t @ drop tok_sz (f_token flow), f_token_sz := tok_sz\<rparr>))"

text \<open>The bytes copied to the caller's 8-byte array.\<close>

definition ec_flow_get_token :: "ec_flow \<Rightarrow> byte list \<times> nat" where
  "ec_flow_get_token flow = (take (f_token_sz flow) (f_token flow), f_token_sz flow)"

definition ec_flow_save_url :: "'m env \<Rightarrow> ec_flow \<Rightarrow> u_uri option \<Rightarrow> bool \<Rightarrow> crc \<times> ec_flow" where
  "ec_flow_save_url e flow u is_proxy =
     (case u of
        None \<Rightarrow> (C_ERR, flow)
      | Some u \<Rightarrow>
          (case e_strlcpy e (e_uri_query e u) (e_TOKEN_SZ e) of
             (C_ERR, saved_q) \<Rightarrow> (C_ERR, flow)
           | (C_OK, saved_q) \<Rightarrow>
               let u = e_uri_set_query e u []
               in (case e_uri_knead e u of
                     None \<Rightarrow> (C_ERR, flow)
                   | Some urlstr \<Rightarrow>
                       (C_OK, flow\<lparr>f_urlstr := urlstr, f_uri := Some (e_uri_set_query e u saved_q),
                                   f_proxy_uri := is_proxy\<rparr>))))"

definition ec_flow_get_urlstr :: "ec_flow \<Rightarrow> byte list" where
  "ec_flow_get_urlstr flow = f_urlstr flow"

definition ec_flow_get_method :: "ec_flow \<Rightarrow> ec_method" where
  "ec_flow_get_method flow = f_method flow"

definition ec_flow_get_uri :: "ec_flow \<Rightarrow> u_uri option" where
  "ec_flow_get_uri flow = f_uri flow"

text \<open>Successive \<open>u_strlcat\<close> calls, stopping at the first error.\<close>

fun cat_all :: "'m env \<Rightarrow> nat \<Rightarrow> byte list list \<Rightarrow> byte list \<Rightarrow> crc \<times> byte list" where
  "cat_all e sz [] buf = (C_OK, buf)"
| "cat_all e sz (s # ss) buf =
     (case e_strlcat e buf s sz of
        (C_ERR, buf') \<Rightarrow> (C_ERR, buf')
      | (C_OK, buf') \<Rightarrow> cat_all e sz ss buf')"

definition ec_flow_get_uri_origin :: "'m env \<Rightarrow> ec_flow \<Rightarrow> byte list option \<times> ec_flow" where
  "ec_flow_get_uri_origin e flow =
     (if f_origin flow \<noteq> [] then (Some (f_origin flow), flow)
      else case f_uri flow of
        None \<Rightarrow> (None, flow)
      | Some u \<Rightarrow>
          (case e_strlcpy e (e_uri_scheme e u) (e_URI_STRMAX e) of
             (C_ERR, buf) \<Rightarrow> (None, flow\<lparr>f_origin := buf\<rparr>)
           | (C_OK, buf) \<Rightarrow>
               (case cat_all e (e_URI_STRMAX e)
                   ([[58, 47, 47]] @ (if e_uri_host_is_ipliteral e u then [[91]] else []) @ [e_uri_host e u] @
                    (if e_uri_host_is_ipliteral e u then [[93]] else []) @ [[58], e_uri_port e u]) buf of
                  (C_ERR, buf) \<Rightarrow> (None, flow\<lparr>f_origin := buf\<rparr>)
                | (C_OK, buf) \<Rightarrow> (Some buf, flow\<lparr>f_origin := buf\<rparr>))))"

definition ec_flow_get_uri_query :: "'m env \<Rightarrow> ec_flow \<Rightarrow> byte list option" where
  "ec_flow_get_uri_query e flow = map_option (e_uri_query e) (f_uri flow)"

definition ec_flow_get_uri_path :: "'m env \<Rightarrow> ec_flow \<Rightarrow> byte list option" where
  "ec_flow_get_uri_path e flow = map_option (e_uri_path e) (f_uri flow)"

definition ec_flow_set_method :: "ec_flow \<Rightarrow> ec_method \<Rightarrow> crc \<times> ec_flow" where
  "ec_flow_set_method flow m = (if \<not> EC_IS_METHOD m then (C_ERR, flow) else (C_OK, flow\<lparr>f_method := m\<rparr>))"

definition ec_flow_set_resp_code :: "ec_flow \<Rightarrow> ec_rc \<Rightarrow> crc \<times> ec_flow" where
  "ec_flow_set_resp_code flow rc =
     (if \<not> EC_IS_RESP_CODE rc then (C_ERR, flow) else (C_OK, flow\<lparr>f_resp_code := rc\<rparr>))"

definition ec_flow_get_resp_code :: "ec_flow \<Rightarrow> ec_rc" where
  "ec_flow_get_resp_code flow = f_resp_code flow"

definition ec_flow_get_proxied :: "ec_flow \<Rightarrow> bool" where
  "ec_flow_get_proxied flow = f_proxy_uri flow"

definition ec_flow_get_url :: "'m env \<Rightarrow> ec_flow \<Rightarrow> (byte list \<times> bool) option" where
  "ec_flow_get_url e flow =
     (case f_uri flow of
        None \<Rightarrow> None
      | Some u \<Rightarrow> (case e_uri_knead e u of None \<Rightarrow> None | Some url \<Rightarrow> Some (url, f_proxy_uri flow)))"

definition ec_flow_set_separate :: "ec_flow \<Rightarrow> bool \<Rightarrow> ec_flow" where
  "ec_flow_set_separate flow is_sep = flow\<lparr>f_is_sep := is_sep\<rparr>"

definition ec_flow_get_separate :: "ec_flow \<Rightarrow> bool" where
  "ec_flow_get_separate flow = f_is_sep flow"

subsection \<open>Facts\<close>

lemma ec_timer_start_pending:
  "ec_timer_start e ti n w = (C_OK, ti', w') \<Longrightarrow> timer_pending ti' \<and> retries_left ti' = n \<and> tout ti' = tout ti"
  by (auto simp: ec_timer_start_def timer_pending_def Let_def split: if_splits)

lemma ec_timer_start_err:
  "ec_timer_start e ti n w = (C_ERR, ti', w') \<Longrightarrow> evti ti' = evti ti"
  by (auto simp: ec_timer_start_def ec_timer_remove_def Let_def split: if_splits)

lemma ec_timer_restart_pending:
  "ec_timer_restart e ti w = Done (C_OK, ti', w') \<Longrightarrow>
   timer_pending ti' \<and> retries_left ti' = retries_left ti \<and> tout ti' = tout ti"
  by (auto simp: ec_timer_restart_def timer_pending_def Let_def split: if_splits option.splits)

lemma ec_timer_world [simp]:
  "w_sent (snd (snd (ec_timer_start e ti n w))) = w_sent w"
  by (simp add: ec_timer_start_def Let_def)

lemma ec_flow_token_roundtrip:
  assumes "length (f_token flow) = 8" and "0 < n" and "n \<le> 8" and "n \<le> length t"
  shows "\<exists>flow'. ec_flow_save_token flow (Some t) n = Done flow' \<and> ec_flow_get_token flow' = (take n t, n)"
  using assms by (simp add: ec_flow_save_token_def ec_flow_get_token_def)

end
