(* ===== verification/Dups.thy ===== *)
theory Dups
  imports Flow
begin

text \<open>
  Duplicate handling and runtime configuration (\<open>lib/evcoap/src/evcoap_base.c\<close>).

  The hash map of libu holds pointers to records that live on the heap until they are
  deleted from the map: \<open>d_map\<close> is the map, \<open>d_recvd\<close> the heap (\<open>None\<close> is freed or never
  allocated) and \<open>d_next\<close> the next fresh address.
\<close>

subsection \<open>State\<close>

record ec_cached_pdu =
  ca_is_set :: bool
  ca_hdr :: "byte list"
  ca_opts :: "byte list option"
  ca_opts_sz :: nat
  ca_payload :: "byte list option"
  ca_payload_sz :: nat

record ec_recvd_pdu =
  r_who :: sockaddr
  r_mid :: u16
  r_cached :: ec_cached_pdu
  r_key :: string

record 'm base = world +
  d_map :: 'm
  d_recvd :: "nat \<Rightarrow> ec_recvd_pdu option"
  d_next :: nat

definition ec_dup_key_new :: "'m env \<Rightarrow> u16 \<Rightarrow> sockaddr \<Rightarrow> string option" where
  "ec_dup_key_new e mid peer = e_key_snprintf e mid (e_fmt_addr e peer)"

definition cached_unset :: ec_cached_pdu where
  "cached_unset = \<lparr>ca_is_set = False, ca_hdr = replicate 4 0, ca_opts = None, ca_opts_sz = 0,
     ca_payload = None, ca_payload_sz = 0\<rparr>"

subsection \<open>Operations\<close>

definition ec_dups_search :: "'m env \<Rightarrow> u16 \<Rightarrow> sockaddr \<Rightarrow> ('m, 'z) base_scheme \<Rightarrow> nat option" where
  "ec_dups_search e mid peer b =
     (case ec_dup_key_new e mid peer of
        None \<Rightarrow> None
      | Some key \<Rightarrow> e_hm_get e (d_map b) key)"

text \<open>
  \<open>ec_recvd_pdu_new\<close> can fail reading the clock, creating the event or adding it; the
  result is the address of the record.
\<close>

definition ec_recvd_pdu_new ::
    "'m env \<Rightarrow> string \<Rightarrow> sockaddr \<Rightarrow> u16 \<Rightarrow> ('m, 'z) base_scheme \<Rightarrow> nat option \<times> ('m, 'z) base_scheme" where
  "ec_recvd_pdu_new e key ss mid b =
     (if \<not> e_ev_ok e (w_tick b) then (None, tick b)
      else let b = tick b in if \<not> e_ev_ok e (w_tick b) then (None, tick b)
      else let b = tick b in if \<not> e_ev_ok e (w_tick b) then (None, tick b)
      else let b = tick b; a = d_next b
           in (Some a, b\<lparr>d_next := a + 1,
                 d_recvd := (d_recvd b)(a \<mapsto>
                   \<lparr>r_who = ss, r_mid = mid, r_cached = cached_unset, r_key = key\<rparr>)\<rparr>))"

definition ec_recvd_pdu_free :: "nat \<Rightarrow> ('m, 'z) base_scheme \<Rightarrow> ('m, 'z) base_scheme" where
  "ec_recvd_pdu_free a b = b\<lparr>d_recvd := (d_recvd b)(a := None)\<rparr>"

definition ec_dups_insert ::
    "'m env \<Rightarrow> sockaddr \<Rightarrow> u16 \<Rightarrow> ('m, 'z) base_scheme \<Rightarrow> crc \<times> ('m, 'z) base_scheme" where
  "ec_dups_insert e ss mid b =
     (case ec_dup_key_new e mid ss of
        None \<Rightarrow> (C_ERR, b)
      | Some key \<Rightarrow>
          (case ec_recvd_pdu_new e key ss mid b of
             (None, b) \<Rightarrow> (C_ERR, b)
           | (Some a, b) \<Rightarrow>
               (case e_hm_put e (d_map b) key a of
                  None \<Rightarrow> (C_ERR, ec_recvd_pdu_free a b)
                | Some m \<Rightarrow> (C_OK, b\<lparr>d_map := m\<rparr>))))"

text \<open>Deleting a key frees the record it held.\<close>

definition ec_dups_delete :: "'m env \<Rightarrow> string \<Rightarrow> ('m, 'z) base_scheme \<Rightarrow> crc \<times> ('m, 'z) base_scheme" where
  "ec_dups_delete e key b =
     (case e_hm_del e (d_map b) key of
        None \<Rightarrow> (C_ERR, b)
      | Some m \<Rightarrow>
          (C_OK, case e_hm_get e (d_map b) key of
             None \<Rightarrow> b\<lparr>d_map := m\<rparr>
           | Some a \<Rightarrow> ec_recvd_pdu_free a (b\<lparr>d_map := m\<rparr>)))"

text \<open>The countdown event of the record at \<open>a\<close> fires.\<close>

definition ec_dup_zap :: "'m env \<Rightarrow> nat \<Rightarrow> ('m, 'z) base_scheme \<Rightarrow> ('m, 'z) base_scheme run" where
  "ec_dup_zap e a b =
     (case d_recvd b a of
        None \<Rightarrow> Fault Use_after_free
      | Some r \<Rightarrow> Done (snd (ec_dups_delete e (r_key r) b)))"

definition send_cached ::
    "'m env \<Rightarrow> ec_cached_pdu \<Rightarrow> int \<Rightarrow> sockaddr \<Rightarrow> ('m, 'z) base_scheme \<Rightarrow> crc \<times> ('m, 'z) base_scheme" where
  "send_cached e c sd ss b =
     ec_net_send e (ca_hdr c) (ca_opts c) (ca_opts_sz c) (ca_payload c) (ca_payload_sz c) sd ss b"

text \<open>0: no duplicate, 1: duplicate, -1: internal error.\<close>

definition ec_dups_handle_incoming_srvmsg ::
    "'m env \<Rightarrow> u16 \<Rightarrow> int \<Rightarrow> sockaddr \<Rightarrow> ('m, 'z) base_scheme \<Rightarrow> (int \<times> ('m, 'z) base_scheme) run" where
  "ec_dups_handle_incoming_srvmsg e mid sd ss b =
     (case ec_dups_search e mid ss b of
        Some a \<Rightarrow>
          (case d_recvd b a of
             None \<Rightarrow> Fault Use_after_free
           | Some r \<Rightarrow>
               if ca_is_set (r_cached r) then Done (1, snd (send_cached e (r_cached r) sd ss b))
               else Done (1, b))
      | None \<Rightarrow>
          (case ec_dups_insert e ss mid b of
             (C_ERR, b) \<Rightarrow> Done (-1, b)
           | (C_OK, b) \<Rightarrow> Done (0, b)))"

definition ec_dups_handle_incoming_climsg ::
    "'m env \<Rightarrow> u16 \<Rightarrow> int \<Rightarrow> sockaddr \<Rightarrow> ('m, 'z) base_scheme \<Rightarrow> (int \<times> ('m, 'z) base_scheme) run" where
  "ec_dups_handle_incoming_climsg e mid sd ss b =
     (case ec_dups_search e mid ss b of
        Some a \<Rightarrow>
          (case d_recvd b a of
             None \<Rightarrow> Fault Use_after_free
           | Some r \<Rightarrow>
               if ca_is_set (r_cached r) then
                 (case send_cached e (r_cached r) sd ss b of
                    (C_ERR, b) \<Rightarrow> Done (-1, b)
                  | (C_OK, b) \<Rightarrow> Done (1, b))
               else Done (1, b))
      | None \<Rightarrow>
          (case ec_dups_insert e ss mid b of
             (C_ERR, b) \<Rightarrow> Done (-1, b)
           | (C_OK, b) \<Rightarrow> Done (0, b)))"

definition ec_recvd_pdu_update ::
    "'m env \<Rightarrow> nat \<Rightarrow> byte list \<Rightarrow> byte list \<Rightarrow> nat \<Rightarrow> byte list option \<Rightarrow> nat \<Rightarrow>
     ('m, 'z) base_scheme \<Rightarrow> (crc \<times> ('m, 'z) base_scheme) run" where
  "ec_recvd_pdu_update e a hdr opts opts_sz payload payload_sz b =
     (case e_memdup e (Some opts) opts_sz of
        None \<Rightarrow> Done (C_ERR, b)
      | Some o' \<Rightarrow>
          (case e_memdup e payload payload_sz of
             None \<Rightarrow> Done (C_ERR, b)
           | Some p \<Rightarrow>
               (case d_recvd b a of
                  None \<Rightarrow> Fault Use_after_free
                | Some r \<Rightarrow>
                    Done (C_OK, b\<lparr>d_recvd := (d_recvd b)(a \<mapsto> r\<lparr>r_cached :=
                      \<lparr>ca_is_set = True, ca_hdr = take 4 hdr, ca_opts = Some o', ca_opts_sz = opts_sz,
                       ca_payload = Some p, ca_payload_sz = payload_sz\<rparr>\<rparr>)\<rparr>))))"

subsection \<open>Configuration\<close>

record ec_cfg =
  block_is_stateless :: bool
  block_szx :: nat

definition ec_cfg_init :: "ec_cfg \<Rightarrow> ec_cfg" where
  "ec_cfg_init cfg = cfg\<lparr>block_is_stateless := True\<rparr>"

abbreviation (input) EC_COAP_BLOCK_MIN :: nat where "EC_COAP_BLOCK_MIN \<equiv> 16"
abbreviation (input) EC_COAP_BLOCK_MAX :: nat where "EC_COAP_BLOCK_MAX \<equiv> 1024"

text \<open>The loop of \<open>ec_nearest_block\<close>, \<open>i\<close> from 10 down to 4.\<close>

fun nearest_block_from :: "nat \<Rightarrow> nat \<Rightarrow> nat option" where
  "nearest_block_from orig i =
     (if i < 4 then None
      else if orig > 2 ^ i then Some (i - 4)
      else nearest_block_from orig (i - 1))"

declare nearest_block_from.simps [simp del]

definition ec_nearest_block :: "nat \<Rightarrow> nat option" where
  "ec_nearest_block orig = (if orig < EC_COAP_BLOCK_MIN then None else nearest_block_from orig 10)"

definition ec_cfg_set_block_sz :: "ec_cfg \<Rightarrow> nat \<Rightarrow> crc \<times> ec_cfg" where
  "ec_cfg_set_block_sz cfg val =
     (if val < EC_COAP_BLOCK_MIN \<or> val > EC_COAP_BLOCK_MAX then (C_ERR, cfg)
      else case ec_nearest_block val of
        None \<Rightarrow> (C_ERR, cfg)
      | Some szx \<Rightarrow> (C_OK, cfg\<lparr>block_is_stateless := False, block_szx := szx\<rparr>))"

definition ec_cfg_get_block_info :: "ec_cfg \<Rightarrow> bool \<times> nat" where
  "ec_cfg_get_block_info cfg = (block_is_stateless cfg, block_szx cfg)"

end
