(* ===== verification/Pdu.thy ===== *)
theory Pdu
  imports Dups Opt_Api Opt_Codec
begin

text \<open>
  Protocol data units (\<open>include/evcoap_pdu.h\<close>, \<open>lib/evcoap/src/evcoap_pdu.c\<close>): the 4-byte
  header, encoding of requests and of the four kinds of response, and sending through the
  duplicate cache.

  A PDU's \<open>flow\<close> pointer is the flow its owner passes along. \<open>p_addr\<close> stands for the
  address of the PDU, and the pointer to a sibling is its address together with the MID read
  through it.
\<close>

subsection \<open>State\<close>

record ec_hdr =
  h_t :: byte
  h_oc :: byte
  h_code :: byte
  h_mid :: u16

record ec_pdu =
  p_addr :: nat
  p_hdr :: "byte list"
  p_hdr_bits :: ec_hdr
  p_payload :: "byte list option"
  p_payload_sz :: nat
  p_opts :: ec_opts
  p_peer :: sockaddr
  p_sibling :: "(nat \<times> u16) option"

definition hdr_zero :: ec_hdr where
  "hdr_zero = \<lparr>h_t = 0, h_oc = 0, h_code = 0, h_mid = 0\<rparr>"

definition ec_pdu_new_empty :: "'z world_scheme \<Rightarrow> ec_pdu \<times> 'z world_scheme" where
  "ec_pdu_new_empty w =
     (\<lparr>p_addr = w_tick w, p_hdr = replicate EC_COAP_HDR_SIZE 0, p_hdr_bits = hdr_zero, p_payload = None,
       p_payload_sz = 0, p_opts = ec_opts_init, p_peer = sockaddr_zero, p_sibling = None\<rparr>, tick w)"

abbreviation EC_PDU_MID :: "ec_pdu \<Rightarrow> u16" where
  "EC_PDU_MID pdu \<equiv> h_mid (p_hdr_bits pdu)"

subsection \<open>Fields\<close>

definition ec_pdu_set_payload :: "'m env \<Rightarrow> ec_pdu \<Rightarrow> byte list \<Rightarrow> nat \<Rightarrow> crc \<times> ec_pdu" where
  "ec_pdu_set_payload e pdu payload sz =
     (if sz = 0 then (C_ERR, pdu)
      else case e_memdup e (Some payload) sz of
        None \<Rightarrow> (C_ERR, pdu\<lparr>p_payload := None\<rparr>)
      | Some p \<Rightarrow> (C_OK, pdu\<lparr>p_payload := Some p, p_payload_sz := sz\<rparr>))"

definition ec_pdu_set_peer :: "ec_pdu \<Rightarrow> ec_flow \<Rightarrow> sockaddr \<Rightarrow> crc \<times> ec_pdu \<times> ec_flow" where
  "ec_pdu_set_peer pdu flow peer =
     (case ec_net_socklen peer of
        None \<Rightarrow> (C_ERR, pdu, flow)
      | Some n \<Rightarrow>
          let conn = f_conn flow
          in if c_is_multicast conn
             then (C_OK, pdu\<lparr>p_peer := copy_addr n peer (p_peer pdu)\<rparr>, flow)
             else (C_OK, pdu, flow\<lparr>f_conn := conn\<lparr>c_peer := copy_addr n peer (c_peer conn)\<rparr>\<rparr>))"

definition ec_pdu_get_peer :: "ec_pdu \<Rightarrow> ec_flow \<Rightarrow> sockaddr" where
  "ec_pdu_get_peer pdu flow = (if c_is_multicast (f_conn flow) then p_peer pdu else c_peer (f_conn flow))"

definition ec_pdu_set_sibling :: "ec_pdu \<Rightarrow> ec_pdu \<Rightarrow> crc \<times> ec_pdu" where
  "ec_pdu_set_sibling pdu sibling =
     (case p_sibling pdu of
        Some (a, m) \<Rightarrow>
          if a \<noteq> p_addr sibling then (C_ERR, pdu)
          else (C_OK, pdu\<lparr>p_sibling := Some (p_addr sibling, EC_PDU_MID sibling)\<rparr>)
      | None \<Rightarrow> (C_OK, pdu\<lparr>p_sibling := Some (p_addr sibling, EC_PDU_MID sibling)\<rparr>))"

definition ec_pdu_init_options :: "ec_pdu \<Rightarrow> ec_pdu" where
  "ec_pdu_init_options pdu = pdu\<lparr>p_opts := ec_opts_init\<rparr>"

definition ec_pdu_get_type :: "ec_pdu \<Rightarrow> byte" where
  "ec_pdu_get_type pdu = h_t (p_hdr_bits pdu)"

definition ec_pdu_get_mid :: "ec_pdu \<Rightarrow> u16" where
  "ec_pdu_get_mid pdu = h_mid (p_hdr_bits pdu)"

subsection \<open>The header\<close>

text \<open>\<open>htons\<close> and \<open>ntohs\<close>: they swap the two bytes on a little-endian host.\<close>

definition htons :: "bool \<Rightarrow> u16 \<Rightarrow> u16" where
  "htons le w = (if le then push_bit 8 w OR drop_bit 8 w else w)"

definition encode_header :: "bool \<Rightarrow> ec_pdu \<Rightarrow> byte \<Rightarrow> byte \<Rightarrow> u16 \<Rightarrow> ec_pdu" where
  "encode_header le pdu code t mid =
     (let ver = 1 :: byte; oc = of_nat (noptions (p_opts pdu)) :: byte
      in pdu\<lparr>p_hdr :=
           [push_bit 6 (ver AND 0x03) OR push_bit 4 (t AND 0x03) OR (oc AND 0x0f),
            code,
            ucast (drop_bit 8 (htons le mid AND 0xff00)),
            ucast (htons le mid AND 0x00ff)]\<rparr>)"

definition ec_pdu_decode_header :: "bool \<Rightarrow> ec_pdu \<Rightarrow> byte list \<Rightarrow> nat \<Rightarrow> crc \<times> ec_pdu" where
  "ec_pdu_decode_header le pdu raw raw_sz =
     (if raw_sz < EC_COAP_HDR_SIZE then (C_ERR, pdu)
      else if drop_bit 6 (raw ! 0 AND 0xc0) \<noteq> 1 then (C_ERR, pdu)
      else (C_OK, pdu\<lparr>p_hdr_bits :=
        \<lparr>h_t = drop_bit 4 (raw ! 0 AND 0x30), h_oc = raw ! 0 AND 0x0f, h_code = raw ! 1,
         h_mid = htons le (push_bit 8 (ucast (raw ! 2)) OR ucast (raw ! 3))\<rparr>,
        p_hdr := take EC_COAP_HDR_SIZE raw\<rparr>))"

subsection \<open>Encoding\<close>

definition encode_response ::
    "bool \<Rightarrow> ec_pdu \<Rightarrow> ec_flow \<Rightarrow> byte \<Rightarrow> ec_rc \<Rightarrow> u16 \<Rightarrow> crc \<times> ec_pdu" where
  "encode_response le pdu flow t rc mid =
     (if t \<noteq> EC_COAP_RST \<and> rc \<noteq> EC_RC_UNSET then
        (case (if f_token_sz flow \<noteq> 0 then ec_opts_add_token (p_opts pdu) (f_token flow) (f_token_sz flow)
               else (C_OK, p_opts pdu)) of
           (C_ERR, opts) \<Rightarrow> (C_ERR, pdu\<lparr>p_opts := opts\<rparr>)
         | (C_OK, opts) \<Rightarrow>
             (case ec_opts_encode opts of
                (C_ERR, opts) \<Rightarrow> (C_ERR, pdu\<lparr>p_opts := opts\<rparr>)
              | (C_OK, opts) \<Rightarrow> (C_OK, encode_header le (pdu\<lparr>p_opts := opts\<rparr>) (word_of_int rc) t mid)))
      else (C_OK, encode_header le pdu (word_of_int rc) t mid))"

definition ec_pdu_encode_response_piggyback :: "bool \<Rightarrow> ec_pdu \<Rightarrow> ec_flow \<Rightarrow> crc \<times> ec_pdu" where
  "ec_pdu_encode_response_piggyback le pdu flow =
     (if \<not> EC_IS_RESP_CODE (f_resp_code flow) then (C_ERR, pdu)
      else case p_sibling pdu of
        None \<Rightarrow> (C_ERR, pdu)
      | Some (a, mid) \<Rightarrow> encode_response le pdu flow EC_COAP_ACK (f_resp_code flow) mid)"

definition ec_pdu_encode_response_ack :: "bool \<Rightarrow> ec_pdu \<Rightarrow> ec_flow \<Rightarrow> crc \<times> ec_pdu" where
  "ec_pdu_encode_response_ack le pdu flow =
     (case p_sibling pdu of
        None \<Rightarrow> (C_ERR, pdu)
      | Some (a, mid) \<Rightarrow> encode_response le pdu flow EC_COAP_ACK EC_RC_UNSET mid)"

definition ec_pdu_encode_response_rst :: "bool \<Rightarrow> ec_pdu \<Rightarrow> ec_flow \<Rightarrow> crc \<times> ec_pdu" where
  "ec_pdu_encode_response_rst le pdu flow =
     (case p_sibling pdu of
        None \<Rightarrow> (C_ERR, pdu)
      | Some (a, mid) \<Rightarrow> encode_response le pdu flow EC_COAP_RST EC_RC_UNSET mid)"

text \<open>
  \<open>mid\<close> is assigned only when the PDU has no MID yet: otherwise the uninitialised variable
  is what gets encoded, an unspecified value (\<open>e_junk16\<close>).
\<close>

definition ec_pdu_encode_response_separate ::
    "'m env \<Rightarrow> ec_pdu \<Rightarrow> ec_flow \<Rightarrow> 'z world_scheme \<Rightarrow> crc \<times> ec_pdu \<times> 'z world_scheme" where
  "ec_pdu_encode_response_separate e pdu flow w =
     (let fresh = (EC_PDU_MID pdu = 0);
          mid = (if fresh then e_rng16 e (w_tick w) else e_junk16 e (w_tick w));
          pdu = (if fresh then pdu\<lparr>p_hdr_bits := (p_hdr_bits pdu)\<lparr>h_mid := mid\<rparr>\<rparr> else pdu);
          w = tick w
      in case ec_conn_get_confirmable (f_conn flow) of
           None \<Rightarrow> (C_ERR, pdu, w)
         | Some is_con \<Rightarrow>
             (case encode_response (e_le e) pdu flow (if is_con then EC_COAP_CON else EC_COAP_NON)
                 (f_resp_code flow) mid of
                (rc, pdu) \<Rightarrow> (rc, pdu, w)))"

definition ec_pdu_encode_request ::
    "'m env \<Rightarrow> ec_pdu \<Rightarrow> ec_flow \<Rightarrow> 'z world_scheme \<Rightarrow> crc \<times> ec_pdu \<times> 'z world_scheme" where
  "ec_pdu_encode_request e pdu flow w =
     (let mid = e_rng16 e (w_tick w); w = tick w
      in case ec_opts_encode (p_opts pdu) of
           (C_ERR, opts) \<Rightarrow> (C_ERR, pdu\<lparr>p_opts := opts\<rparr>, w)
         | (C_OK, opts) \<Rightarrow>
             let pdu = pdu\<lparr>p_opts := opts\<rparr>
             in case ec_conn_get_confirmable (f_conn flow) of
                  None \<Rightarrow> (C_ERR, pdu, w)
                | Some is_con \<Rightarrow>
                    (C_OK, encode_header (e_le e) pdu (of_nat (f_method flow))
                       (if is_con then EC_COAP_CON else EC_COAP_NON) mid, w))"

subsection \<open>Sending\<close>

text \<open>\<open>dups\<close> says whether the caller passed the duplicate cache (or NULL).\<close>

definition ec_pdu_send ::
    "'m env \<Rightarrow> ec_pdu \<Rightarrow> ec_flow \<Rightarrow> bool \<Rightarrow> ('m, 'z) base_scheme \<Rightarrow> (crc \<times> ('m, 'z) base_scheme) run" where
  "ec_pdu_send e pdu flow dups b =
     (let opts = p_opts pdu; peer = ec_pdu_get_peer pdu flow
      in case ec_net_send e (p_hdr pdu) (Some (enc opts)) (enc_sz opts) (p_payload pdu) (p_payload_sz pdu)
           (c_socket (f_conn flow)) peer b of
           (rc, b) \<Rightarrow>
             (case p_sibling pdu of
                None \<Rightarrow> Done (rc, b)
              | Some (a, mid) \<Rightarrow>
                  if \<not> dups then Done (rc, b)
                  else (case ec_dups_search e mid peer b of
                          None \<Rightarrow> Done (rc, b)
                        | Some rpdu \<Rightarrow>
                            run_bind (ec_recvd_pdu_update e rpdu (p_hdr pdu) (enc opts) (enc_sz opts)
                                (p_payload pdu) (p_payload_sz pdu) b)
                              (\<lambda>(_, b). Done (rc, b)))))"

end
