(* ===== verification/Observe.thy ===== *)
theory Observe
  imports Pdu
begin

text \<open>
  Server-side observations (\<open>lib/evcoap/src/evcoap_observe.c\<close>): the list of observed
  resources, their observers, notification when the countdown fires, and cancellation.

  \<open>ob_list\<close> is the queue \<^verbatim>\<open>coap->observing\<close> (addresses), \<open>ob_heap\<close> the records they
  point to (\<open>None\<close> is freed memory). Walking the queue through a freed record is a fault.
\<close>

subsection \<open>State\<close>

text \<open>The producer of representations: URI and media type to payload, \<open>None\<close> for a deleted resource.\<close>

type_synonym ec_observe_cb = "byte list \<Rightarrow> ec_mt \<Rightarrow> byte list option"

record ec_observer =
  ov_token :: "byte list"
  ov_token_sz :: nat
  ov_etag :: "byte list"
  ov_etag_sz :: nat
  ov_media_type :: ec_mt
  ov_msg_model :: byte
  ov_conn :: ec_conn
  ov_last_mid :: u16
  ov_reps_cb :: ec_observe_cb

record ec_observation =
  ob_uri :: "byte list"
  ob_max_age :: u32
  ob_observers :: "ec_observer list"
  ob_notify_pending :: bool

record 'm obs_st = "'m base" +
  ob_list :: "nat list"
  ob_heap :: "nat \<Rightarrow> ec_observation option"

abbreviation (input) EC_URI_MAX :: nat where "EC_URI_MAX \<equiv> 512"
abbreviation (input) EC_ETAG_SZ :: nat where "EC_ETAG_SZ \<equiv> 4"
abbreviation (input) EC_COAP_DEFAULT_MAX_AGE :: u32 where "EC_COAP_DEFAULT_MAX_AGE \<equiv> 60"

definition set_obs :: "nat \<Rightarrow> ec_observation option \<Rightarrow> ('m, 'z) obs_st_scheme \<Rightarrow> ('m, 'z) obs_st_scheme" where
  "set_obs a ob s = s\<lparr>ob_heap := (ob_heap s)(a := ob)\<rparr>"

subsection \<open>Observers\<close>

text \<open>
  The size of the ETag is checked against the token array (8 bytes) although the ETag array
  has 4: a longer one is written past its end.
\<close>

definition ec_observer_new ::
    "byte list option \<Rightarrow> nat \<Rightarrow> byte list option \<Rightarrow> nat \<Rightarrow> ec_mt \<Rightarrow> byte \<Rightarrow> ec_conn \<Rightarrow> ec_observe_cb \<Rightarrow>
     ec_observer option run" where
  "ec_observer_new token token_sz etag etag_sz mt mm conn cb =
     (if token_sz > 8 then Done None
      else if etag_sz > 8 then Done None
      else if etag \<noteq> None \<and> etag_sz > EC_ETAG_SZ then Fault Overwrite
      else let (tok, tok_sz) = (case token of
                 Some t \<Rightarrow> if token_sz = 0 then (replicate 8 0, 0)
                           else (take token_sz t @ replicate (8 - token_sz) 0, token_sz)
               | None \<Rightarrow> (replicate 8 0, 0));
               (et, et_sz) = (case etag of
                 Some t \<Rightarrow> if etag_sz = 0 then (replicate EC_ETAG_SZ 0, 0)
                           else (take etag_sz t @ replicate (EC_ETAG_SZ - etag_sz) 0, etag_sz)
               | None \<Rightarrow> (replicate EC_ETAG_SZ 0, 0))
           in Done (Some \<lparr>ov_token = tok, ov_token_sz = tok_sz, ov_etag = et, ov_etag_sz = et_sz,
                ov_media_type = mt, ov_msg_model = mm,
                ov_conn = ec_conn_copy conn (ec_conn_init\<lparr>c_socket := 0\<rparr>), ov_last_mid = 0, ov_reps_cb = cb\<rparr>))"

text \<open>Adding to the observation at \<open>a\<close>.\<close>

definition ec_observer_add ::
    "nat \<Rightarrow> byte list option \<Rightarrow> nat \<Rightarrow> byte list option \<Rightarrow> nat \<Rightarrow> ec_mt \<Rightarrow> byte \<Rightarrow> ec_conn \<Rightarrow> ec_observe_cb \<Rightarrow>
     ('m, 'z) obs_st_scheme \<Rightarrow> (crc \<times> ('m, 'z) obs_st_scheme) run" where
  "ec_observer_add a tok tok_sz etag etag_sz mt mm conn cb s =
     run_bind (ec_observer_new tok tok_sz etag etag_sz mt mm conn cb) (\<lambda>ovr.
       case ovr of
         None \<Rightarrow> Done (C_ERR, s)
       | Some ovr \<Rightarrow>
           (case ob_heap s a of
              None \<Rightarrow> Fault Use_after_free
            | Some ob \<Rightarrow> Done (C_OK, set_obs a (Some (ob\<lparr>ob_observers := ob_observers ob @ [ovr]\<rparr>)) s)))"

definition ec_source_match :: "ec_conn \<Rightarrow> ec_conn \<Rightarrow> bool" where
  "ec_source_match req_src obs_src =
     (case ec_net_socklen (c_peer req_src) of
        None \<Rightarrow> False
      | Some n \<Rightarrow> same_addr n (c_peer req_src) (c_peer obs_src))"

text \<open>The position of the first match in the list of observers.\<close>

definition observer_matches :: "ec_conn \<Rightarrow> u16 \<Rightarrow> ec_observer \<Rightarrow> bool" where
  "observer_matches conn mid ovr \<longleftrightarrow>
     ec_source_match conn (ov_conn ovr) \<and> \<not> (mid \<noteq> 0 \<and> ov_last_mid ovr \<noteq> mid)"

fun observer_index :: "ec_conn \<Rightarrow> u16 \<Rightarrow> ec_observer list \<Rightarrow> nat option" where
  "observer_index conn mid [] = None"
| "observer_index conn mid (ovr # ovrs) =
     (if observer_matches conn mid ovr then Some 0 else map_option Suc (observer_index conn mid ovrs))"

definition ec_observer_search :: "ec_observation \<Rightarrow> ec_conn \<Rightarrow> u16 \<Rightarrow> nat option" where
  "ec_observer_search ob conn mid = observer_index conn mid (ob_observers ob)"

subsection \<open>Observations\<close>

fun observation_walk :: "(nat \<Rightarrow> ec_observation option) \<Rightarrow> byte list \<Rightarrow> nat list \<Rightarrow> nat option run" where
  "observation_walk h uri [] = Done None"
| "observation_walk h uri (a # as) =
     (case h a of
        None \<Rightarrow> Fault Use_after_free
      | Some ob \<Rightarrow> if strcasecmp_eq (ob_uri ob) uri then Done (Some a) else observation_walk h uri as)"

definition ec_observation_search :: "byte list \<Rightarrow> ('m, 'z) obs_st_scheme \<Rightarrow> nat option run" where
  "ec_observation_search uri s = observation_walk (ob_heap s) uri (ob_list s)"

text \<open>The address of a new record is the number of the call that creates its event.\<close>

definition ec_observation_new ::
    "'m env \<Rightarrow> byte list \<Rightarrow> u32 \<Rightarrow> ('m, 'z) obs_st_scheme \<Rightarrow> nat option \<times> ('m, 'z) obs_st_scheme" where
  "ec_observation_new e uri max_age s =
     (case e_strlcpy e uri EC_URI_MAX of
        (C_ERR, _) \<Rightarrow> (None, s)
      | (C_OK, u) \<Rightarrow>
          if \<not> e_ev_ok e (w_tick s) then (None, tick s)
          else (Some (w_tick s), set_obs (w_tick s) (Some
                  \<lparr>ob_uri = u, ob_max_age = (if max_age \<noteq> 0 then max_age else EC_COAP_DEFAULT_MAX_AGE),
                   ob_observers = [], ob_notify_pending = False\<rparr>) (tick s)))"

definition ec_observation_free :: "nat \<Rightarrow> ('m, 'z) obs_st_scheme \<Rightarrow> ('m, 'z) obs_st_scheme" where
  "ec_observation_free a s = set_obs a None s"

definition ec_observation_start_countdown ::
    "'m env \<Rightarrow> nat \<Rightarrow> ('m, 'z) obs_st_scheme \<Rightarrow> (crc \<times> ('m, 'z) obs_st_scheme) run" where
  "ec_observation_start_countdown e a s =
     (case ob_heap s a of
        None \<Rightarrow> Fault Use_after_free
      | Some ob \<Rightarrow>
          if \<not> e_ev_ok e (w_tick s) then Done (C_ERR, tick s)
          else Done (C_OK, set_obs a (Some (ob\<lparr>ob_notify_pending := True\<rparr>)) (tick s)))"

definition ec_observation_add ::
    "'m env \<Rightarrow> byte list \<Rightarrow> u32 \<Rightarrow> ('m, 'z) obs_st_scheme \<Rightarrow> (nat option \<times> ('m, 'z) obs_st_scheme) run" where
  "ec_observation_add e uri max_age s =
     (case ec_observation_new e uri max_age s of
        (None, s) \<Rightarrow> Done (None, s)
      | (Some a, s) \<Rightarrow>
          run_bind (ec_observation_start_countdown e a s) (\<lambda>(rc, s).
            if rc = C_ERR then Done (None, ec_observation_free a s)
            else Done (Some a, s\<lparr>ob_list := ob_list s @ [a]\<rparr>)))"

text \<open>
  Removing the observer at position \<open>i\<close> of the observation at \<open>a\<close>; the last result is
  \<open>*drained\<close>.
\<close>

definition drop_nth :: "nat \<Rightarrow> 'a list \<Rightarrow> 'a list" where
  "drop_nth i xs = take i xs @ drop (Suc i) xs"

definition ec_observer_remove ::
    "nat \<Rightarrow> nat \<Rightarrow> ('m, 'z) obs_st_scheme \<Rightarrow> (('m, 'z) obs_st_scheme \<times> bool) run" where
  "ec_observer_remove a i s =
     (case ob_heap s a of
        None \<Rightarrow> Fault Use_after_free
      | Some ob \<Rightarrow>
          let ovrs = drop_nth i (ob_observers ob)
          in if ovrs = [] then Done (ec_observation_free a (s\<lparr>ob_list := remove1 a (ob_list s)\<rparr>), True)
             else Done (set_obs a (Some (ob\<lparr>ob_observers := ovrs\<rparr>)) s, False))"

text \<open>
  \<open>ec_add_observer\<close>: on a failure after the observation was created, the record is freed
  but stays in the queue.
\<close>

definition ec_add_observer ::
    "'m env \<Rightarrow> ec_flow \<Rightarrow> ec_observe_cb \<Rightarrow> u32 \<Rightarrow> ec_mt \<Rightarrow> byte \<Rightarrow> byte list option \<Rightarrow> nat \<Rightarrow>
     ('m, 'z) obs_st_scheme \<Rightarrow> (crc \<times> ('m, 'z) obs_st_scheme) run" where
  "ec_add_observer e flow cb max_age mt mm etag etag_sz s =
     run_bind (ec_observation_search (f_urlstr flow) s) (\<lambda>obs.
       case obs of
         Some a \<Rightarrow>
           ec_observer_add a (Some (f_token flow)) (f_token_sz flow) etag etag_sz mt mm (f_conn flow) cb s
       | None \<Rightarrow>
           run_bind (ec_observation_add e (f_urlstr flow) max_age s) (\<lambda>(new, s).
             case new of
               None \<Rightarrow> Done (C_ERR, s)
             | Some a \<Rightarrow>
                 run_bind (ec_observer_add a (Some (f_token flow)) (f_token_sz flow) etag etag_sz mt mm (f_conn flow) cb s)
                   (\<lambda>(rc, s). if rc = C_ERR then Done (C_ERR, ec_observation_free a s) else Done (C_OK, s))))"

definition ec_rem_observer :: "ec_flow \<Rightarrow> ('m, 'z) obs_st_scheme \<Rightarrow> (crc \<times> ('m, 'z) obs_st_scheme) run" where
  "ec_rem_observer flow s =
     run_bind (ec_observation_search (f_urlstr flow) s) (\<lambda>obs.
       case obs of
         None \<Rightarrow> Done (C_OK, s)
       | Some a \<Rightarrow>
           (case ob_heap s a of
              None \<Rightarrow> Fault Use_after_free
            | Some ob \<Rightarrow>
                (case ec_observer_search ob (f_conn flow) 0 of
                   None \<Rightarrow> Done (C_OK, s)
                 | Some i \<Rightarrow> run_bind (ec_observer_remove a i s) (\<lambda>(s, _). Done (C_OK, s)))))"

subsection \<open>Cancellation\<close>

text \<open>0: not an active observer, 1: observer deleted, -1: error.\<close>

fun rst_walk :: "(nat \<Rightarrow> ec_observation option) \<Rightarrow> ec_conn \<Rightarrow> u16 \<Rightarrow> nat list \<Rightarrow> (nat \<times> nat) option run" where
  "rst_walk h conn mid [] = Done None"
| "rst_walk h conn mid (a # as) =
     (case h a of
        None \<Rightarrow> Fault Use_after_free
      | Some ob \<Rightarrow>
          (case ec_observer_search ob conn mid of
             Some i \<Rightarrow> Done (Some (a, i))
           | None \<Rightarrow> rst_walk h conn mid as))"

definition ec_observe_canceled_by_rst ::
    "ec_conn \<Rightarrow> u16 \<Rightarrow> ('m, 'z) obs_st_scheme \<Rightarrow> (int \<times> ('m, 'z) obs_st_scheme) run" where
  "ec_observe_canceled_by_rst conn mid s =
     run_bind (rst_walk (ob_heap s) conn mid (ob_list s)) (\<lambda>r.
       case r of
         None \<Rightarrow> Done (0, s)
       | Some (a, i) \<Rightarrow> run_bind (ec_observer_remove a i s) (\<lambda>(s, _). Done (1, s)))"

definition ec_observe_canceled_by_get :: "ec_flow \<Rightarrow> ('m, 'z) obs_st_scheme \<Rightarrow> (int \<times> ('m, 'z) obs_st_scheme) run" where
  "ec_observe_canceled_by_get flow s =
     (if f_method flow \<noteq> EC_COAP_GET then Done (0, s)
      else run_bind (ec_observation_search (f_urlstr flow) s) (\<lambda>obs.
        case obs of
          None \<Rightarrow> Done (0, s)
        | Some a \<Rightarrow>
            (case ob_heap s a of
               None \<Rightarrow> Fault Use_after_free
             | Some ob \<Rightarrow>
                 (case ec_observer_search ob (f_conn flow) 0 of
                    None \<Rightarrow> Done (1, s)
                  | Some i \<Rightarrow> run_bind (ec_observer_remove a i s) (\<lambda>(s, _). Done (1, s))))))"

subsection \<open>Notification\<close>

definition ec_get_observe_counter :: "'m env \<Rightarrow> 'z world_scheme \<Rightarrow> u16 option \<times> 'z world_scheme" where
  "ec_get_observe_counter e w = (map_option ucast (e_time e (w_tick w)), tick w)"

text \<open>
  One round of the loop of \<open>ec_ob_cb\<close>: the result is the code, the observer (with the MID
  just used) and whether the resource is gone.
\<close>

definition notify_pdu :: "'m env \<Rightarrow> u16 \<Rightarrow> ec_observer \<Rightarrow> byte list option \<Rightarrow> ec_pdu \<Rightarrow> (ec_pdu \<times> ec_flow) option" where
  "notify_pdu e o_cnt ovr p nfy =
     (let flow = ec_flow_init\<lparr>f_conn := ec_conn_init\<lparr>c_socket := 0\<rparr>,
                   f_resp_code := (if p \<noteq> None then EC_CONTENT else EC_DELETED)\<rparr>
      in case (case p of None \<Rightarrow> (C_OK, nfy) | Some pl \<Rightarrow> ec_pdu_set_payload e nfy pl (length pl)) of
           (C_ERR, nfy) \<Rightarrow> None
         | (C_OK, nfy) \<Rightarrow>
             (case (if ov_token_sz ovr > 0 then ec_opts_add_token (p_opts nfy) (ov_token ovr) (ov_token_sz ovr)
                    else (C_OK, p_opts nfy)) of
                (C_ERR, opts) \<Rightarrow> None
              | (C_OK, opts) \<Rightarrow>
                  (case ec_opts_add_observe (e_le e) opts o_cnt of
                     (C_ERR, opts) \<Rightarrow> None
                   | (C_OK, opts) \<Rightarrow>
                       Some (nfy\<lparr>p_opts := opts\<rparr>,
                         flow\<lparr>f_conn := ec_conn_set_confirmable (ec_conn_copy (ov_conn ovr) (f_conn flow)) False\<rparr>))))"

definition notify_one ::
    "'m env \<Rightarrow> u16 \<Rightarrow> byte list \<Rightarrow> ec_observer \<Rightarrow> ('m, 'z) obs_st_scheme \<Rightarrow>
     (crc \<times> ec_observer \<times> bool \<times> ('m, 'z) obs_st_scheme) run" where
  "notify_one e o_cnt uri ovr s =
     (let p = ov_reps_cb ovr uri (ov_media_type ovr);
          (nfy, s) = ec_pdu_new_empty s
      in case notify_pdu e o_cnt ovr p nfy of
           None \<Rightarrow> Done (C_ERR, ovr, p = None, s)
         | Some (nfy, flow) \<Rightarrow>
             (case ec_pdu_encode_response_separate e nfy flow s of
                (C_ERR, nfy, s) \<Rightarrow> Done (C_ERR, ovr, p = None, s)
              | (C_OK, nfy, s) \<Rightarrow>
                  run_bind (ec_pdu_send e nfy flow False s) (\<lambda>(rc, s).
                    if rc = C_ERR then Done (C_ERR, ovr, p = None, s)
                    else Done (C_OK, (if p = None then ovr else ovr\<lparr>ov_last_mid := EC_PDU_MID nfy\<rparr>), p = None, s))))"

text \<open>
  The loop over the observers. When the producer reports a deleted resource, the observer is
  removed and freed, and the loop then reads the link of the freed record.
\<close>

fun notify_all ::
    "'m env \<Rightarrow> u16 \<Rightarrow> byte list \<Rightarrow> ec_observer list \<Rightarrow> ec_observer list \<Rightarrow> ('m, 'z) obs_st_scheme \<Rightarrow>
     (crc \<times> ec_observer list \<times> ('m, 'z) obs_st_scheme) run" where
  "notify_all e o_cnt uri acc [] s = Done (C_OK, acc, s)"
| "notify_all e o_cnt uri acc (ovr # ovrs) s =
     run_bind (notify_one e o_cnt uri ovr s) (\<lambda>(rc, ovr, gone, s).
       if rc = C_ERR then Done (C_ERR, acc @ ovr # ovrs, s)
       else if gone then Fault Use_after_free
       else notify_all e o_cnt uri (acc @ [ovr]) ovrs s)"

text \<open>
  \<open>drained\<close> is assigned only when an observer is removed: it is an unspecified value in
  the test after the loop.
\<close>

definition ec_ob_cb :: "'m env \<Rightarrow> nat \<Rightarrow> ('m, 'z) obs_st_scheme \<Rightarrow> ('m, 'z) obs_st_scheme run" where
  "ec_ob_cb e a s =
     (case ob_heap s a of
        None \<Rightarrow> Fault Use_after_free
      | Some ob \<Rightarrow>
          let s = set_obs a (Some (ob\<lparr>ob_notify_pending := False\<rparr>)) s
          in case ec_get_observe_counter e s of
               (None, s) \<Rightarrow> Done s
             | (Some o_cnt, s) \<Rightarrow>
                 run_bind (notify_all e o_cnt (ob_uri ob) [] (ob_observers ob) s) (\<lambda>(rc, ovrs, s).
                   let s = set_obs a (Some (ob\<lparr>ob_notify_pending := False, ob_observers := ovrs\<rparr>)) s
                   in if rc = C_ERR then Done s
                      else let drained = (e_junk16 e (w_tick s) \<noteq> 0)
                           in if \<not> drained then
                                run_bind (ec_observation_start_countdown e a s) (\<lambda>(_, s). Done s)
                              else Done s))"

end
