(* ===== verification/Opt_Url.thy ===== *)
theory Opt_Url
  imports Net Opt_Api
begin

text \<open>
  Rebuilding the requested URI from the options of a request (\<open>ec_opts_compose_url\<close> and its
  two helpers in \<open>lib/evcoap/src/evcoap_opt.c\<close>). The five character buffers are byte lists
  without their terminators; \<open>None\<close> is the error exit.
\<close>

record uri_bufs =
  b_host :: "byte list"
  b_port :: "byte list"
  b_path :: "byte list"
  b_query :: "byte list"
  b_authority :: "byte list"

definition uri_bufs_empty :: uri_bufs where
  "uri_bufs_empty = \<lparr>b_host = [], b_port = [], b_path = [], b_query = [], b_authority = []\<rparr>"

definition ok_buf :: "crc \<times> byte list \<Rightarrow> byte list option" where
  "ok_buf r = (case r of (C_OK, b) \<Rightarrow> Some b | (C_ERR, b) \<Rightarrow> None)"

text \<open>The port of a socket address, in network byte order right after the family.\<close>

definition sockaddr_port :: "sockaddr \<Rightarrow> u64 option" where
  "sockaddr_port us =
     (if ss_family us = AF_INET6 \<or> ss_family us = AF_INET
      then Some (push_bit 8 (ucast (ss_body us ! 0)) OR ucast (ss_body us ! 1)) else None)"

definition compose_host :: "'m env \<Rightarrow> sockaddr \<Rightarrow> ec_opt \<Rightarrow> uri_bufs \<Rightarrow> uri_bufs option" where
  "compose_host e us o' b =
     (if o_sym o' \<ge> EC_OPT_URI_HOST \<and> b_host b = [] \<and> b_authority b = [] then
        (if o_sym o' > EC_OPT_URI_HOST
         then map_option (\<lambda>s. b\<lparr>b_authority := s\<rparr>) (ok_buf (e_strlcpy e (e_fmt_addr_bytes e us) (e_URI_STRMAX e)))
         else map_option (\<lambda>s. b\<lparr>b_host := s\<rparr>) (ok_buf (e_strlcpy e (cstr (opt_mem o')) (e_URI_STRMAX e))))
      else Some b)"

definition compose_port :: "'m env \<Rightarrow> sockaddr \<Rightarrow> ec_opt \<Rightarrow> uri_bufs \<Rightarrow> uri_bufs option" where
  "compose_port e us o' b =
     (if o_sym o' \<ge> EC_OPT_URI_PORT \<and> b_port b = [] \<and> b_authority b = [] then
        (case (if o_sym o' \<noteq> EC_OPT_URI_PORT then sockaddr_port us
               else ec_opt_decode_uint (e_le e) (opt_mem o') (o_l o')) of
           None \<Rightarrow> None
         | Some p \<Rightarrow> map_option (\<lambda>s. b\<lparr>b_port := s\<rparr>) (e_port_snprintf e p))
      else Some b)"

definition compose_path :: "'m env \<Rightarrow> ec_opt \<Rightarrow> uri_bufs \<Rightarrow> uri_bufs option" where
  "compose_path e o' b =
     (if o_sym o' = EC_OPT_URI_PATH then
        Option.bind (ok_buf (e_strlcat e (b_path b) [47] (e_URI_STRMAX e))) (\<lambda>s.
        map_option (\<lambda>s. b\<lparr>b_path := s\<rparr>) (ok_buf (e_strlcat e s (cstr (opt_mem o')) (e_URI_STRMAX e))))
      else Some b)"

definition compose_query :: "'m env \<Rightarrow> ec_opt \<Rightarrow> uri_bufs \<Rightarrow> uri_bufs option" where
  "compose_query e o' b =
     (if o_sym o' = EC_OPT_URI_QUERY then
        Option.bind (if b_query b \<noteq> [] then ok_buf (e_strlcat e (b_query b) [38] (e_URI_STRMAX e)) else Some (b_query b)) (\<lambda>s.
        map_option (\<lambda>s. b\<lparr>b_query := s\<rparr>) (ok_buf (e_strlcat e s (cstr (opt_mem o')) (e_URI_STRMAX e))))
      else Some b)"

fun compose_bufs :: "'m env \<Rightarrow> sockaddr \<Rightarrow> ec_opt list \<Rightarrow> uri_bufs \<Rightarrow> uri_bufs option" where
  "compose_bufs e us [] b = Some b"
| "compose_bufs e us (o' # os) b =
     Option.bind (compose_host e us o' b) (\<lambda>b.
     Option.bind (compose_port e us o' b) (\<lambda>b.
     Option.bind (compose_path e o' b) (\<lambda>b.
     Option.bind (compose_query e o' b) (\<lambda>b. compose_bufs e us os b))))"

definition scheme_bytes :: "bool \<Rightarrow> byte list" where
  "scheme_bytes nosec = [99, 111, 97, 112] @ (if nosec then [] else [115])"

definition compose_uri :: "'m env \<Rightarrow> ec_opts \<Rightarrow> sockaddr \<Rightarrow> bool \<Rightarrow> u_uri option" where
  "compose_uri e opts us nosec =
     (case compose_bufs e us (opts_bundle opts) uri_bufs_empty of
        None \<Rightarrow> None
      | Some b \<Rightarrow>
          (case e_uri_new e of
             None \<Rightarrow> None
           | Some u \<Rightarrow>
               let u = e_uri_set_scheme e u (scheme_bytes nosec);
                   u = (if b_authority b = [] then e_uri_set_port e (e_uri_set_host e u (b_host b)) (b_port b)
                        else e_uri_set_authority e u (b_authority b));
                   u = e_uri_set_path e u (if b_path b = [] then [47] else b_path b);
                   u = (if b_query b \<noteq> [] then e_uri_set_query e u (b_query b) else u)
               in (case e_uri_knead e u of None \<Rightarrow> None | Some uri \<Rightarrow> Some u)))"

fun proxy_fragments :: "'m env \<Rightarrow> ec_opt list \<Rightarrow> byte list \<Rightarrow> byte list option" where
  "proxy_fragments e [] uri = Some uri"
| "proxy_fragments e (o' # os) uri =
     (if o_sym o' = EC_OPT_PROXY_URI then
        (case ok_buf (e_strlcat e uri (cstr (opt_mem o')) (e_URI_STRMAX e)) of
           None \<Rightarrow> None
         | Some uri' \<Rightarrow> proxy_fragments e os uri')
      else proxy_fragments e os uri)"

definition compose_proxy_uri :: "'m env \<Rightarrow> ec_opts \<Rightarrow> u_uri option" where
  "compose_proxy_uri e opts =
     (case proxy_fragments e (opts_bundle opts) [] of
        None \<Rightarrow> None
      | Some uri \<Rightarrow> if uri = [] then None else e_uri_crumble e uri)"

definition ec_opts_get_proxy_uri :: "'m env \<Rightarrow> ec_opts \<Rightarrow> byte list option" where
  "ec_opts_get_proxy_uri e opts =
     (case compose_proxy_uri e opts of
        None \<Rightarrow> None
      | Some u \<Rightarrow> proxy_fragments e (opts_bundle opts) [])"

text \<open>The URI and whether it came from Proxy-Uri options.\<close>

definition ec_opts_compose_url :: "'m env \<Rightarrow> ec_opts \<Rightarrow> sockaddr \<Rightarrow> bool \<Rightarrow> u_uri option \<times> bool" where
  "ec_opts_compose_url e opts us nosec =
     (case compose_proxy_uri e opts of
        Some u \<Rightarrow> (Some u, True)
      | None \<Rightarrow> (compose_uri e opts us nosec, False))"

subsection \<open>The URI path\<close>

text \<open>libu's \<open>u_strlcat\<close> and \<open>u_strlcpy\<close>, when nothing is truncated.\<close>

definition strl_laws :: "'m env \<Rightarrow> bool" where
  "strl_laws e \<longleftrightarrow>
     (\<forall>src sz. length src < sz \<longrightarrow> e_strlcpy e src sz = (C_OK, src)) \<and>
     (\<forall>dst src sz. length dst + length src < sz \<longrightarrow> e_strlcat e dst src sz = (C_OK, dst @ src))"

lemma strlcat_ok:
  "strl_laws e \<Longrightarrow> length dst + length src < sz \<Longrightarrow> ok_buf (e_strlcat e dst src sz) = Some (dst @ src)"
  by (simp add: strl_laws_def ok_buf_def)

definition path_segment :: "ec_opt \<Rightarrow> byte list" where
  "path_segment o' = 47 # cstr (opt_mem o')"

lemma compose_path_keeps:
  "compose_host e us o' b = Some b1 \<Longrightarrow> b_path b1 = b_path b"
  "compose_port e us o' b = Some b1 \<Longrightarrow> b_path b1 = b_path b"
  "compose_query e o' b = Some b1 \<Longrightarrow> b_path b1 = b_path b"
  by (auto simp: compose_host_def compose_port_def compose_query_def bind_eq_Some_conv split: if_splits option.splits)

lemma compose_bufs_path:
  assumes "strl_laws e" and "compose_bufs e us os b = Some b'"
    and "length (b_path b) + length (concat (map path_segment (filter (\<lambda>o'. o_sym o' = EC_OPT_URI_PATH) os))) < e_URI_STRMAX e"
  shows "b_path b' = b_path b @ concat (map path_segment (filter (\<lambda>o'. o_sym o' = EC_OPT_URI_PATH) os))"
  using assms(2,3)
proof (induction os arbitrary: b)
  case Nil
  then show ?case by simp
next
  case (Cons o' os)
  obtain b1 b2 b3 b4 where s: "compose_host e us o' b = Some b1" "compose_port e us o' b1 = Some b2"
    "compose_path e o' b2 = Some b3" "compose_query e o' b3 = Some b4" "compose_bufs e us os b4 = Some b'"
    using Cons.prems(1) by (auto simp: bind_eq_Some_conv)
  then have k: "b_path b2 = b_path b" "b_path b4 = b_path b3" by (simp_all add: compose_path_keeps)
  have "b_path b3 = b_path b @ (if o_sym o' = EC_OPT_URI_PATH then path_segment o' else [])"
    using s(3) k(1) Cons.prems(2) assms(1)
    by (auto simp: compose_path_def strlcat_ok path_segment_def split: if_splits)
  with k Cons.IH [OF s(5)] Cons.prems(2) show ?case by (auto split: if_splits)
qed

end
