(* ===== verification/Server.thy ===== *)
theory Server
  imports Observe Opt_Url
begin

text \<open>
  Server transactions (\<open>include/evcoap_srv.h\<close>, \<open>lib/evcoap/src/evcoap_srv.c\<close>) and the part of
  the user interface (\<open>lib/evcoap/src/evcoap.c\<close>) that server callbacks may use.

  \<open>sv_heap\<close> holds the live transactions by address, \<open>sv_list\<close> is the queue
  \<^verbatim>\<open>coap->servers\<close>. \<open>sv_packs\<close> are the argument packs of the rescheduling events
  that libevent still has to fire: releasing a transaction does not remove its own.
\<close>

subsection \<open>State\<close>

text \<open>What a callback may do to its transaction, as the calls it makes.\<close>

datatype user_call =
    U_set_code ec_rc
  | U_set_payload "byte list" nat
  | U_add_max_age u32
  | U_add_observe u16
  | U_add_block1 u32 bool nat
  | U_add_block2 u32 bool nat
  | U_add_etag "byte list" nat
  | U_add_content_type u16
  | U_add_location_path "byte list"
  | U_add_location_query "byte list"
  | U_add_observer ec_observe_cb u32 ec_mt byte "byte list option" nat
  | U_rem_observer

text \<open>A callback sees the flow, the request and the response, and whether it is rescheduled.\<close>

type_synonym server_cb =
  "ec_flow \<Rightarrow> ec_pdu option \<Rightarrow> ec_pdu option \<Rightarrow> bool \<Rightarrow> ec_cbrc \<times> timeval \<times> user_call list"

record ec_server =
  sv_state :: ec_srv_state
  sv_flow :: ec_flow
  sv_req :: "ec_pdu option"
  sv_res :: "ec_pdu option"
  sv_octrl :: "ec_pdu option"
  sv_parent :: bool
  sv_t_coap :: ec_timer
  sv_t_resched :: ec_timer

record ec_rescb =
  rc_path :: "byte list"
  rc_cb :: server_cb

record 'm srv_st = "'m obs_st" +
  sv_list :: "nat list"
  sv_heap :: "nat \<Rightarrow> ec_server option"
  sv_packs :: "(nat \<times> server_cb) list"
  resources :: "ec_rescb list"
  fallback :: "server_cb option"
  s_cfg :: ec_cfg

definition get_srv :: "nat \<Rightarrow> ('m, 'z) srv_st_scheme \<Rightarrow> ec_server run" where
  "get_srv a s = (case sv_heap s a of None \<Rightarrow> Fault Use_after_free | Some srv \<Rightarrow> Done srv)"

definition put_srv :: "nat \<Rightarrow> ec_server \<Rightarrow> ('m, 'z) srv_st_scheme \<Rightarrow> ('m, 'z) srv_st_scheme" where
  "put_srv a srv s = s\<lparr>sv_heap := (sv_heap s)(a \<mapsto> srv)\<rparr>"

text \<open>A new transaction is zeroed memory: its socket is 0, not -1.\<close>

definition ec_server_new :: "('m, 'z) srv_st_scheme \<Rightarrow> nat \<times> ('m, 'z) srv_st_scheme" where
  "ec_server_new s =
     (w_tick s, put_srv (w_tick s)
        \<lparr>sv_state = EC_SRV_STATE_NONE, sv_flow = ec_flow_init\<lparr>f_conn := ec_conn_init\<lparr>c_socket := 0\<rparr>\<rparr>,
         sv_req = None, sv_res = None, sv_octrl = None, sv_parent = False,
         sv_t_coap = timer_zero, sv_t_resched = timer_zero\<rparr> (tick s))"

definition ec_server_add :: "nat \<Rightarrow> ec_server \<Rightarrow> ('m, 'z) srv_st_scheme \<Rightarrow> ('m, 'z) srv_st_scheme" where
  "ec_server_add a srv s = put_srv a (srv\<lparr>sv_parent := True\<rparr>) (s\<lparr>sv_list := sv_list s @ [a]\<rparr>)"

definition ec_server_free :: "nat \<Rightarrow> ec_server \<Rightarrow> ('m, 'z) srv_st_scheme \<Rightarrow> ('m, 'z) srv_st_scheme" where
  "ec_server_free a srv s =
     s\<lparr>sv_heap := (sv_heap s)(a := None),
       sv_list := (if sv_parent srv then remove1 a (sv_list s) else sv_list s)\<rparr>"

subsection \<open>The state machine\<close>

definition ec_server_state_is_final :: "ec_srv_state \<Rightarrow> bool" where
  "ec_server_state_is_final st \<longleftrightarrow>
     st \<in> {EC_SRV_STATE_INTERNAL_ERR, EC_SRV_STATE_DUP_REQ, EC_SRV_STATE_BAD_REQ,
           EC_SRV_STATE_RESP_ACK_TIMEOUT, EC_SRV_STATE_RESP_DONE, EC_SRV_STATE_CLIENT_RST}"

fun ec_server_check_transition :: "ec_srv_state \<Rightarrow> ec_srv_state \<Rightarrow> crc" where
  "ec_server_check_transition cur EC_SRV_STATE_INTERNAL_ERR = C_OK"
| "ec_server_check_transition cur EC_SRV_STATE_DUP_REQ = (if cur \<noteq> EC_SRV_STATE_NONE then C_ERR else C_OK)"
| "ec_server_check_transition cur EC_SRV_STATE_BAD_REQ = (if cur \<noteq> EC_SRV_STATE_NONE then C_ERR else C_OK)"
| "ec_server_check_transition cur EC_SRV_STATE_REQ_OK = (if cur \<noteq> EC_SRV_STATE_NONE then C_ERR else C_OK)"
| "ec_server_check_transition cur EC_SRV_STATE_ACK_SENT =
     (if cur \<noteq> EC_SRV_STATE_REQ_OK \<and> cur \<noteq> EC_SRV_STATE_WAIT_ACK then C_ERR else C_OK)"
| "ec_server_check_transition cur EC_SRV_STATE_WAIT_ACK =
     (if cur \<noteq> EC_SRV_STATE_ACK_SENT \<and> cur \<noteq> EC_SRV_STATE_COAP_RETRY then C_ERR else C_OK)"
| "ec_server_check_transition cur EC_SRV_STATE_RESP_ACK_TIMEOUT =
     (if cur \<noteq> EC_SRV_STATE_WAIT_ACK then C_ERR else C_OK)"
| "ec_server_check_transition cur EC_SRV_STATE_RESP_DONE =
     (if cur \<noteq> EC_SRV_STATE_REQ_OK \<and> cur \<noteq> EC_SRV_STATE_WAIT_ACK \<and> cur \<noteq> EC_SRV_STATE_ACK_SENT
      then C_ERR else C_OK)"
| "ec_server_check_transition cur EC_SRV_STATE_COAP_RETRY =
     (if cur \<noteq> EC_SRV_STATE_WAIT_ACK then C_ERR else C_OK)"
| "ec_server_check_transition cur EC_SRV_STATE_CLIENT_RST = C_OK"
| "ec_server_check_transition cur EC_SRV_STATE_NONE = C_ERR"

abbreviation (input) EC_COAP_RESP_TIMEOUT :: nat where "EC_COAP_RESP_TIMEOUT \<equiv> 2"
abbreviation (input) EC_COAP_MAX_RETRANSMIT :: nat where "EC_COAP_MAX_RETRANSMIT \<equiv> 4"

definition ec_srv_start_coap_timer ::
    "'m env \<Rightarrow> ec_server \<Rightarrow> 'z world_scheme \<Rightarrow> crc \<times> ec_server \<times> 'z world_scheme" where
  "ec_srv_start_coap_timer e srv s =
     (case ec_timer_start e ((sv_t_coap srv)\<lparr>tout := (EC_COAP_RESP_TIMEOUT, 0)\<rparr>) EC_COAP_MAX_RETRANSMIT s of
        (rc, ti, s) \<Rightarrow> (rc, srv\<lparr>sv_t_coap := ti\<rparr>, s))"

definition ec_srv_restart_coap_timer ::
    "'m env \<Rightarrow> ec_server \<Rightarrow> 'z world_scheme \<Rightarrow> (crc \<times> ec_server \<times> 'z world_scheme) run" where
  "ec_srv_restart_coap_timer e srv s =
     (let ti = sv_t_coap srv
      in if retries_left ti = 0 then Done (C_ERR, srv, s)
         else let ti = ti\<lparr>tout := (fst (tout ti) * 2, snd (tout ti)), retries_left := retries_left ti - 1\<rparr>
              in run_bind (ec_timer_restart e ti s) (\<lambda>(rc, ti, s). Done (rc, srv\<lparr>sv_t_coap := ti\<rparr>, s)))"

definition ec_srv_stop_coap_timer :: "ec_server \<Rightarrow> ec_server" where
  "ec_srv_stop_coap_timer srv = srv\<lparr>sv_t_coap := ec_timer_remove (sv_t_coap srv)\<rparr>"

text \<open>The timer actions of \<open>ec_server_set_state\<close>; their results are only logged.\<close>

definition srv_state_timers ::
    "'m env \<Rightarrow> ec_srv_state \<Rightarrow> ec_server \<Rightarrow> 'z world_scheme \<Rightarrow> (ec_server \<times> 'z world_scheme) run" where
  "srv_state_timers e st srv s =
     (if st = EC_SRV_STATE_WAIT_ACK then
        (if sv_state srv = EC_SRV_STATE_ACK_SENT then
           (case ec_srv_start_coap_timer e (srv\<lparr>sv_flow := ec_flow_set_separate (sv_flow srv) True\<rparr>) s of
              (rc, srv, s) \<Rightarrow> Done (srv, s))
         else if sv_state srv = EC_SRV_STATE_COAP_RETRY then
           run_bind (ec_srv_restart_coap_timer e srv s) (\<lambda>(rc, srv, s). Done (srv, s))
         else Done (srv, s))
      else Done (srv, s))"

definition ec_server_set_state ::
    "'m env \<Rightarrow> nat \<Rightarrow> ec_srv_state \<Rightarrow> ('m, 'z) srv_st_scheme \<Rightarrow> ('m, 'z) srv_st_scheme run" where
  "ec_server_set_state e a st s =
     run_bind (get_srv a s) (\<lambda>srv.
       if ec_server_check_transition (sv_state srv) st = C_ERR then Fault Process_exit
       else run_bind (srv_state_timers e st srv s) (\<lambda>(srv, s).
         let srv = srv\<lparr>sv_state := st\<rparr>
         in if ec_server_state_is_final st
            then let srv = ec_srv_stop_coap_timer srv in Done (ec_server_free a srv s)
            else Done (put_srv a srv s)))"

subsection \<open>Responding\<close>

text \<open>
  \<open>ec_server_send_resp\<close> up to the encoded response, then sending it. The response PDU is
  written back whatever happens.
\<close>

definition encode_resp ::
    "'m env \<Rightarrow> ec_server \<Rightarrow> ec_pdu \<Rightarrow> 'z world_scheme \<Rightarrow> crc \<times> ec_pdu \<times> 'z world_scheme" where
  "encode_resp e srv res s =
     (case (if sv_state srv \<noteq> EC_SRV_STATE_ACK_SENT
            then (case sv_req srv of None \<Rightarrow> (C_ERR, res) | Some req \<Rightarrow> ec_pdu_set_sibling res req)
            else (C_OK, res)) of
        (C_ERR, res) \<Rightarrow> (C_ERR, res, s)
      | (C_OK, res) \<Rightarrow>
          let flow = sv_flow srv
          in if \<not> EC_IS_RESP_CODE (f_resp_code flow) then (C_ERR, res, s)
             else (case ec_conn_get_confirmable (f_conn flow) of
                     None \<Rightarrow> (C_ERR, res, s)
                   | Some is_con \<Rightarrow>
                       if is_con \<and> \<not> ec_flow_get_separate flow \<and> sv_state srv \<noteq> EC_SRV_STATE_ACK_SENT
                       then (case ec_pdu_encode_response_piggyback (e_le e) res flow of (rc, res) \<Rightarrow> (rc, res, s))
                       else ec_pdu_encode_response_separate e res flow s))"

definition ec_server_send_resp ::
    "'m env \<Rightarrow> nat \<Rightarrow> ('m, 'z) srv_st_scheme \<Rightarrow> (crc \<times> ('m, 'z) srv_st_scheme) run" where
  "ec_server_send_resp e a s =
     run_bind (get_srv a s) (\<lambda>srv.
       case sv_res srv of
         None \<Rightarrow> Done (C_ERR, s)
       | Some res \<Rightarrow>
           (case encode_resp e srv res s of
              (rc, res, s) \<Rightarrow>
                let s = put_srv a (srv\<lparr>sv_res := Some res\<rparr>) s
                in if rc = C_ERR then Done (C_ERR, s)
                   else ec_pdu_send e res (sv_flow srv) True s))"

definition ec_server_send_separate_ack ::
    "'m env \<Rightarrow> nat \<Rightarrow> ('m, 'z) srv_st_scheme \<Rightarrow> (crc \<times> ('m, 'z) srv_st_scheme) run" where
  "ec_server_send_separate_ack e a s =
     run_bind (get_srv a s) (\<lambda>srv.
       if sv_state srv \<noteq> EC_SRV_STATE_REQ_OK then Done (C_ERR, s)
       else if sv_octrl srv \<noteq> None then Done (C_ERR, s)
       else let (sep_ack, s) = ec_pdu_new_empty s
            in case sv_req srv of
                 None \<Rightarrow> Done (C_ERR, s)
               | Some req \<Rightarrow>
                   (case ec_pdu_set_sibling sep_ack req of
                      (C_ERR, _) \<Rightarrow> Done (C_ERR, s)
                    | (C_OK, sep_ack) \<Rightarrow>
                        (case ec_pdu_encode_response_ack (e_le e) sep_ack (sv_flow srv) of
                           (C_ERR, _) \<Rightarrow> Done (C_ERR, s)
                         | (C_OK, sep_ack) \<Rightarrow>
                             run_bind (ec_pdu_send e sep_ack (sv_flow srv) True s) (\<lambda>(rc, s).
                               if rc = C_ERR then Done (C_ERR, s)
                               else Done (C_OK, put_srv a (srv\<lparr>sv_octrl := Some sep_ack\<rparr>) s)))))"

definition ec_trim_payload_sz :: "ec_cfg \<Rightarrow> nat \<Rightarrow> nat" where
  "ec_trim_payload_sz cfg pl_sz =
     (let (stateless_block, szx) = ec_cfg_get_block_info cfg; bsz = 2 ^ (szx + 4)
      in if \<not> stateless_block \<and> pl_sz > bsz then bsz else pl_sz)"

definition ec_server_reply ::
    "'m env \<Rightarrow> nat \<Rightarrow> ec_rc \<Rightarrow> byte list option \<Rightarrow> nat \<Rightarrow> ('m, 'z) srv_st_scheme \<Rightarrow>
     (crc \<times> ('m, 'z) srv_st_scheme) run" where
  "ec_server_reply e a rc pl pl_sz s =
     run_bind (get_srv a s) (\<lambda>srv.
       case ec_flow_set_resp_code (sv_flow srv) rc of
         (C_ERR, _) \<Rightarrow> Done (C_ERR, s)
       | (C_OK, flow) \<Rightarrow>
           let srv = srv\<lparr>sv_flow := flow\<rparr>
           in case (if pl \<noteq> None \<and> pl_sz \<noteq> 0
                    then (case sv_res srv of
                            None \<Rightarrow> (C_ERR, srv)
                          | Some res \<Rightarrow>
                              (case ec_pdu_set_payload e res (the pl) (ec_trim_payload_sz (s_cfg s) pl_sz) of
                                 (rc, res) \<Rightarrow> (rc, srv\<lparr>sv_res := Some res\<rparr>)))
                    else (C_OK, srv)) of
                (C_ERR, srv) \<Rightarrow> Done (C_ERR, put_srv a srv s)
              | (C_OK, srv) \<Rightarrow> ec_server_send_resp e a (put_srv a srv s))"

definition ec_server_ready ::
    "'m env \<Rightarrow> nat \<Rightarrow> bool \<Rightarrow> ('m, 'z) srv_st_scheme \<Rightarrow> (crc \<times> ('m, 'z) srv_st_scheme) run" where
  "ec_server_ready e a is_con s =
     run_bind (get_srv a s) (\<lambda>srv.
       if sv_state srv = EC_SRV_STATE_ACK_SENT \<or> sv_state srv = EC_SRV_STATE_REQ_OK then
         run_bind (ec_server_send_resp e a s) (\<lambda>(rc, s).
           if rc = C_ERR then Done (C_ERR, s)
           else run_bind (get_srv a s) (\<lambda>srv.
             run_bind (ec_server_set_state e a
               (if is_con \<and> sv_state srv = EC_SRV_STATE_ACK_SENT then EC_SRV_STATE_WAIT_ACK
                else EC_SRV_STATE_RESP_DONE) s) (\<lambda>s. Done (C_OK, s))))
       else Done (C_ERR, s))"

definition ec_server_wakeup ::
    "'m env \<Rightarrow> nat \<Rightarrow> ('m, 'z) srv_st_scheme \<Rightarrow> (crc \<times> ('m, 'z) srv_st_scheme) run" where
  "ec_server_wakeup e a s =
     run_bind (get_srv a s) (\<lambda>srv.
       case ec_conn_get_confirmable (f_conn (sv_flow srv)) of
         None \<Rightarrow> Done (C_ERR, s)
       | Some is_con \<Rightarrow> ec_server_ready e a is_con s)"

end
