(* ===== verification/Srv_Engine.thy ===== *)
theory Srv_Engine
  imports Server
begin

text \<open>
  The server engine: the calls available to callbacks, running a callback, and processing
  a received PDU, a fired retransmission timer or a fired rescheduling event
  (\<open>lib/evcoap/src/evcoap_srv.c\<close>, with the response setters of \<open>lib/evcoap/src/evcoap.c\<close>).
\<close>

subsection \<open>Response setters\<close>

text \<open>The loop of \<open>add_block\<close>: \<open>i\<close>-th size 16, 32, ... up to 1024.\<close>

fun block_exponent :: "nat \<Rightarrow> nat list \<Rightarrow> byte \<Rightarrow> byte option" where
  "block_exponent bsz [] i = None"
| "block_exponent bsz (sz # szs) i = (if bsz = sz then Some i else block_exponent bsz szs (i + 1))"

definition add_block :: "bool \<Rightarrow> ec_opts \<Rightarrow> ec_opt_sym \<Rightarrow> u32 \<Rightarrow> bool \<Rightarrow> nat \<Rightarrow> crc \<times> ec_opts" where
  "add_block le opts which bnum m bsz =
     (if which \<noteq> EC_OPT_BLOCK1 \<and> which \<noteq> EC_OPT_BLOCK2 then (C_ERR, opts)
      else if bsz < EC_COAP_BLOCK_MIN \<or> bsz > EC_COAP_BLOCK_MAX then (C_ERR, opts)
      else if (of_nat bsz :: u64) AND (NOT (of_nat bsz) + 1) \<noteq> of_nat bsz then (C_ERR, opts)
      else if ec_opts_get_uint le opts which \<noteq> None then (C_ERR, opts)
      else case block_exponent bsz [16, 32, 64, 128, 256, 512, 1024] 0 of
        None \<Rightarrow> (C_ERR, opts)
      | Some szx \<Rightarrow> ec_opts_add_block le opts which bnum m szx)"

text \<open>A setter of response options: -1 when there is no response PDU.\<close>

definition on_res_opts :: "ec_server \<Rightarrow> (ec_opts \<Rightarrow> crc \<times> ec_opts) \<Rightarrow> crc \<times> ec_server" where
  "on_res_opts srv f =
     (case sv_res srv of
        None \<Rightarrow> (C_ERR, srv)
      | Some res \<Rightarrow> (case f (p_opts res) of (rc, opts) \<Rightarrow> (rc, srv\<lparr>sv_res := Some (res\<lparr>p_opts := opts\<rparr>)\<rparr>)))"

definition ec_response_set_code :: "ec_server \<Rightarrow> ec_rc \<Rightarrow> crc \<times> ec_server" where
  "ec_response_set_code srv rc =
     (case ec_flow_set_resp_code (sv_flow srv) rc of (c, flow) \<Rightarrow> (c, srv\<lparr>sv_flow := flow\<rparr>))"

definition ec_response_set_payload :: "'m env \<Rightarrow> ec_server \<Rightarrow> byte list \<Rightarrow> nat \<Rightarrow> crc \<times> ec_server" where
  "ec_response_set_payload e srv payload sz =
     (case sv_res srv of
        None \<Rightarrow> (C_ERR, srv)
      | Some res \<Rightarrow> (case ec_pdu_set_payload e res payload sz of (c, res) \<Rightarrow> (c, srv\<lparr>sv_res := Some res\<rparr>)))"

definition ec_response_add_max_age :: "bool \<Rightarrow> ec_server \<Rightarrow> u32 \<Rightarrow> crc \<times> ec_server" where
  "ec_response_add_max_age le srv max_age = on_res_opts srv (\<lambda>opts. ec_opts_add_max_age le opts max_age)"

definition ec_response_add_observe :: "bool \<Rightarrow> ec_server \<Rightarrow> u16 \<Rightarrow> crc \<times> ec_server" where
  "ec_response_add_observe le srv ov = on_res_opts srv (\<lambda>opts. ec_opts_add_observe le opts ov)"

definition ec_response_add_block :: "bool \<Rightarrow> ec_server \<Rightarrow> ec_opt_sym \<Rightarrow> u32 \<Rightarrow> bool \<Rightarrow> nat \<Rightarrow> crc \<times> ec_server" where
  "ec_response_add_block le srv which bnum m bsz = on_res_opts srv (\<lambda>opts. add_block le opts which bnum m bsz)"

definition ec_response_add_block1 :: "bool \<Rightarrow> ec_server \<Rightarrow> u32 \<Rightarrow> bool \<Rightarrow> nat \<Rightarrow> crc \<times> ec_server" where
  "ec_response_add_block1 le srv bnum m bsz = ec_response_add_block le srv EC_OPT_BLOCK1 bnum m bsz"

definition ec_response_add_block2 :: "bool \<Rightarrow> ec_server \<Rightarrow> u32 \<Rightarrow> bool \<Rightarrow> nat \<Rightarrow> crc \<times> ec_server" where
  "ec_response_add_block2 le srv bnum m bsz = ec_response_add_block le srv EC_OPT_BLOCK2 bnum m bsz"

definition ec_response_add_etag :: "ec_server \<Rightarrow> byte list \<Rightarrow> nat \<Rightarrow> crc \<times> ec_server" where
  "ec_response_add_etag srv et et_len = on_res_opts srv (\<lambda>opts. ec_opts_add_etag opts et et_len)"

definition ec_response_add_content_type :: "bool \<Rightarrow> ec_server \<Rightarrow> u16 \<Rightarrow> crc \<times> ec_server" where
  "ec_response_add_content_type le srv ct = on_res_opts srv (\<lambda>opts. ec_opts_add_content_type le opts ct)"

definition ec_response_add_location_path :: "ec_server \<Rightarrow> byte list \<Rightarrow> crc \<times> ec_server" where
  "ec_response_add_location_path srv lp = on_res_opts srv (\<lambda>opts. ec_opts_add_location_path opts lp)"

definition ec_response_add_location_query :: "ec_server \<Rightarrow> byte list \<Rightarrow> crc \<times> ec_server" where
  "ec_response_add_location_query srv lq = on_res_opts srv (\<lambda>opts. ec_opts_add_location_query opts lq)"

text \<open>
  One call of a callback. Option setters that would read past the bytes they were given
  are the callback's own fault and are not modelled: lists are as long as their callers say.
\<close>

fun user_call_srv :: "'m env \<Rightarrow> user_call \<Rightarrow> ec_server \<Rightarrow> ec_server" where
  "user_call_srv e (U_set_code rc) srv = snd (ec_response_set_code srv rc)"
| "user_call_srv e (U_set_payload p sz) srv = snd (ec_response_set_payload e srv p sz)"
| "user_call_srv e (U_add_max_age a) srv = snd (ec_response_add_max_age (e_le e) srv a)"
| "user_call_srv e (U_add_observe ov) srv = snd (ec_response_add_observe (e_le e) srv ov)"
| "user_call_srv e (U_add_block1 n m sz) srv = snd (ec_response_add_block1 (e_le e) srv n m sz)"
| "user_call_srv e (U_add_block2 n m sz) srv = snd (ec_response_add_block2 (e_le e) srv n m sz)"
| "user_call_srv e (U_add_etag et l) srv = snd (ec_response_add_etag srv et l)"
| "user_call_srv e (U_add_content_type ct) srv = snd (ec_response_add_content_type (e_le e) srv ct)"
| "user_call_srv e (U_add_location_path lp) srv = snd (ec_response_add_location_path srv lp)"
| "user_call_srv e (U_add_location_query lq) srv = snd (ec_response_add_location_query srv lq)"
| "user_call_srv e (U_add_observer cb a mt mm et l) srv = srv"
| "user_call_srv e U_rem_observer srv = srv"

definition apply_user_call :: "'m env \<Rightarrow> nat \<Rightarrow> user_call \<Rightarrow> ('m, 'z) srv_st_scheme \<Rightarrow> ('m, 'z) srv_st_scheme run" where
  "apply_user_call e a c s =
     run_bind (get_srv a s) (\<lambda>srv.
       case c of
         U_add_observer cb ma mt mm et l \<Rightarrow>
           run_bind (ec_add_observer e (sv_flow srv) cb ma mt mm et l s) (\<lambda>(_, s). Done s)
       | U_rem_observer \<Rightarrow> run_bind (ec_rem_observer (sv_flow srv) s) (\<lambda>(_, s). Done s)
       | _ \<Rightarrow> Done (put_srv a (user_call_srv e c srv) s))"

fun apply_user_calls ::
    "'m env \<Rightarrow> nat \<Rightarrow> user_call list \<Rightarrow> ('m, 'z) srv_st_scheme \<Rightarrow> ('m, 'z) srv_st_scheme run" where
  "apply_user_calls e a [] s = Done s"
| "apply_user_calls e a (c # cs) s = run_bind (apply_user_call e a c s) (apply_user_calls e a cs)"

subsection \<open>Running a callback\<close>

definition ec_server_reschedule_userfn ::
    "'m env \<Rightarrow> server_cb \<Rightarrow> nat \<Rightarrow> timeval \<Rightarrow> ('m, 'z) srv_st_scheme \<Rightarrow> (crc \<times> ('m, 'z) srv_st_scheme) run" where
  "ec_server_reschedule_userfn e f a tv s =
     run_bind (get_srv a s) (\<lambda>srv.
       case ec_timer_start e ((sv_t_resched srv)\<lparr>tout := tv\<rparr>) 1 s of
         (rc, ti, s) \<Rightarrow>
           let s = put_srv a (srv\<lparr>sv_t_resched := ti\<rparr>) s
           in if rc = C_ERR then Done (C_ERR, s)
              else Done (C_OK, s\<lparr>sv_packs := sv_packs s @ [(a, f)]\<rparr>))"

text \<open>The branch for a callback that answers WAIT in state REQ_OK.\<close>

definition srv_wait ::
    "'m env \<Rightarrow> server_cb \<Rightarrow> nat \<Rightarrow> bool \<Rightarrow> bool \<Rightarrow> timeval \<Rightarrow> ('m, 'z) srv_st_scheme \<Rightarrow>
     (crc \<times> ('m, 'z) srv_st_scheme) run" where
  "srv_wait e f a is_con is_proxy tv s =
     run_bind (if is_con then ec_server_send_separate_ack e a s else Done (C_OK, s)) (\<lambda>(rc, s).
       if rc = C_ERR then Done (C_ERR, s)
       else run_bind (get_srv a s) (\<lambda>srv.
         let s = ec_server_add a srv s
         in run_bind (if \<not> is_proxy then ec_server_reschedule_userfn e f a tv s else Done (C_OK, s)) (\<lambda>(rc, s).
           if rc = C_ERR then Done (C_ERR, s)
           else run_bind (ec_server_set_state e a EC_SRV_STATE_ACK_SENT s) (\<lambda>s. Done (C_OK, s)))))"

definition ec_server_userfn ::
    "'m env \<Rightarrow> nat \<Rightarrow> server_cb \<Rightarrow> bool \<Rightarrow> ('m, 'z) srv_st_scheme \<Rightarrow> (crc \<times> ('m, 'z) srv_st_scheme) run" where
  "ec_server_userfn e a f resched s =
     run_bind (get_srv a s) (\<lambda>srv.
       case ec_conn_get_confirmable (f_conn (sv_flow srv)) of
         None \<Rightarrow> Done (C_ERR, s)
       | Some is_con \<Rightarrow>
           (case f (sv_flow srv) (sv_req srv) (sv_res srv) resched of
              (cbrc, tv, calls) \<Rightarrow>
                run_bind (apply_user_calls e a calls s) (\<lambda>s.
                  case cbrc of
                    EC_CBRC_READY \<Rightarrow> ec_server_ready e a is_con s
                  | EC_CBRC_WAIT \<Rightarrow>
                      run_bind (get_srv a s) (\<lambda>srv.
                        if sv_state srv = EC_SRV_STATE_REQ_OK
                        then srv_wait e f a is_con (ec_flow_get_proxied (sv_flow srv)) tv s
                        else Done (C_ERR, s))
                  | EC_CBRC_POLL \<Rightarrow> Done (C_ERR, s)
                  | EC_CBRC_ERROR \<Rightarrow> Done (C_ERR, s))))"

text \<open>libevent fires the rescheduling event of a pack.\<close>

definition resched_userfn ::
    "'m env \<Rightarrow> nat \<times> server_cb \<Rightarrow> ('m, 'z) srv_st_scheme \<Rightarrow> ('m, 'z) srv_st_scheme run" where
  "resched_userfn e pack s =
     run_bind (ec_server_userfn e (fst pack) (snd pack) True s) (\<lambda>(rc, s).
       if rc = C_ERR then ec_server_set_state e (fst pack) EC_SRV_STATE_INTERNAL_ERR s
       else Done s)"

subsection \<open>The retransmission timer\<close>

definition ec_srv_coap_timeout ::
    "'m env \<Rightarrow> nat \<Rightarrow> ('m, 'z) srv_st_scheme \<Rightarrow> ('m, 'z) srv_st_scheme run" where
  "ec_srv_coap_timeout e a s =
     run_bind (get_srv a s) (\<lambda>srv.
       if retries_left (sv_t_coap srv) = 0 then ec_server_set_state e a EC_SRV_STATE_RESP_ACK_TIMEOUT s
       else run_bind (ec_server_set_state e a EC_SRV_STATE_COAP_RETRY s) (\<lambda>s.
         run_bind (ec_server_send_resp e a s) (\<lambda>(rc, s).
           if rc = C_ERR then ec_server_set_state e a EC_SRV_STATE_INTERNAL_ERR s
           else ec_server_set_state e a EC_SRV_STATE_WAIT_ACK s)))"

text \<open>The event itself: the timer stops pending, then the handler runs.\<close>

definition srv_timer_fires ::
    "'m env \<Rightarrow> nat \<Rightarrow> ('m, 'z) srv_st_scheme \<Rightarrow> ('m, 'z) srv_st_scheme run" where
  "srv_timer_fires e a s =
     run_bind (get_srv a s) (\<lambda>srv.
       ec_srv_coap_timeout e a (put_srv a (srv\<lparr>sv_t_coap := timer_fired (sv_t_coap srv)\<rparr>) s))"

subsection \<open>Receiving\<close>

definition opdu_mid :: "ec_pdu option \<Rightarrow> u16 \<Rightarrow> bool" where
  "opdu_mid p mid = (case p of None \<Rightarrow> False | Some p \<Rightarrow> EC_PDU_MID p = mid)"

fun servers_walk ::
    "(nat \<Rightarrow> ec_server option) \<Rightarrow> u16 \<Rightarrow> int \<Rightarrow> nat \<Rightarrow> sockaddr \<Rightarrow> nat list \<Rightarrow> nat option run" where
  "servers_walk h mid sd n peer [] = Done None"
| "servers_walk h mid sd n peer (a # as) =
     (case h a of
        None \<Rightarrow> Fault Use_after_free
      | Some srv \<Rightarrow>
          let conn = f_conn (sv_flow srv)
          in if c_socket conn \<noteq> sd \<or> \<not> same_addr n (c_peer conn) peer then servers_walk h mid sd n peer as
             else if opdu_mid (sv_octrl srv) mid \<or> opdu_mid (sv_res srv) mid then Done (Some a)
             else servers_walk h mid sd n peer as)"

definition ec_servers_lookup ::
    "u16 \<Rightarrow> int \<Rightarrow> sockaddr \<Rightarrow> ('m, 'z) srv_st_scheme \<Rightarrow> nat option run" where
  "ec_servers_lookup mid sd peer s =
     (case ec_net_socklen peer of
        None \<Rightarrow> Done None
      | Some n \<Rightarrow> servers_walk (sv_heap s) mid sd n peer (sv_list s))"

text \<open>
  The first part of \<open>ec_server_handle_pdu\<close>: header, duplicates, and finding or creating
  the transaction. \<open>Srv_stop\<close> is a return before there is one.
\<close>

datatype srv_found = Srv_stop ec_net_cbrc | Srv_found nat ec_pdu

definition srv_control_lookup ::
    "'m env \<Rightarrow> ec_pdu \<Rightarrow> int \<Rightarrow> sockaddr \<Rightarrow> ('m, 'z) srv_st_scheme \<Rightarrow> (srv_found \<times> ('m, 'z) srv_st_scheme) run" where
  "srv_control_lookup e pdu sd peer s =
     run_bind (ec_servers_lookup (EC_PDU_MID pdu) sd peer s) (\<lambda>r.
       case r of
         None \<Rightarrow> Done (Srv_stop EC_NET_CBRC_ERROR, s)
       | Some a \<Rightarrow> Done (Srv_found a pdu, s))"

definition srv_control_message ::
    "'m env \<Rightarrow> ec_pdu \<Rightarrow> int \<Rightarrow> sockaddr \<Rightarrow> ('m, 'z) srv_st_scheme \<Rightarrow> (srv_found \<times> ('m, 'z) srv_st_scheme) run" where
  "srv_control_message e pdu sd peer s =
     (if h_t (p_hdr_bits pdu) = EC_COAP_RST then
        (case ec_conn_save_us e ec_conn_init sd s of
           (C_ERR, conn, s) \<Rightarrow> Done (Srv_stop EC_NET_CBRC_ERROR, s)
         | (C_OK, conn, s) \<Rightarrow>
             (case ec_conn_save_peer conn peer of
                (C_ERR, conn) \<Rightarrow> Done (Srv_stop EC_NET_CBRC_ERROR, s)
              | (C_OK, conn) \<Rightarrow>
                  run_bind (ec_observe_canceled_by_rst conn (EC_PDU_MID pdu) s) (\<lambda>(r, s).
                    if r = 1 then Done (Srv_stop EC_NET_CBRC_SUCCESS, s)
                    else srv_control_lookup e pdu sd peer s)))
      else srv_control_lookup e pdu sd peer s)"

definition srv_find ::
    "'m env \<Rightarrow> byte list \<Rightarrow> nat \<Rightarrow> int \<Rightarrow> sockaddr \<Rightarrow> ('m, 'z) srv_st_scheme \<Rightarrow>
     (srv_found \<times> ('m, 'z) srv_st_scheme) run" where
  "srv_find e raw raw_sz sd peer s =
     (let (pdu, s) = ec_pdu_new_empty s
      in case ec_pdu_decode_header (e_le e) pdu raw raw_sz of
           (C_ERR, pdu) \<Rightarrow> Done (Srv_stop EC_NET_CBRC_ERROR, s)
         | (C_OK, pdu) \<Rightarrow>
             run_bind (ec_dups_handle_incoming_climsg e (EC_PDU_MID pdu) sd peer s) (\<lambda>(d, s).
               if d = 1 then Done (Srv_stop EC_NET_CBRC_SUCCESS, s)
               else if d \<noteq> 0 then Done (Srv_stop EC_NET_CBRC_ERROR, s)
               else if h_code (p_hdr_bits pdu) = 0 then srv_control_message e pdu sd peer s
               else if EC_IS_METHOD (unat (h_code (p_hdr_bits pdu))) then
                 (case ec_server_new s of (a, s) \<Rightarrow> Done (Srv_found a pdu, s))
               else Done (Srv_stop EC_NET_CBRC_ERROR, s)))"

text \<open>The error exit once there is a transaction.\<close>

definition srv_fail ::
    "'m env \<Rightarrow> nat \<Rightarrow> ec_rc \<Rightarrow> ('m, 'z) srv_st_scheme \<Rightarrow> (ec_net_cbrc \<times> ('m, 'z) srv_st_scheme) run" where
  "srv_fail e a rc s =
     run_bind (ec_server_reply e a (if rc \<noteq> EC_RC_UNSET then rc else EC_INTERNAL_SERVER_ERROR) None 0 s) (\<lambda>(_, s).
     run_bind (ec_server_set_state e a EC_SRV_STATE_INTERNAL_ERR s) (\<lambda>s. Done (EC_NET_CBRC_ERROR, s)))"

text \<open>
  Payload and token of a request. The payload size is unsigned arithmetic on the received
  size; copying more bytes than the buffer holds reads past it.
\<close>

definition srv_payload ::
    "'m env \<Rightarrow> ec_pdu \<Rightarrow> byte list \<Rightarrow> nat \<Rightarrow> nat \<Rightarrow> ec_pdu run" where
  "srv_payload e pdu raw raw_sz olen =
     (let plen = size_sub raw_sz (olen + EC_COAP_HDR_SIZE); mem = drop (EC_COAP_HDR_SIZE + olen) raw
      in if plen = 0 then Done pdu
         else if e_memdup e (Some mem) plen \<noteq> None \<and> plen > length mem then Fault Overread
         else Done (snd (ec_pdu_set_payload e pdu mem plen)))"

text \<open>Finding the callback of a URL.\<close>

fun find_resource :: "ec_rescb list \<Rightarrow> byte list \<Rightarrow> server_cb option" where
  "find_resource [] url = None"
| "find_resource (r # rs) url = (if strcasecmp_eq (rc_path r) url then Some (rc_cb r) else find_resource rs url)"

text \<open>The last part: everything has been decoded, run the callback or answer 4.04.\<close>

definition srv_dispatch ::
    "'m env \<Rightarrow> nat \<Rightarrow> ('m, 'z) srv_st_scheme \<Rightarrow> (ec_net_cbrc \<times> ('m, 'z) srv_st_scheme) run" where
  "srv_dispatch e a s =
     run_bind (get_srv a s) (\<lambda>srv.
     run_bind (ec_observe_canceled_by_get (sv_flow srv) s) (\<lambda>(_, s).
       case (case find_resource (resources s) (f_urlstr (sv_flow srv)) of
               Some cb \<Rightarrow> Some cb
             | None \<Rightarrow> fallback s) of
         Some cb \<Rightarrow>
           run_bind (ec_server_userfn e a cb False s) (\<lambda>(rc, s).
             if rc = C_ERR then srv_fail e a EC_RC_UNSET s else Done (EC_NET_CBRC_SUCCESS, s))
       | None \<Rightarrow>
           run_bind (ec_server_reply e a EC_NOT_FOUND None 0 s) (\<lambda>(_, s).
           run_bind (ec_server_set_state e a EC_SRV_STATE_RESP_DONE s) (\<lambda>s.
             Done (EC_NET_CBRC_SUCCESS, s)))))"

text \<open>\<open>ec_server_new_response\<close> reports success even when it fails.\<close>

definition ec_server_new_response :: "ec_server \<Rightarrow> 'z world_scheme \<Rightarrow> crc \<times> ec_server \<times> 'z world_scheme" where
  "ec_server_new_response srv s =
     (if sv_res srv \<noteq> None then (C_ERR, srv, s)
      else case ec_pdu_new_empty s of (res, s) \<Rightarrow> (C_OK, srv\<lparr>sv_res := Some res\<rparr>, s))"

definition srv_request ::
    "'m env \<Rightarrow> nat \<Rightarrow> ec_pdu \<Rightarrow> byte list \<Rightarrow> nat \<Rightarrow> ('m, 'z) srv_st_scheme \<Rightarrow>
     (ec_net_cbrc \<times> ('m, 'z) srv_st_scheme) run" where
  "srv_request e a pdu raw raw_sz s =
     (let h = p_hdr_bits pdu
      in run_bind (if h_oc h \<noteq> 0 then ec_opts_decode (p_opts pdu) raw raw_sz (unat (h_oc h))
                   else Done (EC_RC_UNSET, p_opts pdu, 0)) (\<lambda>(rc, opts, olen).
         if rc \<noteq> 0 then srv_fail e a rc s
         else run_bind (srv_payload e (pdu\<lparr>p_opts := opts\<rparr>) raw raw_sz olen) (\<lambda>pdu.
         run_bind (get_srv a s) (\<lambda>srv.
           case ec_flow_set_method (sv_flow srv) (unat (h_code h)) of
             (C_ERR, _) \<Rightarrow> srv_fail e a EC_RC_UNSET s
           | (C_OK, flow) \<Rightarrow>
               run_bind (case ec_opts_get (p_opts pdu) EC_OPT_TOKEN of
                           None \<Rightarrow> ec_flow_save_token flow None 0
                         | Some t \<Rightarrow> ec_flow_save_token flow (o_v t) (o_l t)) (\<lambda>flow.
               case ec_opts_compose_url e (p_opts pdu) (c_us (f_conn flow)) True of
                 (u, is_px) \<Rightarrow>
                   (case ec_flow_save_url e flow u is_px of
                      (C_ERR, flow) \<Rightarrow> srv_fail e a EC_RC_UNSET (put_srv a (srv\<lparr>sv_flow := flow\<rparr>) s)
                    | (C_OK, flow) \<Rightarrow>
                        (case ec_server_new_response (srv\<lparr>sv_flow := flow, sv_req := Some pdu\<rparr>) s of
                           (C_ERR, srv, s) \<Rightarrow> srv_fail e a EC_RC_UNSET (put_srv a srv s)
                         | (C_OK, srv, s) \<Rightarrow>
                             run_bind (ec_server_set_state e a EC_SRV_STATE_REQ_OK (put_srv a srv s))
                               (srv_dispatch e a))))))))"

text \<open>\<open>ec_server_handle_pdu\<close>: the middle part saves the endpoints and serves control messages.\<close>

definition srv_endpoints ::
    "'m env \<Rightarrow> ec_flow \<Rightarrow> int \<Rightarrow> sockaddr \<Rightarrow> 'z world_scheme \<Rightarrow> crc \<times> ec_flow \<times> 'z world_scheme" where
  "srv_endpoints e flow sd peer s =
     (if c_socket (f_conn flow) \<noteq> sd then
        (case ec_conn_save_us e (f_conn flow) sd s of
           (C_ERR, conn, s) \<Rightarrow> (C_ERR, flow\<lparr>f_conn := conn\<rparr>, s)
         | (C_OK, conn, s) \<Rightarrow>
             (case ec_conn_save_peer conn peer of (rc, conn) \<Rightarrow> (rc, flow\<lparr>f_conn := conn\<rparr>, s)))
      else (C_OK, flow, s))"

definition ec_server_handle_pdu ::
    "'m env \<Rightarrow> int \<Rightarrow> byte list \<Rightarrow> nat \<Rightarrow> sockaddr \<Rightarrow> ('m, 'z) srv_st_scheme \<Rightarrow>
     (ec_net_cbrc \<times> ('m, 'z) srv_st_scheme) run" where
  "ec_server_handle_pdu e sd raw raw_sz peer s =
     (if raw_sz = 0 \<or> sd = -1 then Done (EC_NET_CBRC_ERROR, s)
      else run_bind (srv_find e raw raw_sz sd peer s) (\<lambda>(r, s).
        case r of
          Srv_stop rc \<Rightarrow> Done (rc, s)
        | Srv_found a pdu \<Rightarrow>
            run_bind (get_srv a s) (\<lambda>srv.
              case srv_endpoints e (sv_flow srv) sd peer s of
                (rc, flow, s) \<Rightarrow>
                  let s = put_srv a (srv\<lparr>sv_flow := flow\<rparr>) s; h = p_hdr_bits pdu
                  in if rc = C_ERR then srv_fail e a EC_RC_UNSET s
                     else if h_code h = 0 \<and> h_t h = EC_COAP_RST then
                       run_bind (ec_server_set_state e a EC_SRV_STATE_CLIENT_RST s) (\<lambda>s.
                         Done (EC_NET_CBRC_SUCCESS, s))
                     else if h_code h = 0 \<and> h_t h = EC_COAP_ACK then
                       (if sv_state srv \<noteq> EC_SRV_STATE_WAIT_ACK then srv_fail e a EC_BAD_REQUEST s
                        else run_bind (ec_server_set_state e a EC_SRV_STATE_RESP_DONE s) (\<lambda>s.
                          Done (EC_NET_CBRC_SUCCESS, s)))
                     else let s = (if h_code h = 0 then s
                                   else put_srv a (srv\<lparr>sv_flow := flow\<lparr>f_conn :=
                                     ec_conn_set_confirmable (f_conn flow) (h_t h = EC_COAP_CON)\<rparr>\<rparr>) s)
                          in srv_request e a pdu raw raw_sz s)))"

definition ec_server_input ::
    "'m env \<Rightarrow> int \<Rightarrow> byte list \<Rightarrow> recv_event list \<Rightarrow> ('m, 'z) srv_st_scheme \<Rightarrow> ('m, 'z) srv_st_scheme run" where
  "ec_server_input e sd buf evs s = ec_net_pullup_all (ec_server_handle_pdu e sd) buf evs s"

end
