(* ===== verification/Demo_Env.thy ===== *)
theory Demo_Env
  imports Net
begin

text \<open>
  One concrete environment, used by the witnesses: a little-endian host on which every call
  succeeds, an association list as the hash map, and simple string functions.
\<close>

definition demo_strlcpy :: "byte list \<Rightarrow> nat \<Rightarrow> crc \<times> byte list" where
  "demo_strlcpy src sz = (if length src < sz then (C_OK, src) else (C_ERR, take (sz - 1) src))"

definition demo_env :: "(string \<times> nat) list env" where
  "demo_env =
     \<lparr>e_le = True, e_send_ok = (\<lambda>_. True), e_rng16 = (\<lambda>t. of_nat (t + 7)), e_junk16 = (\<lambda>_. 0xdead),
      e_ev_ok = (\<lambda>_. True),
      e_time = (\<lambda>_. Some 1000),
      e_getsockname = (\<lambda>_ _. Some \<lparr>ss_family = AF_INET, ss_body = replicate 126 1\<rparr>),
      e_memdup = (\<lambda>s n. Some (take n (case s of None \<Rightarrow> [] | Some b \<Rightarrow> b))),
      e_fmt_addr = (\<lambda>sa. map (\<lambda>b. char_of (unat b)) (ss_body sa)),
      e_key_snprintf = (\<lambda>mid ap. Some (replicate (unat mid) (CHR ''m'') @ ''+'' @ ap)),
      e_hm_get = map_of,
      e_hm_put = (\<lambda>m k a. Some ((k, a) # m)),
      e_hm_del = (\<lambda>m k. if map_of m k = None then None else Some (filter (\<lambda>p. fst p \<noteq> k) m)),
      e_hm_vals = (\<lambda>m. map (\<lambda>k. the (map_of m k)) (remdups (map fst m))),
      e_URI_STRMAX = 4096, e_TOKEN_SZ = 512,
      e_strlcpy = demo_strlcpy,
      e_strlcat = (\<lambda>dst src sz. demo_strlcpy (dst @ src) sz),
      e_port_snprintf = (\<lambda>p. Some [ucast p]),
      e_fmt_addr_bytes = ss_body,
      e_uri_new = Some [],
      e_uri_crumble = Some, e_uri_knead = Some,
      e_uri_set_scheme = (\<lambda>u _. u), e_uri_set_host = (\<lambda>u _. u), e_uri_set_port = (\<lambda>u _. u),
      e_uri_set_authority = (\<lambda>u _. u), e_uri_set_path = (\<lambda>u p. p), e_uri_set_query = (\<lambda>u _. u),
      e_uri_scheme = (\<lambda>u. [99]), e_uri_host = (\<lambda>u. [104]), e_uri_port = (\<lambda>u. [49]),
      e_uri_path = (\<lambda>u. u), e_uri_query = (\<lambda>u. []),
      e_uri_host_is_ipliteral = (\<lambda>_. False), e_uri_is_regname = (\<lambda>_. True), e_uri_is_absolute = (\<lambda>_. True),
      e_rng_bytes = (\<lambda>t n. replicate n (of_nat t)), e_num_snprintf = (\<lambda>sz v. Some [48 + of_nat v]), e_strtok = (\<lambda>s c. Some [s])\<rparr>"

definition demo_peer :: sockaddr where
  "demo_peer = \<lparr>ss_family = AF_INET, ss_body = replicate 126 9\<rparr>"

lemma demo_env_sel [simp]:
  "e_le demo_env = True" "e_send_ok demo_env t = True" "e_ev_ok demo_env t = True"
  "e_hm_get demo_env = map_of" "e_hm_put demo_env m k a = Some ((k, a) # m)"
  "e_hm_del demo_env m k = (if map_of m k = None then None else Some (filter (\<lambda>p. fst p \<noteq> k) m))"
  "e_memdup demo_env s n = Some (take n (case s of None \<Rightarrow> [] | Some b \<Rightarrow> b))"
  "e_key_snprintf demo_env mid ap = Some (replicate (unat mid) (CHR ''m'') @ ''+'' @ ap)"
  "e_fmt_addr demo_env sa = map (\<lambda>b. char_of (unat b)) (ss_body sa)"
  "e_rng16 demo_env t = of_nat (t + 7)" "e_junk16 demo_env t = 0xdead"
  "e_time demo_env t = Some 1000"
  "e_getsockname demo_env t sd = Some \<lparr>ss_family = AF_INET, ss_body = replicate 126 1\<rparr>"
  by (simp_all add: demo_env_def)

lemma demo_env_strings [simp]:
  "e_hm_vals demo_env m = map (\<lambda>k. the (map_of m k)) (remdups (map fst m))" "e_strlcpy demo_env = demo_strlcpy" "e_strlcat demo_env dst src sz = demo_strlcpy (dst @ src) sz"
  "e_rng_bytes demo_env t n = replicate n (of_nat t)" "e_num_snprintf demo_env sz v = Some [48 + of_nat v]" "e_strtok demo_env str c = Some [str]"
  by (simp_all add: demo_env_def)

lemma demo_peer_socklen [simp]: "ec_net_socklen demo_peer = Some 16"
  by (simp add: ec_net_socklen_def demo_peer_def)

end
