(* ===== verification/Dups_Spec.thy ===== *)
theory Dups_Spec
  imports Dups Demo_Env
begin

text \<open>
  What duplicate handling guarantees when the hash map of libu behaves as a map
  (\<open>hmap_laws\<close>): the map and the heap of records stay consistent, a message is processed
  once per lifetime of its record, and a repeated message gets the stored reply.
\<close>

subsection \<open>Documented behaviour of libu\<close>

definition hmap_laws :: "'m env \<Rightarrow> bool" where
  "hmap_laws e \<longleftrightarrow>
     (\<forall>m k a m'. e_hm_put e m k a = Some m' \<longrightarrow> e_hm_get e m' = (e_hm_get e m)(k \<mapsto> a)) \<and>
     (\<forall>m k m'. e_hm_del e m k = Some m' \<longrightarrow> e_hm_get e m' = (e_hm_get e m)(k := None))"

definition memdup_laws :: "'m env \<Rightarrow> bool" where
  "memdup_laws e \<longleftrightarrow>
     (\<forall>s n d. e_memdup e (Some s) n = Some d \<longrightarrow> n \<le> length s \<longrightarrow> d = take n s) \<and>
     (\<forall>n d. e_memdup e None n = Some d \<longrightarrow> n = 0 \<longrightarrow> d = [])"

lemma hmap_put: "hmap_laws e \<Longrightarrow> e_hm_put e m k a = Some m' \<Longrightarrow> e_hm_get e m' = (e_hm_get e m)(k \<mapsto> a)"
  unfolding hmap_laws_def by blast

lemma hmap_del: "hmap_laws e \<Longrightarrow> e_hm_del e m k = Some m' \<Longrightarrow> e_hm_get e m' = (e_hm_get e m)(k := None)"
  unfolding hmap_laws_def by blast

subsection \<open>The map and the heap\<close>

text \<open>The map points at live records that carry their own key; live records are in the map.\<close>

definition store_ok :: "(string \<Rightarrow> nat option) \<Rightarrow> (nat \<Rightarrow> ec_recvd_pdu option) \<Rightarrow> nat \<Rightarrow> bool" where
  "store_ok g H n \<longleftrightarrow>
     (\<forall>k a. g k = Some a \<longrightarrow> (\<exists>r. H a = Some r \<and> r_key r = k)) \<and>
     (\<forall>a r. H a = Some r \<longrightarrow> g (r_key r) = Some a \<and> a < n)"

lemma store_get: "store_ok g H n \<Longrightarrow> g k = Some a \<Longrightarrow> \<exists>r. H a = Some r \<and> r_key r = k"
  unfolding store_ok_def by blast

lemma store_live: "store_ok g H n \<Longrightarrow> H a = Some r \<Longrightarrow> g (r_key r) = Some a \<and> a < n"
  unfolding store_ok_def by blast

lemma store_fresh: "store_ok g H n \<Longrightarrow> n \<le> a \<Longrightarrow> H a = None"
  using store_live [of g H n a] by (cases "H a") auto

lemma store_insert:
  assumes "store_ok g H n" and "g (r_key r) = None"
  shows "store_ok (g(r_key r \<mapsto> n)) (H(n \<mapsto> r)) (n + 1)"
  unfolding store_ok_def
proof (intro conjI allI impI)
  fix k a assume g: "(g(r_key r \<mapsto> n)) k = Some a"
  show "\<exists>r'. (H(n \<mapsto> r)) a = Some r' \<and> r_key r' = k"
  proof (cases "k = r_key r")
    case True
    with g show ?thesis by simp
  next
    case False
    then obtain r' where r': "H a = Some r'" "r_key r' = k" using g store_get [OF assms(1)] by auto
    then have "a \<noteq> n" using store_fresh [OF assms(1), of n] by auto
    with r' show ?thesis by simp
  qed
next
  fix a r' assume h: "(H(n \<mapsto> r)) a = Some r'"
  show "(g(r_key r \<mapsto> n)) (r_key r') = Some a" and "a < n + 1"
    using h store_live [OF assms(1), of a r'] assms(2) by (auto split: if_splits)
qed

lemma store_okI:
  assumes "\<And>k a. g k = Some a \<Longrightarrow> \<exists>r. H a = Some r \<and> r_key r = k"
    and "\<And>a r. H a = Some r \<Longrightarrow> g (r_key r) = Some a \<and> a < n"
  shows "store_ok g H n"
  using assms unfolding store_ok_def by blast

lemma store_delete:
  assumes ok: "store_ok g H n" and "g k = Some a"
  shows "store_ok (g(k := None)) (H(a := None)) n"
proof (rule store_okI)
  obtain r where r: "H a = Some r" "r_key r = k" using store_get [OF assms] by blast
  fix k' a' assume "(g(k := None)) k' = Some a'"
  then have k': "k' \<noteq> k" "g k' = Some a'" by (auto split: if_splits)
  then obtain r' where r': "H a' = Some r'" "r_key r' = k'" using store_get [OF ok] by blast
  then have "a' \<noteq> a" using r k'(1) by auto
  with r' show "\<exists>r. (H(a := None)) a' = Some r \<and> r_key r = k'" by simp
next
  fix a' r' assume "(H(a := None)) a' = Some r'"
  then have h: "a' \<noteq> a" "H a' = Some r'" by (auto split: if_splits)
  then have g: "g (r_key r') = Some a' \<and> a' < n" using store_live [OF ok] by blast
  then have "r_key r' \<noteq> k" using h(1) assms(2) by auto
  with g show "(g(k := None)) (r_key r') = Some a' \<and> a' < n" by simp
qed

lemma store_update:
  assumes ok: "store_ok g H n" and "H a = Some r" and "r_key r' = r_key r"
  shows "store_ok g (H(a \<mapsto> r')) n"
proof (rule store_okI)
  fix k a' assume "g k = Some a'"
  then obtain r0 where "H a' = Some r0" "r_key r0 = k" using store_get [OF ok] by blast
  then show "\<exists>r. (H(a \<mapsto> r')) a' = Some r \<and> r_key r = k" using assms(2,3) by (cases "a' = a") auto
next
  fix a' r0 assume "(H(a \<mapsto> r')) a' = Some r0"
  then show "g (r_key r0) = Some a' \<and> a' < n"
    using store_live [OF ok] assms(2,3) by (cases "a' = a") auto
qed

lemma store_mono: "store_ok g H n \<Longrightarrow> n \<le> n' \<Longrightarrow> store_ok g H n'"
  unfolding store_ok_def by fastforce

definition dups_ok :: "'m env \<Rightarrow> ('m, 'z) base_scheme \<Rightarrow> bool" where
  "dups_ok e b \<longleftrightarrow> store_ok (e_hm_get e (d_map b)) (d_recvd b) (d_next b)"

text \<open>States with the same map and heap.\<close>

definition same_dups :: "('m, 'z) base_scheme \<Rightarrow> ('m, 'y) base_scheme \<Rightarrow> bool" where
  "same_dups b b' \<longleftrightarrow> d_map b = d_map b' \<and> d_recvd b = d_recvd b' \<and> d_next b = d_next b'"

lemma same_dups_ok: "same_dups b b' \<Longrightarrow> dups_ok e b \<longleftrightarrow> dups_ok e b'"
  by (simp add: same_dups_def dups_ok_def)

lemma same_dups_tick [simp]: "same_dups (tick b) b"
  by (simp add: same_dups_def tick_def)

lemma same_dups_refl [simp]: "same_dups b b"
  by (simp add: same_dups_def)

lemma same_dups_trans: "same_dups a b \<Longrightarrow> same_dups b c \<Longrightarrow> same_dups a c"
  by (simp add: same_dups_def)

lemma same_dups_send: "same_dups (snd (ec_net_send e h opts o_sz p p_sz sd d b)) b"
  by (auto simp: ec_net_send_def same_dups_def tick_def split: option.split)

lemma same_dups_search: "same_dups b b' \<Longrightarrow> ec_dups_search e mid p b = ec_dups_search e mid p b'"
  by (simp add: ec_dups_search_def same_dups_def split: option.split)

lemma ec_dups_search_live:
  "dups_ok e b \<Longrightarrow> ec_dups_search e mid p b = Some a \<Longrightarrow>
   \<exists>r. d_recvd b a = Some r \<and> ec_dup_key_new e mid p = Some (r_key r)"
  using store_get by (fastforce simp: ec_dups_search_def dups_ok_def split: option.splits)

definition new_recvd :: "sockaddr \<Rightarrow> u16 \<Rightarrow> string \<Rightarrow> ec_recvd_pdu" where
  "new_recvd ss mid key = \<lparr>r_who = ss, r_mid = mid, r_cached = cached_unset, r_key = key\<rparr>"

lemma new_recvd_sel [simp]: "r_key (new_recvd ss mid key) = key" "r_cached (new_recvd ss mid key) = cached_unset"
  by (simp_all add: new_recvd_def)

lemma ec_recvd_pdu_new_cases:
  "ec_recvd_pdu_new e key ss mid b = (r, b') \<Longrightarrow>
   (r = None \<and> same_dups b' b) \<or>
   (r = Some (d_next b) \<and> d_map b' = d_map b \<and> d_next b' = d_next b + 1 \<and>
    d_recvd b' = (d_recvd b)(d_next b \<mapsto> new_recvd ss mid key))"
  by (auto simp: ec_recvd_pdu_new_def new_recvd_def Let_def same_dups_def tick_def split: if_splits)

lemma ec_dups_insert_ok:
  assumes h: "hmap_laws e" and ok: "dups_ok e b" and ins: "ec_dups_insert e ss mid b = (C_OK, b')"
    and fresh: "ec_dups_search e mid ss b = None"
  obtains key where "ec_dup_key_new e mid ss = Some key" "dups_ok e b'"
    "e_hm_get e (d_map b') = (e_hm_get e (d_map b))(key \<mapsto> d_next b)"
    "d_recvd b' = (d_recvd b)(d_next b \<mapsto> new_recvd ss mid key)"
proof -
  obtain key where key: "ec_dup_key_new e mid ss = Some key"
    using ins by (auto simp: ec_dups_insert_def split: option.splits)
  obtain b1 where n: "ec_recvd_pdu_new e key ss mid b = (Some (d_next b), b1)"
    "d_map b1 = d_map b" "d_next b1 = d_next b + 1"
    "d_recvd b1 = (d_recvd b)(d_next b \<mapsto> new_recvd ss mid key)"
    using ins key ec_recvd_pdu_new_cases [of e key ss mid b]
    by (auto simp: ec_dups_insert_def split: prod.splits option.splits)
  then obtain m where m: "e_hm_put e (d_map b) key (d_next b) = Some m" "b' = b1\<lparr>d_map := m\<rparr>"
    using ins key by (auto simp: ec_dups_insert_def split: option.splits)
  have "e_hm_get e (d_map b) key = None" using fresh key by (simp add: ec_dups_search_def)
  then have "dups_ok e b'"
    using store_insert [of "e_hm_get e (d_map b)" "d_recvd b" "d_next b" "new_recvd ss mid key"] ok n
    by (simp add: dups_ok_def m(2) hmap_put [OF h m(1)])
  then show ?thesis using that [OF key] m(2) n hmap_put [OF h m(1)] by simp
qed

text \<open>A failed insertion leaves the map and every live record alone.\<close>

lemma ec_dups_insert_err:
  assumes "dups_ok e b" and "ec_dups_insert e ss mid b = (C_ERR, b')"
  shows "dups_ok e b' \<and> d_map b' = d_map b \<and> d_recvd b' = d_recvd b"
proof (cases "ec_dup_key_new e mid ss")
  case None
  with assms show ?thesis by (simp add: ec_dups_insert_def)
next
  case (Some key)
  obtain r b1 where n: "ec_recvd_pdu_new e key ss mid b = (r, b1)" by fastforce
  have live: "d_recvd b (d_next b) = None" using assms(1) store_fresh unfolding dups_ok_def by blast
  from ec_recvd_pdu_new_cases [OF n] show ?thesis
  proof
    assume c: "r = None \<and> same_dups b1 b"
    with assms Some n have "b' = b1" by (simp add: ec_dups_insert_def)
    with c assms(1) same_dups_ok [of b1 b e] show ?thesis by (simp add: same_dups_def)
  next
    assume c: "r = Some (d_next b) \<and> d_map b1 = d_map b \<and> d_next b1 = d_next b + 1 \<and>
      d_recvd b1 = (d_recvd b)(d_next b \<mapsto> new_recvd ss mid key)"
    with assms(2) Some n have b': "b' = ec_recvd_pdu_free (d_next b) b1"
      by (auto simp: ec_dups_insert_def split: option.splits)
    then have "d_recvd b' = d_recvd b" using c live by (simp add: ec_recvd_pdu_free_def fun_upd_idem)
    with b' c assms(1) show ?thesis
      by (auto simp: dups_ok_def ec_recvd_pdu_free_def intro: store_mono)
  qed
qed

lemma ec_dups_delete_ok:
  assumes h: "hmap_laws e" and ok: "dups_ok e b" and d: "ec_dups_delete e key b = (C_OK, b')"
  shows "dups_ok e b' \<and> e_hm_get e (d_map b') = (e_hm_get e (d_map b))(key := None)"
proof -
  obtain m where m: "e_hm_del e (d_map b) key = Some m"
    using d by (auto simp: ec_dups_delete_def split: option.splits)
  note del = hmap_del [OF h m]
  show ?thesis
  proof (cases "e_hm_get e (d_map b) key")
    case None
    then have "b' = b\<lparr>d_map := m\<rparr>" using d m by (simp add: ec_dups_delete_def)
    moreover have "(e_hm_get e (d_map b))(key := None) = e_hm_get e (d_map b)" using None by (simp add: fun_upd_idem)
    ultimately show ?thesis using ok del by (simp add: dups_ok_def)
  next
    case (Some a)
    then have b': "b' = ec_recvd_pdu_free a (b\<lparr>d_map := m\<rparr>)" using d m by (simp add: ec_dups_delete_def)
    with Some del ok show ?thesis
      by (simp add: dups_ok_def ec_recvd_pdu_free_def store_delete)
  qed
qed

lemma ec_recvd_pdu_update_Done:
  assumes "ec_recvd_pdu_update e a hdr opts osz pl psz b = Done (rc, b')"
  shows "(rc = C_ERR \<and> b' = b) \<or>
    (rc = C_OK \<and> (\<exists>r o' p. d_recvd b a = Some r \<and> e_memdup e (Some opts) osz = Some o' \<and>
       e_memdup e pl psz = Some p \<and>
       b' = b\<lparr>d_recvd := (d_recvd b)(a \<mapsto> r\<lparr>r_cached :=
                      \<lparr>ca_is_set = True, ca_hdr = take 4 hdr, ca_opts = Some o', ca_opts_sz = osz,
                       ca_payload = Some p, ca_payload_sz = psz\<rparr>\<rparr>)\<rparr>))"
  using assms by (auto simp: ec_recvd_pdu_update_def split: option.splits)

lemma ec_recvd_pdu_update_ok:
  assumes "dups_ok e b" and "ec_recvd_pdu_update e a hdr opts osz pl psz b = Done (rc, b')"
  shows "dups_ok e b' \<and> d_map b' = d_map b"
  using ec_recvd_pdu_update_Done [OF assms(2)] assms(1)
  by (auto simp: dups_ok_def intro!: store_update)

lemma ec_recvd_pdu_update_no_fault:
  "d_recvd b a \<noteq> None \<Longrightarrow> \<exists>rc b'. ec_recvd_pdu_update e a hdr opts osz pl psz b = Done (rc, b')"
  by (auto simp: ec_recvd_pdu_update_def split: option.split)

subsection \<open>A concrete cache\<close>

lemma map_of_filter_key: "map_of (filter (\<lambda>p. fst p \<noteq> k) m) = (map_of m)(k := None)"
  by (induction m) (auto simp: fun_eq_iff)

lemma demo_env_laws: "hmap_laws demo_env" "memdup_laws demo_env"
  by (auto simp: hmap_laws_def memdup_laws_def map_of_filter_key)

definition demo_base :: "(string \<times> nat) list base" where
  "demo_base = \<lparr>w_tick = 0, w_sent = [], d_map = [], d_recvd = (\<lambda>_. None), d_next = 0\<rparr>"

lemma demo_base_ok: "dups_ok demo_env demo_base"
  by (simp add: dups_ok_def store_ok_def demo_base_def)

definition demo_base1 :: "(string \<times> nat) list base" where
  "demo_base1 = snd (ec_dups_insert demo_env demo_peer 3 demo_base)"

lemma demo_insert: "ec_dups_insert demo_env demo_peer 3 demo_base = (C_OK, demo_base1)"
  by (simp add: demo_base1_def prod_eq_iff)
    (simp add: ec_dups_insert_def ec_dup_key_new_def ec_recvd_pdu_new_def Let_def)

lemma demo_search: "ec_dups_search demo_env mid demo_peer demo_base = None"
  by (simp add: ec_dups_search_def ec_dup_key_new_def demo_base_def)

lemma demo_incoming: "ec_dups_handle_incoming_climsg demo_env 3 5 demo_peer demo_base = Done (0, demo_base1)"
  by (simp add: ec_dups_handle_incoming_climsg_def demo_search demo_insert)

subsection \<open>Duplicate detection\<close>

text \<open>Handling an incoming message never touches a freed record and keeps the cache
  consistent, for any outcome of the calls it makes.\<close>

theorem dups_handle_safe:
  assumes "hmap_laws e" and "dups_ok e b"
  shows "\<exists>rc b'. ec_dups_handle_incoming_climsg e mid sd ss b = Done (rc, b') \<and> dups_ok e b' \<and> rc \<in> {0, 1, -1}"
proof (cases "ec_dups_search e mid ss b")
  case None
  obtain c b' where i: "ec_dups_insert e ss mid b = (c, b')" by fastforce
  have "dups_ok e b'"
  proof (cases c)
    case C_OK
    with i None show ?thesis using ec_dups_insert_ok [OF assms] by metis
  next
    case C_ERR
    with i show ?thesis using ec_dups_insert_err [OF assms(2)] by blast
  qed
  with None i show ?thesis by (cases c) (simp_all add: ec_dups_handle_incoming_climsg_def)
next
  case (Some a)
  then obtain r where r: "d_recvd b a = Some r" using ec_dups_search_live [OF assms(2)] by blast
  obtain c b' where s: "send_cached e (r_cached r) sd ss b = (c, b')" by fastforce
  then have "dups_ok e b'"
    using assms(2) same_dups_send same_dups_ok by (metis send_cached_def snd_conv)
  with Some r s assms(2) show ?thesis
    by (cases c) (auto simp: ec_dups_handle_incoming_climsg_def)
qed

theorem dups_handle_safe_witness:
  "\<exists>rc b'. ec_dups_handle_incoming_climsg demo_env 7 5 demo_peer demo_base = Done (rc, b') \<and>
    dups_ok demo_env b' \<and> rc \<in> {0, 1, -1}"
  by (rule dups_handle_safe [OF demo_env_laws(1) demo_base_ok])

text \<open>A message accepted as new is recognised as a duplicate from then on, as long as its
  record lives: the same MID from the same peer is answered with 1 and, no reply being
  stored yet, nothing is sent and nothing changes.\<close>

theorem dup_recognised:
  assumes "hmap_laws e" and "dups_ok e b" and "ec_dups_handle_incoming_climsg e mid sd ss b = Done (0, b')"
    and "same_dups b'' b'"
  shows "ec_dups_handle_incoming_climsg e mid sd' ss b'' = Done (1, b'')"
proof -
  have none: "ec_dups_search e mid ss b = None" and ins: "ec_dups_insert e ss mid b = (C_OK, b')"
    using assms(3) by (auto simp: ec_dups_handle_incoming_climsg_def split: option.splits prod.splits crc.splits if_splits)
  obtain key where "ec_dup_key_new e mid ss = Some key"
    "e_hm_get e (d_map b') = (e_hm_get e (d_map b))(key \<mapsto> d_next b)"
    "d_recvd b' = (d_recvd b)(d_next b \<mapsto> new_recvd ss mid key)"
    using ec_dups_insert_ok [OF assms(1,2) ins none] by metis
  then have "ec_dups_search e mid ss b'' = Some (d_next b)" "d_recvd b'' (d_next b) = Some (new_recvd ss mid key)"
    using assms(4) by (simp_all add: ec_dups_search_def same_dups_def)
  then show ?thesis
    by (simp add: ec_dups_handle_incoming_climsg_def cached_unset_def)
qed

theorem dup_recognised_witness:
  "ec_dups_handle_incoming_climsg demo_env 3 5 demo_peer demo_base1 = Done (1, demo_base1)"
  by (rule dup_recognised [OF demo_env_laws(1) demo_base_ok demo_incoming]) simp

text \<open>Once a reply has been stored for a message, every repetition of the message is
  answered with exactly the bytes of that reply, sent to the peer that repeated it.\<close>

theorem dup_replayed:
  assumes "memdup_laws e" and "ec_dups_search e mid ss b = Some a"
    and "ec_recvd_pdu_update e a hdr opts osz payload psz b = Done (C_OK, b')"
    and "osz \<le> length opts" and "psz = length (gather payload psz)" and "same_dups b'' b'"
    and "sd \<noteq> -1" and "ec_net_socklen ss \<noteq> None" and "e_send_ok e (w_tick b'')"
  shows "\<exists>b3. ec_dups_handle_incoming_climsg e mid sd ss b'' = Done (1, b3) \<and>
    w_sent b3 = w_sent b'' @ [\<lparr>dg_sd = sd, dg_to = ss,
      dg_bytes = take EC_COAP_HDR_SIZE hdr @ take osz opts @ gather payload psz\<rparr>]"
proof -
  obtain r o' p where u: "d_recvd b a = Some r" "e_memdup e (Some opts) osz = Some o'"
    "e_memdup e payload psz = Some p"
    "b' = b\<lparr>d_recvd := (d_recvd b)(a \<mapsto> r\<lparr>r_cached :=
                      \<lparr>ca_is_set = True, ca_hdr = take 4 hdr, ca_opts = Some o', ca_opts_sz = osz,
                       ca_payload = Some p, ca_payload_sz = psz\<rparr>\<rparr>)\<rparr>"
    using ec_recvd_pdu_update_Done [OF assms(3)] by auto
  have o: "o' = take osz opts" using assms(1,4) u(2) unfolding memdup_laws_def by blast
  have p: "p = gather payload psz"
  proof (cases payload)
    case None
    then have "psz = 0" using assms(5) by (simp add: gather_def)
    with None u(3) assms(1) show ?thesis unfolding memdup_laws_def gather_def by simp
  next
    case (Some s)
    then have "psz \<le> length s" using assms(5) by (simp add: gather_def)
    with Some u(3) assms(1) show ?thesis unfolding memdup_laws_def gather_def by simp
  qed
  have s: "ec_dups_search e mid ss b'' = Some a"
    using assms(2,6) u(4) by (simp add: ec_dups_search_def same_dups_def split: option.splits)
  have "d_recvd b'' = d_recvd b'" using assms(6) by (simp add: same_dups_def)
  then have r: "d_recvd b'' a = Some (r\<lparr>r_cached :=
                      \<lparr>ca_is_set = True, ca_hdr = take 4 hdr, ca_opts = Some o', ca_opts_sz = osz,
                       ca_payload = Some p, ca_payload_sz = psz\<rparr>\<rparr>)" by (simp add: u(4))
  have "gather (Some p) psz = gather payload psz" "gather (Some o') osz = take osz opts"
    using p o assms(5) by (simp_all add: gather_def)
  then show ?thesis
    using s r assms(7-9) by (auto simp: ec_dups_handle_incoming_climsg_def send_cached_def ec_net_send_def)
qed

lemma demo_search1: "ec_dups_search demo_env 3 demo_peer demo_base1 = Some 0"
  by (simp add: demo_base1_def ec_dups_insert_def ec_dup_key_new_def ec_recvd_pdu_new_def Let_def
      ec_dups_search_def) (simp add: demo_base_def tick_def)

lemma demo_recvd1: "d_recvd demo_base1 0 \<noteq> None"
  using ec_dups_insert_ok [OF demo_env_laws(1) demo_base_ok demo_insert demo_search]
  by (metis demo_base_def fun_upd_same option.distinct(1) base.select_convs(3))

theorem dup_replayed_witness:
  "\<exists>b' b3. ec_recvd_pdu_update demo_env 0 [0x60, 0x45, 3, 0] [0xd1, 1] 2 (Some [65, 66]) 2 demo_base1 = Done (C_OK, b') \<and>
    ec_dups_handle_incoming_climsg demo_env 3 5 demo_peer b' = Done (1, b3) \<and>
    w_sent b3 = w_sent b' @ [\<lparr>dg_sd = 5, dg_to = demo_peer, dg_bytes = [0x60, 0x45, 3, 0, 0xd1, 1, 65, 66]\<rparr>]"
proof -
  obtain b' where b': "ec_recvd_pdu_update demo_env 0 [0x60, 0x45, 3, 0] [0xd1, 1] 2 (Some [65, 66]) 2 demo_base1 = Done (C_OK, b')"
    using demo_recvd1 by (auto simp: ec_recvd_pdu_update_def)
  show ?thesis
    using dup_replayed [OF demo_env_laws(2) demo_search1 b', of b' 5] b'
    by (auto simp: gather_def)
qed

text \<open>When the countdown of a record fires, the record is removed and the cache stays
  consistent: the next message with that key is new again.\<close>

theorem dup_forgotten:
  assumes "hmap_laws e" and "dups_ok e b" and "ec_dups_search e mid ss b = Some a"
    and "\<forall>m k. e_hm_get e m k \<noteq> None \<longrightarrow> e_hm_del e m k \<noteq> None"
  shows "\<exists>b'. ec_dup_zap e a b = Done b' \<and> dups_ok e b' \<and> ec_dups_search e mid ss b' = None \<and> d_recvd b' a = None"
proof -
  obtain r where r: "d_recvd b a = Some r" "ec_dup_key_new e mid ss = Some (r_key r)"
    using ec_dups_search_live [OF assms(2,3)] by blast
  have g: "e_hm_get e (d_map b) (r_key r) = Some a" using assms(3) r(2) by (simp add: ec_dups_search_def)
  obtain b' where d: "ec_dups_delete e (r_key r) b = (C_OK, b')"
    using g assms(4) by (fastforce simp: ec_dups_delete_def split: option.splits)
  have "d_recvd b' a = None" using d g by (auto simp: ec_dups_delete_def ec_recvd_pdu_free_def split: option.splits)
  with ec_dups_delete_ok [OF assms(1,2) d] d r show ?thesis
    by (auto simp: ec_dup_zap_def ec_dups_search_def)
qed

theorem dup_forgotten_witness:
  "\<exists>b'. ec_dup_zap demo_env 0 demo_base1 = Done b' \<and> dups_ok demo_env b' \<and>
    ec_dups_search demo_env 3 demo_peer b' = None \<and> d_recvd b' 0 = None"
proof -
  have "dups_ok demo_env demo_base1"
    using ec_dups_insert_ok [OF demo_env_laws(1) demo_base_ok demo_insert demo_search] by metis
  then show ?thesis
    by (rule dup_forgotten [OF demo_env_laws(1) _ demo_search1]) simp
qed

text \<open>A configured block size of 17 to 1024 bytes is accepted, and the exponent chosen is the
  largest whose block is strictly smaller: an exact power of two is halved (1024 becomes
  512), and 16, which the range check lets through, is rejected.\<close>

theorem block_sz_rounding:
  assumes "17 \<le> val" and "val \<le> 1024"
  shows "\<exists>szx. ec_cfg_set_block_sz cfg val = (C_OK, cfg\<lparr>block_is_stateless := False, block_szx := szx\<rparr>) \<and>
    2 ^ (szx + 4) < val \<and> val \<le> 2 ^ (szx + 5) \<and>
    ec_cfg_set_block_sz cfg 16 = (C_ERR, cfg) \<and> ec_cfg_set_block_sz cfg 1024 = (C_OK, cfg\<lparr>block_is_stateless := False, block_szx := 5\<rparr>)"
proof -
  have n: "ec_nearest_block v = (if v \<le> 16 then None else if v \<le> 32 then Some 0 else if v \<le> 64 then Some 1
     else if v \<le> 128 then Some 2 else if v \<le> 256 then Some 3 else if v \<le> 512 then Some 4
     else if v \<le> 1024 then Some 5 else Some 6)" for v
    by (simp add: ec_nearest_block_def nearest_block_from.simps)
  have "\<exists>szx. ec_nearest_block val = Some szx \<and> 2 ^ (szx + 4) < val \<and> val \<le> 2 ^ (szx + 5)"
    using assms by (auto simp: n)
  moreover have "ec_nearest_block 16 = None" "ec_nearest_block 1024 = Some 5" by (simp_all add: n)
  ultimately show ?thesis
    using assms by (auto simp: ec_cfg_set_block_sz_def)
qed

theorem block_sz_rounding_witness:
  "\<exists>szx. ec_cfg_set_block_sz \<lparr>block_is_stateless = True, block_szx = 0\<rparr> 512 =
      (C_OK, \<lparr>block_is_stateless = False, block_szx = szx\<rparr>) \<and> 2 ^ (szx + 4) < (512 :: nat)"
  using block_sz_rounding [of 512 "\<lparr>block_is_stateless = True, block_szx = 0\<rparr>"] by auto

end
