(* ===== verification/Pdu_Spec.thy ===== *)
theory Pdu_Spec
  imports Pdu Opt_Spec Dups_Spec
begin

text \<open>
  Properties of PDUs: the header codec, what a response looks like to its receiver, the
  overflow of the 4-bit option count, and what sending does to the world and the cache.
\<close>

subsection \<open>The header codec\<close>

lemma masks8: "(0xc0 :: byte) = push_bit 6 (mask 2)" "(0x30 :: byte) = push_bit 4 (mask 2)" "(0x0f :: byte) = mask 4" "(3 :: byte) = mask 2"
  by (simp_all add: mask_eq_exp_minus_1 push_bit_eq_mult)
lemma masks16: "(0xff00 :: u16) = push_bit 8 (mask 8)" "(0xff :: u16) = mask 8"
  by (simp_all add: mask_eq_exp_minus_1 push_bit_eq_mult)

lemma first_byte:
  fixes t oc :: byte
  defines "b \<equiv> push_bit 6 (1 AND 3) OR push_bit 4 (t AND 3) OR (oc AND 0x0f) :: byte"
  shows "drop_bit 6 (b AND 0xc0) = 1" and "drop_bit 4 (b AND 0x30) = t AND 3" and "b AND 0x0f = oc AND 0x0f"
  unfolding b_def masks8
  by (rule bit_word_eqI, simp only: bit_or_iff bit_and_iff bit_push_bit_iff bit_drop_bit_eq bit_mask_iff bit_1_iff o_def, auto)+

lemma htons_htons [simp]: "htons le (htons le w) = w"
  by (rule bit_word_eqI) (auto simp: htons_def bit_simps)

lemma mid_bytes: "push_bit 8 (ucast (ucast (drop_bit 8 (w AND 0xff00)) :: byte)) OR ucast (ucast (w AND 0x00ff) :: byte) = (w :: u16)"
  unfolding masks16
  apply (rule bit_word_eqI)
  apply (simp only: bit_or_iff bit_push_bit_iff bit_unsigned_iff bit_drop_bit_eq bit_and_iff bit_mask_iff o_def)
  apply auto
  done

lemma encode_header_sel [simp]:
  "p_opts (encode_header le pdu code t mid) = p_opts pdu"
  "p_sibling (encode_header le pdu code t mid) = p_sibling pdu"
  "p_payload (encode_header le pdu code t mid) = p_payload pdu"
  "p_payload_sz (encode_header le pdu code t mid) = p_payload_sz pdu"
  "p_hdr_bits (encode_header le pdu code t mid) = p_hdr_bits pdu"
  "p_addr (encode_header le pdu code t mid) = p_addr pdu"
  "length (p_hdr (encode_header le pdu code t mid)) = EC_COAP_HDR_SIZE"
  by (simp_all add: encode_header_def Let_def)

lemma decode_encode_header:
  assumes "EC_COAP_HDR_SIZE \<le> sz"
  shows "ec_pdu_decode_header le pdu0 (p_hdr (encode_header le pdu code t mid) @ rest) sz =
    (C_OK, pdu0\<lparr>p_hdr_bits := \<lparr>h_t = t AND 3, h_oc = of_nat (noptions (p_opts pdu)) AND 15,
       h_code = code, h_mid = mid\<rparr>, p_hdr := p_hdr (encode_header le pdu code t mid)\<rparr>)"
  using assms mid_bytes [of "htons le mid"]
  by (simp add: ec_pdu_decode_header_def encode_header_def Let_def first_byte [simplified])

lemma header_codec:
  assumes "EC_COAP_HDR_SIZE \<le> sz" and "noptions (p_opts pdu) \<le> 15" and "t \<le> EC_COAP_RST"
  shows "\<exists>pdu'. ec_pdu_decode_header le pdu0 (p_hdr (encode_header le pdu code t mid) @ rest) sz = (C_OK, pdu') \<and>
    h_t (p_hdr_bits pdu') = t \<and> unat (h_oc (p_hdr_bits pdu')) = noptions (p_opts pdu) \<and>
    h_code (p_hdr_bits pdu') = code \<and> h_mid (p_hdr_bits pdu') = mid"
proof -
  have "bit t i \<Longrightarrow> i < 2" for i using assms(3) by (intro bit_of_small [of t 2]) (simp_all add: word_le_nat_alt)
  then have t: "t AND 3 = t" unfolding masks8(4) by (intro bit_word_eqI) (auto simp: bit_simps)
  have "unat (of_nat (noptions (p_opts pdu)) AND 15 :: byte) = noptions (p_opts pdu)"
    using assms(2) by (simp only: unat_and_15) (simp add: unat_of_nat_byte)
  with t show ?thesis by (simp add: decode_encode_header [OF assms(1)])
qed

text \<open>A header written by \<open>encode_header\<close> is decoded back to its type, code and MID, on hosts
  of either endianness, and to its option count when that is at most 15.\<close>

theorem header_roundtrip:
  assumes "EC_COAP_HDR_SIZE \<le> sz" and "noptions (p_opts pdu) \<le> 15" and "t \<le> EC_COAP_RST"
  shows "\<exists>pdu'. ec_pdu_decode_header le pdu0 (p_hdr (encode_header le pdu code t mid) @ rest) sz = (C_OK, pdu') \<and>
    h_t (p_hdr_bits pdu') = t \<and> unat (h_oc (p_hdr_bits pdu')) = noptions (p_opts pdu) \<and>
    h_code (p_hdr_bits pdu') = code \<and> h_mid (p_hdr_bits pdu') = mid"
  by (rule header_codec [OF assms])

theorem header_roundtrip_witness:
  "\<exists>pdu'. ec_pdu_decode_header True (fst (ec_pdu_new_empty demo_base))
      (p_hdr (encode_header True (fst (ec_pdu_new_empty demo_base)) 0x45 EC_COAP_ACK 0x1234) @ [1, 2]) 6 = (C_OK, pdu') \<and>
    h_t (p_hdr_bits pdu') = EC_COAP_ACK \<and> h_code (p_hdr_bits pdu') = 0x45 \<and> h_mid (p_hdr_bits pdu') = 0x1234"
  using header_roundtrip [of 6 "fst (ec_pdu_new_empty demo_base)" EC_COAP_ACK True]
  by (simp add: ec_pdu_new_empty_def ec_opts_init_def) blast

subsection \<open>Responses\<close>

text \<open>The options after the token has been mirrored.\<close>

definition with_token :: "ec_flow \<Rightarrow> (ec_opt_sym \<Rightarrow> byte list list) \<Rightarrow> ec_opt_sym \<Rightarrow> byte list list" where
  "with_token flow m =
     (if f_token_sz flow = 0 then m else abs_add m EC_OPT_TOKEN (take (f_token_sz flow) (f_token flow)))"

lemma token_type: "ec_opt_sym2type EC_OPT_TOKEN = EC_OPT_TYPE_OPAQUE" "EC_OPT_SYM_VALID EC_OPT_TOKEN"
  by (simp_all add: opt_table_defs)

lemma ec_opts_add_token_eq:
  "0 < n \<Longrightarrow> n \<le> 8 \<Longrightarrow> ec_opts_add_token opts t n =
    (if noptions opts \<ge> EC_PROTO_MAX_OPTIONS then (C_ERR, opts) else ec_opts_add opts EC_OPT_TOKEN t n)"
  by (simp add: ec_opts_add_token_def ec_opts_add_opaque_def token_type ec_opts_add_raw_single)

lemma token_added:
  assumes "readable opts" and "length (f_token flow) = 8" and "f_token_sz flow \<le> 8"
    and "(if f_token_sz flow \<noteq> 0 then ec_opts_add_token opts (f_token flow) (f_token_sz flow) else (C_OK, opts)) = (C_OK, opts')"
  shows "readable opts' \<and> abs_opts opts' = with_token flow (abs_opts opts) \<and> enc opts' = enc opts"
proof (cases "f_token_sz flow = 0")
  case True
  with assms show ?thesis by (simp add: with_token_def)
next
  case False
  have w: "wf_opts opts" using assms(1) by (simp add: readable_def)
  have a: "ec_opts_add opts EC_OPT_TOKEN (f_token flow) (f_token_sz flow) = (C_OK, opts')"
    using assms(3,4) False by (simp add: ec_opts_add_token_eq split: if_splits)
  then obtain o' where o: "ec_opt_new EC_OPT_TOKEN (f_token_sz flow) (f_token flow) = Some o'"
    "opts' = opts\<lparr>opts_bundle := bundle_insert o' (opts_bundle opts), noptions := noptions opts + 1\<rparr>"
    by (rule ec_opts_add_Some)
  have "wf_opts opts'" using ec_opts_add_wf [OF w, of "f_token_sz flow" "f_token flow" EC_OPT_TOKEN] a assms(2,3) by simp
  moreover have "readable_opt o'"
    using ec_opt_new_wf [OF o(1)] ec_opt_new_sym [OF o(1)] ec_opt_new_bytes [OF o(1)] token_type assms(2,3)
    by (simp add: readable_opt_def full_opt_def)
  ultimately have "readable opts'" using assms(1) o(2) by (auto simp: readable_def)
  with ec_opts_add_abs [OF a w] assms(2,3) False o(2) show ?thesis by (simp add: with_token_def token_type)
qed

lemma abs_opts_bundle: "opts_bundle a = opts_bundle b \<Longrightarrow> abs_opts a = abs_opts b"
  by (simp add: fun_eq_iff abs_opts_def opts_of_def)

definition wire_bytes :: "ec_pdu \<Rightarrow> byte list" where
  "wire_bytes pdu = p_hdr pdu @ take (enc_sz (p_opts pdu)) (enc (p_opts pdu)) @ gather (p_payload pdu) (p_payload_sz pdu)"

lemma encode_response_decodes:
  assumes t: "t = EC_COAP_CON \<or> t = EC_COAP_NON \<or> t = EC_COAP_ACK" and rc: "EC_IS_RESP_CODE rc"
    and r: "readable (p_opts pdu)" "length (enc (p_opts pdu)) = EC_OPTS_MAX_LEN"
    and tok: "length (f_token flow) = 8" "f_token_sz flow \<le> 8"
    and e: "encode_response le pdu flow t rc mid = (C_OK, pdu')" and n: "noptions (p_opts pdu') \<le> 15"
  shows "\<exists>rx opts. ec_pdu_decode_header le pdu0 (wire_bytes pdu') (length (wire_bytes pdu')) = (C_OK, rx) \<and>
    h_t (p_hdr_bits rx) = t \<and> h_code (p_hdr_bits rx) = word_of_int rc \<and> h_mid (p_hdr_bits rx) = mid \<and>
    ec_opts_decode ec_opts_init (wire_bytes pdu') (length (wire_bytes pdu')) (unat (h_oc (p_hdr_bits rx))) =
      Done (EC_RC_UNSET, opts, enc_sz (p_opts pdu')) \<and>
    abs_opts opts = with_token flow (abs_opts (p_opts pdu)) \<and>
    drop (EC_COAP_HDR_SIZE + enc_sz (p_opts pdu')) (wire_bytes pdu') = gather (p_payload pdu) (p_payload_sz pdu)"
proof -
  have nr: "t \<noteq> EC_COAP_RST" "rc \<noteq> EC_RC_UNSET" using t rc by (auto simp: EC_IS_RESP_CODE_def)
  obtain opts1 where o1: "(if f_token_sz flow \<noteq> 0 then ec_opts_add_token (p_opts pdu) (f_token flow) (f_token_sz flow)
      else (C_OK, p_opts pdu)) = (C_OK, opts1)"
    using e nr by (auto simp: encode_response_def split: prod.splits crc.splits if_splits)
  then obtain opts2 where o2: "ec_opts_encode opts1 = (C_OK, opts2)"
    and p': "pdu' = encode_header le (pdu\<lparr>p_opts := opts2\<rparr>) (word_of_int rc) t mid"
    using e nr by (auto simp: encode_response_def split: prod.splits crc.splits)
  have ta: "readable opts1" "abs_opts opts1 = with_token flow (abs_opts (p_opts pdu))" "length (enc opts1) = EC_OPTS_MAX_LEN"
    using token_added [OF r(1) tok o1] r(2) by auto
  note b = encode_readable_fits [OF ta(1) o2 ta(3)]
  let ?h = "p_hdr (encode_header le (pdu\<lparr>p_opts := opts2\<rparr>) (word_of_int rc) t mid)"
  let ?pl = "gather (p_payload pdu) (p_payload_sz pdu)"
  have w: "wire_bytes pdu' = ?h @ take (enc_sz opts2) (enc opts2) @ ?pl" by (simp add: wire_bytes_def p')
  have sz: "EC_COAP_HDR_SIZE \<le> length (wire_bytes pdu')" by (simp add: w)
  obtain rx where rx: "ec_pdu_decode_header le pdu0 (wire_bytes pdu') (length (wire_bytes pdu')) = (C_OK, rx)"
    "h_t (p_hdr_bits rx) = t" "unat (h_oc (p_hdr_bits rx)) = noptions opts2"
    "h_code (p_hdr_bits rx) = word_of_int rc" "h_mid (p_hdr_bits rx) = mid"
    using header_codec [of "length (wire_bytes pdu')" "pdu\<lparr>p_opts := opts2\<rparr>" t le pdu0 "word_of_int rc" mid
        "take (enc_sz opts2) (enc opts2) @ ?pl"] sz t n
    unfolding w by (auto simp: p')
  obtain decoded where d: "ec_opts_decode ec_opts_init (wire_bytes pdu') (length (wire_bytes pdu')) (noptions opts2) =
      Done (EC_RC_UNSET, decoded, enc_sz opts2)" "opts_bundle decoded = opts_bundle opts1"
    using encode_decode_readable [OF ta(1,3) o2 _ sz, of ?h ?pl] unfolding w by auto
  have "drop (EC_COAP_HDR_SIZE + enc_sz opts2) (wire_bytes pdu') = ?pl" using b by (simp add: w)
  then show ?thesis
    using rx d ta(2) abs_opts_bundle [OF d(2)] by (auto simp: p')
qed

text \<open>C13: A piggybacked response that was encoded within the 15-option limit is what its
  receiver decodes: an acknowledgement with the response code, the MID of the request, the
  options of the response with the token of the request appended, and the payload.\<close>

theorem piggyback_decodes:
  assumes "p_sibling pdu = Some (a, mid)" and "readable (p_opts pdu)" and "length (enc (p_opts pdu)) = EC_OPTS_MAX_LEN"
    and "length (f_token flow) = 8" and "f_token_sz flow \<le> 8"
    and "ec_pdu_encode_response_piggyback le pdu flow = (C_OK, pdu')" and "noptions (p_opts pdu') \<le> 15"
  shows "\<exists>rx opts. ec_pdu_decode_header le pdu0 (wire_bytes pdu') (length (wire_bytes pdu')) = (C_OK, rx) \<and>
    h_t (p_hdr_bits rx) = EC_COAP_ACK \<and> h_code (p_hdr_bits rx) = word_of_int (f_resp_code flow) \<and> h_mid (p_hdr_bits rx) = mid \<and>
    ec_opts_decode ec_opts_init (wire_bytes pdu') (length (wire_bytes pdu')) (unat (h_oc (p_hdr_bits rx))) =
      Done (EC_RC_UNSET, opts, enc_sz (p_opts pdu')) \<and>
    abs_opts opts = with_token flow (abs_opts (p_opts pdu)) \<and>
    drop (EC_COAP_HDR_SIZE + enc_sz (p_opts pdu')) (wire_bytes pdu') = gather (p_payload pdu) (p_payload_sz pdu)"
proof -
  have "EC_IS_RESP_CODE (f_resp_code flow)" "encode_response le pdu flow EC_COAP_ACK (f_resp_code flow) mid = (C_OK, pdu')"
    using assms(1,6) by (auto simp: ec_pdu_encode_response_piggyback_def split: if_splits)
  then show ?thesis by (intro encode_response_decodes [OF _ _ assms(2-5) _ assms(7)]) auto
qed

definition demo_pdu :: ec_pdu where
  "demo_pdu = (fst (ec_pdu_new_empty demo_base))\<lparr>p_sibling := Some (1, 0x1234), p_payload := Some [104, 105], p_payload_sz := 2\<rparr>"

definition demo_flow :: ec_flow where
  "demo_flow = ec_flow_init\<lparr>f_resp_code := EC_CONTENT, f_token := [9, 8, 0, 0, 0, 0, 0, 0], f_token_sz := 2\<rparr>"

lemma demo_token_opts: "ec_opts_add_token ec_opts_init [9, 8, 0, 0, 0, 0, 0, 0] 2 =
  (C_OK, ec_opts_init\<lparr>noptions := 1, opts_bundle := [\<lparr>o_sym = EC_OPT_TOKEN, o_t = EC_OPT_TYPE_OPAQUE, o_l = 2, o_v = Some [9, 8]\<rparr>]\<rparr>)"
  by (simp add: ec_opts_add_token_eq ec_opts_add_def ec_opt_new_def ec_opts_push_def bundle_insert_def
      token_type numeral_eq_Suc) (simp add: ec_opts_init_def)

lemma demo_token_readable:
  "readable (ec_opts_init\<lparr>noptions := 1, opts_bundle := [\<lparr>o_sym = EC_OPT_TOKEN, o_t = EC_OPT_TYPE_OPAQUE, o_l = 2, o_v = Some [9, 8]\<rparr>]\<rparr>)"
  by (simp add: readable_def readable_opt_def full_opt_def wf_opts_def wf_opt_def
      opt_bytes_def ec_opts_init_def token_type)

lemma demo_piggyback:
  "\<exists>pdu'. ec_pdu_encode_response_piggyback True demo_pdu demo_flow = (C_OK, pdu') \<and> noptions (p_opts pdu') = 1"
proof -
  let ?o = "ec_opts_init\<lparr>noptions := 1, opts_bundle := [\<lparr>o_sym = EC_OPT_TOKEN, o_t = EC_OPT_TYPE_OPAQUE, o_l = 2, o_v = Some [9, 8]\<rparr>]\<rparr>"
  have w: "wire_of ?o = [0xb2, 9, 8]" "wire_count 0 (opts_bundle ?o) = 1"
    by (simp_all add: wire_of_def wire_one_def head_bytes_def fencepost_bytes_def last_number_def opt_bytes_def opt_table_defs)
  have "\<exists>o'. ec_opts_encode ?o = (C_OK, o') \<and> noptions o' = 1"
    using ec_opts_encode_sendable [OF readable_sendable [OF demo_token_readable]] w by (simp add: EC_OPTS_MAX_LEN_def)
  then show ?thesis
    by (auto simp: ec_pdu_encode_response_piggyback_def encode_response_def demo_pdu_def demo_flow_def
        ec_pdu_new_empty_def EC_IS_RESP_CODE_def demo_token_opts)
qed

theorem piggyback_decodes_witness:
  "\<exists>pdu' rx opts. ec_pdu_encode_response_piggyback True demo_pdu demo_flow = (C_OK, pdu') \<and>
    ec_pdu_decode_header True demo_pdu (wire_bytes pdu') (length (wire_bytes pdu')) = (C_OK, rx) \<and>
    h_mid (p_hdr_bits rx) = 0x1234 \<and> abs_opts opts EC_OPT_TOKEN = [[9, 8]] \<and>
    ec_opts_decode ec_opts_init (wire_bytes pdu') (length (wire_bytes pdu')) (unat (h_oc (p_hdr_bits rx))) =
      Done (EC_RC_UNSET, opts, enc_sz (p_opts pdu'))"
proof -
  obtain pdu' where p: "ec_pdu_encode_response_piggyback True demo_pdu demo_flow = (C_OK, pdu')" "noptions (p_opts pdu') \<le> 15"
    using demo_piggyback by force
  have s: "p_sibling demo_pdu = Some (1, 0x1234)" by (simp add: demo_pdu_def)
  have "readable (p_opts demo_pdu)" "length (enc (p_opts demo_pdu)) = EC_OPTS_MAX_LEN" "abs_opts (p_opts demo_pdu) = (\<lambda>_. [])"
    by (simp_all add: demo_pdu_def ec_pdu_new_empty_def readable_def wf_opts_init fun_eq_iff abs_opts_def opts_of_def ec_opts_init_def)
      (simp add: wf_opts_def)
  moreover have "length (f_token demo_flow) = 8" "f_token_sz demo_flow \<le> 8" by (simp_all add: demo_flow_def)
  ultimately show ?thesis
    using piggyback_decodes [OF s _ _ _ _ p(1,2), of demo_pdu] p(1)
    by (fastforce simp: with_token_def demo_flow_def abs_add_def numeral_eq_Suc)
qed

lemma wire_count_same_number:
  "\<forall>o' \<in> set os. opt_number o' = n \<Longrightarrow> wire_count n os = length os"
  by (induction os) (auto simp: fencepost_bytes_def)

text \<open>The option count of the header has four bits, but encoding can add a fencepost to 15
  options: a request with 15 Uri-Query options announces none at all.\<close>

theorem fencepost_overflow:
  assumes "readable opts" and "noptions opts = 15" and "\<forall>o' \<in> set (opts_bundle opts). o_sym o' = EC_OPT_URI_QUERY"
    and "ec_opts_encode opts = (C_OK, opts')" and "EC_COAP_HDR_SIZE \<le> sz"
  shows "noptions opts' = 16 \<and>
    (\<exists>rx. ec_pdu_decode_header le pdu0 (p_hdr (encode_header le (pdu\<lparr>p_opts := opts'\<rparr>) code t mid) @ rest) sz = (C_OK, rx) \<and>
      h_oc (p_hdr_bits rx) = 0)"
proof -
  have s: "sendable opts" by (rule readable_sendable [OF assms(1)])
  have fits: "length (wire_of opts) \<le> EC_OPTS_MAX_LEN"
    using ec_opts_encode_too_long [OF s] assms(4) by (metis crc.distinct(1) fst_conv)
  have n: "ec_opt_sym2num EC_OPT_URI_QUERY = 15" by (simp add: opt_table_defs)
  have l: "length (opts_bundle opts) = 15" using assms(1,2) by (simp add: readable_def wf_opts_def)
  then obtain o' os where b: "opts_bundle opts = o' # os" "length os = 14" by (cases "opts_bundle opts") auto
  then have "wire_count 0 (opts_bundle opts) = 16"
    using assms(3) n wire_count_same_number [of os 15] by (simp add: fencepost_bytes_def)
  then have "noptions opts' = 16" using ec_opts_encode_sendable [OF s fits] assms(4) by auto
  then show ?thesis by (simp add: decode_encode_header [OF assms(5)])
qed

definition demo_queries :: ec_opts where
  "demo_queries = ec_opts_init\<lparr>noptions := 15, opts_bundle :=
     replicate 15 \<lparr>o_sym = EC_OPT_URI_QUERY, o_t = EC_OPT_TYPE_STRING, o_l = 1, o_v = Some [97, 0]\<rparr>\<rparr>"

lemma demo_queries_readable: "readable demo_queries"
  by (simp add: demo_queries_def readable_def readable_opt_def full_opt_def wf_opts_def wf_opt_def
      opt_bytes_def opt_table_defs sorted_replicate)

lemma length_wire_opts_le:
  "\<forall>o' \<in> set os. length (opt_bytes o') = o_l o' \<Longrightarrow> length (wire_opts prev os) \<le> sum_list (map (\<lambda>o'. 3 + o_l o') os)"
proof (induction os arbitrary: prev)
  case Nil
  then show ?case by simp
next
  case (Cons o' os)
  have "length (wire_one prev o') \<le> 3 + o_l o'"
    using Cons.prems by (simp add: length_wire_one fencepost_bytes_def)
  with Cons.IH [of "opt_number o'"] Cons.prems show ?case by simp
qed

lemma demo_queries_encode: "\<exists>opts'. ec_opts_encode demo_queries = (C_OK, opts')"
proof -
  have "\<forall>o' \<in> set (opts_bundle demo_queries). length (opt_bytes o') = o_l o'"
    using demo_queries_readable by (simp add: readable_def readable_opt_def full_opt_def)
  from length_wire_opts_le [OF this, of 0]
  have "length (wire_of demo_queries) \<le> 60"
    by (simp add: wire_of_def demo_queries_def map_replicate sum_list_replicate)
  then have "length (wire_of demo_queries) \<le> EC_OPTS_MAX_LEN" by (simp add: EC_OPTS_MAX_LEN_def)
  then show ?thesis using ec_opts_encode_sendable [OF readable_sendable [OF demo_queries_readable]] by blast
qed

theorem fencepost_overflow_witness:
  "\<exists>opts' rx. ec_opts_encode demo_queries = (C_OK, opts') \<and> noptions opts' = 16 \<and>
    ec_pdu_decode_header True demo_pdu (p_hdr (encode_header True (demo_pdu\<lparr>p_opts := opts'\<rparr>) 1 EC_COAP_CON 5) @ []) 4 = (C_OK, rx) \<and>
    h_oc (p_hdr_bits rx) = 0"
proof -
  obtain opts' where o: "ec_opts_encode demo_queries = (C_OK, opts')" using demo_queries_encode by blast
  have "noptions demo_queries = 15" "\<forall>o' \<in> set (opts_bundle demo_queries). o_sym o' = EC_OPT_URI_QUERY"
    by (simp_all add: demo_queries_def)
  with fencepost_overflow [OF demo_queries_readable _ _ o, of 4 True demo_pdu demo_pdu 1 EC_COAP_CON 5 "[]"] o
  show ?thesis by auto
qed

subsection \<open>Sending\<close>

lemma ec_pdu_send_ok:
  assumes "dups_ok e b"
  shows "\<exists>rc b'. ec_pdu_send e pdu flow dups b = Done (rc, b') \<and> dups_ok e b' \<and> d_map b' = d_map b \<and>
    w_sent b' = w_sent b @ (if rc = C_OK then [\<lparr>dg_sd = c_socket (f_conn flow), dg_to = ec_pdu_get_peer pdu flow,
      dg_bytes = take EC_COAP_HDR_SIZE (p_hdr pdu) @ gather (Some (enc (p_opts pdu))) (enc_sz (p_opts pdu)) @
        gather (p_payload pdu) (p_payload_sz pdu)\<rparr>] else [])"
proof -
  obtain rc b1 where s: "ec_net_send e (p_hdr pdu) (Some (enc (p_opts pdu))) (enc_sz (p_opts pdu)) (p_payload pdu)
      (p_payload_sz pdu) (c_socket (f_conn flow)) (ec_pdu_get_peer pdu flow) b = (rc, b1)" by fastforce
  have same: "same_dups b1 b" using same_dups_send s by (metis snd_conv)
  then have ok: "dups_ok e b1" using assms same_dups_ok by blast
  have m: "d_map b1 = d_map b" using same by (simp add: same_dups_def)
  note sent = ec_net_send_sent [OF s]
  show ?thesis
  proof (cases "p_sibling pdu")
    case None
    with s ok m sent show ?thesis by (simp add: ec_pdu_send_def Let_def)
  next
    case (Some am)
    show ?thesis
    proof (cases "dups \<and> ec_dups_search e (snd am) (ec_pdu_get_peer pdu flow) b1 \<noteq> None")
      case False
      with Some s ok m sent show ?thesis
        by (cases am) (auto simp: ec_pdu_send_def Let_def)
    next
      case True
      then obtain a where a: "dups" "ec_dups_search e (snd am) (ec_pdu_get_peer pdu flow) b1 = Some a" by auto
      then obtain r where "d_recvd b1 a = Some r" using ec_dups_search_live [OF ok] by blast
      then obtain rc' b2 where u: "ec_recvd_pdu_update e a (p_hdr pdu) (enc (p_opts pdu)) (enc_sz (p_opts pdu))
          (p_payload pdu) (p_payload_sz pdu) b1 = Done (rc', b2)"
        using ec_recvd_pdu_update_no_fault [of b1 a] by blast
      have "w_sent b2 = w_sent b1" using ec_recvd_pdu_update_Done [OF u] by auto
      moreover have "ec_pdu_send e pdu flow dups b = Done (rc, b2)"
        using Some a s u by (cases am) (simp add: ec_pdu_send_def Let_def)
      ultimately show ?thesis
        using ec_recvd_pdu_update_ok [OF ok u] m sent by simp
    qed
  qed
qed

lemma ec_pdu_send_rc:
  assumes "ec_pdu_send e pdu flow d s = Done (rc, s')" and "c_socket (f_conn flow) \<noteq> -1"
    and "ec_net_socklen (ec_pdu_get_peer pdu flow) \<noteq> None" and "e_send_ok e (w_tick s)"
  shows "rc = C_OK"
  using assms by (auto simp: ec_pdu_send_def ec_net_send_def Let_def run_bind_Done_iff split: option.splits if_splits)

end
