(* ===== verification/Post.thy ===== *)
theory Post
  imports Prelude
begin

text \<open>
  Reasoning about calls that may fault: \<open>post F Q m\<close> says that every result of \<open>m\<close> satisfies \<open>Q\<close>
  and every fault is one of \<open>F\<close>.
\<close>

subsection \<open>Postconditions\<close>

definition post :: "fault set \<Rightarrow> ('a \<Rightarrow> bool) \<Rightarrow> 'a run \<Rightarrow> bool" where
  "post F Q m = (case m of Fault f \<Rightarrow> f \<in> F | Done x \<Rightarrow> Q x)"

lemma post_simps [simp]:
  "post F Q (Fault f) \<longleftrightarrow> f \<in> F"
  "post F Q (Done x) \<longleftrightarrow> Q x"
  by (simp_all add: post_def)

lemma post_bind [simp]: "post F Q (run_bind m f) \<longleftrightarrow> post F (\<lambda>x. post F Q (f x)) m"
  by (cases m) simp_all

lemma post_mono: "post F Q m \<Longrightarrow> (\<And>x. Q x \<Longrightarrow> R x) \<Longrightarrow> post F R m"
  by (cases m) simp_all

lemma post_weaken: "post F Q m \<Longrightarrow> F \<subseteq> G \<Longrightarrow> post G Q m"
  by (cases m) auto

lemma post_Done_iff: "post {} Q m \<longleftrightarrow> (\<exists>x. m = Done x \<and> Q x)"
  by (cases m) simp_all

lemma post_cases: "(\<And>f. m = Fault f \<Longrightarrow> f \<in> F) \<Longrightarrow> (\<And>x. m = Done x \<Longrightarrow> Q x) \<Longrightarrow> post F Q m"
  by (cases m) simp_all

lemma post_conj: "post F Q m \<Longrightarrow> post F R m \<Longrightarrow> post F (\<lambda>x. Q x \<and> R x) m"
  by (cases m) simp_all

lemma post_Done: "post F Q m \<Longrightarrow> m = Done x \<Longrightarrow> Q x"
  by simp

lemma post_cong_bind: "post F P m \<Longrightarrow> (\<And>x. P x \<Longrightarrow> post F Q (f x)) \<Longrightarrow> post F Q (run_bind m f)"
  by (cases m) simp_all

lemma post_bind_err:
  assumes "post F P m" and "\<And>s. P (C_ERR, s) \<Longrightarrow> Q (C_ERR, s)" and "\<And>s. P (C_OK, s) \<Longrightarrow> post F Q (f s)"
  shows "post F Q (run_bind m (\<lambda>(rc, s). if rc = C_ERR then Done (C_ERR, s) else f s))"
proof (rule post_cong_bind [OF assms(1)])
  fix x assume "P x"
  then show "post F Q (case x of (rc, s) \<Rightarrow> if rc = C_ERR then Done (C_ERR, s) else f s)"
    using assms(2,3) by (cases x, cases "fst x") auto
qed

end
