(* ===== verification/Run_Logic.thy ===== *)
theory Run_Logic
  imports Observe Pdu_Spec Post
begin

text \<open>
  The steps that the lower layers make: which fields of the state they may change, and the
  invariants they keep.
\<close>

subsection \<open>Steps of the lower layers\<close>

definition ticked :: "'z world_scheme \<Rightarrow> 'z world_scheme \<Rightarrow> bool" where
  "ticked s s' \<longleftrightarrow> w_tick s \<le> w_tick s' \<and> s' = s\<lparr>w_tick := w_tick s'\<rparr>"

definition base_step :: "('m, 'z) base_scheme \<Rightarrow> ('m, 'z) base_scheme \<Rightarrow> bool" where
  "base_step s s' \<longleftrightarrow> w_tick s \<le> w_tick s' \<and>
     s' = s\<lparr>w_tick := w_tick s', w_sent := w_sent s', d_map := d_map s', d_recvd := d_recvd s', d_next := d_next s'\<rparr>"

definition obs_step :: "('m, 'z) obs_st_scheme \<Rightarrow> ('m, 'z) obs_st_scheme \<Rightarrow> bool" where
  "obs_step s s' \<longleftrightarrow> w_tick s \<le> w_tick s' \<and>
     s' = s\<lparr>w_tick := w_tick s', w_sent := w_sent s', d_map := d_map s', d_recvd := d_recvd s', d_next := d_next s',
       ob_list := ob_list s', ob_heap := ob_heap s'\<rparr>"

lemma ticked_refl [simp]: "ticked s s"
  by (simp add: ticked_def)

lemma ticked_tick [simp]: "ticked s (tick s)"
  by (simp add: ticked_def tick_def)

lemma ticked_trans: assumes "ticked a b" and "ticked b c" shows "ticked a c"
proof -
  from assms have b: "b = a\<lparr>w_tick := w_tick b\<rparr>" and c: "c = b\<lparr>w_tick := w_tick c\<rparr>"
    unfolding ticked_def by auto
  have "c = a\<lparr>w_tick := w_tick c\<rparr>" by (subst c, subst b) simp
  then show ?thesis using assms unfolding ticked_def by simp
qed

lemma base_step_refl [simp]: "base_step s s"
  by (simp add: base_step_def)

lemma base_step_trans: assumes "base_step a b" and "base_step b c" shows "base_step a c"
proof -
  from assms have b: "b = a\<lparr>w_tick := w_tick b, w_sent := w_sent b, d_map := d_map b, d_recvd := d_recvd b, d_next := d_next b\<rparr>"
    and c: "c = b\<lparr>w_tick := w_tick c, w_sent := w_sent c, d_map := d_map c, d_recvd := d_recvd c, d_next := d_next c\<rparr>"
    unfolding base_step_def by auto
  have "c = a\<lparr>w_tick := w_tick c, w_sent := w_sent c, d_map := d_map c, d_recvd := d_recvd c, d_next := d_next c\<rparr>"
    by (subst c, subst b) simp
  then show ?thesis using assms unfolding base_step_def by simp
qed

lemma obs_step_refl [simp]: "obs_step s s"
  by (simp add: obs_step_def)

lemma obs_step_trans: assumes "obs_step a b" and "obs_step b c" shows "obs_step a c"
proof -
  from assms have b: "b = a\<lparr>w_tick := w_tick b, w_sent := w_sent b, d_map := d_map b, d_recvd := d_recvd b, d_next := d_next b,
       ob_list := ob_list b, ob_heap := ob_heap b\<rparr>"
    and c: "c = b\<lparr>w_tick := w_tick c, w_sent := w_sent c, d_map := d_map c, d_recvd := d_recvd c, d_next := d_next c,
       ob_list := ob_list c, ob_heap := ob_heap c\<rparr>"
    unfolding obs_step_def by auto
  have "c = a\<lparr>w_tick := w_tick c, w_sent := w_sent c, d_map := d_map c, d_recvd := d_recvd c, d_next := d_next c,
       ob_list := ob_list c, ob_heap := ob_heap c\<rparr>"
    by (subst c, subst b) simp
  then show ?thesis using assms unfolding obs_step_def by simp
qed

lemma ticked_base_step: assumes "ticked s s'" shows "base_step s s'"
proof -
  from assms have s: "s' = s\<lparr>w_tick := w_tick s'\<rparr>" and "w_tick s \<le> w_tick s'" unfolding ticked_def by auto
  have "w_sent s' = w_sent s" "d_map s' = d_map s" "d_recvd s' = d_recvd s" "d_next s' = d_next s" by (subst s, simp)+
  with s \<open>w_tick s \<le> w_tick s'\<close> show ?thesis unfolding base_step_def by simp
qed

lemma base_obs_step: assumes "base_step s s'" shows "obs_step s s'"
proof -
  from assms have s: "s' = s\<lparr>w_tick := w_tick s', w_sent := w_sent s', d_map := d_map s', d_recvd := d_recvd s', d_next := d_next s'\<rparr>"
    and "w_tick s \<le> w_tick s'" unfolding base_step_def by auto
  have "ob_list s' = ob_list s" "ob_heap s' = ob_heap s" by (subst s, simp)+
  with s \<open>w_tick s \<le> w_tick s'\<close> show ?thesis unfolding obs_step_def by simp
qed

lemma base_step_keeps:
  assumes "base_step s s'"
  shows "ob_list s' = ob_list s" and "ob_heap s' = ob_heap s" and "w_tick s \<le> w_tick s'"
proof -
  from assms have s: "s' = s\<lparr>w_tick := w_tick s', w_sent := w_sent s', d_map := d_map s', d_recvd := d_recvd s', d_next := d_next s'\<rparr>"
    unfolding base_step_def by auto
  show "ob_list s' = ob_list s" "ob_heap s' = ob_heap s" by (subst s, simp)+
  show "w_tick s \<le> w_tick s'" using assms by (simp add: base_step_def)
qed

subsection \<open>What each operation may change\<close>

lemma ticked_keeps:
  assumes "ticked s s'"
  shows "w_tick s \<le> w_tick s'" and "w_sent s' = w_sent s"
proof -
  from assms have s: "s' = s\<lparr>w_tick := w_tick s'\<rparr>" unfolding ticked_def by blast
  show "w_sent s' = w_sent s" by (subst s) simp
  show "w_tick s \<le> w_tick s'" using assms by (simp add: ticked_def)
qed

lemma ticked_dups: assumes "ticked s s'" shows "dups_ok e s' = dups_ok e s"
proof -
  from assms have s: "s' = s\<lparr>w_tick := w_tick s'\<rparr>" unfolding ticked_def by blast
  show ?thesis by (subst s) (simp add: dups_ok_def)
qed

lemma ticked_new_empty: "ec_pdu_new_empty s = (p, s') \<Longrightarrow> ticked s s'"
  by (auto simp: ec_pdu_new_empty_def)

lemma ticked_save_us: "ec_conn_save_us e c sd s = (rc, c', s') \<Longrightarrow> ticked s s'"
  by (auto simp: ec_conn_save_us_def split: if_splits option.splits)

lemma ticked2 [simp]: "ticked s (tick (tick s))"
  by (rule ticked_trans [of s "tick s"]) simp_all

lemma ticked_timer_start: "ec_timer_start e ti n s = (rc, ti', s') \<Longrightarrow> ticked s s'"
  by (auto simp: ec_timer_start_def Let_def split: if_splits)

lemma ticked_timer_restart: "ec_timer_restart e ti s = Done (rc, ti', s') \<Longrightarrow> ticked s s'"
  by (auto simp: ec_timer_restart_def Let_def split: if_splits option.splits)

lemma ticked_encode_separate: "ec_pdu_encode_response_separate e p f s = (rc, p', s') \<Longrightarrow> ticked s s'"
  by (auto simp: ec_pdu_encode_response_separate_def Let_def split: option.splits prod.splits)

lemma base_step_send: "ec_net_send e h os osz p psz sd d s = (rc, s') \<Longrightarrow> base_step s s'"
  by (auto simp: ec_net_send_def base_step_def tick_def split: if_splits option.splits)

lemma base_step_incoming:
  "ec_dups_handle_incoming_climsg e mid sd ss s = Done (rc, s') \<Longrightarrow> base_step s s'"
  by (auto simp: ec_dups_handle_incoming_climsg_def ec_dups_insert_def ec_recvd_pdu_new_def Let_def send_cached_def
      ec_recvd_pdu_free_def base_step_def tick_def split: option.splits if_splits prod.splits crc.splits
      dest!: base_step_send)

end
