(* ===== verification/Obs_Spec.thy ===== *)
theory Obs_Spec
  imports Run_Logic
begin

text \<open>
  Server-side observations: the queue and the records stay consistent (\<open>obs_ok\<close>), what
  adding, cancelling and notifying do, and the inputs on which they go wrong.
\<close>

subsection \<open>Steps of the duplicate cache\<close>

lemma base_step_update:
  "ec_recvd_pdu_update e a h os osz p psz s = Done (rc, s') \<Longrightarrow> base_step s s'"
  by (auto simp: ec_recvd_pdu_update_def base_step_def split: option.splits)

lemma base_step_pdu_send: "ec_pdu_send e pdu flow d s = Done (rc, s') \<Longrightarrow> base_step s s'"
  by (auto simp: ec_pdu_send_def Let_def run_bind_Done_iff split: option.splits prod.splits if_splits
      dest!: base_step_send base_step_update intro: base_step_trans)

lemma post_pdu_send:
  assumes "dups_ok e s"
  shows "post {} (\<lambda>(rc, s'). base_step s s' \<and> dups_ok e s') (ec_pdu_send e pdu flow d s)"
  using ec_pdu_send_ok [OF assms, of pdu flow d] base_step_pdu_send by fastforce

lemma dups_incoming_safe:
  assumes "hmap_laws e" and "dups_ok e b"
  shows "\<exists>rc b'. ec_dups_handle_incoming_climsg e mid sd ss b = Done (rc, b') \<and> dups_ok e b' \<and> rc \<in> {0, 1, -1}"
proof (cases "ec_dups_search e mid ss b")
  case None
  obtain c b' where i: "ec_dups_insert e ss mid b = (c, b')" by fastforce
  have "dups_ok e b'"
  proof (cases c)
    case C_OK
    with i None show ?thesis using ec_dups_insert_ok [OF assms] by metis
  next
    case C_ERR
    with i show ?thesis using ec_dups_insert_err [OF assms(2)] by blast
  qed
  with None i show ?thesis by (cases c) (simp_all add: ec_dups_handle_incoming_climsg_def)
next
  case (Some a)
  then obtain r where r: "d_recvd b a = Some r" using ec_dups_search_live [OF assms(2)] by blast
  obtain c b' where s: "send_cached e (r_cached r) sd ss b = (c, b')" by fastforce
  then have "dups_ok e b'"
    using assms(2) same_dups_send same_dups_ok by (metis send_cached_def snd_conv)
  with Some r s assms(2) show ?thesis
    by (cases c) (auto simp: ec_dups_handle_incoming_climsg_def)
qed

lemma post_incoming:
  assumes "hmap_laws e" and "dups_ok e s"
  shows "post {} (\<lambda>(rc, s'). base_step s s' \<and> dups_ok e s') (ec_dups_handle_incoming_climsg e mid sd ss s)"
  using dups_incoming_safe [OF assms, of mid sd ss] base_step_incoming by fastforce

subsection \<open>The queue and the records\<close>

definition obs_ok :: "('m, 'z) obs_st_scheme \<Rightarrow> bool" where
  "obs_ok s \<longleftrightarrow> distinct (ob_list s) \<and>
     (\<forall>a. a \<in> set (ob_list s) \<longleftrightarrow> ob_heap s a \<noteq> None) \<and> (\<forall>a \<in> set (ob_list s). a < w_tick s)"

lemma obs_ok_live: "obs_ok s \<Longrightarrow> a \<in> set (ob_list s) \<longleftrightarrow> (\<exists>ob. ob_heap s a = Some ob)"
  unfolding obs_ok_def by auto

lemma obs_ok_fresh: "obs_ok s \<Longrightarrow> w_tick s \<le> a \<Longrightarrow> ob_heap s a = None"
  unfolding obs_ok_def by (meson leD)

lemma obs_ok_base: "base_step s s' \<Longrightarrow> obs_ok s \<Longrightarrow> obs_ok s'"
  using base_step_keeps [of s s'] unfolding obs_ok_def by fastforce

text \<open>A step of the lower layers after which both invariants hold.\<close>

definition lower :: "'m env \<Rightarrow> ('m, 'z) obs_st_scheme \<Rightarrow> ('m, 'z) obs_st_scheme \<Rightarrow> bool" where
  "lower e s s' \<longleftrightarrow> obs_step s s' \<and> dups_ok e s' \<and> obs_ok s'"

lemma lower_trans: "lower e a b \<Longrightarrow> lower e b c \<Longrightarrow> lower e a c"
  unfolding lower_def using obs_step_trans by blast

lemma lower_refl: "dups_ok e s \<Longrightarrow> obs_ok s \<Longrightarrow> lower e s s"
  by (simp add: lower_def)

lemma base_lower: "base_step s s' \<Longrightarrow> dups_ok e s' \<Longrightarrow> obs_ok s \<Longrightarrow> lower e s s'"
  using base_obs_step obs_ok_base unfolding lower_def by blast

lemma ticked_lower: "ticked s s' \<Longrightarrow> dups_ok e s \<Longrightarrow> obs_ok s \<Longrightarrow> lower e s s'"
  by (rule base_lower [OF ticked_base_step]) (simp_all add: ticked_dups)

lemma set_obs_sel [simp]:
  "ob_heap (set_obs a ob s) = (ob_heap s)(a := ob)" "ob_list (set_obs a ob s) = ob_list s"
  "w_tick (set_obs a ob s) = w_tick s" "w_sent (set_obs a ob s) = w_sent s" "d_map (set_obs a ob s) = d_map s"
  "d_recvd (set_obs a ob s) = d_recvd s" "d_next (set_obs a ob s) = d_next s"
  "dups_ok e (set_obs a ob s) = dups_ok e s"
  by (simp_all add: set_obs_def dups_ok_def)

lemma obs_step_set_obs: "obs_step s (set_obs a ob s)"
  by (simp add: obs_step_def set_obs_def)

lemma set_obs_lower:
  assumes "dups_ok e s" and "obs_ok s" and "ob_heap s a \<noteq> None"
  shows "lower e s (set_obs a (Some ob) s)"
  using assms by (auto simp: lower_def obs_step_set_obs obs_ok_def)

lemma observation_walk_ok:
  assumes "\<forall>a \<in> set as. h a \<noteq> None"
  shows "observation_walk h uri as = Done (find (\<lambda>a. strcasecmp_eq (ob_uri (the (h a))) uri) as)"
  using assms by (induction as) auto

lemma post_search:
  assumes "obs_ok s"
  shows "post {} (\<lambda>r. \<forall>a. r = Some a \<longrightarrow> a \<in> set (ob_list s) \<and>
           (\<exists>ob. ob_heap s a = Some ob \<and> strcasecmp_eq (ob_uri ob) uri)) (ec_observation_search uri s)"
proof -
  have "\<forall>a \<in> set (ob_list s). ob_heap s a \<noteq> None" using assms by (simp add: obs_ok_def)
  then show ?thesis
    by (fastforce simp: ec_observation_search_def observation_walk_ok find_Some_iff)
qed

lemma observer_index_less: "observer_index c mid ovrs = Some i \<Longrightarrow> i < length ovrs \<and> observer_matches c mid (ovrs ! i)"
  by (induction ovrs arbitrary: i) (auto split: if_splits)

lemma ec_observer_remove_ok:
  assumes "dups_ok e s" and "obs_ok s" and "ob_heap s a = Some ob"
  shows "post {} (\<lambda>(s', drained). lower e s s' \<and> w_sent s' = w_sent s \<and> (drained \<longleftrightarrow> drop_nth i (ob_observers ob) = []) \<and>
    ob_heap s' = (ob_heap s)(a := if drained then None else Some (ob\<lparr>ob_observers := drop_nth i (ob_observers ob)\<rparr>)) \<and>
    ob_list s' = (if drained then remove1 a (ob_list s) else ob_list s)) (ec_observer_remove a i s)"
proof (cases "drop_nth i (ob_observers ob) = []")
  case True
  have "obs_ok (ec_observation_free a (s\<lparr>ob_list := remove1 a (ob_list s)\<rparr>))"
    using assms(2) by (auto simp: obs_ok_def ec_observation_free_def set_obs_def)
  moreover have "obs_step s (ec_observation_free a (s\<lparr>ob_list := remove1 a (ob_list s)\<rparr>))"
    by (simp add: obs_step_def ec_observation_free_def set_obs_def)
  ultimately show ?thesis
    using True assms by (auto simp: ec_observer_remove_def Let_def lower_def ec_observation_free_def dups_ok_def)
next
  case False
  then show ?thesis
    using assms set_obs_lower [OF assms(1,2), of a] by (simp add: ec_observer_remove_def Let_def)
qed

lemma rst_walk_ok:
  assumes "\<forall>a \<in> set as. h a \<noteq> None"
  shows "post {} (\<lambda>r. case r of
      None \<Rightarrow> \<forall>a \<in> set as. ec_observer_search (the (h a)) conn mid = None
    | Some (a, i) \<Rightarrow> a \<in> set as \<and> ec_observer_search (the (h a)) conn mid = Some i) (rst_walk h conn mid as)"
  using assms
proof (induction as)
  case Nil
  then show ?case by simp
next
  case (Cons a as)
  then obtain ob where ob: "h a = Some ob" by auto
  show ?case
  proof (cases "ec_observer_search ob conn mid")
    case None
    with Cons ob show ?thesis by (auto elim!: post_mono split: option.splits)
  next
    case (Some i)
    with ob show ?thesis by simp
  qed
qed

subsection \<open>Cancellation\<close>

text \<open>The state after removing the observer at position \<open>i\<close> of the observation \<open>a\<close>.\<close>

definition observer_gone :: "nat \<Rightarrow> nat \<Rightarrow> ('m, 'z) obs_st_scheme \<Rightarrow> ('m, 'z) obs_st_scheme \<Rightarrow> bool" where
  "observer_gone a i s s' \<longleftrightarrow> (\<exists>ob. ob_heap s a = Some ob \<and> i < length (ob_observers ob) \<and>
     (let ovrs = take i (ob_observers ob) @ drop (Suc i) (ob_observers ob)
      in ob_heap s' = (ob_heap s)(a := if ovrs = [] then None else Some (ob\<lparr>ob_observers := ovrs\<rparr>)) \<and>
         ob_list s' = (if ovrs = [] then remove1 a (ob_list s) else ob_list s)))"

lemma post_remove:
  assumes "dups_ok e s" and "obs_ok s" and "ob_heap s a = Some ob" and "ec_observer_search ob conn mid = Some i"
  shows "post {} (\<lambda>(s', _). lower e s s' \<and> w_sent s' = w_sent s \<and> observer_gone a i s s') (ec_observer_remove a i s)"
proof (rule post_mono [OF ec_observer_remove_ok [OF assms(1-3), of i]])
  have i: "i < length (ob_observers ob)"
    using assms(4) observer_index_less unfolding ec_observer_search_def by blast
  fix x assume "case x of (s', drained) \<Rightarrow> lower e s s' \<and> w_sent s' = w_sent s \<and> (drained \<longleftrightarrow> drop_nth i (ob_observers ob) = []) \<and>
    ob_heap s' = (ob_heap s)(a := if drained then None else Some (ob\<lparr>ob_observers := drop_nth i (ob_observers ob)\<rparr>)) \<and>
    ob_list s' = (if drained then remove1 a (ob_list s) else ob_list s)"
  with i assms(3) show "case x of (s', _) \<Rightarrow> lower e s s' \<and> w_sent s' = w_sent s \<and> observer_gone a i s s'"
    unfolding observer_gone_def drop_nth_def Let_def by (cases x) simp
qed

lemma post_canceled_by_rst:
  assumes "dups_ok e s" and "obs_ok s"
  shows "post {} (\<lambda>(r, s'). lower e s s' \<and> w_sent s' = w_sent s \<and>
      (r = 0 \<and> s' = s \<and> (\<forall>a ob. ob_heap s a = Some ob \<longrightarrow> ec_observer_search ob conn mid = None) \<or>
       r = 1 \<and> (\<exists>a ob i. ob_heap s a = Some ob \<and> ec_observer_search ob conn mid = Some i \<and> observer_gone a i s s')))
    (ec_observe_canceled_by_rst conn mid s)"
proof -
  have live: "\<forall>a \<in> set (ob_list s). ob_heap s a \<noteq> None" using assms(2) by (simp add: obs_ok_def)
  show ?thesis
    unfolding ec_observe_canceled_by_rst_def
  proof (rule post_cong_bind [OF rst_walk_ok [OF live]], goal_cases)
    case (1 r)
    show ?case
    proof (cases r)
      case None
      have "ec_observer_search ob conn mid = None" if "ob_heap s a = Some ob" for a ob
      proof -
        have "a \<in> set (ob_list s)" using that assms(2) by (simp add: obs_ok_def)
        with 1 None that show ?thesis by fastforce
      qed
      with None assms show ?thesis by (simp add: lower_refl)
    next
      case (Some ai)
      obtain a i where ai: "ai = (a, i)" by fastforce
      with Some 1 live obtain ob where ob: "ob_heap s a = Some ob" "ec_observer_search ob conn mid = Some i" by fastforce
      have "post {} (\<lambda>(s', _). lower e s s' \<and> w_sent s' = w_sent s \<and> (\<exists>a ob i. ob_heap s a = Some ob \<and>
          ec_observer_search ob conn mid = Some i \<and> observer_gone a i s s')) (ec_observer_remove a i s)"
        by (rule post_mono [OF post_remove [OF assms ob]]) (use ob in blast)
      then show ?thesis by (simp add: Some ai) (erule post_mono, clarsimp, blast)
    qed
  qed
qed

lemma post_rem_observer:
  assumes "dups_ok e s" and "obs_ok s"
  shows "post {} (\<lambda>(rc, s'). lower e s s' \<and> w_sent s' = w_sent s \<and> rc = C_OK) (ec_rem_observer flow s)"
  unfolding ec_rem_observer_def
proof (rule post_cong_bind [OF post_search [OF assms(2)]], goal_cases)
  case (1 r)
  with assms show ?case
    by (auto simp: lower_refl split: option.split intro!: post_mono [OF post_remove])
qed

lemma post_canceled_by_get:
  assumes "dups_ok e s" and "obs_ok s"
  shows "post {} (\<lambda>(r, s'). lower e s s' \<and> w_sent s' = w_sent s) (ec_observe_canceled_by_get flow s)"
proof -
  have "post {} (\<lambda>(r, s'). lower e s s' \<and> w_sent s' = w_sent s) (run_bind (ec_observation_search (f_urlstr flow) s) (\<lambda>obs.
        case obs of
          None \<Rightarrow> Done (0 :: int, s)
        | Some a \<Rightarrow>
            (case ob_heap s a of
               None \<Rightarrow> Fault Use_after_free
             | Some ob \<Rightarrow>
                 (case ec_observer_search ob (f_conn flow) 0 of
                    None \<Rightarrow> Done (1, s)
                  | Some i \<Rightarrow> run_bind (ec_observer_remove a i s) (\<lambda>(s, _). Done (1, s))))))"
  proof (rule post_cong_bind [OF post_search [OF assms(2)]], goal_cases)
    case (1 r)
    with assms show ?case
      by (auto simp: lower_refl split: option.split intro!: post_mono [OF post_remove])
  qed
  then show ?thesis using assms by (simp add: ec_observe_canceled_by_get_def lower_refl)
qed

subsection \<open>Adding an observer\<close>

lemma ec_observer_new_ok:
  assumes "tok_sz \<le> 8" and "etag = None \<and> etag_sz \<le> 8 \<or> etag_sz \<le> 4"
  shows "\<exists>ovr. ec_observer_new tok tok_sz etag etag_sz mt mm conn cb = Done (Some ovr) \<and>
    c_peer (ov_conn ovr) = c_peer conn \<and> c_socket (ov_conn ovr) = c_socket conn \<and> ov_reps_cb ovr = cb \<and> ov_media_type ovr = mt"
  using assms by (auto simp: ec_observer_new_def Let_def ec_conn_copy_def split: option.split)

lemma post_observer_add:
  assumes "dups_ok e s" and "obs_ok s" and "ob_heap s a = Some ob" and "tok_sz \<le> 8" and "etag = None \<and> etag_sz \<le> 8 \<or> etag_sz \<le> 4"
  shows "post {} (\<lambda>(rc, s'). lower e s s' \<and> w_sent s' = w_sent s \<and> rc = C_OK \<and> ob_list s' = ob_list s \<and>
      (\<exists>ovr. ob_heap s' = (ob_heap s)(a \<mapsto> ob\<lparr>ob_observers := ob_observers ob @ [ovr]\<rparr>) \<and>
        c_peer (ov_conn ovr) = c_peer conn \<and> ov_reps_cb ovr = cb))
    (ec_observer_add a tok tok_sz etag etag_sz mt mm conn cb s)"
  using ec_observer_new_ok [OF assms(4,5), of tok mt mm conn cb] assms(3)
    set_obs_lower [OF assms(1,2), of a]
  by (auto simp: ec_observer_add_def)

lemma post_observation_add:
  assumes "dups_ok e s" and "obs_ok s"
  shows "post {} (\<lambda>(r, s'). lower e s s' \<and> w_sent s' = w_sent s \<and>
      (\<forall>a. r = Some a \<longrightarrow> (\<exists>ob. ob_heap s' = (ob_heap s)(a \<mapsto> ob) \<and> ob_heap s a = None \<and> ob_list s' = ob_list s @ [a] \<and>
         ob_observers ob = [] \<and> ob_notify_pending ob \<and> e_strlcpy e uri EC_URI_MAX = (C_OK, ob_uri ob))))
    (ec_observation_add e uri max_age s)"
proof -
  have fresh: "ob_heap s (w_tick s) = None" using obs_ok_fresh [OF assms(2)] by simp
  have heap: "(ob_heap s)(w_tick s := None) = ob_heap s" using fresh by (simp add: fun_upd_idem)
  have "w_tick s \<notin> set (ob_list s)" using assms(2) fresh by (simp add: obs_ok_def)
  moreover have "\<And>ob. obs_step s (set_obs (w_tick s) ob (tick (tick s)))"
    "\<And>ob. obs_step s ((set_obs (w_tick s) ob (tick (tick s)))\<lparr>ob_list := ob_list s @ [w_tick s]\<rparr>)"
    by (simp_all add: obs_step_def set_obs_def tick_def)
  ultimately show ?thesis
    using assms fresh heap
    by (auto simp: ec_observation_add_def ec_observation_new_def ec_observation_start_countdown_def
        ec_observation_free_def ticked_lower Let_def split: prod.split crc.split)
      (auto simp: lower_def obs_ok_def set_obs_def tick_def dups_ok_def obs_step_def)
qed

lemma post_add_observer:
  assumes "dups_ok e s" and "obs_ok s" and "f_token_sz flow \<le> 8" and "etag = None \<and> etag_sz \<le> 8 \<or> etag_sz \<le> 4"
  shows "post {} (\<lambda>(rc, s'). lower e s s' \<and> w_sent s' = w_sent s \<and>
      (rc = C_OK \<longrightarrow> (\<exists>a ob ovr. ob_heap s' a = Some ob \<and> ob_observers ob \<noteq> [] \<and> ovr = last (ob_observers ob) \<and>
         c_peer (ov_conn ovr) = c_peer (f_conn flow) \<and> ov_reps_cb ovr = cb \<and>
         (strcasecmp_eq (ob_uri ob) (f_urlstr flow) \<or> e_strlcpy e (f_urlstr flow) EC_URI_MAX = (C_OK, ob_uri ob)))))
    (ec_add_observer e flow cb max_age mt mm etag etag_sz s)"
  unfolding ec_add_observer_def
proof (rule post_cong_bind [OF post_search [OF assms(2)]], goal_cases)
  case (1 r)
  show ?case
  proof (cases r)
    case None
    show ?thesis
      unfolding None option.case
    proof (rule post_cong_bind [OF post_observation_add [OF assms(1,2)]], goal_cases)
      case (1 x)
      obtain n s1 where x: "x = (n, s1)" by fastforce
      show ?case
      proof (cases n)
        case None
        with 1 x show ?thesis by simp
      next
        case (Some a)
        with 1 x obtain ob where ob: "ob_heap s1 a = Some ob" "e_strlcpy e (f_urlstr flow) EC_URI_MAX = (C_OK, ob_uri ob)"
          and l: "lower e s s1" "w_sent s1 = w_sent s" by auto
        have ok: "dups_ok e s1" "obs_ok s1" using l(1) by (simp_all add: lower_def)
        from post_observer_add [OF ok ob(1) assms(3,4), of "f_conn flow" cb "Some (f_token flow)" mt mm] l ob(2)
        show ?thesis
          by (auto simp: x Some intro: lower_trans elim!: post_mono)
      qed
    qed
  next
    case (Some a)
    with 1 obtain ob where ob: "ob_heap s a = Some ob" "strcasecmp_eq (ob_uri ob) (f_urlstr flow)" by auto
    from post_observer_add [OF assms(1,2) ob(1) assms(3,4), of "f_conn flow" cb "Some (f_token flow)" mt mm] ob(2)
    show ?thesis
      by (auto simp: Some intro: lower_trans elim!: post_mono)
  qed
qed

subsection \<open>Notification\<close>

text \<open>The header a receiver decodes.\<close>

definition header_of :: "bool \<Rightarrow> byte list \<Rightarrow> ec_hdr option" where
  "header_of le bs =
     (case ec_pdu_decode_header le (fst (ec_pdu_new_empty \<lparr>w_tick = 0, w_sent = []\<rparr>)) bs (length bs) of
        (C_ERR, _) \<Rightarrow> None
      | (C_OK, p) \<Rightarrow> Some (p_hdr_bits p))"

lemma header_of_encoded:
  "header_of le (p_hdr (encode_header le pdu code t mid) @ rest) =
   Some \<lparr>h_t = t AND 3, h_oc = of_nat (noptions (p_opts pdu)) AND 15, h_code = code, h_mid = mid\<rparr>"
  by (simp add: header_of_def decode_encode_header)

lemma encode_response_header:
  "encode_response le pdu flow t rc mid = (C_OK, pdu') \<Longrightarrow>
   length (p_hdr pdu') = 4 \<and> p_hdr_bits pdu' = p_hdr_bits pdu \<and> p_sibling pdu' = p_sibling pdu \<and>
   (\<exists>oc. \<forall>rest. header_of le (p_hdr pdu' @ rest) = Some \<lparr>h_t = t AND 3, h_oc = oc, h_code = word_of_int rc, h_mid = mid\<rparr>)"
  by (auto simp: encode_response_def header_of_encoded split: if_splits prod.splits crc.splits)

text \<open>A notification was sent to an observer, and the observer remembers its MID.\<close>

definition notified :: "bool \<Rightarrow> ec_observer \<Rightarrow> ec_observer \<Rightarrow> datagram \<Rightarrow> bool" where
  "notified le ovr ovr' d \<longleftrightarrow>
     dg_to d = c_peer (ov_conn ovr) \<and> dg_sd d = c_socket (ov_conn ovr) \<and> ovr' = ovr\<lparr>ov_last_mid := ov_last_mid ovr'\<rparr> \<and>
     (\<exists>h. header_of le (dg_bytes d) = Some h \<and> h_t h = EC_COAP_NON \<and> h_mid h = ov_last_mid ovr' \<and>
        h_code h = word_of_int EC_CONTENT)"

lemma notify_pdu_ok:
  "notify_pdu e o_cnt ovr (Some pl) nfy = Some (nfy', flow) \<Longrightarrow>
   p_hdr_bits nfy' = p_hdr_bits nfy \<and> p_sibling nfy' = p_sibling nfy \<and> f_resp_code flow = EC_CONTENT \<and>
   c_socket (f_conn flow) = c_socket (ov_conn ovr) \<and> c_peer (f_conn flow) = c_peer (ov_conn ovr) \<and>
   \<not> c_is_multicast (f_conn flow) \<and> ec_conn_get_confirmable (f_conn flow) = Some False"
  by (auto simp: notify_pdu_def Let_def ec_pdu_set_payload_def ec_conn_set_confirmable_def ec_conn_copy_def
      ec_conn_get_confirmable_def ec_conn_init_def split: if_splits prod.splits crc.splits option.splits)

lemma base_step_new_empty: "ec_pdu_new_empty s = (p, s') \<Longrightarrow> base_step s s'"
  by (rule ticked_base_step [OF ticked_new_empty])

lemma ec_net_send_to:
  "ec_net_send e h opts o_sz p p_sz sd d w = (C_OK, w') \<Longrightarrow> sd \<noteq> -1 \<and> ec_net_socklen d \<noteq> None"
  by (auto simp: ec_net_send_def split: if_splits option.splits)

lemma post_notify_one:
  assumes "dups_ok e s" and "obs_ok s" and "ov_reps_cb ovr uri (ov_media_type ovr) = Some pl"
  shows "post {} (\<lambda>(rc, ovr', gone, s'). lower e s s' \<and> ob_heap s' = ob_heap s \<and> ob_list s' = ob_list s \<and> \<not> gone \<and>
      (rc = C_ERR \<longrightarrow> ovr' = ovr \<and> w_sent s' = w_sent s) \<and>
      (rc = C_OK \<longrightarrow> (\<exists>d. w_sent s' = w_sent s @ [d] \<and> notified (e_le e) ovr ovr' d)))
    (notify_one e o_cnt uri ovr s)"
proof -
  obtain nfy s1 where n: "ec_pdu_new_empty s = (nfy, s1)" by fastforce
  have nfy: "p_hdr_bits nfy = hdr_zero" "p_sibling nfy = None" using n by (auto simp: ec_pdu_new_empty_def)
  note t1 = ticked_new_empty [OF n]
  show ?thesis
  proof (cases "notify_pdu e o_cnt ovr (Some pl) nfy")
    case None
    with n t1 assms show ?thesis
      by (auto simp: notify_one_def Let_def ticked_lower ticked_keeps base_step_keeps(1,2) [OF ticked_base_step])
  next
    case (Some nf)
    then obtain nfy' flow where nf: "notify_pdu e o_cnt ovr (Some pl) nfy = Some (nfy', flow)" by (cases nf) auto
    note np = notify_pdu_ok [OF nf]
    obtain rc nfy2 s2 where en: "ec_pdu_encode_response_separate e nfy' flow s1 = (rc, nfy2, s2)" by (metis prod_cases3)
    have t2: "ticked s s2" using ticked_trans [OF t1 ticked_encode_separate [OF en]] .
    note k2 = ticked_lower [OF t2 assms(1,2)] ticked_keeps(2) [OF t2] base_step_keeps(2,1) [OF ticked_base_step [OF t2]]
    show ?thesis
    proof (cases rc)
      case C_ERR
      with n nf en k2 assms(3) show ?thesis by (simp add: notify_one_def Let_def)
    next
      case C_OK
      have f: "EC_PDU_MID nfy' = 0" using np nfy by (simp add: hdr_zero_def)
      have er: "encode_response (e_le e) (nfy'\<lparr>p_hdr_bits := (p_hdr_bits nfy')\<lparr>h_mid := e_rng16 e (w_tick s1)\<rparr>\<rparr>) flow
          EC_COAP_NON EC_CONTENT (e_rng16 e (w_tick s1)) = (C_OK, nfy2)"
        using en np f C_OK by (auto simp: ec_pdu_encode_response_separate_def Let_def split: prod.splits)
      note eh = encode_response_header [OF er]
      have d2: "dups_ok e s2" "obs_ok s2" using k2(1) by (simp_all add: lower_def)
      obtain rc3 s3 where sd: "ec_pdu_send e nfy2 flow False s2 = Done (rc3, s3)" "dups_ok e s3"
        "w_sent s3 = w_sent s2 @ (if rc3 = C_OK then [\<lparr>dg_sd = c_socket (f_conn flow), dg_to = ec_pdu_get_peer nfy2 flow,
          dg_bytes = take EC_COAP_HDR_SIZE (p_hdr nfy2) @ gather (Some (enc (p_opts nfy2))) (enc_sz (p_opts nfy2)) @
            gather (p_payload nfy2) (p_payload_sz nfy2)\<rparr>] else [])"
        using ec_pdu_send_ok [OF d2(1), of nfy2 flow False] by blast
      note b3 = base_step_pdu_send [OF sd(1)]
      have l3: "lower e s s3" "ob_heap s3 = ob_heap s" "ob_list s3 = ob_list s"
        using lower_trans [OF k2(1) base_lower [OF b3 sd(2) d2(2)]] base_step_keeps(1,2) [OF b3] k2(3,4) by simp_all
      have hd: "take EC_COAP_HDR_SIZE (p_hdr nfy2) = p_hdr nfy2" using eh by simp
      have mid: "EC_PDU_MID nfy2 = e_rng16 e (w_tick s1)" using eh by simp
      have peer: "ec_pdu_get_peer nfy2 flow = c_peer (ov_conn ovr)" using np by (simp add: ec_pdu_get_peer_def)
      have "(EC_COAP_NON :: byte) AND 3 = EC_COAP_NON" by simp
      with eh have hh: "\<exists>h. header_of (e_le e) (p_hdr nfy2 @ rest) = Some h \<and> h_t h = EC_COAP_NON \<and>
          h_mid h = e_rng16 e (w_tick s1) \<and> h_code h = word_of_int EC_CONTENT" for rest by fastforce
      show ?thesis
        using n nf en C_OK sd k2(2) l3 hh np
        by (cases rc3) (simp_all add: notify_one_def Let_def assms(3) hd mid peer notified_def)
    qed
  qed
qed

text \<open>
  The loop visits the observers in order and may stop at an error: the observers reached were
  notified, the others are as they were.
\<close>

fun all_notified :: "bool \<Rightarrow> ec_observer list \<Rightarrow> ec_observer list \<Rightarrow> datagram list \<Rightarrow> bool" where
  "all_notified le ovrs ovrs' [] \<longleftrightarrow> ovrs' = ovrs"
| "all_notified le (ovr # ovrs) (ovr' # ovrs') (d # ds) \<longleftrightarrow> notified le ovr ovr' d \<and> all_notified le ovrs ovrs' ds"
| "all_notified le _ _ _ \<longleftrightarrow> False"

lemma post_notify_all:
  assumes "dups_ok e s" and "obs_ok s" and "\<forall>ovr \<in> set ovrs. ov_reps_cb ovr uri (ov_media_type ovr) \<noteq> None"
  shows "post {} (\<lambda>(rc, ovrs', s'). lower e s s' \<and> ob_heap s' = ob_heap s \<and> ob_list s' = ob_list s \<and>
      (\<exists>new ds. ovrs' = acc @ new \<and> w_sent s' = w_sent s @ ds \<and> all_notified (e_le e) ovrs new ds \<and>
        (rc = C_OK \<longrightarrow> length ds = length ovrs)))
    (notify_all e o_cnt uri acc ovrs s)"
  using assms
proof (induction ovrs arbitrary: acc s)
  case Nil
  then show ?case by (auto simp: lower_refl intro: exI [of _ "[]"])
next
  case (Cons ovr ovrs)
  obtain pl where pl: "ov_reps_cb ovr uri (ov_media_type ovr) = Some pl" using Cons.prems(3) by auto
  show ?case
    unfolding notify_all.simps
  proof (rule post_cong_bind [OF post_notify_one [OF Cons.prems(1,2) pl]], goal_cases)
    case (1 x)
    obtain rc ovr' gone s1 where x: "x = (rc, ovr', gone, s1)" by (metis prod_cases4)
    show ?case
    proof (cases rc)
      case C_ERR
      with 1 x show ?thesis by (auto intro!: exI [of _ "[]"])
    next
      case C_OK
      with 1 x obtain d where d: "w_sent s1 = w_sent s @ [d]" "notified (e_le e) ovr ovr' d"
        "lower e s s1" "ob_heap s1 = ob_heap s" "\<not> gone" "ob_list s1 = ob_list s" by auto
      then have ok: "dups_ok e s1" "obs_ok s1" by (simp_all add: lower_def)
      have "post {} (\<lambda>(rc, ovrs', s'). lower e s s' \<and> ob_heap s' = ob_heap s \<and> ob_list s' = ob_list s \<and>
          (\<exists>new ds. ovrs' = acc @ new \<and> w_sent s' = w_sent s @ ds \<and> all_notified (e_le e) (ovr # ovrs) new ds \<and>
            (rc = C_OK \<longrightarrow> length ds = length (ovr # ovrs)))) (notify_all e o_cnt uri (acc @ [ovr']) ovrs s1)"
      proof (intro post_mono [OF Cons.IH [OF ok, of "acc @ [ovr']"]])
        show "\<forall>ovr \<in> set ovrs. ov_reps_cb ovr uri (ov_media_type ovr) \<noteq> None" using Cons.prems(3) by simp
        fix y assume "case y of (rc, ovrs', s') \<Rightarrow> lower e s1 s' \<and> ob_heap s' = ob_heap s1 \<and> ob_list s' = ob_list s1 \<and>
          (\<exists>new ds. ovrs' = (acc @ [ovr']) @ new \<and> w_sent s' = w_sent s1 @ ds \<and> all_notified (e_le e) ovrs new ds \<and>
            (rc = C_OK \<longrightarrow> length ds = length ovrs))"
        then obtain rc2 s2 new ds where y: "y = (rc2, acc @ ovr' # new, s2)" "lower e s1 s2" "ob_heap s2 = ob_heap s1"
          "ob_list s2 = ob_list s1" "w_sent s2 = w_sent s1 @ ds" "all_notified (e_le e) ovrs new ds" "rc2 = C_OK \<longrightarrow> length ds = length ovrs"
          by (cases y) auto
        then have "all_notified (e_le e) (ovr # ovrs) (ovr' # new) (d # ds)" "w_sent s2 = w_sent s @ d # ds"
          "rc2 = C_OK \<longrightarrow> length (d # ds) = Suc (length ovrs)" using d by simp_all
        with y d lower_trans [OF d(3) y(2)] show "case y of (rc, ovrs', s') \<Rightarrow> lower e s s' \<and> ob_heap s' = ob_heap s \<and>
          ob_list s' = ob_list s \<and>
          (\<exists>new ds. ovrs' = acc @ new \<and> w_sent s' = w_sent s @ ds \<and> all_notified (e_le e) (ovr # ovrs) new ds \<and>
            (rc = C_OK \<longrightarrow> length ds = length (ovr # ovrs)))"
          unfolding y(1) prod.case by (intro conjI exI [of _ "ovr' # new"] exI [of _ "d # ds"]) simp_all
      qed
      with C_OK d(5) x show ?thesis by simp
    qed
  qed
qed

lemma post_ob_cb:
  assumes "dups_ok e s" and "obs_ok s" and "ob_heap s a = Some ob"
    and "\<forall>ovr \<in> set (ob_observers ob). ov_reps_cb ovr (ob_uri ob) (ov_media_type ovr) \<noteq> None"
  shows "post {} (\<lambda>s'. lower e s s' \<and> ob_list s' = ob_list s \<and> (\<exists>ob' ds. ob_heap s' = (ob_heap s)(a \<mapsto> ob') \<and>
      ob_uri ob' = ob_uri ob \<and> w_sent s' = w_sent s @ ds \<and>
      all_notified (e_le e) (ob_observers ob) (ob_observers ob') ds)) (ec_ob_cb e a s)"
proof -
  define ob1 where "ob1 = ob\<lparr>ob_notify_pending := False\<rparr>"
  define s1 where "s1 = set_obs a (Some ob1) s"
  have l1: "lower e s s1" using set_obs_lower [OF assms(1,2)] assms(3) by (simp add: s1_def)
  then have ok1: "dups_ok e s1" "obs_ok s1" by (simp_all add: lower_def)
  note l2 = ticked_lower [OF ticked_tick ok1]
  then have ok2: "dups_ok e (tick s1)" "obs_ok (tick s1)" by (simp_all add: lower_def)
  have h1: "ob_heap s1 = (ob_heap s)(a \<mapsto> ob1)" "w_sent s1 = w_sent s" "ob_list s1 = ob_list s"
    "ob_heap (tick s1) = ob_heap s1" "ob_list (tick s1) = ob_list s1" by (simp_all add: s1_def tick_def)
  show ?thesis
  proof (cases "e_time e (w_tick s1)")
    case None
    then show ?thesis
      using assms(3) lower_trans [OF l1 l2] h1
      by (simp add: ec_ob_cb_def Let_def ec_get_observe_counter_def s1_def [symmetric] ob1_def [symmetric])
        (intro exI [of _ ob1] exI [of _ "[]"], simp add: ob1_def)
  next
    case (Some now)
    have end_ok: "post {} (\<lambda>s'. lower e s s' \<and> ob_list s' = ob_list s \<and> (\<exists>ob' ds. ob_heap s' = (ob_heap s)(a \<mapsto> ob') \<and>
        ob_uri ob' = ob_uri ob \<and> w_sent s' = w_sent s @ ds \<and> all_notified (e_le e) (ob_observers ob) (ob_observers ob') ds))
        (let s = set_obs a (Some (ob1\<lparr>ob_observers := ovrs\<rparr>)) s3
         in if rc = C_ERR then Done s
            else let drained = (e_junk16 e (w_tick s) \<noteq> 0)
                 in if \<not> drained then run_bind (ec_observation_start_countdown e a s) (\<lambda>(_, s). Done s) else Done s)"
      if l3: "lower e (tick s1) s3" and h3: "ob_heap s3 = ob_heap s1" and ol: "ob_list s3 = ob_list s1"
        and nf: "all_notified (e_le e) (ob_observers ob) ovrs ds" and sent: "w_sent s3 = w_sent s @ ds" for rc ovrs s3 ds
    proof -
      have l: "lower e s s3" using l1 l2 l3 lower_trans by blast
      then have ok3: "dups_ok e s3" "obs_ok s3" by (simp_all add: lower_def)
      have live: "ob_heap s3 a \<noteq> None" using h1 h3 by simp
      have ls: "lower e s (set_obs a (Some x) s3)" for x using lower_trans [OF l set_obs_lower [OF ok3 live]] .
      then have oks: "dups_ok e (set_obs a (Some x) s3)" "obs_ok (set_obs a (Some x) s3)" for x
        unfolding lower_def by blast+
      have lt: "lower e s (tick (set_obs a (Some x) s3))" for x
        using lower_trans [OF ls ticked_lower [OF ticked_tick oks]] .
      then have okt: "dups_ok e (tick (set_obs a (Some x) s3))" "obs_ok (tick (set_obs a (Some x) s3))" for x
        unfolding lower_def by blast+
      have lst: "lower e s (set_obs a (Some y) (tick (set_obs a (Some x) s3)))" for x y
        by (rule lower_trans [OF lt set_obs_lower [OF okt]]) (simp add: tick_def)
      show ?thesis
        using ls lt lst h1 h3 ol nf sent
        by (auto simp: Let_def ec_observation_start_countdown_def tick_def ob1_def intro!: exI [of _ ds])
    qed
    have nfy: "\<forall>ovr \<in> set (ob_observers ob). ov_reps_cb ovr (ob_uri ob) (ov_media_type ovr) \<noteq> None" using assms(4) .
    show ?thesis
      using assms(3) Some
    proof (simp add: ec_ob_cb_def Let_def ec_get_observe_counter_def s1_def [symmetric] ob1_def [symmetric],
        intro post_mono [OF post_notify_all [OF ok2 nfy, of "[]"]], goal_cases)
      case (1 x)
      obtain rc ovrs s3 where x: "x = (rc, ovrs, s3)" by (metis prod_cases3)
      with 1 obtain ds where d: "lower e (tick s1) s3" "ob_heap s3 = ob_heap s1" "ob_list s3 = ob_list s1"
        "w_sent s3 = w_sent s @ ds" "all_notified (e_le e) (ob_observers ob) ovrs ds" using h1 by auto
      from end_ok [OF d(1-3,5,4), of rc] show ?case
        by (cases rc; cases "e_junk16 e (w_tick s3) = 0") (simp_all add: x Let_def ob1_def)
    qed
  qed
qed

subsection \<open>A concrete observation\<close>

definition demo_conn :: ec_conn where
  "demo_conn = ec_conn_init\<lparr>c_socket := 5, c_peer := demo_peer, c_is_confirmable := 1\<rparr>"

definition demo_ovr :: ec_observer where
  "demo_ovr = \<lparr>ov_token = replicate 8 0, ov_token_sz = 0, ov_etag = [0, 0, 0, 0], ov_etag_sz = 0,
     ov_media_type = 0, ov_msg_model = 1, ov_conn = demo_conn, ov_last_mid = 0x77, ov_reps_cb = (\<lambda>_ _. Some [65])\<rparr>"

definition demo_ob :: ec_observation where
  "demo_ob = \<lparr>ob_uri = [47, 97], ob_max_age = 60, ob_observers = [demo_ovr], ob_notify_pending = True\<rparr>"

definition demo_obs :: "(string \<times> nat) list obs_st" where
  "demo_obs = \<lparr>w_tick = 1, w_sent = [], d_map = [], d_recvd = (\<lambda>_. None), d_next = 0,
     ob_list = [0], ob_heap = [0 \<mapsto> demo_ob]\<rparr>"

lemma demo_obs_ok: "dups_ok demo_env demo_obs" "obs_ok demo_obs"
  by (simp_all add: dups_ok_def store_ok_def obs_ok_def demo_obs_def)

lemma demo_obs_sel [simp]: "ob_heap demo_obs = [0 \<mapsto> demo_ob]" "w_sent demo_obs = []"
  by (simp_all add: demo_obs_def)

subsection \<open>Properties\<close>



text \<open>C16: A reset cancels exactly one observation: if some observer has the peer and the MID of
  the last notification, one such observer is removed, with its observation when it was the
  only one; otherwise nothing changes. It never faults.\<close>

theorem rst_cancels_observer:
  assumes "dups_ok e s" and "obs_ok s"
  shows "\<exists>r s'. ec_observe_canceled_by_rst conn mid s = Done (r, s') \<and> obs_ok s' \<and> w_sent s' = w_sent s \<and>
    (r = 0 \<and> s' = s \<and> (\<forall>a ob. ob_heap s a = Some ob \<longrightarrow> ec_observer_search ob conn mid = None) \<or>
     r = 1 \<and> (\<exists>a ob i. ob_heap s a = Some ob \<and> ec_observer_search ob conn mid = Some i \<and> observer_gone a i s s'))"
  using post_canceled_by_rst [OF assms, where conn = conn and mid = mid] unfolding post_Done_iff lower_def by blast

theorem rst_cancels_observer_witness:
  "\<exists>s'. ec_observe_canceled_by_rst demo_conn 0x77 demo_obs = Done (1, s') \<and> ob_heap s' 0 = None \<and> obs_ok s'"
proof -
  have m: "ec_observer_search demo_ob demo_conn 0x77 = Some 0"
    by (simp add: ec_observer_search_def demo_ob_def observer_matches_def ec_source_match_def demo_ovr_def demo_conn_def
        same_addr_def)
  obtain r s' where r: "ec_observe_canceled_by_rst demo_conn 0x77 demo_obs = Done (r, s')" "obs_ok s'"
    "r = 0 \<and> s' = demo_obs \<and> (\<forall>a ob. ob_heap demo_obs a = Some ob \<longrightarrow> ec_observer_search ob demo_conn 0x77 = None) \<or>
     r = 1 \<and> (\<exists>a ob i. ob_heap demo_obs a = Some ob \<and> ec_observer_search ob demo_conn 0x77 = Some i \<and> observer_gone a i demo_obs s')"
    using rst_cancels_observer [OF demo_obs_ok, where conn = demo_conn and mid = "0x77"] by blast
  with m show ?thesis
    by (auto simp: observer_gone_def demo_ob_def split: if_splits)
qed



text \<open>Registering the first observer of a resource with an ETag longer than 8 bytes fails
  after the observation was queued: the record is freed but stays in the queue, and the next
  search for that resource walks into freed memory.\<close>

theorem add_observer_dangling:
  assumes "obs_ok s" and "ec_observation_search (f_urlstr flow) s = Done None"
    and "e_strlcpy e (f_urlstr flow) EC_URI_MAX = (C_OK, u)" and "e_ev_ok e (w_tick s)" and "e_ev_ok e (w_tick s + 1)"
    and "8 < etag_sz"
  shows "\<exists>s'. ec_add_observer e flow cb max_age mt mm etag etag_sz s = Done (C_ERR, s') \<and>
    ec_observation_search (f_urlstr flow) s' = Fault Use_after_free"
proof -
  have live: "\<forall>a \<in> set (ob_list s). ob_heap s a \<noteq> None" using assms(1) by (simp add: obs_ok_def)
  have fresh: "ob_heap s (w_tick s) = None" using obs_ok_fresh [OF assms(1)] by simp
  have walk: "observation_walk (h(n := None)) uri (as @ [n]) = Fault Use_after_free"
    if "observation_walk h uri as = Done None" for h n as uri
    using that by (induction as) (auto split: option.splits if_splits)
  have "ec_observation_add e (f_urlstr flow) max_age s = Done (Some (w_tick s),
    (set_obs (w_tick s) (Some \<lparr>ob_uri = u, ob_max_age = (if max_age \<noteq> 0 then max_age else EC_COAP_DEFAULT_MAX_AGE),
       ob_observers = [], ob_notify_pending = True\<rparr>) (tick (set_obs (w_tick s) (Some \<lparr>ob_uri = u,
         ob_max_age = (if max_age \<noteq> 0 then max_age else EC_COAP_DEFAULT_MAX_AGE), ob_observers = [],
         ob_notify_pending = False\<rparr>) (tick s))))\<lparr>ob_list := ob_list s @ [w_tick s]\<rparr>)"
    using assms(3-5)
    by (simp add: ec_observation_add_def ec_observation_new_def ec_observation_start_countdown_def) (simp add: tick_def set_obs_def)
  then show ?thesis
    using assms(2,6) fresh walk [of "ob_heap s" "f_urlstr flow" "ob_list s" "w_tick s"]
    by (simp add: ec_add_observer_def ec_observer_add_def ec_observer_new_def ec_observation_free_def
        ec_observation_search_def) (simp add: set_obs_def tick_def)
qed

theorem add_observer_dangling_witness:
  "\<exists>s'. ec_add_observer demo_env ec_flow_init (\<lambda>_ _. None) 0 0 1 (Some (replicate 9 1)) 9 demo_obs = Done (C_ERR, s') \<and>
    ec_observation_search [] s' = Fault Use_after_free"
  using add_observer_dangling [OF demo_obs_ok(2), of ec_flow_init demo_env "[]" 9]
  by (simp add: ec_observation_search_def ec_flow_init_def demo_obs_def demo_ob_def strcasecmp_eq_def
      demo_env_def demo_strlcpy_def)

subsection \<open>Where notifications go wrong\<close>

text \<open>An ETag of 5 to 8 bytes passes the size check and overflows its array.\<close>

lemma observer_etag_overflow:
  "tok_sz \<le> 8 \<Longrightarrow> EC_ETAG_SZ < etag_sz \<Longrightarrow> etag_sz \<le> 8 \<Longrightarrow>
   ec_observer_new tok tok_sz (Some et) etag_sz mt mm conn cb = Fault Overwrite"
  by (simp add: ec_observer_new_def)

text \<open>Telling an observer that its resource is gone frees the observer the loop is at.\<close>

lemma notify_deleted_resource:
  "notify_one e o_cnt uri ovr s = Done (C_OK, ovr', True, s') \<Longrightarrow>
   notify_all e o_cnt uri acc (ovr # ovrs) s = Fault Use_after_free"
  by simp

text \<open>A GET of an observed resource from a stranger reports a cancellation that did not happen.\<close>

lemma get_cancels_nothing:
  "f_method flow = EC_COAP_GET \<Longrightarrow> ec_observation_search (f_urlstr flow) s = Done (Some a) \<Longrightarrow>
   ob_heap s a = Some ob \<Longrightarrow> ec_observer_search ob (f_conn flow) 0 = None \<Longrightarrow>
   ec_observe_canceled_by_get flow s = Done (1, s)"
  by (simp add: ec_observe_canceled_by_get_def)

end
