(* ===== verification/Srv_Spec.thy ===== *)
theory Srv_Spec
  imports Srv_Engine Obs_Spec
begin

text \<open>
  The server engine: the invariant that holds between two events, what each event may do to
  it, and the reachable states of the engine.
\<close>

subsection \<open>The invariant\<close>

text \<open>Callbacks register observers with an ETag that fits.\<close>

fun call_ok :: "user_call \<Rightarrow> bool" where
  "call_ok (U_add_observer cb ma mt mm et l) \<longleftrightarrow> (et = None \<and> l \<le> 8 \<or> l \<le> 4)"
| "call_ok _ \<longleftrightarrow> True"

definition cb_ok :: "server_cb \<Rightarrow> bool" where
  "cb_ok f \<longleftrightarrow> (\<forall>flow req res r. list_all call_ok (snd (snd (f flow req res r))))"

definition cbs_ok :: "('m, 'z) srv_st_scheme \<Rightarrow> bool" where
  "cbs_ok s \<longleftrightarrow> (\<forall>r \<in> set (resources s). cb_ok (rc_cb r)) \<and> (\<forall>f. fallback s = Some f \<longrightarrow> cb_ok f) \<and>
     (\<forall>p \<in> set (sv_packs s). cb_ok (snd p))"

text \<open>The retransmission timer exists only where the state machine uses it.\<close>

definition timer_ok :: "ec_server \<Rightarrow> bool" where
  "timer_ok srv \<longleftrightarrow>
     (sv_state srv \<in> {EC_SRV_STATE_NONE, EC_SRV_STATE_REQ_OK, EC_SRV_STATE_ACK_SENT} \<longrightarrow> evti (sv_t_coap srv) = None) \<and>
     (sv_state srv = EC_SRV_STATE_COAP_RETRY \<longrightarrow> evti (sv_t_coap srv) \<noteq> None)"

definition srv_ok :: "bool \<Rightarrow> ec_server \<Rightarrow> bool" where
  "srv_ok listed srv \<longleftrightarrow> sv_parent srv = listed \<and> f_token_sz (sv_flow srv) \<le> 8 \<and> timer_ok srv"

definition at_rest :: "ec_server \<Rightarrow> bool" where
  "at_rest srv \<longleftrightarrow> sv_parent srv \<and> sv_state srv \<in> {EC_SRV_STATE_ACK_SENT, EC_SRV_STATE_WAIT_ACK}"

text \<open>
  The queue holds exactly the transactions that are waiting; \<open>X\<close> are those being processed.
\<close>

definition srvs_ok :: "nat set \<Rightarrow> ('m, 'z) srv_st_scheme \<Rightarrow> bool" where
  "srvs_ok X s \<longleftrightarrow> distinct (sv_list s) \<and> (\<forall>a \<in> set (sv_list s). sv_heap s a \<noteq> None) \<and>
     (\<forall>a srv. sv_heap s a = Some srv \<longrightarrow>
        a < w_tick s \<and> srv_ok (a \<in> set (sv_list s)) srv \<and> (a \<notin> X \<longrightarrow> at_rest srv))"

definition engine_ok :: "'m env \<Rightarrow> nat set \<Rightarrow> ('m, 'z) srv_st_scheme \<Rightarrow> bool" where
  "engine_ok e X s \<longleftrightarrow> dups_ok e s \<and> obs_ok s \<and> srvs_ok X s \<and> cbs_ok s"

text \<open>The transaction at \<open>a\<close> is being processed, in state \<open>st\<close> and listed or not.\<close>

definition busy :: "'m env \<Rightarrow> nat \<Rightarrow> bool \<Rightarrow> ec_srv_state \<Rightarrow> ('m, 'z) srv_st_scheme \<Rightarrow> bool" where
  "busy e a l st s \<longleftrightarrow> engine_ok e {a} s \<and> (\<exists>srv. sv_heap s a = Some srv \<and> sv_state srv = st \<and> sv_parent srv = l)"

lemma obs_step_keeps:
  assumes "obs_step s s'"
  shows "sv_list s' = sv_list s" and "sv_heap s' = sv_heap s" and "sv_packs s' = sv_packs s"
    and "resources s' = resources s" and "fallback s' = fallback s" and "s_cfg s' = s_cfg s" and "w_tick s \<le> w_tick s'"
proof -
  from assms have s: "s' = s\<lparr>w_tick := w_tick s', w_sent := w_sent s', d_map := d_map s', d_recvd := d_recvd s', d_next := d_next s',
       ob_list := ob_list s', ob_heap := ob_heap s'\<rparr>" unfolding obs_step_def by blast
  show "sv_list s' = sv_list s" "sv_heap s' = sv_heap s" "sv_packs s' = sv_packs s"
    "resources s' = resources s" "fallback s' = fallback s" "s_cfg s' = s_cfg s" by (subst s, simp)+
  show "w_tick s \<le> w_tick s'" using assms unfolding obs_step_def by blast
qed

lemmas lower_keeps = obs_step_keeps [OF lower_def [THEN iffD1, THEN conjunct1]]

lemma lower_inv: assumes "lower e s s'" and "engine_ok e X s" shows "engine_ok e X s'"
proof -
  note k = lower_keeps [OF assms(1)]
  have "srvs_ok X s'" using assms(2) k unfolding engine_ok_def srvs_ok_def by fastforce
  with assms k show ?thesis unfolding engine_ok_def lower_def cbs_ok_def by simp
qed

lemma lower_busy: assumes "lower e s s'" and "busy e a l st s" shows "busy e a l st s'"
  using lower_inv [OF assms(1)] lower_keeps(2) [OF assms(1)] assms(2) by (simp add: busy_def)

lemma inv_parts: "engine_ok e X s \<Longrightarrow> dups_ok e s" "engine_ok e X s \<Longrightarrow> obs_ok s" "engine_ok e X s \<Longrightarrow> srvs_ok X s" "engine_ok e X s \<Longrightarrow> cbs_ok s"
  by (simp_all add: engine_ok_def)

lemma busy_parts: "busy e a l st s \<Longrightarrow> dups_ok e s" "busy e a l st s \<Longrightarrow> obs_ok s"
  by (simp_all add: busy_def engine_ok_def)

lemma busy_ticked: "ticked s s' \<Longrightarrow> busy e a l st s \<Longrightarrow> busy e a l st s'"
  using ticked_lower [of s s' e] busy_parts lower_busy by blast

lemma inv_ticked: "ticked s s' \<Longrightarrow> engine_ok e X s \<Longrightarrow> engine_ok e X s'"
  using ticked_lower [of s s' e] inv_parts lower_inv by blast

lemma busyE:
  assumes "busy e a l st s"
  obtains srv where "sv_heap s a = Some srv" "sv_state srv = st" "sv_parent srv = l" "f_token_sz (sv_flow srv) \<le> 8"
    "timer_ok srv" "engine_ok e {a} s" "get_srv a s = Done srv"
proof -
  from assms obtain srv where s: "sv_heap s a = Some srv" "sv_state srv = st" "sv_parent srv = l" "engine_ok e {a} s"
    unfolding busy_def by blast
  then have "srv_ok (a \<in> set (sv_list s)) srv" unfolding engine_ok_def srvs_ok_def by blast
  with s that show ?thesis by (simp add: srv_ok_def get_srv_def)
qed

lemma put_srv_sel [simp]:
  "sv_heap (put_srv a srv s) = (sv_heap s)(a \<mapsto> srv)" "sv_list (put_srv a srv s) = sv_list s"
  "w_tick (put_srv a srv s) = w_tick s" "w_sent (put_srv a srv s) = w_sent s" "sv_packs (put_srv a srv s) = sv_packs s"
  "resources (put_srv a srv s) = resources s" "fallback (put_srv a srv s) = fallback s" "s_cfg (put_srv a srv s) = s_cfg s"
  "ob_list (put_srv a srv s) = ob_list s" "ob_heap (put_srv a srv s) = ob_heap s"
  "dups_ok e (put_srv a srv s) = dups_ok e s" "obs_ok (put_srv a srv s) = obs_ok s" "cbs_ok (put_srv a srv s) = cbs_ok s"
  by (simp_all add: put_srv_def dups_ok_def obs_ok_def cbs_ok_def)

lemma inv_put:
  assumes "engine_ok e X s" and "a \<in> X" and "sv_heap s a = Some srv" and "sv_parent srv' = sv_parent srv"
    and "f_token_sz (sv_flow srv') \<le> 8" and "timer_ok srv'"
  shows "engine_ok e X (put_srv a srv' s)"
proof -
  have "srvs_ok X s" using assms(1) by (simp add: engine_ok_def)
  then have "srvs_ok X (put_srv a srv' s)"
    using assms(2-6) unfolding srvs_ok_def srv_ok_def by auto
  with assms(1) show ?thesis by (simp add: engine_ok_def)
qed

lemma busy_put:
  assumes "busy e a l st s" and "sv_parent srv' = l" and "sv_state srv' = st'"
    and "f_token_sz (sv_flow srv') \<le> 8" and "timer_ok srv'"
  shows "busy e a l st' (put_srv a srv' s)"
proof -
  from assms(1) obtain srv where "sv_heap s a = Some srv" "sv_parent srv = l" "engine_ok e {a} s" unfolding busy_def by blast
  then have "engine_ok e {a} (put_srv a srv' s)" using assms by (intro inv_put [of e "{a}" s a srv]) simp_all
  with assms show ?thesis by (simp add: busy_def)
qed

text \<open>A processed transaction that is back to waiting.\<close>

lemma busy_rest:
  assumes "busy e a True st s" and "st \<in> {EC_SRV_STATE_ACK_SENT, EC_SRV_STATE_WAIT_ACK}"
  shows "engine_ok e {} s"
proof -
  from assms obtain srv where "sv_heap s a = Some srv" "at_rest srv" "engine_ok e {a} s"
    unfolding busy_def at_rest_def by blast
  then show ?thesis unfolding engine_ok_def srvs_ok_def by (metis empty_iff option.inject singletonD)
qed

lemma rest_busy:
  assumes "engine_ok e {} s" and "sv_heap s a = Some srv"
  shows "busy e a True (sv_state srv) s" and "sv_state srv \<in> {EC_SRV_STATE_ACK_SENT, EC_SRV_STATE_WAIT_ACK}"
proof -
  from assms have "at_rest srv" "srvs_ok {a} s" unfolding engine_ok_def srvs_ok_def by auto
  with assms show "busy e a True (sv_state srv) s" "sv_state srv \<in> {EC_SRV_STATE_ACK_SENT, EC_SRV_STATE_WAIT_ACK}"
    by (auto simp: busy_def engine_ok_def at_rest_def)
qed

lemma inv_free:
  assumes "engine_ok e {a} s" and "sv_heap s a = Some srv"
  shows "engine_ok e {} (ec_server_free a srv s)"
proof -
  have w: "srvs_ok {a} s" using assms(1) by (simp add: engine_ok_def)
  with assms(2) have p: "sv_parent srv \<longleftrightarrow> a \<in> set (sv_list s)" "distinct (sv_list s)"
    unfolding srvs_ok_def srv_ok_def by auto
  then have "srvs_ok {} (ec_server_free a srv s)"
    using w unfolding srvs_ok_def by (auto simp: ec_server_free_def)
  moreover have "dups_ok e (ec_server_free a srv s)" "obs_ok (ec_server_free a srv s)" "cbs_ok (ec_server_free a srv s)"
    using assms(1) by (simp_all add: engine_ok_def dups_ok_def obs_ok_def cbs_ok_def ec_server_free_def)
  ultimately show ?thesis by (simp add: engine_ok_def)
qed

subsection \<open>Changing state\<close>

lemma timer_start_srv:
  "ec_srv_start_coap_timer e srv s = (rc, srv', s') \<Longrightarrow>
   ticked s s' \<and> sv_parent srv' = sv_parent srv \<and> sv_flow srv' = sv_flow srv"
  by (auto simp: ec_srv_start_coap_timer_def split: prod.splits dest: ticked_timer_start)

lemma timer_restart_srv:
  assumes "evti (sv_t_coap srv) \<noteq> None"
  shows "post {} (\<lambda>(rc, srv', s'). ticked s s' \<and> sv_parent srv' = sv_parent srv \<and> sv_flow srv' = sv_flow srv)
    (ec_srv_restart_coap_timer e srv s)"
  using assms by (auto simp: ec_srv_restart_coap_timer_def ec_timer_restart_def Let_def)

lemma post_state_timers:
  assumes "timer_ok srv"
  shows "post {} (\<lambda>(srv', s'). ticked s s' \<and> sv_parent srv' = sv_parent srv \<and>
      f_token_sz (sv_flow srv') = f_token_sz (sv_flow srv) \<and> (st \<noteq> EC_SRV_STATE_WAIT_ACK \<longrightarrow> srv' = srv \<and> s' = s))
    (srv_state_timers e st srv s)"
proof (cases "st = EC_SRV_STATE_WAIT_ACK \<and> sv_state srv = EC_SRV_STATE_COAP_RETRY")
  case True
  then have "evti (sv_t_coap srv) \<noteq> None" using assms by (simp add: timer_ok_def)
  from True show ?thesis
    by (auto simp: srv_state_timers_def intro!: post_mono [OF timer_restart_srv [OF \<open>evti (sv_t_coap srv) \<noteq> None\<close>]])
next
  case False
  then show ?thesis
    by (auto simp: srv_state_timers_def ec_flow_set_separate_def split: prod.split dest!: timer_start_srv)
qed

lemma post_set_state:
  assumes b: "busy e a l st s" and t: "ec_server_check_transition st st' = C_OK"
    and k: "\<And>srv. sv_heap s a = Some srv \<Longrightarrow> ec_server_state_is_final st' \<or> timer_ok (srv\<lparr>sv_state := st'\<rparr>)"
  shows "post {} (\<lambda>s'. if ec_server_state_is_final st' then engine_ok e {} s' \<and> sv_heap s' a = None else busy e a l st' s')
    (ec_server_set_state e a st' s)"
proof -
  obtain srv where s: "sv_heap s a = Some srv" "sv_state srv = st" "sv_parent srv = l" "f_token_sz (sv_flow srv) \<le> 8"
    "timer_ok srv" "engine_ok e {a} s" "get_srv a s = Done srv" using busyE [OF b] by blast
  show ?thesis
    unfolding ec_server_set_state_def s(7) run_bind.simps s(2) t
  proof (simp only: crc.simps if_False, rule post_cong_bind [OF post_state_timers [OF s(5)]], goal_cases)
    case (1 x)
    obtain srv' s' where x: "x = (srv', s')" by fastforce
    with 1 have p: "ticked s s'" "sv_parent srv' = l" "f_token_sz (sv_flow srv') \<le> 8"
      "st' \<noteq> EC_SRV_STATE_WAIT_ACK \<longrightarrow> srv' = srv \<and> s' = s" using s by auto
    have b': "busy e a l st s'" by (rule busy_ticked [OF p(1) b])
    then obtain srv0 where h: "sv_heap s' a = Some srv0" "sv_parent srv0 = l" "engine_ok e {a} s'" by (rule busyE)
    show ?case
    proof (cases "ec_server_state_is_final st'")
      case True
      have w: "st' \<noteq> EC_SRV_STATE_WAIT_ACK" using True by (auto simp: ec_server_state_is_final_def)
      let ?srv = "ec_srv_stop_coap_timer (srv'\<lparr>sv_state := st'\<rparr>)"
      have "ec_server_free a ?srv s' = ec_server_free a srv0 s'"
        using h(2) p(2) by (simp add: ec_server_free_def ec_srv_stop_coap_timer_def)
      with inv_free [OF h(3,1)] have "engine_ok e {} (ec_server_free a ?srv s')" by simp
      with True show ?thesis by (simp add: x Let_def ec_server_free_def)
    next
      case False
      have "timer_ok (srv'\<lparr>sv_state := st'\<rparr>)"
        using k [OF s(1)] False p(4) by (cases "st' = EC_SRV_STATE_WAIT_ACK") (auto simp: timer_ok_def)
      with False p busy_put [OF b', of "srv'\<lparr>sv_state := st'\<rparr>" st'] show ?thesis by (simp add: x Let_def)
    qed
  qed
qed

lemma post_finish:
  assumes "busy e a l st s" and "ec_server_check_transition st st' = C_OK" and "ec_server_state_is_final st'"
  shows "post {} (\<lambda>s'. engine_ok e {} s' \<and> sv_heap s' a = None) (ec_server_set_state e a st' s)"
  using post_set_state [OF assms(1,2)] assms(3) by simp

lemma post_internal_err:
  assumes "busy e a l st s"
  shows "post {} (\<lambda>s'. engine_ok e {} s' \<and> sv_heap s' a = None) (ec_server_set_state e a EC_SRV_STATE_INTERNAL_ERR s)"
  by (rule post_finish [OF assms]) (simp_all add: ec_server_state_is_final_def)

subsection \<open>Responding\<close>

lemma ticked_encode_resp: "encode_resp e srv res s = (rc, res', s') \<Longrightarrow> ticked s s'"
  by (auto simp: encode_resp_def Let_def split: prod.splits crc.splits if_splits option.splits
      dest: ticked_encode_separate)

lemma post_send:
  assumes "busy e a l st s"
  shows "post {} (\<lambda>(rc, s'). busy e a l st s') (ec_pdu_send e pdu flow d s)"
proof (rule post_mono [OF post_pdu_send [OF busy_parts(1) [OF assms]]])
  fix x assume "case x of (rc, s') \<Rightarrow> base_step s s' \<and> dups_ok e s'"
  then show "case x of (rc, s') \<Rightarrow> busy e a l st s'"
    using lower_busy [OF base_lower [OF _ _ busy_parts(2) [OF assms]] assms] by auto
qed

lemma busy_same_srv:
  assumes "busy e a l st s" and "sv_heap s a = Some srv" and "sv_parent srv' = sv_parent srv"
    and "sv_state srv' = sv_state srv" and "sv_t_coap srv' = sv_t_coap srv" and "f_token_sz (sv_flow srv') = f_token_sz (sv_flow srv)"
  shows "busy e a l st (put_srv a srv' s)"
  by (rule busyE [OF assms(1)], rule busy_put [OF assms(1)]) (use assms(2-6) in \<open>auto simp: timer_ok_def\<close>)

lemma post_send_resp:
  assumes "busy e a l st s"
  shows "post {} (\<lambda>(rc, s'). busy e a l st s') (ec_server_send_resp e a s)"
proof -
  obtain srv where s: "sv_heap s a = Some srv" "get_srv a s = Done srv" using busyE [OF assms] by blast
  show ?thesis
  proof (cases "sv_res srv")
    case None
    with s assms show ?thesis by (simp add: ec_server_send_resp_def)
  next
    case (Some res)
    obtain rc res' s' where e: "encode_resp e srv res s = (rc, res', s')" by (metis prod_cases3)
    have b: "busy e a l st s'" by (rule busy_ticked [OF ticked_encode_resp [OF e] assms])
    have "sv_heap s' a = Some srv"
      using s(1) lower_keeps(2) [OF ticked_lower [OF ticked_encode_resp [OF e] busy_parts [OF assms]]] by simp
    then have b': "busy e a l st (put_srv a (srv\<lparr>sv_res := Some res'\<rparr>) s')"
      by (rule busy_same_srv [OF b]) simp_all
    then show ?thesis
      using post_send [OF b'] by (simp add: ec_server_send_resp_def s(2) Some e Let_def)
  qed
qed

lemma heap_ticked:
  assumes "ticked s s'" and "busy e a l st s" shows "sv_heap s' = sv_heap s"
  using lower_keeps(2) [OF ticked_lower [OF assms(1) busy_parts [OF assms(2)]]] .

lemma post_separate_ack:
  assumes "busy e a l st s"
  shows "post {} (\<lambda>(rc, s'). busy e a l st s') (ec_server_send_separate_ack e a s)"
proof -
  obtain srv where s: "sv_heap s a = Some srv" "get_srv a s = Done srv" using busyE [OF assms] by blast
  obtain ack s1 where n: "ec_pdu_new_empty s = (ack, s1)" by fastforce
  have b1: "busy e a l st s1" by (rule busy_ticked [OF ticked_new_empty [OF n] assms])
  have "post {} (\<lambda>(rc, s'). busy e a l st s') (run_bind (ec_pdu_send e p (sv_flow srv) True s1) (\<lambda>(rc, s).
          if rc = C_ERR then Done (C_ERR, s) else Done (C_OK, put_srv a (srv\<lparr>sv_octrl := Some p\<rparr>) s)))" for p
  proof (rule post_cong_bind [OF post_conj [OF post_send [OF b1] post_pdu_send [OF busy_parts(1) [OF b1]]]], goal_cases)
    case (1 x)
    obtain rc s2 where x: "x = (rc, s2)" by fastforce
    with 1 have b2: "busy e a l st s2" "base_step s1 s2" "dups_ok e s2" by auto
    have "sv_heap s2 a = Some srv"
      using lower_keeps(2) [OF base_lower [OF b2(2,3) busy_parts(2) [OF b1]]] heap_ticked [OF ticked_new_empty [OF n] assms] s(1)
      by simp
    then have "busy e a l st (put_srv a (srv\<lparr>sv_octrl := Some p\<rparr>) s2)" by (rule busy_same_srv [OF b2(1)]) simp_all
    with x b2(1) show ?case by simp
  qed
  then show ?thesis
    using assms b1 by (auto simp: ec_server_send_separate_ack_def s(2) n split: option.split prod.split crc.split)
qed

lemma post_reply:
  assumes "busy e a l st s"
  shows "post {} (\<lambda>(rc, s'). busy e a l st s') (ec_server_reply e a c pl pl_sz s)"
proof -
  obtain srv where s: "sv_heap s a = Some srv" "get_srv a s = Done srv" using busyE [OF assms] by blast
  have b: "busy e a l st (put_srv a srv' s)"
    if "sv_parent srv' = sv_parent srv" "sv_state srv' = sv_state srv" "sv_t_coap srv' = sv_t_coap srv"
      "f_token_sz (sv_flow srv') = f_token_sz (sv_flow srv)" for srv'
    by (rule busy_same_srv [OF assms s(1) that])
  show ?thesis
    unfolding ec_server_reply_def s(2) run_bind.simps ec_flow_set_resp_code_def
    using assms
    by (auto simp: Let_def split: option.split prod.split crc.split intro!: b post_send_resp split: if_splits)
qed

subsection \<open>Callbacks\<close>

lemmas response_setters =
  ec_response_add_max_age_def ec_response_add_observe_def ec_response_add_block1_def
  ec_response_add_block2_def ec_response_add_block_def ec_response_add_etag_def ec_response_add_content_type_def
  ec_response_add_location_path_def ec_response_add_location_query_def

lemma on_res_opts_snd:
  "sv_parent (snd (on_res_opts srv f)) = sv_parent srv" "sv_state (snd (on_res_opts srv f)) = sv_state srv"
  "sv_t_coap (snd (on_res_opts srv f)) = sv_t_coap srv" "sv_flow (snd (on_res_opts srv f)) = sv_flow srv"
  by (simp_all add: on_res_opts_def split: option.split prod.split)

lemma set_code_snd:
  "sv_parent (snd (ec_response_set_code srv c)) = sv_parent srv \<and> sv_state (snd (ec_response_set_code srv c)) = sv_state srv \<and>
   sv_t_coap (snd (ec_response_set_code srv c)) = sv_t_coap srv \<and>
   f_token_sz (sv_flow (snd (ec_response_set_code srv c))) = f_token_sz (sv_flow srv)"
  by (simp add: ec_response_set_code_def ec_flow_set_resp_code_def)

lemma set_payload_snd:
  "sv_parent (snd (ec_response_set_payload e srv p n)) = sv_parent srv \<and> sv_state (snd (ec_response_set_payload e srv p n)) = sv_state srv \<and>
   sv_t_coap (snd (ec_response_set_payload e srv p n)) = sv_t_coap srv \<and>
   sv_flow (snd (ec_response_set_payload e srv p n)) = sv_flow srv"
  by (simp add: ec_response_set_payload_def split: option.split prod.split)

lemma user_call_srv_keeps:
  "sv_parent (user_call_srv e c srv) = sv_parent srv \<and> sv_state (user_call_srv e c srv) = sv_state srv \<and>
   sv_t_coap (user_call_srv e c srv) = sv_t_coap srv \<and>
   f_token_sz (sv_flow (user_call_srv e c srv)) = f_token_sz (sv_flow srv)"
  by (cases c) (simp_all only: user_call_srv.simps response_setters on_res_opts_snd set_code_snd set_payload_snd simp_thms)

lemma post_user_call:
  assumes "busy e a l st s" and "call_ok c"
  shows "post {} (busy e a l st) (apply_user_call e a c s)"
proof -
  obtain srv where s: "sv_heap s a = Some srv" "get_srv a s = Done srv" "f_token_sz (sv_flow srv) \<le> 8"
    using busyE [OF assms(1)] by blast
  note ok = busy_parts [OF assms(1)]
  have b: "busy e a l st (put_srv a (user_call_srv e c srv) s)"
    using busy_same_srv [OF assms(1) s(1)] user_call_srv_keeps [of e c srv] by blast
  show ?thesis
  proof (cases c)
    case (U_add_observer cb ma mt mm et n)
    with assms(2) have et: "et = None \<and> n \<le> 8 \<or> n \<le> 4" by simp
    show ?thesis
      unfolding U_add_observer apply_user_call_def s(2) run_bind.simps user_call.case
      by (rule post_cong_bind [OF post_add_observer [OF ok s(3) et]]) (auto intro: lower_busy [OF _ assms(1)])
  next
    case U_rem_observer
    show ?thesis
      unfolding U_rem_observer apply_user_call_def s(2) run_bind.simps user_call.case
      by (rule post_cong_bind [OF post_rem_observer [OF ok]]) (auto intro: lower_busy [OF _ assms(1)])
  qed (use b in \<open>simp_all add: apply_user_call_def s(2)\<close>)
qed

lemma post_user_calls:
  "busy e a l st s \<Longrightarrow> list_all call_ok cs \<Longrightarrow> post {} (busy e a l st) (apply_user_calls e a cs s)"
proof (induction cs arbitrary: s)
  case Nil
  then show ?case by simp
next
  case (Cons c cs)
  then have "post {} (busy e a l st) (apply_user_call e a c s)" by (simp add: post_user_call)
  then show ?case
    unfolding apply_user_calls.simps by (rule post_cong_bind) (use Cons in simp)
qed

text \<open>The result of an operation that may fail: done with the transaction, or still processing it.\<close>

definition settled :: "'m env \<Rightarrow> nat \<Rightarrow> crc \<times> ('m, 'z) srv_st_scheme \<Rightarrow> bool" where
  "settled e a x \<longleftrightarrow> (if fst x = C_OK then engine_ok e {} (snd x) else \<exists>l st. busy e a l st (snd x))"

lemma transition_simps [fsm_simps]:
  "ec_server_check_transition EC_SRV_STATE_ACK_SENT EC_SRV_STATE_WAIT_ACK = C_OK"
  "ec_server_check_transition EC_SRV_STATE_ACK_SENT EC_SRV_STATE_RESP_DONE = C_OK"
  "ec_server_check_transition EC_SRV_STATE_REQ_OK EC_SRV_STATE_RESP_DONE = C_OK"
  by simp_all

lemma post_ready:
  assumes "busy e a l st s" and "l = (st \<noteq> EC_SRV_STATE_REQ_OK)"
  shows "post {} (settled e a) (ec_server_ready e a is_con s)"
proof -
  obtain srv where s: "sv_heap s a = Some srv" "get_srv a s = Done srv" "sv_state srv = st" using busyE [OF assms(1)] by blast
  show ?thesis
  proof (cases "st = EC_SRV_STATE_ACK_SENT \<or> st = EC_SRV_STATE_REQ_OK")
    case False
    with assms s show ?thesis by (auto simp: ec_server_ready_def settled_def)
  next
    case True
    have step: "post {} (settled e a) (run_bind (get_srv a s1) (\<lambda>srv.
             run_bind (ec_server_set_state e a
               (if is_con \<and> sv_state srv = EC_SRV_STATE_ACK_SENT then EC_SRV_STATE_WAIT_ACK
                else EC_SRV_STATE_RESP_DONE) s1) (\<lambda>s. Done (C_OK, s))))" if b: "busy e a l st s1" for s1
    proof -
      obtain srv1 where g: "get_srv a s1 = Done srv1" "sv_state srv1 = st" using busyE [OF b] by blast
      show ?thesis
      proof (cases "is_con \<and> st = EC_SRV_STATE_ACK_SENT")
        case True
        with b assms(2) post_set_state [of e a l st s1 EC_SRV_STATE_WAIT_ACK]
        have "post {} (busy e a True EC_SRV_STATE_WAIT_ACK) (ec_server_set_state e a EC_SRV_STATE_WAIT_ACK s1)"
          by (simp add: ec_server_state_is_final_def timer_ok_def)
        with True g show ?thesis by (auto simp: settled_def elim!: post_mono intro: busy_rest)
      next
        case False
        have "post {} (\<lambda>s'. engine_ok e {} s' \<and> sv_heap s' a = None) (ec_server_set_state e a EC_SRV_STATE_RESP_DONE s1)"
          by (rule post_finish [OF b]) (use \<open>st = _ \<or> st = _\<close> in \<open>auto simp: ec_server_state_is_final_def\<close>)
        with False g show ?thesis by (auto simp: settled_def elim!: post_mono)
      qed
    qed
    have "post {} (settled e a) (run_bind (ec_server_send_resp e a s) (\<lambda>(rc, s).
           if rc = C_ERR then Done (C_ERR, s)
           else run_bind (get_srv a s) (\<lambda>srv.
             run_bind (ec_server_set_state e a
               (if is_con \<and> sv_state srv = EC_SRV_STATE_ACK_SENT then EC_SRV_STATE_WAIT_ACK
                else EC_SRV_STATE_RESP_DONE) s) (\<lambda>s. Done (C_OK, s)))))"
      by (rule post_bind_err [OF post_send_resp [OF assms(1)]]) (use step in \<open>auto simp only: settled_def prod.case fst_conv snd_conv crc.simps if_False\<close>)
    with True s show ?thesis by (simp add: ec_server_ready_def)
  qed
qed

lemma busy_packs:
  assumes "busy e a l st s" and "\<forall>p \<in> set ps. cb_ok (snd p)"
  shows "busy e a l st (s\<lparr>sv_packs := sv_packs s @ ps\<rparr>)"
  using assms by (auto simp: busy_def engine_ok_def srvs_ok_def cbs_ok_def dups_ok_def obs_ok_def)

lemma post_reschedule:
  assumes "busy e a l st s" and "cb_ok f"
  shows "post {} (\<lambda>(rc, s'). busy e a l st s') (ec_server_reschedule_userfn e f a tv s)"
proof -
  obtain srv where s: "sv_heap s a = Some srv" "get_srv a s = Done srv" using busyE [OF assms(1)] by blast
  obtain rc ti s1 where t: "ec_timer_start e ((sv_t_resched srv)\<lparr>tout := tv\<rparr>) 1 s = (rc, ti, s1)" by (metis prod_cases3)
  note ti = ticked_timer_start [OF t]
  have b: "busy e a l st (put_srv a (srv\<lparr>sv_t_resched := ti\<rparr>) s1)"
    by (rule busy_same_srv [OF busy_ticked [OF ti assms(1)]]) (use s(1) heap_ticked [OF ti assms(1)] in simp_all)
  with busy_packs [OF b, of "[(a, f)]"] assms(2) show ?thesis
    by (simp add: ec_server_reschedule_userfn_def s(2) t [simplified] Let_def)
qed

text \<open>A transaction enters the queue while it is being processed.\<close>

lemma busy_add:
  assumes "busy e a False st s" and "sv_heap s a = Some srv"
  shows "busy e a True st (ec_server_add a srv s)"
proof -
  obtain srv0 where s: "sv_heap s a = Some srv0" "sv_state srv0 = st" "sv_parent srv0 = False" "f_token_sz (sv_flow srv0) \<le> 8"
    "timer_ok srv0" "engine_ok e {a} s" "get_srv a s = Done srv0" by (rule busyE [OF assms(1)])
  have eq: "srv0 = srv" using s(1) assms(2) by simp
  have w: "srvs_ok {a} s" using s(6) by (simp add: engine_ok_def)
  then have n: "a \<notin> set (sv_list s)" using s(1,3) unfolding srvs_ok_def srv_ok_def by blast
  have "srvs_ok {a} (ec_server_add a srv s)"
    using w n s(1,4,5) eq unfolding srvs_ok_def by (auto simp: ec_server_add_def srv_ok_def put_srv_def timer_ok_def)
  moreover have "dups_ok e (ec_server_add a srv s)" "obs_ok (ec_server_add a srv s)" "cbs_ok (ec_server_add a srv s)"
    using s(6) by (simp_all add: engine_ok_def ec_server_add_def dups_ok_def obs_ok_def cbs_ok_def put_srv_def)
  ultimately show ?thesis
    using s(2) eq by (simp add: busy_def engine_ok_def ec_server_add_def)
qed

text \<open>The code and what is left of the transaction.\<close>

definition handled :: "'m env \<Rightarrow> nat \<Rightarrow> ec_srv_state \<Rightarrow> crc \<times> ('m, 'z) srv_st_scheme \<Rightarrow> bool" where
  "handled e a st x \<longleftrightarrow> (if fst x = C_OK then busy e a True st (snd x) else \<exists>l st. busy e a l st (snd x))"

lemma post_wait:
  assumes "busy e a False EC_SRV_STATE_REQ_OK s" and "cb_ok f"
  shows "post {} (settled e a) (srv_wait e f a is_con is_proxy tv s)"
proof -
  have fin: "post {} (settled e a) (run_bind (ec_server_set_state e a EC_SRV_STATE_ACK_SENT s1) (\<lambda>s. Done (C_OK, s)))"
    if b: "busy e a True EC_SRV_STATE_REQ_OK s1" for s1
  proof -
    have "post {} (busy e a True EC_SRV_STATE_ACK_SENT) (ec_server_set_state e a EC_SRV_STATE_ACK_SENT s1)"
      using post_set_state [OF b, of EC_SRV_STATE_ACK_SENT] busyE [OF b]
      by (force simp: ec_server_state_is_final_def timer_ok_def)
    then show ?thesis by (auto simp: settled_def elim!: post_mono intro: busy_rest)
  qed
  have mid: "post {} (settled e a) (run_bind (get_srv a s1) (\<lambda>srv.
         let s = ec_server_add a srv s1
         in run_bind (if \<not> is_proxy then ec_server_reschedule_userfn e f a tv s else Done (C_OK, s)) (\<lambda>(rc, s).
           if rc = C_ERR then Done (C_ERR, s)
           else run_bind (ec_server_set_state e a EC_SRV_STATE_ACK_SENT s) (\<lambda>s. Done (C_OK, s)))))"
    if b: "busy e a False EC_SRV_STATE_REQ_OK s1" for s1
  proof -
    obtain srv where g: "sv_heap s1 a = Some srv" "get_srv a s1 = Done srv" using busyE [OF b] by blast
    have b2: "busy e a True EC_SRV_STATE_REQ_OK (ec_server_add a srv s1)" by (rule busy_add [OF b g(1)])
    have "post {} (\<lambda>(rc, s'). busy e a True EC_SRV_STATE_REQ_OK s')
        (if \<not> is_proxy then ec_server_reschedule_userfn e f a tv (ec_server_add a srv s1) else Done (C_OK, ec_server_add a srv s1))"
      using post_reschedule [OF b2 assms(2)] b2 by simp
    then show ?thesis
      unfolding g(2) run_bind.simps Let_def
      by (rule post_bind_err) (use fin in \<open>auto simp only: settled_def prod.case fst_conv snd_conv crc.simps if_False\<close>)
  qed
  have "post {} (\<lambda>(rc, s'). busy e a False EC_SRV_STATE_REQ_OK s')
      (if is_con then ec_server_send_separate_ack e a s else Done (C_OK, s))"
    using post_separate_ack [OF assms(1)] assms(1) by simp
  then show ?thesis
    unfolding srv_wait_def
    by (rule post_bind_err) (use mid in \<open>auto simp only: settled_def prod.case fst_conv snd_conv crc.simps if_False\<close>)
qed

lemma settled_err: "busy e a l st s \<Longrightarrow> settled e a (C_ERR, s)"
  by (auto simp: settled_def)

lemma post_userfn:
  assumes "busy e a l st s" and "l = (st \<noteq> EC_SRV_STATE_REQ_OK)" and "cb_ok f"
  shows "post {} (settled e a) (ec_server_userfn e a f resched s)"
proof -
  obtain srv where s: "get_srv a s = Done srv" using busyE [OF assms(1)] by blast
  show ?thesis
  proof (cases "ec_conn_get_confirmable (f_conn (sv_flow srv))")
    case None
    with assms(1) show ?thesis by (simp add: ec_server_userfn_def s settled_err)
  next
    case (Some is_con)
    obtain cbrc tv calls where f: "f (sv_flow srv) (sv_req srv) (sv_res srv) resched = (cbrc, tv, calls)" by (metis prod_cases3)
    with assms(3) have ok: "list_all call_ok calls" unfolding cb_ok_def by (metis snd_conv)
    show ?thesis
      unfolding ec_server_userfn_def s run_bind.simps Some option.case f prod.case
    proof (rule post_cong_bind [OF post_user_calls [OF assms(1) ok]], goal_cases)
      case (1 s1)
      obtain srv1 where g: "get_srv a s1 = Done srv1" "sv_state srv1 = st" using busyE [OF 1] by blast
      show ?case
      proof (cases cbrc)
        case EC_CBRC_READY
        with post_ready [OF 1 assms(2)] show ?thesis by simp
      next
        case EC_CBRC_WAIT
        show ?thesis
        proof (cases "st = EC_SRV_STATE_REQ_OK")
          case True
          with 1 assms(2,3) post_wait [of e a s1 f] EC_CBRC_WAIT g show ?thesis by simp
        next
          case False
          with EC_CBRC_WAIT g 1 show ?thesis by (simp add: settled_err)
        qed
      qed (use 1 in \<open>simp_all add: settled_err\<close>)
    qed
  qed
qed

lemma settled_internal:
  assumes "post {} (settled e a) m"
  shows "post {} (engine_ok e {}) (run_bind m (\<lambda>(rc, s).
    if rc = C_ERR then ec_server_set_state e a EC_SRV_STATE_INTERNAL_ERR s else Done s))"
proof (rule post_cong_bind [OF assms], goal_cases)
  case (1 x)
  then show ?case
    by (cases x, cases "fst x") (auto simp: settled_def intro: post_mono [OF post_internal_err])
qed

lemma post_resched:
  assumes "engine_ok e {} s" and "sv_heap s (fst pack) = Some srv" and "cb_ok (snd pack)"
  shows "post {} (engine_ok e {}) (resched_userfn e pack s)"
proof -
  note b = rest_busy [OF assms(1,2)]
  have "True = (sv_state srv \<noteq> EC_SRV_STATE_REQ_OK)" using b(2) by auto
  from settled_internal [OF post_userfn [OF b(1) this assms(3)]] show ?thesis
    unfolding resched_userfn_def .
qed

subsection \<open>Retransmission\<close>

lemma post_timer_fires:
  assumes "engine_ok e {} s" and "sv_heap s a = Some srv" and "timer_pending (sv_t_coap srv)"
  shows "post {} (engine_ok e {}) (srv_timer_fires e a s)"
proof -
  note b = rest_busy [OF assms(1,2)]
  obtain srv0 where o: "sv_heap s a = Some srv0" "timer_ok srv0" "f_token_sz (sv_flow srv0) \<le> 8" "sv_parent srv0 = True"
    "get_srv a s = Done srv0" by (rule busyE [OF b(1)])
  have st: "sv_state srv = EC_SRV_STATE_WAIT_ACK"
    using b(2) o(1,2) assms(2,3) by (auto simp: timer_ok_def timer_pending_def)
  define srv1 where "srv1 = srv\<lparr>sv_t_coap := timer_fired (sv_t_coap srv)\<rparr>"
  let ?s = "put_srv a srv1 s"
  have b1: "busy e a True EC_SRV_STATE_WAIT_ACK ?s"
    by (rule busy_put [OF b(1)]) (use o assms(2) st in \<open>simp_all add: srv1_def timer_ok_def\<close>)
  have g: "get_srv a ?s = Done srv1" by (simp add: get_srv_def)
  have eq: "srv_timer_fires e a s = ec_srv_coap_timeout e a ?s"
    using o(1,5) assms(2) by (simp add: srv_timer_fires_def srv1_def)
  show ?thesis
  proof (cases "retries_left (sv_t_coap srv1) = 0")
    case True
    have "post {} (\<lambda>s'. engine_ok e {} s' \<and> sv_heap s' a = None) (ec_server_set_state e a EC_SRV_STATE_RESP_ACK_TIMEOUT ?s)"
      by (rule post_finish [OF b1]) (simp_all add: ec_server_state_is_final_def)
    then show ?thesis by (auto simp: eq ec_srv_coap_timeout_def g True elim!: post_mono)
  next
    case False
    have 1: "post {} (busy e a True EC_SRV_STATE_COAP_RETRY) (ec_server_set_state e a EC_SRV_STATE_COAP_RETRY ?s)"
      using post_set_state [OF b1, of EC_SRV_STATE_COAP_RETRY]
      by (simp add: ec_server_state_is_final_def timer_ok_def srv1_def timer_fired_def ex_bool_eq)
    have 2: "post {} (engine_ok e {}) (run_bind (ec_server_send_resp e a s1) (\<lambda>(rc, s).
           if rc = C_ERR then ec_server_set_state e a EC_SRV_STATE_INTERNAL_ERR s
           else ec_server_set_state e a EC_SRV_STATE_WAIT_ACK s))" if b2: "busy e a True EC_SRV_STATE_COAP_RETRY s1" for s1
    proof (rule post_cong_bind [OF post_send_resp [OF b2]], goal_cases)
      case (1 x)
      obtain rc s2 where x: "x = (rc, s2)" by fastforce
      with 1 have b3: "busy e a True EC_SRV_STATE_COAP_RETRY s2" by simp
      have "post {} (busy e a True EC_SRV_STATE_WAIT_ACK) (ec_server_set_state e a EC_SRV_STATE_WAIT_ACK s2)"
        using post_set_state [OF b3, of EC_SRV_STATE_WAIT_ACK] by (simp add: ec_server_state_is_final_def timer_ok_def)
      then have "post {} (engine_ok e {}) (ec_server_set_state e a EC_SRV_STATE_WAIT_ACK s2)"
        by (auto elim!: post_mono intro: busy_rest)
      with post_internal_err [OF b3] show ?case by (auto simp: x elim!: post_mono)
    qed
    have "ec_srv_coap_timeout e a ?s = run_bind (ec_server_set_state e a EC_SRV_STATE_COAP_RETRY ?s) (\<lambda>s.
         run_bind (ec_server_send_resp e a s) (\<lambda>(rc, s).
           if rc = C_ERR then ec_server_set_state e a EC_SRV_STATE_INTERNAL_ERR s
           else ec_server_set_state e a EC_SRV_STATE_WAIT_ACK s))"
      unfolding ec_srv_coap_timeout_def g run_bind.simps using False by simp
    with post_cong_bind [OF 1 2] show ?thesis by (simp add: eq)
  qed
qed

end
