(* ===== verification/Events.thy ===== *)
theory Events
  imports Post
begin

text \<open>
  The contract of an event-driven component: events that may happen in a state, a handler
  for each, and an invariant that every handler keeps, with the faults it may raise.
\<close>

inductive reach :: "('ev \<Rightarrow> 's \<Rightarrow> 's run) \<Rightarrow> ('ev \<Rightarrow> 's \<Rightarrow> bool) \<Rightarrow> 's \<Rightarrow> 's \<Rightarrow> bool"
  for exec :: "'ev \<Rightarrow> 's \<Rightarrow> 's run" and enabled :: "'ev \<Rightarrow> 's \<Rightarrow> bool" and s0 :: 's where
  reach_init: "reach exec enabled s0 s0"
| reach_step: "reach exec enabled s0 s \<Longrightarrow> enabled ev s \<Longrightarrow> exec ev s = Done s' \<Longrightarrow> reach exec enabled s0 s'"

inductive_cases reachE: "reach exec enabled s0 s"

text \<open>A run of a given sequence of events, which stops at one that may not happen.\<close>

fun run_events :: "('ev \<Rightarrow> 's \<Rightarrow> 's run) \<Rightarrow> ('ev \<Rightarrow> 's \<Rightarrow> bool) \<Rightarrow> 'ev list \<Rightarrow> 's \<Rightarrow> 's run" where
  "run_events exec enabled [] s = Done s"
| "run_events exec enabled (ev # evs) s =
     (if enabled ev s then run_bind (exec ev s) (run_events exec enabled evs) else Done s)"

lemma reach_trans: "reach exec enabled s1 s2 \<Longrightarrow> reach exec enabled s0 s1 \<Longrightarrow> reach exec enabled s0 s2"
  by (induction rule: reach.induct) (auto intro: reach_step)

lemma run_events_reach: "run_events exec enabled evs s = Done s' \<Longrightarrow> reach exec enabled s s'"
proof (induction evs arbitrary: s)
  case Nil
  then show ?case by (simp add: reach_init)
next
  case (Cons ev evs)
  show ?case
  proof (cases "enabled ev s")
    case True
    with Cons.prems obtain s1 where s1: "exec ev s = Done s1" "run_events exec enabled evs s1 = Done s'"
      by (auto simp: run_bind_Done_iff)
    have "reach exec enabled s s1" by (rule reach_step) (rule reach_init, rule True, rule s1(1))
    with Cons.IH [OF s1(2)] show ?thesis by (rule reach_trans)
  next
    case False
    with Cons.prems show ?thesis by (simp add: reach_init)
  qed
qed

locale event_system =
  fixes exec :: "'ev \<Rightarrow> 's \<Rightarrow> 's run" and enabled :: "'ev \<Rightarrow> 's \<Rightarrow> bool" and ok :: "'s \<Rightarrow> bool" and faults :: "'ev \<Rightarrow> fault set"
  assumes exec_post: "ok s \<Longrightarrow> enabled ev s \<Longrightarrow> post (faults ev) ok (exec ev s)"
begin

lemma reach_ok: "reach exec enabled s0 s \<Longrightarrow> ok s0 \<Longrightarrow> ok s"
proof (induction rule: reach.induct)
  case (reach_step s ev s')
  from post_Done [OF exec_post [OF reach_step.IH [OF reach_step.prems] reach_step.hyps(2)] reach_step.hyps(3)] show ?case .
qed

lemma event_safe:
  assumes "reach exec enabled s0 s" and "ok s0" and "enabled ev s"
  shows "(\<exists>s'. exec ev s = Done s' \<and> ok s') \<or> (\<exists>f \<in> faults ev. exec ev s = Fault f)"
  using exec_post [OF reach_ok [OF assms(1,2)] assms(3)] by (cases "exec ev s") auto

lemma run_safe: "ok s \<Longrightarrow> post (\<Union>ev \<in> set evs. faults ev) ok (run_events exec enabled evs s)"
proof (induction evs arbitrary: s)
  case Nil
  then show ?case by simp
next
  case (Cons ev evs)
  show ?case
  proof (cases "enabled ev s")
    case True
    let ?F = "\<Union>ev \<in> set (ev # evs). faults ev"
    have "post ?F ok (exec ev s)" by (rule post_weaken [OF exec_post [OF Cons.prems True]]) auto
    moreover have "post ?F ok (run_events exec enabled evs s1)" if "ok s1" for s1
      by (rule post_weaken [OF Cons.IH [OF that]]) auto
    ultimately show ?thesis
      unfolding run_events.simps if_P [OF True] by (rule post_cong_bind)
  next
    case False
    with Cons.prems show ?thesis by simp
  qed
qed

end

end
