(* ===== verification/Srv_Reach.thy ===== *)
theory Srv_Reach
  imports Srv_Spec Events
begin

text \<open>
  Every event of the server engine keeps the invariant of \<open>Srv_Spec\<close>: received datagrams,
  retransmission timers and rescheduled callbacks; the states reachable from an empty engine.
\<close>

subsection \<open>Handling a datagram\<close>

lemma post_fail:
  assumes "busy e a l st s"
  shows "post {} (\<lambda>(rc, s'). engine_ok e {} s') (srv_fail e a c s)"
proof -
  have 1: "post {} (\<lambda>(rc, s'). engine_ok e {} s') (run_bind (ec_server_set_state e a EC_SRV_STATE_INTERNAL_ERR s1)
      (\<lambda>s. Done (EC_NET_CBRC_ERROR, s)))" if "busy e a l st s1" for s1
    using post_internal_err [OF that] by (auto elim!: post_mono)
  show ?thesis
    unfolding srv_fail_def by (rule post_cong_bind [OF post_reply [OF assms]]) (use 1 in \<open>auto simp only: prod.case\<close>)
qed

lemma find_resource_ok: "find_resource rs url = Some f \<Longrightarrow> \<forall>r \<in> set rs. cb_ok (rc_cb r) \<Longrightarrow> cb_ok f"
  by (induction rs) (auto split: if_splits)

lemma post_dispatch:
  assumes "busy e a False EC_SRV_STATE_REQ_OK s"
  shows "post {} (\<lambda>(rc, s'). engine_ok e {} s') (srv_dispatch e a s)"
proof -
  obtain srv where s: "get_srv a s = Done srv" using busyE [OF assms] by blast
  show ?thesis
    unfolding srv_dispatch_def s run_bind.simps
  proof (rule post_cong_bind [OF post_canceled_by_get [OF busy_parts [OF assms]]], goal_cases)
    case (1 x)
    obtain r s1 where x: "x = (r, s1)" by fastforce
    with 1 have b: "busy e a False EC_SRV_STATE_REQ_OK s1" using lower_busy [OF _ assms] by simp
    then have c: "cbs_ok s1" by (simp add: busy_def engine_ok_def)
    show ?case
    proof (cases "case find_resource (resources s1) (f_urlstr (sv_flow srv)) of Some cb \<Rightarrow> Some cb | None \<Rightarrow> fallback s1")
      case None
      have "post {} (\<lambda>(rc, s'). engine_ok e {} s') (run_bind (ec_server_set_state e a EC_SRV_STATE_RESP_DONE s2) (\<lambda>s.
             Done (EC_NET_CBRC_SUCCESS, s)))" if "busy e a False EC_SRV_STATE_REQ_OK s2" for s2
        using post_finish [OF that, of EC_SRV_STATE_RESP_DONE]
        by (auto simp: ec_server_state_is_final_def elim!: post_mono)
      then have "post {} (\<lambda>(rc, s'). engine_ok e {} s') (run_bind (ec_server_reply e a EC_NOT_FOUND None 0 s1) (\<lambda>(_, s).
           run_bind (ec_server_set_state e a EC_SRV_STATE_RESP_DONE s) (\<lambda>s. Done (EC_NET_CBRC_SUCCESS, s))))"
        by (intro post_cong_bind [OF post_reply [OF b]]) (auto simp only: prod.case)
      with None show ?thesis by (simp add: x)
    next
      case (Some f)
      have f: "cb_ok f" using Some c find_resource_ok unfolding cbs_ok_def by (fastforce split: option.splits)
      have "post {} (\<lambda>(rc, s'). engine_ok e {} s') (run_bind (ec_server_userfn e a f False s1) (\<lambda>(rc, s).
             if rc = C_ERR then srv_fail e a EC_RC_UNSET s else Done (EC_NET_CBRC_SUCCESS, s)))"
      proof (rule post_cong_bind [OF post_userfn [OF b _ f]], goal_cases)
        case (2 y)
        then show ?case by (cases y, cases "fst y") (auto simp: settled_def intro: post_fail)
      qed simp
      with Some show ?thesis by (simp add: x)
    qed
  qed
qed

lemma post_payload: "post {Overread} (\<lambda>_. True) (srv_payload e pdu raw raw_sz olen)"
  by (simp add: srv_payload_def Let_def)

lemma read_byte_faults [simp]: "post F Q (read_byte m i) \<longleftrightarrow> (if i < length m then Q (m ! i) else Overread \<in> F)"
  by (simp add: read_byte_def)

lemma decode_one_faults: "post {Overread} (\<lambda>_. True) (decode_one pdu p num opts)"
  by (auto simp: decode_one_def read_opt_len_def Let_def split: prod.split crc.split)

lemma decode_loop_faults: "post {Overread} (\<lambda>_. True) (decode_loop pdu n p num opts)"
proof (induction n arbitrary: p num opts)
  case 0
  then show ?case by simp
next
  case (Suc n)
  then show ?case
    unfolding decode_loop.simps
    by (intro post_cong_bind [OF decode_one_faults]) (auto split: decode_res.split)
qed

lemma decode_faults: "post {Overread} (\<lambda>_. True) (ec_opts_decode opts raw sz oc)"
  by (simp add: ec_opts_decode_def decode_loop_faults)

lemma save_token_ok:
  "post {Overwrite} (\<lambda>flow'. f_token_sz flow' \<le> 8) (ec_flow_save_token flow t n)"
  by (auto simp: ec_flow_save_token_def split: option.split)

lemma save_url_token: "ec_flow_save_url e flow u px = (rc, flow') \<Longrightarrow> f_token_sz flow' = f_token_sz flow"
  by (auto simp: ec_flow_save_url_def Let_def split: option.splits prod.splits crc.splits)

text \<open>What a PDU from the network may do beside what the protocol wants.\<close>

abbreviation net_faults :: "fault set" where
  "net_faults \<equiv> {Overread, Overwrite}"

lemma post_request:
  assumes "busy e a l st s" and "h_code (p_hdr_bits pdu) = 0 \<or> st = EC_SRV_STATE_NONE \<and> \<not> l"
  shows "post net_faults (\<lambda>(rc, s'). engine_ok e {} s') (srv_request e a pdu raw raw_sz s)"
proof -
  let ?Q = "\<lambda>(rc :: ec_net_cbrc, s'). engine_ok e {} s'"
  obtain srv where s: "sv_heap s a = Some srv" "sv_state srv = st" "sv_parent srv = l" "f_token_sz (sv_flow srv) \<le> 8"
    "timer_ok srv" "engine_ok e {a} s" "get_srv a s = Done srv" using busyE [OF assms(1)] by blast
  have fail: "post net_faults ?Q (srv_fail e a c s1)" if "busy e a l st s1" for c s1
    by (rule post_weaken [OF post_fail [OF that]]) simp
  have put: "busy e a l st (put_srv a srv' s)" if "sv_parent srv' = l" "sv_state srv' = st" "sv_t_coap srv' = sv_t_coap srv"
      "f_token_sz (sv_flow srv') \<le> 8" for srv'
    by (rule busy_put [OF assms(1)]) (use that s in \<open>simp_all add: timer_ok_def\<close>)
  have url: "post net_faults ?Q (case ec_flow_save_url e flow u px of
        (C_ERR, flow) \<Rightarrow> srv_fail e a EC_RC_UNSET (put_srv a (srv\<lparr>sv_flow := flow\<rparr>) s)
      | (C_OK, flow) \<Rightarrow>
          (case ec_server_new_response (srv\<lparr>sv_flow := flow, sv_req := Some pdu'\<rparr>) s of
             (C_ERR, srv, s) \<Rightarrow> srv_fail e a EC_RC_UNSET (put_srv a srv s)
           | (C_OK, srv, s) \<Rightarrow>
               run_bind (ec_server_set_state e a EC_SRV_STATE_REQ_OK (put_srv a srv s)) (srv_dispatch e a)))"
    if tok: "f_token_sz flow \<le> 8" and new: "st = EC_SRV_STATE_NONE" "\<not> l" for flow u px pdu'
  proof -
    obtain rc flow' where u: "ec_flow_save_url e flow u px = (rc, flow')" by fastforce
    have t: "f_token_sz flow' \<le> 8" using save_url_token [OF u] tok by simp
    show ?thesis
    proof (cases rc)
      case C_ERR
      with u fail [OF put [of "srv\<lparr>sv_flow := flow'\<rparr>"]] t s show ?thesis by simp
    next
      case C_OK
      obtain rc2 srv2 s2 where n: "ec_server_new_response (srv\<lparr>sv_flow := flow', sv_req := Some pdu'\<rparr>) s = (rc2, srv2, s2)"
        by (metis prod_cases3)
      have k: "sv_parent srv2 = l" "sv_state srv2 = st" "sv_t_coap srv2 = sv_t_coap srv" "f_token_sz (sv_flow srv2) \<le> 8" "ticked s s2"
        using n s(2,3) t by (auto simp: ec_server_new_response_def split: if_splits prod.splits dest: ticked_new_empty)
      have b: "busy e a l st (put_srv a srv2 s2)"
        by (rule busy_put [OF busy_ticked [OF k(5) assms(1)]]) (use k s in \<open>simp_all add: timer_ok_def\<close>)
      have tr: "ec_server_check_transition st EC_SRV_STATE_REQ_OK = C_OK" using new by simp
      have "post {} (busy e a False EC_SRV_STATE_REQ_OK) (ec_server_set_state e a EC_SRV_STATE_REQ_OK (put_srv a srv2 s2))"
        using post_set_state [OF b tr] k s(5) s(2) new by (simp add: ec_server_state_is_final_def timer_ok_def)
      then have "post {} ?Q (run_bind (ec_server_set_state e a EC_SRV_STATE_REQ_OK (put_srv a srv2 s2)) (srv_dispatch e a))"
        by (rule post_cong_bind) (rule post_dispatch)
      then have "post net_faults ?Q (run_bind (ec_server_set_state e a EC_SRV_STATE_REQ_OK (put_srv a srv2 s2)) (srv_dispatch e a))"
        by (rule post_weaken) simp
      with fail [OF b] C_OK u n show ?thesis by (cases rc2) (simp_all only: prod.case crc.case)
    qed
  qed
  have meth: "post net_faults ?Q (case ec_flow_set_method (sv_flow srv) (unat (h_code (p_hdr_bits pdu))) of
             (C_ERR, _) \<Rightarrow> srv_fail e a EC_RC_UNSET s
           | (C_OK, flow) \<Rightarrow>
               run_bind (case ec_opts_get (p_opts pdu') EC_OPT_TOKEN of
                           None \<Rightarrow> ec_flow_save_token flow None 0
                         | Some t \<Rightarrow> ec_flow_save_token flow (o_v t) (o_l t)) (\<lambda>flow.
               case ec_opts_compose_url e (p_opts pdu') (c_us (f_conn flow)) True of
                 (u, is_px) \<Rightarrow>
                   (case ec_flow_save_url e flow u is_px of
                      (C_ERR, flow) \<Rightarrow> srv_fail e a EC_RC_UNSET (put_srv a (srv\<lparr>sv_flow := flow\<rparr>) s)
                    | (C_OK, flow) \<Rightarrow>
                        (case ec_server_new_response (srv\<lparr>sv_flow := flow, sv_req := Some pdu'\<rparr>) s of
                           (C_ERR, srv, s) \<Rightarrow> srv_fail e a EC_RC_UNSET (put_srv a srv s)
                         | (C_OK, srv, s) \<Rightarrow>
                             run_bind (ec_server_set_state e a EC_SRV_STATE_REQ_OK (put_srv a srv s))
                               (srv_dispatch e a)))))" for pdu'
  proof (cases "EC_IS_METHOD (unat (h_code (p_hdr_bits pdu)))")
    case False
    then show ?thesis using fail [OF assms(1)] by (simp add: ec_flow_set_method_def)
  next
    case True
    then have new: "st = EC_SRV_STATE_NONE" "\<not> l" using assms(2) by (auto simp: EC_IS_METHOD_def)
    have tok: "post net_faults (\<lambda>flow'. f_token_sz flow' \<le> 8) (case ec_opts_get (p_opts pdu') EC_OPT_TOKEN of
                           None \<Rightarrow> ec_flow_save_token flow None 0
                         | Some t \<Rightarrow> ec_flow_save_token flow (o_v t) (o_l t))" for flow
      by (cases "ec_opts_get (p_opts pdu') EC_OPT_TOKEN") (simp_all add: post_weaken [OF save_token_ok])
    show ?thesis
      unfolding ec_flow_set_method_def using True
    proof (simp only: not_True_eq_False if_False prod.case crc.case, intro post_cong_bind [OF tok], goal_cases)
      case (1 flow)
      obtain u px where c: "ec_opts_compose_url e (p_opts pdu') (c_us (f_conn flow)) True = (u, px)" by fastforce
      show ?case unfolding c prod.case by (rule url [OF _ new]) (rule 1)
    qed
  qed
  show ?thesis
    unfolding srv_request_def Let_def
  proof (rule post_cong_bind [where P = "\<lambda>_. True"], goal_cases)
    case 1
    show ?case by (simp add: post_weaken [OF decode_faults])
  next
    case (2 x)
    obtain rc opts olen where x: "x = (rc, opts, olen)" by (metis prod_cases3)
    have pl: "post net_faults ?Q (run_bind (srv_payload e p1 raw raw_sz olen) (\<lambda>pdu'. run_bind (get_srv a s) (f pdu')))"
      if "\<And>pdu'. post net_faults ?Q (f pdu' srv)" for p1 f
      by (rule post_cong_bind [OF post_weaken [OF post_payload]]) (use that s(7) in simp_all)
    show ?case
    proof (cases "rc = 0")
      case True
      then have "rc \<noteq> 0 \<longleftrightarrow> False" by simp
      then show ?thesis unfolding x prod.case by (simp only: if_False) (intro pl, rule meth)
    next
      case False
      then show ?thesis unfolding x prod.case by (simp only: simp_thms not_False_eq_True if_True fail [OF assms(1)])
    qed
  qed
qed

lemma servers_walk_ok:
  assumes "\<forall>a \<in> set as. h a \<noteq> None"
  shows "post {} (\<lambda>r. \<forall>a. r = Some a \<longrightarrow> a \<in> set as) (servers_walk h mid sd n peer as)"
  using assms by (induction as) (auto simp: Let_def elim!: post_mono)

lemma post_lookup:
  assumes "engine_ok e {} s"
  shows "post {} (\<lambda>r. \<forall>a. r = Some a \<longrightarrow> (\<exists>srv. sv_heap s a = Some srv)) (ec_servers_lookup mid sd peer s)"
proof -
  have "\<forall>a \<in> set (sv_list s). sv_heap s a \<noteq> None" using assms by (simp add: engine_ok_def srvs_ok_def)
  then show ?thesis
    by (auto simp: ec_servers_lookup_def split: option.split intro!: post_mono [OF servers_walk_ok])
qed

text \<open>What the first part of the handler leaves: nothing to do, or a transaction to process.\<close>

definition found :: "'m env \<Rightarrow> srv_found \<times> ('m, 'z) srv_st_scheme \<Rightarrow> bool" where
  "found e x \<longleftrightarrow> (case fst x of
     Srv_stop rc \<Rightarrow> engine_ok e {} (snd x)
   | Srv_found a pdu \<Rightarrow> \<exists>l st. busy e a l st (snd x) \<and>
       (if h_code (p_hdr_bits pdu) = 0 then l \<and> st \<in> {EC_SRV_STATE_ACK_SENT, EC_SRV_STATE_WAIT_ACK}
        else \<not> l \<and> st = EC_SRV_STATE_NONE))"

lemma post_control_lookup:
  assumes "engine_ok e {} s" and "h_code (p_hdr_bits pdu) = 0"
  shows "post {} (found e) (srv_control_lookup e pdu sd peer s)"
  unfolding srv_control_lookup_def
proof (rule post_cong_bind [OF post_lookup [OF assms(1)]], goal_cases)
  case (1 r)
  show ?case
  proof (cases r)
    case None
    with assms show ?thesis by (simp add: found_def)
  next
    case (Some a)
    with 1 obtain srv where "sv_heap s a = Some srv" by blast
    from rest_busy [OF assms(1) this] Some assms(2) show ?thesis by (auto simp: found_def)
  qed
qed

lemma post_control_message:
  assumes "engine_ok e {} s" and "h_code (p_hdr_bits pdu) = 0"
  shows "post {} (found e) (srv_control_message e pdu sd peer s)"
proof (cases "h_t (p_hdr_bits pdu) = EC_COAP_RST")
  case False
  with post_control_lookup [OF assms] show ?thesis by (simp add: srv_control_message_def)
next
  case True
  obtain rc c s1 where u: "ec_conn_save_us e ec_conn_init sd s = (rc, c, s1)" by (metis prod_cases3)
  have i: "engine_ok e {} s1" by (rule inv_ticked [OF ticked_save_us [OF u] assms(1)])
  obtain rc2 c2 where p: "ec_conn_save_peer c peer = (rc2, c2)" by fastforce
  have "post {} (found e) (run_bind (ec_observe_canceled_by_rst c2 (EC_PDU_MID pdu) s1) (\<lambda>(r, s).
                    if r = 1 then Done (Srv_stop EC_NET_CBRC_SUCCESS, s)
                    else srv_control_lookup e pdu sd peer s))"
  proof (rule post_cong_bind [OF post_canceled_by_rst [OF inv_parts(1,2) [OF i]]], goal_cases)
    case (1 x)
    then have "engine_ok e {} (snd x)" using lower_inv [OF _ i] by auto
    then show ?case using post_control_lookup [OF _ assms(2)] by (cases x) (auto simp: found_def)
  qed
  with True u p i show ?thesis
    by (cases rc; cases rc2) (simp_all add: srv_control_message_def found_def)
qed

lemma post_new:
  assumes "engine_ok e {} s" and "ec_server_new s = (a, s')"
  shows "busy e a False EC_SRV_STATE_NONE s'"
proof -
  have a: "a = w_tick s" using assms(2) by (simp add: ec_server_new_def)
  have w: "srvs_ok {} s" using assms(1) by (simp add: engine_ok_def)
  then have n: "sv_heap s (w_tick s) = None" unfolding srvs_ok_def by (cases "sv_heap s (w_tick s)") auto
  then have l: "w_tick s \<notin> set (sv_list s)" using w unfolding srvs_ok_def by auto
  have "srvs_ok {w_tick s} s'"
    using assms(2) w l unfolding srvs_ok_def
    by (auto simp: ec_server_new_def put_srv_def tick_def srv_ok_def timer_ok_def timer_zero_def ec_flow_init_def less_SucI
        split: if_splits)
  moreover have "dups_ok e s'" "obs_ok s'" "cbs_ok s'"
    using assms by (auto simp: engine_ok_def ec_server_new_def dups_ok_def obs_ok_def cbs_ok_def put_srv_def tick_def less_SucI)
  ultimately show ?thesis
    using assms(2) by (auto simp: busy_def engine_ok_def ec_server_new_def put_srv_def)
qed

lemma post_find:
  assumes "hmap_laws e" and "engine_ok e {} s"
  shows "post {} (found e) (srv_find e raw raw_sz sd peer s)"
proof -
  obtain pdu s1 where n: "ec_pdu_new_empty s = (pdu, s1)" by fastforce
  have i: "engine_ok e {} s1" by (rule inv_ticked [OF ticked_new_empty [OF n] assms(2)])
  obtain rc pdu2 where d: "ec_pdu_decode_header (e_le e) pdu raw raw_sz = (rc, pdu2)" by fastforce
  show ?thesis
  proof (cases rc)
    case C_ERR
    with n d i show ?thesis by (simp add: srv_find_def found_def)
  next
    case C_OK
    have "post {} (found e) (run_bind (ec_dups_handle_incoming_climsg e (EC_PDU_MID pdu2) sd peer s1) (\<lambda>(d, s).
               if d = 1 then Done (Srv_stop EC_NET_CBRC_SUCCESS, s)
               else if d \<noteq> 0 then Done (Srv_stop EC_NET_CBRC_ERROR, s)
               else if h_code (p_hdr_bits pdu2) = 0 then srv_control_message e pdu2 sd peer s
               else if EC_IS_METHOD (unat (h_code (p_hdr_bits pdu2))) then
                 (case ec_server_new s of (a, s) \<Rightarrow> Done (Srv_found a pdu2, s))
               else Done (Srv_stop EC_NET_CBRC_ERROR, s)))"
    proof (rule post_cong_bind [OF post_incoming [OF assms(1) inv_parts(1) [OF i]]], goal_cases)
      case (1 x)
      obtain k s2 where x: "x = (k, s2)" by fastforce
      with 1 have i2: "engine_ok e {} s2" using lower_inv [OF base_lower i] inv_parts(2) [OF i] by auto
      show ?case
        using post_control_message [OF i2] i2 post_new [OF i2]
        by (auto simp: x found_def split: prod.split)
    qed
    with n d C_OK show ?thesis by (simp add: srv_find_def)
  qed
qed

lemma put_put [simp]: "put_srv a x (put_srv a y s) = put_srv a x s"
  by (simp add: put_srv_def)

lemma ticked_endpoints: "srv_endpoints e flow sd peer s = (rc, flow', s') \<Longrightarrow> ticked s s' \<and> f_token_sz flow' = f_token_sz flow"
  by (auto simp: srv_endpoints_def split: if_splits prod.splits crc.splits dest: ticked_save_us)

lemma post_handle_pdu:
  assumes "hmap_laws e" and "engine_ok e {} s"
  shows "post net_faults (\<lambda>(rc, s'). engine_ok e {} s') (ec_server_handle_pdu e sd raw raw_sz peer s)"
proof (cases "raw_sz = 0 \<or> sd = -1")
  case True
  with assms show ?thesis by (auto simp: ec_server_handle_pdu_def)
next
  case False
  show ?thesis
    unfolding ec_server_handle_pdu_def using False
  proof (simp only: if_False, intro post_cong_bind [OF post_weaken [OF post_find [OF assms]]], simp, goal_cases)
    case (1 x)
    obtain r s1 where x: "x = (r, s1)" by fastforce
    show ?case
    proof (cases r)
      case (Srv_stop rc)
      with 1 x show ?thesis by (simp add: found_def)
    next
      case (Srv_found a pdu)
      with 1 x obtain l st where b: "busy e a l st s1"
        and k: "if h_code (p_hdr_bits pdu) = 0 then l \<and> st \<in> {EC_SRV_STATE_ACK_SENT, EC_SRV_STATE_WAIT_ACK}
          else \<not> l \<and> st = EC_SRV_STATE_NONE" by (auto simp: found_def)
      obtain srv where s: "sv_heap s1 a = Some srv" "sv_state srv = st" "sv_parent srv = l" "f_token_sz (sv_flow srv) \<le> 8"
        "timer_ok srv" "engine_ok e {a} s1" "get_srv a s1 = Done srv" using busyE [OF b] by blast
      obtain rc flow s2 where en: "srv_endpoints e (sv_flow srv) sd peer s1 = (rc, flow, s2)" by (metis prod_cases3)
      note t = ticked_endpoints [OF en]
      have put: "busy e a l st (put_srv a (srv\<lparr>sv_flow := f\<rparr>) s2)" if "f_token_sz f \<le> 8" for f
        by (rule busy_put [OF busy_ticked [OF _ b]]) (use s t that in \<open>simp_all add: timer_ok_def\<close>)
      have b2: "busy e a l st (put_srv a (srv\<lparr>sv_flow := flow\<rparr>) s2)" by (rule put) (use t s in simp)
      have b3: "busy e a l st (put_srv a (srv\<lparr>sv_flow := flow\<lparr>f_conn := c\<rparr>\<rparr>) s2)" for c by (rule put) (use t s in simp)
      note fail = post_weaken [OF post_fail [OF b2], of net_faults]
      have req: "post net_faults (\<lambda>(rc, s'). engine_ok e {} s') (srv_request e a pdu raw raw_sz s3)" if "busy e a l st s3" for s3
        using k by (intro post_request [OF that]) (auto split: if_splits)
      have rst: "post net_faults (\<lambda>(rc, s'). engine_ok e {} s') (run_bind (ec_server_set_state e a EC_SRV_STATE_CLIENT_RST
            (put_srv a (srv\<lparr>sv_flow := flow\<rparr>) s2)) (\<lambda>s. Done (EC_NET_CBRC_SUCCESS, s)))"
        by (rule post_weaken [where F = "{}"], rule post_cong_bind [OF post_finish [OF b2]])
          (simp_all add: ec_server_state_is_final_def)
      have ack: "post net_faults (\<lambda>(rc, s'). engine_ok e {} s') (run_bind (ec_server_set_state e a EC_SRV_STATE_RESP_DONE
            (put_srv a (srv\<lparr>sv_flow := flow\<rparr>) s2)) (\<lambda>s. Done (EC_NET_CBRC_SUCCESS, s)))" if "st = EC_SRV_STATE_WAIT_ACK"
        by (rule post_weaken [where F = "{}"], rule post_cong_bind [OF post_finish [OF b2]])
          (simp_all add: ec_server_state_is_final_def that)
      show ?thesis
        unfolding x prod.case Srv_found srv_found.case s(7) run_bind.simps en Let_def
        using fail rst ack s(2) req [OF b2] req [OF b3] by (simp split del: if_split) auto
    qed
  qed
qed

subsection \<open>Events\<close>

text \<open>
  What libevent and the application may do to the engine: deliver a datagram, fire the
  retransmission timer of a transaction, a rescheduling event, the countdown of an
  observation or of a duplicate record, and wake a waiting transaction up.
\<close>

datatype srv_event =
    Ev_datagram int "byte list" nat sockaddr
  | Ev_timer nat
  | Ev_resched nat
  | Ev_observe nat
  | Ev_forget nat
  | Ev_wakeup nat

fun srv_exec :: "'m env \<Rightarrow> srv_event \<Rightarrow> ('m, 'z) srv_st_scheme \<Rightarrow> ('m, 'z) srv_st_scheme run" where
  "srv_exec e (Ev_datagram sd raw n peer) s = run_bind (ec_server_handle_pdu e sd raw n peer s) (\<lambda>(_, s). Done s)"
| "srv_exec e (Ev_timer a) s = srv_timer_fires e a s"
| "srv_exec e (Ev_resched i) s = resched_userfn e (sv_packs s ! i) (s\<lparr>sv_packs := drop_nth i (sv_packs s)\<rparr>)"
| "srv_exec e (Ev_observe a) s = ec_ob_cb e a s"
| "srv_exec e (Ev_forget a) s = ec_dup_zap e a s"
| "srv_exec e (Ev_wakeup a) s = run_bind (ec_server_wakeup e a s) (\<lambda>(_, s). Done s)"

text \<open>
  When an event may happen: timers that are pending, events of live objects (the observed
  resources still exist), wake-ups of waiting transactions.
\<close>

fun srv_enabled :: "srv_event \<Rightarrow> ('m, 'z) srv_st_scheme \<Rightarrow> bool" where
  "srv_enabled (Ev_datagram sd raw n peer) s \<longleftrightarrow> True"
| "srv_enabled (Ev_timer a) s \<longleftrightarrow> (case sv_heap s a of None \<Rightarrow> False | Some srv \<Rightarrow> timer_pending (sv_t_coap srv))"
| "srv_enabled (Ev_resched i) s \<longleftrightarrow> i < length (sv_packs s) \<and> sv_heap s (fst (sv_packs s ! i)) \<noteq> None"
| "srv_enabled (Ev_observe a) s \<longleftrightarrow> (case ob_heap s a of None \<Rightarrow> False | Some ob \<Rightarrow>
     list_all (\<lambda>ovr. ov_reps_cb ovr (ob_uri ob) (ov_media_type ovr) \<noteq> None) (ob_observers ob))"
| "srv_enabled (Ev_forget a) s \<longleftrightarrow> d_recvd s a \<noteq> None"
| "srv_enabled (Ev_wakeup a) s \<longleftrightarrow> sv_heap s a \<noteq> None"

lemma ready_err_keeps:
  assumes "busy e a l st s" and "ec_server_ready e a is_con s = Done (C_ERR, s')"
  shows "busy e a l st s'"
proof -
  obtain srv where s: "get_srv a s = Done srv" using busyE [OF assms(1)] by blast
  show ?thesis
  proof (cases "ec_server_send_resp e a s")
    case (Fault f)
    with post_send_resp [OF assms(1)] show ?thesis by simp
  next
    case (Done x)
    then obtain rc s1 where d: "ec_server_send_resp e a s = Done (rc, s1)" by (cases x) simp
    with post_send_resp [OF assms(1)] have "busy e a l st s1" by simp
    with d assms s show ?thesis
      by (cases rc) (auto simp: ec_server_ready_def run_bind_Done_iff split: if_splits)
  qed
qed

lemma post_wakeup:
  assumes "engine_ok e {} s" and "sv_heap s a = Some srv"
  shows "post {} (\<lambda>(_, s'). engine_ok e {} s') (ec_server_wakeup e a s)"
proof -
  note b = rest_busy [OF assms]
  have g: "get_srv a s = Done srv" using assms(2) by (simp add: get_srv_def)
  have "True = (sv_state srv \<noteq> EC_SRV_STATE_REQ_OK)" using b(2) by auto
  note r = post_ready [OF b(1) this]
  have "post {} (\<lambda>(_, s'). engine_ok e {} s') (ec_server_ready e a is_con s)" for is_con
  proof (cases "ec_server_ready e a is_con s")
    case (Fault f)
    with r [of is_con] show ?thesis by simp
  next
    case (Done x)
    then obtain rc s' where d: "ec_server_ready e a is_con s = Done (rc, s')" by (cases x) simp
    show ?thesis
    proof (cases rc)
      case C_OK
      with d r [of is_con] show ?thesis by (simp add: settled_def)
    next
      case C_ERR
      have "engine_ok e {} s'" by (rule busy_rest [OF ready_err_keeps [OF b(1) d [unfolded C_ERR]] b(2)])
      with d show ?thesis by simp
    qed
  qed
  then show ?thesis using assms(1) by (simp add: ec_server_wakeup_def g split: option.split)
qed

lemma post_zap:
  assumes "hmap_laws e" and "engine_ok e {} s" and "d_recvd s a \<noteq> None"
  shows "post {} (engine_ok e {}) (ec_dup_zap e a s)"
proof -
  obtain r where r: "d_recvd s a = Some r" using assms(3) by auto
  obtain c s' where d: "ec_dups_delete e (r_key r) s = (c, s')" by fastforce
  have "base_step s s'"
    using d by (auto simp: ec_dups_delete_def base_step_def ec_recvd_pdu_free_def split: option.splits)
  moreover have "dups_ok e s'"
  proof (cases c)
    case C_OK
    with d ec_dups_delete_ok [OF assms(1) inv_parts(1) [OF assms(2)]] show ?thesis by blast
  next
    case C_ERR
    with d have "s' = s" by (auto simp: ec_dups_delete_def split: option.splits)
    with inv_parts(1) [OF assms(2)] show ?thesis by simp
  qed
  ultimately have "engine_ok e {} s'" using lower_inv [OF base_lower assms(2)] inv_parts(2) [OF assms(2)] by blast
  with r d show ?thesis by (simp add: ec_dup_zap_def)
qed

lemma inv_drop_pack:
  assumes "engine_ok e {} s" shows "engine_ok e {} (s\<lparr>sv_packs := drop_nth i (sv_packs s)\<rparr>)"
  using assms by (auto simp: engine_ok_def srvs_ok_def cbs_ok_def dups_ok_def obs_ok_def drop_nth_def dest: in_set_takeD in_set_dropD)

lemma post_exec:
  assumes "hmap_laws e" and "engine_ok e {} s" and "srv_enabled ev s"
  shows "post net_faults (engine_ok e {}) (srv_exec e ev s)"
proof (cases ev)
  case (Ev_datagram sd raw n peer)
  show ?thesis
    unfolding Ev_datagram srv_exec.simps by (rule post_cong_bind [OF post_handle_pdu [OF assms(1,2)]]) auto
next
  case (Ev_timer a)
  with assms(3) obtain srv where "sv_heap s a = Some srv" "timer_pending (sv_t_coap srv)" by (auto split: option.splits)
  from post_timer_fires [OF assms(2) this] Ev_timer show ?thesis by (auto intro: post_weaken)
next
  case (Ev_resched i)
  with assms(3) obtain srv where i: "i < length (sv_packs s)" "sv_heap s (fst (sv_packs s ! i)) = Some srv" by auto
  then have f: "cb_ok (snd (sv_packs s ! i))" using assms(2) by (simp add: engine_ok_def cbs_ok_def)
  have "post {} (engine_ok e {}) (srv_exec e ev s)"
    unfolding Ev_resched srv_exec.simps by (rule post_resched [OF inv_drop_pack [OF assms(2)] _ f]) (simp add: i(2))
  then show ?thesis by (rule post_weaken) simp
next
  case (Ev_observe a)
  with assms(3) obtain ob where "ob_heap s a = Some ob"
    "\<forall>ovr \<in> set (ob_observers ob). ov_reps_cb ovr (ob_uri ob) (ov_media_type ovr) \<noteq> None"
    by (auto simp: list_all_iff split: option.splits)
  from post_ob_cb [OF inv_parts(1,2) [OF assms(2)] this] have "post {} (engine_ok e {}) (ec_ob_cb e a s)"
    by (rule post_mono) (use lower_inv [OF _ assms(2)] in blast)
  with Ev_observe show ?thesis by (auto intro: post_weaken)
next
  case (Ev_forget a)
  with post_zap [OF assms(1,2)] assms(3) show ?thesis by (auto intro: post_weaken)
next
  case (Ev_wakeup a)
  with assms(3) obtain srv where "sv_heap s a = Some srv" by auto
  show ?thesis
    unfolding Ev_wakeup srv_exec.simps
    by (rule post_cong_bind [OF post_weaken [OF post_wakeup [OF assms(2) \<open>sv_heap s a = Some srv\<close>]]]) auto
qed

interpretation srv_events: event_system "srv_exec e" srv_enabled "\<lambda>s. hmap_laws e \<and> engine_ok e {} s" "\<lambda>_. net_faults"
  for e :: "'m env"
proof
  fix s :: "('m, 'z) srv_st_scheme" and ev
  assume "hmap_laws e \<and> engine_ok e {} s" and "srv_enabled ev s"
  then show "post net_faults (\<lambda>s. hmap_laws e \<and> engine_ok e {} s) (srv_exec e ev s)"
    using post_exec [of e s ev] by (auto elim!: post_mono)
qed

text \<open>The states a server gets to from \<open>s0\<close>.\<close>

abbreviation srv_reachable :: "'m env \<Rightarrow> ('m, 'z) srv_st_scheme \<Rightarrow> ('m, 'z) srv_st_scheme \<Rightarrow> bool" where
  "srv_reachable e \<equiv> reach (srv_exec e) srv_enabled"

lemma srv_reachable_inv:
  assumes "srv_reachable e s0 s" and "hmap_laws e" and "engine_ok e {} s0"
  shows "engine_ok e {} s"
  using srv_events.reach_ok [OF assms(1)] assms(2,3) by blast

end
