(* ===== verification/Retransmit.thy ===== *)
theory Retransmit
  imports Events Flow
begin

text \<open>
  The retransmission contract that server and client transactions share: each firing of the
  CoAP timer either ends the transaction or sends at most one datagram, uses up one of the
  retries left and doubles the timeout.
\<close>

text \<open>
  A peer that never answers: the timer of a transaction fires again and again. The result is
  the time that passed, in seconds.
\<close>

fun silence :: "('s \<Rightarrow> 's run) \<Rightarrow> ('s \<Rightarrow> ec_timer option) \<Rightarrow> nat \<Rightarrow> 's \<Rightarrow> (nat \<times> 's) run" where
  "silence fire timer 0 s = Done (0, s)"
| "silence fire timer (Suc n) s =
     (case timer s of
        None \<Rightarrow> Done (0, s)
      | Some ti \<Rightarrow>
          if timer_pending ti
          then run_bind (fire s) (\<lambda>s'. run_bind (silence fire timer n s') (\<lambda>(t, s'). Done (fst (tout ti) + t, s')))
          else Done (0, s))"

lemma silence_gone: "\<forall>ti. timer s = Some ti \<longrightarrow> \<not> timer_pending ti \<Longrightarrow> silence fire timer n s = Done (0, s)"
  by (cases n) (auto split: option.split)

text \<open>The next timer of a transaction that goes on.\<close>

definition backs_off :: "ec_timer \<Rightarrow> ec_timer option \<Rightarrow> bool" where
  "backs_off ti next_ti \<longleftrightarrow> (\<exists>ti'. next_ti = Some ti' \<and> timer_pending ti' \<and> retries_left ti = Suc (retries_left ti') \<and>
     fst (tout ti') = 2 * fst (tout ti))"

locale retransmitter =
  fixes fire :: "'s \<Rightarrow> 's run" and timer :: "'s \<Rightarrow> ec_timer option" and sent :: "'s \<Rightarrow> nat" and over :: "'s \<Rightarrow> bool"
    and ok :: "'s \<Rightarrow> bool"
  assumes over_stops: "over s \<Longrightarrow> timer s = Some ti \<Longrightarrow> \<not> timer_pending ti"
    and fires: "ok s \<Longrightarrow> timer s = Some ti \<Longrightarrow> timer_pending ti \<Longrightarrow>
      \<exists>s'. fire s = Done s' \<and> ok s' \<and> sent s' \<le> sent s + 1 \<and>
        (retries_left ti = 0 \<longrightarrow> over s' \<and> sent s' = sent s) \<and> (over s' \<or> backs_off ti (timer s'))"
begin

lemma silence_over: "over s \<Longrightarrow> silence fire timer n s = Done (0, s)"
  by (rule silence_gone) (simp add: over_stops)

lemma silence_bound:
  assumes "ok s" and "timer s = Some ti" and "timer_pending ti" and "retries_left ti = n"
  shows "\<exists>t s'. silence fire timer (Suc n) s = Done (t, s') \<and> over s' \<and> ok s' \<and>
    t \<le> fst (tout ti) * (2 ^ Suc n - 1) \<and> sent s' \<le> sent s + n"
  using assms
proof (induction n arbitrary: s ti)
  case 0
  from fires [OF 0(1-3)] 0 show ?case by (auto simp: silence_over)
next
  case (Suc n)
  obtain s1 where s1: "fire s = Done s1" "ok s1" "sent s1 \<le> sent s + 1" "over s1 \<or> backs_off ti (timer s1)"
    using fires [OF Suc.prems(1-3)] by blast
  show ?case
  proof (cases "over s1")
    case True
    obtain k :: nat where "2 ^ n = Suc k" by (cases "2 ^ n :: nat") auto
    then have "Suc 0 \<le> 4 * 2 ^ n - Suc 0" by simp
    moreover have "silence fire timer (Suc (Suc n)) s = Done (fst (tout ti), s1)"
      using Suc.prems(2,3) s1(1) silence_over [OF True, of "Suc n"]
      by (simp only: silence.simps(2) [of fire timer "Suc n" s] option.case if_True run_bind.simps prod.case add_0_right)
    ultimately show ?thesis using True s1(2,3) by (simp del: silence.simps)
  next
    case False
    then obtain ti' where k: "timer s1 = Some ti'" "timer_pending ti'" "retries_left ti' = n"
      "fst (tout ti') = 2 * fst (tout ti)" using s1(4) Suc.prems(4) by (auto simp: backs_off_def)
    from Suc.IH [OF s1(2) k(1,2,3)] obtain t s' where r: "silence fire timer (Suc n) s1 = Done (t, s')" "over s'" "ok s'"
      "t \<le> 2 * fst (tout ti) * (2 ^ Suc n - 1)" "sent s' \<le> sent s1 + n" using k(4) by auto
    let ?T = "fst (tout ti)"
    have g: "silence fire timer (Suc (Suc n)) s = Done (?T + t, s')"
      using Suc.prems(2,3) s1(1) r(1)
      by (simp only: silence.simps(2) [of fire timer "Suc n" s] option.case if_True run_bind.simps prod.case)
    have "?T + 2 * ?T * (2 ^ Suc n - 1) = ?T * (2 ^ Suc (Suc n) - 1)"
    proof -
      obtain k :: nat where "2 ^ n = Suc k" by (cases "2 ^ n :: nat") auto
      then have "(2 :: nat) ^ Suc (Suc n) - 1 = 1 + 2 * (2 ^ Suc n - 1)" by simp
      then show ?thesis by (simp only: distrib_left mult_1_right)
    qed
    with g r s1(3) show ?thesis by (intro exI [of _ "?T + t"] exI [of _ s']) auto
  qed
qed

end

end
