(* ===== verification/Srv_Props.thy ===== *)
theory Srv_Props
  imports Srv_Reach Retransmit
begin

text \<open>
  The properties of the server engine: safety of every event from every reachable state,
  the retransmission schedule, the answers it sends, and the inputs on which it goes wrong.
\<close>

subsection \<open>A concrete engine\<close>

definition demo_req :: ec_pdu where
  "demo_req = (fst (ec_pdu_new_empty demo_base))\<lparr>p_hdr_bits := \<lparr>h_t = EC_COAP_CON, h_oc = 0, h_code = 1, h_mid = 0x1234\<rparr>\<rparr>"

definition demo_res :: ec_pdu where
  "demo_res = fst (ec_pdu_new_empty (tick demo_base))"

definition demo_srv :: ec_server where
  "demo_srv =
     \<lparr>sv_state = EC_SRV_STATE_WAIT_ACK,
      sv_flow = ec_flow_init\<lparr>f_conn := demo_conn, f_method := EC_COAP_GET, f_resp_code := EC_CONTENT, f_is_sep := True\<rparr>,
      sv_req = Some demo_req, sv_res = Some demo_res, sv_octrl = None, sv_parent = True,
      sv_t_coap = \<lparr>retries_left = 4, evti = Some True, tout = (2, 0)\<rparr>, sv_t_resched = timer_zero\<rparr>"

definition demo_cb :: server_cb where
  "demo_cb = (\<lambda>flow req res r. (EC_CBRC_READY, (0, 0), [U_set_code EC_CONTENT]))"

definition demo_engine :: "(string \<times> nat) list srv_st" where
  "demo_engine = \<lparr>w_tick = 1, w_sent = [], d_map = [], d_recvd = (\<lambda>_. None), d_next = 0,
     ob_list = [], ob_heap = (\<lambda>_. None), sv_list = [0], sv_heap = [0 \<mapsto> demo_srv], sv_packs = [(0, demo_cb)],
     resources = [], fallback = None, s_cfg = \<lparr>block_is_stateless = True, block_szx = 0\<rparr>\<rparr>"

lemma demo_engine_ok: "engine_ok demo_env {} demo_engine"
  by (simp add: engine_ok_def dups_ok_def store_ok_def obs_ok_def srvs_ok_def cbs_ok_def demo_engine_def srv_ok_def
      demo_srv_def ec_flow_init_def timer_ok_def at_rest_def cb_ok_def demo_cb_def)

lemma demo_engine_sel [simp]:
  "sv_heap demo_engine = [0 \<mapsto> demo_srv]" "sv_packs demo_engine = [(0, demo_cb)]" "w_sent demo_engine = []"
  by (simp_all add: demo_engine_def)

lemma demo_srv_sel [simp]:
  "sv_t_coap demo_srv = \<lparr>retries_left = 4, evti = Some True, tout = (2, 0)\<rparr>" "sv_state demo_srv = EC_SRV_STATE_WAIT_ACK"
  by (simp_all add: demo_srv_def)

subsection \<open>Safety\<close>

text \<open>Whatever the events so far, the next one - a datagram with arbitrary bytes, a timer, a
  rescheduled callback of a live transaction, the countdown of an observation, an expired
  duplicate record, a wake-up - never makes the process exit, never touches freed memory and
  never dereferences NULL: reading or writing past the end of an array while decoding a
  datagram is the only thing that can go wrong. It leaves the invariant intact.\<close>

theorem engine_safe:
  assumes "srv_reachable e s0 s" and "hmap_laws e" and "engine_ok e {} s0" and "srv_enabled ev s"
  shows "(\<exists>s'. srv_exec e ev s = Done s' \<and> engine_ok e {} s') \<or> srv_exec e ev s \<in> {Fault Overread, Fault Overwrite}"
  using srv_events.event_safe [OF assms(1) _ assms(4)] assms(2,3) by auto

theorem engine_safe_witness:
  "(\<exists>s'. srv_exec demo_env (Ev_timer 0) demo_engine = Done s' \<and> engine_ok demo_env {} s') \<or>
   srv_exec demo_env (Ev_timer 0) demo_engine \<in> {Fault Overread, Fault Overwrite}"
  by (rule engine_safe [OF reach_init demo_env_laws(1) demo_engine_ok]) (simp add: timer_pending_def)

text \<open>C18: Between two events every live transaction is listed exactly once, waits for its callback
  or for an acknowledgement, and has a retransmission timer only in the latter case; and
  every listed transaction is live.\<close>

theorem engine_at_rest:
  assumes "srv_reachable e s0 s" and "hmap_laws e" and "engine_ok e {} s0"
  shows "distinct (sv_list s) \<and> set (sv_list s) = {a. sv_heap s a \<noteq> None} \<and>
    (\<forall>srv \<in> ran (sv_heap s). sv_state srv \<in> {EC_SRV_STATE_ACK_SENT, EC_SRV_STATE_WAIT_ACK} \<and>
       (evti (sv_t_coap srv) = None \<or> sv_state srv = EC_SRV_STATE_WAIT_ACK) \<and> f_token_sz (sv_flow srv) \<le> 8)"
proof -
  have w: "srvs_ok {} s" using inv_parts(3) [OF srv_reachable_inv [OF assms]] .
  have "sv_state srv \<in> {EC_SRV_STATE_ACK_SENT, EC_SRV_STATE_WAIT_ACK} \<and>
       (evti (sv_t_coap srv) = None \<or> sv_state srv = EC_SRV_STATE_WAIT_ACK) \<and> f_token_sz (sv_flow srv) \<le> 8 \<and> a \<in> set (sv_list s)"
    if "sv_heap s a = Some srv" for a srv
    using w that unfolding srvs_ok_def by (auto simp: srv_ok_def at_rest_def timer_ok_def)
  with w show ?thesis unfolding srvs_ok_def ran_def by blast
qed

theorem engine_at_rest_witness:
  "distinct (sv_list demo_engine) \<and> set (sv_list demo_engine) = {a. sv_heap demo_engine a \<noteq> None} \<and>
    sv_state demo_srv \<in> {EC_SRV_STATE_ACK_SENT, EC_SRV_STATE_WAIT_ACK} \<and> f_token_sz (sv_flow demo_srv) \<le> 8"
  using engine_at_rest [OF reach_init demo_env_laws(1) demo_engine_ok] by simp

subsection \<open>Retransmission\<close>

text \<open>A final state releases the transaction and sends nothing.\<close>

lemma set_final:
  "ec_server_set_state e a x t = Done t' \<Longrightarrow> ec_server_state_is_final x \<Longrightarrow> sv_heap t' a = None \<and> w_sent t' = w_sent t"
  by (cases "sv_heap t a") (auto simp: ec_server_set_state_def get_srv_def srv_state_timers_def ec_server_state_is_final_def
      ec_server_free_def Let_def split: if_splits)

text \<open>Sending a response changes nothing of the transaction but its response PDU.\<close>

lemma pdu_send_heap: "ec_pdu_send e p f d s = Done (rc, s') \<Longrightarrow> sv_heap s' = sv_heap s"
  by (rule obs_step_keeps(2) [OF base_obs_step [OF base_step_pdu_send]])

lemma send_resp_heap:
  assumes "sv_heap s a = Some srv" and "ec_server_send_resp e a s = Done (rc, s')"
  shows "\<exists>r. sv_heap s' = (sv_heap s)(a \<mapsto> srv\<lparr>sv_res := r\<rparr>)"
proof (cases "sv_res srv")
  case None
  with assms have "sv_heap s' = (sv_heap s)(a \<mapsto> srv\<lparr>sv_res := None\<rparr>)"
    by (auto simp: ec_server_send_resp_def get_srv_def fun_upd_idem)
  then show ?thesis by blast
next
  case (Some res)
  obtain c res' s1 where e: "encode_resp e srv res s = (c, res', s1)" by (metis prod_cases3)
  have h: "sv_heap s1 = sv_heap s"
    using obs_step_keeps(2) [OF base_obs_step [OF ticked_base_step [OF ticked_encode_resp [OF e]]]] .
  let ?s = "put_srv a (srv\<lparr>sv_res := Some res'\<rparr>) s1"
  have "sv_heap s' = sv_heap ?s"
    using assms Some e
    by (auto simp: ec_server_send_resp_def get_srv_def Let_def split: if_splits dest!: pdu_send_heap)
  with h show ?thesis by auto
qed

lemma send_resp_sent:
  assumes "busy e a l st s" and "ec_server_send_resp e a s = Done (rc, s')"
  shows "length (w_sent s') \<le> length (w_sent s) + 1"
proof -
  obtain srv where s: "sv_heap s a = Some srv" "get_srv a s = Done srv" using busyE [OF assms(1)] by blast
  show ?thesis
  proof (cases "sv_res srv")
    case None
    with s assms(2) show ?thesis by (auto simp: ec_server_send_resp_def)
  next
    case (Some res)
    obtain c res' s1 where e: "encode_resp e srv res s = (c, res', s1)" by (metis prod_cases3)
    let ?s = "put_srv a (srv\<lparr>sv_res := Some res'\<rparr>) s1"
    have "dups_ok e s" using busy_parts(1) [OF assms(1)] .
    then have "dups_ok e ?s" using ticked_dups [OF ticked_encode_resp [OF e]] by simp
    from ec_pdu_send_ok [OF this, of res' "sv_flow srv" True] obtain c2 s2 where
      p: "ec_pdu_send e res' (sv_flow srv) True ?s = Done (c2, s2)" "length (w_sent s2) \<le> length (w_sent ?s) + 1"
      by (auto split: if_splits)
    have "w_sent ?s = w_sent s" using ticked_keeps(2) [OF ticked_encode_resp [OF e]] by simp
    with assms(2) s Some e p show ?thesis by (auto simp: ec_server_send_resp_def Let_def split: if_splits)
  qed
qed

text \<open>One firing of the retransmission timer when events can be created.\<close>

lemma timer_fires_step:
  assumes "engine_ok e {} s" and "sv_heap s a = Some srv" and "timer_pending (sv_t_coap srv)" and "\<And>t. e_ev_ok e t"
  shows "\<exists>s'. srv_timer_fires e a s = Done s' \<and> engine_ok e {} s' \<and> length (w_sent s') \<le> length (w_sent s) + 1 \<and>
    (retries_left (sv_t_coap srv) = 0 \<longrightarrow> sv_heap s' a = None \<and> w_sent s' = w_sent s) \<and>
    (sv_heap s' a = None \<or> (\<exists>srv'. sv_heap s' a = Some srv' \<and> timer_pending (sv_t_coap srv') \<and>
       retries_left (sv_t_coap srv) = Suc (retries_left (sv_t_coap srv')) \<and>
       fst (tout (sv_t_coap srv')) = 2 * fst (tout (sv_t_coap srv))))"
proof -
  obtain s' where d: "srv_timer_fires e a s = Done s'" "engine_ok e {} s'"
    using post_timer_fires [OF assms(1-3)] unfolding post_Done_iff by blast
  note b = rest_busy [OF assms(1,2)]
  have ok: "timer_ok srv" using busyE [OF b(1)] assms(2) by (metis option.inject)
  then have st: "sv_state srv = EC_SRV_STATE_WAIT_ACK"
    using b(2) assms(3) by (auto simp: timer_ok_def timer_pending_def)
  define srv1 where "srv1 = srv\<lparr>sv_t_coap := timer_fired (sv_t_coap srv)\<rparr>"
  have eq: "srv_timer_fires e a s = ec_srv_coap_timeout e a (put_srv a srv1 s)"
    using assms(2) by (simp add: srv_timer_fires_def get_srv_def srv1_def)
  have st1: "sv_state srv1 = EC_SRV_STATE_WAIT_ACK" using st by (simp add: srv1_def)
  show ?thesis
  proof (cases "retries_left (sv_t_coap srv)")
    case 0
    then have "ec_server_set_state e a EC_SRV_STATE_RESP_ACK_TIMEOUT (put_srv a srv1 s) = Done s'"
      using d(1) by (simp add: eq ec_srv_coap_timeout_def get_srv_def srv1_def timer_fired_def)
    from set_final [OF this] d 0 show ?thesis by (simp add: ec_server_state_is_final_def)
  next
    case (Suc n)
    define srv2 where "srv2 = srv1\<lparr>sv_state := EC_SRV_STATE_COAP_RETRY\<rparr>"
    define s2 where "s2 = put_srv a srv2 s"
    have set2: "ec_server_set_state e a EC_SRV_STATE_COAP_RETRY (put_srv a srv1 s) = Done s2"
      using st1 by (simp add: ec_server_set_state_def get_srv_def srv_state_timers_def ec_server_state_is_final_def srv2_def s2_def)
    have b2: "busy e a True EC_SRV_STATE_COAP_RETRY s2"
      unfolding s2_def by (rule busyE [OF b(1)], rule busy_put [OF b(1)])
        (use assms(2) in \<open>auto simp: srv2_def srv1_def timer_ok_def timer_fired_def\<close>)
    obtain rc s3 where sr: "ec_server_send_resp e a s2 = Done (rc, s3)"
      using post_send_resp [OF b2] unfolding post_Done_iff by auto
    obtain r where h3: "sv_heap s3 = (sv_heap s2)(a \<mapsto> srv2\<lparr>sv_res := r\<rparr>)"
      using send_resp_heap [OF _ sr, of srv2] by (auto simp: s2_def)
    have sent: "length (w_sent s3) \<le> length (w_sent s) + 1" using send_resp_sent [OF b2 sr] by (simp add: s2_def)
    have go: "srv_timer_fires e a s = (if rc = C_ERR then ec_server_set_state e a EC_SRV_STATE_INTERNAL_ERR s3
           else ec_server_set_state e a EC_SRV_STATE_WAIT_ACK s3)"
      using Suc set2 sr by (simp add: eq ec_srv_coap_timeout_def get_srv_def) (simp add: srv1_def timer_fired_def)
    show ?thesis
    proof (cases rc)
      case C_ERR
      then have "ec_server_set_state e a EC_SRV_STATE_INTERNAL_ERR s3 = Done s'" using go d(1) by simp
      from set_final [OF this] d Suc sent show ?thesis by (simp add: ec_server_state_is_final_def)
    next
      case C_OK
      define srv4 where "srv4 = srv2\<lparr>sv_res := r,
        sv_t_coap := (sv_t_coap srv2)\<lparr>tout := (2 * fst (tout (sv_t_coap srv)), snd (tout (sv_t_coap srv))),
          retries_left := n, evti := Some True\<rparr>, sv_state := EC_SRV_STATE_WAIT_ACK\<rparr>"
      have "ec_server_set_state e a EC_SRV_STATE_WAIT_ACK s3 = Done (put_srv a srv4 (tick (tick s3)))"
        using Suc assms(4) h3
        by (simp add: ec_server_set_state_def get_srv_def srv_state_timers_def ec_srv_restart_coap_timer_def Let_def
            ec_timer_restart_def srv2_def srv1_def srv4_def timer_fired_def ec_server_state_is_final_def mult.commute)
      then have s': "s' = put_srv a srv4 (tick (tick s3))" using go C_OK d(1) by simp
      have "length (w_sent s') \<le> length (w_sent s) + 1" using sent by (simp add: s')
      moreover have "timer_pending (sv_t_coap srv4)" "retries_left (sv_t_coap srv4) = n"
        "fst (tout (sv_t_coap srv4)) = 2 * fst (tout (sv_t_coap srv))" by (simp_all add: srv4_def timer_pending_def)
      ultimately show ?thesis using d Suc by (auto simp: s')
    qed
  qed
qed

text \<open>The retransmission timer of a transaction, and a client that never answers it.\<close>

definition srv_timer :: "nat \<Rightarrow> ('m, 'z) srv_st_scheme \<Rightarrow> ec_timer option" where
  "srv_timer a s = map_option sv_t_coap (sv_heap s a)"

interpretation srv_retry: retransmitter "srv_timer_fires e a" "srv_timer a" "\<lambda>s. length (w_sent s)"
    "\<lambda>s. sv_heap s a = None" "\<lambda>s. engine_ok e {} s \<and> (\<forall>t. e_ev_ok e t)"
  for e :: "'m env" and a :: nat
proof
  fix s :: "('m, 'z) srv_st_scheme" and ti
  show "sv_heap s a = None \<Longrightarrow> srv_timer a s = Some ti \<Longrightarrow> \<not> timer_pending ti" by (simp add: srv_timer_def)
  assume ok: "engine_ok e {} s \<and> (\<forall>t. e_ev_ok e t)" and ti: "srv_timer a s = Some ti" "timer_pending ti"
  then obtain srv where "sv_heap s a = Some srv" "ti = sv_t_coap srv" by (auto simp: srv_timer_def)
  with timer_fires_step [of e s a srv] ok ti(2)
  show "\<exists>s'. srv_timer_fires e a s = Done s' \<and> (engine_ok e {} s' \<and> (\<forall>t. e_ev_ok e t)) \<and>
      length (w_sent s') \<le> length (w_sent s) + 1 \<and>
      (retries_left ti = 0 \<longrightarrow> sv_heap s' a = None \<and> length (w_sent s') = length (w_sent s)) \<and>
      (sv_heap s' a = None \<or> backs_off ti (srv_timer a s'))"
    by (auto simp: backs_off_def srv_timer_def)
qed

text \<open>C19: A client that never acknowledges a separate response costs a bounded effort: at most four
  retransmissions, and the transaction is released at most 62 seconds after the response
  (2 + 4 + 8 + 16 + 32), whatever happens to the datagrams.\<close>

theorem retransmission_bounded:
  assumes "engine_ok e {} s" and "sv_heap s a = Some srv" and "sv_t_coap srv = \<lparr>retries_left = 4, evti = Some True, tout = (2, 0)\<rparr>"
    and "\<And>t. e_ev_ok e t"
  shows "\<exists>t s'. silence (srv_timer_fires e a) (srv_timer a) 5 s = Done (t, s') \<and> sv_heap s' a = None \<and> t \<le> 62 \<and>
    length (w_sent s') \<le> length (w_sent s) + 4 \<and> engine_ok e {} s'"
proof -
  have "srv_timer a s = Some (sv_t_coap srv)" "timer_pending (sv_t_coap srv)" "retries_left (sv_t_coap srv) = 4"
    using assms(2,3) by (simp_all add: srv_timer_def timer_pending_def)
  from srv_retry.silence_bound [OF conjI [OF assms(1) allI [OF assms(4)]] this] assms(3) show ?thesis
    by (auto simp del: silence.simps)
qed

theorem retransmission_bounded_witness:
  "\<exists>t s'. silence (srv_timer_fires demo_env 0) (srv_timer 0) 5 demo_engine = Done (t, s') \<and> sv_heap s' 0 = None \<and> t \<le> 62 \<and>
    length (w_sent s') \<le> 4 \<and> engine_ok demo_env {} s'"
  using retransmission_bounded [OF demo_engine_ok, of 0 demo_srv] by simp

subsection \<open>Where the server goes wrong\<close>

text \<open>C37: A transaction that is reset by its client while its callback is still to be
  rescheduled is released, but its rescheduling event is not removed: when libevent fires
  it, the callback runs on freed memory.\<close>

theorem reset_leaves_callback:
  assumes "engine_ok e {} s" and "i < length (sv_packs s)" and "sv_heap s (fst (sv_packs s ! i)) \<noteq> None"
  shows "\<exists>s'. ec_server_set_state e (fst (sv_packs s ! i)) EC_SRV_STATE_CLIENT_RST s = Done s' \<and> sv_packs s' = sv_packs s \<and>
    engine_ok e {} s' \<and> resched_userfn e (sv_packs s' ! i) s' = Fault Use_after_free"
proof -
  let ?a = "fst (sv_packs s ! i)"
  obtain srv where srv: "sv_heap s ?a = Some srv" using assms(3) by auto
  obtain s' where s': "ec_server_set_state e ?a EC_SRV_STATE_CLIENT_RST s = Done s'" "engine_ok e {} s'" "sv_heap s' ?a = None"
    using post_finish [OF rest_busy(1) [OF assms(1) srv], of EC_SRV_STATE_CLIENT_RST]
    unfolding post_Done_iff by (auto simp: ec_server_state_is_final_def)
  then have "sv_packs s' = sv_packs s"
    using srv by (auto simp: ec_server_set_state_def get_srv_def srv_state_timers_def ec_server_state_is_final_def ec_server_free_def)
  with s' show ?thesis by (simp add: resched_userfn_def ec_server_userfn_def get_srv_def)
qed

theorem reset_leaves_callback_witness:
  "\<exists>s'. ec_server_set_state demo_env 0 EC_SRV_STATE_CLIENT_RST demo_engine = Done s' \<and>
    resched_userfn demo_env (0, demo_cb) s' = Fault Use_after_free"
  using reset_leaves_callback [OF demo_engine_ok, of 0] by fastforce

text \<open>A separate response that already has a MID is encoded with an unspecified one: the
  retransmission of a response does not carry the MID of the original, which is still the one
  the transaction is looked up by.\<close>

theorem retransmission_mid:
  assumes "EC_PDU_MID pdu \<noteq> 0" and "ec_pdu_encode_response_separate e pdu flow w = (C_OK, pdu', w')"
  shows "EC_PDU_MID pdu' = EC_PDU_MID pdu \<and>
    (\<exists>h. header_of (e_le e) (p_hdr pdu' @ rest) = Some h \<and> h_mid h = e_junk16 e (w_tick w))"
proof -
  obtain c where c: "ec_conn_get_confirmable (f_conn flow) = Some c"
    using assms(2) by (cases "ec_conn_get_confirmable (f_conn flow)") (auto simp: ec_pdu_encode_response_separate_def Let_def)
  with assms have "encode_response (e_le e) pdu flow (if c then EC_COAP_CON else EC_COAP_NON) (f_resp_code flow) (e_junk16 e (w_tick w)) = (C_OK, pdu')"
    by (auto simp: ec_pdu_encode_response_separate_def Let_def split: prod.splits)
  from encode_response_header [OF this] show ?thesis by fastforce
qed

lemma demo_encode_separate:
  "\<exists>pdu' w'. ec_pdu_encode_response_separate demo_env demo_req (ec_flow_init\<lparr>f_conn := demo_conn\<rparr>) demo_base = (C_OK, pdu', w')"
  by (simp add: ec_pdu_encode_response_separate_def demo_req_def ec_pdu_new_empty_def demo_conn_def ec_conn_get_confirmable_def
      encode_response_def ec_flow_init_def)

theorem retransmission_mid_witness:
  "\<exists>pdu' w' h. ec_pdu_encode_response_separate demo_env demo_req (ec_flow_init\<lparr>f_conn := demo_conn\<rparr>) demo_base = (C_OK, pdu', w') \<and>
    EC_PDU_MID pdu' = 0x1234 \<and> header_of True (p_hdr pdu' @ []) = Some h \<and> h_mid h = 0xdead"
proof -
  obtain pdu' w' where d: "ec_pdu_encode_response_separate demo_env demo_req (ec_flow_init\<lparr>f_conn := demo_conn\<rparr>) demo_base = (C_OK, pdu', w')"
    using demo_encode_separate by blast
  have "EC_PDU_MID demo_req = 0x1234" by (simp add: demo_req_def)
  with retransmission_mid [OF _ d, of "[]"] d show ?thesis by auto
qed

text \<open>Without a response PDU nothing is sent.\<close>

lemma reply_silent:
  assumes "sv_heap s a = Some srv" and "sv_res srv = None"
  shows "\<exists>flow. ec_server_reply e a c None 0 s = Done (C_ERR, put_srv a (srv\<lparr>sv_flow := flow\<rparr>) s) \<or>
    ec_server_reply e a c None 0 s = Done (C_ERR, s)"
  using assms by (auto simp: ec_server_reply_def get_srv_def ec_flow_set_resp_code_def ec_server_send_resp_def Let_def)

lemma fail_silent:
  assumes "busy e a l st s" and "sv_heap s a = Some srv" and "sv_res srv = None"
  shows "\<exists>s'. srv_fail e a c s = Done (EC_NET_CBRC_ERROR, s') \<and> sv_heap s' a = None \<and> w_sent s' = w_sent s"
proof -
  have kill: "\<exists>t'. ec_server_set_state e a EC_SRV_STATE_INTERNAL_ERR t = Done t' \<and> sv_heap t' a = None \<and> w_sent t' = w_sent t"
    if "sv_heap t a = Some x" for t x
    using that by (auto simp: ec_server_set_state_def get_srv_def srv_state_timers_def ec_server_state_is_final_def
        ec_server_free_def Let_def)
  obtain flow where "ec_server_reply e a (if c \<noteq> EC_RC_UNSET then c else EC_INTERNAL_SERVER_ERROR) None 0 s =
      Done (C_ERR, put_srv a (srv\<lparr>sv_flow := flow\<rparr>) s) \<or>
    ec_server_reply e a (if c \<noteq> EC_RC_UNSET then c else EC_INTERNAL_SERVER_ERROR) None 0 s = Done (C_ERR, s)"
    using reply_silent [OF assms(2,3)] by blast
  then show ?thesis
    using kill [of "put_srv a (srv\<lparr>sv_flow := flow\<rparr>) s"] kill [of s] assms(2) by (auto simp: srv_fail_def)
qed

text \<open>A request whose options cannot be decoded is answered with silence: the response code is
  computed (4.02 for an unknown critical option) and \<open>ec_server_reply\<close> is called, but the
  response PDU does not exist yet, so nothing is sent and the transaction is dropped.\<close>

theorem bad_options_unanswered:
  assumes "busy e a l st s" and "sv_heap s a = Some srv" and "sv_res srv = None" and "h_oc (p_hdr_bits pdu) \<noteq> 0"
    and "ec_opts_decode (p_opts pdu) raw raw_sz (unat (h_oc (p_hdr_bits pdu))) = Done (rc, opts, olen)" and "rc \<noteq> EC_RC_UNSET"
  shows "\<exists>s'. srv_request e a pdu raw raw_sz s = Done (EC_NET_CBRC_ERROR, s') \<and> sv_heap s' a = None \<and> w_sent s' = w_sent s"
  using fail_silent [OF assms(1-3), of rc] assms(4-6) by (simp add: srv_request_def Let_def)

definition demo_new :: "(string \<times> nat) list srv_st" where
  "demo_new = snd (ec_server_new demo_engine)"

lemma demo_new_busy: "busy demo_env 1 False EC_SRV_STATE_NONE demo_new"
  by (rule post_new [OF demo_engine_ok]) (simp add: demo_new_def ec_server_new_def demo_engine_def)

lemma demo_new_srv: "\<exists>srv. sv_heap demo_new 1 = Some srv \<and> sv_res srv = None"
  by (simp add: demo_new_def ec_server_new_def demo_engine_def)

definition demo_get :: ec_pdu where
  "demo_get = demo_req\<lparr>p_hdr_bits := \<lparr>h_t = EC_COAP_CON, h_oc = 2, h_code = 1, h_mid = 0x1234\<rparr>\<rparr>"

lemma demo_bad_option: "ec_opts_decode (p_opts demo_get) [0x42, 1, 0x12, 0x34, 0xe0, 0xb0] 6 (unat (h_oc (p_hdr_bits demo_get))) =
  Done (EC_BAD_OPTION, ec_opts_init, 0)"
  by (simp add: demo_get_def demo_req_def ec_pdu_new_empty_def)
    code_simp

theorem bad_options_unanswered_witness:
  "\<exists>s'. srv_request demo_env 1 demo_get [0x42, 1, 0x12, 0x34, 0xe0, 0xb0] 6 demo_new = Done (EC_NET_CBRC_ERROR, s') \<and>
    w_sent s' = w_sent demo_new"
proof -
  obtain srv where "sv_heap demo_new 1 = Some srv" "sv_res srv = None" using demo_new_srv by blast
  from bad_options_unanswered [OF demo_new_busy this _ demo_bad_option] show ?thesis
    by (auto simp: demo_get_def)
qed

text \<open>A message with one Token option and nothing else.\<close>

lemma decode_token:
  assumes "raw = h @ [0xb0 OR of_nat n] @ tok" and "length h = EC_COAP_HDR_SIZE" and "length tok = n" and "0 < n" and "n \<le> 14"
  shows "\<exists>opts t. ec_opts_decode ec_opts_init raw (length raw) 1 = Done (EC_RC_UNSET, opts, n + 1) \<and>
    ec_opts_get opts EC_OPT_TOKEN = Some t \<and> o_v t \<noteq> None \<and> o_l t = n"
proof -
  define b :: byte where "b = 0xb0 OR of_nat n"
  have b: "unat b = 16 * 11 + n"
    using unat_shift_or [of 11 n] assms(5) by (simp add: b_def)
  have hi: "unat (drop_bit 4 b) = 11" and lo: "unat (b AND 15) = n"
  proof -
    have "(16 * 11 + n) div 16 = 11" "(16 * 11 + n) mod 16 = n" using assms(5) by presburger+
    then show "unat (drop_bit 4 b) = 11" "unat (b AND 15) = n"
      by (simp_all only: unat_drop_bit4 unat_and_15 b)
  qed
  have sy: "ec_opt_num2sym 11 = EC_OPT_TOKEN" by code_simp
  have raw: "raw = h @ b # tok" using assms(1) by (simp add: b_def)
  have r: "raw ! 4 = b" "length raw = 5 + n" "drop 5 raw = tok" unfolding raw using assms(2,3) by (simp_all add: nth_append)
  obtain opts where a: "ec_opts_add ec_opts_init EC_OPT_TOKEN tok n = (C_OK, opts)"
    using ec_opts_add_ok_iff [of ec_opts_init EC_OPT_TOKEN tok n] assms(5) token_type
    by (cases "ec_opts_add ec_opts_init EC_OPT_TOKEN tok n") (simp add: ec_opts_init_def)
  then obtain o' where o: "ec_opt_new EC_OPT_TOKEN n tok = Some o'"
    "opts = ec_opts_init\<lparr>opts_bundle := bundle_insert o' (opts_bundle ec_opts_init), noptions := noptions ec_opts_init + 1\<rparr>"
    by (rule ec_opts_add_Some)
  have o': "o_sym o' = EC_OPT_TOKEN" "o_l o' = n" "o_v o' \<noteq> None"
    using o(1) assms(4) token_type by (auto simp: ec_opt_new_def split: if_splits)
  have g: "ec_opts_get opts EC_OPT_TOKEN = Some o'"
    using o(2) o' by (simp add: ec_opts_get_def ec_opts_get_nth_def ec_opts_init_def bundle_insert_def)
  have "decode_one raw EC_COAP_HDR_SIZE 0 ec_opts_init = Done (Dec_next (5 + n) 11 opts)"
    using r hi lo sy a assms(4,5)
    by (simp add: decode_one_def read_byte_def read_opt_len_def opt_known_def Let_def)
  then show ?thesis
    using r g o'(2,3) by (simp add: ec_opts_decode_def)
qed

text \<open>A request may carry a Token of 9 to 14 bytes (the decoder accepts up to 270): it is copied
  into the 8-byte array of the flow, past its end.\<close>

theorem long_token_overflows:
  assumes "busy e a l EC_SRV_STATE_NONE s" and "raw = h @ [0xb0 OR of_nat n] @ tok" and "length h = EC_COAP_HDR_SIZE"
    and "length tok = n" and "8 < n" and "n \<le> 14"
    and "p_opts pdu = ec_opts_init" and "h_oc (p_hdr_bits pdu) = 1" and "EC_IS_METHOD (unat (h_code (p_hdr_bits pdu)))"
  shows "srv_request e a pdu raw (length raw) s = Fault Overwrite"
proof -
  obtain opts t where d: "ec_opts_decode ec_opts_init raw (length raw) 1 = Done (EC_RC_UNSET, opts, n + 1)"
    "ec_opts_get opts EC_OPT_TOKEN = Some t" "o_v t \<noteq> None" "o_l t = n"
    using decode_token [OF assms(2-4)] assms(5,6) by auto
  obtain srv where g: "get_srv a s = Done srv" using busyE [OF assms(1)] by blast
  have "length raw = 5 + n" using assms(2-4) by simp
  then have "srv_payload e (pdu\<lparr>p_opts := opts\<rparr>) raw (length raw) (n + 1) = Done (pdu\<lparr>p_opts := opts\<rparr>)"
    using assms(6) by (simp add: srv_payload_def Let_def size_sub_def)
  then show ?thesis
    using d g assms(5,7-9)
    by (auto simp: srv_request_def Let_def ec_flow_set_method_def ec_flow_save_token_def)
qed

theorem long_token_overflows_witness:
  "srv_request demo_env 1 (demo_get\<lparr>p_hdr_bits := \<lparr>h_t = 0, h_oc = 1, h_code = 1, h_mid = 3\<rparr>\<rparr>)
     ([0x41, 1, 0, 3] @ [0xb0 OR of_nat 9] @ replicate 9 7) (length ([0x41, 1, 0, 3] @ [0xb0 OR of_nat 9 :: byte] @ replicate 9 7)) demo_new =
   Fault Overwrite"
  by (rule long_token_overflows [OF demo_new_busy refl])
    (simp_all add: demo_get_def demo_req_def ec_pdu_new_empty_def EC_IS_METHOD_def)

end
