(* ===== verification/Srv_Answers.thy ===== *)
theory Srv_Answers
  imports Srv_Props
begin

text \<open>
  What the server answers to a request that matches no resource, and to one whose callback answers at
  once: from the callback lookup to the bytes of the datagram, and to what the duplicate cache keeps of it.
\<close>

subsection \<open>Answers\<close>

text \<open>A response whose only option will be the token is always encoded.\<close>

lemma encode_token_only:
  assumes "p_opts res = ec_opts_init" and "f_token_sz flow \<le> 8" and "length (f_token flow) = 8"
  shows "\<exists>res'. encode_response le res flow t c mid = (C_OK, res') \<and> p_payload res' = p_payload res \<and>
    p_payload_sz res' = p_payload_sz res \<and> noptions (p_opts res') \<le> 15"
proof -
  have init: "readable ec_opts_init" by (simp add: readable_def ec_opts_init_def wf_opts_def)
  have enc: "\<exists>opts'. ec_opts_encode opts = (C_OK, opts') \<and> noptions opts' \<le> 15" if "readable opts" "length (opts_bundle opts) \<le> 1" for opts
  proof -
    have l: "\<forall>o' \<in> set (opts_bundle opts). length (opt_bytes o') = o_l o' \<and> o_l o' \<le> 270"
      using that(1) by (auto simp: readable_def readable_opt_def full_opt_def wf_opt_def)
    have "length (wire_of opts) \<le> sum_list (map (\<lambda>o'. 3 + o_l o') (opts_bundle opts))"
      using length_wire_opts_le l by (simp add: wire_of_def)
    also have "\<dots> \<le> 273" using that(2) l by (cases "opts_bundle opts") auto
    finally have "length (wire_of opts) \<le> EC_OPTS_MAX_LEN" by (simp add: EC_OPTS_MAX_LEN_def)
    moreover have "wire_count 0 (opts_bundle opts) \<le> 15"
      using that(2) by (cases "opts_bundle opts") (auto simp: fencepost_bytes_def)
    ultimately show ?thesis using ec_opts_encode_sendable [OF readable_sendable [OF that(1)]] by simp
  qed
  have tok: "\<exists>opts. (if f_token_sz flow \<noteq> 0 then ec_opts_add_token ec_opts_init (f_token flow) (f_token_sz flow)
      else (C_OK, ec_opts_init)) = (C_OK, opts) \<and> length (opts_bundle opts) \<le> 1"
  proof (cases "f_token_sz flow = 0")
    case True
    then show ?thesis by (simp add: ec_opts_init_def)
  next
    case False
    obtain opts where a: "ec_opts_add ec_opts_init EC_OPT_TOKEN (f_token flow) (f_token_sz flow) = (C_OK, opts)"
      using ec_opts_add_ok_iff [of ec_opts_init EC_OPT_TOKEN "f_token flow" "f_token_sz flow"] assms(2) token_type
      by (cases "ec_opts_add ec_opts_init EC_OPT_TOKEN (f_token flow) (f_token_sz flow)") (simp add: ec_opts_init_def)
    then obtain o' where "opts = ec_opts_init\<lparr>opts_bundle := bundle_insert o' (opts_bundle ec_opts_init), noptions := noptions ec_opts_init + 1\<rparr>"
      by (rule ec_opts_add_Some)
    with a False assms(2) show ?thesis
      by (simp add: ec_opts_add_token_eq) (simp add: ec_opts_init_def bundle_insert_def)
  qed
  then obtain opts where o: "(if f_token_sz flow \<noteq> 0 then ec_opts_add_token ec_opts_init (f_token flow) (f_token_sz flow)
      else (C_OK, ec_opts_init)) = (C_OK, opts)" "length (opts_bundle opts) \<le> 1" by blast
  with token_added [OF init assms(3,2) o(1)] enc obtain opts' where "ec_opts_encode opts = (C_OK, opts')" "noptions opts' \<le> 15" by blast
  moreover have "noptions ec_opts_init = 0" by (simp add: ec_opts_init_def)
  ultimately show ?thesis using o(1) assms(1)
    by (cases "t \<noteq> EC_COAP_RST \<and> c \<noteq> EC_RC_UNSET") (simp_all only: encode_response_def prod.case crc.case if_True if_False, auto)
qed

text \<open>The bytes of an acknowledgement with the payload \<open>pl\<close> and the token of \<open>flow\<close>.\<close>

definition answer_bytes :: "bool \<Rightarrow> ec_flow \<Rightarrow> ec_rc \<Rightarrow> u16 \<Rightarrow> byte list \<Rightarrow> byte list \<Rightarrow> bool" where
  "answer_bytes le flow rc mid pl bs \<longleftrightarrow>
     (\<exists>res res' fl. p_opts res = ec_opts_init \<and> gather (p_payload res) (p_payload_sz res) = pl \<and>
        f_token fl = f_token flow \<and> f_token_sz fl = f_token_sz flow \<and>
        encode_response le res fl EC_COAP_ACK rc mid = (C_OK, res') \<and> noptions (p_opts res') \<le> 15 \<and> bs = wire_bytes res')"

text \<open>Where an answer goes.\<close>

definition answerable :: "ec_flow \<Rightarrow> bool" where
  "answerable flow \<longleftrightarrow>
     length (f_token flow) = 8 \<and> ec_conn_get_confirmable (f_conn flow) = Some True \<and> \<not> f_is_sep flow \<and>
     \<not> c_is_multicast (f_conn flow) \<and> c_socket (f_conn flow) \<noteq> -1 \<and> ec_net_socklen (c_peer (f_conn flow)) \<noteq> None"

definition answer_sent :: "'m env \<Rightarrow> ec_flow \<Rightarrow> ec_rc \<Rightarrow> u16 \<Rightarrow> byte list \<Rightarrow> 'y world_scheme \<Rightarrow> 'z world_scheme \<Rightarrow> bool" where
  "answer_sent e flow rc mid pl s s' \<longleftrightarrow>
     (\<exists>d h. w_sent s' = w_sent s @ [d] \<and> dg_to d = c_peer (f_conn flow) \<and> dg_sd d = c_socket (f_conn flow) \<and>
        header_of (e_le e) (dg_bytes d) = Some h \<and> h_t h = EC_COAP_ACK \<and> h_mid h = mid \<and> h_code h = word_of_int rc \<and>
        answer_bytes (e_le e) flow rc mid pl (dg_bytes d))"

text \<open>Where the duplicate cache has a record of the request, the answer is kept there.\<close>

definition memdup_copies :: "'m env \<Rightarrow> bool" where
  "memdup_copies e \<longleftrightarrow> (\<forall>b n. n \<le> length b \<longrightarrow> e_memdup e (Some b) n = Some (take n b))"

definition kept :: "'m env \<Rightarrow> u16 \<Rightarrow> sockaddr \<Rightarrow> byte list \<Rightarrow> ('m, 'z) base_scheme \<Rightarrow> bool" where
  "kept e mid peer bs b \<longleftrightarrow>
     (\<exists>a r. ec_dups_search e mid peer b = Some a \<and> d_recvd b a = Some r \<and> ca_is_set (r_cached r) \<and>
        bs = take EC_COAP_HDR_SIZE (ca_hdr (r_cached r)) @ gather (ca_opts (r_cached r)) (ca_opts_sz (r_cached r)) @
          gather (ca_payload (r_cached r)) (ca_payload_sz (r_cached r)))"

definition answer_kept :: "'m env \<Rightarrow> ec_flow \<Rightarrow> u16 \<Rightarrow> ('m, 'y) base_scheme \<Rightarrow> ('m, 'z) base_scheme \<Rightarrow> bool" where
  "answer_kept e flow mid s s' \<longleftrightarrow>
     (ec_dups_search e mid (c_peer (f_conn flow)) s \<noteq> None \<longrightarrow>
        (\<exists>d. w_sent s' = w_sent s @ [d] \<and> kept e mid (c_peer (f_conn flow)) (dg_bytes d) s'))"

lemma same_dups_put [simp]: "same_dups (put_srv a srv s) s"
  by (simp add: same_dups_def put_srv_def)

lemma kept_same_dups: "same_dups b b' \<Longrightarrow> kept e mid peer bs b' \<Longrightarrow> kept e mid peer bs b"
  unfolding kept_def by (simp add: same_dups_search [of b b']) (simp add: same_dups_def)

lemma answer_kept_trans:
  "w_sent s1 = w_sent s \<Longrightarrow> same_dups s1 s \<Longrightarrow> w_sent s3 = w_sent s2 \<Longrightarrow> same_dups s3 s2 \<Longrightarrow> answer_kept e flow mid s1 s2 \<Longrightarrow>
   answer_kept e flow mid s s3"
  unfolding answer_kept_def by (metis kept_same_dups same_dups_search)

lemma send_kept:
  assumes "ec_pdu_send e pdu flow True b = Done (C_OK, b')" and "p_sibling pdu = Some (x, mid)" and "dups_ok e b"
    and "ec_dups_search e mid (ec_pdu_get_peer pdu flow) b \<noteq> None" and "memdup_copies e"
    and "enc_sz (p_opts pdu) \<le> length (enc (p_opts pdu))" and "p_payload pdu = Some pl" and "p_payload_sz pdu \<le> length pl"
  shows "kept e mid (ec_pdu_get_peer pdu flow)
    (take EC_COAP_HDR_SIZE (p_hdr pdu) @ gather (Some (enc (p_opts pdu))) (enc_sz (p_opts pdu)) @ gather (p_payload pdu) (p_payload_sz pdu)) b'"
proof -
  let ?peer = "ec_pdu_get_peer pdu flow"
  obtain rc b1 where s: "ec_net_send e (p_hdr pdu) (Some (enc (p_opts pdu))) (enc_sz (p_opts pdu)) (p_payload pdu)
      (p_payload_sz pdu) (c_socket (f_conn flow)) ?peer b = (rc, b1)" by fastforce
  have same: "same_dups b1 b" using same_dups_send s by (metis snd_conv)
  obtain a where a: "ec_dups_search e mid ?peer b = Some a" using assms(4) by blast
  obtain r where r: "d_recvd b a = Some r" using ec_dups_search_live [OF assms(3) a] by blast
  have a1: "ec_dups_search e mid ?peer b1 = Some a" "d_recvd b1 a = Some r"
    using same_dups_search [OF same] a r same by (simp_all add: same_dups_def)
  let ?r = "r\<lparr>r_cached := \<lparr>ca_is_set = True, ca_hdr = take 4 (p_hdr pdu), ca_opts = Some (take (enc_sz (p_opts pdu)) (enc (p_opts pdu))),
    ca_opts_sz = enc_sz (p_opts pdu), ca_payload = Some (take (p_payload_sz pdu) pl), ca_payload_sz = p_payload_sz pdu\<rparr>\<rparr>"
  have "b' = b1\<lparr>d_recvd := (d_recvd b1)(a \<mapsto> ?r)\<rparr>"
    using assms(1,2,5-8) s a1 by (simp add: ec_pdu_send_def Let_def ec_recvd_pdu_update_def memdup_copies_def)
  then have "ec_dups_search e mid ?peer b' = Some a" "d_recvd b' a = Some ?r"
    using a1(1) by (simp_all add: ec_dups_search_def split: option.splits)
  then show ?thesis unfolding kept_def using assms(7) by (intro exI [of _ a] exI [of _ ?r]) (simp add: gather_def)
qed

text \<open>A message whose answer is kept is answered with it, and nothing else happens.\<close>

lemma kept_replayed:
  assumes "kept e mid peer bs b" and "sd \<noteq> -1" and "ec_net_socklen peer \<noteq> None" and "e_send_ok e (w_tick b)"
  shows "ec_dups_handle_incoming_climsg e mid sd peer b =
    Done (1, (tick b)\<lparr>w_sent := w_sent b @ [\<lparr>dg_sd = sd, dg_to = peer, dg_bytes = bs\<rparr>]\<rparr>)"
  using assms by (auto simp: kept_def ec_dups_handle_incoming_climsg_def send_cached_def ec_net_send_def)

lemma encode_response_fits:
  assumes "encode_response le pdu flow t rc mid = (C_OK, pdu')" and "t \<noteq> EC_COAP_RST" and "rc \<noteq> EC_RC_UNSET" and "readable (p_opts pdu)"
    and "length (enc (p_opts pdu)) = EC_OPTS_MAX_LEN" and "length (f_token flow) = 8" and "f_token_sz flow \<le> 8"
  shows "enc_sz (p_opts pdu') \<le> length (enc (p_opts pdu')) \<and> length (enc (p_opts pdu')) = EC_OPTS_MAX_LEN \<and> p_sibling pdu' = p_sibling pdu"
proof -
  obtain opts1 where o1: "(if f_token_sz flow \<noteq> 0 then ec_opts_add_token (p_opts pdu) (f_token flow) (f_token_sz flow)
      else (C_OK, p_opts pdu)) = (C_OK, opts1)"
    using assms(1-3) by (auto simp: encode_response_def split: prod.splits crc.splits if_splits)
  then obtain opts2 where o2: "ec_opts_encode opts1 = (C_OK, opts2)"
    and p': "pdu' = encode_header le (pdu\<lparr>p_opts := opts2\<rparr>) (word_of_int rc) t mid"
    using assms(1-3) by (auto simp: encode_response_def split: prod.splits crc.splits)
  have ta: "readable opts1" "length (enc opts1) = EC_OPTS_MAX_LEN" using token_added [OF assms(4,6,7) o1] assms(5) by auto
  from encode_readable_fits [OF ta(1) o2 ta(2)] show ?thesis by (simp add: p' encode_header_def)
qed

text \<open>The response to a confirmable request goes out with its acknowledgement.\<close>

lemma piggyback_sent:
  assumes b: "busy e a False EC_SRV_STATE_REQ_OK s" and srv: "sv_heap s a = Some srv" "EC_IS_RESP_CODE (f_resp_code (sv_flow srv))"
    and req: "sv_req srv = Some req" and res: "sv_res srv = Some res" "p_opts res = ec_opts_init" "p_sibling res = None"
    and conn: "answerable (sv_flow srv)" and send: "\<And>t. e_send_ok e t"
  shows "\<exists>s'. ec_server_send_resp e a s = Done (C_OK, s') \<and> busy e a False EC_SRV_STATE_REQ_OK s' \<and>
    answer_sent e (sv_flow srv) (f_resp_code (sv_flow srv)) (EC_PDU_MID req) (gather (p_payload res) (p_payload_sz res)) s s' \<and>
    (\<forall>pl. p_payload res = Some pl \<and> p_payload_sz res \<le> length pl \<and> memdup_copies e \<longrightarrow> answer_kept e (sv_flow srv) (EC_PDU_MID req) s s')"
proof -
  let ?flow = "sv_flow srv" and ?rc = "f_resp_code (sv_flow srv)"
  have g: "get_srv a s = Done srv" "sv_state srv = EC_SRV_STATE_REQ_OK" "f_token_sz ?flow \<le> 8"
    using busyE [OF b] srv by (metis option.inject)+
  have con: "length (f_token ?flow) = 8" "ec_conn_get_confirmable (f_conn ?flow) = Some True" "\<not> f_is_sep ?flow"
    "\<not> c_is_multicast (f_conn ?flow)" "c_socket (f_conn ?flow) \<noteq> -1" "ec_net_socklen (c_peer (f_conn ?flow)) \<noteq> None"
    using conn by (simp_all add: answerable_def)
  let ?res1 = "res\<lparr>p_sibling := Some (p_addr req, EC_PDU_MID req)\<rparr>"
  obtain res' where e: "encode_response (e_le e) ?res1 ?flow EC_COAP_ACK ?rc (EC_PDU_MID req) = (C_OK, res')"
    "p_payload res' = p_payload res" "p_payload_sz res' = p_payload_sz res" "noptions (p_opts res') \<le> 15"
    using encode_token_only [of ?res1 ?flow "e_le e" EC_COAP_ACK ?rc "EC_PDU_MID req"] res(2) g(3) con(1) by auto
  have er: "encode_resp e srv res s = (C_OK, res', s)"
    using g(2) req con(2,3) res(3) e(1) srv(2)
    by (simp add: encode_resp_def ec_pdu_set_sibling_def ec_flow_get_separate_def ec_pdu_encode_response_piggyback_def Let_def)
  note eh = encode_response_header [OF e(1)]
  have "(EC_COAP_ACK :: byte) AND 3 = EC_COAP_ACK" by simp
  with eh have hd: "length (p_hdr res') = 4" "\<exists>h. header_of (e_le e) (p_hdr res' @ rest) = Some h \<and> h_t h = EC_COAP_ACK \<and>
      h_mid h = EC_PDU_MID req \<and> h_code h = word_of_int ?rc" for rest by fastforce+
  let ?s = "put_srv a (srv\<lparr>sv_res := Some res'\<rparr>) s"
  have d: "dups_ok e ?s" using busy_parts(1) [OF b] by simp
  obtain rc s' where p: "ec_pdu_send e res' ?flow True ?s = Done (rc, s')"
    "w_sent s' = w_sent ?s @ (if rc = C_OK then [\<lparr>dg_sd = c_socket (f_conn ?flow), dg_to = ec_pdu_get_peer res' ?flow,
      dg_bytes = take EC_COAP_HDR_SIZE (p_hdr res') @ gather (Some (enc (p_opts res'))) (enc_sz (p_opts res')) @
        gather (p_payload res') (p_payload_sz res')\<rparr>] else [])"
    using ec_pdu_send_ok [OF d, of res' ?flow True] by blast
  have peer: "ec_pdu_get_peer res' ?flow = c_peer (f_conn ?flow)" using con(4) by (simp add: ec_pdu_get_peer_def)
  have rc: "rc = C_OK" by (rule ec_pdu_send_rc [OF p(1)]) (use con(5,6) send peer in simp_all)
  have r: "ec_server_send_resp e a s = Done (C_OK, s')"
    using g(1) res(1) er p(1) rc by (simp add: ec_server_send_resp_def Let_def)
  have b3: "busy e a False EC_SRV_STATE_REQ_OK s'" using post_send_resp [OF b] by (simp add: r)
  have "answer_bytes (e_le e) ?flow ?rc (EC_PDU_MID req) (gather (p_payload res) (p_payload_sz res))
      (take EC_COAP_HDR_SIZE (p_hdr res') @ gather (Some (enc (p_opts res'))) (enc_sz (p_opts res')) @
        gather (p_payload res') (p_payload_sz res'))"
    unfolding answer_bytes_def
    by (rule exI [of _ ?res1], rule exI [of _ res'], rule exI [of _ ?flow]) (use e res hd(1) in \<open>simp add: wire_bytes_def gather_def\<close>)
  with p(2) rc peer hd have "answer_sent e ?flow ?rc (EC_PDU_MID req) (gather (p_payload res) (p_payload_sz res)) s s'"
    by (auto simp: answer_sent_def)
  moreover have "answer_kept e ?flow (EC_PDU_MID req) s s'"
    if k: "p_payload res = Some pl" "p_payload_sz res \<le> length pl" "memdup_copies e" for pl
    unfolding answer_kept_def
  proof
    assume "ec_dups_search e (EC_PDU_MID req) (c_peer (f_conn ?flow)) s \<noteq> None"
    then have s: "ec_dups_search e (EC_PDU_MID req) (ec_pdu_get_peer res' ?flow) ?s \<noteq> None"
      using peer by (simp add: same_dups_search [OF same_dups_put])
    have nr: "?rc \<noteq> EC_RC_UNSET" "readable (p_opts ?res1)" "length (enc (p_opts ?res1)) = EC_OPTS_MAX_LEN"
      using srv(2) res(2) by (auto simp: EC_IS_RESP_CODE_def readable_def wf_opts_init) (simp_all add: ec_opts_init_def)
    have f: "enc_sz (p_opts res') \<le> length (enc (p_opts res'))" "p_sibling res' = Some (p_addr req, EC_PDU_MID req)"
      using encode_response_fits [OF e(1) _ nr con(1) g(3)] by auto
    have pd: "p_payload res' = Some pl" "p_payload_sz res' \<le> length pl" using k(1,2) e(2,3) by simp_all
    show "\<exists>d. w_sent s' = w_sent s @ [d] \<and> kept e (EC_PDU_MID req) (c_peer (f_conn ?flow)) (dg_bytes d) s'"
      using send_kept [OF p(1) [unfolded rc] f(2) d s k(3) f(1) pd] p(2) rc peer by simp
  qed
  ultimately show ?thesis using r b3 by blast
qed

lemma answer_sent_trans: "w_sent s1 = w_sent s \<Longrightarrow> w_sent s3 = w_sent s2 \<Longrightarrow> answer_sent e flow rc mid pl s1 s2 \<Longrightarrow> answer_sent e flow rc mid pl s s3"
  by (simp add: answer_sent_def)

lemma answer_sent_code: "answer_sent e (flow\<lparr>f_resp_code := c\<rparr>) rc mid pl s s' \<longleftrightarrow> answer_sent e flow rc mid pl s s'"
  by (simp add: answer_sent_def answer_bytes_def)

lemma answer_kept_code [simp]: "answer_kept e (flow\<lparr>f_resp_code := c\<rparr>) mid s s' = answer_kept e flow mid s s'"
  by (simp add: answer_kept_def)

lemma answerable_code [simp]: "answerable (flow\<lparr>f_resp_code := c\<rparr>) = answerable flow"
  by (simp add: answerable_def)

text \<open>After the answer the transaction is over.\<close>

lemma set_final_dups:
  "ec_server_set_state e a x t = Done t' \<Longrightarrow> ec_server_state_is_final x \<Longrightarrow> same_dups t' t"
  by (cases "sv_heap t a") (auto simp: ec_server_set_state_def get_srv_def srv_state_timers_def ec_server_state_is_final_def
      ec_server_free_def Let_def same_dups_def put_srv_def split: if_splits)

lemma canceled_by_get_dups:
  assumes d: "ec_observe_canceled_by_get flow s = Done (r, s')"
  shows "same_dups s' s"
proof (cases "f_method flow = EC_COAP_GET")
  case True
  with d obtain os where os: "ec_observation_search (f_urlstr flow) s = Done os"
    by (auto simp: ec_observe_canceled_by_get_def run_bind_Done_iff)
  show ?thesis
  proof (cases os)
    case None
    with d os True show ?thesis by (simp add: ec_observe_canceled_by_get_def)
  next
    case (Some a)
    with d os True show ?thesis
      by (cases "ob_heap s a") (auto simp: ec_observe_canceled_by_get_def ec_observer_remove_def ec_observation_free_def set_obs_def
          Let_def same_dups_def run_bind_Done_iff split: if_splits option.splits)
  qed
qed (use d in \<open>simp add: ec_observe_canceled_by_get_def\<close>)

lemma answered_done:
  assumes "busy e a False EC_SRV_STATE_REQ_OK s"
  shows "\<exists>s'. ec_server_set_state e a EC_SRV_STATE_RESP_DONE s = Done s' \<and> engine_ok e {} s' \<and> sv_heap s' a = None \<and>
    w_sent s' = w_sent s \<and> same_dups s' s"
proof -
  obtain s' where s': "ec_server_set_state e a EC_SRV_STATE_RESP_DONE s = Done s'" "engine_ok e {} s'"
    using post_finish [OF assms, of EC_SRV_STATE_RESP_DONE] unfolding post_Done_iff by (auto simp: ec_server_state_is_final_def)
  with set_final [OF s'(1)] set_final_dups [OF s'(1)] show ?thesis by (simp add: ec_server_state_is_final_def)
qed

text \<open>A transaction whose request was decoded, and that can be answered.\<close>

definition to_answer :: "'m env \<Rightarrow> nat \<Rightarrow> ec_server \<Rightarrow> ec_pdu \<Rightarrow> ec_pdu \<Rightarrow> ('m, 'z) srv_st_scheme \<Rightarrow> bool" where
  "to_answer e a srv req res s \<longleftrightarrow>
     busy e a False EC_SRV_STATE_REQ_OK s \<and> sv_heap s a = Some srv \<and> sv_req srv = Some req \<and> sv_res srv = Some res \<and>
     p_opts res = ec_opts_init \<and> p_sibling res = None \<and> p_payload res = None \<and> answerable (sv_flow srv)"

text \<open>Looking up the callback leaves it as it is.\<close>

lemma canceled_by_get_keeps:
  assumes "to_answer e a srv req res s"
  shows "\<exists>r s'. ec_observe_canceled_by_get (sv_flow srv) s = Done (r, s') \<and> to_answer e a srv req res s' \<and> w_sent s' = w_sent s \<and>
    resources s' = resources s \<and> fallback s' = fallback s \<and> s_cfg s' = s_cfg s \<and> same_dups s' s"
proof -
  have b: "busy e a False EC_SRV_STATE_REQ_OK s" using assms by (simp add: to_answer_def)
  obtain r s1 where o: "ec_observe_canceled_by_get (sv_flow srv) s = Done (r, s1)" "lower e s s1" "w_sent s1 = w_sent s"
    using post_canceled_by_get [OF busy_parts [OF b], of "sv_flow srv"] unfolding post_Done_iff by auto
  note k = lower_keeps [OF o(2)]
  show ?thesis using o k lower_busy [OF o(2) b] canceled_by_get_dups [OF o(1)] assms by (intro exI [of _ r] exI [of _ s1]) (simp add: to_answer_def)
qed

lemma dispatch_not_found:
  assumes t: "to_answer e a srv req res s" and send: "\<And>t. e_send_ok e t"
    and none: "find_resource (resources s) (f_urlstr (sv_flow srv)) = None" "fallback s = None"
  shows "\<exists>s'. srv_dispatch e a s = Done (EC_NET_CBRC_SUCCESS, s') \<and> sv_heap s' a = None \<and> engine_ok e {} s' \<and>
    answer_sent e (sv_flow srv) EC_NOT_FOUND (EC_PDU_MID req) [] s s'"
proof -
  let ?srv = "srv\<lparr>sv_flow := (sv_flow srv)\<lparr>f_resp_code := EC_NOT_FOUND\<rparr>\<rparr>"
  obtain r s1 where o: "ec_observe_canceled_by_get (sv_flow srv) s = Done (r, s1)" "to_answer e a srv req res s1" "w_sent s1 = w_sent s"
    "resources s1 = resources s" "fallback s1 = fallback s" using canceled_by_get_keeps [OF t] by blast
  have t1: "busy e a False EC_SRV_STATE_REQ_OK s1" "sv_heap s1 a = Some srv" "sv_req srv = Some req" "sv_res srv = Some res"
    "p_opts res = ec_opts_init" "p_sibling res = None" "p_payload res = None" "answerable (sv_flow srv)"
    using o(2) by (simp_all add: to_answer_def)
  have b2: "busy e a False EC_SRV_STATE_REQ_OK (put_srv a ?srv s1)"
    by (rule busy_same_srv [OF t1(1,2)]) simp_all
  obtain s2 where s2: "ec_server_send_resp e a (put_srv a ?srv s1) = Done (C_OK, s2)" "busy e a False EC_SRV_STATE_REQ_OK s2"
    "answer_sent e (sv_flow srv) EC_NOT_FOUND (EC_PDU_MID req) [] (put_srv a ?srv s1) s2"
    using piggyback_sent [OF b2, of ?srv req res] t1(3-8) send by (auto simp: EC_IS_RESP_CODE_def gather_def answer_sent_code)
  have reply: "ec_server_reply e a EC_NOT_FOUND None 0 s1 = Done (C_OK, s2)"
    using t1(2) s2(1) by (simp add: ec_server_reply_def ec_flow_set_resp_code_def EC_IS_RESP_CODE_def get_srv_def)
  obtain s' where s': "ec_server_set_state e a EC_SRV_STATE_RESP_DONE s2 = Done s'" "engine_ok e {} s'" "sv_heap s' a = None" "w_sent s' = w_sent s2"
    using answered_done [OF s2(2)] by blast
  have g: "get_srv a s = Done srv" using t by (simp add: to_answer_def get_srv_def)
  have "srv_dispatch e a s = Done (EC_NET_CBRC_SUCCESS, s')"
    using g o(1,4,5) none reply s'(1) by (simp add: srv_dispatch_def)
  with s' answer_sent_trans [OF _ s'(4) s2(3), of s] o(3) show ?thesis by auto
qed

text \<open>A callback that answers every request at once with the code \<open>rc\<close> and the first \<open>n\<close> bytes of \<open>pl\<close>.\<close>

definition answers_with :: "server_cb \<Rightarrow> ec_rc \<Rightarrow> byte list \<Rightarrow> nat \<Rightarrow> bool" where
  "answers_with cb rc pl n \<longleftrightarrow>
     EC_IS_RESP_CODE rc \<and> 0 < n \<and> n \<le> length pl \<and>
     (\<forall>flow req res. \<exists>tv. cb flow req res False = (EC_CBRC_READY, tv, [U_set_code rc, U_set_payload pl n]))"

lemma dispatch_answered_kept:
  assumes t: "to_answer e a srv req res s" and send: "\<And>t. e_send_ok e t" and dup: "memdup_copies e"
    and found: "find_resource (resources s) (f_urlstr (sv_flow srv)) = Some cb" and cb: "answers_with cb rc pl n"
  shows "\<exists>s'. srv_dispatch e a s = Done (EC_NET_CBRC_SUCCESS, s') \<and> sv_heap s' a = None \<and> engine_ok e {} s' \<and>
    answer_sent e (sv_flow srv) rc (EC_PDU_MID req) (take n pl) s s' \<and> answer_kept e (sv_flow srv) (EC_PDU_MID req) s s'"
proof -
  let ?srv1 = "srv\<lparr>sv_flow := (sv_flow srv)\<lparr>f_resp_code := rc\<rparr>\<rparr>"
  let ?srv2 = "?srv1\<lparr>sv_res := Some (res\<lparr>p_payload := Some (take n pl), p_payload_sz := n\<rparr>)\<rparr>"
  obtain r s1 where o: "ec_observe_canceled_by_get (sv_flow srv) s = Done (r, s1)" "to_answer e a srv req res s1" "w_sent s1 = w_sent s"
    "resources s1 = resources s" "fallback s1 = fallback s" "same_dups s1 s" using canceled_by_get_keeps [OF t] by blast
  have t1: "busy e a False EC_SRV_STATE_REQ_OK s1" "sv_heap s1 a = Some srv" "sv_req srv = Some req" "sv_res srv = Some res"
    "p_opts res = ec_opts_init" "p_sibling res = None" "answerable (sv_flow srv)"
    using o(2) by (simp_all add: to_answer_def)
  have c: "EC_IS_RESP_CODE rc" "0 < n" "e_memdup e (Some pl) n = Some (take n pl)"
    using cb dup by (simp_all add: answers_with_def memdup_copies_def)
  obtain tv where tv: "cb (sv_flow srv) (sv_req srv) (sv_res srv) False = (EC_CBRC_READY, tv, [U_set_code rc, U_set_payload pl n])"
    using cb unfolding answers_with_def by blast
  let ?s2 = "put_srv a ?srv2 (put_srv a ?srv1 s1)"
  have calls: "apply_user_calls e a [U_set_code rc, U_set_payload pl n] s1 = Done ?s2"
    using c t1(2,4) by (simp add: apply_user_call_def get_srv_def ec_response_set_code_def ec_flow_set_resp_code_def
        ec_response_set_payload_def ec_pdu_set_payload_def)
  have b1: "busy e a False EC_SRV_STATE_REQ_OK (put_srv a ?srv1 s1)" by (rule busy_same_srv [OF t1(1,2)]) simp_all
  have b2: "busy e a False EC_SRV_STATE_REQ_OK ?s2" by (rule busy_same_srv [OF b1, of ?srv1]) simp_all
  obtain s3 where s3: "ec_server_send_resp e a ?s2 = Done (C_OK, s3)" "busy e a False EC_SRV_STATE_REQ_OK s3"
    "answer_sent e (sv_flow srv) rc (EC_PDU_MID req) (take n pl) ?s2 s3" "answer_kept e (sv_flow srv) (EC_PDU_MID req) ?s2 s3"
    using piggyback_sent [OF b2, of ?srv2 req "res\<lparr>p_payload := Some (take n pl), p_payload_sz := n\<rparr>"] t1(3-7) send c(1) dup cb
    by (auto simp: gather_def answer_sent_code answers_with_def)
  obtain s' where s': "ec_server_set_state e a EC_SRV_STATE_RESP_DONE s3 = Done s'" "engine_ok e {} s'" "sv_heap s' a = None" "w_sent s' = w_sent s3" "same_dups s' s3"
    using answered_done [OF s3(2)] by blast
  have st: "sv_state srv = EC_SRV_STATE_REQ_OK" using busyE [OF t1(1)] t1(2) by (metis option.inject)
  obtain srv3 where g3: "get_srv a s3 = Done srv3" "sv_state srv3 = EC_SRV_STATE_REQ_OK" using busyE [OF s3(2)] by metis
  have ready: "ec_server_ready e a True ?s2 = Done (C_OK, s')"
    using st s3(1) g3 s'(1) by (simp add: ec_server_ready_def get_srv_def)
  have con: "ec_conn_get_confirmable (f_conn (sv_flow srv)) = Some True" using t1(7) by (simp add: answerable_def)
  have "ec_server_userfn e a cb False s1 = Done (C_OK, s')"
    using t1(2) con tv calls ready by (simp add: ec_server_userfn_def get_srv_def del: apply_user_calls.simps)
  moreover have "get_srv a s = Done srv" using t by (simp add: to_answer_def get_srv_def)
  ultimately have "srv_dispatch e a s = Done (EC_NET_CBRC_SUCCESS, s')"
    using o(1,4,5) found by (simp add: srv_dispatch_def)
  moreover have "w_sent ?s2 = w_sent s" "same_dups ?s2 s" using o(3,6) by (simp_all add: same_dups_def put_srv_def)
  ultimately show ?thesis
    using s'(2,3) answer_sent_trans [OF _ s'(4) s3(3)] answer_kept_trans [OF _ _ s'(4,5) s3(4)] by blast
qed

lemma dispatch_answered:
  assumes "to_answer e a srv req res s" and "\<And>t. e_send_ok e t" and "memdup_copies e"
    and "find_resource (resources s) (f_urlstr (sv_flow srv)) = Some cb" and "answers_with cb rc pl n"
  shows "\<exists>s'. srv_dispatch e a s = Done (EC_NET_CBRC_SUCCESS, s') \<and> sv_heap s' a = None \<and> engine_ok e {} s' \<and>
    answer_sent e (sv_flow srv) rc (EC_PDU_MID req) (take n pl) s s'"
  using dispatch_answered_kept [OF assms] by blast

text \<open>A confirmable request for a resource nobody registered is answered with exactly one
  datagram, sent back to the requester: an acknowledgement that carries 4.04 and the MID of the
  request. The transaction is over.\<close>

theorem not_found_answered:
  assumes "busy e a False EC_SRV_STATE_REQ_OK s" and "sv_heap s a = Some srv"
    and "find_resource (resources s) (f_urlstr (sv_flow srv)) = None" and "fallback s = None"
    and "sv_req srv = Some req" and "sv_res srv = Some res" and "p_opts res = ec_opts_init" and "p_sibling res = None"
    and "p_payload res = None" and "length (f_token (sv_flow srv)) = 8"
    and "ec_conn_get_confirmable (f_conn (sv_flow srv)) = Some True" and "\<not> f_is_sep (sv_flow srv)"
    and "\<not> c_is_multicast (f_conn (sv_flow srv))" and "c_socket (f_conn (sv_flow srv)) \<noteq> -1"
    and "ec_net_socklen (c_peer (f_conn (sv_flow srv))) \<noteq> None" and "\<And>t. e_send_ok e t"
  shows "\<exists>s' d h. srv_dispatch e a s = Done (EC_NET_CBRC_SUCCESS, s') \<and> sv_heap s' a = None \<and> engine_ok e {} s' \<and>
    w_sent s' = w_sent s @ [d] \<and> dg_to d = c_peer (f_conn (sv_flow srv)) \<and>
    header_of (e_le e) (dg_bytes d) = Some h \<and> h_t h = EC_COAP_ACK \<and> h_mid h = EC_PDU_MID req \<and>
    h_code h = word_of_int EC_NOT_FOUND"
proof -
  have "to_answer e a srv req res s" using assms(1-15) by (simp add: to_answer_def answerable_def)
  from dispatch_not_found [OF this assms(16,3,4)] show ?thesis by (auto simp: answer_sent_def)
qed

definition demo_request_srv :: ec_server where
  "demo_request_srv = demo_srv\<lparr>sv_state := EC_SRV_STATE_REQ_OK, sv_flow := ec_flow_init\<lparr>f_conn := demo_conn\<rparr>,
     sv_parent := False, sv_t_coap := timer_zero\<rparr>"

definition demo_request :: "(string \<times> nat) list srv_st" where
  "demo_request = demo_engine\<lparr>sv_heap := [0 \<mapsto> demo_request_srv], sv_list := [], sv_packs := []\<rparr>"

lemma demo_request_busy: "busy demo_env 0 False EC_SRV_STATE_REQ_OK demo_request"
  by (simp add: busy_def engine_ok_def dups_ok_def store_ok_def obs_ok_def srvs_ok_def cbs_ok_def demo_request_def demo_engine_def
      srv_ok_def demo_request_srv_def demo_srv_def ec_flow_init_def timer_ok_def timer_zero_def)

theorem not_found_answered_witness:
  "\<exists>s' d h. srv_dispatch demo_env 0 demo_request = Done (EC_NET_CBRC_SUCCESS, s') \<and> w_sent s' = [d] \<and> dg_to d = demo_peer \<and>
    header_of True (dg_bytes d) = Some h \<and> h_t h = EC_COAP_ACK \<and> h_mid h = 0x1234 \<and> h_code h = word_of_int EC_NOT_FOUND"
proof -
  have s: "sv_heap demo_request 0 = Some demo_request_srv" "find_resource (resources demo_request) (f_urlstr (sv_flow demo_request_srv)) = None"
    "fallback demo_request = None" "w_sent demo_request = []"
    by (simp_all add: demo_request_def demo_engine_def)
  have v: "sv_req demo_request_srv = Some demo_req" "sv_res demo_request_srv = Some demo_res"
    "p_opts demo_res = ec_opts_init" "p_sibling demo_res = None" "p_payload demo_res = None"
    "length (f_token (sv_flow demo_request_srv)) = 8" "ec_conn_get_confirmable (f_conn (sv_flow demo_request_srv)) = Some True"
    "\<not> f_is_sep (sv_flow demo_request_srv)" "\<not> c_is_multicast (f_conn (sv_flow demo_request_srv))"
    "c_socket (f_conn (sv_flow demo_request_srv)) \<noteq> -1" "ec_net_socklen (c_peer (f_conn (sv_flow demo_request_srv))) \<noteq> None"
    "c_peer (f_conn (sv_flow demo_request_srv)) = demo_peer" "EC_PDU_MID demo_req = 0x1234"
    by (simp_all add: demo_request_srv_def demo_srv_def demo_res_def demo_req_def ec_pdu_new_empty_def ec_flow_init_def demo_conn_def
        ec_conn_init_def ec_conn_get_confirmable_def)
  from not_found_answered [OF demo_request_busy s(1-3) v(1-11)] v(12,13) s(4) show ?thesis by simp blast
qed

end
