(* ===== verification/Fsm.thy ===== *)
theory Fsm
  imports Prelude
begin

text \<open>
  The contract of a transaction state machine, as both kinds of transactions have it: a table
  of allowed transitions, final states, and escape states that may be entered from anywhere.
  A final state is only left for an escape state or, where a transaction can be recycled,
  for a restart state.
\<close>

text \<open>A trace: the states a transaction is set to, one after the other.\<close>

fun trace :: "('s \<Rightarrow> 's \<Rightarrow> bool) \<Rightarrow> 's \<Rightarrow> 's list \<Rightarrow> bool" where
  "trace step c [] = True"
| "trace step c (x # xs) = (step c x \<and> trace step x xs)"

lemma trace_append [simp]: "trace step c (xs @ ys) \<longleftrightarrow> trace step c xs \<and> trace step (last (c # xs)) ys"
  by (induction xs arbitrary: c) auto

locale transaction_fsm =
  fixes step :: "'s \<Rightarrow> 's \<Rightarrow> bool" and final :: "'s \<Rightarrow> bool" and escape :: "'s \<Rightarrow> bool" and restart :: "'s \<Rightarrow> bool"
    and initial :: 's
  assumes initial_live: "\<not> final initial"
    and never_initial: "\<not> step c initial"
    and escape_final: "escape s \<Longrightarrow> final s"
    and escape_any: "\<exists>s. escape s \<and> (\<forall>c. step c s)"
    and leaves_final: "final c \<Longrightarrow> step c s \<Longrightarrow> escape s \<or> restart s"
begin

lemma initial_once: "trace step c xs \<Longrightarrow> initial \<notin> set xs"
  by (induction xs arbitrary: c) (auto simp: never_initial)

lemma final_stays: "trace step c xs \<Longrightarrow> final c \<Longrightarrow> list_all (\<lambda>s. \<not> restart s) xs \<Longrightarrow> list_all escape xs"
  by (induction xs arbitrary: c) (auto dest: leaves_final intro: escape_final)

text \<open>What follows the first final state of a trace are escape states, up to a restart.\<close>

lemma after_final:
  assumes "trace step initial (xs @ f # ys)" and "final f" and "list_all (\<lambda>s. \<not> restart s) ys"
  shows "list_all escape ys \<and> final (last (f # ys))"
proof -
  have "list_all escape ys" using assms by (intro final_stays [of f]) simp_all
  then show ?thesis using assms(2) escape_final by (cases ys rule: rev_cases) auto
qed

text \<open>A transaction that has not ended can be ended.\<close>

lemma can_end: "\<exists>s. trace step c xs \<longrightarrow> trace step c (xs @ [s]) \<and> final s"
  using escape_any escape_final by auto

end

end
