(* ===== verification/Client.thy ===== *)
theory Client
  imports Srv_Engine Fsm
begin

text \<open>
  Client transactions (\<open>include/evcoap_cli.h\<close>, \<open>lib/evcoap/src/evcoap_cli.c\<close>): creating a
  request, resolving its destination, the transaction state machine with its three timers,
  and processing responses, notifications, acknowledgements and resets.

  \<open>cl_heap\<close> holds the live clients by address, \<open>cl_list\<close> is the queue \<^verbatim>\<open>coap->clients\<close>.
  \<open>cl_log\<close> are the invocations of user callbacks, in order, and \<open>cl_closed\<close> the sockets that
  were closed.
\<close>

subsection \<open>State\<close>

text \<open>A callback sees state, flow and responses; it may cancel the observation (its result).\<close>

type_synonym client_cb = "ec_cli_state \<Rightarrow> ec_flow \<Rightarrow> ec_pdu list \<Rightarrow> bool"

record ec_cli_obs =
  co_on :: bool
  co_cancel :: bool
  co_last_cnt :: u16
  co_last_ts :: int

text \<open>
  \<open>cl_base\<close>: the base pointer is set. \<open>cl_input\<close>: there is an input event. \<open>cl_linked\<close>: the
  back pointer of the queue entry has been written, that is the client was linked once.
  \<open>cl_res\<close> is the response set.
\<close>

record ec_client =
  cl_base :: bool
  cl_dns_req :: bool
  cl_cb :: "client_cb option"
  cl_userown :: bool
  cl_state :: ec_cli_state
  cl_observe :: ec_cli_obs
  cl_flow :: ec_flow
  cl_req :: ec_pdu
  cl_res :: "ec_pdu list"
  cl_app :: ec_timer
  cl_coap :: ec_timer
  cl_obs :: ec_timer
  cl_input :: bool
  cl_linked :: bool

record 'm ec = "'m srv_st" +
  cl_list :: "nat list"
  cl_heap :: "nat \<Rightarrow> ec_client option"
  cl_log :: "(nat \<times> ec_cli_state \<times> ec_rc) list"
  cl_closed :: "int list"

definition get_cli :: "nat \<Rightarrow> ('m, 'z) ec_scheme \<Rightarrow> ec_client run" where
  "get_cli a s = (case cl_heap s a of None \<Rightarrow> Fault Use_after_free | Some cli \<Rightarrow> Done cli)"

definition put_cli :: "nat \<Rightarrow> ec_client \<Rightarrow> ('m, 'z) ec_scheme \<Rightarrow> ('m, 'z) ec_scheme" where
  "put_cli a cli s = s\<lparr>cl_heap := (cl_heap s)(a \<mapsto> cli)\<rparr>"

text \<open>A closed socket, if any.\<close>

definition note_closed :: "int option \<Rightarrow> ('m, 'z) ec_scheme \<Rightarrow> ('m, 'z) ec_scheme" where
  "note_closed c s = s\<lparr>cl_closed := cl_closed s @ (case c of None \<Rightarrow> [] | Some sd \<Rightarrow> [sd])\<rparr>"

subsection \<open>The queue of clients\<close>

definition ec_client_add :: "nat \<Rightarrow> ('m, 'z) ec_scheme \<Rightarrow> ('m, 'z) ec_scheme run" where
  "ec_client_add a s =
     run_bind (get_cli a s) (\<lambda>cli.
       if a \<in> set (cl_list s) then Fault Relinked
       else Done (put_cli a (cli\<lparr>cl_linked := True\<rparr>) (s\<lparr>cl_list := cl_list s @ [a]\<rparr>)))"

text \<open>
  Removing from a queue that is not empty writes through the back pointer of the client,
  which is NULL in one that was never linked. A client that was the first of the queue and has
  been removed already may be removed again: its stale pointers lead to the head and to the
  client that is first now.
\<close>

definition ec_client_del :: "nat \<Rightarrow> ('m, 'z) ec_scheme \<Rightarrow> ('m, 'z) ec_scheme run" where
  "ec_client_del a s =
     run_bind (get_cli a s) (\<lambda>cli.
       if cl_list s = [] then Done s
       else if a \<in> set (cl_list s) then Done (s\<lparr>cl_list := remove1 a (cl_list s)\<rparr>)
       else if cl_linked cli then Done s
       else Fault Null_deref)"

definition ec_client_unregister :: "nat \<Rightarrow> ('m, 'z) ec_scheme \<Rightarrow> ('m, 'z) ec_scheme run" where
  "ec_client_unregister a s =
     run_bind (get_cli a s) (\<lambda>cli.
       let s = put_cli a (cli\<lparr>cl_input := False\<rparr>) s
       in if cl_base cli then ec_client_del a s else Done s)"

definition ec_client_free :: "nat \<Rightarrow> ('m, 'z) ec_scheme \<Rightarrow> ('m, 'z) ec_scheme run" where
  "ec_client_free a s =
     run_bind (ec_client_unregister a s) (\<lambda>s.
     run_bind (get_cli a s) (\<lambda>cli.
       case ec_flow_term (cl_flow cli) False of
         (flow, closed) \<Rightarrow> Done (note_closed closed (s\<lparr>cl_heap := (cl_heap s)(a := None)\<rparr>))))"

text \<open>The loop of \<open>ec_clients_term\<close> over the queue, whose first element it removes each time.\<close>

fun clients_term_walk :: "nat list \<Rightarrow> ('m, 'z) ec_scheme \<Rightarrow> ('m, 'z) ec_scheme run" where
  "clients_term_walk [] s = Done s"
| "clients_term_walk (a # as) s =
     run_bind (ec_client_del a s) (\<lambda>s. run_bind (ec_client_free a s) (clients_term_walk as))"

definition ec_clients_term :: "('m, 'z) ec_scheme \<Rightarrow> ('m, 'z) ec_scheme run" where
  "ec_clients_term s = clients_term_walk (cl_list s) s"

definition ec_client_register :: "'m env \<Rightarrow> nat \<Rightarrow> ('m, 'z) ec_scheme \<Rightarrow> (crc \<times> ('m, 'z) ec_scheme) run" where
  "ec_client_register e a s =
     (if \<not> e_ev_ok e (w_tick s) then Done (C_ERR, tick s)
      else let s = tick s
           in if \<not> e_ev_ok e (w_tick s) then Done (C_ERR, tick s)
              else let s = tick s
                   in run_bind (get_cli a s) (\<lambda>cli.
                        run_bind (ec_client_add a (put_cli a (cli\<lparr>cl_input := True\<rparr>) s)) (\<lambda>s. Done (C_OK, s))))"

subsection \<open>Creating a client\<close>

definition ec_client_set_method :: "ec_client \<Rightarrow> ec_method \<Rightarrow> crc \<times> ec_client" where
  "ec_client_set_method cli m =
     (if \<not> EC_IS_METHOD m then (C_ERR, cli) else (C_OK, cli\<lparr>cl_flow := (cl_flow cli)\<lparr>f_method := m\<rparr>\<rparr>))"

definition ec_client_set_proxy :: "'m env \<Rightarrow> ec_client \<Rightarrow> byte list \<Rightarrow> u16 \<Rightarrow> crc \<times> ec_client" where
  "ec_client_set_proxy e cli host port =
     (if host = [] then (C_ERR, cli)
      else let flow = cl_flow cli;
               conn = (f_conn flow)\<lparr>c_proxy_port := (if port = 0 then of_nat EC_COAP_DEFAULT_PORT else port)\<rparr>
           in case e_strlcpy e host 512 of
                (C_ERR, b) \<Rightarrow> (C_ERR, cli\<lparr>cl_flow := flow\<lparr>f_conn := conn\<lparr>c_proxy_addr := b\<rparr>\<rparr>\<rparr>)
              | (C_OK, b) \<Rightarrow> (C_OK, cli\<lparr>cl_flow := flow\<lparr>f_conn := conn\<lparr>c_proxy_addr := b, c_use_proxy := True\<rparr>\<rparr>\<rparr>))"

definition ec_client_set_msg_model :: "ec_client \<Rightarrow> bool \<Rightarrow> ec_client" where
  "ec_client_set_msg_model cli is_con =
     cli\<lparr>cl_flow := (cl_flow cli)\<lparr>f_conn := ec_conn_set_confirmable (f_conn (cl_flow cli)) is_con\<rparr>\<rparr>"

text \<open>The pieces that repeated \<open>strsep\<close> calls give.\<close>

fun strsep_all :: "byte \<Rightarrow> byte list \<Rightarrow> byte list list" where
  "strsep_all c [] = [[]]"
| "strsep_all c (b # bs) =
     (if b = c then [] # strsep_all c bs
      else (case strsep_all c bs of r # rs \<Rightarrow> (b # r) # rs | [] \<Rightarrow> [[b]]))"

text \<open>The loops over path segments and query components: empty ones are skipped.\<close>

fun add_pieces :: "(ec_opts \<Rightarrow> byte list \<Rightarrow> crc \<times> ec_opts) \<Rightarrow> byte list list \<Rightarrow> ec_opts \<Rightarrow> crc \<times> ec_opts" where
  "add_pieces add [] opts = (C_OK, opts)"
| "add_pieces add (r # rs) opts =
     (if r = [] then add_pieces add rs opts
      else (case add opts r of
              (C_ERR, opts) \<Rightarrow> (C_ERR, opts)
            | (C_OK, opts) \<Rightarrow> add_pieces add rs opts))"

definition add_separated ::
    "'m env \<Rightarrow> (ec_opts \<Rightarrow> byte list \<Rightarrow> crc \<times> ec_opts) \<Rightarrow> byte \<Rightarrow> byte list \<Rightarrow> ec_opts \<Rightarrow> crc \<times> ec_opts" where
  "add_separated e add c p opts =
     (if p = [] then (C_OK, opts)
      else case e_strlcpy e p 1024 of
        (C_ERR, b) \<Rightarrow> (C_ERR, opts)
      | (C_OK, b) \<Rightarrow> add_pieces add (strsep_all c b) opts)"

text \<open>\<open>''coap''\<close>, \<open>'/'\<close> and \<open>'&'\<close> in ASCII.\<close>

abbreviation (input) str_coap :: "byte list" where "str_coap \<equiv> [99, 111, 97, 112]"

definition uri_opts :: "'m env \<Rightarrow> u_uri \<Rightarrow> ec_opts \<Rightarrow> crc \<times> ec_opts" where
  "uri_opts e u opts =
     (if \<not> strcasecmp_eq (e_uri_scheme e u) str_coap then (C_ERR, opts)
      else case (if e_uri_is_regname e u then ec_opts_add_uri_host opts (e_uri_host e u) else (C_OK, opts)) of
        (C_ERR, opts) \<Rightarrow> (C_ERR, opts)
      | (C_OK, opts) \<Rightarrow>
          (case add_separated e ec_opts_add_uri_path 47 (e_uri_path e u) opts of
             (C_ERR, opts) \<Rightarrow> (C_ERR, opts)
           | (C_OK, opts) \<Rightarrow> add_separated e ec_opts_add_uri_query 38 (e_uri_query e u) opts))"

definition ec_client_add_uri_opts :: "'m env \<Rightarrow> ec_client \<Rightarrow> byte list \<Rightarrow> crc \<times> ec_client" where
  "ec_client_add_uri_opts e cli uri =
     (case e_uri_crumble e uri of
        None \<Rightarrow> (C_ERR, cli)
      | Some u \<Rightarrow>
          if e_uri_scheme e u = [] \<or> e_uri_host e u = [] then (C_ERR, cli)
          else let opts = p_opts (cl_req cli)
               in case (if c_use_proxy (f_conn (cl_flow cli))
                        then ec_opts_add_proxy_uri (e_uri_is_absolute e) opts uri
                        else uri_opts e u opts) of
                    (rc, opts) \<Rightarrow>
                      let cli = cli\<lparr>cl_req := (cl_req cli)\<lparr>p_opts := opts\<rparr>\<rparr>
                      in if rc = C_ERR then (C_ERR, cli)
                         else (C_OK, cli\<lparr>cl_flow := (cl_flow cli)\<lparr>f_uri := Some u\<rparr>\<rparr>))"

text \<open>A new client is zeroed memory: its socket is 0, not -1.\<close>

definition client_zero :: "'z world_scheme \<Rightarrow> ec_client" where
  "client_zero w =
     \<lparr>cl_base = False, cl_dns_req = False, cl_cb = None, cl_userown = False, cl_state = EC_CLI_STATE_NONE,
      cl_observe = \<lparr>co_on = False, co_cancel = False, co_last_cnt = 0, co_last_ts = 0\<rparr>,
      cl_flow = ec_flow_init\<lparr>f_conn := ec_conn_init\<lparr>c_socket := 0\<rparr>\<rparr>,
      cl_req = fst (ec_pdu_new_empty w), cl_res = [],
      cl_app = timer_zero, cl_coap = timer_zero, cl_obs = timer_zero, cl_input = False, cl_linked = False\<rparr>"

definition client_setup ::
    "'m env \<Rightarrow> ec_method \<Rightarrow> byte list \<Rightarrow> bool \<Rightarrow> (byte list \<times> u16) option \<Rightarrow> ec_client \<Rightarrow> crc \<times> ec_client" where
  "client_setup e m uri is_con proxy cli =
     (case (case proxy of None \<Rightarrow> (C_OK, cli) | Some (h, p) \<Rightarrow> ec_client_set_proxy e cli h p) of
        (C_ERR, cli) \<Rightarrow> (C_ERR, cli)
      | (C_OK, cli) \<Rightarrow>
          (case ec_client_set_method cli m of
             (C_ERR, cli) \<Rightarrow> (C_ERR, cli)
           | (C_OK, cli) \<Rightarrow>
               (case ec_client_add_uri_opts e cli uri of
                  (C_ERR, cli) \<Rightarrow> (C_ERR, cli)
                | (C_OK, cli) \<Rightarrow> (C_OK, ec_client_set_msg_model cli is_con))))"

definition ec_client_new ::
    "'m env \<Rightarrow> ec_method \<Rightarrow> byte list \<Rightarrow> bool \<Rightarrow> (byte list \<times> u16) option \<Rightarrow> bool \<Rightarrow> ('m, 'z) ec_scheme \<Rightarrow>
     (nat option \<times> ('m, 'z) ec_scheme) run" where
  "ec_client_new e m uri is_con proxy userown s =
     (let a = w_tick s
      in case client_setup e m uri is_con proxy (client_zero s) of
           (C_ERR, cli) \<Rightarrow> run_bind (ec_client_free a (put_cli a cli (tick s))) (\<lambda>s. Done (None, s))
         | (C_OK, cli) \<Rightarrow> Done (Some a, put_cli a (cli\<lparr>cl_base := True, cl_userown := userown\<rparr>) (tick s)))"

subsection \<open>Requests and responses of a client\<close>

definition ec_client_get_request_options :: "ec_client \<Rightarrow> ec_opts" where
  "ec_client_get_request_options cli = p_opts (cl_req cli)"

definition ec_res_set_add :: "ec_pdu list \<Rightarrow> ec_pdu \<Rightarrow> ec_pdu list" where
  "ec_res_set_add rset pdu = rset @ [pdu]"

text \<open>Unicast only: the first PDU of the response set.\<close>

definition ec_client_get_response_pdu :: "ec_client \<Rightarrow> ec_pdu option" where
  "ec_client_get_response_pdu cli =
     (if c_is_multicast (f_conn (cl_flow cli)) then None
      else case cl_res cli of [] \<Rightarrow> None | r # rs \<Rightarrow> Some r)"

definition ec_client_get_response_options :: "ec_client \<Rightarrow> ec_opts option" where
  "ec_client_get_response_options cli = map_option p_opts (ec_client_get_response_pdu cli)"

definition ec_client_is_observing :: "ec_client \<Rightarrow> bool" where
  "ec_client_is_observing cli = co_on (cl_observe cli)"

definition ec_client_cancel_observation :: "ec_client \<Rightarrow> ec_client" where
  "ec_client_cancel_observation cli = cli\<lparr>cl_observe := (cl_observe cli)\<lparr>co_cancel := True\<rparr>\<rparr>"

text \<open>The disposable flow of an acknowledgement or a reset.\<close>

definition reply_flow :: "ec_client \<Rightarrow> ec_flow" where
  "reply_flow cli = ec_flow_init\<lparr>f_conn := ec_conn_copy (f_conn (cl_flow cli)) (f_conn ec_flow_init)\<rparr>"

definition ec_client_send_ack ::
    "'m env \<Rightarrow> ec_client \<Rightarrow> ('m, 'z) base_scheme \<Rightarrow> (crc \<times> ('m, 'z) base_scheme) run" where
  "ec_client_send_ack e cli s =
     (let (sep_ack, s) = ec_pdu_new_empty s
      in case ec_client_get_response_pdu cli of
           None \<Rightarrow> Done (C_ERR, s)
         | Some sep_res \<Rightarrow>
             (case ec_pdu_set_sibling sep_ack sep_res of
                (C_ERR, _) \<Rightarrow> Done (C_ERR, s)
              | (C_OK, sep_ack) \<Rightarrow>
                  (case ec_pdu_encode_response_ack (e_le e) sep_ack (reply_flow cli) of
                     (C_ERR, _) \<Rightarrow> Done (C_ERR, s)
                   | (C_OK, sep_ack) \<Rightarrow> ec_pdu_send e sep_ack (reply_flow cli) True s)))"

definition ec_client_rst_peer ::
    "'m env \<Rightarrow> ec_client \<Rightarrow> ('m, 'z) base_scheme \<Rightarrow> (crc \<times> ('m, 'z) base_scheme) run" where
  "ec_client_rst_peer e cli s =
     (let (rst, s) = ec_pdu_new_empty s
      in case ec_client_get_response_pdu cli of
           None \<Rightarrow> Done (C_ERR, s)
         | Some nfy \<Rightarrow>
             (case ec_pdu_set_sibling rst nfy of
                (C_ERR, _) \<Rightarrow> Done (C_ERR, s)
              | (C_OK, rst) \<Rightarrow>
                  (case ec_pdu_encode_response_rst (e_le e) rst (reply_flow cli) of
                     (C_ERR, _) \<Rightarrow> Done (C_ERR, s)
                   | (C_OK, rst) \<Rightarrow> ec_pdu_send e rst (reply_flow cli) False s)))"

end
