(* ===== verification/Cli_Engine.thy ===== *)
theory Cli_Engine
  imports Client
begin

text \<open>
  The client engine: the transaction state machine with its timers, sending a request once
  its destination is known, and processing a received PDU
  (\<open>lib/evcoap/src/evcoap_cli.c\<close>).
\<close>

subsection \<open>The state machine\<close>

definition ec_client_state_is_final :: "ec_cli_state \<Rightarrow> bool" where
  "ec_client_state_is_final st \<longleftrightarrow>
     st \<in> {EC_CLI_STATE_INTERNAL_ERR, EC_CLI_STATE_DNS_FAILED, EC_CLI_STATE_SEND_FAILED, EC_CLI_STATE_COAP_TIMEOUT,
           EC_CLI_STATE_APP_TIMEOUT, EC_CLI_STATE_REQ_DONE, EC_CLI_STATE_REQ_RST, EC_CLI_STATE_OBS_TIMEOUT}"

fun ec_client_check_transition :: "ec_cli_state \<Rightarrow> ec_cli_state \<Rightarrow> crc" where
  "ec_client_check_transition cur EC_CLI_STATE_INTERNAL_ERR = C_OK"
| "ec_client_check_transition cur EC_CLI_STATE_DNS_FAILED = (if cur \<noteq> EC_CLI_STATE_NONE then C_ERR else C_OK)"
| "ec_client_check_transition cur EC_CLI_STATE_DNS_OK =
     (if cur \<noteq> EC_CLI_STATE_NONE \<and> \<not> ec_client_state_is_final cur then C_ERR else C_OK)"
| "ec_client_check_transition cur EC_CLI_STATE_SEND_FAILED =
     (if cur \<noteq> EC_CLI_STATE_DNS_OK \<and> cur \<noteq> EC_CLI_STATE_COAP_RETRY then C_ERR else C_OK)"
| "ec_client_check_transition cur EC_CLI_STATE_REQ_SENT =
     (if cur \<noteq> EC_CLI_STATE_DNS_OK \<and> cur \<noteq> EC_CLI_STATE_COAP_RETRY then C_ERR else C_OK)"
| "ec_client_check_transition cur EC_CLI_STATE_REQ_ACKD = (if cur \<noteq> EC_CLI_STATE_REQ_SENT then C_ERR else C_OK)"
| "ec_client_check_transition cur EC_CLI_STATE_COAP_RETRY = (if cur \<noteq> EC_CLI_STATE_REQ_SENT then C_ERR else C_OK)"
| "ec_client_check_transition cur EC_CLI_STATE_COAP_TIMEOUT = (if cur \<noteq> EC_CLI_STATE_REQ_SENT then C_ERR else C_OK)"
| "ec_client_check_transition cur EC_CLI_STATE_APP_TIMEOUT =
     (if cur \<noteq> EC_CLI_STATE_REQ_SENT \<and> cur \<noteq> EC_CLI_STATE_REQ_ACKD \<and> cur \<noteq> EC_CLI_STATE_WAIT_NFY then C_ERR else C_OK)"
| "ec_client_check_transition cur EC_CLI_STATE_REQ_DONE =
     (if cur \<noteq> EC_CLI_STATE_REQ_SENT \<and> cur \<noteq> EC_CLI_STATE_REQ_ACKD \<and> cur \<noteq> EC_CLI_STATE_WAIT_NFY then C_ERR else C_OK)"
| "ec_client_check_transition cur EC_CLI_STATE_REQ_RST =
     (if cur \<noteq> EC_CLI_STATE_REQ_SENT \<and> cur \<noteq> EC_CLI_STATE_REQ_ACKD \<and> cur \<noteq> EC_CLI_STATE_WAIT_NFY then C_ERR else C_OK)"
| "ec_client_check_transition cur EC_CLI_STATE_WAIT_NFY =
     (if cur \<noteq> EC_CLI_STATE_REQ_SENT \<and> cur \<noteq> EC_CLI_STATE_REQ_ACKD \<and> cur \<noteq> EC_CLI_STATE_WAIT_NFY then C_ERR else C_OK)"
| "ec_client_check_transition cur EC_CLI_STATE_OBS_TIMEOUT = (if cur \<noteq> EC_CLI_STATE_WAIT_NFY then C_ERR else C_OK)"
| "ec_client_check_transition cur EC_CLI_STATE_NONE = C_ERR"

subsection \<open>Timers\<close>

definition ec_cli_start_coap_timer ::
    "'m env \<Rightarrow> ec_client \<Rightarrow> 'z world_scheme \<Rightarrow> crc \<times> ec_client \<times> 'z world_scheme" where
  "ec_cli_start_coap_timer e cli s =
     (case ec_timer_start e ((cl_coap cli)\<lparr>tout := (EC_COAP_RESP_TIMEOUT, 0)\<rparr>) EC_COAP_MAX_RETRANSMIT s of
        (rc, ti, s) \<Rightarrow> (rc, cli\<lparr>cl_coap := ti\<rparr>, s))"

definition ec_cli_stop_coap_timer :: "ec_client \<Rightarrow> ec_client" where
  "ec_cli_stop_coap_timer cli = cli\<lparr>cl_coap := ec_timer_remove (cl_coap cli)\<rparr>"

definition ec_cli_restart_coap_timer ::
    "'m env \<Rightarrow> ec_client \<Rightarrow> 'z world_scheme \<Rightarrow> (crc \<times> ec_client \<times> 'z world_scheme) run" where
  "ec_cli_restart_coap_timer e cli s =
     (let ti = cl_coap cli
      in if retries_left ti = 0 then Done (C_ERR, cli, s)
         else let ti = ti\<lparr>tout := (fst (tout ti) * 2, snd (tout ti)), retries_left := retries_left ti - 1\<rparr>
              in run_bind (ec_timer_restart e ti s) (\<lambda>(rc, ti, s). Done (rc, cli\<lparr>cl_coap := ti\<rparr>, s)))"

definition ec_cli_start_app_timer ::
    "'m env \<Rightarrow> ec_client \<Rightarrow> 'z world_scheme \<Rightarrow> crc \<times> ec_client \<times> 'z world_scheme" where
  "ec_cli_start_app_timer e cli s =
     (case ec_timer_start e (cl_app cli) 1 s of (rc, ti, s) \<Rightarrow> (rc, cli\<lparr>cl_app := ti\<rparr>, s))"

definition ec_cli_stop_app_timer :: "ec_client \<Rightarrow> ec_client" where
  "ec_cli_stop_app_timer cli = cli\<lparr>cl_app := ec_timer_remove (cl_app cli)\<rparr>"

text \<open>The Max-Age of the response, or 60, and one second of tolerance.\<close>

definition obs_timeout :: "bool \<Rightarrow> ec_client \<Rightarrow> nat" where
  "obs_timeout le cli =
     (case ec_client_get_response_options cli of
        None \<Rightarrow> Enums.EC_COAP_DEFAULT_MAX_AGE
      | Some opts \<Rightarrow> (case ec_opts_get_max_age le opts of
                       None \<Rightarrow> Enums.EC_COAP_DEFAULT_MAX_AGE
                     | Some ma \<Rightarrow> unat ma)) + 1"

definition ec_cli_start_obs_timer ::
    "'m env \<Rightarrow> ec_client \<Rightarrow> 'z world_scheme \<Rightarrow> crc \<times> ec_client \<times> 'z world_scheme" where
  "ec_cli_start_obs_timer e cli s =
     (case ec_timer_start e ((cl_obs cli)\<lparr>tout := (obs_timeout (e_le e) cli, 0)\<rparr>) 1 s of
        (rc, ti, s) \<Rightarrow> (rc, cli\<lparr>cl_obs := ti\<rparr>, s))"

definition ec_cli_stop_obs_timer :: "ec_client \<Rightarrow> ec_client" where
  "ec_cli_stop_obs_timer cli = cli\<lparr>cl_obs := ec_timer_remove (cl_obs cli)\<rparr>"

definition ec_cli_restart_obs_timer ::
    "'m env \<Rightarrow> ec_client \<Rightarrow> 'z world_scheme \<Rightarrow> (crc \<times> ec_client \<times> 'z world_scheme) run" where
  "ec_cli_restart_obs_timer e cli s =
     run_bind (ec_timer_restart e (cl_obs cli) s) (\<lambda>(rc, ti, s). Done (rc, cli\<lparr>cl_obs := ti\<rparr>, s))"

subsection \<open>Changing state\<close>

text \<open>
  The first part of \<open>ec_client_set_state\<close>: timers and the acknowledgement of a separate
  response. An error result ends the process; the other results are only logged.
\<close>

definition cli_actions ::
    "'m env \<Rightarrow> bool \<Rightarrow> ec_cli_state \<Rightarrow> ec_client \<Rightarrow> ('m, 'z) base_scheme \<Rightarrow>
     (crc \<times> ec_client \<times> ('m, 'z) base_scheme) run" where
  "cli_actions e is_con st cli s =
     (if st = EC_CLI_STATE_REQ_SENT then
        (if cl_state cli = EC_CLI_STATE_DNS_OK then
           (case ec_cli_start_app_timer e cli s of
              (C_ERR, cli, s) \<Rightarrow> Done (C_ERR, cli, s)
            | (C_OK, cli, s) \<Rightarrow>
                if is_con then (case ec_cli_start_coap_timer e cli s of (_, cli, s) \<Rightarrow> Done (C_OK, cli, s))
                else Done (C_OK, cli, s))
         else if cl_state cli = EC_CLI_STATE_COAP_RETRY then
           run_bind (ec_cli_restart_coap_timer e cli s) (\<lambda>(_, cli, s). Done (C_OK, cli, s))
         else Done (C_OK, cli, s))
      else if st = EC_CLI_STATE_WAIT_NFY then
        (if cl_state cli = EC_CLI_STATE_WAIT_NFY then ec_cli_restart_obs_timer e cli s
         else let cli = ec_cli_stop_app_timer cli;
                  cli = (if is_con then ec_cli_stop_coap_timer cli else cli)
              in Done (ec_cli_start_obs_timer e cli s))
      else if st = EC_CLI_STATE_REQ_ACKD then
        Done (C_OK, if is_con then ec_cli_stop_coap_timer cli else cli, s)
      else if st = EC_CLI_STATE_REQ_DONE \<and> cl_state cli = EC_CLI_STATE_REQ_ACKD \<and> is_con then
        run_bind (ec_client_send_ack e cli s) (\<lambda>(_, s). Done (C_OK, cli, s))
      else Done (C_OK, cli, s))"

definition ec_client_invoke_user_callback ::
    "nat \<Rightarrow> ec_client \<Rightarrow> ('m, 'z) ec_scheme \<Rightarrow> ec_client \<times> ('m, 'z) ec_scheme" where
  "ec_client_invoke_user_callback a cli s =
     (case cl_cb cli of
        None \<Rightarrow> (cli, s)
      | Some cb \<Rightarrow>
          (if cb (cl_state cli) (cl_flow cli) (cl_res cli) then ec_client_cancel_observation cli else cli,
           s\<lparr>cl_log := cl_log s @ [(a, cl_state cli, f_resp_code (cl_flow cli))]\<rparr>))"

text \<open>
  The last part, once the state is set: a canceled observation resets the peer, otherwise
  the user is told; in the end a final client is recycled or released.
\<close>

definition cli_notify ::
    "'m env \<Rightarrow> nat \<Rightarrow> ec_client \<Rightarrow> ('m, 'z) ec_scheme \<Rightarrow> (bool \<times> ec_client \<times> ('m, 'z) ec_scheme) run" where
  "cli_notify e a cli s =
     (let fin = ec_client_state_is_final (cl_state cli)
      in if fin \<or> cl_state cli = EC_CLI_STATE_WAIT_NFY then
           (if co_cancel (cl_observe cli)
            then run_bind (ec_client_rst_peer e cli s) (\<lambda>(_, s). Done (True, cli, s))
            else (case ec_client_invoke_user_callback a cli s of (cli, s) \<Rightarrow> Done (fin, cli, s)))
         else Done (fin, cli, s))"

definition cli_dispose ::
    "bool \<Rightarrow> nat \<Rightarrow> ec_client \<Rightarrow> ('m, 'z) ec_scheme \<Rightarrow> ('m, 'z) ec_scheme run" where
  "cli_dispose is_con a cli s =
     (let cli = ec_cli_stop_app_timer cli;
          cli = (if is_con then ec_cli_stop_coap_timer cli else cli);
          cli = ec_cli_stop_obs_timer cli
      in if cl_userown cli then Done (put_cli a (cli\<lparr>cl_res := []\<rparr>) s)
         else ec_client_free a (put_cli a cli s))"

definition ec_client_set_state ::
    "'m env \<Rightarrow> nat \<Rightarrow> ec_cli_state \<Rightarrow> ('m, 'z) ec_scheme \<Rightarrow> (bool \<times> ('m, 'z) ec_scheme) run" where
  "ec_client_set_state e a st s =
     run_bind (get_cli a s) (\<lambda>cli.
       if ec_client_check_transition (cl_state cli) st = C_ERR then Fault Process_exit
       else let is_con = (ec_conn_get_confirmable (f_conn (cl_flow cli)) = Some True)
            in run_bind (cli_actions e is_con st cli s) (\<lambda>(rc, cli, s).
                 if rc = C_ERR then Fault Process_exit
                 else run_bind (cli_notify e a (cli\<lparr>cl_state := st\<rparr>) s) (\<lambda>(fin, cli, s).
                   if fin then run_bind (cli_dispose is_con a cli s) (\<lambda>s. Done (True, s))
                   else Done (False, put_cli a cli s))))"

subsection \<open>Sending a request\<close>

text \<open>
  What evdns answers: nothing was found, or a list of addresses, each with the socket that
  \<open>socket()\<close> gives for it (or -1) and whether that can be made non-blocking.
\<close>

datatype dns_answer = Dns_failed | Dns_addrs "(int \<times> sockaddr \<times> bool) list"

text \<open>
  The loop over the addresses. \<open>False\<close>: the callback has returned. An address of an unknown
  family ends the callback without a change of state.
\<close>

fun dns_try ::
    "'m env \<Rightarrow> nat \<Rightarrow> (int \<times> sockaddr \<times> bool) list \<Rightarrow> ('m, 'z) ec_scheme \<Rightarrow> (bool \<times> ('m, 'z) ec_scheme) run" where
  "dns_try e a [] s = Done (True, s)"
| "dns_try e a ((sd, addr, nonblocking) # ais) s =
     run_bind (get_cli a s) (\<lambda>cli.
       let flow = (cl_flow cli)\<lparr>f_conn := (f_conn (cl_flow cli))\<lparr>c_socket := sd\<rparr>\<rparr>
       in if sd = -1 then dns_try e a ais (put_cli a (cli\<lparr>cl_flow := flow\<rparr>) s)
          else case ec_pdu_set_peer (cl_req cli) flow addr of
            (C_ERR, req, flow) \<Rightarrow> Done (False, put_cli a (cli\<lparr>cl_flow := flow\<rparr>) s)
          | (C_OK, req, flow) \<Rightarrow>
              let cli = cli\<lparr>cl_req := req, cl_flow := flow\<rparr>
              in run_bind (ec_pdu_send e req flow True (put_cli a cli s)) (\<lambda>(rc, s).
                   if rc = C_ERR then
                     dns_try e a ais (note_closed (Some sd)
                       (put_cli a (cli\<lparr>cl_flow := flow\<lparr>f_conn := (f_conn flow)\<lparr>c_socket := -1\<rparr>\<rparr>\<rparr>) s))
                   else if \<not> nonblocking then
                     run_bind (ec_client_set_state e a EC_CLI_STATE_INTERNAL_ERR s) (\<lambda>(_, s). Done (False, s))
                   else run_bind (ec_client_set_state e a EC_CLI_STATE_REQ_SENT s) (\<lambda>(_, s). Done (True, s))))"

text \<open>After an attempt on some socket: was it sent at all? Then wait for the response.\<close>

definition dns_registered ::
    "'m env \<Rightarrow> nat \<Rightarrow> ('m, 'z) ec_scheme \<Rightarrow> ('m, 'z) ec_scheme run" where
  "dns_registered e a s =
     run_bind (get_cli a s) (\<lambda>cli.
       if c_socket (f_conn (cl_flow cli)) = -1
       then run_bind (ec_client_set_state e a EC_CLI_STATE_INTERNAL_ERR s) (\<lambda>(_, s). Done s)
       else run_bind (ec_client_register e a s) (\<lambda>(rc, s).
         if rc = C_ERR then run_bind (ec_client_set_state e a EC_CLI_STATE_INTERNAL_ERR s) (\<lambda>(_, s). Done s)
         else Done s))"

definition dns_send ::
    "'m env \<Rightarrow> nat \<Rightarrow> (int \<times> sockaddr \<times> bool) list \<Rightarrow> ('m, 'z) ec_scheme \<Rightarrow> ('m, 'z) ec_scheme run" where
  "dns_send e a ais s =
     run_bind (get_cli a s) (\<lambda>cli.
       if c_socket (f_conn (cl_flow cli)) > 0 then
         run_bind (ec_pdu_send e (cl_req cli) (cl_flow cli) True s) (\<lambda>(rc, s).
           if rc = C_ERR then run_bind (ec_client_set_state e a EC_CLI_STATE_INTERNAL_ERR s) (\<lambda>(_, s). Done s)
           else run_bind (ec_client_set_state e a EC_CLI_STATE_REQ_SENT s) (\<lambda>(_, s). dns_registered e a s))
       else let cli = cli\<lparr>cl_flow := (cl_flow cli)\<lparr>f_conn := (f_conn (cl_flow cli))\<lparr>c_socket := -1\<rparr>\<rparr>\<rparr>
            in run_bind (dns_try e a ais (put_cli a cli s)) (\<lambda>(go_on, s).
                 if go_on then dns_registered e a s else Done s))"

definition ec_client_dns_cb ::
    "'m env \<Rightarrow> dns_answer \<Rightarrow> nat \<Rightarrow> ('m, 'z) ec_scheme \<Rightarrow> ('m, 'z) ec_scheme run" where
  "ec_client_dns_cb e ans a s =
     run_bind (get_cli a s) (\<lambda>cli.
       let s = put_cli a (cli\<lparr>cl_dns_req := False\<rparr>) s
       in case ans of
            Dns_failed \<Rightarrow> run_bind (ec_client_set_state e a EC_CLI_STATE_DNS_FAILED s) (\<lambda>(_, s). Done s)
          | Dns_addrs ais \<Rightarrow>
              run_bind (ec_client_set_state e a EC_CLI_STATE_DNS_OK s) (\<lambda>(_, s).
              run_bind (get_cli a s) (\<lambda>cli.
                case ec_pdu_encode_request e (cl_req cli) (cl_flow cli) s of
                  (rc, req, s) \<Rightarrow>
                    let s = put_cli a (cli\<lparr>cl_req := req\<rparr>) s
                    in if rc = C_ERR
                       then run_bind (ec_client_set_state e a EC_CLI_STATE_INTERNAL_ERR s) (\<lambda>(_, s). Done s)
                       else dns_send e a ais s)))"

text \<open>The destination host and port of a request, as strings.\<close>

definition client_dest :: "'m env \<Rightarrow> ec_client \<Rightarrow> (byte list \<times> byte list) option" where
  "client_dest e cli =
     (let conn = f_conn (cl_flow cli)
      in if c_use_proxy conn
         then map_option (\<lambda>p. (c_proxy_addr conn, p)) (e_port_snprintf e (ucast (c_proxy_port conn)))
         else case f_uri (cl_flow cli) of
           None \<Rightarrow> None
         | Some u \<Rightarrow>
             map_option (\<lambda>p. (e_uri_host e u, p))
               (e_port_snprintf e (case ec_opts_get_uri_port (e_le e) (p_opts (cl_req cli)) of
                  None \<Rightarrow> of_nat EC_COAP_DEFAULT_PORT
                | Some port \<Rightarrow> ucast port)))"

text \<open>
  \<open>resolve\<close> is evdns: it may answer at once, in which case the callback runs before
  \<open>evdns_getaddrinfo\<close> returns, or later (\<open>None\<close>).
\<close>

definition ec_client_go ::
    "'m env \<Rightarrow> (byte list \<times> byte list \<Rightarrow> dns_answer option) \<Rightarrow> nat \<Rightarrow> client_cb option \<Rightarrow> timeval option \<Rightarrow>
     ('m, 'z) ec_scheme \<Rightarrow> (crc \<times> ('m, 'z) ec_scheme) run" where
  "ec_client_go e resolve a cb tmo s =
     run_bind (get_cli a s) (\<lambda>cli.
       case (if cl_state cli \<noteq> EC_CLI_STATE_NONE \<and> \<not> ec_client_state_is_final (cl_state cli) then None
             else client_dest e cli) of
         None \<Rightarrow> run_bind (ec_client_set_state e a EC_CLI_STATE_INTERNAL_ERR s) (\<lambda>(_, s). Done (C_ERR, s))
       | Some dest \<Rightarrow>
           let cli = cli\<lparr>cl_cb := cb, cl_app := (cl_app cli)\<lparr>tout := (case tmo of None \<Rightarrow> (60, 0) | Some t \<Rightarrow> t)\<rparr>\<rparr>
           in case resolve dest of
                None \<Rightarrow> Done (C_OK, put_cli a (cli\<lparr>cl_dns_req := True\<rparr>) s)
              | Some ans \<Rightarrow> run_bind (ec_client_dns_cb e ans a (put_cli a cli s)) (\<lambda>s. Done (C_OK, s)))"

subsection \<open>Receiving\<close>

text \<open>\<open>time(NULL)\<close> as a signed integer, -1 on error.\<close>

definition time_now :: "'m env \<Rightarrow> 'z world_scheme \<Rightarrow> int" where
  "time_now e s = (case e_time e (w_tick s) of None \<Rightarrow> -1 | Some t \<Rightarrow> sint t)"

text \<open>A notification that is not newer than the last one, and not much later either.\<close>

definition stale :: "ec_cli_obs \<Rightarrow> u16 \<Rightarrow> int \<Rightarrow> bool" where
  "stale ob o_cnt now \<longleftrightarrow>
     (uint (co_last_cnt ob) - uint o_cnt) mod 2 ^ 32 mod 2 ^ 16 < 2 ^ 15 \<and> now < co_last_ts ob + 2 ^ 14"

definition ec_client_handle_observation ::
    "'m env \<Rightarrow> nat \<Rightarrow> ('m, 'z) ec_scheme \<Rightarrow> (crc \<times> ('m, 'z) ec_scheme) run" where
  "ec_client_handle_observation e a s =
     run_bind (get_cli a s) (\<lambda>cli.
       case ec_client_get_response_options cli of
         None \<Rightarrow> Done (C_ERR, s)
       | Some res_opts \<Rightarrow>
           let req_obs = ec_opts_get (ec_client_get_request_options cli) EC_OPT_OBSERVE;
               obs_ack = ec_opts_get_observe (e_le e) res_opts;
               ob = cl_observe cli
           in if co_on ob then
                (let now = time_now e s; s = tick s
                 in if f_resp_code (cl_flow cli) = EC_INTERNAL_SERVER_ERROR
                    then Done (C_OK, put_cli a (cli\<lparr>cl_observe := ob\<lparr>co_on := False\<rparr>\<rparr>) s)
                    else case obs_ack of
                      None \<Rightarrow> Done (C_OK, put_cli a (cli\<lparr>cl_observe := ob\<lparr>co_on := False\<rparr>\<rparr>) s)
                    | Some o_cnt \<Rightarrow>
                        if f_resp_code (cl_flow cli) = EC_DELETED
                        then Done (C_OK, put_cli a (cli\<lparr>cl_observe := ob\<lparr>co_on := False\<rparr>\<rparr>) s)
                        else if stale ob o_cnt now then Done (C_ERR, s)
                        else Done (C_OK, put_cli a (cli\<lparr>cl_observe :=
                               ob\<lparr>co_last_cnt := o_cnt, co_last_ts := now\<rparr>\<rparr>) s))
              else Done (C_OK, put_cli a (cli\<lparr>cl_observe := ob\<lparr>co_on := (req_obs \<noteq> None \<and> obs_ack \<noteq> None)\<rparr>\<rparr>) s))"

definition ec_client_handle_empty_pdu ::
    "'m env \<Rightarrow> nat \<Rightarrow> byte \<Rightarrow> ('m, 'z) ec_scheme \<Rightarrow> (crc \<times> ('m, 'z) ec_scheme) run" where
  "ec_client_handle_empty_pdu e a t s =
     (if t = EC_COAP_ACK then run_bind (ec_client_set_state e a EC_CLI_STATE_REQ_ACKD s) (\<lambda>(_, s). Done (C_OK, s))
      else if t = EC_COAP_RST then run_bind (ec_client_set_state e a EC_CLI_STATE_REQ_RST s) (\<lambda>(_, s). Done (C_OK, s))
      else Done (C_ERR, s))"

text \<open>Does a response echo the token of the request, if it has one?\<close>

definition token_echoed :: "ec_opts \<Rightarrow> ec_flow \<Rightarrow> bool" where
  "token_echoed opts flow \<longleftrightarrow>
     (case ec_opts_get opts EC_OPT_TOKEN of
        None \<Rightarrow> True
      | Some t \<Rightarrow> o_l t = f_token_sz flow \<and> take (o_l t) (opt_mem t) = take (o_l t) (f_token flow))"

text \<open>The last part of \<open>ec_client_handle_pdu\<close>, once the response is in the response set.\<close>

definition cli_deliver ::
    "'m env \<Rightarrow> nat \<Rightarrow> ('m, 'z) ec_scheme \<Rightarrow> (ec_net_cbrc \<times> ('m, 'z) ec_scheme) run" where
  "cli_deliver e a s =
     run_bind (ec_client_handle_observation e a s) (\<lambda>(rc, s).
       if rc = C_ERR then Done (EC_NET_CBRC_ERROR, s)
       else run_bind (get_cli a s) (\<lambda>cli.
         run_bind (ec_client_set_state e a
             (if ec_client_is_observing cli then EC_CLI_STATE_WAIT_NFY else EC_CLI_STATE_REQ_DONE) s) (\<lambda>(fin, s).
           if fin then Done (EC_NET_CBRC_DEAD, s)
           else run_bind (get_cli a s) (\<lambda>cli.
             Done (EC_NET_CBRC_SUCCESS,
               if ec_client_is_observing cli then put_cli a (cli\<lparr>cl_res := []\<rparr>) s else s)))))"

text \<open>Options, payload and token of a response (the payload as in a request).\<close>

definition cli_response ::
    "'m env \<Rightarrow> nat \<Rightarrow> ec_pdu \<Rightarrow> byte list \<Rightarrow> nat \<Rightarrow> ('m, 'z) ec_scheme \<Rightarrow> (ec_net_cbrc \<times> ('m, 'z) ec_scheme) run" where
  "cli_response e a pdu raw raw_sz s =
     run_bind (ec_opts_decode (p_opts pdu) raw raw_sz (unat (h_oc (p_hdr_bits pdu)))) (\<lambda>(rc, opts, olen).
       if rc \<noteq> EC_RC_UNSET then Done (EC_NET_CBRC_ERROR, s)
       else run_bind (srv_payload e (pdu\<lparr>p_opts := opts\<rparr>) raw raw_sz olen) (\<lambda>pdu.
       run_bind (get_cli a s) (\<lambda>cli.
         if \<not> token_echoed (p_opts pdu) (cl_flow cli) then Done (EC_NET_CBRC_ERROR, s)
         else case ec_flow_set_resp_code (cl_flow cli) (uint (h_code (p_hdr_bits pdu))) of
           (C_ERR, _) \<Rightarrow> Done (EC_NET_CBRC_ERROR, s)
         | (C_OK, flow) \<Rightarrow>
             cli_deliver e a (put_cli a (cli\<lparr>cl_flow := flow, cl_res := ec_res_set_add (cl_res cli) pdu\<rparr>) s))))"

definition ec_client_handle_pdu ::
    "'m env \<Rightarrow> nat \<Rightarrow> int \<Rightarrow> byte list \<Rightarrow> nat \<Rightarrow> sockaddr \<Rightarrow> ('m, 'z) ec_scheme \<Rightarrow>
     (ec_net_cbrc \<times> ('m, 'z) ec_scheme) run" where
  "ec_client_handle_pdu e a sd raw raw_sz peer s =
     (let (pdu, s) = ec_pdu_new_empty s
      in case ec_pdu_decode_header (e_le e) pdu raw raw_sz of
           (C_ERR, pdu) \<Rightarrow> Done (EC_NET_CBRC_ERROR, s)
         | (C_OK, pdu) \<Rightarrow>
             let h = p_hdr_bits pdu
             in if 1 \<le> h_code h \<and> h_code h \<le> 31 then Done (EC_NET_CBRC_ERROR, s)
                else run_bind (get_cli a s) (\<lambda>_.
                  run_bind (ec_dups_handle_incoming_srvmsg e (h_mid h) sd peer s) (\<lambda>(d, s).
                    if d = 1 then Done (EC_NET_CBRC_SUCCESS, s)
                    else if d \<noteq> 0 then Done (EC_NET_CBRC_ERROR, s)
                    else if h_code h = 0 then
                      run_bind (ec_client_handle_empty_pdu e a (h_t h) s) (\<lambda>(rc, s).
                        Done (if rc = C_ERR then EC_NET_CBRC_ERROR else EC_NET_CBRC_SUCCESS, s))
                    else cli_response e a pdu raw raw_sz s)))"

definition ec_client_input ::
    "'m env \<Rightarrow> nat \<Rightarrow> int \<Rightarrow> byte list \<Rightarrow> recv_event list \<Rightarrow> ('m, 'z) ec_scheme \<Rightarrow> ('m, 'z) ec_scheme run" where
  "ec_client_input e a sd buf evs s = ec_net_pullup_all (ec_client_handle_pdu e a sd) buf evs s"

subsection \<open>Fired timers\<close>

definition ec_cli_coap_timeout :: "'m env \<Rightarrow> nat \<Rightarrow> ('m, 'z) ec_scheme \<Rightarrow> ('m, 'z) ec_scheme run" where
  "ec_cli_coap_timeout e a s =
     run_bind (get_cli a s) (\<lambda>cli.
       if retries_left (cl_coap cli) = 0
       then run_bind (ec_client_set_state e a EC_CLI_STATE_COAP_TIMEOUT s) (\<lambda>(_, s). Done s)
       else run_bind (ec_client_set_state e a EC_CLI_STATE_COAP_RETRY s) (\<lambda>(_, s).
         run_bind (get_cli a s) (\<lambda>cli.
         run_bind (ec_pdu_send e (cl_req cli) (cl_flow cli) True s) (\<lambda>(rc, s).
         run_bind (ec_client_set_state e a
             (if rc = C_OK then EC_CLI_STATE_REQ_SENT else EC_CLI_STATE_SEND_FAILED) s) (\<lambda>(_, s). Done s)))))"

definition ec_cli_app_timeout :: "'m env \<Rightarrow> nat \<Rightarrow> ('m, 'z) ec_scheme \<Rightarrow> ('m, 'z) ec_scheme run" where
  "ec_cli_app_timeout e a s =
     run_bind (ec_client_set_state e a EC_CLI_STATE_APP_TIMEOUT s) (\<lambda>(_, s). Done s)"

definition ec_cli_obs_timeout :: "'m env \<Rightarrow> nat \<Rightarrow> ('m, 'z) ec_scheme \<Rightarrow> ('m, 'z) ec_scheme run" where
  "ec_cli_obs_timeout e a s =
     run_bind (get_cli a s) (\<lambda>cli.
     run_bind (ec_client_set_state e a EC_CLI_STATE_OBS_TIMEOUT
         (put_cli a (cli\<lparr>cl_observe := (cl_observe cli)\<lparr>co_on := False\<rparr>\<rparr>) s)) (\<lambda>(_, s). Done s))"

text \<open>The events themselves: the timer stops pending, then its handler runs.\<close>

definition cli_coap_fires :: "'m env \<Rightarrow> nat \<Rightarrow> ('m, 'z) ec_scheme \<Rightarrow> ('m, 'z) ec_scheme run" where
  "cli_coap_fires e a s =
     run_bind (get_cli a s) (\<lambda>cli. ec_cli_coap_timeout e a (put_cli a (cli\<lparr>cl_coap := timer_fired (cl_coap cli)\<rparr>) s))"

definition cli_app_fires :: "'m env \<Rightarrow> nat \<Rightarrow> ('m, 'z) ec_scheme \<Rightarrow> ('m, 'z) ec_scheme run" where
  "cli_app_fires e a s =
     run_bind (get_cli a s) (\<lambda>cli. ec_cli_app_timeout e a (put_cli a (cli\<lparr>cl_app := timer_fired (cl_app cli)\<rparr>) s))"

definition cli_obs_fires :: "'m env \<Rightarrow> nat \<Rightarrow> ('m, 'z) ec_scheme \<Rightarrow> ('m, 'z) ec_scheme run" where
  "cli_obs_fires e a s =
     run_bind (get_cli a s) (\<lambda>cli. ec_cli_obs_timeout e a (put_cli a (cli\<lparr>cl_obs := timer_fired (cl_obs cli)\<rparr>) s))"

end
