(* ===== verification/Cli_Spec.thy ===== *)
theory Cli_Spec
  imports Cli_Engine Srv_Reach
begin

text \<open>
  The client engine: the invariant of the clients that the engine owns (\<open>userown\<close> is false) and
  what each operation does to it. The server's part of the state is untouched by a client,
  which \<open>cframe\<close> says, relative to the state before.
\<close>

lemmas fsm_tables [fsm_simps] = ec_client_state_is_final_def ec_server_state_is_final_def

interpretation cli_fsm: transaction_fsm "\<lambda>c s. ec_client_check_transition c s = C_OK" ec_client_state_is_final
    "\<lambda>s. s = EC_CLI_STATE_INTERNAL_ERR" "\<lambda>s. s = EC_CLI_STATE_DNS_OK" EC_CLI_STATE_NONE
proof
  show "ec_client_state_is_final c \<Longrightarrow> ec_client_check_transition c s = C_OK \<Longrightarrow>
    s = EC_CLI_STATE_INTERNAL_ERR \<or> s = EC_CLI_STATE_DNS_OK" for c s
    by (cases s) (auto simp: fsm_simps split: if_splits)
  show "\<exists>s. s = EC_CLI_STATE_INTERNAL_ERR \<and> (\<forall>c. ec_client_check_transition c s = C_OK)" by simp
qed (simp_all add: fsm_simps)

interpretation srv_fsm: transaction_fsm "\<lambda>c s. ec_server_check_transition c s = C_OK" ec_server_state_is_final
    "\<lambda>s. s = EC_SRV_STATE_INTERNAL_ERR \<or> s = EC_SRV_STATE_CLIENT_RST" "\<lambda>_. False" EC_SRV_STATE_NONE
proof
  show "ec_server_state_is_final c \<Longrightarrow> ec_server_check_transition c s = C_OK \<Longrightarrow>
    (s = EC_SRV_STATE_INTERNAL_ERR \<or> s = EC_SRV_STATE_CLIENT_RST) \<or> False" for c s
    by (cases s) (auto simp: fsm_simps split: if_splits)
  show "\<exists>s. (s = EC_SRV_STATE_INTERNAL_ERR \<or> s = EC_SRV_STATE_CLIENT_RST) \<and> (\<forall>c. ec_server_check_transition c s = C_OK)"
    by (rule exI [of _ EC_SRV_STATE_INTERNAL_ERR]) simp
qed (auto simp: fsm_simps)

subsection \<open>The invariant\<close>

definition is_con_cli :: "ec_client \<Rightarrow> bool" where
  "is_con_cli cli \<longleftrightarrow> ec_conn_get_confirmable (f_conn (cl_flow cli)) = Some True"

text \<open>Which timers exist in which state.\<close>

definition cli_timers_ok :: "ec_client \<Rightarrow> bool" where
  "cli_timers_ok cli \<longleftrightarrow>
     (case cl_state cli of
        EC_CLI_STATE_REQ_SENT \<Rightarrow> evti (cl_obs cli) = None \<and> (evti (cl_coap cli) \<noteq> None \<longrightarrow> is_con_cli cli)
      | EC_CLI_STATE_COAP_RETRY \<Rightarrow> evti (cl_obs cli) = None \<and> evti (cl_coap cli) \<noteq> None \<and> is_con_cli cli
      | EC_CLI_STATE_REQ_ACKD \<Rightarrow> evti (cl_obs cli) = None \<and> evti (cl_coap cli) = None
      | EC_CLI_STATE_WAIT_NFY \<Rightarrow> evti (cl_obs cli) \<noteq> None \<and> evti (cl_coap cli) = None \<and> evti (cl_app cli) = None
      | _ \<Rightarrow> evti (cl_obs cli) = None \<and> evti (cl_coap cli) = None \<and> evti (cl_app cli) = None)"

definition cli_ok :: "bool \<Rightarrow> ec_client \<Rightarrow> bool" where
  "cli_ok listed cli \<longleftrightarrow> cl_base cli \<and> \<not> cl_userown cli \<and> cl_linked cli = listed \<and> cli_timers_ok cli"

text \<open>Between two events: not started or stuck without a socket, or listed and waiting for the peer.\<close>

definition cli_waits :: "ec_client \<Rightarrow> bool" where
  "cli_waits cli \<longleftrightarrow>
     (if cl_linked cli then cl_state cli \<in> {EC_CLI_STATE_REQ_SENT, EC_CLI_STATE_REQ_ACKD, EC_CLI_STATE_WAIT_NFY}
      else cl_state cli \<in> {EC_CLI_STATE_NONE, EC_CLI_STATE_DNS_OK})"

definition clients_ok :: "nat set \<Rightarrow> ('m, 'z) ec_scheme \<Rightarrow> bool" where
  "clients_ok X s \<longleftrightarrow> distinct (cl_list s) \<and> (\<forall>a \<in> set (cl_list s). cl_heap s a \<noteq> None) \<and>
     (\<forall>a cli. cl_heap s a = Some cli \<longrightarrow>
        a < w_tick s \<and> cli_ok (a \<in> set (cl_list s)) cli \<and> (a \<notin> X \<longrightarrow> cli_waits cli))"

definition cframe :: "('m, 'z) ec_scheme \<Rightarrow> ('m, 'z) ec_scheme \<Rightarrow> bool" where
  "cframe s0 s \<longleftrightarrow> w_tick s0 \<le> w_tick s \<and> ob_list s = ob_list s0 \<and> ob_heap s = ob_heap s0 \<and> sv_list s = sv_list s0 \<and>
     sv_heap s = sv_heap s0 \<and> sv_packs s = sv_packs s0 \<and> resources s = resources s0 \<and> fallback s = fallback s0 \<and>
     s_cfg s = s_cfg s0"

definition cl_inv :: "'m env \<Rightarrow> ('m, 'z) ec_scheme \<Rightarrow> nat set \<Rightarrow> ('m, 'z) ec_scheme \<Rightarrow> bool" where
  "cl_inv e s0 X s \<longleftrightarrow> cframe s0 s \<and> dups_ok e s \<and> clients_ok X s"

text \<open>The client at \<open>a\<close> is being processed, in state \<open>st\<close> and linked or not.\<close>

definition cbusy :: "'m env \<Rightarrow> ('m, 'z) ec_scheme \<Rightarrow> nat \<Rightarrow> bool \<Rightarrow> ec_cli_state \<Rightarrow> ('m, 'z) ec_scheme \<Rightarrow> bool" where
  "cbusy e s0 a l st s \<longleftrightarrow> cl_inv e s0 {a} s \<and> (\<exists>cli. cl_heap s a = Some cli \<and> cl_state cli = st \<and> cl_linked cli = l)"

lemma cframe_refl [simp]: "cframe s s"
  by (simp add: cframe_def)

lemma cframe_engine:
  assumes "cframe s0 s" and "engine_ok e {} s0" and "dups_ok e s"
  shows "engine_ok e {} s"
proof -
  have t: "w_tick s0 \<le> w_tick s" and f: "ob_list s = ob_list s0" "ob_heap s = ob_heap s0" "sv_list s = sv_list s0"
    "sv_heap s = sv_heap s0" "sv_packs s = sv_packs s0" "resources s = resources s0" "fallback s = fallback s0"
    using assms(1) by (simp_all add: cframe_def)
  have "obs_ok s" using inv_parts(2) [OF assms(2)] t unfolding obs_ok_def f by (blast intro: less_le_trans)
  moreover have "srvs_ok {} s" using inv_parts(3) [OF assms(2)] t unfolding srvs_ok_def f by (blast intro: less_le_trans)
  moreover have "cbs_ok s" using inv_parts(4) [OF assms(2)] unfolding cbs_ok_def f .
  ultimately show ?thesis using assms(3) by (simp add: engine_ok_def)
qed

lemma base_step_ec:
  assumes "base_step s s'"
  shows "cl_list s' = cl_list s" and "cl_heap s' = cl_heap s" and "cl_log s' = cl_log s" and "cl_closed s' = cl_closed s"
    and "cframe s0 s \<Longrightarrow> cframe s0 s'" and "w_tick s \<le> w_tick s'"
proof -
  from assms obtain t ws m r n where s': "s' = s\<lparr>w_tick := t, w_sent := ws, d_map := m, d_recvd := r, d_next := n\<rparr>"
    and t: "w_tick s \<le> w_tick s'" unfolding base_step_def by blast
  show "cl_list s' = cl_list s" "cl_heap s' = cl_heap s" "cl_log s' = cl_log s" "cl_closed s' = cl_closed s"
    unfolding s' by simp_all
  show "w_tick s \<le> w_tick s'" by (rule t)
  then show "cframe s0 s \<Longrightarrow> cframe s0 s'" unfolding s' cframe_def by simp
qed

lemma clients_ok_mono: "clients_ok X s \<Longrightarrow> cl_list s' = cl_list s \<Longrightarrow> cl_heap s' = cl_heap s \<Longrightarrow> w_tick s \<le> w_tick s' \<Longrightarrow> clients_ok X s'"
  unfolding clients_ok_def by fastforce

lemma cl_inv_base: "base_step s s' \<Longrightarrow> dups_ok e s' \<Longrightarrow> cl_inv e s0 X s \<Longrightarrow> cl_inv e s0 X s'"
  using base_step_ec [of s s'] clients_ok_mono [of X s s'] by (simp add: cl_inv_def)

lemma cl_inv_ticked: "ticked s s' \<Longrightarrow> cl_inv e s0 X s \<Longrightarrow> cl_inv e s0 X s'"
  using cl_inv_base [OF ticked_base_step, of s s' e s0 X] ticked_dups [of s s' e] by (simp add: cl_inv_def)

lemma cbusy_base: "base_step s s' \<Longrightarrow> dups_ok e s' \<Longrightarrow> cbusy e s0 a l st s \<Longrightarrow> cbusy e s0 a l st s'"
  using cl_inv_base [of s s'] base_step_ec(2) [of s s'] by (simp add: cbusy_def)

lemma cbusy_ticked: "ticked s s' \<Longrightarrow> cbusy e s0 a l st s \<Longrightarrow> cbusy e s0 a l st s'"
  using cl_inv_ticked [of s s'] base_step_ec(2) [OF ticked_base_step, of s s'] by (simp add: cbusy_def)

lemma cbusy_dups: "cbusy e s0 a l st s \<Longrightarrow> dups_ok e s"
  by (simp add: cbusy_def cl_inv_def)

lemma cbusyE:
  assumes "cbusy e s0 a l st s"
  obtains cli where "cl_heap s a = Some cli" "cl_state cli = st" "cl_linked cli = l" "cli_ok l cli" "l = (a \<in> set (cl_list s))"
    "get_cli a s = Done cli" "cl_inv e s0 {a} s"
proof -
  from assms obtain cli where s: "cl_heap s a = Some cli" "cl_state cli = st" "cl_linked cli = l" "cl_inv e s0 {a} s"
    unfolding cbusy_def by blast
  then have "cli_ok (a \<in> set (cl_list s)) cli" unfolding cl_inv_def clients_ok_def by blast
  with s that show ?thesis by (simp add: cli_ok_def get_cli_def)
qed

lemma put_cli_sel [simp]:
  "cl_heap (put_cli a cli s) = (cl_heap s)(a \<mapsto> cli)" "cl_list (put_cli a cli s) = cl_list s"
  "w_tick (put_cli a cli s) = w_tick s" "w_sent (put_cli a cli s) = w_sent s" "cl_log (put_cli a cli s) = cl_log s"
  "cl_closed (put_cli a cli s) = cl_closed s" "dups_ok e (put_cli a cli s) = dups_ok e s"
  "cframe s0 (put_cli a cli s) = cframe s0 s" "get_cli a (put_cli a cli s) = Done cli"
  by (simp_all add: put_cli_def dups_ok_def cframe_def get_cli_def)

lemma clients_ok_put:
  assumes "clients_ok X s" and "a \<in> X" and "cl_heap s a = Some cli0" and "cli_ok (a \<in> set (cl_list s)) cli"
  shows "clients_ok X (put_cli a cli s)"
  using assms unfolding clients_ok_def by auto

lemma cbusy_put:
  assumes "cbusy e s0 a l st s" and "cli_ok l cli" and "cl_state cli = st'"
  shows "cbusy e s0 a l st' (put_cli a cli s)"
proof -
  obtain cli0 where s: "cl_heap s a = Some cli0" "l = (a \<in> set (cl_list s))" "cl_inv e s0 {a} s"
    by (rule cbusyE [OF assms(1)])
  then have "clients_ok {a} (put_cli a cli s)" using assms(2) clients_ok_put [of "{a}" s a cli0 cli] by (simp add: cl_inv_def)
  moreover have "cl_linked cli = l" using assms(2) by (simp add: cli_ok_def)
  ultimately show ?thesis using s(3) assms(3) by (simp add: cbusy_def cl_inv_def)
qed

lemma cbusy_rest:
  assumes "cbusy e s0 a l st s" and "if l then st \<in> {EC_CLI_STATE_REQ_SENT, EC_CLI_STATE_REQ_ACKD, EC_CLI_STATE_WAIT_NFY}
    else st \<in> {EC_CLI_STATE_NONE, EC_CLI_STATE_DNS_OK}"
  shows "cl_inv e s0 {} s"
proof -
  obtain cli where s: "cl_heap s a = Some cli" "cl_state cli = st" "cl_linked cli = l" "cl_inv e s0 {a} s"
    using assms(1) unfolding cbusy_def by blast
  then have w: "cli_waits cli" using assms(2) by (auto simp: cli_waits_def split: if_splits)
  have "cli_waits c" if "cl_heap s b = Some c" for b c
    using s w that unfolding cl_inv_def clients_ok_def by (cases "b = a") auto
  with s(4) show ?thesis unfolding cl_inv_def clients_ok_def by blast
qed

lemma rest_cbusy:
  assumes "cl_inv e s0 {} s" and "cl_heap s a = Some cli"
  shows "cbusy e s0 a (cl_linked cli) (cl_state cli) s" and "cli_waits cli"
  using assms by (auto simp: cbusy_def cl_inv_def clients_ok_def)

subsection \<open>Releasing\<close>

text \<open>Releasing a client that was never linked is an access through NULL if others are listed.\<close>

definition free_faults :: "bool \<Rightarrow> fault set" where
  "free_faults l = (if l then {} else {Null_deref})"

lemma post_free:
  assumes "cbusy e s0 a l st s" and "cl_base cli" and "cl_linked cli = l"
  shows "post (free_faults l) (\<lambda>s'. cl_inv e s0 {} s' \<and> cl_heap s' a = None \<and> w_sent s' = w_sent s \<and> cl_log s' = cl_log s)
    (ec_client_free a (put_cli a cli s))"
proof -
  obtain cli0 where s: "cl_heap s a = Some cli0" "l = (a \<in> set (cl_list s))" "cl_inv e s0 {a} s"
    by (rule cbusyE [OF assms(1)])
  have w: "clients_ok {a} s" "cframe s0 s" "dups_ok e s" using s(3) by (simp_all add: cl_inv_def)
  have gone: "cl_inv e s0 {} (note_closed c (s\<lparr>cl_heap := (cl_heap s)(a := None), cl_list := remove1 a (cl_list s)\<rparr>))" for c
    using w unfolding cl_inv_def clients_ok_def note_closed_def cframe_def dups_ok_def
    by auto
  have swap: "s\<lparr>cl_list := l, cl_heap := h, cl_closed := c\<rparr> = s\<lparr>cl_heap := h, cl_list := l, cl_closed := c\<rparr>" for l h c by simp
  show ?thesis
  proof (cases "a \<in> set (cl_list s)")
    case True
    then have "cl_list s \<noteq> []" by auto
    with True assms(2,3) gone show ?thesis
      by (simp add: ec_client_free_def ec_client_unregister_def ec_client_del_def cli_ok_def Let_def put_cli_def get_cli_def
          note_closed_def swap split: prod.split)
  next
    case False
    then have "remove1 a (cl_list s) = cl_list s" by (simp add: remove1_idem)
    with False assms(2,3) gone s(2) show ?thesis
      by (auto simp: ec_client_free_def ec_client_unregister_def ec_client_del_def cli_ok_def Let_def put_cli_def get_cli_def
          note_closed_def free_faults_def split: prod.split)
  qed
qed

subsection \<open>Changing state\<close>

lemma timer_start_ok:
  assumes "ec_timer_start e ti n w = (rc, ti', w')" and "\<And>t. e_ev_ok e t" and "evti ti = None" and "0 < n"
  shows "rc = C_OK \<and> ticked w w' \<and> evti ti' = Some True \<and> tout ti' = tout ti \<and> retries_left ti' = n"
  using assms(1,3,4) ticked_timer_start [OF assms(1)] by (auto simp: ec_timer_start_def Let_def assms(2))

lemma timer_restart_ok:
  assumes "\<And>t. e_ev_ok e t" and "evti ti \<noteq> None"
  shows "\<exists>w'. ec_timer_restart e ti w = Done (C_OK, ti\<lparr>evti := Some True\<rparr>, w') \<and> ticked w w'"
  using assms by (auto simp: ec_timer_restart_def Let_def)

text \<open>A client whose timers alone have changed.\<close>

definition untimed :: "ec_client \<Rightarrow> ec_client" where
  "untimed cli = cli\<lparr>cl_app := timer_zero, cl_coap := timer_zero, cl_obs := timer_zero\<rparr>"

definition retimed :: "ec_client \<Rightarrow> ec_client \<Rightarrow> bool" where
  "retimed cli cli' \<longleftrightarrow> untimed cli' = untimed cli"

lemma retimed_keeps:
  assumes "retimed cli cli'"
  shows "cl_base cli' = cl_base cli" "cl_userown cli' = cl_userown cli" "cl_linked cli' = cl_linked cli"
    "cl_flow cli' = cl_flow cli" "cl_observe cli' = cl_observe cli" "cl_res cli' = cl_res cli" "cl_req cli' = cl_req cli"
    "cl_cb cli' = cl_cb cli" "cl_state cli' = cl_state cli"
proof -
  have u: "untimed cli' = untimed cli" using assms by (simp add: retimed_def)
  show "cl_base cli' = cl_base cli" "cl_userown cli' = cl_userown cli" "cl_linked cli' = cl_linked cli"
    "cl_flow cli' = cl_flow cli" "cl_observe cli' = cl_observe cli" "cl_res cli' = cl_res cli" "cl_req cli' = cl_req cli"
    "cl_cb cli' = cl_cb cli" "cl_state cli' = cl_state cli"
    using u [THEN arg_cong [where f = cl_base]] u [THEN arg_cong [where f = cl_userown]] u [THEN arg_cong [where f = cl_linked]]
      u [THEN arg_cong [where f = cl_flow]] u [THEN arg_cong [where f = cl_observe]] u [THEN arg_cong [where f = cl_res]]
      u [THEN arg_cong [where f = cl_req]] u [THEN arg_cong [where f = cl_cb]] u [THEN arg_cong [where f = cl_state]]
    by (simp_all add: untimed_def)
qed

lemma retimed_upd [simp]:
  "retimed cli cli" "retimed cli (cli'\<lparr>cl_app := ta\<rparr>) = retimed cli cli'" "retimed cli (cli'\<lparr>cl_coap := tc\<rparr>) = retimed cli cli'"
  "retimed cli (cli'\<lparr>cl_obs := tb\<rparr>) = retimed cli cli'"
  by (simp_all add: retimed_def untimed_def)

lemma stop_timers_retimed [simp]:
  "retimed cli (ec_cli_stop_app_timer c) = retimed cli c" "retimed cli (ec_cli_stop_coap_timer c) = retimed cli c"
  "retimed cli (ec_cli_stop_obs_timer c) = retimed cli c"
  by (simp_all add: ec_cli_stop_app_timer_def ec_cli_stop_coap_timer_def ec_cli_stop_obs_timer_def)

lemma removed_evti [simp]: "evti (ec_timer_remove ti) = None"
  by (simp add: ec_timer_remove_def)

lemma post_send_ack:
  assumes "dups_ok e s"
  shows "post {} (\<lambda>(rc, s'). base_step s s' \<and> dups_ok e s') (ec_client_send_ack e cli s)"
proof -
  obtain p s1 where n: "ec_pdu_new_empty s = (p, s1)" by fastforce
  note t = ticked_base_step [OF ticked_new_empty [OF n]]
  have d: "dups_ok e s1" using ticked_dups [OF ticked_new_empty [OF n]] assms by simp
  have "post {} (\<lambda>(rc, s'). base_step s s' \<and> dups_ok e s') (ec_pdu_send e q f u s1)" for q f u
    using post_pdu_send [OF d, of q f u] by (rule post_mono) (auto intro: base_step_trans [OF t])
  with n t d show ?thesis
    by (auto simp: ec_client_send_ack_def split: option.split prod.split crc.split)
qed

lemma post_rst_peer:
  assumes "dups_ok e s"
  shows "post {} (\<lambda>(rc, s'). base_step s s' \<and> dups_ok e s') (ec_client_rst_peer e cli s)"
proof -
  obtain p s1 where n: "ec_pdu_new_empty s = (p, s1)" by fastforce
  note t = ticked_base_step [OF ticked_new_empty [OF n]]
  have d: "dups_ok e s1" using ticked_dups [OF ticked_new_empty [OF n]] assms by simp
  have "post {} (\<lambda>(rc, s'). base_step s s' \<and> dups_ok e s') (ec_pdu_send e q f u s1)" for q f u
    using post_pdu_send [OF d, of q f u] by (rule post_mono) (auto intro: base_step_trans [OF t])
  with n t d show ?thesis
    by (auto simp: ec_client_rst_peer_def split: option.split prod.split crc.split)
qed

definition acted :: "'m env \<Rightarrow> ec_cli_state \<Rightarrow> ec_client \<Rightarrow> ('m, 'z) base_scheme \<Rightarrow> crc \<times> ec_client \<times> ('m, 'z) base_scheme \<Rightarrow> bool" where
  "acted e st cli s r \<longleftrightarrow> (case r of (rc, cli', s') \<Rightarrow> rc = C_OK \<and> base_step s s' \<and> dups_ok e s' \<and> retimed cli cli' \<and>
     (ec_client_state_is_final st \<or> cli_timers_ok (cli'\<lparr>cl_state := st\<rparr>)))"

lemma is_con_cli_upd [simp]:
  "is_con_cli (cli\<lparr>cl_state := st\<rparr>) = is_con_cli cli" "is_con_cli (cli\<lparr>cl_app := ta\<rparr>) = is_con_cli cli"
  "is_con_cli (cli\<lparr>cl_coap := tc\<rparr>) = is_con_cli cli" "is_con_cli (cli\<lparr>cl_obs := tb\<rparr>) = is_con_cli cli"
  by (simp_all add: is_con_cli_def)

lemma act_req_sent:
  assumes "cli_timers_ok cli" and "dups_ok e s" and ev: "\<And>t. e_ev_ok e t"
    and "cl_state cli = EC_CLI_STATE_DNS_OK \<or> cl_state cli = EC_CLI_STATE_COAP_RETRY"
  shows "post {} (acted e EC_CLI_STATE_REQ_SENT cli s) (cli_actions e (is_con_cli cli) EC_CLI_STATE_REQ_SENT cli s)"
  using assms(4)
proof
  assume st: "cl_state cli = EC_CLI_STATE_DNS_OK"
  then have n: "evti (cl_app cli) = None" "evti (cl_coap cli) = None" "evti (cl_obs cli) = None"
    using assms(1) by (simp_all add: cli_timers_ok_def)
  obtain rc1 ta s1 where a: "ec_timer_start e (cl_app cli) 1 s = (rc1, ta, s1)" by (metis prod_cases3)
  note a1 = timer_start_ok [OF a ev n(1) zero_less_one]
  let ?ti = "(cl_coap cli)\<lparr>tout := (EC_COAP_RESP_TIMEOUT, 0)\<rparr>"
  obtain rc2 tc s2 where c: "ec_timer_start e ?ti EC_COAP_MAX_RETRANSMIT s1 = (rc2, tc, s2)" by (metis prod_cases3)
  have c1: "rc2 = C_OK \<and> ticked s1 s2 \<and> evti tc = Some True" using timer_start_ok [OF c ev] n(2) by simp
  have t: "ticked s s1" "ticked s s2" using a1 c1 ticked_trans by blast+
  from st a c a1 c1 n t assms(2) show ?thesis
    by (simp add: cli_actions_def ec_cli_start_app_timer_def ec_cli_start_coap_timer_def acted_def ticked_base_step ticked_dups
        cli_timers_ok_def)
next
  assume st: "cl_state cli = EC_CLI_STATE_COAP_RETRY"
  then have n: "evti (cl_coap cli) \<noteq> None" "evti (cl_obs cli) = None" "is_con_cli cli"
    using assms(1) by (simp_all add: cli_timers_ok_def)
  let ?ti = "(cl_coap cli)\<lparr>tout := (fst (tout (cl_coap cli)) * 2, snd (tout (cl_coap cli))), retries_left := retries_left (cl_coap cli) - 1\<rparr>"
  have "evti ?ti \<noteq> None" using n(1) by simp
  then obtain s1 where t: "ec_timer_restart e ?ti s = Done (C_OK, ?ti\<lparr>evti := Some True\<rparr>, s1)" "ticked s s1"
    using timer_restart_ok [OF ev] by blast
  from st t n assms(2) show ?thesis
    by (simp add: cli_actions_def ec_cli_restart_coap_timer_def Let_def acted_def ticked_base_step ticked_dups cli_timers_ok_def)
qed

lemma act_wait_nfy:
  assumes "cli_timers_ok cli" and "dups_ok e s" and ev: "\<And>t. e_ev_ok e t"
    and "cl_state cli \<in> {EC_CLI_STATE_REQ_SENT, EC_CLI_STATE_REQ_ACKD, EC_CLI_STATE_WAIT_NFY}"
  shows "post {} (acted e EC_CLI_STATE_WAIT_NFY cli s) (cli_actions e (is_con_cli cli) EC_CLI_STATE_WAIT_NFY cli s)"
proof (cases "cl_state cli = EC_CLI_STATE_WAIT_NFY")
  case True
  then have n: "evti (cl_obs cli) \<noteq> None" "evti (cl_coap cli) = None" "evti (cl_app cli) = None"
    using assms(1) by (simp_all add: cli_timers_ok_def)
  obtain s1 where t: "ec_timer_restart e (cl_obs cli) s = Done (C_OK, (cl_obs cli)\<lparr>evti := Some True\<rparr>, s1)" "ticked s s1"
    using timer_restart_ok [OF ev n(1)] by blast
  from True t n assms(2) show ?thesis
    by (simp add: cli_actions_def ec_cli_restart_obs_timer_def acted_def ticked_base_step ticked_dups cli_timers_ok_def ex_bool_eq)
next
  case False
  with assms(1,4) have n: "evti (cl_obs cli) = None" "evti (cl_coap cli) = None \<or> is_con_cli cli"
    by (auto simp: cli_timers_ok_def)
  define c where "c = (if is_con_cli cli then ec_cli_stop_coap_timer (ec_cli_stop_app_timer cli) else ec_cli_stop_app_timer cli)"
  have c: "retimed cli c" "evti (cl_app c) = None" "evti (cl_coap c) = None" "evti (cl_obs c) = None"
    using n by (cases "evti (cl_coap cli)", auto simp: c_def) (auto simp: ec_cli_stop_coap_timer_def ec_cli_stop_app_timer_def)
  let ?ti = "(cl_obs c)\<lparr>tout := (obs_timeout (e_le e) c, 0)\<rparr>"
  obtain rc tb s1 where b: "ec_timer_start e ?ti 1 s = (rc, tb, s1)" by (metis prod_cases3)
  have b1: "rc = C_OK \<and> ticked s s1 \<and> evti tb = Some True" using timer_start_ok [OF b ev] c(4) by simp
  have "cli_actions e (is_con_cli cli) EC_CLI_STATE_WAIT_NFY cli s = Done (ec_cli_start_obs_timer e c s)"
    using False by (simp add: cli_actions_def Let_def c_def)
  then show ?thesis
    using b b1 c assms(2) ticked_dups [of s s1 e]
    by (simp add: ec_cli_start_obs_timer_def acted_def ticked_base_step cli_timers_ok_def ex_bool_eq)
qed

lemma post_actions:
  assumes "cli_timers_ok cli" and "dups_ok e s" and "\<And>t. e_ev_ok e t" and t: "ec_client_check_transition (cl_state cli) st = C_OK"
    and retry: "st = EC_CLI_STATE_COAP_RETRY \<Longrightarrow> evti (cl_coap cli) \<noteq> None"
  shows "post {} (acted e st cli s) (cli_actions e (is_con_cli cli) st cli s)"
proof -
  consider "st = EC_CLI_STATE_REQ_SENT" | "st = EC_CLI_STATE_WAIT_NFY" | "st = EC_CLI_STATE_REQ_ACKD" | "st = EC_CLI_STATE_REQ_DONE"
    | "st = EC_CLI_STATE_DNS_OK" | "st = EC_CLI_STATE_COAP_RETRY"
    | "ec_client_state_is_final st \<and> st \<noteq> EC_CLI_STATE_REQ_DONE" | "st = EC_CLI_STATE_NONE"
    by (cases st) (auto simp: fsm_simps)
  then show ?thesis
  proof cases
    case 1
    with act_req_sent [OF assms(1-3)] t show ?thesis by (auto split: if_splits)
  next
    case 2
    with act_wait_nfy [OF assms(1-3)] t show ?thesis by (auto split: if_splits)
  next
    case 3
    with t assms(1,2) show ?thesis
      by (auto simp: cli_actions_def acted_def cli_timers_ok_def ec_cli_stop_coap_timer_def split: if_splits)
  next
    case 4
    have f: "ec_client_state_is_final EC_CLI_STATE_REQ_DONE" by (simp add: fsm_simps)
    have "post {} (acted e EC_CLI_STATE_REQ_DONE cli s)
        (run_bind (ec_client_send_ack e cli s) (\<lambda>(_, s). Done (C_OK, cli, s)))"
      by (rule post_cong_bind [OF post_send_ack [OF assms(2)]]) (auto simp: acted_def f)
    with 4 f assms(2) show ?thesis by (simp add: cli_actions_def acted_def)
  next
    case 5
    with t assms(1,2) show ?thesis
      by (cases "cl_state cli") (auto simp: cli_actions_def acted_def cli_timers_ok_def fsm_simps split: if_splits)
  next
    case 6
    with t retry assms(1,2) show ?thesis
      by (auto simp: cli_actions_def acted_def cli_timers_ok_def split: if_splits)
  next
    case 7
    with assms(2) show ?thesis by (auto simp: cli_actions_def acted_def fsm_simps)
  next
    case 8
    with t show ?thesis by simp
  qed
qed

lemma cbusy_log: "cbusy e s0 a l st (s\<lparr>cl_log := lg\<rparr>) = cbusy e s0 a l st s"
  by (simp add: cbusy_def cl_inv_def cframe_def clients_ok_def dups_ok_def)

text \<open>What \<open>cli_notify\<close> leaves of a client.\<close>

definition uncancelled :: "ec_client \<Rightarrow> ec_client" where
  "uncancelled cli = cli\<lparr>cl_observe := (cl_observe cli)\<lparr>co_cancel := False\<rparr>\<rparr>"

definition told :: "ec_client \<Rightarrow> ec_client \<Rightarrow> bool" where
  "told cli cli' \<longleftrightarrow> uncancelled cli' = uncancelled cli"

lemma told_simps [simp]: "told cli cli" "told cli (ec_client_cancel_observation cli)"
  by (simp_all add: told_def uncancelled_def ec_client_cancel_observation_def)

lemma told_keeps:
  assumes "told cli cli'"
  shows "cl_base cli' = cl_base cli" "cl_userown cli' = cl_userown cli" "cl_linked cli' = cl_linked cli"
    "cl_state cli' = cl_state cli" "cli_timers_ok cli' = cli_timers_ok cli"
proof -
  have u: "uncancelled cli' = uncancelled cli" using assms by (simp add: told_def)
  show "cl_base cli' = cl_base cli" "cl_userown cli' = cl_userown cli" "cl_linked cli' = cl_linked cli"
    "cl_state cli' = cl_state cli"
    using u [THEN arg_cong [where f = cl_base]] u [THEN arg_cong [where f = cl_userown]] u [THEN arg_cong [where f = cl_linked]]
      u [THEN arg_cong [where f = cl_state]] by (simp_all add: uncancelled_def)
  have "cli_timers_ok (uncancelled c) = cli_timers_ok c" for c
    by (simp add: uncancelled_def cli_timers_ok_def is_con_cli_def split: ec_cli_state.split)
  with u show "cli_timers_ok cli' = cli_timers_ok cli" by metis
qed

lemma post_notify:
  assumes "cbusy e s0 a l cur s"
  shows "post {} (\<lambda>(fin, cli', s'). cbusy e s0 a l cur s' \<and> told cli cli' \<and>
      (fin \<longrightarrow> ec_client_state_is_final (cl_state cli) \<or> cl_state cli = EC_CLI_STATE_WAIT_NFY) \<and>
      (ec_client_state_is_final (cl_state cli) \<longrightarrow> fin)) (cli_notify e a cli s)"
proof (cases "(ec_client_state_is_final (cl_state cli) \<or> cl_state cli = EC_CLI_STATE_WAIT_NFY) \<and> co_cancel (cl_observe cli)")
  case True
  have "post {} (\<lambda>(fin, cli', s'). cbusy e s0 a l cur s' \<and> told cli cli' \<and> fin)
      (run_bind (ec_client_rst_peer e cli s) (\<lambda>(_, s). Done (True, cli, s)))"
    by (rule post_cong_bind [OF post_rst_peer [OF cbusy_dups [OF assms]]]) (use cbusy_base [OF _ _ assms] in auto)
  with True show ?thesis by (auto simp: cli_notify_def elim!: post_mono)
next
  case False
  let ?fin = "ec_client_state_is_final (cl_state cli)"
  show ?thesis
  proof (cases "?fin \<or> cl_state cli = EC_CLI_STATE_WAIT_NFY")
    case True
    then have "cli_notify e a cli s = (case ec_client_invoke_user_callback a cli s of (cli, s) \<Rightarrow> Done (?fin, cli, s))"
      using False by (auto simp: cli_notify_def)
    then show ?thesis using True assms by (auto simp: ec_client_invoke_user_callback_def cbusy_log split: option.split)
  next
    case False
    then have "cli_notify e a cli s = Done (?fin, cli, s)" by (auto simp: cli_notify_def)
    then show ?thesis using False assms by simp
  qed
qed

lemma retimed_dispose:
  "retimed cli (ec_cli_stop_obs_timer (if con then ec_cli_stop_coap_timer (ec_cli_stop_app_timer cli) else ec_cli_stop_app_timer cli))"
  by simp

lemma post_set_cli_state:
  assumes b: "cbusy e s0 a l cur s" and ev: "\<And>t. e_ev_ok e t" and t: "ec_client_check_transition cur st = C_OK"
    and retry: "\<And>cli. cl_heap s a = Some cli \<Longrightarrow> st = EC_CLI_STATE_COAP_RETRY \<Longrightarrow> evti (cl_coap cli) \<noteq> None"
  shows "post (if ec_client_state_is_final st \<or> st = EC_CLI_STATE_WAIT_NFY then free_faults l else {})
    (\<lambda>(fin, s'). (fin \<longrightarrow> ec_client_state_is_final st \<or> st = EC_CLI_STATE_WAIT_NFY) \<and> (ec_client_state_is_final st \<longrightarrow> fin) \<and>
       (if fin then cl_inv e s0 {} s' \<and> cl_heap s' a = None else cbusy e s0 a l st s'))
    (ec_client_set_state e a st s)"
proof -
  obtain cli where s: "cl_heap s a = Some cli" "cl_state cli = cur" "cl_linked cli = l" "cli_ok l cli" "get_cli a s = Done cli"
    by (rule cbusyE [OF b])
  have ok: "cl_base cli" "\<not> cl_userown cli" "cli_timers_ok cli" using s(4) by (simp_all add: cli_ok_def)
  note act = post_actions [OF ok(3) cbusy_dups [OF b] ev, of st]
  let ?F = "if ec_client_state_is_final st \<or> st = EC_CLI_STATE_WAIT_NFY then free_faults l else {}"
  show ?thesis
    unfolding ec_client_set_state_def s(5) run_bind.simps s(2) t Let_def is_con_cli_def [symmetric]
  proof (simp only: crc.simps if_False, rule post_cong_bind [OF post_weaken [OF act]], goal_cases)
    case prems: (4 x)
    obtain rc cli1 s1 where x: "x = (rc, cli1, s1)" by (metis prod_cases3)
    have A: "rc = C_OK" "base_step s s1" "dups_ok e s1" "retimed cli cli1"
      "ec_client_state_is_final st \<or> cli_timers_ok (cli1\<lparr>cl_state := st\<rparr>)" using prems by (simp_all add: acted_def x)
    have b1: "cbusy e s0 a l cur s1" by (rule cbusy_base [OF A(2,3) b])
    note k1 = retimed_keeps [OF A(4)]
    have "post ?F
     (\<lambda>(fin, s'). (fin \<longrightarrow> ec_client_state_is_final st \<or> st = EC_CLI_STATE_WAIT_NFY) \<and> (ec_client_state_is_final st \<longrightarrow> fin) \<and>
       (if fin then cl_inv e s0 {} s' \<and> cl_heap s' a = None else cbusy e s0 a l st s'))
     (run_bind (cli_notify e a (cli1\<lparr>cl_state := st\<rparr>) s1) (\<lambda>(fin, cli, s).
                   if fin then run_bind (cli_dispose (is_con_cli cli0) a cli s) (\<lambda>s. Done (True, s))
                   else Done (False, put_cli a cli s)))" for cli0
    proof (rule post_cong_bind [OF post_weaken [OF post_notify [OF b1]]], goal_cases)
      case (2 y)
      obtain fin cli2 s2 where y: "y = (fin, cli2, s2)" by (metis prod_cases3)
      have N: "cbusy e s0 a l cur s2" "told (cli1\<lparr>cl_state := st\<rparr>) cli2"
        "fin \<longrightarrow> ec_client_state_is_final st \<or> st = EC_CLI_STATE_WAIT_NFY" "ec_client_state_is_final st \<longrightarrow> fin"
        using 2 by (simp_all add: y)
      note k2 = told_keeps [OF N(2)]
      show ?case
      proof (cases fin)
        case True
        let ?c = "ec_cli_stop_obs_timer (if is_con_cli cli0 then ec_cli_stop_coap_timer (ec_cli_stop_app_timer cli2)
          else ec_cli_stop_app_timer cli2)"
        note k3 = retimed_keeps [OF retimed_dispose [of cli2 "is_con_cli cli0"]]
        have "post (free_faults l) (\<lambda>s'. cl_inv e s0 {} s' \<and> cl_heap s' a = None \<and> w_sent s' = w_sent s2 \<and> cl_log s' = cl_log s2)
            (ec_client_free a (put_cli a ?c s2))"
          by (rule post_free [OF N(1)]) (simp_all add: k3 k2 k1 ok s(3))
        moreover have "cli_dispose (is_con_cli cli0) a cli2 s2 = ec_client_free a (put_cli a ?c s2)"
          using ok(2) by (simp add: cli_dispose_def Let_def k3 k2 k1)
        moreover have "?F = free_faults l" using True N(3) by simp
        ultimately show ?thesis using True N(3) by (auto simp: y elim!: post_mono)
      next
        case False
        then have "cli_ok l cli2" using A(5) N(4) ok s(3) by (auto simp: cli_ok_def k2 k1)
        then have "cbusy e s0 a l st (put_cli a cli2 s2)" by (rule cbusy_put [OF N(1)]) (simp add: k2)
        with False N(4) show ?thesis by (simp add: y)
      qed
    qed simp
    then show ?case using A(1) by (simp add: x)
  qed (use t retry [OF s(1)] s(2) in simp_all)
qed

end
