(* ===== verification/Cli_Reach.thy ===== *)
theory Cli_Reach
  imports Cli_Spec
begin

text \<open>
  What the events of the client engine do to its invariant: datagrams, fired timers, the
  answer of the resolver and the calls of the application; the states they lead to.
\<close>

subsection \<open>Receiving\<close>

lemma post_srvmsg:
  assumes "hmap_laws e" and "dups_ok e b"
  shows "post {} (\<lambda>(rc, b'). base_step b b' \<and> dups_ok e b') (ec_dups_handle_incoming_srvmsg e mid sd ss b)"
proof (cases "ec_dups_search e mid ss b")
  case None
  obtain c b' where i: "ec_dups_insert e ss mid b = (c, b')" by fastforce
  have d: "dups_ok e b'"
  proof (cases c)
    case C_OK
    with i None show ?thesis using ec_dups_insert_ok [OF assms] by metis
  next
    case C_ERR
    with i show ?thesis using ec_dups_insert_err [OF assms(2)] by blast
  qed
  have "base_step b b'"
    using i by (auto simp: ec_dups_insert_def ec_recvd_pdu_new_def ec_recvd_pdu_free_def base_step_def tick_def Let_def
        split: option.splits if_splits prod.splits)
  with None i d show ?thesis by (cases c) (simp_all add: ec_dups_handle_incoming_srvmsg_def)
next
  case (Some a)
  then obtain r where r: "d_recvd b a = Some r" using ec_dups_search_live [OF assms(2)] by blast
  obtain c b' where s: "send_cached e (r_cached r) sd ss b = (c, b')" by fastforce
  then have "dups_ok e b'" using assms(2) same_dups_send same_dups_ok by (metis send_cached_def snd_conv)
  moreover have "base_step b b'" using s base_step_send by (simp add: send_cached_def)
  ultimately show ?thesis using Some r s assms(2) by (simp add: ec_dups_handle_incoming_srvmsg_def)
qed

text \<open>The states in which a client waits for its peer.\<close>

definition awaits :: "ec_cli_state \<Rightarrow> bool" where
  "awaits st \<longleftrightarrow> st \<in> {EC_CLI_STATE_REQ_SENT, EC_CLI_STATE_REQ_ACKD, EC_CLI_STATE_WAIT_NFY}"

lemma awaits_rest: "cbusy e s0 a True st s \<Longrightarrow> awaits st \<Longrightarrow> cl_inv e s0 {} s"
  using cbusy_rest [of e s0 a True st s] by (simp add: awaits_def)

lemma cbusy_same:
  assumes "cbusy e s0 a l st s" and "cl_heap s a = Some cli" and "untimed cli' = untimed (cli\<lparr>cl_flow := f, cl_res := r, cl_observe := ob, cl_req := q\<rparr>)"
    and "cl_app cli' = cl_app cli" and "cl_coap cli' = cl_coap cli" and "cl_obs cli' = cl_obs cli"
    and "c_is_confirmable (f_conn f) = c_is_confirmable (f_conn (cl_flow cli))"
  shows "cbusy e s0 a l st (put_cli a cli' s)"
proof -
  have c: "cl_state cli = st" "cli_ok l cli" using cbusyE [OF assms(1)] assms(2) by (metis option.inject)+
  have k: "cl_base cli' = cl_base cli" "cl_userown cli' = cl_userown cli" "cl_linked cli' = cl_linked cli"
    "cl_state cli' = cl_state cli" "cl_flow cli' = f"
    using assms(3) [THEN arg_cong [where f = cl_base]] assms(3) [THEN arg_cong [where f = cl_userown]]
      assms(3) [THEN arg_cong [where f = cl_linked]] assms(3) [THEN arg_cong [where f = cl_state]]
      assms(3) [THEN arg_cong [where f = cl_flow]] by (simp_all add: untimed_def)
  then have "is_con_cli cli' = is_con_cli cli" using assms(7) by (simp add: is_con_cli_def ec_conn_get_confirmable_def)
  then have "cli_timers_ok cli' = cli_timers_ok cli"
    using k(4) assms(4-6) by (cases "cl_state cli") (simp_all add: cli_timers_ok_def)
  then have "cli_ok l cli'" using c(2) k by (simp add: cli_ok_def)
  then show ?thesis by (rule cbusy_put [OF assms(1)]) (simp add: k c)
qed

lemma post_handle_observation:
  assumes "cbusy e s0 a l st s"
  shows "post {} (\<lambda>(rc, s'). cbusy e s0 a l st s') (ec_client_handle_observation e a s)"
proof -
  obtain cli where s: "cl_heap s a = Some cli" "get_cli a s = Done cli" by (rule cbusyE [OF assms])
  have t: "cbusy e s0 a l st (tick s)" by (rule cbusy_ticked [OF _ assms]) simp
  have h: "cl_heap (tick s) a = Some cli" using s(1) by (simp add: tick_def)
  have p: "cbusy e s0 a l st (put_cli a (cli\<lparr>cl_observe := ob\<rparr>) (tick s))"
    "cbusy e s0 a l st (put_cli a (cli\<lparr>cl_observe := ob\<rparr>) s)" for ob
    by (rule cbusy_same [OF t h, where f = "cl_flow cli" and r = "cl_res cli" and ob = ob and q = "cl_req cli"];
        simp add: untimed_def)
      (rule cbusy_same [OF assms s(1), where f = "cl_flow cli" and r = "cl_res cli" and ob = ob and q = "cl_req cli"];
        simp add: untimed_def)
  show ?thesis
    using t p assms by (auto simp: ec_client_handle_observation_def s(2) Let_def split: option.split)
qed

lemma post_deliver:
  assumes b: "cbusy e s0 a True st s" and "awaits st" and ev: "\<And>t. e_ev_ok e t"
  shows "post {} (\<lambda>(rc, s'). cl_inv e s0 {} s') (cli_deliver e a s)"
  unfolding cli_deliver_def
proof (rule post_cong_bind [OF post_handle_observation [OF b]], goal_cases)
  case (1 x)
  obtain rc s1 where x: "x = (rc, s1)" by fastforce
  with 1 have b1: "cbusy e s0 a True st s1" by simp
  show ?case
  proof (cases rc)
    case C_ERR
    with awaits_rest [OF b1 assms(2)] show ?thesis by (simp add: x)
  next
    case C_OK
    obtain cli where c: "get_cli a s1 = Done cli" by (rule cbusyE [OF b1])
    let ?st = "if ec_client_is_observing cli then EC_CLI_STATE_WAIT_NFY else EC_CLI_STATE_REQ_DONE"
    have t: "ec_client_check_transition st ?st = C_OK" using assms(2) by (auto simp: awaits_def)
    have n: "?st \<noteq> EC_CLI_STATE_COAP_RETRY" by simp
    have "post {} (\<lambda>(fin, s'). if fin then cl_inv e s0 {} s' else cbusy e s0 a True EC_CLI_STATE_WAIT_NFY s')
        (ec_client_set_state e a ?st s1)"
      using post_set_cli_state [OF b1 ev t] n
      by (auto simp: free_faults_def fsm_simps elim!: post_mono split: if_splits)
    then have "post {} (\<lambda>(rc, s'). cl_inv e s0 {} s') (run_bind (ec_client_set_state e a ?st s1) (\<lambda>(fin, s).
           if fin then Done (EC_NET_CBRC_DEAD, s)
           else run_bind (get_cli a s) (\<lambda>cli.
             Done (EC_NET_CBRC_SUCCESS,
               if ec_client_is_observing cli then put_cli a (cli\<lparr>cl_res := []\<rparr>) s else s))))"
    proof (rule post_cong_bind, goal_cases)
      case (1 y)
      obtain fin s2 where y: "y = (fin, s2)" by fastforce
      show ?case
      proof (cases fin)
        case True
        with 1 show ?thesis by (simp add: y)
      next
        case False
        with 1 have b2: "cbusy e s0 a True EC_CLI_STATE_WAIT_NFY s2" by (simp add: y)
        obtain cli2 where c2: "cl_heap s2 a = Some cli2" "get_cli a s2 = Done cli2" by (rule cbusyE [OF b2])
        have "cbusy e s0 a True EC_CLI_STATE_WAIT_NFY (put_cli a (cli2\<lparr>cl_res := []\<rparr>) s2)"
          by (rule cbusy_same [OF b2 c2(1), where f = "cl_flow cli2" and r = "[]" and ob = "cl_observe cli2" and q = "cl_req cli2"])
            (simp_all add: untimed_def)
        then have "cl_inv e s0 {} (put_cli a (cli2\<lparr>cl_res := []\<rparr>) s2)" by (rule awaits_rest) (simp add: awaits_def)
        moreover have "cl_inv e s0 {} s2" by (rule awaits_rest [OF b2]) (simp add: awaits_def)
        ultimately show ?thesis using False by (simp add: y c2)
      qed
    qed
    then show ?thesis using C_OK c by (simp add: x)
  qed
qed

lemma post_response:
  assumes b: "cbusy e s0 a True st s" and "awaits st" and ev: "\<And>t. e_ev_ok e t"
  shows "post {Overread} (\<lambda>(rc, s'). cl_inv e s0 {} s') (cli_response e a pdu raw raw_sz s)"
proof -
  note rest = awaits_rest [OF b assms(2)]
  obtain cli where c: "cl_heap s a = Some cli" "get_cli a s = Done cli" by (rule cbusyE [OF b])
  have pay: "post {Overread} (\<lambda>_. True) (srv_payload e p raw raw_sz olen)" for p olen
    by (simp add: srv_payload_def Let_def)
  show ?thesis
    unfolding cli_response_def
  proof (rule post_cong_bind [OF decode_faults], goal_cases)
    case (1 x)
    obtain rc opts olen where x: "x = (rc, opts, olen)" by (metis prod_cases3)
    show ?case
    proof (cases "rc = EC_RC_UNSET")
      case False
      with rest show ?thesis by (simp add: x)
    next
      case True
      have "post {Overread} (\<lambda>(rc, s'). cl_inv e s0 {} s') (run_bind (srv_payload e (pdu\<lparr>p_opts := opts\<rparr>) raw raw_sz olen) (\<lambda>pdu.
       if \<not> token_echoed (p_opts pdu) (cl_flow cli) then Done (EC_NET_CBRC_ERROR, s)
         else case ec_flow_set_resp_code (cl_flow cli) (uint (h_code (p_hdr_bits pdu))) of
           (C_ERR, _) \<Rightarrow> Done (EC_NET_CBRC_ERROR, s)
         | (C_OK, flow) \<Rightarrow>
             cli_deliver e a (put_cli a (cli\<lparr>cl_flow := flow, cl_res := ec_res_set_add (cl_res cli) pdu\<rparr>) s)))"
      proof (rule post_cong_bind [OF pay], goal_cases)
        case (1 p)
        have "post {Overread} (\<lambda>(rc, s'). cl_inv e s0 {} s')
            (cli_deliver e a (put_cli a (cli\<lparr>cl_flow := flow, cl_res := r\<rparr>) s))"
          if "c_is_confirmable (f_conn flow) = c_is_confirmable (f_conn (cl_flow cli))" for flow r
        proof -
          have "cbusy e s0 a True st (put_cli a (cli\<lparr>cl_flow := flow, cl_res := r\<rparr>) s)"
            by (rule cbusy_same [OF b c(1), where f = flow and r = r and ob = "cl_observe cli" and q = "cl_req cli"])
              (simp_all add: untimed_def that)
          from post_deliver [OF this assms(2) ev] show ?thesis by (rule post_weaken) simp
        qed
        with rest show ?case by (auto simp: ec_flow_set_resp_code_def)
      qed
      with True show ?thesis by (simp add: x c(2))
    qed
  qed
qed

text \<open>An empty acknowledgement that the state machine does not expect.\<close>

definition is_empty_ack :: "bool \<Rightarrow> byte list \<Rightarrow> nat \<Rightarrow> bool" where
  "is_empty_ack le raw raw_sz \<longleftrightarrow>
     (case header_of le (take raw_sz raw) of None \<Rightarrow> False | Some h \<Rightarrow> h_code h = 0 \<and> h_t h = EC_COAP_ACK)"

lemma post_empty_pdu:
  assumes b: "cbusy e s0 a True st s" and "awaits st" and ev: "\<And>t. e_ev_ok e t"
    and "t = EC_COAP_ACK \<Longrightarrow> st = EC_CLI_STATE_REQ_SENT"
  shows "post {} (\<lambda>(rc, s'). cl_inv e s0 {} s') (ec_client_handle_empty_pdu e a t s)"
proof -
  have ack: "post {} (\<lambda>(fin, s'). cl_inv e s0 {} s') (ec_client_set_state e a EC_CLI_STATE_REQ_ACKD s)"
    if "st = EC_CLI_STATE_REQ_SENT"
    using post_set_cli_state [OF b ev, of EC_CLI_STATE_REQ_ACKD] that
    by (auto simp: fsm_simps awaits_def elim!: post_mono intro: awaits_rest)
  have "post {} (\<lambda>(fin, s'). cl_inv e s0 {} s') (ec_client_set_state e a EC_CLI_STATE_REQ_RST s)"
    using post_set_cli_state [OF b ev, of EC_CLI_STATE_REQ_RST] assms(2)
    by (auto simp: fsm_simps awaits_def free_faults_def elim!: post_mono)
  with ack assms(4) awaits_rest [OF b assms(2)] show ?thesis
    by (auto simp: ec_client_handle_empty_pdu_def elim!: post_mono)
qed

lemma header_of_decode:
  "ec_pdu_decode_header le p raw n = (C_OK, pdu) \<Longrightarrow> n \<le> length raw \<Longrightarrow> header_of le (take n raw) = Some (p_hdr_bits pdu)"
  by (auto simp: header_of_def ec_pdu_decode_header_def split: if_splits)

lemma post_cli_handle_pdu:
  assumes "hmap_laws e" and i: "cl_inv e s0 {} s" and c: "cl_heap s a = Some cli" "cl_linked cli" and ev: "\<And>t. e_ev_ok e t"
    and ack: "is_empty_ack (e_le e) raw raw_sz \<Longrightarrow> cl_state cli = EC_CLI_STATE_REQ_SENT" and sz: "raw_sz \<le> length raw"
  shows "post {Overread} (\<lambda>(rc, s'). cl_inv e s0 {} s') (ec_client_handle_pdu e a sd raw raw_sz peer s)"
proof -
  have b: "cbusy e s0 a True (cl_state cli) s" using rest_cbusy(1) [OF i c(1)] c(2) by simp
  have aw: "awaits (cl_state cli)" using rest_cbusy(2) [OF i c(1)] c(2) by (simp add: cli_waits_def awaits_def)
  obtain pdu0 s1 where n: "ec_pdu_new_empty s = (pdu0, s1)" by fastforce
  have b1: "cbusy e s0 a True (cl_state cli) s1" by (rule cbusy_ticked [OF ticked_new_empty [OF n] b])
  obtain rc pdu where d: "ec_pdu_decode_header (e_le e) pdu0 raw raw_sz = (rc, pdu)" by fastforce
  obtain cli1 where g: "get_cli a s1 = Done cli1" by (rule cbusyE [OF b1])
  note rest = awaits_rest [OF b1 aw]
  have "post {Overread} (\<lambda>(rc, s'). cl_inv e s0 {} s') (run_bind (ec_dups_handle_incoming_srvmsg e (EC_PDU_MID pdu) sd peer s1) (\<lambda>(d, s).
                    if d = 1 then Done (EC_NET_CBRC_SUCCESS, s)
                    else if d \<noteq> 0 then Done (EC_NET_CBRC_ERROR, s)
                    else if h_code (p_hdr_bits pdu) = 0 then
                      run_bind (ec_client_handle_empty_pdu e a (h_t (p_hdr_bits pdu)) s) (\<lambda>(rc, s).
                        Done (if rc = C_ERR then EC_NET_CBRC_ERROR else EC_NET_CBRC_SUCCESS, s))
                    else cli_response e a pdu raw raw_sz s))" if C_OK: "rc = C_OK"
  proof (rule post_cong_bind [OF post_weaken [OF post_srvmsg [OF assms(1) cbusy_dups [OF b1]]]], simp, goal_cases)
    case (1 x)
    obtain k s2 where x: "x = (k, s2)" by fastforce
    have b2: "cbusy e s0 a True (cl_state cli) s2" using 1 cbusy_base [OF _ _ b1] by (simp add: x)
    have empty: "post {Overread} (\<lambda>(rc, s'). cl_inv e s0 {} s')
      (run_bind (ec_client_handle_empty_pdu e a (h_t (p_hdr_bits pdu)) s2) (\<lambda>(rc, s).
                        Done (if rc = C_ERR then EC_NET_CBRC_ERROR else EC_NET_CBRC_SUCCESS, s)))"
      if "h_code (p_hdr_bits pdu) = 0"
    proof (rule post_weaken [where F = "{}"], rule post_cong_bind [OF post_empty_pdu [OF b2 aw ev]], goal_cases)
      case 1
      with that show ?case
        using ack header_of_decode [OF d [unfolded C_OK] sz] by (simp add: is_empty_ack_def)
    qed auto
    consider "k = 1" | "k \<noteq> 1" "k \<noteq> 0" | "k = 0" "h_code (p_hdr_bits pdu) = 0" | "k = 0" "h_code (p_hdr_bits pdu) \<noteq> 0" by blast
    then show ?case
    proof cases
      case 3
      from empty [OF 3(2)] show ?thesis unfolding x prod.case using 3 by (simp del: post_bind)
    next
      case 4
      from post_response [OF b2 aw ev] show ?thesis unfolding x prod.case using 4 by (simp del: post_bind)
    qed (use awaits_rest [OF b2 aw] x in simp_all)
  qed
  note P = this
  show ?thesis
  proof (cases rc)
    case C_ERR
    with n d rest show ?thesis by (simp add: ec_client_handle_pdu_def)
  next
    case C_OK
    show ?thesis
      unfolding ec_client_handle_pdu_def Let_def n prod.case d C_OK crc.case g run_bind.simps
      using P [OF C_OK] rest by (simp only: post_simps prod.case split: if_split) blast
  qed
qed

subsection \<open>Timers\<close>

lemma cbusy_timer:
  assumes "cbusy e s0 a l st s" and "cl_heap s a = Some cli"
  shows "evti (cl_coap cli) = Some p \<Longrightarrow> cbusy e s0 a l st (put_cli a (cli\<lparr>cl_coap := timer_fired (cl_coap cli)\<rparr>) s)"
    and "evti (cl_app cli) = Some p \<Longrightarrow> cbusy e s0 a l st (put_cli a (cli\<lparr>cl_app := timer_fired (cl_app cli)\<rparr>) s)"
    and "evti (cl_obs cli) = Some p \<Longrightarrow>
      cbusy e s0 a l st (put_cli a (cli\<lparr>cl_obs := timer_fired (cl_obs cli), cl_observe := ob\<rparr>) s)"
proof -
  have c: "cl_state cli = st" "cli_ok l cli" using cbusyE [OF assms(1)] assms(2) by (metis option.inject)+
  have f: "evti ti = Some p \<Longrightarrow> evti (timer_fired ti) = Some False" for ti by (simp add: timer_fired_def)
  have s: "is_con_cli (cli\<lparr>cl_observe := ob\<rparr>) = is_con_cli cli" for ob by (simp add: is_con_cli_def)
  show "evti (cl_coap cli) = Some p \<Longrightarrow> cbusy e s0 a l st (put_cli a (cli\<lparr>cl_coap := timer_fired (cl_coap cli)\<rparr>) s)"
    by (rule cbusy_put [OF assms(1)]) (use c f in \<open>cases st; simp add: cli_ok_def cli_timers_ok_def\<close>)+
  show "evti (cl_app cli) = Some p \<Longrightarrow> cbusy e s0 a l st (put_cli a (cli\<lparr>cl_app := timer_fired (cl_app cli)\<rparr>) s)"
    by (rule cbusy_put [OF assms(1)]) (use c f in \<open>cases st; simp add: cli_ok_def cli_timers_ok_def\<close>)+
  show "evti (cl_obs cli) = Some p \<Longrightarrow>
      cbusy e s0 a l st (put_cli a (cli\<lparr>cl_obs := timer_fired (cl_obs cli), cl_observe := ob\<rparr>) s)"
    by (rule cbusy_put [OF assms(1)]) (use c f s in \<open>cases st; simp add: cli_ok_def cli_timers_ok_def\<close>)+
qed

lemma post_cli_coap_fires:
  assumes i: "cl_inv e s0 {} s" and c: "cl_heap s a = Some cli" "timer_pending (cl_coap cli)" and ev: "\<And>t. e_ev_ok e t"
  shows "post {} (cl_inv e s0 {}) (cli_coap_fires e a s)"
proof -
  note b = rest_cbusy [OF i c(1)]
  have ok: "cli_timers_ok cli" using cbusyE [OF b(1)] c(1) by (metis cli_ok_def option.inject)
  then have st: "cl_state cli = EC_CLI_STATE_REQ_SENT" "cl_linked cli"
    using b(2) c(2) by (auto simp: cli_waits_def cli_timers_ok_def timer_pending_def split: if_splits)
  let ?cli = "cli\<lparr>cl_coap := timer_fired (cl_coap cli)\<rparr>"
  let ?s = "put_cli a ?cli s"
  have b1: "cbusy e s0 a True EC_CLI_STATE_REQ_SENT ?s"
    using cbusy_timer(1) [OF b(1) c(1)] c(2) st by (simp add: timer_pending_def)
  have eq: "cli_coap_fires e a s = ec_cli_coap_timeout e a ?s" using c(1) by (simp add: cli_coap_fires_def get_cli_def)
  show ?thesis
  proof (cases "retries_left (cl_coap ?cli) = 0")
    case True
    have "post {} (\<lambda>(fin, s'). cl_inv e s0 {} s') (ec_client_set_state e a EC_CLI_STATE_COAP_TIMEOUT ?s)"
      using post_set_cli_state [OF b1 ev, of EC_CLI_STATE_COAP_TIMEOUT]
      by (auto simp: fsm_simps free_faults_def elim!: post_mono)
    with True show ?thesis by (auto simp: eq ec_cli_coap_timeout_def elim!: post_mono)
  next
    case False
    have 1: "post {} (\<lambda>(fin, s'). cbusy e s0 a True EC_CLI_STATE_COAP_RETRY s') (ec_client_set_state e a EC_CLI_STATE_COAP_RETRY ?s)"
      using post_set_cli_state [OF b1 ev, of EC_CLI_STATE_COAP_RETRY]
      by (auto simp: fsm_simps timer_fired_def ex_bool_eq [of Not] elim!: post_mono)
    have 2: "post {} (cl_inv e s0 {}) (run_bind (ec_pdu_send e q f True s1) (\<lambda>(rc, s).
         run_bind (ec_client_set_state e a
             (if rc = C_OK then EC_CLI_STATE_REQ_SENT else EC_CLI_STATE_SEND_FAILED) s) (\<lambda>(_, s). Done s)))"
      if b2: "cbusy e s0 a True EC_CLI_STATE_COAP_RETRY s1" for s1 q f
    proof (rule post_cong_bind [OF post_pdu_send [OF cbusy_dups [OF b2]]], goal_cases)
      case (1 x)
      obtain rc s2 where x: "x = (rc, s2)" by fastforce
      have b3: "cbusy e s0 a True EC_CLI_STATE_COAP_RETRY s2" using 1 cbusy_base [OF _ _ b2] by (simp add: x)
      have "post {} (\<lambda>(fin, s'). cl_inv e s0 {} s') (ec_client_set_state e a EC_CLI_STATE_REQ_SENT s2)"
        using post_set_cli_state [OF b3 ev, of EC_CLI_STATE_REQ_SENT]
        by (auto simp: fsm_simps awaits_def elim!: post_mono intro: awaits_rest)
      moreover have "post {} (\<lambda>(fin, s'). cl_inv e s0 {} s') (ec_client_set_state e a EC_CLI_STATE_SEND_FAILED s2)"
        using post_set_cli_state [OF b3 ev, of EC_CLI_STATE_SEND_FAILED]
        by (auto simp: fsm_simps free_faults_def elim!: post_mono)
      ultimately show ?case by (auto simp: x elim!: post_mono)
    qed
    have "post {} (cl_inv e s0 {}) (run_bind (ec_client_set_state e a EC_CLI_STATE_COAP_RETRY ?s) (\<lambda>(_, s).
         run_bind (get_cli a s) (\<lambda>cli.
         run_bind (ec_pdu_send e (cl_req cli) (cl_flow cli) True s) (\<lambda>(rc, s).
         run_bind (ec_client_set_state e a
             (if rc = C_OK then EC_CLI_STATE_REQ_SENT else EC_CLI_STATE_SEND_FAILED) s) (\<lambda>(_, s). Done s)))))"
    proof (rule post_cong_bind [OF 1], goal_cases)
      case (1 y)
      obtain fin s1 where y: "y = (fin, s1)" by fastforce
      with 1 have b2: "cbusy e s0 a True EC_CLI_STATE_COAP_RETRY s1" by simp
      obtain cli1 where "get_cli a s1 = Done cli1" by (rule cbusyE [OF b2])
      with 2 [OF b2] show ?case by (simp add: y del: post_bind)
    qed
    with False show ?thesis by (simp add: eq ec_cli_coap_timeout_def del: post_bind)
  qed
qed

lemma post_cli_app_fires:
  assumes i: "cl_inv e s0 {} s" and c: "cl_heap s a = Some cli" "timer_pending (cl_app cli)" and ev: "\<And>t. e_ev_ok e t"
  shows "post {} (cl_inv e s0 {}) (cli_app_fires e a s)"
proof -
  note b = rest_cbusy [OF i c(1)]
  have ok: "cli_timers_ok cli" using cbusyE [OF b(1)] c(1) by (metis cli_ok_def option.inject)
  then have st: "cl_state cli = EC_CLI_STATE_REQ_SENT \<or> cl_state cli = EC_CLI_STATE_REQ_ACKD" "cl_linked cli"
    using b(2) c(2) by (auto simp: cli_waits_def cli_timers_ok_def timer_pending_def split: if_splits)
  let ?s = "put_cli a (cli\<lparr>cl_app := timer_fired (cl_app cli)\<rparr>) s"
  have b1: "cbusy e s0 a True (cl_state cli) ?s"
    using cbusy_timer(2) [OF b(1) c(1)] c(2) st by (simp add: timer_pending_def)
  have "post {} (\<lambda>(fin, s'). cl_inv e s0 {} s') (ec_client_set_state e a EC_CLI_STATE_APP_TIMEOUT ?s)"
    using post_set_cli_state [OF b1 ev, of EC_CLI_STATE_APP_TIMEOUT] st
    by (auto simp: fsm_simps free_faults_def elim!: post_mono)
  then show ?thesis
    using c(1) by (auto simp: cli_app_fires_def ec_cli_app_timeout_def get_cli_def elim!: post_mono)
qed

lemma post_cli_obs_fires:
  assumes i: "cl_inv e s0 {} s" and c: "cl_heap s a = Some cli" "timer_pending (cl_obs cli)" and ev: "\<And>t. e_ev_ok e t"
  shows "post {} (cl_inv e s0 {}) (cli_obs_fires e a s)"
proof -
  note b = rest_cbusy [OF i c(1)]
  have ok: "cli_timers_ok cli" using cbusyE [OF b(1)] c(1) by (metis cli_ok_def option.inject)
  then have st: "cl_state cli = EC_CLI_STATE_WAIT_NFY" "cl_linked cli"
    using b(2) c(2) by (auto simp: cli_waits_def cli_timers_ok_def timer_pending_def split: if_splits)
  let ?s = "put_cli a (cli\<lparr>cl_obs := timer_fired (cl_obs cli), cl_observe := (cl_observe cli)\<lparr>co_on := False\<rparr>\<rparr>) s"
  have b1: "cbusy e s0 a True EC_CLI_STATE_WAIT_NFY ?s"
    using cbusy_timer(3) [OF b(1) c(1)] c(2) st by (simp add: timer_pending_def)
  have "post {} (\<lambda>(fin, s'). cl_inv e s0 {} s') (ec_client_set_state e a EC_CLI_STATE_OBS_TIMEOUT ?s)"
    using post_set_cli_state [OF b1 ev, of EC_CLI_STATE_OBS_TIMEOUT]
    by (auto simp: fsm_simps free_faults_def elim!: post_mono)
  then show ?thesis
    using c(1) by (auto simp: cli_obs_fires_def ec_cli_obs_timeout_def get_cli_def put_cli_def elim!: post_mono)
qed

subsection \<open>The resolver's answer\<close>

lemma cbusy_add:
  assumes "cbusy e s0 a False EC_CLI_STATE_REQ_SENT s"
  shows "\<exists>s'. ec_client_add a s = Done s' \<and> cbusy e s0 a True EC_CLI_STATE_REQ_SENT s'"
proof -
  obtain cli where c: "cl_heap s a = Some cli" "cl_state cli = EC_CLI_STATE_REQ_SENT" "cli_ok False cli" "a \<notin> set (cl_list s)"
    "get_cli a s = Done cli" "cl_inv e s0 {a} s" by (rule cbusyE [OF assms]) simp
  let ?s = "put_cli a (cli\<lparr>cl_linked := True\<rparr>) (s\<lparr>cl_list := cl_list s @ [a]\<rparr>)"
  have f: "cframe s0 s" "dups_ok e s" "clients_ok {a} s" using c(6) by (simp_all add: cl_inv_def)
  have "cli_timers_ok (cli\<lparr>cl_linked := True\<rparr>)"
    using c(2,3) by (simp add: cli_ok_def cli_timers_ok_def is_con_cli_def)
  then have "cli_ok True (cli\<lparr>cl_linked := True\<rparr>)" using c(3) by (simp add: cli_ok_def)
  then have "clients_ok {a} ?s" using f(3) c(1,4) unfolding clients_ok_def by (auto simp: put_cli_def)
  moreover have "cframe s0 ?s" "dups_ok e ?s" using f by (simp_all add: cframe_def dups_ok_def put_cli_def)
  ultimately show ?thesis
    using c by (simp add: ec_client_add_def cbusy_def cl_inv_def)
qed

lemma cli_dies:
  assumes b: "cbusy e s0 a False st s" and ev: "\<And>t. e_ev_ok e t" and "ec_client_check_transition st st' = C_OK"
    and "ec_client_state_is_final st'"
  shows "post {Null_deref} (\<lambda>(fin, s'). cl_inv e s0 {} s') (ec_client_set_state e a st' s)"
proof -
  have "st' \<noteq> EC_CLI_STATE_COAP_RETRY" using assms(4) by (auto simp: fsm_simps)
  with post_set_cli_state [OF b ev assms(3)] assms(4) show ?thesis
    by (auto simp: free_faults_def elim!: post_mono)
qed

lemma post_registered:
  assumes b: "cbusy e s0 a False st s" and ev: "\<And>t. e_ev_ok e t" and c: "cl_heap s a = Some cli"
    and st: "st = EC_CLI_STATE_REQ_SENT \<or> c_socket (f_conn (cl_flow cli)) = -1"
  shows "post {Null_deref} (cl_inv e s0 {}) (dns_registered e a s)"
proof -
  have g: "get_cli a s = Done cli" using c by (simp add: get_cli_def)
  have die: "post {Null_deref} (\<lambda>(fin, s'). cl_inv e s0 {} s') (ec_client_set_state e a EC_CLI_STATE_INTERNAL_ERR s)"
    by (rule cli_dies [OF b ev]) (simp_all add: fsm_simps)
  show ?thesis
  proof (cases "c_socket (f_conn (cl_flow cli)) = -1")
    case True
    with g die show ?thesis by (auto simp: dns_registered_def elim!: post_mono)
  next
    case False
    with st have st: "st = EC_CLI_STATE_REQ_SENT" by simp
    let ?t = "tick (tick s)"
    have h: "cl_heap ?t a = Some cli" "get_cli a ?t = Done cli" using c by (simp_all add: tick_def get_cli_def)
    have "cbusy e s0 a False EC_CLI_STATE_REQ_SENT ?t" using cbusy_ticked [OF ticked2 b] st by simp
    moreover obtain x where x: "cl_heap ?t a = Some x" "cl_state x = EC_CLI_STATE_REQ_SENT" "cli_ok False x"
      by (rule cbusyE [OF calculation]) simp
    ultimately have "cbusy e s0 a False EC_CLI_STATE_REQ_SENT (put_cli a (cli\<lparr>cl_input := True\<rparr>) ?t)"
      using h by (intro cbusy_put) (simp_all add: cli_ok_def cli_timers_ok_def is_con_cli_def)
    then obtain s' where s': "ec_client_add a (put_cli a (cli\<lparr>cl_input := True\<rparr>) ?t) = Done s'"
      "cbusy e s0 a True EC_CLI_STATE_REQ_SENT s'" using cbusy_add by blast
    have "ec_client_register e a s = Done (C_OK, s')"
      using h s'(1) by (simp add: ec_client_register_def ev Let_def)
    moreover have "cl_inv e s0 {} s'" by (rule awaits_rest [OF s'(2)]) (simp add: awaits_def)
    ultimately show ?thesis using False g by (simp add: dns_registered_def)
  qed
qed

text \<open>Where the loop over the addresses ends.\<close>

definition tried :: "'m env \<Rightarrow> ('m, 'z) ec_scheme \<Rightarrow> nat \<Rightarrow> bool \<times> ('m, 'z) ec_scheme \<Rightarrow> bool" where
  "tried e s0 a r \<longleftrightarrow> (case r of (go_on, s') \<Rightarrow>
     if go_on then \<exists>st cli. cbusy e s0 a False st s' \<and> cl_heap s' a = Some cli \<and>
       (st = EC_CLI_STATE_REQ_SENT \<or> c_socket (f_conn (cl_flow cli)) = -1)
     else cl_inv e s0 {} s')"

lemma set_peer_conn:
  assumes "ec_pdu_set_peer q f addr = (rc, q', f')"
  shows "c_is_confirmable (f_conn f') = c_is_confirmable (f_conn f)"
  using assms by (auto simp: ec_pdu_set_peer_def Let_def split: option.splits if_splits)

lemma cbusy_closed: "cbusy e s0 a l st (note_closed c s) = cbusy e s0 a l st s"
  by (simp add: cbusy_def cl_inv_def cframe_def clients_ok_def dups_ok_def note_closed_def)

lemma note_closed_heap [simp]: "cl_heap (note_closed c s) = cl_heap s"
  by (simp add: note_closed_def)

lemma post_dns_try:
  assumes "cbusy e s0 a False EC_CLI_STATE_DNS_OK s" and ev: "\<And>t. e_ev_ok e t"
    and "cl_heap s a = Some cli" and "c_socket (f_conn (cl_flow cli)) = -1"
  shows "post {Null_deref} (tried e s0 a) (dns_try e a ais s)"
  using assms
proof (induction ais arbitrary: s cli)
  case Nil
  then show ?case by (auto simp: tried_def)
next
  case (Cons ai ais)
  obtain sd addr nb where ai: "ai = (sd, addr, nb)" by (metis prod_cases3)
  have g: "get_cli a s = Done cli" using Cons.prems(3) by (simp add: get_cli_def)
  let ?flow = "(cl_flow cli)\<lparr>f_conn := (f_conn (cl_flow cli))\<lparr>c_socket := sd\<rparr>\<rparr>"
  have put: "cbusy e s0 a False EC_CLI_STATE_DNS_OK (put_cli a (cli\<lparr>cl_req := q, cl_flow := f\<rparr>) s)"
    if "c_is_confirmable (f_conn f) = c_is_confirmable (f_conn (cl_flow cli))" for f q
    by (rule cbusy_same [OF Cons.prems(1,3), where f = f and r = "cl_res cli" and ob = "cl_observe cli" and q = q])
      (simp_all add: untimed_def that)
  have put1: "cbusy e s0 a False EC_CLI_STATE_DNS_OK (put_cli a (cli\<lparr>cl_flow := f\<rparr>) s)"
    if "c_is_confirmable (f_conn f) = c_is_confirmable (f_conn (cl_flow cli))" for f
    by (rule cbusy_same [OF Cons.prems(1,3), where f = f and r = "cl_res cli" and ob = "cl_observe cli" and q = "cl_req cli"])
      (simp_all add: untimed_def that)
  show ?case
  proof (cases "sd = -1")
    case True
    have "post {Null_deref} (tried e s0 a) (dns_try e a ais (put_cli a (cli\<lparr>cl_flow := ?flow\<rparr>) s))"
      using Cons.IH [OF put1 [of ?flow] ev, of "cli\<lparr>cl_flow := ?flow\<rparr>"] True by simp
    with True g show ?thesis by (simp add: ai Let_def)
  next
    case False
    obtain rc q f where p: "ec_pdu_set_peer (cl_req cli) ?flow addr = (rc, q, f)" by (metis prod_cases3)
    have cf: "c_is_confirmable (f_conn f) = c_is_confirmable (f_conn (cl_flow cli))" using set_peer_conn [OF p] by simp
    show ?thesis
    proof (cases rc)
      case C_ERR
      have "cl_inv e s0 {} (put_cli a (cli\<lparr>cl_flow := f\<rparr>) s)" by (rule cbusy_rest [OF put1 [OF cf]]) simp
      with False g p C_ERR show ?thesis by (simp add: ai Let_def tried_def)
    next
      case C_OK
      let ?cli = "cli\<lparr>cl_req := q, cl_flow := f\<rparr>"
      have b1: "cbusy e s0 a False EC_CLI_STATE_DNS_OK (put_cli a ?cli s)"
        by (rule put [OF cf])
      have "post {Null_deref} (tried e s0 a) (run_bind (ec_pdu_send e q f True (put_cli a ?cli s)) (\<lambda>(rc, s).
                   if rc = C_ERR then
                     dns_try e a ais (note_closed (Some sd)
                       (put_cli a (?cli\<lparr>cl_flow := f\<lparr>f_conn := (f_conn f)\<lparr>c_socket := -1\<rparr>\<rparr>\<rparr>) s))
                   else if \<not> nb then
                     run_bind (ec_client_set_state e a EC_CLI_STATE_INTERNAL_ERR s) (\<lambda>(_, s). Done (False, s))
                   else run_bind (ec_client_set_state e a EC_CLI_STATE_REQ_SENT s) (\<lambda>(_, s). Done (True, s))))"
      proof (rule post_cong_bind [OF post_weaken [OF post_pdu_send [OF cbusy_dups [OF b1]]]], simp, goal_cases)
        case (1 x)
        obtain rc2 s2 where x: "x = (rc2, s2)" by fastforce
        have st: "base_step (put_cli a ?cli s) s2" "dups_ok e s2" using 1 by (simp_all add: x)
        have b2: "cbusy e s0 a False EC_CLI_STATE_DNS_OK s2" by (rule cbusy_base [OF st b1])
        have h2: "cl_heap s2 a = Some ?cli" using base_step_ec(2) [OF st(1)] by simp
        let ?c3 = "?cli\<lparr>cl_flow := f\<lparr>f_conn := (f_conn f)\<lparr>c_socket := -1\<rparr>\<rparr>\<rparr>"
        have "cbusy e s0 a False EC_CLI_STATE_DNS_OK (put_cli a ?c3 s2)"
          by (rule cbusy_same [OF b2 h2, where f = "f\<lparr>f_conn := (f_conn f)\<lparr>c_socket := -1\<rparr>\<rparr>" and r = "cl_res cli"
              and ob = "cl_observe cli" and q = q]) (simp_all add: untimed_def)
        then have "cbusy e s0 a False EC_CLI_STATE_DNS_OK (note_closed (Some sd) (put_cli a ?c3 s2))"
          by (simp only: cbusy_closed)
        from Cons.IH [OF this ev, of ?c3] have try_next:
          "post {Null_deref} (tried e s0 a) (dns_try e a ais (note_closed (Some sd) (put_cli a ?c3 s2)))" by simp
        have die: "post {Null_deref} (\<lambda>(fin, s'). cl_inv e s0 {} s') (ec_client_set_state e a EC_CLI_STATE_INTERNAL_ERR s2)"
          by (rule cli_dies [OF b2 ev]) (simp_all add: fsm_simps)
        have live: "post {Null_deref} (\<lambda>(fin, s'). cbusy e s0 a False EC_CLI_STATE_REQ_SENT s')
            (ec_client_set_state e a EC_CLI_STATE_REQ_SENT s2)"
          by (rule post_weaken [where F = "{}"])
            (use post_set_cli_state [OF b2 ev, of EC_CLI_STATE_REQ_SENT] in \<open>auto simp: fsm_simps elim!: post_mono\<close>)
        have die': "post {Null_deref} (tried e s0 a)
            (run_bind (ec_client_set_state e a EC_CLI_STATE_INTERNAL_ERR s2) (\<lambda>(_, s). Done (False, s)))"
          by (rule post_cong_bind [OF die]) (auto simp: tried_def)
        have live': "post {Null_deref} (tried e s0 a)
            (run_bind (ec_client_set_state e a EC_CLI_STATE_REQ_SENT s2) (\<lambda>(_, s). Done (True, s)))"
        proof (rule post_cong_bind [OF live], goal_cases)
          case (1 y)
          obtain fin s3 where y: "y = (fin, s3)" by fastforce
          with 1 have b3: "cbusy e s0 a False EC_CLI_STATE_REQ_SENT s3" by simp
          obtain c3 where "cl_heap s3 a = Some c3" by (rule cbusyE [OF b3])
          with b3 show ?case by (auto simp: y tried_def)
        qed
        show ?case unfolding x prod.case using try_next die' live' by (simp only: split: if_split) blast
      qed
      with False g p C_OK show ?thesis by (simp add: ai Let_def del: post_bind)
    qed
  qed
qed

lemma post_dns_send:
  assumes b: "cbusy e s0 a False EC_CLI_STATE_DNS_OK s" and ev: "\<And>t. e_ev_ok e t"
  shows "post {Null_deref} (cl_inv e s0 {}) (dns_send e a ais s)"
proof -
  obtain cli where c: "cl_heap s a = Some cli" "get_cli a s = Done cli" by (rule cbusyE [OF b])
  have reg: "post {Null_deref} (cl_inv e s0 {}) (dns_registered e a s')" if "cbusy e s0 a False EC_CLI_STATE_REQ_SENT s'" for s'
    by (rule cbusyE [OF that]) (rule post_registered [OF that ev], assumption, simp)
  show ?thesis
  proof (cases "c_socket (f_conn (cl_flow cli)) > 0")
    case True
    have "post {Null_deref} (cl_inv e s0 {}) (run_bind (ec_pdu_send e (cl_req cli) (cl_flow cli) True s) (\<lambda>(rc, s).
           if rc = C_ERR then run_bind (ec_client_set_state e a EC_CLI_STATE_INTERNAL_ERR s) (\<lambda>(_, s). Done s)
           else run_bind (ec_client_set_state e a EC_CLI_STATE_REQ_SENT s) (\<lambda>(_, s). dns_registered e a s)))"
    proof (rule post_cong_bind [OF post_weaken [OF post_pdu_send [OF cbusy_dups [OF b]]]], simp, goal_cases)
      case (1 x)
      obtain rc s2 where x: "x = (rc, s2)" by fastforce
      have b2: "cbusy e s0 a False EC_CLI_STATE_DNS_OK s2" using 1 cbusy_base [OF _ _ b] by (simp add: x)
      have die: "post {Null_deref} (\<lambda>(fin, s'). cl_inv e s0 {} s') (ec_client_set_state e a EC_CLI_STATE_INTERNAL_ERR s2)"
        by (rule cli_dies [OF b2 ev]) (simp_all add: fsm_simps)
      have live: "post {Null_deref} (\<lambda>(fin, s'). cbusy e s0 a False EC_CLI_STATE_REQ_SENT s')
          (ec_client_set_state e a EC_CLI_STATE_REQ_SENT s2)"
        by (rule post_weaken [where F = "{}"])
          (use post_set_cli_state [OF b2 ev, of EC_CLI_STATE_REQ_SENT] in \<open>auto simp: fsm_simps elim!: post_mono\<close>)
      have "post {Null_deref} (cl_inv e s0 {}) (run_bind (ec_client_set_state e a EC_CLI_STATE_REQ_SENT s2) (\<lambda>(_, s). dns_registered e a s))"
        by (rule post_cong_bind [OF live]) (use reg in auto)
      moreover have "post {Null_deref} (cl_inv e s0 {}) (run_bind (ec_client_set_state e a EC_CLI_STATE_INTERNAL_ERR s2) (\<lambda>(_, s). Done s))"
        by (rule post_cong_bind [OF die]) auto
      ultimately show ?case unfolding x prod.case by (simp only: split: if_split) blast
    qed
    with True c(2) show ?thesis by (simp add: dns_send_def del: post_bind)
  next
    case False
    let ?cli = "cli\<lparr>cl_flow := (cl_flow cli)\<lparr>f_conn := (f_conn (cl_flow cli))\<lparr>c_socket := -1\<rparr>\<rparr>\<rparr>"
    have "cbusy e s0 a False EC_CLI_STATE_DNS_OK (put_cli a ?cli s)"
      by (rule cbusy_same [OF b c(1), where f = "(cl_flow cli)\<lparr>f_conn := (f_conn (cl_flow cli))\<lparr>c_socket := -1\<rparr>\<rparr>"
          and r = "cl_res cli" and ob = "cl_observe cli" and q = "cl_req cli"]) (simp_all add: untimed_def)
    from post_dns_try [OF this ev, of ?cli]
    have "post {Null_deref} (tried e s0 a) (dns_try e a ais (put_cli a ?cli s))" by simp
    then have "post {Null_deref} (cl_inv e s0 {}) (run_bind (dns_try e a ais (put_cli a ?cli s)) (\<lambda>(go_on, s).
                 if go_on then dns_registered e a s else Done s))"
    proof (rule post_cong_bind, goal_cases)
      case (1 x)
      obtain go_on s2 where x: "x = (go_on, s2)" by fastforce
      show ?case
      proof (cases go_on)
        case True
        with 1 obtain st cli2 where "cbusy e s0 a False st s2" "cl_heap s2 a = Some cli2"
          "st = EC_CLI_STATE_REQ_SENT \<or> c_socket (f_conn (cl_flow cli2)) = -1" by (auto simp: x tried_def)
        from post_registered [OF this(1) ev this(2,3)] True show ?thesis by (simp add: x)
      next
        case False
        with 1 show ?thesis by (simp add: x tried_def)
      qed
    qed
    with False c(2) show ?thesis by (simp add: dns_send_def Let_def del: post_bind)
  qed
qed

lemma post_dns_cb:
  assumes b: "cbusy e s0 a False EC_CLI_STATE_NONE s" and ev: "\<And>t. e_ev_ok e t"
  shows "post {Null_deref} (cl_inv e s0 {}) (ec_client_dns_cb e ans a s)"
proof -
  obtain cli where c: "cl_heap s a = Some cli" "get_cli a s = Done cli" "cli_ok False cli" "cl_state cli = EC_CLI_STATE_NONE"
    by (rule cbusyE [OF b]) simp
  let ?s = "put_cli a (cli\<lparr>cl_dns_req := False\<rparr>) s"
  have "cli_timers_ok (cli\<lparr>cl_dns_req := False\<rparr>)"
    using c(3,4) by (simp add: cli_ok_def cli_timers_ok_def)
  then have b1: "cbusy e s0 a False EC_CLI_STATE_NONE ?s"
    using c(3,4) by (intro cbusy_put [OF b]) (simp_all add: cli_ok_def)
  show ?thesis
  proof (cases ans)
    case Dns_failed
    have "post {Null_deref} (\<lambda>(fin, s'). cl_inv e s0 {} s') (ec_client_set_state e a EC_CLI_STATE_DNS_FAILED ?s)"
      by (rule cli_dies [OF b1 ev]) (simp_all add: fsm_simps)
    then have "post {Null_deref} (cl_inv e s0 {}) (run_bind (ec_client_set_state e a EC_CLI_STATE_DNS_FAILED ?s) (\<lambda>(_, s). Done s))"
      by (rule post_cong_bind) auto
    with Dns_failed c(2) show ?thesis by (simp add: ec_client_dns_cb_def Let_def del: post_bind)
  next
    case (Dns_addrs ais)
    have "post {Null_deref} (\<lambda>(fin, s'). cbusy e s0 a False EC_CLI_STATE_DNS_OK s') (ec_client_set_state e a EC_CLI_STATE_DNS_OK ?s)"
      by (rule post_weaken [where F = "{}"])
        (use post_set_cli_state [OF b1 ev, of EC_CLI_STATE_DNS_OK] in \<open>auto simp: fsm_simps elim!: post_mono\<close>)
    then have "post {Null_deref} (cl_inv e s0 {}) (run_bind (ec_client_set_state e a EC_CLI_STATE_DNS_OK ?s) (\<lambda>(_, s).
              run_bind (get_cli a s) (\<lambda>cli.
                case ec_pdu_encode_request e (cl_req cli) (cl_flow cli) s of
                  (rc, req, s) \<Rightarrow>
                    let s = put_cli a (cli\<lparr>cl_req := req\<rparr>) s
                    in if rc = C_ERR
                       then run_bind (ec_client_set_state e a EC_CLI_STATE_INTERNAL_ERR s) (\<lambda>(_, s). Done s)
                       else dns_send e a ais s)))"
    proof (rule post_cong_bind, goal_cases)
      case (1 x)
      obtain fin s2 where x: "x = (fin, s2)" by fastforce
      with 1 have b2: "cbusy e s0 a False EC_CLI_STATE_DNS_OK s2" by simp
      obtain c2 where c2: "cl_heap s2 a = Some c2" "get_cli a s2 = Done c2" by (rule cbusyE [OF b2])
      obtain rc req s3 where q: "ec_pdu_encode_request e (cl_req c2) (cl_flow c2) s2 = (rc, req, s3)" by (metis prod_cases3)
      have t: "ticked s2 s3"
        using q by (auto simp: ec_pdu_encode_request_def Let_def split: prod.splits crc.splits option.splits)
      have h3: "cl_heap s3 a = Some c2" using base_step_ec(2) [OF ticked_base_step [OF t]] c2(1) by simp
      have b3: "cbusy e s0 a False EC_CLI_STATE_DNS_OK (put_cli a (c2\<lparr>cl_req := req\<rparr>) s3)"
        by (rule cbusy_same [OF cbusy_ticked [OF t b2] h3, where f = "cl_flow c2" and r = "cl_res c2"
            and ob = "cl_observe c2" and q = req]) (simp_all add: untimed_def)
      have "post {Null_deref} (\<lambda>(fin, s'). cl_inv e s0 {} s')
          (ec_client_set_state e a EC_CLI_STATE_INTERNAL_ERR (put_cli a (c2\<lparr>cl_req := req\<rparr>) s3))"
        by (rule cli_dies [OF b3 ev]) (simp_all add: fsm_simps)
      then have "post {Null_deref} (cl_inv e s0 {})
          (run_bind (ec_client_set_state e a EC_CLI_STATE_INTERNAL_ERR (put_cli a (c2\<lparr>cl_req := req\<rparr>) s3)) (\<lambda>(_, s). Done s))"
        by (rule post_cong_bind) auto
      with post_dns_send [OF b3 ev] c2(2) q show ?case
        by (simp add: x Let_def del: post_bind)
    qed
    with Dns_addrs c(2) show ?thesis by (simp add: ec_client_dns_cb_def Let_def del: post_bind)
  qed
qed

subsection \<open>Calls of the application\<close>

lemma post_go:
  assumes i: "cl_inv e s0 {} s" and c: "cl_heap s a = Some cli" "cl_state cli = EC_CLI_STATE_NONE" and ev: "\<And>t. e_ev_ok e t"
  shows "post {Null_deref} (\<lambda>(rc, s'). cl_inv e s0 {} s') (ec_client_go e resolve a cb tmo s)"
proof -
  have g: "get_cli a s = Done cli" using c(1) by (simp add: get_cli_def)
  have "cli_waits cli" using rest_cbusy(2) [OF i c(1)] .
  then have l: "cl_linked cli = False" using c(2) by (auto simp: cli_waits_def split: if_splits)
  have b: "cbusy e s0 a False EC_CLI_STATE_NONE s" using rest_cbusy(1) [OF i c(1)] l c(2) by simp
  have ok: "cli_ok False cli" using cbusyE [OF b] c(1) by (metis option.inject)
  have put: "cbusy e s0 a False EC_CLI_STATE_NONE (put_cli a (cli\<lparr>cl_cb := cb, cl_app := (cl_app cli)\<lparr>tout := t\<rparr>, cl_dns_req := d\<rparr>) s)"
    for t d
    by (rule cbusy_put [OF b]) (use ok c(2) in \<open>simp_all add: cli_ok_def cli_timers_ok_def\<close>)
  have put1: "cbusy e s0 a False EC_CLI_STATE_NONE (put_cli a (cli\<lparr>cl_cb := cb, cl_app := (cl_app cli)\<lparr>tout := t\<rparr>\<rparr>) s)" for t
    by (rule cbusy_put [OF b]) (use ok c(2) in \<open>simp_all add: cli_ok_def cli_timers_ok_def\<close>)
  show ?thesis
  proof (cases "client_dest e cli")
    case None
    have "post {Null_deref} (\<lambda>(fin, s'). cl_inv e s0 {} s') (ec_client_set_state e a EC_CLI_STATE_INTERNAL_ERR s)"
      by (rule cli_dies [OF b ev]) (simp_all add: fsm_simps)
    then have "post {Null_deref} (\<lambda>(rc, s'). cl_inv e s0 {} s')
        (run_bind (ec_client_set_state e a EC_CLI_STATE_INTERNAL_ERR s) (\<lambda>(_, s). Done (C_ERR, s)))"
      by (rule post_cong_bind) auto
    with None c(2) g show ?thesis by (simp add: ec_client_go_def del: post_bind)
  next
    case (Some dest)
    let ?t = "case tmo of None \<Rightarrow> (60, 0) | Some t \<Rightarrow> t"
    show ?thesis
    proof (cases "resolve dest")
      case None
      have "cl_inv e s0 {} (put_cli a (cli\<lparr>cl_cb := cb, cl_app := (cl_app cli)\<lparr>tout := ?t\<rparr>, cl_dns_req := True\<rparr>) s)"
        by (rule cbusy_rest [OF put]) simp
      with None Some c(2) g show ?thesis by (simp add: ec_client_go_def Let_def)
    next
      case s2: (Some ans)
      have "post {Null_deref} (\<lambda>(rc, s'). cl_inv e s0 {} s') (run_bind (ec_client_dns_cb e ans a
          (put_cli a (cli\<lparr>cl_cb := cb, cl_app := (cl_app cli)\<lparr>tout := ?t\<rparr>\<rparr>) s)) (\<lambda>s. Done (C_OK, s)))"
        by (rule post_cong_bind [OF post_dns_cb [OF put1 ev]]) simp
      with s2 Some c(2) g show ?thesis by (simp add: ec_client_go_def Let_def del: post_bind)
    qed
  qed
qed

text \<open>The fields that setting up a client leaves alone.\<close>

definition setup_frame :: "ec_client \<Rightarrow> bool \<times> ec_cli_state \<times> ec_timer \<times> ec_timer \<times> ec_timer \<times> bool \<times> int \<times> ec_cli_obs" where
  "setup_frame c = (cl_base c, cl_state c, cl_app c, cl_coap c, cl_obs c, cl_linked c, c_socket (f_conn (cl_flow c)), cl_observe c)"

lemma setup_frame_steps:
  "ec_client_set_proxy e c h q = (r, c') \<Longrightarrow> setup_frame c' = setup_frame c"
  "ec_client_set_method c k = (r, c') \<Longrightarrow> setup_frame c' = setup_frame c"
  "ec_client_add_uri_opts e c w = (r, c') \<Longrightarrow> setup_frame c' = setup_frame c"
  "setup_frame (ec_client_set_msg_model c b) = setup_frame c"
  by (auto simp: setup_frame_def ec_client_set_proxy_def ec_client_set_method_def ec_client_add_uri_opts_def Let_def
      ec_client_set_msg_model_def ec_conn_set_confirmable_def split: if_splits prod.splits crc.splits option.splits)

lemma setup_keeps_frame:
  assumes "client_setup e m uri is_con proxy cli = (rc, cli')"
  shows "setup_frame cli' = setup_frame cli"
  using assms
  by (auto simp: client_setup_def setup_frame_steps(4) split: option.splits prod.splits crc.splits
      dest!: setup_frame_steps(1) setup_frame_steps(2) setup_frame_steps(3))

lemma setup_keeps:
  assumes "client_setup e m uri is_con proxy cli = (rc, cli')"
  shows "cl_base cli' = cl_base cli" "cl_state cli' = cl_state cli" "cl_app cli' = cl_app cli" "cl_coap cli' = cl_coap cli"
    "cl_obs cli' = cl_obs cli" "cl_linked cli' = cl_linked cli" "c_socket (f_conn (cl_flow cli')) = c_socket (f_conn (cl_flow cli))"
    "cl_observe cli' = cl_observe cli"
  using setup_keeps_frame [OF assms] by (simp_all add: setup_frame_def)

lemma post_client_new:
  assumes i: "cl_inv e s0 {} s"
  shows "post {} (\<lambda>(r, s'). cl_inv e s0 {} s') (ec_client_new e m uri is_con proxy False s)"
proof -
  let ?a = "w_tick s"
  obtain rc cli where p: "client_setup e m uri is_con proxy (client_zero s) = (rc, cli)" by fastforce
  note k = setup_keeps [OF p]
  have z: "cl_base cli = False" "cl_state cli = EC_CLI_STATE_NONE" "evti (cl_app cli) = None" "evti (cl_coap cli) = None"
    "evti (cl_obs cli) = None" "cl_linked cli = False"
    using k by (simp_all add: client_zero_def timer_zero_def)
  have w: "clients_ok {} s" "cframe s0 s" "dups_ok e s" using i by (simp_all add: cl_inv_def)
  have f: "cl_heap s ?a = None" using w(1) unfolding clients_ok_def by (cases "cl_heap s ?a") auto
  then have n: "?a \<notin> set (cl_list s)" using w(1) unfolding clients_ok_def by auto
  show ?thesis
  proof (cases rc)
    case C_ERR
    obtain fl c where t: "ec_flow_term (cl_flow cli) False = (fl, c)" by fastforce
    have e: "(cl_heap s)(?a := None) = cl_heap s" using f by (simp add: fun_upd_idem)
    have "ec_client_free ?a (put_cli ?a cli (tick s)) = Done (note_closed c ((tick s)\<lparr>cl_heap := cl_heap s\<rparr>))"
      using z(1) t e by (simp add: ec_client_free_def ec_client_unregister_def get_cli_def put_cli_def Let_def tick_def)
    moreover have "cl_inv e s0 {} (note_closed c ((tick s)\<lparr>cl_heap := cl_heap s\<rparr>))"
      using w unfolding cl_inv_def cframe_def clients_ok_def dups_ok_def by (auto simp: note_closed_def tick_def less_SucI)
    ultimately show ?thesis using p C_ERR by (simp add: ec_client_new_def Let_def)
  next
    case C_OK
    let ?s = "put_cli ?a (cli\<lparr>cl_base := True, cl_userown := False\<rparr>) (tick s)"
    have "cli_ok False (cli\<lparr>cl_base := True, cl_userown := False\<rparr>)" "cli_waits (cli\<lparr>cl_base := True, cl_userown := False\<rparr>)"
      using z by (simp_all add: cli_ok_def cli_timers_ok_def cli_waits_def)
    then have "clients_ok {} ?s" using w(1) n unfolding clients_ok_def by (auto simp: put_cli_def tick_def less_SucI)
    then have "cl_inv e s0 {} ?s" using w(2,3) by (simp add: cl_inv_def cframe_def dups_ok_def put_cli_def tick_def)
    with p C_OK show ?thesis by (simp add: ec_client_new_def Let_def)
  qed
qed

subsection \<open>Events\<close>

text \<open>
  What may happen to the clients: the application creates one or sends its request, the
  resolver answers, a datagram arrives, one of the three timers fires, a duplicate record expires.
\<close>

datatype cli_event =
    Cl_new ec_method "byte list" bool "(byte list \<times> u16) option"
  | Cl_go "byte list \<times> byte list \<Rightarrow> dns_answer option" nat "client_cb option" "timeval option"
  | Cl_dns dns_answer nat
  | Cl_datagram nat int "byte list" nat sockaddr
  | Cl_coap nat
  | Cl_app nat
  | Cl_obs nat
  | Cl_forget nat

fun cli_exec :: "'m env \<Rightarrow> cli_event \<Rightarrow> ('m, 'z) ec_scheme \<Rightarrow> ('m, 'z) ec_scheme run" where
  "cli_exec e (Cl_new m uri is_con proxy) s = run_bind (ec_client_new e m uri is_con proxy False s) (\<lambda>(_, s). Done s)"
| "cli_exec e (Cl_go resolve a cb tmo) s = run_bind (ec_client_go e resolve a cb tmo s) (\<lambda>(_, s). Done s)"
| "cli_exec e (Cl_dns ans a) s = ec_client_dns_cb e ans a s"
| "cli_exec e (Cl_datagram a sd raw n peer) s = run_bind (ec_client_handle_pdu e a sd raw n peer s) (\<lambda>(_, s). Done s)"
| "cli_exec e (Cl_coap a) s = cli_coap_fires e a s"
| "cli_exec e (Cl_app a) s = cli_app_fires e a s"
| "cli_exec e (Cl_obs a) s = cli_obs_fires e a s"
| "cli_exec e (Cl_forget a) s = ec_dup_zap e a s"

text \<open>
  A request is sent once; datagrams are for linked clients and none is an empty acknowledgement
  in a state other than REQ_SENT.
\<close>

fun cli_enabled :: "'m env \<Rightarrow> cli_event \<Rightarrow> ('m, 'z) ec_scheme \<Rightarrow> bool" where
  "cli_enabled e (Cl_new m uri is_con proxy) s \<longleftrightarrow> True"
| "cli_enabled e (Cl_go resolve a cb tmo) s \<longleftrightarrow>
     (case cl_heap s a of None \<Rightarrow> False | Some cli \<Rightarrow> cl_state cli = EC_CLI_STATE_NONE \<and> \<not> cl_dns_req cli)"
| "cli_enabled e (Cl_dns ans a) s \<longleftrightarrow>
     (case cl_heap s a of None \<Rightarrow> False | Some cli \<Rightarrow> cl_state cli = EC_CLI_STATE_NONE \<and> cl_dns_req cli)"
| "cli_enabled e (Cl_datagram a sd raw n peer) s \<longleftrightarrow> n \<le> length raw \<and>
     (case cl_heap s a of None \<Rightarrow> False | Some cli \<Rightarrow> cl_linked cli \<and>
        (is_empty_ack (e_le e) raw n \<longrightarrow> cl_state cli = EC_CLI_STATE_REQ_SENT))"
| "cli_enabled e (Cl_coap a) s \<longleftrightarrow> (case cl_heap s a of None \<Rightarrow> False | Some cli \<Rightarrow> timer_pending (cl_coap cli))"
| "cli_enabled e (Cl_app a) s \<longleftrightarrow> (case cl_heap s a of None \<Rightarrow> False | Some cli \<Rightarrow> timer_pending (cl_app cli))"
| "cli_enabled e (Cl_obs a) s \<longleftrightarrow> (case cl_heap s a of None \<Rightarrow> False | Some cli \<Rightarrow> timer_pending (cl_obs cli))"
| "cli_enabled e (Cl_forget a) s \<longleftrightarrow> d_recvd s a \<noteq> None"

text \<open>Starting a request may end in an access through NULL, decoding in an over-read; nothing else faults.\<close>

fun cli_faults :: "cli_event \<Rightarrow> fault set" where
  "cli_faults (Cl_go resolve a cb tmo) = {Null_deref}"
| "cli_faults (Cl_dns ans a) = {Null_deref}"
| "cli_faults (Cl_datagram a sd raw n peer) = {Overread}"
| "cli_faults _ = {}"

lemma post_forget:
  assumes "hmap_laws e" and "cl_inv e s0 {} s" and "d_recvd s a \<noteq> None"
  shows "post {} (cl_inv e s0 {}) (ec_dup_zap e a s)"
proof -
  have w: "dups_ok e s" using assms(2) by (simp add: cl_inv_def)
  obtain r where r: "d_recvd s a = Some r" using assms(3) by auto
  obtain c s' where d: "ec_dups_delete e (r_key r) s = (c, s')" by fastforce
  have st: "base_step s s'"
    using d by (auto simp: ec_dups_delete_def base_step_def ec_recvd_pdu_free_def split: option.splits)
  have "dups_ok e s'"
  proof (cases c)
    case C_OK
    with d ec_dups_delete_ok [OF assms(1) w] show ?thesis by blast
  next
    case C_ERR
    with d have "s' = s" by (auto simp: ec_dups_delete_def split: option.splits)
    with w show ?thesis by simp
  qed
  then have "cl_inv e s0 {} s'" by (rule cl_inv_base [OF st _ assms(2)])
  with r d show ?thesis by (simp add: ec_dup_zap_def)
qed

lemma post_cli_exec:
  assumes h: "hmap_laws e" and ev: "\<And>t. e_ev_ok e t" and i: "cl_inv e s0 {} s" and en: "cli_enabled e c s"
  shows "post (cli_faults c) (cl_inv e s0 {}) (cli_exec e c s)"
proof (cases c)
  case (Cl_new m uri is_con proxy)
  show ?thesis unfolding Cl_new cli_exec.simps cli_faults.simps by (rule post_cong_bind [OF post_client_new [OF i]]) auto
next
  case (Cl_go resolve a cb tmo)
  with en obtain cli where "cl_heap s a = Some cli" "cl_state cli = EC_CLI_STATE_NONE" by (auto split: option.splits)
  note go = post_go [OF i this ev]
  show ?thesis unfolding Cl_go cli_exec.simps cli_faults.simps by (rule post_cong_bind [OF go]) auto
next
  case (Cl_dns ans a)
  with en obtain cli where cl: "cl_heap s a = Some cli" "cl_state cli = EC_CLI_STATE_NONE" by (auto split: option.splits)
  then have "cl_linked cli = False" using rest_cbusy(2) [OF i cl(1)] by (auto simp: cli_waits_def split: if_splits)
  with rest_cbusy(1) [OF i cl(1)] cl(2) have "cbusy e s0 a False EC_CLI_STATE_NONE s" by simp
  from post_dns_cb [OF this ev] show ?thesis unfolding Cl_dns cli_exec.simps cli_faults.simps .
next
  case (Cl_datagram a sd raw n peer)
  with en obtain cli where cl: "cl_heap s a = Some cli" "cl_linked cli" "n \<le> length raw"
    "is_empty_ack (e_le e) raw n \<longrightarrow> cl_state cli = EC_CLI_STATE_REQ_SENT" by (auto split: option.splits)
  from post_cli_handle_pdu [OF h i cl(1,2) ev _ cl(3), of sd peer] cl(4)
  have "post {Overread} (\<lambda>(rc, s'). cl_inv e s0 {} s') (ec_client_handle_pdu e a sd raw n peer s)" by blast
  then show ?thesis unfolding Cl_datagram cli_exec.simps cli_faults.simps by (rule post_cong_bind) auto
next
  case (Cl_coap a)
  with en obtain cli where "cl_heap s a = Some cli" "timer_pending (cl_coap cli)" by (auto split: option.splits)
  from post_cli_coap_fires [OF i this ev] show ?thesis unfolding Cl_coap by simp
next
  case (Cl_app a)
  with en obtain cli where "cl_heap s a = Some cli" "timer_pending (cl_app cli)" by (auto split: option.splits)
  from post_cli_app_fires [OF i this ev] show ?thesis unfolding Cl_app by simp
next
  case (Cl_obs a)
  with en obtain cli where "cl_heap s a = Some cli" "timer_pending (cl_obs cli)" by (auto split: option.splits)
  from post_cli_obs_fires [OF i this ev] show ?thesis unfolding Cl_obs by simp
next
  case (Cl_forget a)
  with en post_forget [OF h i] show ?thesis by simp
qed

text \<open>Every event keeps the invariant of the clients, and that of the server.\<close>

interpretation cli_events: event_system "cli_exec e" "cli_enabled e"
    "\<lambda>s. hmap_laws e \<and> (\<forall>t. e_ev_ok e t) \<and> engine_ok e {} s \<and> clients_ok {} s" cli_faults
  for e :: "'m env"
proof
  fix s :: "('m, 'z) ec_scheme" and ev
  assume ok: "hmap_laws e \<and> (\<forall>t. e_ev_ok e t) \<and> engine_ok e {} s \<and> clients_ok {} s" and en: "cli_enabled e ev s"
  then have "cl_inv e s {} s" by (simp add: cl_inv_def engine_ok_def)
  then have "post (cli_faults ev) (cl_inv e s {}) (cli_exec e ev s)" using ok en by (intro post_cli_exec) auto
  then show "post (cli_faults ev) (\<lambda>s. hmap_laws e \<and> (\<forall>t. e_ev_ok e t) \<and> engine_ok e {} s \<and> clients_ok {} s) (cli_exec e ev s)"
    by (rule post_mono) (use ok in \<open>auto simp: cl_inv_def intro: cframe_engine\<close>)
qed

abbreviation cli_reachable :: "'m env \<Rightarrow> ('m, 'z) ec_scheme \<Rightarrow> ('m, 'z) ec_scheme \<Rightarrow> bool" where
  "cli_reachable e \<equiv> reach (cli_exec e) (cli_enabled e)"

end
