(* ===== verification/Cli_Props.thy ===== *)
theory Cli_Props
  imports Cli_Reach Retransmit
begin

text \<open>
  The properties of the client engine: safety of every event from every reachable state, the
  end of a request, notifications, and the inputs on which it goes wrong.
\<close>

subsection \<open>The end of a request\<close>

lemma del_effect:
  "ec_client_del a s = Done s' \<Longrightarrow> cl_heap s' = cl_heap s \<and> cl_log s' = cl_log s \<and> w_sent s' = w_sent s \<and> cl_closed s' = cl_closed s"
  by (cases "get_cli a s") (simp_all add: ec_client_del_def split: if_splits, auto)

lemma unregister_effect:
  "ec_client_unregister a s = Done s' \<Longrightarrow> cl_log s' = cl_log s \<and> w_sent s' = w_sent s \<and> cl_closed s' = cl_closed s"
  by (auto simp: ec_client_unregister_def run_bind_Done_iff Let_def split: if_splits dest!: del_effect)

lemma free_effect:
  assumes "ec_client_free a s = Done s'"
  shows "cl_heap s' a = None \<and> cl_log s' = cl_log s \<and> w_sent s' = w_sent s"
proof -
  from assms obtain s1 cli where u: "ec_client_unregister a s = Done s1" "get_cli a s1 = Done cli"
    "s' = note_closed (snd (ec_flow_term (cl_flow cli) False)) (s1\<lparr>cl_heap := (cl_heap s1)(a := None)\<rparr>)"
    by (auto simp: ec_client_free_def run_bind_Done_iff case_prod_beta)
  with unregister_effect [OF u(1)] show ?thesis by (simp add: note_closed_def)
qed

text \<open>A final state that needs no acknowledgement: the user is told, nothing is sent.\<close>

lemma final_no_action:
  assumes "ec_client_state_is_final st" and "st \<noteq> EC_CLI_STATE_REQ_DONE \<or> cl_state cli \<noteq> EC_CLI_STATE_REQ_ACKD \<or> \<not> is_con_cli cli"
  shows "cli_actions e (is_con_cli cli) st cli s = Done (C_OK, cli, s)"
  using assms by (auto simp: cli_actions_def fsm_simps)

lemma set_cli_final_acted:
  assumes "ec_client_set_state e a st s = Done (fin, s')" and "cl_heap s a = Some cli" and "ec_client_state_is_final st"
    and act: "cli_actions e (is_con_cli cli) st cli s = Done (C_OK, cli, s1)"
    and "\<not> co_cancel (cl_observe cli)" and "\<not> cl_userown cli" and "cl_cb cli = Some cb"
  shows "fin \<and> cl_heap s' a = None \<and> w_sent s' = w_sent s1 \<and> cl_log s' = cl_log s1 @ [(a, st, f_resp_code (cl_flow cli))]"
proof -
  have g: "get_cli a s = Done cli" using assms(2) by (simp add: get_cli_def)
  let ?cli = "cli\<lparr>cl_state := st\<rparr>"
  let ?s = "s1\<lparr>cl_log := cl_log s1 @ [(a, st, f_resp_code (cl_flow cli))]\<rparr>"
  obtain cli2 where n: "cli_notify e a ?cli s1 = Done (True, cli2, ?s)" "cl_userown cli2 = cl_userown cli"
    using assms(3,5,7) by (auto simp: cli_notify_def ec_client_invoke_user_callback_def ec_client_cancel_observation_def)
  obtain cli3 where d: "cli_dispose (is_con_cli cli) a cli2 ?s = ec_client_free a (put_cli a cli3 ?s)"
    using n(2) assms(6) retimed_keeps(2) [OF retimed_dispose [of cli2 "is_con_cli cli"]] by (auto simp: cli_dispose_def Let_def)
  have "ec_client_check_transition (cl_state cli) st = C_OK"
    using assms(1) g by (cases "ec_client_check_transition (cl_state cli) st") (simp_all add: ec_client_set_state_def)
  with assms(1) g act n(1) d obtain s2 where "ec_client_free a (put_cli a cli3 ?s) = Done s2" "fin" "s' = s2"
    by (auto simp: ec_client_set_state_def Let_def is_con_cli_def [symmetric] run_bind_Done_iff)
  with free_effect [of a "put_cli a cli3 ?s" s2] show ?thesis by simp
qed

lemma set_cli_final:
  assumes "ec_client_set_state e a st s = Done (fin, s')" and "cl_heap s a = Some cli" and "ec_client_state_is_final st"
    and "st \<noteq> EC_CLI_STATE_REQ_DONE \<or> cl_state cli \<noteq> EC_CLI_STATE_REQ_ACKD \<or> \<not> is_con_cli cli"
    and "\<not> co_cancel (cl_observe cli)" and "\<not> cl_userown cli" and "cl_cb cli = Some cb"
  shows "fin \<and> cl_heap s' a = None \<and> w_sent s' = w_sent s \<and> cl_log s' = cl_log s @ [(a, st, f_resp_code (cl_flow cli))]"
  by (rule set_cli_final_acted [OF assms(1-3) final_no_action [OF assms(3,4)] assms(5-7)])

lemma pdu_send_cli_effect:
  assumes "ec_pdu_send e q f d s = Done (rc, s')"
  shows "cl_heap s' = cl_heap s" and "cl_log s' = cl_log s" and "cl_list s' = cl_list s"
  using base_step_ec [OF base_step_pdu_send [OF assms]] by simp_all

text \<open>A state that is neither final nor WAIT_NFY: nothing but timers and state change.\<close>

lemma set_cli_live:
  assumes "ec_client_set_state e a st s = Done (fin, s')" and "cl_heap s a = Some cli"
    and "\<not> ec_client_state_is_final st" and "st \<noteq> EC_CLI_STATE_WAIT_NFY"
  shows "\<exists>cli1 s1. cli_actions e (is_con_cli cli) st cli s = Done (C_OK, cli1, s1) \<and> s' = put_cli a (cli1\<lparr>cl_state := st\<rparr>) s1 \<and> \<not> fin"
proof -
  have g: "get_cli a s = Done cli" using assms(2) by (simp add: get_cli_def)
  have "ec_client_check_transition (cl_state cli) st \<noteq> C_ERR" using assms(1) g by (auto simp: ec_client_set_state_def)
  with assms(1) g obtain rc cli1 s1 where act: "cli_actions e (is_con_cli cli) st cli s = Done (rc, cli1, s1)"
    and go: "(if rc = C_ERR then Fault Process_exit
       else run_bind (cli_notify e a (cli1\<lparr>cl_state := st\<rparr>) s1) (\<lambda>(fin, c, s).
         if fin then run_bind (cli_dispose (is_con_cli cli) a c s) (\<lambda>s. Done (True, s)) else Done (False, put_cli a c s))) = Done (fin, s')"
    by (auto simp: ec_client_set_state_def Let_def is_con_cli_def [symmetric] run_bind_Done_iff [of "cli_actions e b st c t" for b c t])
  have rc: "rc = C_OK" using go by (cases rc) simp_all
  have "cli_notify e a (cli1\<lparr>cl_state := st\<rparr>) s1 = Done (False, cli1\<lparr>cl_state := st\<rparr>, s1)"
    using assms(3,4) by (simp add: cli_notify_def)
  with act go rc show ?thesis by auto
qed

text \<open>One firing of the retransmission timer.\<close>

definition cli_timer :: "nat \<Rightarrow> ('m, 'z) ec_scheme \<Rightarrow> ec_timer option" where
  "cli_timer a s = map_option cl_coap (cl_heap s a)"

text \<open>A client that is to tell its user, and has not yet or exactly once since the log was \<open>lg\<close>.\<close>

definition tells_once :: "nat \<Rightarrow> (nat \<times> ec_cli_state \<times> ec_rc) list \<Rightarrow> ('m, 'z) ec_scheme \<Rightarrow> bool" where
  "tells_once a lg s \<longleftrightarrow> (case cl_heap s a of
      None \<Rightarrow> \<exists>st rc. cl_log s = lg @ [(a, st, rc)] \<and> ec_client_state_is_final st
    | Some cli \<Rightarrow> cl_log s = lg \<and> cl_cb cli \<noteq> None \<and> \<not> co_cancel (cl_observe cli))"

lemma coap_fires_step:
  assumes i: "cl_inv e s0 {} s" and c: "cl_heap s a = Some cli" "timer_pending (cl_coap cli)" and ev: "\<And>t. e_ev_ok e t"
    and t: "tells_once a lg s"
  shows "\<exists>s'. cli_coap_fires e a s = Done s' \<and> cl_inv e s0 {} s' \<and> tells_once a lg s' \<and>
    length (w_sent s') \<le> length (w_sent s) + 1 \<and>
    (retries_left (cl_coap cli) = 0 \<longrightarrow> cl_heap s' a = None \<and> w_sent s' = w_sent s) \<and>
    (cl_heap s' a = None \<or> backs_off (cl_coap cli) (cli_timer a s'))"
proof -
  obtain s' where d: "cli_coap_fires e a s = Done s'" "cl_inv e s0 {} s'"
    using post_cli_coap_fires [OF i c ev] unfolding post_Done_iff by blast
  note b = rest_cbusy [OF i c(1)]
  obtain x where "cl_heap s a = Some x" "cli_ok (cl_linked cli) x" by (rule cbusyE [OF b(1)])
  then have ok: "cli_timers_ok cli" "\<not> cl_userown cli" using c(1) by (simp_all add: cli_ok_def)
  then have st: "cl_state cli = EC_CLI_STATE_REQ_SENT"
    using b(2) c(2) by (auto simp: cli_waits_def cli_timers_ok_def timer_pending_def split: if_splits)
  obtain cb where u: "cl_log s = lg" "cl_cb cli = Some cb" "\<not> co_cancel (cl_observe cli)"
    using t c(1) by (auto simp: tells_once_def)
  define cli1 where "cli1 = cli\<lparr>cl_coap := timer_fired (cl_coap cli)\<rparr>"
  define s1 where "s1 = put_cli a cli1 s"
  have k1: "cl_heap s1 a = Some cli1" "get_cli a s1 = Done cli1" "w_sent s1 = w_sent s" "cl_log s1 = lg"
    by (simp_all add: s1_def u)
  have c1: "\<not> co_cancel (cl_observe cli1)" "\<not> cl_userown cli1" "cl_cb cli1 = Some cb" "cl_state cli1 = EC_CLI_STATE_REQ_SENT"
    "retries_left (cl_coap cli1) = retries_left (cl_coap cli)" "tout (cl_coap cli1) = tout (cl_coap cli)"
    "evti (cl_coap cli1) = Some False"
    using u ok st by (simp_all add: cli1_def timer_fired_def)
  have eq: "cli_coap_fires e a s = ec_cli_coap_timeout e a s1"
    using c(1) by (simp add: cli_coap_fires_def get_cli_def s1_def cli1_def)
  show ?thesis
  proof (cases "retries_left (cl_coap cli)")
    case 0
    then obtain fin where "ec_client_set_state e a EC_CLI_STATE_COAP_TIMEOUT s1 = Done (fin, s')"
      using d(1) by (auto simp: eq ec_cli_coap_timeout_def k1 c1 run_bind_Done_iff)
    from set_cli_final [OF this k1(1) _ _ c1(1-3)] d k1 0 show ?thesis
      by (auto simp: fsm_simps tells_once_def)
  next
    case (Suc n)
    let ?cli2 = "cli1\<lparr>cl_state := EC_CLI_STATE_COAP_RETRY\<rparr>"
    let ?s2 = "put_cli a ?cli2 s1"
    have "ec_client_set_state e a EC_CLI_STATE_COAP_RETRY s1 = Done (False, ?s2)"
      using c1(4) by (simp add: ec_client_set_state_def k1 Let_def cli_actions_def cli_notify_def fsm_simps)
    with d(1) Suc obtain rc s3 fin where p: "ec_pdu_send e (cl_req ?cli2) (cl_flow ?cli2) True ?s2 = Done (rc, s3)"
      "ec_client_set_state e a (if rc = C_OK then EC_CLI_STATE_REQ_SENT else EC_CLI_STATE_SEND_FAILED) s3 = Done (fin, s')"
      by (auto simp: eq ec_cli_coap_timeout_def k1 c1 run_bind_Done_iff)
    have w: "dups_ok e ?s2" using i by (simp add: s1_def cl_inv_def)
    have sent: "length (w_sent s3) \<le> length (w_sent s) + 1" "rc = C_ERR \<longrightarrow> w_sent s3 = w_sent s"
      using ec_pdu_send_ok [OF w, of "cl_req ?cli2" "cl_flow ?cli2" True] p(1) by (auto simp: s1_def split: if_splits)
    note k3 = pdu_send_cli_effect [OF p(1)]
    have h3: "cl_heap s3 a = Some ?cli2" "cl_log s3 = lg" using k3 k1(4) by simp_all
    show ?thesis
    proof (cases rc)
      case C_ERR
      then have "ec_client_set_state e a EC_CLI_STATE_SEND_FAILED s3 = Done (fin, s')" using p(2) by simp
      from set_cli_final [OF this h3(1)] c1 d h3 sent Suc show ?thesis by (auto simp: fsm_simps tells_once_def)
    next
      case C_OK
      then have live: "ec_client_set_state e a EC_CLI_STATE_REQ_SENT s3 = Done (fin, s')" using p(2) by simp
      let ?ti = "(cl_coap ?cli2)\<lparr>tout := (fst (tout (cl_coap cli)) * 2, snd (tout (cl_coap cli))), retries_left := n\<rparr>"
      obtain s4 where r: "ec_timer_restart e ?ti s3 = Done (C_OK, ?ti\<lparr>evti := Some True\<rparr>, s4)" "ticked s3 s4"
        using timer_restart_ok [of e ?ti s3, OF ev] c1(7) by auto
      have act: "cli_actions e (is_con_cli ?cli2) EC_CLI_STATE_REQ_SENT ?cli2 s3 =
          Done (C_OK, ?cli2\<lparr>cl_coap := ?ti\<lparr>evti := Some True\<rparr>\<rparr>, s4)"
        using Suc c1(5,6) r(1) by (simp add: cli_actions_def ec_cli_restart_coap_timer_def Let_def)
      define cli3 where "cli3 = ?cli2\<lparr>cl_coap := ?ti\<lparr>evti := Some True\<rparr>, cl_state := EC_CLI_STATE_REQ_SENT\<rparr>"
      have c3: "cl_cb cli3 = Some cb" "\<not> co_cancel (cl_observe cli3)" "cl_coap cli3 = ?ti\<lparr>evti := Some True\<rparr>"
        using c1 by (simp_all add: cli3_def)
      have s': "s' = put_cli a cli3 s4"
        using set_cli_live [OF live h3(1)] act by (auto simp: fsm_simps cli3_def)
      have w4: "w_sent s4 = w_sent s3" "cl_log s4 = cl_log s3"
        using ticked_keeps(2) [OF r(2)] base_step_ec(3) [OF ticked_base_step [OF r(2)]] by simp_all
      have h': "cl_heap s' a = Some cli3" "cl_log s' = lg" "w_sent s' = w_sent s3"
        using w4 h3(2) by (simp_all only: s' put_cli_sel fun_upd_same)
      have "tells_once a lg s'" using h' c3 by (simp add: tells_once_def)
      moreover have "length (w_sent s') \<le> length (w_sent s) + 1" using h'(3) sent(1) by simp
      moreover have "backs_off (cl_coap cli) (cli_timer a s')"
        using Suc by (simp add: backs_off_def cli_timer_def h'(1) c3(3) timer_pending_def)
      moreover have "retries_left (cl_coap cli) \<noteq> 0" using Suc by simp
      ultimately show ?thesis using d by (intro exI [of _ s']) simp
    qed
  qed
qed

interpretation cli_retry: retransmitter "cli_coap_fires e a" "cli_timer a" "\<lambda>s. length (w_sent s)"
    "\<lambda>s. cl_heap s a = None" "\<lambda>s. cl_inv e s0 {} s \<and> (\<forall>t. e_ev_ok e t) \<and> tells_once a lg s"
  for e :: "'m env" and a :: nat and s0 :: "('m, 'z) ec_scheme" and lg
proof
  fix s :: "('m, 'z) ec_scheme" and ti
  show "cl_heap s a = None \<Longrightarrow> cli_timer a s = Some ti \<Longrightarrow> \<not> timer_pending ti" by (simp add: cli_timer_def)
  assume ok: "cl_inv e s0 {} s \<and> (\<forall>t. e_ev_ok e t) \<and> tells_once a lg s" and ti: "cli_timer a s = Some ti" "timer_pending ti"
  then obtain cli where "cl_heap s a = Some cli" "ti = cl_coap cli" by (auto simp: cli_timer_def)
  with coap_fires_step [of e s0 s a cli lg] ok ti(2)
  show "\<exists>s'. cli_coap_fires e a s = Done s' \<and> (cl_inv e s0 {} s' \<and> (\<forall>t. e_ev_ok e t) \<and> tells_once a lg s') \<and>
      length (w_sent s') \<le> length (w_sent s) + 1 \<and>
      (retries_left ti = 0 \<longrightarrow> cl_heap s' a = None \<and> length (w_sent s') = length (w_sent s)) \<and>
      (cl_heap s' a = None \<or> backs_off ti (cli_timer a s'))"
    by auto
qed

subsection \<open>A concrete engine with one request on its way\<close>

definition demo_user :: client_cb where
  "demo_user = (\<lambda>st flow res. False)"

definition demo_query :: ec_pdu where
  "demo_query = fst (ec_pdu_new_empty demo_base)"

definition demo_client :: ec_client where
  "demo_client =
     \<lparr>cl_base = True, cl_dns_req = False, cl_cb = Some demo_user, cl_userown = False, cl_state = EC_CLI_STATE_REQ_SENT,
      cl_observe = \<lparr>co_on = False, co_cancel = False, co_last_cnt = 0, co_last_ts = 0\<rparr>,
      cl_flow = ec_flow_init\<lparr>f_conn := demo_conn, f_method := EC_COAP_GET\<rparr>,
      cl_req = demo_query, cl_res = [],
      cl_app = \<lparr>retries_left = 1, evti = Some True, tout = (60, 0)\<rparr>,
      cl_coap = \<lparr>retries_left = 4, evti = Some True, tout = (2, 0)\<rparr>, cl_obs = timer_zero, cl_input = True, cl_linked = True\<rparr>"

definition demo_ec :: "ec_client \<Rightarrow> nat list \<Rightarrow> (string \<times> nat) list ec" where
  "demo_ec cli l = \<lparr>w_tick = 1, w_sent = [], d_map = [], d_recvd = (\<lambda>_. None), d_next = 0,
     ob_list = [], ob_heap = (\<lambda>_. None), sv_list = [], sv_heap = (\<lambda>_. None), sv_packs = [],
     resources = [], fallback = None, s_cfg = \<lparr>block_is_stateless = True, block_szx = 0\<rparr>,
     cl_list = l, cl_heap = [0 \<mapsto> cli], cl_log = [], cl_closed = []\<rparr>"

lemma demo_ec_sel [simp]:
  "cl_heap (demo_ec cli l) = [0 \<mapsto> cli]" "cl_list (demo_ec cli l) = l" "cl_log (demo_ec cli l) = []" "cl_closed (demo_ec cli l) = []"
  "w_sent (demo_ec cli l) = []" "w_tick (demo_ec cli l) = 1" "d_recvd (demo_ec cli l) = (\<lambda>_. None)" "d_map (demo_ec cli l) = []"
  by (simp_all add: demo_ec_def)

lemma demo_client_sel [simp]:
  "cl_coap demo_client = \<lparr>retries_left = 4, evti = Some True, tout = (2, 0)\<rparr>" "cl_state demo_client = EC_CLI_STATE_REQ_SENT"
  "cl_cb demo_client = Some demo_user" "co_cancel (cl_observe demo_client) = False" "cl_linked demo_client = True"
  "cl_userown demo_client = False" "cl_res demo_client = []" "cl_base demo_client = True" "co_on (cl_observe demo_client) = False"
  "cl_req demo_client = demo_query"
  by (simp_all add: demo_client_def)

lemma demo_ec_engine: "engine_ok e {} (demo_ec cli l) \<longleftrightarrow> dups_ok e (demo_ec cli l)"
  by (simp add: engine_ok_def obs_ok_def srvs_ok_def cbs_ok_def demo_ec_def)

lemma demo_ec_dups: "dups_ok demo_env (demo_ec cli l)"
  by (simp add: dups_ok_def store_ok_def demo_ec_def)

lemma demo_client_con: "is_con_cli demo_client"
  by (simp add: is_con_cli_def demo_client_def demo_conn_def ec_conn_get_confirmable_def)

lemma demo_clients_ok: "clients_ok {} (demo_ec demo_client [0])"
  using demo_client_con
  by (simp add: clients_ok_def cli_ok_def cli_timers_ok_def cli_waits_def) (simp add: demo_client_def timer_zero_def)

lemma demo_ec_engine_ok: "engine_ok demo_env {} (demo_ec cli l)"
  by (simp add: demo_ec_engine demo_ec_dups)

subsection \<open>Safety\<close>

text \<open>Whatever has happened to the clients that the engine owns, the next event - a new request, the
  answer of the resolver, a datagram with arbitrary bytes, a timer, an expired duplicate record - keeps
  the invariants of clients and server and neither exits, nor touches freed memory, nor links a
  client twice. Only starting a request may dereference NULL, and only decoding a datagram may read
  past the end of it. Empty acknowledgements out of turn are excluded.\<close>

theorem client_safe:
  assumes "cli_reachable e s0 s" and "hmap_laws e" and "\<forall>t. e_ev_ok e t" and "engine_ok e {} s0" and "clients_ok {} s0"
    and "cli_enabled e c s"
  shows "(\<exists>s'. cli_exec e c s = Done s' \<and> engine_ok e {} s' \<and> clients_ok {} s') \<or>
    (\<exists>f \<in> cli_faults c. cli_exec e c s = Fault f)"
  using cli_events.event_safe [OF assms(1) _ assms(6)] assms(2-5) by auto

theorem client_safe_witness:
  "\<exists>s'. cli_exec demo_env (Cl_app 0) (demo_ec demo_client [0]) = Done s' \<and> engine_ok demo_env {} s' \<and> clients_ok {} s'"
proof -
  have "cli_enabled demo_env (Cl_app 0) (demo_ec demo_client [0])"
    by (simp add: timer_pending_def) (simp add: demo_client_def)
  from client_safe [OF reach_init demo_env_laws(1) _ demo_ec_engine_ok demo_clients_ok this] show ?thesis by simp
qed



text \<open>C21: A confirmable request whose peer stays silent costs at most four retransmissions and ends
  within 62 seconds; its callback has then been invoked exactly once, with a final state.\<close>

theorem request_bounded:
  assumes "engine_ok e {} s" and "clients_ok {} s" and "cl_heap s a = Some cli"
    and "cl_coap cli = \<lparr>retries_left = 4, evti = Some True, tout = (2, 0)\<rparr>" and "cl_cb cli \<noteq> None"
    and "\<not> co_cancel (cl_observe cli)" and "\<And>t. e_ev_ok e t"
  shows "\<exists>t s' st rc. silence (cli_coap_fires e a) (cli_timer a) 5 s = Done (t, s') \<and> cl_heap s' a = None \<and> t \<le> 62 \<and>
    length (w_sent s') \<le> length (w_sent s) + 4 \<and> cl_log s' = cl_log s @ [(a, st, rc)] \<and> ec_client_state_is_final st"
proof -
  have i: "cl_inv e s {} s" using assms(1,2) by (simp add: cl_inv_def engine_ok_def)
  have o: "tells_once a (cl_log s) s" using assms(3,5,6) by (simp add: tells_once_def)
  have "cli_timer a s = Some (cl_coap cli)" "timer_pending (cl_coap cli)" "retries_left (cl_coap cli) = 4"
    using assms(3,4) by (simp_all add: cli_timer_def timer_pending_def)
  from cli_retry.silence_bound [OF conjI [OF i conjI [OF allI [OF assms(7)] o]] this] obtain t s' where r: "silence (cli_coap_fires e a) (cli_timer a) 5 s = Done (t, s')" "cl_heap s' a = None"
    "tells_once a (cl_log s) s'" "t \<le> fst (tout (cl_coap cli)) * (2 ^ Suc 4 - 1)" "length (w_sent s') \<le> length (w_sent s) + 4"
    by (auto simp del: silence.simps)
  then show ?thesis using assms(4) by (auto simp: tells_once_def simp del: silence.simps)
qed

theorem request_bounded_witness:
  "\<exists>t s' st rc. silence (cli_coap_fires demo_env 0) (cli_timer 0) 5 (demo_ec demo_client [0]) = Done (t, s') \<and> t \<le> 62 \<and>
    length (w_sent s') \<le> 4 \<and> cl_log s' = [(0, st, rc)] \<and> ec_client_state_is_final st"
  using request_bounded [OF demo_ec_engine_ok demo_clients_ok, of 0 demo_client] by (simp del: silence.simps) blast

text \<open>Once the state of a client is final, it can only be set to INTERNAL_ERR, until the client is sent
  again (DNS_OK); a server transaction can only be set to INTERNAL_ERR or CLIENT_RST. Neither ever
  gets back to its initial state.\<close>

theorem final_states_stay:
  "(trace (\<lambda>c s. ec_client_check_transition c s = C_OK) EC_CLI_STATE_NONE (xs @ f # ys) \<and> ec_client_state_is_final f \<and>
     EC_CLI_STATE_DNS_OK \<notin> set ys \<longrightarrow> set ys \<subseteq> {EC_CLI_STATE_INTERNAL_ERR}) \<and>
   (trace (\<lambda>c s. ec_server_check_transition c s = C_OK) EC_SRV_STATE_NONE (us @ g # vs) \<and> ec_server_state_is_final g \<longrightarrow>
     set vs \<subseteq> {EC_SRV_STATE_INTERNAL_ERR, EC_SRV_STATE_CLIENT_RST}) \<and>
   (trace (\<lambda>c s. ec_client_check_transition c s = C_OK) c zs \<longrightarrow> EC_CLI_STATE_NONE \<notin> set zs)"
proof (intro conjI impI)
  assume "trace (\<lambda>c s. ec_client_check_transition c s = C_OK) EC_CLI_STATE_NONE (xs @ f # ys) \<and> ec_client_state_is_final f \<and>
     EC_CLI_STATE_DNS_OK \<notin> set ys"
  with cli_fsm.after_final [of xs f ys] show "set ys \<subseteq> {EC_CLI_STATE_INTERNAL_ERR}"
    by (metis (mono_tags, lifting) list_all_iff singletonI subsetI)
next
  assume "trace (\<lambda>c s. ec_server_check_transition c s = C_OK) EC_SRV_STATE_NONE (us @ g # vs) \<and> ec_server_state_is_final g"
  then have "list_all (\<lambda>s. s = EC_SRV_STATE_INTERNAL_ERR \<or> s = EC_SRV_STATE_CLIENT_RST) vs"
    using srv_fsm.after_final [of us g vs] by (simp add: list_all_iff)
  then show "set vs \<subseteq> {EC_SRV_STATE_INTERNAL_ERR, EC_SRV_STATE_CLIENT_RST}" by (auto simp: list_all_iff)
next
  assume "trace (\<lambda>c s. ec_client_check_transition c s = C_OK) c zs"
  then show "EC_CLI_STATE_NONE \<notin> set zs" by (rule cli_fsm.initial_once)
qed

theorem final_states_stay_witness:
  "set [EC_CLI_STATE_INTERNAL_ERR] \<subseteq> {EC_CLI_STATE_INTERNAL_ERR} \<and> EC_CLI_STATE_NONE \<notin> set [EC_CLI_STATE_DNS_OK]"
  using final_states_stay [of "[EC_CLI_STATE_DNS_OK, EC_CLI_STATE_REQ_SENT]" EC_CLI_STATE_REQ_DONE "[EC_CLI_STATE_INTERNAL_ERR]"
      "[]" EC_SRV_STATE_BAD_REQ "[]" EC_CLI_STATE_NONE "[EC_CLI_STATE_DNS_OK]"]
  by (simp add: fsm_simps)

subsection \<open>Notifications\<close>

text \<open>A notification is accepted exactly when its sequence number is ahead of the last one by less
  than \<open>2 ^ 15\<close>, modulo \<open>2 ^ 16\<close> (the two comparisons of the observe draft), or by just \<open>2 ^ 15\<close>,
  or when at least \<open>2 ^ 14\<close> seconds have passed.\<close>

theorem notification_freshness:
  "\<not> stale ob o_cnt now \<longleftrightarrow>
     uint (co_last_cnt ob) < uint o_cnt \<and> uint o_cnt - uint (co_last_cnt ob) < 2 ^ 15 \<or>
     uint o_cnt < uint (co_last_cnt ob) \<and> 2 ^ 15 < uint (co_last_cnt ob) - uint o_cnt \<or>
     \<bar>uint (co_last_cnt ob) - uint o_cnt\<bar> = 2 ^ 15 \<or> co_last_ts ob + 2 ^ 14 \<le> now"
proof -
  have range: "0 \<le> v \<and> v < 65536" if "v = uint (w :: u16)" for v w
    using that uint_lt2p [of w] by simp
  have "(x - y) mod 2 ^ 32 mod 2 ^ 16 < 2 ^ 15 \<longleftrightarrow>
      \<not> (x < y \<and> y - x < 2 ^ 15 \<or> y < x \<and> 2 ^ 15 < x - y \<or> \<bar>x - y\<bar> = 2 ^ 15)"
    if "0 \<le> x \<and> x < 65536" "0 \<le> y \<and> y < 65536" for x y :: int
  proof (cases "y \<le> x")
    case True
    then have "(x - y) mod 2 ^ 32 mod 2 ^ 16 = x - y" using that by simp
    with True that show ?thesis by auto
  next
    case False
    have "(x - y) mod 2 ^ 32 mod 2 ^ 16 = (x - y) mod 2 ^ 16" by (rule mod_mod_cancel) simp
    also have "\<dots> = (x - y + 2 ^ 16) mod 2 ^ 16" by simp
    also have "\<dots> = x - y + 2 ^ 16" using False that by (intro mod_pos_pos_trivial) auto
    finally show ?thesis using False that by auto
  qed
  from this [OF range [OF refl] range [OF refl], of "co_last_cnt ob" o_cnt] show ?thesis
    by (auto simp: stale_def)
qed

end
