(* ===== verification/Cli_Exchange.thy ===== *)
theory Cli_Exchange
  imports Cli_Props
begin

text \<open>
  Exchanges of a client with its peer, as the bytes and callbacks they result in: responses,
  separate responses and cancelled observations.
\<close>

subsection \<open>Responses\<close>

text \<open>What a response is taken for, by a client that does not observe.\<close>

lemma observation_off:
  assumes "cl_heap s a = Some cli" and "\<not> co_on (cl_observe cli)" and "ec_opts_get (p_opts (cl_req cli)) EC_OPT_OBSERVE = None"
    and "cl_res cli = [pdu]" and "\<not> c_is_multicast (f_conn (cl_flow cli))"
  shows "ec_client_handle_observation e a s = Done (C_OK, put_cli a cli s)"
proof -
  have "(cl_observe cli)\<lparr>co_on := False\<rparr> = cl_observe cli" using assms(2) by (cases "cl_observe cli") simp
  then have eq: "cli\<lparr>cl_observe := (cl_observe cli)\<lparr>co_on := False\<rparr>\<rparr> = cli" by (cases cli) simp
  show ?thesis
    using assms
    by (simp add: ec_client_handle_observation_def get_cli_def ec_client_get_response_options_def ec_client_get_response_pdu_def
        ec_client_get_request_options_def Let_def) (simp only: eq)
qed

lemma put_cli_same: "cl_heap s a = Some cli \<Longrightarrow> put_cli a cli s = s"
  by (simp add: put_cli_def fun_upd_idem)

text \<open>A response goes through to the state machine.\<close>

definition accepts :: "'m env \<Rightarrow> ec_client \<Rightarrow> byte list \<Rightarrow> nat \<Rightarrow> ec_pdu \<Rightarrow> ec_opts \<Rightarrow> bool" where
  "accepts e cli raw n pdu opts \<longleftrightarrow>
     EC_IS_RESP_CODE (uint (h_code (p_hdr_bits pdu))) \<and> 31 < h_code (p_hdr_bits pdu) \<and> token_echoed opts (cl_flow cli) \<and>
     (\<exists>olen. ec_opts_decode (p_opts pdu) raw n (unat (h_oc (p_hdr_bits pdu))) = Done (EC_RC_UNSET, opts, olen) \<and>
        olen + EC_COAP_HDR_SIZE \<le> n \<and> n \<le> length raw \<and> n < 2 ^ 64)"

lemma payload_attached:
  assumes "olen + EC_COAP_HDR_SIZE \<le> n" and "n \<le> length raw" and "n < 2 ^ 64"
  shows "\<exists>p. srv_payload e pdu raw n olen = Done p \<and> p_opts p = p_opts pdu \<and> p_hdr_bits p = p_hdr_bits pdu \<and> p_addr p = p_addr pdu"
  using assms by (auto simp: srv_payload_def Let_def ec_pdu_set_payload_def split: option.split)

lemma response_goes_through:
  assumes c: "cl_heap s a = Some cli" "cl_res cli = []" "\<not> co_on (cl_observe cli)"
      "ec_opts_get (p_opts (cl_req cli)) EC_OPT_OBSERVE = None" "\<not> c_is_multicast (f_conn (cl_flow cli))"
    and d: "ec_pdu_decode_header (e_le e) (fst (ec_pdu_new_empty s)) raw n = (C_OK, pdu)" "accepts e cli raw n pdu opts"
    and new: "ec_dups_handle_incoming_srvmsg e (EC_PDU_MID pdu) sd peer (tick s) = Done (0, s1)"
    and set: "\<And>p olen. p_hdr_bits p = p_hdr_bits pdu \<Longrightarrow> srv_payload e (pdu\<lparr>p_opts := opts\<rparr>) raw n olen = Done p \<Longrightarrow>
      ec_opts_decode (p_opts pdu) raw n (unat (h_oc (p_hdr_bits pdu))) = Done (EC_RC_UNSET, opts, olen) \<Longrightarrow>
      \<exists>s'. ec_client_set_state e a EC_CLI_STATE_REQ_DONE (put_cli a (cli\<lparr>cl_flow := (cl_flow cli)\<lparr>f_resp_code :=
        uint (h_code (p_hdr_bits pdu))\<rparr>, cl_res := [p]\<rparr>) s1) = Done (True, s') \<and> Q s'"
  shows "\<exists>s'. ec_client_handle_pdu e a sd raw n peer s = Done (EC_NET_CBRC_DEAD, s') \<and> Q s'"
proof -
  have st: "base_step (tick s) s1"
    using new by (auto simp: ec_dups_handle_incoming_srvmsg_def ec_dups_insert_def ec_recvd_pdu_new_def ec_recvd_pdu_free_def
        base_step_def tick_def Let_def split: option.splits if_splits prod.splits crc.splits)
  have h1: "cl_heap s1 a = Some cli" "get_cli a s1 = Done cli" "get_cli a (tick s) = Done cli"
    using base_step_ec(2) [OF st] c(1) by (simp_all add: get_cli_def tick_def)
  obtain olen where o: "ec_opts_decode (p_opts pdu) raw n (unat (h_oc (p_hdr_bits pdu))) = Done (EC_RC_UNSET, opts, olen)"
    "olen + EC_COAP_HDR_SIZE \<le> n" "n \<le> length raw" "n < 2 ^ 64" using d(2) by (auto simp: accepts_def)
  obtain p where p: "srv_payload e (pdu\<lparr>p_opts := opts\<rparr>) raw n olen = Done p" "p_opts p = opts" "p_hdr_bits p = p_hdr_bits pdu"
    using payload_attached [OF o(2-4), of e "pdu\<lparr>p_opts := opts\<rparr>"] by auto
  let ?flow = "(cl_flow cli)\<lparr>f_resp_code := uint (h_code (p_hdr_bits pdu))\<rparr>"
  let ?cli = "cli\<lparr>cl_flow := ?flow, cl_res := [p]\<rparr>"
  let ?s = "put_cli a ?cli s1"
  have k: "cl_heap ?s a = Some ?cli" by simp
  have obs: "ec_client_handle_observation e a ?s = Done (C_OK, ?s)"
    using observation_off [OF k, of p e] c(3-5) put_cli_same [OF k] by simp
  obtain s' where s': "ec_client_set_state e a EC_CLI_STATE_REQ_DONE ?s = Done (True, s')" "Q s'" using set [OF p(3,1) o(1)] by blast
  have "cli_deliver e a ?s = Done (EC_NET_CBRC_DEAD, s')"
    using obs c(3) s'(1) by (simp add: cli_deliver_def ec_client_is_observing_def)
  moreover have "cli_response e a pdu raw n s1 = cli_deliver e a ?s"
    using o(1) p d(2) h1(2) c(2)
    by (simp add: cli_response_def accepts_def ec_flow_set_resp_code_def ec_res_set_add_def)
  moreover have code: "\<not> (1 \<le> h_code (p_hdr_bits pdu) \<and> h_code (p_hdr_bits pdu) \<le> 31)" "h_code (p_hdr_bits pdu) \<noteq> 0"
    using d(2) by (auto simp: accepts_def)
  ultimately show ?thesis
    using d(1) new h1(3) s'(2)
    by (intro exI [of _ s'])
      (simp add: ec_client_handle_pdu_def Let_def case_prod_beta ec_pdu_new_empty_def del: not_le)
qed

lemma srvmsg_base_step:
  "ec_dups_handle_incoming_srvmsg e mid sd ss b = Done (k, b') \<Longrightarrow> hmap_laws e \<Longrightarrow> dups_ok e b \<Longrightarrow> base_step b b' \<and> dups_ok e b'"
  using post_srvmsg [of e b mid sd ss] by simp

text \<open>Setting a waiting client to REQ_DONE ends it, whatever its flow and responses have become.\<close>

lemma set_done:
  assumes "cl_inv e s0 {} s" and "cl_heap s a = Some cli" and "cl_linked cli" and "awaits (cl_state cli)" and "\<And>t. e_ev_ok e t"
    and "c_is_confirmable (f_conn f) = c_is_confirmable (f_conn (cl_flow cli))"
  shows "\<exists>s'. ec_client_set_state e a EC_CLI_STATE_REQ_DONE (put_cli a (cli\<lparr>cl_flow := f, cl_res := r\<rparr>) s) = Done (True, s') \<and>
    cl_heap s' a = None"
proof -
  have b: "cbusy e s0 a True (cl_state cli) s" using rest_cbusy(1) [OF assms(1,2)] assms(3) by simp
  have b1: "cbusy e s0 a True (cl_state cli) (put_cli a (cli\<lparr>cl_flow := f, cl_res := r\<rparr>) s)"
    by (rule cbusy_same [OF b assms(2), where f = f and r = r and ob = "cl_observe cli" and q = "cl_req cli"])
      (simp_all add: untimed_def assms(6))
  have "ec_client_check_transition (cl_state cli) EC_CLI_STATE_REQ_DONE = C_OK" using assms(4) by (auto simp: awaits_def)
  from post_set_cli_state [OF b1 assms(5) this] show ?thesis
    by (auto simp: fsm_simps free_faults_def post_Done_iff)
qed

text \<open>The state \<open>s'\<close> is what is left after the callback of the client \<open>a\<close> was told the response \<open>p\<close>.\<close>

definition told_response :: "'m env \<Rightarrow> nat \<Rightarrow> ec_rc \<Rightarrow> ec_pdu \<Rightarrow> ('m, 'z) ec_scheme \<Rightarrow> bool" where
  "told_response e a rc p s' \<longleftrightarrow>
     (\<exists>t cli. cl_heap t a = Some cli \<and> f_resp_code (cl_flow cli) = rc \<and> cl_res cli = [p] \<and>
        ec_client_set_state e a EC_CLI_STATE_REQ_DONE t = Done (True, s') \<and>
        cl_heap s' a = None \<and> cl_log s' = cl_log t @ [(a, EC_CLI_STATE_REQ_DONE, rc)])"

text \<open>A waiting client is told a response with its token, once, and released.\<close>

lemma completed_with_response:
  assumes "hmap_laws e" and "\<And>t. e_ev_ok e t" and "engine_ok e {} s" and "clients_ok {} s"
    and "cl_heap s a = Some cli" and "cl_state cli = EC_CLI_STATE_REQ_SENT" and "cl_linked cli"
    and "cl_cb cli = Some cb" and "cl_res cli = []" and "\<not> co_on (cl_observe cli)" and "\<not> co_cancel (cl_observe cli)"
    and "ec_opts_get (p_opts (cl_req cli)) EC_OPT_OBSERVE = None" and "\<not> c_is_multicast (f_conn (cl_flow cli))"
    and "ec_pdu_decode_header (e_le e) (fst (ec_pdu_new_empty s)) raw n = (C_OK, pdu)" and "accepts e cli raw n pdu opts"
    and "ec_dups_handle_incoming_srvmsg e (EC_PDU_MID pdu) sd peer (tick s) = Done (0, s1)"
  shows "\<exists>s'. ec_client_handle_pdu e a sd raw n peer s = Done (EC_NET_CBRC_DEAD, s') \<and> cl_heap s' a = None \<and>
    cl_log s' = cl_log s @ [(a, EC_CLI_STATE_REQ_DONE, uint (h_code (p_hdr_bits pdu)))] \<and>
    (\<exists>p olen. ec_opts_decode (p_opts pdu) raw n (unat (h_oc (p_hdr_bits pdu))) = Done (EC_RC_UNSET, opts, olen) \<and>
       srv_payload e (pdu\<lparr>p_opts := opts\<rparr>) raw n olen = Done p \<and> told_response e a (uint (h_code (p_hdr_bits pdu))) p s')"
proof (rule response_goes_through [OF assms(5,9,10,12-16)])
  fix p :: ec_pdu and olen
  assume p: "srv_payload e (pdu\<lparr>p_opts := opts\<rparr>) raw n olen = Done p"
    "ec_opts_decode (p_opts pdu) raw n (unat (h_oc (p_hdr_bits pdu))) = Done (EC_RC_UNSET, opts, olen)"
  have i: "cl_inv e s {} (tick s)" by (rule cl_inv_ticked [OF ticked_tick]) (use assms(3,4) in \<open>simp add: cl_inv_def engine_ok_def\<close>)
  have st: "base_step (tick s) s1" "dups_ok e s1"
    using srvmsg_base_step [OF assms(16,1)] i by (simp_all add: cl_inv_def)
  note k = base_step_ec [OF st(1)]
  have h1: "cl_heap s1 a = Some cli" "cl_log s1 = cl_log s" using k assms(5) by (simp_all add: tick_def)
  have ok: "\<not> cl_userown cli" using assms(4,5) unfolding clients_ok_def cli_ok_def by blast
  let ?rc = "uint (h_code (p_hdr_bits pdu))"
  let ?cli = "cli\<lparr>cl_flow := (cl_flow cli)\<lparr>f_resp_code := ?rc\<rparr>, cl_res := [p]\<rparr>"
  let ?t = "put_cli a ?cli s1"
  obtain s' where d: "ec_client_set_state e a EC_CLI_STATE_REQ_DONE ?t = Done (True, s')"
    using set_done [OF cl_inv_base [OF st i] h1(1) assms(7) _ assms(2), where f = "cl_flow ?cli" and r = "[p]"] assms(6)
    by (auto simp: awaits_def)
  have h: "cl_heap ?t a = Some ?cli" by simp
  have f: "cl_heap s' a = None" "cl_log s' = cl_log ?t @ [(a, EC_CLI_STATE_REQ_DONE, ?rc)]"
    using set_cli_final [OF d h] assms(6,8,11) ok by (simp_all add: fsm_simps)
  then have "told_response e a ?rc p s'" unfolding told_response_def using h d by (intro exI [of _ ?t] exI [of _ ?cli]) simp
  with d f p h1(2) show "\<exists>s'. ec_client_set_state e a EC_CLI_STATE_REQ_DONE ?t = Done (True, s') \<and> (cl_heap s' a = None \<and>
      cl_log s' = cl_log s @ [(a, EC_CLI_STATE_REQ_DONE, ?rc)] \<and>
      (\<exists>p olen. ec_opts_decode (p_opts pdu) raw n (unat (h_oc (p_hdr_bits pdu))) = Done (EC_RC_UNSET, opts, olen) \<and>
         srv_payload e (pdu\<lparr>p_opts := opts\<rparr>) raw n olen = Done p \<and> told_response e a ?rc p s'))"
    by auto
qed

text \<open>A response with the token of the request ends it: the callback is invoked once, in state
  REQ_DONE and with the code of the response, and the client is released.\<close>

theorem response_completes:
  assumes "hmap_laws e" and "\<And>t. e_ev_ok e t" and "engine_ok e {} s" and "clients_ok {} s"
    and "cl_heap s a = Some cli" and "cl_state cli = EC_CLI_STATE_REQ_SENT" and "cl_linked cli"
    and "cl_cb cli = Some cb" and "cl_res cli = []" and "\<not> co_on (cl_observe cli)" and "\<not> co_cancel (cl_observe cli)"
    and "ec_opts_get (p_opts (cl_req cli)) EC_OPT_OBSERVE = None" and "\<not> c_is_multicast (f_conn (cl_flow cli))"
    and "ec_pdu_decode_header (e_le e) (fst (ec_pdu_new_empty s)) raw n = (C_OK, pdu)" and "accepts e cli raw n pdu opts"
    and "ec_dups_handle_incoming_srvmsg e (EC_PDU_MID pdu) sd peer (tick s) = Done (0, s1)"
  shows "\<exists>s'. ec_client_handle_pdu e a sd raw n peer s = Done (EC_NET_CBRC_DEAD, s') \<and> cl_heap s' a = None \<and>
    cl_log s' = cl_log s @ [(a, EC_CLI_STATE_REQ_DONE, uint (h_code (p_hdr_bits pdu)))]"
  using completed_with_response [OF assms] by blast

text \<open>A 2.05 response with MID 0x77 (on a little-endian host), without options and payload.\<close>

definition demo_raw :: "byte list" where
  "demo_raw = [0x50, 0x45, 0x77, 0x00]"

definition demo_pdu_in :: ec_pdu where
  "demo_pdu_in = (fst (ec_pdu_new_empty (demo_ec demo_client [0])))\<lparr>p_hdr_bits := \<lparr>h_t = 1, h_oc = 0, h_code = 0x45, h_mid = 0x77\<rparr>,
     p_hdr := demo_raw\<rparr>"

lemma demo_decode_header:
  "ec_pdu_decode_header True (fst (ec_pdu_new_empty (demo_ec cli l))) demo_raw 4 = (C_OK, demo_pdu_in)"
  by (simp add: ec_pdu_decode_header_def demo_pdu_in_def demo_raw_def ec_pdu_new_empty_def) code_simp

lemma demo_incoming_new:
  "\<exists>s1. ec_dups_handle_incoming_srvmsg demo_env 0x77 5 demo_peer (tick (demo_ec cli l)) = Done (0, s1)"
  by (simp add: ec_dups_handle_incoming_srvmsg_def ec_dups_search_def ec_dups_insert_def ec_dup_key_new_def demo_ec_def tick_def
      ec_recvd_pdu_new_def Let_def split: option.split)

lemma demo_accepts: "accepts demo_env cli demo_raw 4 demo_pdu_in ec_opts_init"
  by (simp add: accepts_def demo_pdu_in_def EC_IS_RESP_CODE_def token_echoed_def ec_pdu_new_empty_def ec_opts_decode_def demo_raw_def
      ec_opts_get_def ec_opts_get_nth_def ec_opts_init_def)

theorem response_completes_witness:
  "\<exists>s'. ec_client_handle_pdu demo_env 0 5 demo_raw 4 demo_peer (demo_ec demo_client [0]) = Done (EC_NET_CBRC_DEAD, s') \<and>
    cl_heap s' 0 = None \<and> cl_log s' = [(0, EC_CLI_STATE_REQ_DONE, 0x45)]"
proof -
  have p: "EC_PDU_MID demo_pdu_in = 0x77" "h_code (p_hdr_bits demo_pdu_in) = 0x45" by (simp_all add: demo_pdu_in_def)
  obtain s1 where n: "ec_dups_handle_incoming_srvmsg demo_env (EC_PDU_MID demo_pdu_in) 5 demo_peer (tick (demo_ec demo_client [0])) = Done (0, s1)"
    using demo_incoming_new p(1) by metis
  have c: "ec_opts_get (p_opts (cl_req demo_client)) EC_OPT_OBSERVE = None" "\<not> c_is_multicast (f_conn (cl_flow demo_client))"
    by (simp_all add: demo_query_def ec_pdu_new_empty_def ec_opts_get_def ec_opts_get_nth_def ec_opts_init_def demo_client_def demo_conn_def
        ec_conn_init_def)
  have d: "ec_pdu_decode_header (e_le demo_env) (fst (ec_pdu_new_empty (demo_ec demo_client [0]))) demo_raw 4 = (C_OK, demo_pdu_in)"
    using demo_decode_header by simp
  from response_completes [OF demo_env_laws(1) _ demo_ec_engine_ok demo_clients_ok _ _ _ _ _ _ _ c d demo_accepts n]
  show ?thesis using p(2) by simp
qed

subsection \<open>Separate responses\<close>

lemma send_ack_sent:
  assumes d: "dups_ok e s" and r: "ec_client_get_response_pdu cli = Some r"
    and conn: "c_socket (f_conn (cl_flow cli)) \<noteq> -1" "ec_net_socklen (c_peer (f_conn (cl_flow cli))) \<noteq> None" "\<And>t. e_send_ok e t"
  shows "\<exists>s' d h. ec_client_send_ack e cli s = Done (C_OK, s') \<and> base_step s s' \<and> w_sent s' = w_sent s @ [d] \<and>
    dg_to d = c_peer (f_conn (cl_flow cli)) \<and> dg_sd d = c_socket (f_conn (cl_flow cli)) \<and>
    header_of (e_le e) (dg_bytes d) = Some h \<and> h_t h = EC_COAP_ACK \<and> h_code h = 0 \<and> h_mid h = EC_PDU_MID r"
proof -
  obtain p s1 where n: "ec_pdu_new_empty s = (p, s1)" by fastforce
  have p: "p_sibling p = None" "p_payload p = None" using n by (auto simp: ec_pdu_new_empty_def)
  let ?p = "p\<lparr>p_sibling := Some (p_addr r, EC_PDU_MID r)\<rparr>"
  have sib: "ec_pdu_set_sibling p r = (C_OK, ?p)" using p by (simp add: ec_pdu_set_sibling_def)
  have "\<exists>p'. encode_response (e_le e) ?p (reply_flow cli) EC_COAP_ACK EC_RC_UNSET (EC_PDU_MID r) = (C_OK, p') \<and>
      p_opts p' = p_opts p \<and> p_payload p' = None"
    using p(2) by (simp add: encode_response_def encode_header_def Let_def)
  then obtain p' where enc: "encode_response (e_le e) ?p (reply_flow cli) EC_COAP_ACK EC_RC_UNSET (EC_PDU_MID r) = (C_OK, p')" by blast
  have ack: "ec_pdu_encode_response_ack (e_le e) ?p (reply_flow cli) = (C_OK, p')" using enc by (simp add: ec_pdu_encode_response_ack_def)
  obtain oc where hd: "length (p_hdr p') = 4"
    "\<And>rest. header_of (e_le e) (p_hdr p' @ rest) = Some \<lparr>h_t = EC_COAP_ACK AND 3, h_oc = oc, h_code = word_of_int EC_RC_UNSET, h_mid = EC_PDU_MID r\<rparr>"
    using encode_response_header [OF enc] by blast
  have d1: "dups_ok e s1" using ticked_dups [OF ticked_new_empty [OF n]] d by simp
  have fl: "c_socket (f_conn (reply_flow cli)) = c_socket (f_conn (cl_flow cli))" "ec_pdu_get_peer p' (reply_flow cli) = c_peer (f_conn (cl_flow cli))"
    by (simp_all add: reply_flow_def ec_conn_copy_def ec_flow_init_def ec_pdu_get_peer_def ec_conn_init_def)
  obtain rc s2 where q: "ec_pdu_send e p' (reply_flow cli) True s1 = Done (rc, s2)"
    "w_sent s2 = w_sent s1 @ (if rc = C_OK then [\<lparr>dg_sd = c_socket (f_conn (reply_flow cli)), dg_to = ec_pdu_get_peer p' (reply_flow cli),
      dg_bytes = take EC_COAP_HDR_SIZE (p_hdr p') @ gather (Some (enc (p_opts p'))) (enc_sz (p_opts p')) @
        gather (p_payload p') (p_payload_sz p')\<rparr>] else [])"
    using ec_pdu_send_ok [OF d1, of p' "reply_flow cli" True] by blast
  have rc: "rc = C_OK" by (rule ec_pdu_send_rc [OF q(1)]) (use conn fl in simp_all)
  have "ec_client_send_ack e cli s = Done (C_OK, s2)"
    using n r sib ack q(1) rc by (simp add: ec_client_send_ack_def)
  moreover have "base_step s s2"
    using base_step_trans [OF base_step_new_empty [OF n] base_step_pdu_send [OF q(1)]] .
  moreover have "w_sent s1 = w_sent s" by (rule ticked_keeps(2) [OF ticked_new_empty [OF n]])
  moreover have "(EC_COAP_ACK :: byte) AND 3 = EC_COAP_ACK" by simp
  ultimately show ?thesis using q(2) rc fl hd by simp
qed

lemma srvmsg_new_sent:
  "ec_dups_handle_incoming_srvmsg e mid sd ss b = Done (0, b') \<Longrightarrow> w_sent b' = w_sent b"
  by (auto simp: ec_dups_handle_incoming_srvmsg_def ec_dups_insert_def ec_recvd_pdu_new_def ec_recvd_pdu_free_def
      tick_def Let_def split: option.splits if_splits prod.splits crc.splits)

text \<open>C22: A separate response to a confirmable request that was acknowledged earlier is itself
  acknowledged: one datagram to the peer, of type ACK, with code 0 and the MID of the response.
  Then the callback is invoked and the client released, as for any response.\<close>

theorem separate_response_acked:
  assumes "hmap_laws e" and "\<And>t. e_ev_ok e t" and "engine_ok e {} s" and "clients_ok {} s"
    and "cl_heap s a = Some cli" and "cl_state cli = EC_CLI_STATE_REQ_ACKD" and "cl_linked cli"
    and "cl_cb cli = Some cb" and "cl_res cli = []" and "\<not> co_on (cl_observe cli)" and "\<not> co_cancel (cl_observe cli)"
    and "ec_opts_get (p_opts (cl_req cli)) EC_OPT_OBSERVE = None" and "\<not> c_is_multicast (f_conn (cl_flow cli))"
    and "ec_pdu_decode_header (e_le e) (fst (ec_pdu_new_empty s)) raw n = (C_OK, pdu)" and "accepts e cli raw n pdu opts"
    and "ec_dups_handle_incoming_srvmsg e (EC_PDU_MID pdu) sd peer (tick s) = Done (0, s1)"
    and "is_con_cli cli" and "c_socket (f_conn (cl_flow cli)) \<noteq> -1" and "ec_net_socklen (c_peer (f_conn (cl_flow cli))) \<noteq> None"
    and "\<And>t. e_send_ok e t"
  shows "\<exists>s' d h. ec_client_handle_pdu e a sd raw n peer s = Done (EC_NET_CBRC_DEAD, s') \<and> cl_heap s' a = None \<and>
    cl_log s' = cl_log s @ [(a, EC_CLI_STATE_REQ_DONE, uint (h_code (p_hdr_bits pdu)))] \<and>
    w_sent s' = w_sent s @ [d] \<and> dg_to d = c_peer (f_conn (cl_flow cli)) \<and> dg_sd d = c_socket (f_conn (cl_flow cli)) \<and>
    header_of (e_le e) (dg_bytes d) = Some h \<and> h_t h = EC_COAP_ACK \<and> h_code h = 0 \<and> h_mid h = EC_PDU_MID pdu"
proof -
  define Q where "Q s' \<longleftrightarrow> cl_heap s' a = None \<and>
    cl_log s' = cl_log s @ [(a, EC_CLI_STATE_REQ_DONE, uint (h_code (p_hdr_bits pdu)))] \<and> (\<exists>d h. w_sent s' = w_sent s @ [d] \<and>
    dg_to d = c_peer (f_conn (cl_flow cli)) \<and> dg_sd d = c_socket (f_conn (cl_flow cli)) \<and>
    header_of (e_le e) (dg_bytes d) = Some h \<and> h_t h = EC_COAP_ACK \<and> h_code h = 0 \<and> h_mid h = EC_PDU_MID pdu)"
    for s' :: "('a, 'b) ec_scheme"
  have "\<exists>s'. ec_client_handle_pdu e a sd raw n peer s = Done (EC_NET_CBRC_DEAD, s') \<and> Q s'"
  proof (rule response_goes_through [OF assms(5,9,10,12-16)])
    fix p :: ec_pdu assume pp: "p_hdr_bits p = p_hdr_bits pdu"
    have i: "cl_inv e s {} (tick s)" by (rule cl_inv_ticked [OF ticked_tick]) (use assms(3,4) in \<open>simp add: cl_inv_def engine_ok_def\<close>)
    have st: "base_step (tick s) s1" "dups_ok e s1"
      using srvmsg_base_step [OF assms(16,1)] i by (simp_all add: cl_inv_def)
    note k = base_step_ec [OF st(1)]
    have h1: "cl_heap s1 a = Some cli" "cl_log s1 = cl_log s" "w_sent s1 = w_sent s"
      using k assms(5) srvmsg_new_sent [OF assms(16)] by (simp_all add: tick_def)
    have ok: "\<not> cl_userown cli" using assms(4,5) unfolding clients_ok_def cli_ok_def by blast
    let ?cli = "cli\<lparr>cl_flow := (cl_flow cli)\<lparr>f_resp_code := uint (h_code (p_hdr_bits pdu))\<rparr>, cl_res := [p]\<rparr>"
    let ?s = "put_cli a ?cli s1"
    obtain s' where d: "ec_client_set_state e a EC_CLI_STATE_REQ_DONE ?s = Done (True, s')"
      using set_done [OF cl_inv_base [OF st i] h1(1) assms(7) _ assms(2), where f = "cl_flow ?cli" and r = "[p]"] assms(6)
      by (auto simp: awaits_def)
    have r: "ec_client_get_response_pdu ?cli = Some p" using assms(13) by (simp add: ec_client_get_response_pdu_def)
    have ds: "dups_ok e ?s" using st(2) by simp
    obtain s2 dg h where ack: "ec_client_send_ack e ?cli ?s = Done (C_OK, s2)" "base_step ?s s2" "w_sent s2 = w_sent ?s @ [dg]"
      "dg_to dg = c_peer (f_conn (cl_flow cli))" "dg_sd dg = c_socket (f_conn (cl_flow cli))"
      "header_of (e_le e) (dg_bytes dg) = Some h" "h_t h = EC_COAP_ACK" "h_code h = 0" "h_mid h = EC_PDU_MID p"
      using send_ack_sent [OF ds r _ _ assms(20)] assms(18,19) by auto
    have con: "is_con_cli ?cli" using assms(17) by (simp add: is_con_cli_def)
    have act: "cli_actions e (is_con_cli ?cli) EC_CLI_STATE_REQ_DONE ?cli ?s = Done (C_OK, ?cli, s2)"
      unfolding cli_actions_def using assms(6) con ack(1) by simp
    have "cl_heap ?s a = Some ?cli" by simp
    from set_cli_final_acted [OF d this _ act] assms(8,11) ok
    have f: "cl_heap s' a = None" "w_sent s' = w_sent s2" "cl_log s' = cl_log s2 @ [(a, EC_CLI_STATE_REQ_DONE, uint (h_code (p_hdr_bits pdu)))]"
      by (simp_all add: fsm_simps)
    have "cl_log s2 = cl_log s" using base_step_ec(3) [OF ack(2)] h1(2) by simp
    then have "Q s'" unfolding Q_def using f ack(3-9) h1(3) pp by simp
    with d show "\<exists>s'. ec_client_set_state e a EC_CLI_STATE_REQ_DONE ?s = Done (True, s') \<and> Q s'" by blast
  qed
  then show ?thesis unfolding Q_def by blast
qed

definition demo_acked :: ec_client where
  "demo_acked = demo_client\<lparr>cl_state := EC_CLI_STATE_REQ_ACKD, cl_coap := timer_zero\<rparr>"

lemma demo_acked_sel [simp]:
  "cl_state demo_acked = EC_CLI_STATE_REQ_ACKD" "cl_cb demo_acked = Some demo_user" "cl_linked demo_acked = True"
  "cl_res demo_acked = []" "co_on (cl_observe demo_acked) = False" "co_cancel (cl_observe demo_acked) = False"
  "cl_req demo_acked = demo_query" "cl_flow demo_acked = cl_flow demo_client"
  by (simp_all add: demo_acked_def)

lemma demo_acked_ok: "clients_ok {} (demo_ec demo_acked [0])"
  by (simp add: clients_ok_def cli_ok_def cli_timers_ok_def cli_waits_def)
    (simp add: demo_acked_def demo_client_def timer_zero_def)

lemma demo_conn_sel [simp]:
  "c_is_multicast (f_conn (cl_flow demo_client)) = False" "c_socket (f_conn (cl_flow demo_client)) = 5"
  "c_peer (f_conn (cl_flow demo_client)) = demo_peer"
  by (simp_all add: demo_client_def demo_conn_def ec_conn_init_def)

lemma demo_query_opts: "ec_opts_get (p_opts demo_query) EC_OPT_OBSERVE = None"
  by (simp add: demo_query_def ec_pdu_new_empty_def ec_opts_get_def ec_opts_get_nth_def ec_opts_init_def)

theorem separate_response_acked_witness:
  "\<exists>s' d h. ec_client_handle_pdu demo_env 0 5 demo_raw 4 demo_peer (demo_ec demo_acked [0]) = Done (EC_NET_CBRC_DEAD, s') \<and>
    w_sent s' = [d] \<and> dg_to d = demo_peer \<and> header_of True (dg_bytes d) = Some h \<and> h_t h = EC_COAP_ACK \<and> h_mid h = 0x77"
proof -
  have p: "EC_PDU_MID demo_pdu_in = 0x77" by (simp add: demo_pdu_in_def)
  obtain s1 where n: "ec_dups_handle_incoming_srvmsg demo_env (EC_PDU_MID demo_pdu_in) 5 demo_peer (tick (demo_ec demo_acked [0])) = Done (0, s1)"
    using demo_incoming_new p by metis
  have d: "ec_pdu_decode_header (e_le demo_env) (fst (ec_pdu_new_empty (demo_ec demo_acked [0]))) demo_raw 4 = (C_OK, demo_pdu_in)"
    using demo_decode_header by simp
  have con: "is_con_cli demo_acked" using demo_client_con by (simp add: is_con_cli_def)
  from separate_response_acked [where a = 0 and cb = demo_user, OF demo_env_laws(1) _ demo_ec_engine_ok demo_acked_ok _ _ _ _ _ _ _ _ _ d demo_accepts n con] p
  show ?thesis by (simp add: demo_query_opts) blast
qed

subsection \<open>Observations\<close>

lemma rst_peer_sent:
  assumes d: "dups_ok e s" and r: "ec_client_get_response_pdu cli = Some r"
    and conn: "c_socket (f_conn (cl_flow cli)) \<noteq> -1" "ec_net_socklen (c_peer (f_conn (cl_flow cli))) \<noteq> None" "\<And>t. e_send_ok e t"
  shows "\<exists>s' d h. ec_client_rst_peer e cli s = Done (C_OK, s') \<and> base_step s s' \<and> w_sent s' = w_sent s @ [d] \<and>
    dg_to d = c_peer (f_conn (cl_flow cli)) \<and>
    header_of (e_le e) (dg_bytes d) = Some h \<and> h_t h = EC_COAP_RST \<and> h_code h = 0 \<and> h_mid h = EC_PDU_MID r"
proof -
  obtain p s1 where n: "ec_pdu_new_empty s = (p, s1)" by fastforce
  have p: "p_sibling p = None" using n by (auto simp: ec_pdu_new_empty_def)
  let ?p = "p\<lparr>p_sibling := Some (p_addr r, EC_PDU_MID r)\<rparr>"
  have sib: "ec_pdu_set_sibling p r = (C_OK, ?p)" using p by (simp add: ec_pdu_set_sibling_def)
  obtain p' where enc: "encode_response (e_le e) ?p (reply_flow cli) EC_COAP_RST EC_RC_UNSET (EC_PDU_MID r) = (C_OK, p')"
    by (simp add: encode_response_def)
  have rst: "ec_pdu_encode_response_rst (e_le e) ?p (reply_flow cli) = (C_OK, p')" using enc by (simp add: ec_pdu_encode_response_rst_def)
  obtain oc where hd: "length (p_hdr p') = 4"
    "\<And>rest. header_of (e_le e) (p_hdr p' @ rest) = Some \<lparr>h_t = EC_COAP_RST AND 3, h_oc = oc, h_code = word_of_int EC_RC_UNSET, h_mid = EC_PDU_MID r\<rparr>"
    using encode_response_header [OF enc] by blast
  have d1: "dups_ok e s1" using ticked_dups [OF ticked_new_empty [OF n]] d by simp
  have fl: "c_socket (f_conn (reply_flow cli)) = c_socket (f_conn (cl_flow cli))" "ec_pdu_get_peer p' (reply_flow cli) = c_peer (f_conn (cl_flow cli))"
    by (simp_all add: reply_flow_def ec_conn_copy_def ec_flow_init_def ec_pdu_get_peer_def ec_conn_init_def)
  obtain rc s2 where q: "ec_pdu_send e p' (reply_flow cli) False s1 = Done (rc, s2)"
    "w_sent s2 = w_sent s1 @ (if rc = C_OK then [\<lparr>dg_sd = c_socket (f_conn (reply_flow cli)), dg_to = ec_pdu_get_peer p' (reply_flow cli),
      dg_bytes = take EC_COAP_HDR_SIZE (p_hdr p') @ gather (Some (enc (p_opts p'))) (enc_sz (p_opts p')) @
        gather (p_payload p') (p_payload_sz p')\<rparr>] else [])"
    using ec_pdu_send_ok [OF d1, of p' "reply_flow cli" False] by blast
  have rc: "rc = C_OK" by (rule ec_pdu_send_rc [OF q(1)]) (use conn fl in simp_all)
  have "ec_client_rst_peer e cli s = Done (C_OK, s2)"
    using n r sib rst q(1) rc by (simp add: ec_client_rst_peer_def)
  moreover have "base_step s s2"
    using base_step_trans [OF base_step_new_empty [OF n] base_step_pdu_send [OF q(1)]] .
  moreover have "w_sent s1 = w_sent s" by (rule ticked_keeps(2) [OF ticked_new_empty [OF n]])
  moreover have "(EC_COAP_RST :: byte) AND 3 = EC_COAP_RST" by simp
  ultimately show ?thesis using q(2) rc fl hd by simp
qed

text \<open>C23: A client whose user has cancelled the observation answers the next notification with a reset
  that carries the MID of the notification, does not invoke the callback, and is released.\<close>

theorem cancelled_observation_reset:
  assumes "\<And>t. e_ev_ok e t" and "cl_inv e s0 {} s" and "cl_heap s a = Some cli" and "cl_state cli = EC_CLI_STATE_WAIT_NFY"
    and "co_cancel (cl_observe cli)" and "ec_client_get_response_pdu cli = Some r"
    and "c_socket (f_conn (cl_flow cli)) \<noteq> -1" and "ec_net_socklen (c_peer (f_conn (cl_flow cli))) \<noteq> None"
    and "\<And>t. e_send_ok e t"
  shows "\<exists>s' d h. ec_client_set_state e a EC_CLI_STATE_WAIT_NFY s = Done (True, s') \<and> cl_heap s' a = None \<and> cl_log s' = cl_log s \<and>
    w_sent s' = w_sent s @ [d] \<and> dg_to d = c_peer (f_conn (cl_flow cli)) \<and>
    header_of (e_le e) (dg_bytes d) = Some h \<and> h_t h = EC_COAP_RST \<and> h_mid h = EC_PDU_MID r"
proof -
  note b = rest_cbusy(1) [OF assms(2,3)]
  have g: "get_cli a s = Done cli" using assms(3) by (simp add: get_cli_def)
  have ok: "cli_ok (cl_linked cli) cli" using cbusyE [OF b] assms(3) by (metis option.inject)
  have l: "cl_linked cli" using rest_cbusy(2) [OF assms(2,3)] assms(4) by (auto simp: cli_waits_def split: if_splits)
  have t: "evti (cl_obs cli) \<noteq> None" "\<not> cl_userown cli" using ok assms(4) by (simp_all add: cli_ok_def cli_timers_ok_def)
  obtain s1 where r1: "ec_timer_restart e (cl_obs cli) s = Done (C_OK, (cl_obs cli)\<lparr>evti := Some True\<rparr>, s1)" "ticked s s1"
    using timer_restart_ok [OF assms(1) t(1)] by blast
  let ?cli = "cli\<lparr>cl_obs := (cl_obs cli)\<lparr>evti := Some True\<rparr>, cl_state := EC_CLI_STATE_WAIT_NFY\<rparr>"
  have act: "cli_actions e (is_con_cli cli) EC_CLI_STATE_WAIT_NFY cli s = Done (C_OK, cli\<lparr>cl_obs := (cl_obs cli)\<lparr>evti := Some True\<rparr>\<rparr>, s1)"
    using assms(4) r1(1) by (simp add: cli_actions_def ec_cli_restart_obs_timer_def)
  have d1: "dups_ok e s1" using ticked_dups [OF r1(2)] cbusy_dups [OF b] by simp
  have rr: "ec_client_get_response_pdu ?cli = Some r" using assms(6) by (simp add: ec_client_get_response_pdu_def split: list.splits if_splits)
  obtain s2 d h where rst: "ec_client_rst_peer e ?cli s1 = Done (C_OK, s2)" "base_step s1 s2" "w_sent s2 = w_sent s1 @ [d]"
    "dg_to d = c_peer (f_conn (cl_flow cli))" "header_of (e_le e) (dg_bytes d) = Some h" "h_t h = EC_COAP_RST" "h_mid h = EC_PDU_MID r"
    using rst_peer_sent [OF d1 rr _ _ assms(9)] assms(7,8) by auto
  have n: "cli_notify e a ?cli s1 = Done (True, ?cli, s2)" using assms(5) rst(1) by (simp add: cli_notify_def)
  obtain cli3 where disp: "cli_dispose (is_con_cli cli) a ?cli s2 = ec_client_free a (put_cli a cli3 s2)"
    using t(2) retimed_keeps(2) [OF retimed_dispose [of ?cli "is_con_cli cli"]] by (auto simp: cli_dispose_def Let_def)
  obtain fin s' where set: "ec_client_set_state e a EC_CLI_STATE_WAIT_NFY s = Done (fin, s')"
    using post_set_cli_state [OF b assms(1), of EC_CLI_STATE_WAIT_NFY] assms(4) l by (auto simp: free_faults_def post_Done_iff)
  then have "ec_client_free a (put_cli a cli3 s2) = Done s'" "fin"
    using g assms(4) act n disp by (auto simp: ec_client_set_state_def Let_def is_con_cli_def [symmetric] run_bind_Done_iff)
  with free_effect [of a "put_cli a cli3 s2" s'] have f: "cl_heap s' a = None" "cl_log s' = cl_log s2" "w_sent s' = w_sent s2" by simp_all
  have "cl_log s2 = cl_log s" "w_sent s1 = w_sent s"
    using base_step_ec(3) [OF rst(2)] base_step_ec(3) [OF ticked_base_step [OF r1(2)]] ticked_keeps(2) [OF r1(2)] by simp_all
  then show ?thesis using set \<open>fin\<close> f rst(3-7) by simp
qed

definition demo_observing :: ec_client where
  "demo_observing = demo_client\<lparr>cl_state := EC_CLI_STATE_WAIT_NFY, cl_coap := timer_zero, cl_app := timer_zero,
     cl_obs := \<lparr>retries_left = 1, evti = Some True, tout = (61, 0)\<rparr>, cl_res := [demo_pdu_in],
     cl_observe := \<lparr>co_on = True, co_cancel = True, co_last_cnt = 7, co_last_ts = 990\<rparr>\<rparr>"

lemma demo_observing_ok: "clients_ok {} (demo_ec demo_observing [0])"
  by (simp add: clients_ok_def cli_ok_def cli_timers_ok_def cli_waits_def demo_observing_def timer_zero_def)

theorem cancelled_observation_reset_witness:
  "\<exists>s' d h. ec_client_set_state demo_env 0 EC_CLI_STATE_WAIT_NFY (demo_ec demo_observing [0]) = Done (True, s') \<and> cl_log s' = [] \<and>
    w_sent s' = [d] \<and> header_of True (dg_bytes d) = Some h \<and> h_t h = EC_COAP_RST \<and> h_mid h = 0x77"
proof -
  have i: "cl_inv demo_env (demo_ec demo_observing [0]) {} (demo_ec demo_observing [0])"
    by (simp add: cl_inv_def demo_observing_ok demo_ec_dups)
  have o: "cl_state demo_observing = EC_CLI_STATE_WAIT_NFY" "co_cancel (cl_observe demo_observing)"
    "ec_client_get_response_pdu demo_observing = Some demo_pdu_in" "cl_flow demo_observing = cl_flow demo_client"
    by (simp_all add: demo_observing_def ec_client_get_response_pdu_def)
  have p: "EC_PDU_MID demo_pdu_in = 0x77" by (simp add: demo_pdu_in_def)
  from cancelled_observation_reset [where a = 0, OF _ i _ o(1-3)] p o(4) show ?thesis by simp blast
qed

end
