(* ===== verification/Cli_Errors.thy ===== *)
theory Cli_Errors
  imports Cli_Exchange
begin

text \<open>
  Inputs and uses on which the client goes wrong: an acknowledgement out of turn, a name that
  does not resolve, a client that is sent twice, a stale notification, and a cancelled
  observation of a client that the user owns.
\<close>

subsection \<open>Acknowledgements out of turn\<close>

lemma set_refused:
  "cl_heap s a = Some cli \<Longrightarrow> ec_client_check_transition (cl_state cli) st = C_ERR \<Longrightarrow>
   ec_client_set_state e a st s = Fault Process_exit"
  by (simp add: ec_client_set_state_def get_cli_def)

text \<open>C38: Any empty acknowledgement that reaches the socket of a client that was acknowledged already,
  or that waits for notifications, ends the whole process: its MID is not compared with that of the
  request, and the state machine treats the transition as impossible.\<close>

theorem unexpected_ack_exits:
  assumes "cl_heap s a = Some cli" and "cl_state cli \<in> {EC_CLI_STATE_REQ_ACKD, EC_CLI_STATE_WAIT_NFY}"
    and "ec_pdu_decode_header (e_le e) (fst (ec_pdu_new_empty s)) raw n = (C_OK, pdu)"
    and "h_code (p_hdr_bits pdu) = 0" and "h_t (p_hdr_bits pdu) = EC_COAP_ACK"
    and "ec_dups_handle_incoming_srvmsg e (EC_PDU_MID pdu) sd peer (tick s) = Done (0, s1)"
  shows "ec_client_handle_pdu e a sd raw n peer s = Fault Process_exit"
proof -
  have st: "base_step (tick s) s1"
    using assms(6) by (auto simp: ec_dups_handle_incoming_srvmsg_def ec_dups_insert_def ec_recvd_pdu_new_def ec_recvd_pdu_free_def
        base_step_def tick_def Let_def split: option.splits if_splits prod.splits crc.splits)
  have h: "cl_heap s1 a = Some cli" "get_cli a (tick s) = Done cli"
    using base_step_ec(2) [OF st] assms(1) by (simp_all add: get_cli_def tick_def)
  have "ec_client_set_state e a EC_CLI_STATE_REQ_ACKD s1 = Fault Process_exit"
    by (rule set_refused [OF h(1)]) (use assms(2) in auto)
  then show ?thesis
    using assms(3-6) h(2)
    by (simp add: ec_client_handle_pdu_def Let_def case_prod_beta ec_pdu_new_empty_def ec_client_handle_empty_pdu_def)
qed

text \<open>An empty acknowledgement of MID 0x99.\<close>

definition demo_ack :: "byte list" where
  "demo_ack = [0x60, 0x00, 0x99, 0x00]"

definition demo_ack_pdu :: ec_pdu where
  "demo_ack_pdu = (fst (ec_pdu_new_empty (demo_ec demo_client [0])))\<lparr>p_hdr_bits := \<lparr>h_t = 2, h_oc = 0, h_code = 0, h_mid = 0x99\<rparr>,
     p_hdr := demo_ack\<rparr>"

lemma demo_decode_ack:
  "ec_pdu_decode_header True (fst (ec_pdu_new_empty (demo_ec cli l))) demo_ack 4 = (C_OK, demo_ack_pdu)"
  by (simp add: ec_pdu_decode_header_def demo_ack_pdu_def demo_ack_def ec_pdu_new_empty_def) code_simp

lemma demo_ack_new:
  "\<exists>s1. ec_dups_handle_incoming_srvmsg demo_env 0x99 5 demo_peer (tick (demo_ec cli l)) = Done (0, s1)"
  by (simp add: ec_dups_handle_incoming_srvmsg_def ec_dups_search_def ec_dups_insert_def ec_dup_key_new_def demo_ec_def tick_def
      ec_recvd_pdu_new_def Let_def split: option.split)

theorem unexpected_ack_exits_witness:
  "ec_client_handle_pdu demo_env 0 5 demo_ack 4 demo_peer (demo_ec demo_observing [0]) = Fault Process_exit"
proof -
  obtain s1 where n: "ec_dups_handle_incoming_srvmsg demo_env (EC_PDU_MID demo_ack_pdu) 5 demo_peer (tick (demo_ec demo_observing [0])) = Done (0, s1)"
    using demo_ack_new [of demo_observing] by (auto simp: demo_ack_pdu_def)
  have d: "ec_pdu_decode_header (e_le demo_env) (fst (ec_pdu_new_empty (demo_ec demo_observing [0]))) demo_ack 4 = (C_OK, demo_ack_pdu)"
    using demo_decode_ack by simp
  have o: "cl_state demo_observing = EC_CLI_STATE_WAIT_NFY" by (simp add: demo_observing_def)
  show ?thesis by (rule unexpected_ack_exits [OF _ _ d _ _ n, where cli = demo_observing]) (simp_all add: o demo_ack_pdu_def)
qed

subsection \<open>Names that do not resolve\<close>

text \<open>A client that was never linked cannot be taken out of a queue that is not empty.\<close>

lemma free_unlinked:
  assumes "cl_base cli" and "\<not> cl_linked cli" and "a \<notin> set (cl_list s)"
  shows "cl_list s \<noteq> [] \<Longrightarrow> ec_client_free a (put_cli a cli s) = Fault Null_deref"
    and "cl_list s = [] \<Longrightarrow> \<exists>s'. ec_client_free a (put_cli a cli s) = Done s' \<and> cl_heap s' a = None \<and>
      cl_closed s' = cl_closed s @ (case snd (ec_flow_term (cl_flow cli) False) of None \<Rightarrow> [] | Some sd \<Rightarrow> [sd])"
  using assms
  by (auto simp: ec_client_free_def ec_client_unregister_def ec_client_del_def Let_def get_cli_def put_cli_def note_closed_def
      split: prod.splits)

text \<open>Final states are not acted upon, so setting one leads straight to the release of the client.\<close>

lemma final_released:
  assumes "cl_heap s a = Some cli" and "ec_client_check_transition (cl_state cli) st = C_OK" and "ec_client_state_is_final st"
    and "st \<noteq> EC_CLI_STATE_REQ_DONE" and "\<not> cl_userown cli" and "\<not> co_cancel (cl_observe cli)"
  shows "\<exists>cli' lg. ec_client_set_state e a st s =
      run_bind (ec_client_free a (put_cli a cli' (s\<lparr>cl_log := lg\<rparr>))) (\<lambda>s. Done (True, s)) \<and>
    cl_base cli' = cl_base cli \<and> cl_linked cli' = cl_linked cli \<and> cl_flow cli' = cl_flow cli"
proof -
  let ?c = "cli\<lparr>cl_state := st\<rparr>"
  have a: "cli_actions e con st cli s = Done (C_OK, cli, s)" for con using assms(3,4) by (auto simp: cli_actions_def fsm_simps)
  obtain c2 lg where u: "ec_client_invoke_user_callback a ?c s = (c2, s\<lparr>cl_log := lg\<rparr>)" "told ?c c2" "cl_flow c2 = cl_flow cli"
  proof (cases "cl_cb cli")
    case None
    then show ?thesis using that [of ?c "cl_log s"] by (simp add: ec_client_invoke_user_callback_def)
  next
    case (Some cb)
    show ?thesis
      by (rule that [of "if cb st (cl_flow cli) (cl_res cli) then ec_client_cancel_observation ?c else ?c"
            "cl_log s @ [(a, st, f_resp_code (cl_flow cli))]"])
        (simp_all add: Some ec_client_invoke_user_callback_def ec_client_cancel_observation_def told_def uncancelled_def)
  qed
  have n: "cli_notify e a ?c s = Done (True, c2, s\<lparr>cl_log := lg\<rparr>)" using u(1) assms(3,6) by (simp add: cli_notify_def)
  have k: "cl_base c2 = cl_base cli" "cl_linked c2 = cl_linked cli" "cl_userown c2 = cl_userown cli" "cl_flow c2 = cl_flow cli"
    using told_keeps(1-3) [OF u(2)] u(3) by simp_all
  let ?c2 = "ec_cli_stop_obs_timer (if is_con_cli cli then ec_cli_stop_coap_timer (ec_cli_stop_app_timer c2) else ec_cli_stop_app_timer c2)"
  have "cl_base ?c2 = cl_base c2" "cl_linked ?c2 = cl_linked c2" "cl_flow ?c2 = cl_flow c2" "cl_userown ?c2 = cl_userown c2"
    using retimed_keeps(1,3,4,2) [OF retimed_dispose [of c2 "is_con_cli cli"]] by simp_all
  moreover have "ec_client_set_state e a st s = run_bind (ec_client_free a (put_cli a ?c2 (s\<lparr>cl_log := lg\<rparr>))) (\<lambda>s. Done (True, s))"
    using assms(1,2,5) a n k(3) calculation(4)
    by (simp add: ec_client_set_state_def get_cli_def Let_def cli_dispose_def is_con_cli_def [symmetric])
  ultimately show ?thesis using k(1,2,4) by metis
qed

text \<open>C39: When the name of a new request does not resolve, the client is released although it was never
  linked. If other requests are pending this writes through a NULL pointer; if not, the socket it
  closes is 0, the standard input of the process.\<close>

theorem dns_failure_faults:
  assumes "ec_client_new e m uri is_con proxy False s = Done (Some a, s1)" and "a \<notin> set (cl_list s)"
    and "cl_heap s1 a = Some cli" and "client_dest e cli \<noteq> None"
  shows "(cl_list s \<noteq> [] \<longrightarrow> ec_client_go e (\<lambda>_. Some Dns_failed) a cb tmo s1 = Fault Null_deref) \<and>
    (cl_list s = [] \<longrightarrow> (\<exists>s'. ec_client_go e (\<lambda>_. Some Dns_failed) a cb tmo s1 = Done (C_OK, s') \<and> cl_heap s' a = None \<and>
       cl_closed s' = cl_closed s @ [0]))"
proof -
  obtain c where c: "client_setup e m uri is_con proxy (client_zero s) = (C_OK, c)"
    "a = w_tick s" "s1 = put_cli a (c\<lparr>cl_base := True, cl_userown := False\<rparr>) (tick s)"
    using assms(1) by (auto simp: ec_client_new_def Let_def run_bind_Done_iff split: prod.splits crc.splits)
  note k = setup_keeps [OF c(1)]
  define d where "d = c\<lparr>cl_base := True, cl_userown := False, cl_cb := cb,
    cl_app := (cl_app c)\<lparr>tout := (case tmo of None \<Rightarrow> (60, 0) | Some t \<Rightarrow> t)\<rparr>, cl_dns_req := False\<rparr>"
  define s2 where "s2 = put_cli a d (tick s)"
  have cli: "cli = c\<lparr>cl_base := True, cl_userown := False\<rparr>" using assms(3) c(3) by simp
  have z: "cl_state cli = EC_CLI_STATE_NONE" using k(2) cli by (simp add: client_zero_def)
  have go: "ec_client_go e (\<lambda>_. Some Dns_failed) a cb tmo s1 =
      run_bind (run_bind (ec_client_set_state e a EC_CLI_STATE_DNS_FAILED s2) (\<lambda>(_, s). Done s)) (\<lambda>s. Done (C_OK, s))"
    using assms(4) z c(3) cli
    by (auto simp: ec_client_go_def ec_client_dns_cb_def Let_def s2_def d_def get_cli_def put_cli_def)
  have h: "cl_heap s2 a = Some d" "cl_list s2 = cl_list s" "cl_closed s2 = cl_closed s" by (simp_all add: s2_def tick_def)
  have dz: "cl_state d = EC_CLI_STATE_NONE" "\<not> cl_userown d" "\<not> co_cancel (cl_observe d)" "cl_base d" "\<not> cl_linked d"
    "c_socket (f_conn (cl_flow d)) = 0"
    using k by (simp_all add: d_def client_zero_def)
  obtain d2 lg where f: "ec_client_set_state e a EC_CLI_STATE_DNS_FAILED s2 =
      run_bind (ec_client_free a (put_cli a d2 (s2\<lparr>cl_log := lg\<rparr>))) (\<lambda>s. Done (True, s))"
    "cl_base d2 = cl_base d" "cl_linked d2 = cl_linked d" "cl_flow d2 = cl_flow d"
    using final_released [OF h(1), of EC_CLI_STATE_DNS_FAILED e] dz(1-3) by (auto simp: fsm_simps)
  have t: "snd (ec_flow_term (cl_flow d2) False) = Some 0"
    using f(4) dz(6) by (simp add: ec_flow_term_def ec_conn_term_def)
  have l: "a \<notin> set (cl_list (s2\<lparr>cl_log := lg\<rparr>))" using h(2) assms(2) by simp
  show ?thesis
  proof (cases "cl_list s")
    case Nil
    then show ?thesis using free_unlinked(2) [OF _ _ l, of d2] f dz(4,5) h(2,3) go t by auto
  next
    case (Cons x xs)
    then show ?thesis using free_unlinked(1) [OF _ _ l, of d2] f(1-3) dz(4,5) h(2) go by simp
  qed
qed

text \<open>An engine without clients, and the client of a request through a proxy.\<close>

definition demo_empty :: "(string \<times> nat) list ec" where
  "demo_empty = (demo_ec demo_client [])\<lparr>cl_heap := (\<lambda>_. None)\<rparr>"

definition demo_new_client :: ec_client where
  "demo_new_client = snd (client_setup demo_env EC_COAP_GET [99] True (Some ([1], 0)) (client_zero demo_empty))"

lemma demo_setup: "fst (client_setup demo_env EC_COAP_GET [99] True (Some ([1], 0)) (client_zero demo_empty)) = C_OK"
  by code_simp

lemma demo_dest: "client_dest demo_env (demo_new_client\<lparr>cl_base := True, cl_userown := False\<rparr>) \<noteq> None"
  by code_simp

theorem dns_failure_faults_witness:
  "\<exists>s1 s'. ec_client_new demo_env EC_COAP_GET [99] True (Some ([1], 0)) False demo_empty = Done (Some 1, s1) \<and>
     ec_client_go demo_env (\<lambda>_. Some Dns_failed) 1 None None s1 = Done (C_OK, s') \<and> cl_closed s' = [0]"
proof -
  define c where "c = demo_new_client\<lparr>cl_base := True, cl_userown := False\<rparr>"
  have "client_setup demo_env EC_COAP_GET [99] True (Some ([1], 0)) (client_zero demo_empty) = (C_OK, demo_new_client)"
    using demo_setup unfolding demo_new_client_def by (metis prod.collapse)
  then have n: "ec_client_new demo_env EC_COAP_GET [99] True (Some ([1], 0)) False demo_empty = Done (Some 1, put_cli 1 c (tick demo_empty))"
    by (simp add: ec_client_new_def Let_def c_def demo_empty_def)
  have e: "cl_list demo_empty = []" "cl_closed demo_empty = []" by (simp_all add: demo_empty_def)
  have d: "client_dest demo_env c \<noteq> None" unfolding c_def by (rule demo_dest)
  from dns_failure_faults [where cb = None and tmo = None, OF n _ _ d] e n show ?thesis by simp blast
qed

subsection \<open>Clients that the user owns\<close>

text \<open>A client that the user owns stays in the queue and in its final state when its request is over.
  Sending it again never gets through: if the name does not resolve the process exits, and if it
  does, the client is linked into the queue a second time.\<close>

theorem recycled_client_fails:
  assumes "cl_heap s a = Some cli" and "a \<in> set (cl_list s)" and "ec_client_state_is_final (cl_state cli)" and "\<And>t. e_ev_ok e t"
  shows "ec_client_dns_cb e Dns_failed a s = Fault Process_exit \<and> ec_client_register e a s = Fault Relinked"
proof -
  have "ec_client_check_transition (cl_state cli) EC_CLI_STATE_DNS_FAILED = C_ERR" using assms(3) by (auto simp: fsm_simps)
  then have "ec_client_set_state e a EC_CLI_STATE_DNS_FAILED (put_cli a (cli\<lparr>cl_dns_req := False\<rparr>) s) = Fault Process_exit"
    by (intro set_refused [where cli = "cli\<lparr>cl_dns_req := False\<rparr>"]) simp_all
  then show ?thesis
    using assms by (simp add: ec_client_dns_cb_def ec_client_register_def ec_client_add_def Let_def get_cli_def tick_def)
qed

lemma base_step_rst_peer: "ec_client_rst_peer e cli s = Done (rc, s') \<Longrightarrow> base_step s s'"
  by (auto simp: ec_client_rst_peer_def split: option.splits prod.splits crc.splits
      intro: base_step_new_empty base_step_trans [OF base_step_new_empty base_step_pdu_send])

text \<open>When the user of an own client cancels its observation, the reset leaves the client registered
  and in WAIT_NFY, but without its timer: the next notification dereferences NULL.\<close>

theorem cancelled_own_client_faults:
  assumes "cl_heap s a = Some cli" and "cl_state cli = EC_CLI_STATE_WAIT_NFY" and "cl_userown cli"
    and "co_cancel (cl_observe cli)" and "evti (cl_obs cli) \<noteq> None" and "\<And>t. e_ev_ok e t" and "dups_ok e s"
  shows "\<exists>s'. ec_client_set_state e a EC_CLI_STATE_WAIT_NFY s = Done (True, s') \<and> a \<in> set (cl_list s') = (a \<in> set (cl_list s)) \<and>
    ec_client_set_state e a EC_CLI_STATE_WAIT_NFY s' = Fault Null_deref"
proof -
  let ?con = "is_con_cli cli"
  obtain s1 where t: "ec_timer_restart e (cl_obs cli) s = Done (C_OK, (cl_obs cli)\<lparr>evti := Some True\<rparr>, s1)" "ticked s s1"
    using timer_restart_ok [OF assms(6,5)] by blast
  let ?c = "cli\<lparr>cl_obs := (cl_obs cli)\<lparr>evti := Some True\<rparr>, cl_state := EC_CLI_STATE_WAIT_NFY\<rparr>"
  have d1: "dups_ok e s1" using ticked_dups [OF t(2)] assms(7) by simp
  obtain rc2 s2 where r: "ec_client_rst_peer e ?c s1 = Done (rc2, s2)" using post_rst_peer [OF d1, of ?c] by (auto simp: post_Done_iff)
  let ?d = "ec_cli_stop_obs_timer (if ?con then ec_cli_stop_coap_timer (ec_cli_stop_app_timer ?c) else ec_cli_stop_app_timer ?c)"
  have k: "cl_userown ?d" "cl_state ?d = EC_CLI_STATE_WAIT_NFY" "evti (cl_obs ?d) = None"
    using retimed_keeps(2,9) [OF retimed_dispose [of ?c ?con]] assms(3) by (simp_all add: ec_cli_stop_obs_timer_def)
  let ?s = "put_cli a (?d\<lparr>cl_res := []\<rparr>) s2"
  have "cli_dispose ?con a ?c s2 = Done ?s" using k(1) unfolding cli_dispose_def Let_def by simp
  then have "ec_client_set_state e a EC_CLI_STATE_WAIT_NFY s = Done (True, ?s)"
    using assms(1,2,4) t(1) r
    by (simp add: ec_client_set_state_def get_cli_def Let_def cli_actions_def ec_cli_restart_obs_timer_def cli_notify_def
        is_con_cli_def [symmetric])
  moreover have "cl_list s2 = cl_list s"
    using base_step_ec(1) [OF base_step_rst_peer [OF r]] base_step_ec(1) [OF ticked_base_step [OF t(2)]] by simp
  moreover have "ec_client_set_state e a EC_CLI_STATE_WAIT_NFY ?s = Fault Null_deref"
    using k(2,3) by (simp add: ec_client_set_state_def Let_def cli_actions_def ec_cli_restart_obs_timer_def ec_timer_restart_def)
  ultimately show ?thesis by (intro exI [of _ ?s]) simp
qed

definition demo_own :: ec_client where
  "demo_own = demo_observing\<lparr>cl_userown := True\<rparr>"

lemma demo_own_sel [simp]: "cl_state demo_own = EC_CLI_STATE_WAIT_NFY" "cl_userown demo_own" "co_cancel (cl_observe demo_own)"
    "evti (cl_obs demo_own) = Some True"
  by (simp_all add: demo_own_def demo_observing_def)

theorem cancelled_own_client_faults_witness:
  "\<exists>s'. ec_client_set_state demo_env 0 EC_CLI_STATE_WAIT_NFY (demo_ec demo_own [0]) = Done (True, s') \<and> 0 \<in> set (cl_list s') \<and>
    ec_client_set_state demo_env 0 EC_CLI_STATE_WAIT_NFY s' = Fault Null_deref"
  using cancelled_own_client_faults [of "demo_ec demo_own [0]" 0 demo_own demo_env] by (simp add: demo_ec_dups)

theorem recycled_client_fails_witness:
  "ec_client_dns_cb demo_env Dns_failed 0 (demo_ec (demo_own\<lparr>cl_state := EC_CLI_STATE_REQ_DONE\<rparr>) [0]) = Fault Process_exit"
  using recycled_client_fails [of "demo_ec (demo_own\<lparr>cl_state := EC_CLI_STATE_REQ_DONE\<rparr>) [0]" 0 "demo_own\<lparr>cl_state := EC_CLI_STATE_REQ_DONE\<rparr>" demo_env]
  by (simp add: fsm_simps)

text \<open>Nothing takes the cancellation back, not even the end of the request: whatever final state a client reaches that its
  user owns and has cancelled once, the user is not told, and the recycled client is still cancelled.\<close>

lemma cancelled_client_silent:
  assumes "cl_heap s a = Some cli" and "co_cancel (cl_observe cli)" and "cl_userown cli" and "ec_client_state_is_final st"
    and "st \<noteq> EC_CLI_STATE_REQ_DONE" and "ec_client_set_state e a st s = Done (fin, s')"
  shows "cl_log s' = cl_log s \<and> (\<exists>cli'. cl_heap s' a = Some cli' \<and> cl_state cli' = st \<and> cl_userown cli' \<and> co_cancel (cl_observe cli'))"
proof -
  let ?con = "is_con_cli cli" and ?c = "cli\<lparr>cl_state := st\<rparr>"
  have act: "cli_actions e ?con st cli s = Done (C_OK, cli, s)" by (rule final_no_action) (use assms(4,5) in simp_all)
  obtain rc s1 where r: "ec_client_rst_peer e ?c s = Done (rc, s1)" and s': "cli_dispose ?con a ?c s1 = Done s'"
    using assms(1,2,4,6) act
    by (auto simp: ec_client_set_state_def get_cli_def Let_def cli_notify_def is_con_cli_def [symmetric] run_bind_Done_iff split: if_splits)
  let ?d = "ec_cli_stop_obs_timer (if ?con then ec_cli_stop_coap_timer (ec_cli_stop_app_timer ?c) else ec_cli_stop_app_timer ?c)"
  have k: "cl_userown ?d" "cl_state ?d = st" "co_cancel (cl_observe ?d)"
    using assms(2,3) by (simp_all add: ec_cli_stop_obs_timer_def ec_cli_stop_coap_timer_def ec_cli_stop_app_timer_def)
  have "s' = put_cli a (?d\<lparr>cl_res := []\<rparr>) s1" using s' k(1) unfolding cli_dispose_def Let_def by simp
  with k base_step_ec(3) [OF base_step_rst_peer [OF r]] show ?thesis by simp
qed

subsection \<open>Stale notifications\<close>

text \<open>A stale notification is refused but its PDU stays in the response set, where it is the one that
  counts: whatever the next notification says, it is judged by the old one, and refused as well.\<close>

theorem stale_notification_blocks:
  assumes "cl_heap s a = Some cli" and "co_on (cl_observe cli)" and "\<not> c_is_multicast (f_conn (cl_flow cli))"
    and "cl_res cli = r # rs" and "ec_opts_get_observe (e_le e) (p_opts r) = Some n"
    and "stale (cl_observe cli) n (time_now e s)" and "stale (cl_observe cli) n (time_now e t)"
    and "f_resp_code (cl_flow cli) \<notin> {EC_INTERNAL_SERVER_ERROR, EC_DELETED}" and "code \<notin> {EC_INTERNAL_SERVER_ERROR, EC_DELETED}"
    and "cli' = cli\<lparr>cl_flow := (cl_flow cli)\<lparr>f_resp_code := code\<rparr>, cl_res := ec_res_set_add (cl_res cli) p\<rparr>"
  shows "cli_deliver e a s = Done (EC_NET_CBRC_ERROR, tick s) \<and>
    cli_deliver e a (put_cli a cli' t) = Done (EC_NET_CBRC_ERROR, tick (put_cli a cli' t))"
proof -
  have t: "time_now e (put_cli a cli' t) = time_now e t" by (simp add: time_now_def)
  have r: "cl_observe cli' = cl_observe cli" "f_resp_code (cl_flow cli') = code" "ec_client_get_response_options cli' = Some (p_opts r)"
    "ec_client_get_response_options cli = Some (p_opts r)"
    using assms(3,4,10) by (simp_all add: ec_client_get_response_options_def ec_client_get_response_pdu_def ec_res_set_add_def)
  have "ec_client_handle_observation e a s = Done (C_ERR, tick s)"
    using assms(1,2,5,6,8) r(4) by (simp add: ec_client_handle_observation_def get_cli_def Let_def)
  moreover have "ec_client_handle_observation e a (put_cli a cli' t) = Done (C_ERR, tick (put_cli a cli' t))"
    using assms(2,5,7,9) r(1-3) t by (simp add: ec_client_handle_observation_def Let_def)
  ultimately show ?thesis by (simp add: cli_deliver_def)
qed

definition demo_stale :: ec_client where
  "demo_stale = demo_observing\<lparr>cl_observe := \<lparr>co_on = True, co_cancel = False, co_last_cnt = 7, co_last_ts = 990\<rparr>,
     cl_res := [demo_pdu_in\<lparr>p_opts := snd (ec_opts_add_observe True ec_opts_init 5)\<rparr>]\<rparr>"

lemma demo_observe_option: "ec_opts_get_observe True (snd (ec_opts_add_observe True ec_opts_init 5)) = Some 5"
  by code_simp

theorem stale_notification_blocks_witness:
  "cli_deliver demo_env 0 (demo_ec demo_stale [0]) = Done (EC_NET_CBRC_ERROR, tick (demo_ec demo_stale [0]))"
proof -
  have d: "cl_observe demo_stale = \<lparr>co_on = True, co_cancel = False, co_last_cnt = 7, co_last_ts = 990\<rparr>"
    "cl_res demo_stale = [demo_pdu_in\<lparr>p_opts := snd (ec_opts_add_observe True ec_opts_init 5)\<rparr>]"
    "cl_flow demo_stale = cl_flow demo_client"
    by (simp_all add: demo_stale_def demo_observing_def)
  have t: "stale (cl_observe demo_stale) 5 (time_now demo_env (demo_ec demo_stale [0]))" by (simp add: d stale_def time_now_def)
  have m: "\<not> c_is_multicast (f_conn (cl_flow demo_stale))" "f_resp_code (cl_flow demo_stale) = 0"
    by (simp_all add: d demo_client_def demo_conn_def ec_conn_init_def ec_flow_init_def)
  from stale_notification_blocks [of "demo_ec demo_stale [0]" 0 demo_stale "demo_pdu_in\<lparr>p_opts := snd (ec_opts_add_observe True ec_opts_init 5)\<rparr>"
      "[]" demo_env 5 "demo_ec demo_stale [0]" 0 _ demo_pdu_in, OF _ _ m(1) _ _ t t _ _ refl]
  show ?thesis using m(2) d demo_observe_option by simp
qed

end
