(* ===== verification/Resource.thy ===== *)
theory Resource
  imports Flow Observe
begin

text \<open>
  Resources and their representations (\<open>include/evcoap_resource.h\<close>,
  \<open>lib/evcoap/src/evcoap_resource.c\<close>). A representation is known by its position in the
  queue of its resource; the pointer from a representation back to its resource is left out.
\<close>

subsection \<open>State\<close>

abbreviation (input) EC_ETAG_SZ :: nat where "EC_ETAG_SZ \<equiv> 4"
abbreviation (input) EC_LINK_FMT_MAX :: nat where "EC_LINK_FMT_MAX \<equiv> 1024"
abbreviation (input) EC_RES_ATTR_MAX :: nat where "EC_RES_ATTR_MAX \<equiv> 1024"
abbreviation (input) EC_URI_MAX :: nat where "EC_URI_MAX \<equiv> 512"

record ec_rep =
  rep_media_type :: ec_mt
  rep_etag :: "byte list"
  rep_data :: "byte list option"
  rep_data_sz :: nat

record ec_res_attrs =
  at_obs :: bool
  at_exp :: bool
  at_interface :: "byte list"
  at_res_type :: "byte list"

record ec_res =
  res_uri :: "byte list"
  res_methods :: ec_method_mask
  res_max_age :: u32
  res_attrs :: ec_res_attrs
  res_reps :: "ec_rep list"

subsection \<open>Resources\<close>

definition ec_res_attrs_init :: ec_res_attrs where
  "ec_res_attrs_init = \<lparr>at_obs = False, at_exp = False, at_interface = [], at_res_type = []\<rparr>"

definition ec_resource_new :: "'m env \<Rightarrow> byte list \<Rightarrow> ec_method_mask \<Rightarrow> u32 \<Rightarrow> ec_res option" where
  "ec_resource_new e uri methods max_age =
     (if \<not> EC_IS_METHOD_MASK methods then None
      else case e_strlcpy e uri EC_URI_MAX of
        (C_ERR, b) \<Rightarrow> None
      | (C_OK, b) \<Rightarrow>
          Some \<lparr>res_uri = b, res_methods = methods,
            res_max_age = (if max_age = 0 then of_nat Enums.EC_COAP_DEFAULT_MAX_AGE else max_age),
            res_attrs = ec_res_attrs_init, res_reps = []\<rparr>)"

text \<open>A new representation; its ETag is random.\<close>

definition ec_rep_new ::
    "'m env \<Rightarrow> byte list option \<Rightarrow> nat \<Rightarrow> ec_mt \<Rightarrow> 'z world_scheme \<Rightarrow> ec_rep option \<times> 'z world_scheme" where
  "ec_rep_new e data data_sz media_type w =
     (case (if data \<noteq> None \<and> data_sz \<noteq> 0
            then map_option (\<lambda>d. (Some d, data_sz)) (e_memdup e data data_sz) else Some (None, 0)) of
        None \<Rightarrow> (None, w)
      | Some (d, d_sz) \<Rightarrow>
          (Some \<lparr>rep_media_type = media_type, rep_etag = e_rng_bytes e (w_tick w) EC_ETAG_SZ,
             rep_data = d, rep_data_sz = d_sz\<rparr>, tick w))"

text \<open>\<open>etag\<close> is NULL or a buffer of four bytes: the result holds what the buffer has then.\<close>

definition ec_resource_add_rep ::
    "'m env \<Rightarrow> ec_res \<Rightarrow> byte list option \<Rightarrow> nat \<Rightarrow> ec_mt \<Rightarrow> byte list option \<Rightarrow> 'z world_scheme \<Rightarrow>
     crc \<times> ec_res \<times> byte list option \<times> 'z world_scheme" where
  "ec_resource_add_rep e res data data_sz media_type etag w =
     (case ec_rep_new e data data_sz media_type w of
        (None, w) \<Rightarrow> (C_ERR, res, etag, w)
      | (Some rep, w) \<Rightarrow>
          (C_OK, res\<lparr>res_reps := res_reps res @ [rep]\<rparr>, map_option (\<lambda>_. rep_etag rep) etag, w))"

definition ec_resource_is_empty :: "ec_res \<Rightarrow> bool" where
  "ec_resource_is_empty res \<longleftrightarrow> res_reps res = []"

definition ec_rep_del :: "ec_res \<Rightarrow> nat \<Rightarrow> ec_res" where
  "ec_rep_del res i = res\<lparr>res_reps := drop_nth i (res_reps res)\<rparr>"

text \<open>An empty array of media types accepts any.\<close>

definition ec_mt_matches :: "ec_mt \<Rightarrow> ec_mt list \<Rightarrow> bool" where
  "ec_mt_matches mt mta \<longleftrightarrow> (if mta = [] then True else list_ex (\<lambda>m. m = mt) mta)"

fun suitable_from :: "ec_mt list \<Rightarrow> byte list option \<Rightarrow> nat \<Rightarrow> ec_rep list \<Rightarrow> nat option" where
  "suitable_from mta etag i [] = None"
| "suitable_from mta etag i (rep # reps) =
     (if ec_mt_matches (rep_media_type rep) mta \<and>
         (case etag of None \<Rightarrow> True | Some et \<Rightarrow> rep_etag rep = take EC_ETAG_SZ et)
      then Some i else suitable_from mta etag (i + 1) reps)"

definition ec_resource_get_suitable_rep :: "ec_res \<Rightarrow> ec_mt list \<Rightarrow> byte list option \<Rightarrow> nat option" where
  "ec_resource_get_suitable_rep res mta etag = suitable_from mta etag 0 (res_reps res)"

definition ec_resource_get_rep :: "ec_res \<Rightarrow> ec_mt \<Rightarrow> byte list option \<Rightarrow> nat option" where
  "ec_resource_get_rep res media_type etag =
     ec_resource_get_suitable_rep res (if media_type = EC_MT_ANY then [] else [media_type]) etag"

definition ec_resource_update_rep ::
    "'m env \<Rightarrow> ec_res \<Rightarrow> byte list option \<Rightarrow> nat \<Rightarrow> ec_mt \<Rightarrow> byte list option \<Rightarrow> 'z world_scheme \<Rightarrow>
     crc \<times> ec_res \<times> byte list option \<times> 'z world_scheme" where
  "ec_resource_update_rep e res data data_sz media_type etag w =
     (case ec_resource_get_rep res media_type etag of
        None \<Rightarrow> (C_ERR, res, etag, w)
      | Some i \<Rightarrow>
          (case ec_resource_add_rep e res data data_sz media_type etag w of
             (C_ERR, res, etag, w) \<Rightarrow> (C_ERR, res, etag, w)
           | (C_OK, res, etag, w) \<Rightarrow> (C_OK, ec_rep_del res i, etag, w)))"

definition ec_resource_check_method :: "ec_res \<Rightarrow> ec_method \<Rightarrow> crc" where
  "ec_resource_check_method res m =
     (if \<not> EC_IS_METHOD m then C_ERR
      else if res_methods res AND ec_method_to_mask m \<noteq> 0 then C_OK else C_ERR)"

subsection \<open>Attributes\<close>

definition ec_res_attrs_set_obs :: "ec_res \<Rightarrow> bool \<Rightarrow> ec_res" where
  "ec_res_attrs_set_obs res observable = res\<lparr>res_attrs := (res_attrs res)\<lparr>at_obs := observable\<rparr>\<rparr>"

definition ec_res_attrs_set_exp :: "ec_res \<Rightarrow> bool \<Rightarrow> ec_res" where
  "ec_res_attrs_set_exp res exportable = res\<lparr>res_attrs := (res_attrs res)\<lparr>at_exp := exportable\<rparr>\<rparr>"

definition ec_res_attrs_get_obs :: "ec_res \<Rightarrow> bool" where
  "ec_res_attrs_get_obs res = at_obs (res_attrs res)"

definition ec_res_attrs_get_exp :: "ec_res \<Rightarrow> bool" where
  "ec_res_attrs_get_exp res = at_exp (res_attrs res)"

text \<open>A value that is too long is stored truncated and reported as an error.\<close>

definition ec_res_attrs_set_if :: "'m env \<Rightarrow> ec_res \<Rightarrow> byte list \<Rightarrow> crc \<times> ec_res" where
  "ec_res_attrs_set_if e res v =
     (case e_strlcpy e v EC_RES_ATTR_MAX of (rc, b) \<Rightarrow> (rc, res\<lparr>res_attrs := (res_attrs res)\<lparr>at_interface := b\<rparr>\<rparr>))"

definition ec_res_attrs_set_rt :: "'m env \<Rightarrow> ec_res \<Rightarrow> byte list \<Rightarrow> crc \<times> ec_res" where
  "ec_res_attrs_set_rt e res v =
     (case e_strlcpy e v EC_RES_ATTR_MAX of (rc, b) \<Rightarrow> (rc, res\<lparr>res_attrs := (res_attrs res)\<lparr>at_res_type := b\<rparr>\<rparr>))"

definition ec_res_attrs_get_if :: "'m env \<Rightarrow> ec_res \<Rightarrow> crc \<times> byte list" where
  "ec_res_attrs_get_if e res = e_strlcpy e (at_interface (res_attrs res)) EC_RES_ATTR_MAX"

definition ec_res_attrs_get_rt :: "'m env \<Rightarrow> ec_res \<Rightarrow> crc \<times> byte list" where
  "ec_res_attrs_get_rt e res = e_strlcpy e (at_res_type (res_attrs res)) EC_RES_ATTR_MAX"

subsection \<open>Link format\<close>

text \<open>\<open>strncasecmp\<close> of a C string against a constant, over the length of the constant.\<close>

definition starts_with :: "byte list \<Rightarrow> byte list \<Rightarrow> bool" where
  "starts_with pre s \<longleftrightarrow> strcasecmp_eq (take (length pre) s) pre"

text \<open>\<open>if=\<close>, \<open>rt=\<close>, \<open>obs\<close> and \<open>exp\<close> in ASCII.\<close>

abbreviation (input) str_if :: "byte list" where "str_if \<equiv> [105, 102, 61]"
abbreviation (input) str_rt :: "byte list" where "str_rt \<equiv> [114, 116, 61]"
abbreviation (input) str_obs :: "byte list" where "str_obs \<equiv> [111, 98, 115]"
abbreviation (input) str_exp :: "byte list" where "str_exp \<equiv> [101, 120, 112]"

text \<open>One query parameter: does it let the resource pass?\<close>

definition param_ok :: "bool \<Rightarrow> bool \<Rightarrow> byte list \<Rightarrow> byte list \<Rightarrow> byte list \<Rightarrow> bool" where
  "param_ok ex ob iface res_type t =
     (if starts_with str_if t \<and> \<not> strcasecmp_eq iface (drop 3 t) then False
      else if starts_with str_rt t \<and> \<not> strcasecmp_eq res_type (drop 3 t) then False
      else if strcasecmp_eq t str_obs \<and> \<not> ob then False
      else if strcasecmp_eq t str_exp \<and> \<not> ex then False
      else True)"

fun params_ok :: "bool \<Rightarrow> bool \<Rightarrow> byte list \<Rightarrow> byte list \<Rightarrow> byte list list \<Rightarrow> bool" where
  "params_ok ex ob iface res_type [] = True"
| "params_ok ex ob iface res_type (t # ts) =
     (if \<not> param_ok ex ob iface res_type t then False else params_ok ex ob iface res_type ts)"

definition q_match :: "'m env \<Rightarrow> byte list \<Rightarrow> bool \<Rightarrow> bool \<Rightarrow> byte list \<Rightarrow> byte list \<Rightarrow> bool" where
  "q_match e query ex ob iface res_type =
     (case e_strtok e query 38 of None \<Rightarrow> False | Some tv \<Rightarrow> params_ok ex ob iface res_type tv)"

text \<open>The loop over the representations: do all have the size and the media type of the first?\<close>

definition reps_agree :: "ec_rep \<Rightarrow> ec_rep list \<Rightarrow> bool \<times> bool" where
  "reps_agree r0 reps =
     fold (\<lambda>r (has_sz, has_mt). (if rep_data_sz r \<noteq> rep_data_sz r0 then False else has_sz,
                                 if rep_media_type r \<noteq> rep_media_type r0 then False else has_mt)) reps (True, True)"

text \<open>The attributes that are printed after the URI reference.\<close>

definition quoted_attr :: "byte list \<Rightarrow> byte list \<Rightarrow> byte list list" where
  "quoted_attr name v = (if v = [] then [] else [name, v, [34]])"

definition number_attr :: "'m env \<Rightarrow> bool \<Rightarrow> byte list \<Rightarrow> nat \<Rightarrow> nat \<Rightarrow> byte list list option" where
  "number_attr e has name room v =
     (if \<not> has then Some [] else map_option (\<lambda>d. [name, d]) (e_num_snprintf e room v))"

text \<open>
  The link of a resource, appended to \<open>s\<close>; \<open>None\<close> for NULL: another origin, a query that
  does not match, or an error.
\<close>

definition ec_res_link_format_str ::
    "'m env \<Rightarrow> ec_res \<Rightarrow> byte list \<Rightarrow> byte list option \<Rightarrow> bool \<Rightarrow> byte list \<Rightarrow> byte list option" where
  "ec_res_link_format_str e res origin query relative_ref s =
     (if \<not> starts_with origin (res_uri res) then None
      else case e_strlcpy e (if relative_ref then drop (length origin) (res_uri res) else res_uri res) EC_URI_MAX of
        (C_ERR, _) \<Rightarrow> None
      | (C_OK, uri_ref) \<Rightarrow>
      (case ec_res_attrs_get_if e res of
        (C_ERR, _) \<Rightarrow> None
      | (C_OK, iface) \<Rightarrow>
      (case ec_res_attrs_get_rt e res of
        (C_ERR, _) \<Rightarrow> None
      | (C_OK, res_type) \<Rightarrow>
      (case res_reps res of
        [] \<Rightarrow> None
      | rep # reps \<Rightarrow>
          let ob = at_obs (res_attrs res); ex = at_exp (res_attrs res);
              (has_sz, has_mt) = reps_agree rep (rep # reps)
          in if (case query of None \<Rightarrow> False | Some q \<Rightarrow> q \<noteq> [] \<and> \<not> q_match e q ex ob iface res_type) then None
             else (case number_attr e has_sz [59, 115, 122, 61] 16 (rep_data_sz rep) of
               None \<Rightarrow> None
             | Some sz \<Rightarrow>
             (case number_attr e has_mt [59, 99, 116, 61] 4 (rep_media_type rep) of
               None \<Rightarrow> None
             | Some mt \<Rightarrow>
                 (case cat_all e EC_LINK_FMT_MAX
                     ([[60], uri_ref, [62]] @ quoted_attr [59, 114, 116, 61, 34] res_type @
                      quoted_attr [59, 105, 102, 61, 34] iface @ sz @ mt @
                      (if ob then [[59, 111, 98, 115]] else []) @ (if ex then [[59, 101, 120, 112]] else [])) s of
                    (C_ERR, _) \<Rightarrow> None
                  | (C_OK, s) \<Rightarrow> Some s)))))))"

end
