(* ===== verification/Store.thy ===== *)
theory Store
  imports Prelude
begin

text \<open>
  What the callback registry and the file system of resources have in common: values stored
  under keys, of which some are the same key (the case of letters). The locale says what a
  lookup returns after one insertion or removal, and derives what it returns after any
  sequence of them.
\<close>

datatype ('k, 'v) store_op = Put 'k 'v | Del 'k

text \<open>Run a sequence of operations, all of which must be accepted.\<close>

fun store_run ::
    "('k \<Rightarrow> 'v \<Rightarrow> 's \<Rightarrow> 's option) \<Rightarrow> ('k \<Rightarrow> 's \<Rightarrow> 's option) \<Rightarrow> ('k, 'v) store_op list \<Rightarrow> 's \<Rightarrow> 's option" where
  "store_run put del [] s = Some s"
| "store_run put del (Put k v # ops) s = (case put k v s of None \<Rightarrow> None | Some s' \<Rightarrow> store_run put del ops s')"
| "store_run put del (Del k # ops) s = (case del k s of None \<Rightarrow> None | Some s' \<Rightarrow> store_run put del ops s')"

text \<open>The last word about a key: what the sequence leaves of the value found before it.\<close>

fun latest :: "('k \<Rightarrow> 'k \<Rightarrow> bool) \<Rightarrow> 'k \<Rightarrow> ('k, 'v) store_op list \<Rightarrow> 'v option \<Rightarrow> 'v option" where
  "latest same k [] r = r"
| "latest same k (Put k' v # ops) r = latest same k ops (if same k' k then Some v else r)"
| "latest same k (Del k' # ops) r = latest same k ops (if same k' k then None else r)"

locale keyed_store =
  fixes ok :: "'s \<Rightarrow> bool" and same :: "'k \<Rightarrow> 'k \<Rightarrow> bool" and get :: "'k \<Rightarrow> 's \<Rightarrow> 'v option"
    and put :: "'k \<Rightarrow> 'v \<Rightarrow> 's \<Rightarrow> 's option" and del :: "'k \<Rightarrow> 's \<Rightarrow> 's option"
  assumes put_ok: "ok s \<Longrightarrow> put k v s = Some s' \<Longrightarrow> ok s'"
    and del_ok: "ok s \<Longrightarrow> del k s = Some s' \<Longrightarrow> ok s'"
    and get_put: "ok s \<Longrightarrow> put k v s = Some s' \<Longrightarrow> get k' s' = (if same k k' then Some v else get k' s)"
    and get_del: "ok s \<Longrightarrow> del k s = Some s' \<Longrightarrow> get k' s' = (if same k k' then None else get k' s)"
begin

lemma run_history:
  "store_run put del ops s = Some s' \<Longrightarrow> ok s \<Longrightarrow> ok s' \<and> get k s' = latest same k ops (get k s)"
proof (induction ops arbitrary: s)
  case (Cons x ops)
  show ?case
  proof (cases x)
    case (Put j v)
    with Cons.prems(1) obtain s1 where p: "put j v s = Some s1" "store_run put del ops s1 = Some s'" by (auto split: option.splits)
    from Cons.IH [OF p(2) put_ok [OF Cons.prems(2) p(1)]] show ?thesis by (simp add: Put get_put [OF Cons.prems(2) p(1)])
  next
    case (Del j)
    with Cons.prems(1) obtain s1 where d: "del j s = Some s1" "store_run put del ops s1 = Some s'" by (auto split: option.splits)
    from Cons.IH [OF d(2) del_ok [OF Cons.prems(2) d(1)]] show ?thesis by (simp add: Del get_del [OF Cons.prems(2) d(1)])
  qed
qed simp

lemmas run_ok = run_history [THEN conjunct1]
lemmas history = run_history [THEN conjunct2]

end

end
