(* ===== verification/Filesys.thy ===== *)
theory Filesys
  imports Resource Dups_Spec Store Demo_Env Opt_Url
begin

text \<open>
  The file system of resources (\<open>include/evcoap_filesys.h\<close>,
  \<open>lib/evcoap/src/evcoap_filesys.c\<close>): resources by URI, in a hash map of libu that owns
  them. \<open>fs_res\<close> are the live resources by address.
\<close>

subsection \<open>State\<close>

record 'm fs_st = world +
  fs_rel_refs :: bool
  fs_map :: 'm
  fs_res :: "nat \<Rightarrow> ec_res option"

abbreviation (input) EC_WKC_MAX :: nat where "EC_WKC_MAX \<equiv> 4096"

text \<open>A C string as a key.\<close>

definition bytes_key :: "byte list \<Rightarrow> string" where
  "bytes_key bs = map (\<lambda>b. char_of (unat b)) bs"

definition get_res :: "nat \<Rightarrow> 'm fs_st \<Rightarrow> ec_res run" where
  "get_res a s = (case fs_res s a of None \<Rightarrow> Fault Use_after_free | Some res \<Rightarrow> Done res)"

text \<open>The map releases the values it drops with \<open>ec_resource_free\<close>.\<close>

definition release :: "nat option \<Rightarrow> 'm fs_st \<Rightarrow> 'm fs_st" where
  "release r s = (case r of None \<Rightarrow> s | Some a \<Rightarrow> s\<lparr>fs_res := (fs_res s)(a := None)\<rparr>)"

subsection \<open>Operations\<close>

text \<open>\<open>m\<close> is a new map.\<close>

definition ec_filesys_create :: "'m \<Rightarrow> bool \<Rightarrow> 'm fs_st" where
  "ec_filesys_create m relative_refs = \<lparr>w_tick = 0, w_sent = [], fs_rel_refs = relative_refs, fs_map = m, fs_res = (\<lambda>_. None)\<rparr>"

definition ec_filesys_destroy :: "'m env \<Rightarrow> 'm fs_st \<Rightarrow> 'm fs_st" where
  "ec_filesys_destroy e s = fold (\<lambda>a. release (Some a)) (e_hm_vals e (fs_map s)) s"

definition ec_filesys_put_resource :: "'m env \<Rightarrow> nat \<Rightarrow> 'm fs_st \<Rightarrow> (crc \<times> 'm fs_st) run" where
  "ec_filesys_put_resource e a s =
     run_bind (get_res a s) (\<lambda>res.
       if res_uri res = [] then Done (C_ERR, s)
       else case e_hm_put e (fs_map s) (bytes_key (res_uri res)) a of
         None \<Rightarrow> Done (C_ERR, s)
       | Some m \<Rightarrow> Done (C_OK, release (e_hm_get e (fs_map s) (bytes_key (res_uri res))) (s\<lparr>fs_map := m\<rparr>)))"

definition ec_filesys_del_resource :: "'m env \<Rightarrow> byte list \<Rightarrow> 'm fs_st \<Rightarrow> crc \<times> 'm fs_st" where
  "ec_filesys_del_resource e uri s =
     (case e_hm_del e (fs_map s) (bytes_key uri) of
        None \<Rightarrow> (C_ERR, s)
      | Some m \<Rightarrow> (C_OK, release (e_hm_get e (fs_map s) (bytes_key uri)) (s\<lparr>fs_map := m\<rparr>)))"

definition ec_filesys_get_resource :: "'m env \<Rightarrow> 'm fs_st \<Rightarrow> byte list \<Rightarrow> nat option" where
  "ec_filesys_get_resource e s uri = (if uri = [] then None else e_hm_get e (fs_map s) (bytes_key uri))"

text \<open>A representation is the address of its resource and its position there.\<close>

definition ec_filesys_get_suitable_rep ::
    "'m env \<Rightarrow> 'm fs_st \<Rightarrow> byte list \<Rightarrow> ec_mt list \<Rightarrow> byte list option \<Rightarrow> (nat \<times> nat) option run" where
  "ec_filesys_get_suitable_rep e s uri mta etag =
     (case ec_filesys_get_resource e s uri of
        None \<Rightarrow> Done None
      | Some a \<Rightarrow>
          run_bind (get_res a s) (\<lambda>res. Done (map_option (\<lambda>i. (a, i)) (ec_resource_get_suitable_rep res mta etag))))"

text \<open>The array has one element, whatever the media type is.\<close>

definition ec_filesys_get_rep ::
    "'m env \<Rightarrow> 'm fs_st \<Rightarrow> byte list \<Rightarrow> ec_mt \<Rightarrow> byte list option \<Rightarrow> (nat \<times> nat) option run" where
  "ec_filesys_get_rep e s uri media_type etag = ec_filesys_get_suitable_rep e s uri [media_type] etag"

definition build_wkc :: "'m env \<Rightarrow> byte list \<Rightarrow> byte list option \<Rightarrow> bool \<Rightarrow> ec_res \<Rightarrow> byte list \<Rightarrow> crc \<times> byte list" where
  "build_wkc e origin query rel_refs res wkc =
     (case ec_res_link_format_str e res origin query rel_refs [] of
        None \<Rightarrow> (C_OK, wkc)
      | Some lfs \<Rightarrow>
          (case (if wkc \<noteq> [] then e_strlcat e wkc [44] EC_WKC_MAX else (C_OK, wkc)) of
             (C_ERR, wkc) \<Rightarrow> (C_ERR, wkc)
           | (C_OK, wkc) \<Rightarrow> e_strlcat e wkc lfs EC_WKC_MAX))"

text \<open>The iteration over the map, which stops at the first error.\<close>

fun wkc_walk ::
    "'m env \<Rightarrow> 'm fs_st \<Rightarrow> byte list \<Rightarrow> byte list option \<Rightarrow> nat list \<Rightarrow> byte list \<Rightarrow> (crc \<times> byte list) run" where
  "wkc_walk e s origin query [] wkc = Done (C_OK, wkc)"
| "wkc_walk e s origin query (a # as) wkc =
     run_bind (get_res a s) (\<lambda>res.
       case build_wkc e origin query (fs_rel_refs s) res wkc of
         (C_ERR, wkc) \<Rightarrow> Done (C_ERR, wkc)
       | (C_OK, wkc) \<Rightarrow> wkc_walk e s origin query as wkc)"

definition ec_filesys_well_known_core ::
    "'m env \<Rightarrow> 'm fs_st \<Rightarrow> byte list \<Rightarrow> byte list option \<Rightarrow> byte list option run" where
  "ec_filesys_well_known_core e s origin query =
     run_bind (wkc_walk e s origin query (e_hm_vals e (fs_map s)) []) (\<lambda>(rc, wkc).
       Done (if rc = C_ERR then None else Some wkc))"

subsection \<open>Consistency of the map and its resources\<close>

definition fs_ok :: "'m env \<Rightarrow> 'm fs_st \<Rightarrow> bool" where
  "fs_ok e s \<longleftrightarrow>
     (\<forall>k a. e_hm_get e (fs_map s) k = Some a \<longrightarrow>
        a < w_tick s \<and> (\<exists>res. fs_res s a = Some res \<and> bytes_key (res_uri res) = k))"

lemma bytes_key_inj [simp]: "bytes_key a = bytes_key b \<longleftrightarrow> a = b"
proof
  assume "bytes_key a = bytes_key b"
  then have "map (\<lambda>b. of_char (char_of (unat b)) :: nat) a = map (\<lambda>b. of_char (char_of (unat b))) b"
    unfolding bytes_key_def by (metis (no_types, lifting) comp_apply list.map_comp map_eq_conv)
  moreover have "(of_char (char_of (unat w)) :: nat) = unat w" for w :: byte
    using unsigned_less [of w, where ?'a = nat] by (simp add: of_char_of)
  ultimately show "a = b" by (simp add: list.inj_map_strong)
qed simp

lemma fs_okD:
  "fs_ok e s \<Longrightarrow> e_hm_get e (fs_map s) k = Some a \<Longrightarrow> a < w_tick s \<and> (\<exists>res. fs_res s a = Some res \<and> bytes_key (res_uri res) = k)"
  unfolding fs_ok_def by blast

text \<open>What the map holds for a key once its old value is released.\<close>

lemma fs_ok_release:
  assumes "fs_ok e s" and "e_hm_get e m = (e_hm_get e (fs_map s))(k := r)"
    and "\<And>a. r = Some a \<Longrightarrow> a < w_tick s \<and> (\<exists>res. fs_res s a = Some res \<and> bytes_key (res_uri res) = k) \<and> e_hm_get e (fs_map s) k \<noteq> Some a"
  shows "fs_ok e (release (e_hm_get e (fs_map s) k) (s\<lparr>fs_map := m\<rparr>))"
  unfolding fs_ok_def
proof (intro allI impI)
  fix k' a
  let ?s = "release (e_hm_get e (fs_map s) k) (s\<lparr>fs_map := m\<rparr>)"
  have m: "fs_map ?s = m" "w_tick ?s = w_tick s" by (simp_all add: release_def split: option.split)
  assume "e_hm_get e (fs_map ?s) k' = Some a"
  then have g: "(if k' = k then r else e_hm_get e (fs_map s) k') = Some a" using assms(2) m(1) by (simp split: if_splits)
  have live: "a < w_tick s \<and> (\<exists>res. fs_res s a = Some res \<and> bytes_key (res_uri res) = k') \<and> e_hm_get e (fs_map s) k \<noteq> Some a"
  proof (cases "k' = k")
    case True
    with g assms(3) show ?thesis by simp
  next
    case False
    then have "e_hm_get e (fs_map s) k' = Some a" using g by simp
    from fs_okD [OF assms(1) this] show ?thesis using False fs_okD [OF assms(1), of k a] by auto
  qed
  then have "fs_res ?s a = fs_res s a" by (auto simp: release_def split: option.split)
  then show "a < w_tick ?s \<and> (\<exists>res. fs_res ?s a = Some res \<and> bytes_key (res_uri res) = k')" using live m(2) by simp
qed

end
