(* ===== verification/Fs_Spec.thy ===== *)
theory Fs_Spec
  imports Filesys
begin

text \<open>
  Properties of resources and of the file system: which representation is found, what an
  update does, which resources a query lets pass, what is found after any sequence of
  insertions and removals, and the text of \<^verbatim>\<open>/.well-known/core\<close>.
\<close>

subsection \<open>Representations\<close>

definition acceptable :: "ec_mt list \<Rightarrow> byte list option \<Rightarrow> ec_rep \<Rightarrow> bool" where
  "acceptable mta etag rep \<longleftrightarrow>
     (mta = [] \<or> rep_media_type rep \<in> set mta) \<and> (\<forall>et. etag = Some et \<longrightarrow> rep_etag rep = take 4 et)"

lemma suitable_from_cons:
  "suitable_from mta etag i (rep # reps) = (if acceptable mta etag rep then Some i else suitable_from mta etag (i + 1) reps)"
  by (auto simp: acceptable_def ec_mt_matches_def list_ex_iff split: option.splits)

declare suitable_from.simps(2) [simp del]

lemma suitable_from_iff:
  "suitable_from mta etag k reps = Some i \<longleftrightarrow>
     (\<exists>pre rep post. reps = pre @ rep # post \<and> i = k + length pre \<and> acceptable mta etag rep \<and>
        list_all (\<lambda>r. \<not> acceptable mta etag r) pre)"
proof (induction reps arbitrary: k)
  case Nil
  then show ?case by simp
next
  case (Cons rep reps)
  show ?case
  proof (cases "acceptable mta etag rep")
    case True
    then show ?thesis by (auto simp: suitable_from_cons Cons_eq_append_conv)
  next
    case False
    then have "suitable_from mta etag k (rep # reps) = Some i \<longleftrightarrow> suitable_from mta etag (k + 1) reps = Some i"
      by (simp add: suitable_from_cons)
    also have "\<dots> \<longleftrightarrow> (\<exists>pre r post. reps = pre @ r # post \<and> i = k + 1 + length pre \<and> acceptable mta etag r \<and>
        list_all (\<lambda>r. \<not> acceptable mta etag r) pre)" by (rule Cons.IH)
    also have "\<dots> \<longleftrightarrow> (\<exists>pre r post. rep # reps = pre @ r # post \<and> i = k + length pre \<and> acceptable mta etag r \<and>
        list_all (\<lambda>r. \<not> acceptable mta etag r) pre)" (is "?l = ?r")
    proof
      assume ?l
      then obtain pre r post where "reps = pre @ r # post" "i = k + 1 + length pre" "acceptable mta etag r"
        "list_all (\<lambda>r. \<not> acceptable mta etag r) pre" by blast
      with False show ?r by (intro exI [of _ "rep # pre"] exI [of _ r] exI [of _ post]) simp
    next
      assume ?r
      then obtain pre r post where r: "rep # reps = pre @ r # post" "i = k + length pre" "acceptable mta etag r"
        "list_all (\<lambda>r. \<not> acceptable mta etag r) pre" by blast
      with False obtain pre' where "pre = rep # pre'" by (cases pre) auto
      with r show ?l by (intro exI [of _ pre'] exI [of _ r] exI [of _ post]) simp
    qed
    finally show ?thesis .
  qed
qed

lemma suitable_from_none:
  "suitable_from mta etag k reps = None \<longleftrightarrow> (\<forall>rep \<in> set reps. \<not> acceptable mta etag rep)"
  by (induction reps arbitrary: k) (auto simp: suitable_from_cons)

text \<open>Replacing a representation.\<close>

lemma drop_nth_middle: "drop_nth (length pre) (pre @ x # post) = pre @ post"
  by (simp add: drop_nth_def)

lemma get_rep_split:
  assumes "ec_resource_get_rep res mt etag = Some i"
  shows "\<exists>pre rep post. res_reps res = pre @ rep # post \<and> i = length pre \<and> acceptable (if mt = EC_MT_ANY then [] else [mt]) etag rep \<and>
    list_all (\<lambda>r. \<not> acceptable (if mt = EC_MT_ANY then [] else [mt]) etag r) pre"
  using assms unfolding ec_resource_get_rep_def ec_resource_get_suitable_rep_def suitable_from_iff by (metis add_0)

text \<open>Updating a representation either fails and leaves the resource as it was, or removes exactly the
  first representation with the given media type and ETag and appends the new one, whose fresh ETag is
  handed to the caller.\<close>

theorem update_replaces:
  assumes "ec_resource_update_rep e res data n mt etag w = (rc, res', etag', w')"
  shows "if rc = C_ERR then res' = res \<and> etag' = etag
    else \<exists>pre old post new. res_reps res = pre @ old # post \<and> acceptable (if mt = EC_MT_ANY then [] else [mt]) etag old \<and>
      list_all (\<lambda>r. \<not> acceptable (if mt = EC_MT_ANY then [] else [mt]) etag r) pre \<and> res' = res\<lparr>res_reps := pre @ post @ [new]\<rparr> \<and> rep_media_type new = mt \<and> etag' = map_option (\<lambda>_. rep_etag new) etag \<and>
      rep_etag new = e_rng_bytes e (w_tick w) 4"
proof (cases "ec_resource_get_rep res mt etag")
  case None
  then show ?thesis using assms by (simp add: ec_resource_update_rep_def)
next
  case (Some i)
  then obtain pre old post where s: "res_reps res = pre @ old # post" "i = length pre"
    "acceptable (if mt = EC_MT_ANY then [] else [mt]) etag old" "list_all (\<lambda>r. \<not> acceptable (if mt = EC_MT_ANY then [] else [mt]) etag r) pre"
    using get_rep_split by blast
  show ?thesis
  proof (cases "fst (ec_rep_new e data n mt w)")
    case None
    then have "ec_resource_add_rep e res data n mt etag w = (C_ERR, res, etag, snd (ec_rep_new e data n mt w))"
      by (cases "ec_rep_new e data n mt w") (simp add: ec_resource_add_rep_def)
    then show ?thesis using assms Some by (simp add: ec_resource_update_rep_def)
  next
    case new: (Some new)
    then have "ec_resource_add_rep e res data n mt etag w =
        (C_OK, res\<lparr>res_reps := res_reps res @ [new]\<rparr>, map_option (\<lambda>_. rep_etag new) etag, snd (ec_rep_new e data n mt w))"
      by (cases "ec_rep_new e data n mt w") (simp add: ec_resource_add_rep_def)
    then have "rc = C_OK" "res' = res\<lparr>res_reps := pre @ post @ [new]\<rparr>" "etag' = map_option (\<lambda>_. rep_etag new) etag"
      using assms Some s by (simp_all add: ec_resource_update_rep_def ec_rep_del_def drop_nth_middle)
    moreover have "rep_media_type new = mt" "rep_etag new = e_rng_bytes e (w_tick w) 4"
      using new by (auto simp: ec_rep_new_def split: option.splits if_splits)
    ultimately show ?thesis
      using s(1,3,4) by (subst if_not_P) (simp, intro exI conjI, assumption+)
  qed
qed

definition demo_rep :: ec_rep where
  "demo_rep = \<lparr>rep_media_type = 0, rep_etag = [1, 2, 3, 4], rep_data = Some [65], rep_data_sz = 1\<rparr>"

definition demo_res :: ec_res where
  "demo_res = \<lparr>res_uri = [99, 47], res_methods = 1, res_max_age = 60, res_attrs = ec_res_attrs_init, res_reps = [demo_rep]\<rparr>"

theorem update_replaces_witness:
  "\<exists>res' etag' w'. ec_resource_update_rep demo_env demo_res (Some [66]) 1 0 (Some [1, 2, 3, 4]) (ec_filesys_create ([] :: (string \<times> nat) list) True) =
     (C_OK, res', etag', w') \<and> (\<exists>new. res_reps res' = [new] \<and> etag' = Some (rep_etag new) \<and> rep_etag new = [0, 0, 0, 0])"
proof -
  define w where "w = ec_filesys_create ([] :: (string \<times> nat) list) True"
  obtain rc res' etag' w' where u: "ec_resource_update_rep demo_env demo_res (Some [66]) 1 0 (Some [1, 2, 3, 4]) w = (rc, res', etag', w')"
    using prod_cases4 by blast
  have "rc = C_OK"
    using u by (simp add: ec_resource_update_rep_def ec_resource_get_rep_def ec_resource_get_suitable_rep_def suitable_from_cons
        acceptable_def demo_res_def demo_rep_def ec_resource_add_rep_def ec_rep_new_def)
  with update_replaces [OF u] u show ?thesis
    unfolding w_def by (auto simp: demo_res_def Cons_eq_append_conv ec_filesys_create_def numeral_eq_Suc)
qed

subsection \<open>Links\<close>

lemma params_ok_all: "params_ok ex ob iface res_type ts \<longleftrightarrow> list_all (param_ok ex ob iface res_type) ts"
  by (induction ts) simp_all

text \<open>C27: A query only filters: a resource is listed with exactly the link it has without a query when it
  satisfies every parameter of the query, and is left out otherwise. Attributes are compared without
  regard to case, and parameters other than if, rt, obs and exp do not matter.\<close>

theorem query_filters:
  assumes "q \<noteq> []" and "ec_res_attrs_get_if e res = (C_OK, iface)" and "ec_res_attrs_get_rt e res = (C_OK, rt)"
    and "e_strtok e q 38 = Some ts"
  shows "ec_res_link_format_str e res origin (Some q) rel s =
    (if list_all (\<lambda>t. (starts_with str_if t \<longrightarrow> strcasecmp_eq iface (drop 3 t)) \<and> (starts_with str_rt t \<longrightarrow> strcasecmp_eq rt (drop 3 t)) \<and>
          (strcasecmp_eq t str_obs \<longrightarrow> at_obs (res_attrs res)) \<and> (strcasecmp_eq t str_exp \<longrightarrow> at_exp (res_attrs res))) ts
     then ec_res_link_format_str e res origin None rel s else None)"
proof -
  let ?ok = "list_all (\<lambda>t. (starts_with str_if t \<longrightarrow> strcasecmp_eq iface (drop 3 t)) \<and> (starts_with str_rt t \<longrightarrow> strcasecmp_eq rt (drop 3 t)) \<and>
    (strcasecmp_eq t str_obs \<longrightarrow> at_obs (res_attrs res)) \<and> (strcasecmp_eq t str_exp \<longrightarrow> at_exp (res_attrs res))) ts"
  have m: "q_match e q (at_exp (res_attrs res)) (at_obs (res_attrs res)) iface rt \<longleftrightarrow> ?ok"
    using assms(4) by (simp add: q_match_def params_ok_all list_all_iff) (auto simp: param_ok_def)
  show ?thesis
  proof (cases ?ok)
    case True
    then have "q_match e q (at_exp (res_attrs res)) (at_obs (res_attrs res)) iface rt" using m by blast
    with True assms(1-3) show ?thesis
      by (simp only: ec_res_link_format_str_def Let_def if_True) (simp cong: crc.case_cong prod.case_cong list.case_cong)
  next
    case False
    then have "\<not> q_match e q (at_exp (res_attrs res)) (at_obs (res_attrs res)) iface rt" using m by blast
    then have "ec_res_link_format_str e res origin (Some q) rel s = None"
      using assms(1-3) by (simp add: ec_res_link_format_str_def Let_def split: crc.split prod.split list.split)
    with False show ?thesis by (simp only: if_False)
  qed
qed

theorem query_filters_witness:
  "ec_res_link_format_str demo_env demo_res [99] (Some str_obs) True [] = None \<and>
   ec_res_link_format_str demo_env (ec_res_attrs_set_obs demo_res True) [99] (Some str_obs) True [] =
   ec_res_link_format_str demo_env (ec_res_attrs_set_obs demo_res True) [99] None True []"
proof -
  have a: "ec_res_attrs_get_if demo_env r = (C_OK, [])" "ec_res_attrs_get_rt demo_env r = (C_OK, [])"
    if "r = demo_res \<or> r = ec_res_attrs_set_obs demo_res True" for r
    using that by (auto simp: ec_res_attrs_get_if_def ec_res_attrs_get_rt_def demo_res_def ec_res_attrs_init_def ec_res_attrs_set_obs_def
        demo_strlcpy_def)
  have t: "\<not> starts_with str_if str_obs" "\<not> starts_with str_rt str_obs" "strcasecmp_eq str_obs str_obs" "\<not> strcasecmp_eq str_obs str_exp"
    by code_simp+
  from query_filters [OF _ a, of str_obs demo_res "[str_obs]" "[99]" True "[]"]
    query_filters [OF _ a, of str_obs "ec_res_attrs_set_obs demo_res True" "[str_obs]" "[99]" True "[]"] t
  show ?thesis by (simp add: demo_res_def ec_res_attrs_init_def ec_res_attrs_set_obs_def)
qed

subsection \<open>The file system as a store\<close>

text \<open>What the users of the file system do: create a resource and hand it over, remove one, look one up.\<close>

definition fs_insert :: "'m env \<Rightarrow> byte list \<Rightarrow> ec_res \<Rightarrow> 'm fs_st \<Rightarrow> 'm fs_st option" where
  "fs_insert e uri res s =
     (if uri \<noteq> res_uri res then None
      else case ec_filesys_put_resource e (w_tick s) ((tick s)\<lparr>fs_res := (fs_res s)(w_tick s \<mapsto> res)\<rparr>) of
        Done (C_OK, s') \<Rightarrow> Some s'
      | _ \<Rightarrow> None)"

definition fs_remove :: "'m env \<Rightarrow> byte list \<Rightarrow> 'm fs_st \<Rightarrow> 'm fs_st option" where
  "fs_remove e uri s = (case ec_filesys_del_resource e uri s of (C_OK, s') \<Rightarrow> Some s' | (C_ERR, _) \<Rightarrow> None)"

definition fs_lookup :: "'m env \<Rightarrow> byte list \<Rightarrow> 'm fs_st \<Rightarrow> ec_res option" where
  "fs_lookup e uri s = (case ec_filesys_get_resource e s uri of None \<Rightarrow> None | Some a \<Rightarrow> fs_res s a)"

lemma fs_insert_effect:
  assumes "hmap_laws e" and "fs_ok e s" and "fs_insert e uri res s = Some s'"
  shows "fs_ok e s' \<and> fs_lookup e k s' = (if uri = k then Some res else fs_lookup e k s)"
proof -
  let ?a = "w_tick s"
  let ?t = "(tick s)\<lparr>fs_res := (fs_res s)(?a \<mapsto> res)\<rparr>"
  let ?g = "e_hm_get e (fs_map s)"
  obtain m where m: "e_hm_put e (fs_map s) (bytes_key uri) ?a = Some m" "uri \<noteq> []" "uri = res_uri res"
    "s' = release (?g (bytes_key uri)) (?t\<lparr>fs_map := m\<rparr>)"
    using assms(3) by (auto simp: fs_insert_def ec_filesys_put_resource_def get_res_def tick_def split: if_splits option.splits)
  have g: "e_hm_get e m = ?g(bytes_key uri \<mapsto> ?a)" using hmap_put [OF assms(1) m(1)] .
  have fresh: "?g j \<noteq> Some ?a" for j using fs_okD [OF assms(2), of j ?a] by auto
  have t: "fs_ok e ?t" "fs_map ?t = fs_map s" "w_tick ?t = Suc ?a"
    using assms(2) fresh unfolding fs_ok_def by (auto simp: tick_def less_SucI)
  have "fs_ok e (release (e_hm_get e (fs_map ?t) (bytes_key uri)) (?t\<lparr>fs_map := m\<rparr>))"
    by (rule fs_ok_release [OF t(1)]) (use g t fresh m(3) in auto)
  then have ok: "fs_ok e s'" using m(4) t(2) by simp
  have map: "fs_map s' = m" using m(4) by (simp add: release_def split: option.split)
  have res: "fs_res s' b = fs_res s b" if "?g j = Some b" "j \<noteq> bytes_key uri" for j b
  proof -
    have "b \<noteq> ?a" using that(1) fresh by auto
    moreover have "?g (bytes_key uri) \<noteq> Some b"
      using fs_okD [OF assms(2) that(1)] fs_okD [OF assms(2), of "bytes_key uri" b] that(2) by auto
    ultimately show ?thesis using m(4) by (auto simp: release_def split: option.split)
  qed
  have new: "fs_res s' ?a = Some res" using m(4) fresh by (auto simp: release_def split: option.split)
  show ?thesis
  proof (cases "uri = k")
    case True
    then show ?thesis using ok map g new m(2) by (simp add: fs_lookup_def ec_filesys_get_resource_def)
  next
    case False
    then have "fs_lookup e k s' = fs_lookup e k s"
      using map g res [of "bytes_key k"] by (auto simp: fs_lookup_def ec_filesys_get_resource_def split: option.split)
    with False ok show ?thesis by simp
  qed
qed

lemma fs_remove_effect:
  assumes "hmap_laws e" and "fs_ok e s" and "fs_remove e uri s = Some s'"
  shows "fs_ok e s' \<and> fs_lookup e k s' = (if uri = k then None else fs_lookup e k s)"
proof -
  let ?g = "e_hm_get e (fs_map s)"
  obtain m where m: "e_hm_del e (fs_map s) (bytes_key uri) = Some m" "s' = release (?g (bytes_key uri)) (s\<lparr>fs_map := m\<rparr>)"
    using assms(3) by (auto simp: fs_remove_def ec_filesys_del_resource_def split: option.splits)
  have g: "e_hm_get e m = ?g(bytes_key uri := None)" using hmap_del [OF assms(1) m(1)] .
  have ok: "fs_ok e s'" unfolding m(2) by (rule fs_ok_release [OF assms(2) g]) simp
  have map: "fs_map s' = m" using m(2) by (simp add: release_def split: option.split)
  have res: "fs_res s' b = fs_res s b" if "?g j = Some b" "j \<noteq> bytes_key uri" for j b
  proof -
    have "?g (bytes_key uri) \<noteq> Some b"
      using fs_okD [OF assms(2) that(1)] fs_okD [OF assms(2), of "bytes_key uri" b] that(2) by auto
    then show ?thesis using m(2) by (auto simp: release_def split: option.split)
  qed
  show ?thesis using ok map g res [of "bytes_key k"] by (auto simp: fs_lookup_def ec_filesys_get_resource_def split: option.split)
qed

interpretation fs_store: keyed_store "\<lambda>s. hmap_laws e \<and> fs_ok e s" "(=)" "fs_lookup e" "fs_insert e" "fs_remove e" for e
  by unfold_locales (use fs_insert_effect fs_remove_effect in blast)+

text \<open>C25: After any sequence of insertions and removals that were accepted, a lookup by URI gives the resource
  that was inserted last under it, unless it was removed since, in which case it gives none; and no
  entry of the map points to a released resource.\<close>

theorem filesys_history:
  assumes "hmap_laws e" and "fs_ok e s" and "store_run (fs_insert e) (fs_remove e) ops s = Some s'"
  shows "fs_lookup e uri s' = latest (=) uri ops (fs_lookup e uri s) \<and> fs_ok e s'"
  using fs_store.history [OF assms(3)] fs_store.run_ok [OF assms(3)] assms(1,2) by blast

definition demo_fs :: "(string \<times> nat) list fs_st" where
  "demo_fs = ec_filesys_create [] True"

lemma demo_fs_ok: "fs_ok demo_env demo_fs"
  by (simp add: fs_ok_def demo_fs_def ec_filesys_create_def)

lemma demo_fs_insert:
  "fs_insert demo_env [99, 47] demo_res demo_fs =
     Some ((tick demo_fs)\<lparr>fs_res := [0 \<mapsto> demo_res], fs_map := [(bytes_key [99, 47], 0)]\<rparr>)"
  by (simp add: fs_insert_def ec_filesys_put_resource_def get_res_def demo_res_def demo_fs_def ec_filesys_create_def tick_def release_def)

theorem filesys_history_witness:
  "\<exists>s'. store_run (fs_insert demo_env) (fs_remove demo_env) [Put [99, 47] demo_res, Del [99, 47], Put [99, 47] demo_res] demo_fs = Some s' \<and>
     fs_lookup demo_env [99, 47] s' = Some demo_res"
proof -
  have "\<exists>s'. store_run (fs_insert demo_env) (fs_remove demo_env) [Put [99, 47] demo_res, Del [99, 47], Put [99, 47] demo_res] demo_fs = Some s'"
    by (simp add: demo_fs_insert)
      (simp add: fs_remove_def ec_filesys_del_resource_def fs_insert_def ec_filesys_put_resource_def get_res_def demo_res_def demo_fs_def
        ec_filesys_create_def tick_def release_def)
  then obtain s' where "store_run (fs_insert demo_env) (fs_remove demo_env) [Put [99, 47] demo_res, Del [99, 47], Put [99, 47] demo_res] demo_fs = Some s'"
    by blast
  with filesys_history [OF demo_env_laws(1) demo_fs_ok this, of "[99, 47]"] show ?thesis by simp
qed

text \<open>Although the comment of \<open>ec_filesys_get_rep\<close> offers EC_MT_ANY as a wildcard, the function passes it
  on as a media type: it finds nothing in a resource whose representations all have a real media type,
  where \<open>ec_resource_get_rep\<close> finds the first one.\<close>

theorem filesys_any_finds_none:
  assumes "ec_filesys_get_resource e s uri = Some a" and "fs_res s a = Some res" and "res_reps res \<noteq> []"
    and "list_all (\<lambda>rep. rep_media_type rep \<noteq> EC_MT_ANY) (res_reps res)"
  shows "ec_filesys_get_rep e s uri EC_MT_ANY None = Done None \<and> ec_resource_get_rep res EC_MT_ANY None = Some 0"
proof -
  have "ec_resource_get_suitable_rep res [EC_MT_ANY] None = None"
    using assms(4) by (auto simp: ec_resource_get_suitable_rep_def suitable_from_none acceptable_def list_all_iff)
  moreover have "ec_resource_get_rep res EC_MT_ANY None = Some 0"
    using assms(3) by (cases "res_reps res") (simp_all add: ec_resource_get_rep_def ec_resource_get_suitable_rep_def suitable_from_cons acceptable_def)
  ultimately show ?thesis using assms(1,2) by (simp add: ec_filesys_get_rep_def ec_filesys_get_suitable_rep_def get_res_def)
qed

theorem filesys_any_finds_none_witness:
  "\<exists>s'. fs_insert demo_env [99, 47] demo_res demo_fs = Some s' \<and> ec_filesys_get_rep demo_env s' [99, 47] 255 None = Done None"
  using filesys_any_finds_none [of demo_env "(tick demo_fs)\<lparr>fs_res := [0 \<mapsto> demo_res], fs_map := [(bytes_key [99, 47], 0)]\<rparr>" "[99, 47]" 0 demo_res]
  by (simp add: demo_fs_insert ec_filesys_get_resource_def) (simp add: demo_res_def demo_rep_def)

subsection \<open>The list of resources\<close>

text \<open>Documented behaviour of \<open>u_strlcat\<close> and of the iteration over a map.\<close>

definition strlcat_exact :: "'m env \<Rightarrow> bool" where
  "strlcat_exact e \<longleftrightarrow> (\<forall>dst src sz b. e_strlcat e dst src sz = (C_OK, b) \<longrightarrow> b = dst @ src)"

definition hmap_iterates :: "'m env \<Rightarrow> bool" where
  "hmap_iterates e \<longleftrightarrow> (\<forall>m. set (e_hm_vals e m) = ran (e_hm_get e m))"

lemma strlcatD: "e_strlcat e dst src sz = (C_OK, b) \<Longrightarrow> strlcat_exact e \<Longrightarrow> b = dst @ src"
  unfolding strlcat_exact_def by blast

lemma cat_all_exact: "strlcat_exact e \<Longrightarrow> cat_all e sz ss b = (C_OK, b') \<Longrightarrow> b' = b @ concat ss"
proof (induction ss arbitrary: b)
  case (Cons x ss)
  then obtain b1 where "e_strlcat e b x sz = (C_OK, b1)" "cat_all e sz ss b1 = (C_OK, b')" by (auto split: prod.splits crc.splits)
  with Cons.IH [OF Cons.prems(1), of b1] strlcatD [OF _ Cons.prems(1)] show ?case by simp
qed simp

lemma link_not_empty:
  assumes "strlcat_exact e" and "ec_res_link_format_str e res origin query rel [] = Some l"
  shows "l \<noteq> []"
proof -
  obtain ss where "cat_all e 1024 ([60] # ss) [] = (C_OK, l)"
    using assms(2)
    by (simp add: ec_res_link_format_str_def Let_def del: cat_all.simps split: if_splits crc.splits prod.splits list.splits option.splits)
  from cat_all_exact [OF assms(1) this] show ?thesis by simp
qed

text \<open>The links, separated by commas.\<close>

fun comma_separated :: "byte list list \<Rightarrow> byte list" where
  "comma_separated [] = []"
| "comma_separated [l] = l"
| "comma_separated (l # ls) = l @ [44] @ comma_separated ls"

lemma comma_separated_snoc: "comma_separated (ls @ [l]) = (if ls = [] then l else comma_separated ls @ [44] @ l)"
  by (induction ls rule: comma_separated.induct) simp_all

lemma comma_separated_Nil: "(\<forall>l \<in> set ls. l \<noteq> []) \<Longrightarrow> comma_separated ls = [] \<longleftrightarrow> ls = []"
  by (induction ls rule: comma_separated.induct) auto

definition links :: "'m env \<Rightarrow> 'm fs_st \<Rightarrow> byte list \<Rightarrow> byte list option \<Rightarrow> nat list \<Rightarrow> byte list list" where
  "links e s origin query as = List.map_filter (\<lambda>a. case fs_res s a of None \<Rightarrow> None
     | Some res \<Rightarrow> ec_res_link_format_str e res origin query (fs_rel_refs s) []) as"

lemma links_snoc:
  "links e s origin query (as @ [a]) = links e s origin query as @ links e s origin query [a]"
  by (simp add: links_def map_filter_def)

lemma links_cons:
  "links e s origin query (a # as) = links e s origin query [a] @ links e s origin query as"
  by (simp add: links_def map_filter_def)

lemma wkc_walk_links:
  assumes "strlcat_exact e" and "\<forall>a \<in> set as. fs_res s a \<noteq> None"
    and "w = comma_separated ls" and "\<forall>l \<in> set ls. l \<noteq> []"
  shows "\<exists>rc w'. wkc_walk e s origin query as w = Done (rc, w') \<and> (rc = C_OK \<longrightarrow> w' = comma_separated (ls @ links e s origin query as))"
  using assms(2-4)
proof (induction as arbitrary: w ls)
  case Nil
  then show ?case by (simp add: links_def map_filter_def)
next
  case (Cons a as)
  obtain res where r: "fs_res s a = Some res" using Cons.prems(1) by auto
  show ?case
  proof (cases "ec_res_link_format_str e res origin query (fs_rel_refs s) []")
    case None
    then have "links e s origin query (a # as) = links e s origin query as" using r by (simp add: links_def map_filter_def)
    with None r Cons show ?thesis by (simp add: get_res_def build_wkc_def)
  next
    case (Some l)
    have l: "l \<noteq> []" by (rule link_not_empty [OF assms(1) Some])
    have k: "links e s origin query (a # as) = l # links e s origin query as" using r Some by (simp add: links_def map_filter_def)
    show ?thesis
    proof (cases "build_wkc e origin query (fs_rel_refs s) res w")
      case (Pair rc w1)
      show ?thesis
      proof (cases rc)
        case C_ERR
        with Pair r show ?thesis by (simp add: get_res_def)
      next
        case C_OK
        have "w1 = comma_separated (ls @ [l])"
          using Pair C_OK Some assms(1) Cons.prems(2) comma_separated_Nil [OF Cons.prems(3)]
          by (auto simp: build_wkc_def comma_separated_snoc dest!: strlcatD split: if_splits prod.splits crc.splits)
        with Cons.IH [of w1 "ls @ [l]"] Cons.prems(1,3) l C_OK Pair r k show ?thesis by (auto simp: get_res_def)
      qed
    qed
  qed
qed

text \<open>C26: The list of resources is either refused (when it does not fit) or consists of the links of exactly the
  resources of the file system that have one for the origin and the query, separated by commas; building it
  never touches a released resource.\<close>

theorem well_known_core_lists:
  assumes "fs_ok e s" and "strlcat_exact e" and "hmap_iterates e"
  shows "\<exists>r. ec_filesys_well_known_core e s origin query = Done r \<and>
    (r = None \<or> r = Some (comma_separated (links e s origin query (e_hm_vals e (fs_map s)))))"
proof -
  have "\<forall>a \<in> set (e_hm_vals e (fs_map s)). fs_res s a \<noteq> None"
    using assms(3) fs_okD [OF assms(1)] unfolding hmap_iterates_def ran_def by fastforce
  from wkc_walk_links [OF assms(2) this, of "[]" "[]" origin query] show ?thesis
    by (auto simp: ec_filesys_well_known_core_def) (metis crc.exhaust)
qed

lemma demo_env_iterates: "hmap_iterates demo_env"
proof -
  have "(\<lambda>k. the (map_of m k)) ` fst ` set m = ran (map_of m)" for m :: "(string \<times> nat) list"
    unfolding ran_def by (force simp: dom_map_of_conv_image_fst [symmetric] domIff)
  then show ?thesis by (simp add: hmap_iterates_def)
qed

lemma demo_env_strlcat: "strlcat_exact demo_env"
  by (simp add: strlcat_exact_def demo_strlcpy_def)

theorem well_known_core_lists_witness:
  "\<exists>s' r. fs_insert demo_env [99, 47] demo_res demo_fs = Some s' \<and> ec_filesys_well_known_core demo_env s' [99] None = Done r \<and>
     (r = None \<or> r = Some (comma_separated (links demo_env s' [99] None [0])))"
proof -
  let ?s = "(tick demo_fs)\<lparr>fs_res := [0 \<mapsto> demo_res], fs_map := [(bytes_key [99, 47], 0)]\<rparr>"
  have i: "fs_insert demo_env [99, 47] demo_res demo_fs = Some ?s" by (rule demo_fs_insert)
  have ok: "fs_ok demo_env ?s" using fs_insert_effect [OF demo_env_laws(1) demo_fs_ok i] by blast
  from well_known_core_lists [OF ok demo_env_strlcat demo_env_iterates, of "[99]" None] i show ?thesis by simp
qed

end
