(* ===== verification/Res_Spec.thy ===== *)
theory Res_Spec
  imports Fs_Spec
begin

text \<open>
  The types of resources: what the fixed-size arrays of a resource and of its representations
  hold, for every resource that the calls of \<open>evcoap_resource.h\<close> can build.
\<close>

subsection \<open>Well-typed resources\<close>

definition rep_typed :: "ec_rep \<Rightarrow> bool" where
  "rep_typed rep \<longleftrightarrow> length (rep_etag rep) = EC_ETAG_SZ \<and>
     (case rep_data rep of None \<Rightarrow> rep_data_sz rep = 0 | Some d \<Rightarrow> 0 < rep_data_sz rep \<and> length d = rep_data_sz rep)"

definition res_typed :: "ec_res \<Rightarrow> bool" where
  "res_typed res \<longleftrightarrow> length (res_uri res) < EC_URI_MAX \<and> EC_IS_METHOD_MASK (res_methods res) \<and> res_max_age res \<noteq> 0 \<and>
     length (at_interface (res_attrs res)) < EC_RES_ATTR_MAX \<and> length (at_res_type (res_attrs res)) < EC_RES_ATTR_MAX \<and>
     list_all rep_typed (res_reps res)"

text \<open>The functions of libu that fill these arrays.\<close>

definition fills_exactly :: "'m env \<Rightarrow> bool" where
  "fills_exactly e \<longleftrightarrow>
     (\<forall>s n. 0 < n \<longrightarrow> length (snd (e_strlcpy e s n)) < n) \<and>
     (\<forall>t n. length (e_rng_bytes e t n) = n) \<and>
     (\<forall>d n d'. n \<le> length d \<longrightarrow> e_memdup e (Some d) n = Some d' \<longrightarrow> length d' = n)"

lemma fills_exactlyD:
  assumes "fills_exactly e"
  shows "0 < n \<Longrightarrow> e_strlcpy e s n = (rc, b) \<Longrightarrow> length b < n" and "length (e_rng_bytes e t n) = n"
    and "n \<le> length d \<Longrightarrow> e_memdup e (Some d) n = Some d' \<Longrightarrow> length d' = n"
  using assms unfolding fills_exactly_def by (metis snd_conv, blast, blast)

text \<open>The resources that sequences of calls build; data is as long as its size says.\<close>

inductive res_built :: "'m env \<Rightarrow> ec_res \<Rightarrow> bool" for e :: "'m env" where
  built_new: "ec_resource_new e uri methods max_age = Some res \<Longrightarrow> res_built e res"
| built_add: "res_built e res \<Longrightarrow> (\<And>d. data = Some d \<Longrightarrow> n \<le> length d) \<Longrightarrow>
    ec_resource_add_rep e res data n mt etag (w :: world) = (rc, res', etag', w') \<Longrightarrow> res_built e res'"
| built_update: "res_built e res \<Longrightarrow> (\<And>d. data = Some d \<Longrightarrow> n \<le> length d) \<Longrightarrow>
    ec_resource_update_rep e res data n mt etag (w :: world) = (rc, res', etag', w') \<Longrightarrow> res_built e res'"
| built_del: "res_built e res \<Longrightarrow> res_built e (ec_rep_del res i)"
| built_obs: "res_built e res \<Longrightarrow> res_built e (ec_res_attrs_set_obs res b)"
| built_exp: "res_built e res \<Longrightarrow> res_built e (ec_res_attrs_set_exp res b)"
| built_if: "res_built e res \<Longrightarrow> res_built e (snd (ec_res_attrs_set_if e res v))"
| built_rt: "res_built e res \<Longrightarrow> res_built e (snd (ec_res_attrs_set_rt e res v))"

inductive_cases res_builtE: "res_built e res"

subsection \<open>Every call keeps the types\<close>

lemma rep_new_typed:
  assumes "fills_exactly e" and "\<And>d. data = Some d \<Longrightarrow> n \<le> length d" and "ec_rep_new e data n mt w = (Some rep, w')"
  shows "rep_typed rep"
  using assms(2,3) fills_exactlyD(2,3) [OF assms(1)]
  by (cases data) (auto simp: ec_rep_new_def rep_typed_def split: if_splits option.splits)

lemma new_typed:
  assumes "fills_exactly e" and "ec_resource_new e uri methods max_age = Some res"
  shows "res_typed res \<and> res_reps res = []"
  using assms(2) fills_exactlyD(1) [OF assms(1), of EC_URI_MAX uri]
  by (auto simp: ec_resource_new_def res_typed_def ec_res_attrs_init_def split: if_splits prod.splits crc.splits)

lemma add_rep_typed:
  assumes "fills_exactly e" and "res_typed res" and "\<And>d. data = Some d \<Longrightarrow> n \<le> length d"
    and "ec_resource_add_rep e res data n mt etag w = (rc, res', etag', w')"
  shows "res_typed res'"
proof (cases "ec_rep_new e data n mt w")
  case (Pair r w1)
  with assms(4,2) rep_new_typed [OF assms(1,3)] show ?thesis
    by (cases r) (auto simp: ec_resource_add_rep_def res_typed_def)
qed

lemma rep_del_typed: "res_typed res \<Longrightarrow> res_typed (ec_rep_del res i)"
  by (auto simp: res_typed_def ec_rep_del_def drop_nth_def list_all_iff dest: in_set_takeD in_set_dropD)

lemma update_rep_typed:
  assumes "fills_exactly e" and "res_typed res" and "\<And>d. data = Some d \<Longrightarrow> n \<le> length d"
    and "ec_resource_update_rep e res data n mt etag w = (rc, res', etag', w')"
  shows "res_typed res'"
proof (cases "ec_resource_get_rep res mt etag")
  case None
  with assms(2,4) show ?thesis by (simp add: ec_resource_update_rep_def)
next
  case (Some i)
  obtain rc1 res1 etag1 w1 where a: "ec_resource_add_rep e res data n mt etag w = (rc1, res1, etag1, w1)" by (metis prod_cases4)
  from add_rep_typed [OF assms(1-3) a] rep_del_typed [of res1 i] Some a assms(4) show ?thesis
    by (cases rc1) (auto simp: ec_resource_update_rep_def)
qed

lemma attrs_typed:
  assumes "fills_exactly e" and "res_typed res"
  shows "res_typed (ec_res_attrs_set_obs res b)" "res_typed (ec_res_attrs_set_exp res b)"
    "res_typed (snd (ec_res_attrs_set_if e res v))" "res_typed (snd (ec_res_attrs_set_rt e res v))"
  using assms(2) fills_exactlyD(1) [OF assms(1), of EC_RES_ATTR_MAX v]
  by (auto simp: res_typed_def ec_res_attrs_set_obs_def ec_res_attrs_set_exp_def ec_res_attrs_set_if_def
      ec_res_attrs_set_rt_def split: prod.split)

text \<open>C24: Every resource that the library can build keeps its types: the URI and both string attributes fit
  their arrays with the terminator, the method mask is one of the 15 valid ones, Max-Age is not zero, and
  every representation has a 4-byte ETag and exactly as many bytes of data as its size says, or none; so
  a representation that a lookup by media type and ETag finds is one of them, of that media type.\<close>

theorem resources_typed:
  assumes "res_built e res" and "fills_exactly e"
  shows "res_typed res \<and>
    (\<forall>mt etag i. ec_resource_get_rep res mt etag = Some i \<longrightarrow>
       i < length (res_reps res) \<and> rep_typed (res_reps res ! i) \<and> (mt = EC_MT_ANY \<or> rep_media_type (res_reps res ! i) = mt))"
proof
  show t: "res_typed res"
    using assms(1)
  proof (induction rule: res_built.induct)
    case (built_new uri methods max_age res)
    then show ?case using new_typed [OF assms(2)] by simp
  next
    case (built_add res data n mt etag w rc res' etag' w')
    show ?case by (rule add_rep_typed [OF assms(2) built_add(4) built_add(2,3)])
  next
    case (built_update res data n mt etag w rc res' etag' w')
    show ?case by (rule update_rep_typed [OF assms(2) built_update(4) built_update(2,3)])
  qed (use rep_del_typed attrs_typed [OF assms(2)] in simp_all)
  show "\<forall>mt etag i. ec_resource_get_rep res mt etag = Some i \<longrightarrow>
       i < length (res_reps res) \<and> rep_typed (res_reps res ! i) \<and> (mt = EC_MT_ANY \<or> rep_media_type (res_reps res ! i) = mt)"
  proof (intro allI impI)
    fix mt etag i
    assume "ec_resource_get_rep res mt etag = Some i"
    from get_rep_split [OF this] obtain pre rep post where "res_reps res = pre @ rep # post" "i = length pre"
      "acceptable (if mt = EC_MT_ANY then [] else [mt]) etag rep" by blast
    with t show "i < length (res_reps res) \<and> rep_typed (res_reps res ! i) \<and> (mt = EC_MT_ANY \<or> rep_media_type (res_reps res ! i) = mt)"
      by (auto simp: res_typed_def acceptable_def split: if_splits)
  qed
qed

lemma demo_fills: "fills_exactly demo_env"
  by (simp add: fills_exactly_def demo_strlcpy_def)

theorem resources_typed_witness:
  "\<exists>res. ec_resource_new demo_env [99, 47] 1 0 = Some res \<and>
     (\<exists>res' etag' w'. ec_resource_add_rep demo_env res (Some [65, 66]) 2 0 None (\<lparr>w_tick = 5, w_sent = []\<rparr> :: world) = (C_OK, res', etag', w') \<and>
       res_typed res' \<and> ec_resource_get_rep res' 0 None = Some 0 \<and> rep_typed (res_reps res' ! 0))"
proof -
  define w :: world where "w = \<lparr>w_tick = 5, w_sent = []\<rparr>"
  obtain res where r: "ec_resource_new demo_env [99, 47] 1 0 = Some res" "res_reps res = []"
    by (simp add: ec_resource_new_def EC_IS_METHOD_MASK_def demo_strlcpy_def)
  obtain res' etag' w' where a: "ec_resource_add_rep demo_env res (Some [65, 66]) 2 0 None w = (C_OK, res', etag', w')"
    "length (res_reps res') = 1" "rep_media_type (hd (res_reps res')) = 0"
    using r(2) by (simp add: ec_resource_add_rep_def ec_rep_new_def)
  have "res_built demo_env res'" by (rule built_add [OF built_new [OF r(1)] _ a(1)]) simp
  note t = resources_typed [OF this demo_fills]
  obtain rep where p: "res_reps res' = [rep]" "rep_media_type rep = 0" using a(2,3) by (cases "res_reps res'") auto
  then have "ec_resource_get_rep res' 0 None = Some 0"
    by (simp add: ec_resource_get_rep_def ec_resource_get_suitable_rep_def suitable_from_cons acceptable_def)
  with t r(1) a(1) show ?thesis unfolding w_def by blast
qed

end
