(* ===== verification/Sys_Frame.thy ===== *)
theory Sys_Frame
  imports Cli_Reach
begin

text \<open>
  Frame lemmas for the composition of the two engines: no operation of the server, of the
  observations or of the layers below them touches a client, the configuration or the
  registered callbacks, whatever the state it starts from.
\<close>

subsection \<open>Server steps\<close>

definition srv_step :: "('m, 'z) srv_st_scheme \<Rightarrow> ('m, 'z) srv_st_scheme \<Rightarrow> bool" where
  "srv_step s s' \<longleftrightarrow> w_tick s \<le> w_tick s' \<and> resources s' = resources s \<and> fallback s' = fallback s \<and> s_cfg s' = s_cfg s \<and>
     srv_st.more s' = srv_st.more s"

lemma srv_step_refl [simp]: "srv_step s s"
  by (simp add: srv_step_def)

lemma srv_step_trans: "srv_step a b \<Longrightarrow> srv_step b c \<Longrightarrow> srv_step a c"
  by (simp add: srv_step_def)

lemma obs_srv_step:
  assumes "srv_step s0 s" and "obs_step s s'" shows "srv_step s0 s'"
proof -
  obtain t w m r n l h where s': "s' = s\<lparr>w_tick := t, w_sent := w, d_map := m, d_recvd := r, d_next := n, ob_list := l, ob_heap := h\<rparr>"
    and "w_tick s \<le> w_tick s'" using assms(2) unfolding obs_step_def by blast
  then show ?thesis using assms(1) by (simp add: srv_step_def)
qed

lemma base_srv_step: "srv_step s0 s \<Longrightarrow> base_step s s' \<Longrightarrow> srv_step s0 s'"
  by (rule obs_srv_step [OF _ base_obs_step])

lemma ticked_srv_step: "srv_step s0 s \<Longrightarrow> ticked s s' \<Longrightarrow> srv_step s0 s'"
  by (rule base_srv_step [OF _ ticked_base_step])

lemma srv_step_upd [simp]:
  "srv_step s0 (s\<lparr>sv_heap := h\<rparr>) = srv_step s0 s" "srv_step s0 (s\<lparr>sv_list := l\<rparr>) = srv_step s0 s"
  "srv_step s0 (s\<lparr>sv_packs := p\<rparr>) = srv_step s0 s" "srv_step s0 (put_srv a srv s) = srv_step s0 s"
  "srv_step s0 (ec_server_free a srv s) = srv_step s0 s" "srv_step s0 (ec_server_add a srv s) = srv_step s0 s"
  by (simp_all add: srv_step_def put_srv_def ec_server_free_def ec_server_add_def)

text \<open>Calls one after the other, with the states they pass on.\<close>

abbreviation frames :: "('m, 'z) srv_st_scheme \<Rightarrow> ('a \<times> ('m, 'z) srv_st_scheme) run \<Rightarrow> bool" where
  "frames s0 c \<equiv> post UNIV (\<lambda>(_, s). srv_step s0 s) c"

abbreviation frames1 :: "('m, 'z) srv_st_scheme \<Rightarrow> ('m, 'z) srv_st_scheme run \<Rightarrow> bool" where
  "frames1 s0 c \<equiv> post UNIV (srv_step s0) c"

lemma frames_bind: "frames s0 c \<Longrightarrow> (\<And>r s. srv_step s0 s \<Longrightarrow> post UNIV Q (f r s)) \<Longrightarrow> post UNIV Q (run_bind c (\<lambda>(r, s). f r s))"
  by (cases c) auto

lemma frames1_bind: "frames1 s0 c \<Longrightarrow> (\<And>s. srv_step s0 s \<Longrightarrow> post UNIV Q (f s)) \<Longrightarrow> post UNIV Q (run_bind c f)"
  by (cases c) auto

lemma get_bind: "(\<And>srv. post UNIV Q (f srv)) \<Longrightarrow> post UNIV Q (run_bind (get_srv a s) f)"
  by (cases "get_srv a s") auto

lemma any_bind: "(\<And>x. post UNIV Q (f x)) \<Longrightarrow> post UNIV Q (run_bind m f)"
  by (cases m) auto

subsection \<open>The layers below\<close>

lemma frame_update: "post UNIV (\<lambda>(_, s'). base_step s s') (ec_recvd_pdu_update e a h opts n p pn s)"
  by (auto simp: ec_recvd_pdu_update_def base_step_def split: option.split)

lemma frame_send: "post UNIV (\<lambda>(_, s'). base_step s s') (ec_pdu_send e pdu flow d s)"
proof -
  let ?o = "p_opts pdu" and ?peer = "ec_pdu_get_peer pdu flow"
  obtain rc b where n: "ec_net_send e (p_hdr pdu) (Some (enc ?o)) (enc_sz ?o) (p_payload pdu) (p_payload_sz pdu)
    (c_socket (f_conn flow)) ?peer s = (rc, b)" by fastforce
  note st = base_step_send [OF n]
  have "post UNIV (\<lambda>(_, s'). base_step s s') (run_bind (ec_recvd_pdu_update e k (p_hdr pdu) (enc ?o) (enc_sz ?o)
      (p_payload pdu) (p_payload_sz pdu) b) (\<lambda>(_, b). Done (rc, b)))" for k
    by (rule post_cong_bind [OF frame_update]) (auto intro: base_step_trans [OF st])
  then show ?thesis using st by (auto simp: ec_pdu_send_def Let_def n split: option.split)
qed

lemma obs_step_more: "obs_step s s' \<longleftrightarrow> w_tick s \<le> w_tick s' \<and> obs_st.more s' = obs_st.more s"
  unfolding obs_step_def by (cases s, cases s') simp

lemma obs_step_upd [simp]:
  "obs_step s (set_obs a ob s') = obs_step s s'" "obs_step s (s'\<lparr>ob_list := l\<rparr>) = obs_step s s'"
  "obs_step s (ec_observation_free a s') = obs_step s s'"
  by (simp_all add: obs_step_more set_obs_def ec_observation_free_def)

lemma obs_step_tick [simp]: "obs_step s s' \<Longrightarrow> obs_step s (tick s')"
  by (simp add: obs_step_more tick_def)

abbreviation ob_frames :: "('m, 'z) obs_st_scheme \<Rightarrow> ('a \<times> ('m, 'z) obs_st_scheme) run \<Rightarrow> bool" where
  "ob_frames s0 c \<equiv> post UNIV (\<lambda>(_, s). obs_step s0 s) c"

lemma ob_frames_bind: "ob_frames s0 c \<Longrightarrow> (\<And>r s. obs_step s0 s \<Longrightarrow> post UNIV Q (f r s)) \<Longrightarrow> post UNIV Q (run_bind c (\<lambda>(r, s). f r s))"
  by (cases c) auto

lemma frame_observer_add:
  "obs_step s0 s \<Longrightarrow> ob_frames s0 (ec_observer_add a tok n et m mt mm conn cb s)"
  unfolding ec_observer_add_def by (rule any_bind) (auto split: option.split)

lemma frame_observer_remove:
  "obs_step s0 s \<Longrightarrow> post UNIV (\<lambda>(s', _). obs_step s0 s') (ec_observer_remove a i s)"
  by (auto simp: ec_observer_remove_def Let_def split: option.split)

lemma frame_countdown: "obs_step s0 s \<Longrightarrow> ob_frames s0 (ec_observation_start_countdown e a s)"
  by (auto simp: ec_observation_start_countdown_def split: option.split)

lemma frame_observation_add:
  assumes "obs_step s0 s" shows "ob_frames s0 (ec_observation_add e uri ma s)"
proof -
  obtain r s1 where n: "ec_observation_new e uri ma s = (r, s1)" by fastforce
  then have "obs_step s0 s1" using assms by (auto simp: ec_observation_new_def split: prod.splits crc.splits if_splits)
  then show ?thesis
    by (auto simp: ec_observation_add_def n simp del: post_bind intro!: ob_frames_bind [OF frame_countdown] split: option.split)
qed

lemma frame_add_observer:
  assumes "obs_step s0 s" shows "ob_frames s0 (ec_add_observer e flow cb ma mt mm et l s)"
  unfolding ec_add_observer_def
  by (rule any_bind) (use assms in \<open>auto simp del: post_bind intro!: ob_frames_bind [OF frame_observation_add]
      ob_frames_bind [OF frame_observer_add] frame_observer_add split: option.split\<close>)

lemma frame_removed:
  assumes "obs_step s0 s" shows "ob_frames s0 (run_bind (ec_observer_remove a i s) (\<lambda>(s, _). Done (r, s)))"
  by (rule post_cong_bind [OF frame_observer_remove [OF assms]]) auto

lemma frame_rem_observer: "obs_step s0 s \<Longrightarrow> ob_frames s0 (ec_rem_observer flow s)"
  unfolding ec_rem_observer_def by (rule any_bind) (auto simp del: post_bind intro!: frame_removed split: option.split)

lemma frame_canceled_by_rst: "obs_step s0 s \<Longrightarrow> ob_frames s0 (ec_observe_canceled_by_rst conn mid s)"
  unfolding ec_observe_canceled_by_rst_def by (rule any_bind) (auto simp del: post_bind intro!: frame_removed split: option.split)

lemma frame_canceled_by_get: "obs_step s0 s \<Longrightarrow> ob_frames s0 (ec_observe_canceled_by_get flow s)"
  unfolding ec_observe_canceled_by_get_def
  by (auto simp del: post_bind intro!: any_bind frame_removed split: option.split)

lemma obs_step_ticked: "obs_step s0 s \<Longrightarrow> ticked s s' \<Longrightarrow> obs_step s0 s'"
  by (rule obs_step_trans [OF _ base_obs_step [OF ticked_base_step]])

lemma frame_send_bind:
  assumes "obs_step s0 s" and "\<And>rc s. obs_step s0 s \<Longrightarrow> post UNIV Q (k rc s)"
  shows "post UNIV Q (run_bind (ec_pdu_send e p f d s) (\<lambda>(rc, s). k rc s))"
  by (rule post_cong_bind [OF frame_send]) (auto intro!: assms(2) intro: obs_step_trans [OF assms(1) base_obs_step])

lemma frame_notify_one:
  assumes "obs_step s0 s"
  shows "post UNIV (\<lambda>(_, _, _, s'). obs_step s0 s') (notify_one e c uri ovr s)"
proof -
  obtain nfy s1 where n: "ec_pdu_new_empty s = (nfy, s1)" by fastforce
  note s1 = obs_step_ticked [OF assms ticked_new_empty [OF n]]
  then show ?thesis
    by (auto simp: notify_one_def Let_def n simp del: post_bind split: option.split prod.split crc.split
        intro!: frame_send_bind dest!: obs_step_ticked [OF s1 ticked_encode_separate])
qed

lemma frame_notify_all:
  "obs_step s0 s \<Longrightarrow> post UNIV (\<lambda>(_, _, s'). obs_step s0 s') (notify_all e c uri acc ovrs s)"
proof (induction ovrs arbitrary: acc s)
  case (Cons ovr ovrs)
  show ?case
    unfolding notify_all.simps
    by (rule post_cong_bind [OF frame_notify_one [OF Cons.prems]]) (auto intro!: Cons.IH)
qed simp

lemma frame_ob_cb: assumes "obs_step s0 s" shows "post UNIV (obs_step s0) (ec_ob_cb e a s)"
proof (cases "ob_heap s a")
  case (Some ob)
  let ?s = "set_obs a (Some (ob\<lparr>ob_notify_pending := False\<rparr>)) s"
  have t: "obs_step s0 (tick ?s)" using assms by simp
  have c: "post UNIV (obs_step s0) (run_bind (ec_observation_start_countdown e a s') (\<lambda>(_, s). Done s))" if "obs_step s0 s'" for s'
    by (rule ob_frames_bind [OF frame_countdown [OF that]]) simp
  have "post UNIV (obs_step s0) (run_bind (notify_all e o_cnt (ob_uri ob) [] (ob_observers ob) (tick ?s)) (\<lambda>(rc, ovrs, s).
                   let s = set_obs a (Some (ob\<lparr>ob_notify_pending := False, ob_observers := ovrs\<rparr>)) s
                   in if rc = C_ERR then Done s
                      else let drained = (e_junk16 e (w_tick s) \<noteq> 0)
                           in if \<not> drained then
                                run_bind (ec_observation_start_countdown e a s) (\<lambda>(_, s). Done s)
                              else Done s))" for o_cnt
    by (rule post_cong_bind [OF frame_notify_all [OF t]]) (auto simp: Let_def simp del: post_bind intro!: c)
  then show ?thesis using t by (simp add: ec_ob_cb_def Some ec_get_observe_counter_def Let_def split: option.split del: post_bind)
qed (simp add: ec_ob_cb_def)


subsection \<open>The server\<close>

lemma obs_srv_frames: "srv_step s0 s \<Longrightarrow> ob_frames s c \<Longrightarrow> frames s0 c"
  by (cases c) (auto intro: obs_srv_step)

lemma frame_srv_send: "srv_step s0 s \<Longrightarrow> frames s0 (ec_pdu_send e p f d s)"
  by (rule post_mono [OF frame_send]) (auto intro: base_srv_step)

lemma frame_set_state:
  assumes "srv_step s0 s" shows "frames1 s0 (ec_server_set_state e a st s)"
proof -
  have "post UNIV (\<lambda>(_, s'). ticked s s') (srv_state_timers e st srv s)" for srv
  proof -
    have "post UNIV (\<lambda>(_, _, s'). ticked s s') (ec_srv_restart_coap_timer e srv s)"
      by (auto simp: ec_srv_restart_coap_timer_def Let_def intro!: post_cases dest!: ticked_timer_restart)
    then show ?thesis
      by (auto simp: srv_state_timers_def split: prod.split elim!: post_mono dest!: timer_start_srv)
  qed
  then have "frames s0 (srv_state_timers e st srv s)" for srv
    by (rule post_mono) (auto intro: ticked_srv_step [OF assms])
  then show ?thesis
    by (auto simp: ec_server_set_state_def Let_def simp del: post_bind intro!: get_bind frames_bind)
qed

lemma frame_send_resp: assumes "srv_step s0 s" shows "frames s0 (ec_server_send_resp e a s)"
  unfolding ec_server_send_resp_def
  by (rule get_bind) (auto simp: Let_def intro: assms split: option.split prod.split crc.split
      intro!: frame_srv_send dest!: ticked_srv_step [OF assms ticked_encode_resp])

lemma frame_separate_ack:
  assumes "srv_step s0 s" shows "frames s0 (ec_server_send_separate_ack e a s)"
proof -
  obtain ack s1 where n: "ec_pdu_new_empty s = (ack, s1)" by fastforce
  have "srv_step s0 s1" by (rule ticked_srv_step [OF assms ticked_new_empty [OF n]])
  then show ?thesis
    using assms unfolding ec_server_send_separate_ack_def
    by (auto simp: n simp del: post_bind intro!: get_bind frames_bind [OF frame_srv_send] split: option.split prod.split crc.split)
qed

lemma frame_reply: "srv_step s0 s \<Longrightarrow> frames s0 (ec_server_reply e a c pl n s)"
  unfolding ec_server_reply_def
  by (rule get_bind) (auto simp: Let_def split: option.split prod.split crc.split intro!: frame_send_resp)

lemma frame_ready: "srv_step s0 s \<Longrightarrow> frames s0 (ec_server_ready e a c s)"
  unfolding ec_server_ready_def
  by (auto simp del: post_bind intro!: get_bind frames_bind [OF frame_send_resp] frames1_bind [OF frame_set_state])

lemma frame_wakeup: "srv_step s0 s \<Longrightarrow> frames s0 (ec_server_wakeup e a s)"
  unfolding ec_server_wakeup_def by (rule get_bind) (auto split: option.split intro!: frame_ready)

lemma frame_user_call: "srv_step s0 s \<Longrightarrow> frames1 s0 (apply_user_call e a c s)"
  unfolding apply_user_call_def
  by (rule get_bind) (auto simp del: post_bind split: user_call.split
      intro!: frames_bind [OF obs_srv_frames [OF _ frame_add_observer [OF obs_step_refl]]] frames_bind [OF obs_srv_frames [OF _ frame_rem_observer [OF obs_step_refl]]])

lemma frame_user_calls: "srv_step s0 s \<Longrightarrow> frames1 s0 (apply_user_calls e a cs s)"
  by (induction cs arbitrary: s) (auto simp del: post_bind intro!: frames1_bind [OF frame_user_call])

lemma frame_reschedule:
  assumes "srv_step s0 s" shows "frames s0 (ec_server_reschedule_userfn e f a tv s)"
  unfolding ec_server_reschedule_userfn_def
  by (rule get_bind) (auto simp: Let_def split: prod.split dest!: ticked_srv_step [OF assms ticked_timer_start])

lemma frame_wait: assumes "srv_step s0 s" shows "frames s0 (srv_wait e f a c x tv s)"
proof -
  have "frames s0 (if c then ec_server_send_separate_ack e a s else Done (C_OK, s))" using assms by (auto intro: frame_separate_ack)
  moreover have "frames s0 (if x then ec_server_reschedule_userfn e f a tv s' else Done (C_OK, s'))" if "srv_step s0 s'" for x s'
    using that by (auto intro: frame_reschedule)
  ultimately show ?thesis
    unfolding srv_wait_def
    by (auto simp: Let_def simp del: post_bind intro!: get_bind frames_bind frame_reschedule frames1_bind [OF frame_set_state])
qed

lemma frame_userfn: "srv_step s0 s \<Longrightarrow> frames s0 (ec_server_userfn e a f r s)"
  unfolding ec_server_userfn_def
  by (rule get_bind) (auto simp del: post_bind split: option.split prod.split ec_cbrc.split
      intro!: frames1_bind [OF frame_user_calls] get_bind frame_wait frame_ready)

lemma frame_resched: "srv_step s0 s \<Longrightarrow> frames1 s0 (resched_userfn e p s)"
  unfolding resched_userfn_def
  by (rule frames_bind [OF frame_userfn]) (auto intro!: frame_set_state)

lemma frame_timeout: "srv_step s0 s \<Longrightarrow> frames1 s0 (ec_srv_coap_timeout e a s)"
  unfolding ec_srv_coap_timeout_def
  by (auto simp del: post_bind intro!: get_bind frame_set_state frames1_bind [OF frame_set_state] frames_bind [OF frame_send_resp])

lemma frame_timer_fires: "srv_step s0 s \<Longrightarrow> frames1 s0 (srv_timer_fires e a s)"
  unfolding srv_timer_fires_def by (rule get_bind) (simp add: frame_timeout)


subsection \<open>Receiving\<close>

lemma frame_fail: "srv_step s0 s \<Longrightarrow> frames s0 (srv_fail e a rc s)"
  unfolding srv_fail_def
  by (rule frames_bind [OF frame_reply]) (auto simp del: post_bind intro!: frames1_bind [OF frame_set_state])

lemma frame_dispatch: "srv_step s0 s \<Longrightarrow> frames s0 (srv_dispatch e a s)"
  unfolding srv_dispatch_def
  by (auto simp del: post_bind split: option.split
      intro!: get_bind frames_bind [OF obs_srv_frames [OF _ frame_canceled_by_get [OF obs_step_refl]]] frames_bind [OF frame_userfn]
        frames_bind [OF frame_reply] frames1_bind [OF frame_set_state] frame_fail)

lemma frame_new_response: "srv_step s0 s \<Longrightarrow> ec_server_new_response srv s = (rc, srv', s') \<Longrightarrow> srv_step s0 s'"
  by (auto simp: ec_server_new_response_def split: if_splits prod.splits dest: ticked_srv_step [OF _ ticked_new_empty])

lemma frame_request: assumes "srv_step s0 s" shows "frames s0 (srv_request e a pdu raw n s)"
proof -
  have set: "frames s0 (run_bind (ec_server_set_state e a EC_SRV_STATE_REQ_OK s) (srv_dispatch e a))" if "srv_step s0 s" for s
    by (rule frames1_bind [OF frame_set_state [OF that]]) (rule frame_dispatch)
  have url: "frames s0 (case ec_opts_compose_url e o' us True of (u, is_px) \<Rightarrow>
      (case ec_flow_save_url e flow u is_px of
         (C_ERR, flow) \<Rightarrow> srv_fail e a EC_RC_UNSET (put_srv a (srv\<lparr>sv_flow := flow\<rparr>) s)
       | (C_OK, flow) \<Rightarrow>
           (case ec_server_new_response (srv\<lparr>sv_flow := flow, sv_req := Some p\<rparr>) s of
              (C_ERR, srv, s) \<Rightarrow> srv_fail e a EC_RC_UNSET (put_srv a srv s)
            | (C_OK, srv, s) \<Rightarrow>
                run_bind (ec_server_set_state e a EC_SRV_STATE_REQ_OK (put_srv a srv s)) (srv_dispatch e a))))"
    for o' us flow srv p
    using assms
    by (auto simp del: post_bind split: prod.split crc.split intro!: frame_fail set dest!: frame_new_response [OF assms])
  have payload: "post UNIV Q (run_bind (srv_payload e p raw n ol) f)" if "\<And>x. post UNIV Q (f x)" for Q p ol f
    using that by (rule any_bind)
  have token: "post UNIV Q (run_bind (case_option m g t) f)" if "\<And>x. post UNIV Q (f x)" for Q m g t f
    using that by (rule any_bind)
  have methods: "post UNIV Q (case m of (C_ERR, x) \<Rightarrow> f x | (C_OK, x) \<Rightarrow> g x)"
    if "\<And>x. post UNIV Q (f x)" "\<And>x. post UNIV Q (g x)" for Q and m :: "crc \<times> ec_flow" and f g
    using that by (auto split: prod.split crc.split)
  have failed: "frames s0 (srv_fail e a rc s)" for rc using assms by (rule frame_fail)
  have body: "frames s0 (if rc \<noteq> 0 then srv_fail e a rc s else run_bind (srv_payload e p raw n olen) (\<lambda>pdu.
         run_bind (get_srv a s) (\<lambda>srv. f pdu srv)))" if "\<And>pdu srv. frames s0 (f pdu srv)" for rc p olen f
    using that by (auto simp del: post_bind intro!: failed payload get_bind)
  show ?thesis
    unfolding srv_request_def Let_def
  proof (rule any_bind, goal_cases)
    case (1 x)
    obtain rc opts olen where x: "x = (rc, opts, olen)" by (rule prod_cases3)
    show ?case unfolding x prod.case by (rule body) (intro methods failed token url)
  qed
qed

lemma frame_control_lookup: "srv_step s0 s \<Longrightarrow> frames s0 (srv_control_lookup e pdu sd peer s)"
  unfolding srv_control_lookup_def by (rule any_bind) (auto split: option.split)

lemma frame_control_message:
  assumes "srv_step s0 s" shows "frames s0 (srv_control_message e pdu sd peer s)"
  using assms frame_control_lookup [OF assms]
  by (auto simp: srv_control_message_def simp del: post_bind split: prod.split crc.split
      intro!: frames_bind [OF obs_srv_frames [OF _ frame_canceled_by_rst [OF obs_step_refl]]] frame_control_lookup
      dest!: ticked_srv_step [OF assms ticked_save_us])

lemma frame_climsg: "srv_step s0 s \<Longrightarrow> frames s0 (ec_dups_handle_incoming_climsg e mid sd ss s)"
  by (rule post_cases) (auto dest!: base_step_incoming intro: base_srv_step)

lemma frame_new_server: "srv_step s0 s \<Longrightarrow> ec_server_new s = (a, s') \<Longrightarrow> srv_step s0 s'"
  by (auto simp: ec_server_new_def intro: ticked_srv_step [OF _ ticked_tick])

lemma frame_find: assumes "srv_step s0 s" shows "frames s0 (srv_find e raw n sd peer s)"
proof -
  obtain pdu s1 where p: "ec_pdu_new_empty s = (pdu, s1)" by fastforce
  have s1: "srv_step s0 s1" by (rule ticked_srv_step [OF assms ticked_new_empty [OF p]])
  then show ?thesis
    by (auto simp: srv_find_def p simp del: post_bind split: prod.split crc.split
        intro!: frames_bind [OF frame_climsg] frame_control_message dest: frame_new_server)
qed

lemma frame_endpoints: "srv_step s0 s \<Longrightarrow> srv_endpoints e flow sd peer s = (rc, flow', s') \<Longrightarrow> srv_step s0 s'"
  using ticked_srv_step ticked_endpoints by blast

lemma frame_handle_pdu:
  assumes "srv_step s0 s" shows "frames s0 (ec_server_handle_pdu e sd raw n peer s)"
proof -
  have "frames s0 (run_bind (get_srv a s1) (\<lambda>srv.
              case srv_endpoints e (sv_flow srv) sd peer s1 of
                (rc, flow, s) \<Rightarrow>
                  let s = put_srv a (srv\<lparr>sv_flow := flow\<rparr>) s; h = p_hdr_bits pdu
                  in if rc = C_ERR then srv_fail e a EC_RC_UNSET s
                     else if h_code h = 0 \<and> h_t h = EC_COAP_RST then
                       run_bind (ec_server_set_state e a EC_SRV_STATE_CLIENT_RST s) (\<lambda>s.
                         Done (EC_NET_CBRC_SUCCESS, s))
                     else if h_code h = 0 \<and> h_t h = EC_COAP_ACK then
                       (if sv_state srv \<noteq> EC_SRV_STATE_WAIT_ACK then srv_fail e a EC_BAD_REQUEST s
                        else run_bind (ec_server_set_state e a EC_SRV_STATE_RESP_DONE s) (\<lambda>s.
                          Done (EC_NET_CBRC_SUCCESS, s)))
                     else let s = (if h_code h = 0 then s
                                   else put_srv a (srv\<lparr>sv_flow := flow\<lparr>f_conn :=
                                     ec_conn_set_confirmable (f_conn flow) (h_t h = EC_COAP_CON)\<rparr>\<rparr>) s)
                          in srv_request e a pdu raw n s))" if "srv_step s0 s1" for s1 a pdu
    using that
    by (intro get_bind) (auto simp: Let_def simp del: post_bind split: prod.split
        intro!: frame_fail frames1_bind [OF frame_set_state] frame_request dest!: frame_endpoints [OF that])
  then show ?thesis
    using assms
    by (auto simp: ec_server_handle_pdu_def simp del: post_bind split: srv_found.split intro!: frames_bind [OF frame_find])
qed

lemma frame_zap: "srv_step s0 s \<Longrightarrow> frames1 s0 (ec_dup_zap e a s)"
  by (auto simp: ec_dup_zap_def ec_dups_delete_def ec_recvd_pdu_free_def srv_step_def split: option.split)

text \<open>No event of the server touches a client or the callbacks that are registered.\<close>

lemma srv_exec_frame: "frames1 s (srv_exec e ev s)"
proof (cases ev)
  case (Ev_resched i)
  show ?thesis unfolding Ev_resched srv_exec.simps by (rule frame_resched) simp
next
  case (Ev_observe a)
  have "post UNIV (obs_step s) (ec_ob_cb e a s)" by (rule frame_ob_cb) simp
  then show ?thesis unfolding Ev_observe srv_exec.simps by (cases "ec_ob_cb e a s") (auto intro: obs_srv_step [OF srv_step_refl])
qed (auto simp del: post_bind intro!: frames_bind [OF frame_handle_pdu] frames_bind [OF frame_wakeup] frame_timer_fires frame_zap)

end
