(* ===== verification/Cli_Live.thy ===== *)
theory Cli_Live
  imports Cli_Props
begin

text \<open>
  No client waits for ever: whatever happened, one that waits for an answer has its application
  timer pending, and one that waits for notifications the timer of its observation.
\<close>

definition ticking :: "ec_client \<Rightarrow> bool" where
  "ticking cli \<longleftrightarrow>
     (\<not> cl_userown cli \<longrightarrow>
       (cl_state cli \<in> {EC_CLI_STATE_REQ_SENT, EC_CLI_STATE_COAP_RETRY, EC_CLI_STATE_REQ_ACKD} \<longrightarrow> timer_pending (cl_app cli)) \<and>
       (cl_state cli = EC_CLI_STATE_WAIT_NFY \<longrightarrow> timer_pending (cl_obs cli)))"

text \<open>\<open>alive a ok s\<close>: every client has its timer, the one at \<open>a\<close> perhaps only if \<open>ok\<close>.\<close>

definition alive_but :: "nat set \<Rightarrow> ('m, 'z) ec_scheme \<Rightarrow> bool" where
  "alive_but X s \<longleftrightarrow> (\<forall>a cli. cl_heap s a = Some cli \<longrightarrow> a \<notin> X \<longrightarrow> ticking cli)"

abbreviation alive :: "('m, 'z) ec_scheme \<Rightarrow> bool" where
  "alive s \<equiv> alive_but {} s"

abbreviation lives :: "('a \<times> ('m, 'z) ec_scheme) run \<Rightarrow> bool" where
  "lives c \<equiv> post UNIV (\<lambda>(_, s). alive s) c"

abbreviation lives1 :: "('m, 'z) ec_scheme run \<Rightarrow> bool" where
  "lives1 c \<equiv> post UNIV (\<lambda>s. alive s) c"

lemma lives_bind: "lives c \<Longrightarrow> (\<And>r s. alive s \<Longrightarrow> post UNIV Q (f r s)) \<Longrightarrow> post UNIV Q (run_bind c (\<lambda>(r, s). f r s))"
  by (cases c) auto

lemma lives1_bind: "lives1 c \<Longrightarrow> (\<And>s. alive s \<Longrightarrow> post UNIV Q (f s)) \<Longrightarrow> post UNIV Q (run_bind c f)"
  by (cases c) auto

lemma get_cli_bind: "(\<And>cli. cl_heap s a = Some cli \<Longrightarrow> post UNIV Q (f cli)) \<Longrightarrow> post UNIV Q (run_bind (get_cli a s) f)"
  by (cases "cl_heap s a") (auto simp: get_cli_def)

lemma alive_put: "alive_but X s \<Longrightarrow> X \<subseteq> {a} \<Longrightarrow> ticking cli \<Longrightarrow> alive_but Y (put_cli a cli s)"
  by (auto simp: alive_but_def)

lemma alive_at: "alive s \<Longrightarrow> cl_heap s a = Some cli \<Longrightarrow> ticking cli"
  by (auto simp: alive_but_def)

lemma alive_heap: "alive_but X s \<Longrightarrow> cl_heap s' = cl_heap s \<Longrightarrow> alive_but X s'"
  by (simp add: alive_but_def)

lemma alive_mono: "alive_but X s \<Longrightarrow> X \<subseteq> Y \<Longrightarrow> alive_but Y s"
  by (auto simp: alive_but_def)

lemma alive_upd [simp]:
  "alive_but X (s\<lparr>cl_log := lg\<rparr>) = alive_but X s" "alive_but X (s\<lparr>cl_list := l\<rparr>) = alive_but X s"
  "alive_but X (s\<lparr>cl_closed := c\<rparr>) = alive_but X s" "alive_but X (s\<lparr>w_tick := t\<rparr>) = alive_but X s"
  "alive_but X (note_closed sd s) = alive_but X s" "alive_but X (tick s) = alive_but X s"
  by (simp_all add: alive_but_def note_closed_def tick_def)

lemma alive_base: "base_step s s' \<Longrightarrow> alive_but X s \<Longrightarrow> alive_but X s'"
  using base_step_ec(2) [of s s'] by (simp add: alive_but_def)

subsection \<open>Changing state\<close>

text \<open>What the timers and acknowledgements of a state change leave: the heap, and a pending timer.\<close>

definition rearmed :: "ec_cli_state \<Rightarrow> ('m, 'z) ec_scheme \<Rightarrow> crc \<times> ec_client \<times> ('m, 'z) ec_scheme \<Rightarrow> bool" where
  "rearmed st s r \<longleftrightarrow> (case r of (rc, cli, s') \<Rightarrow>
     rc = C_OK \<longrightarrow> cl_heap s' = cl_heap s \<and> (ec_client_state_is_final st \<or> ticking (cli\<lparr>cl_state := st\<rparr>)))"

lemma ticked_cl_heap: "ticked s s' \<Longrightarrow> cl_heap s' = cl_heap s"
  using base_step_ec(2) [OF ticked_base_step] by blast

lemma send_cl_heap: "ec_pdu_send e p f d s = Done (rc, s') \<Longrightarrow> cl_heap s' = cl_heap s"
  using base_step_ec(2) [OF base_step_pdu_send] by blast

lemma lives_send: "alive s \<Longrightarrow> post UNIV (\<lambda>(_, s'). alive s' \<and> cl_heap s' = cl_heap s) (ec_pdu_send e p f d s)"
  by (rule post_cases) (auto dest: send_cl_heap intro: alive_heap)

lemma rearm_req_sent:
  assumes "cl_state cli = EC_CLI_STATE_DNS_OK \<or> cl_state cli = EC_CLI_STATE_COAP_RETRY" and "ticking cli"
  shows "post UNIV (rearmed EC_CLI_STATE_REQ_SENT s) (cli_actions e con EC_CLI_STATE_REQ_SENT cli s)"
  using assms(1)
proof
  assume st: "cl_state cli = EC_CLI_STATE_DNS_OK"
  obtain rc ta s1 where a: "ec_timer_start e (cl_app cli) 1 s = (rc, ta, s1)" by (metis prod_cases3)
  obtain rc2 tc s2 where c: "ec_timer_start e ((cl_coap cli)\<lparr>tout := (EC_COAP_RESP_TIMEOUT, 0)\<rparr>) EC_COAP_MAX_RETRANSMIT s1 = (rc2, tc, s2)"
    by (metis prod_cases3)
  have "cl_heap s1 = cl_heap s" "cl_heap s2 = cl_heap s1"
    using ticked_timer_start [OF a] ticked_timer_start [OF c] ticked_cl_heap by blast+
  moreover have "rc = C_OK \<Longrightarrow> timer_pending ta" using ec_timer_start_pending a by blast
  ultimately show ?thesis
    using st a c
    by (cases rc) (auto simp: cli_actions_def ec_cli_start_app_timer_def ec_cli_start_coap_timer_def rearmed_def ticking_def)
next
  assume st: "cl_state cli = EC_CLI_STATE_COAP_RETRY"
  then have "\<not> cl_userown cli \<longrightarrow> timer_pending (cl_app cli)" using assms(2) by (simp add: ticking_def)
  then have "post UNIV (rearmed EC_CLI_STATE_REQ_SENT s) (run_bind (ec_cli_restart_coap_timer e cli s) (\<lambda>(_, cli, s). Done (C_OK, cli, s)))"
    by (auto simp: ec_cli_restart_coap_timer_def Let_def rearmed_def ticking_def
        intro!: post_cases dest!: ticked_timer_restart ticked_cl_heap)
  with st show ?thesis by (simp add: cli_actions_def)
qed

lemma rearm_wait_nfy: "post UNIV (rearmed EC_CLI_STATE_WAIT_NFY s) (cli_actions e con EC_CLI_STATE_WAIT_NFY cli s)"
proof (cases "cl_state cli = EC_CLI_STATE_WAIT_NFY")
  case True
  have "post UNIV (rearmed EC_CLI_STATE_WAIT_NFY s) (ec_cli_restart_obs_timer e cli s)"
    by (rule post_cases) (auto simp: ec_cli_restart_obs_timer_def run_bind_Done_iff rearmed_def ticking_def
        dest: ec_timer_restart_pending ticked_cl_heap [OF ticked_timer_restart])
  with True show ?thesis by (simp add: cli_actions_def)
next
  case False
  have "rearmed EC_CLI_STATE_WAIT_NFY s (ec_cli_start_obs_timer e c s)" for c
  proof -
    obtain rc tb s1 where b: "ec_timer_start e ((cl_obs c)\<lparr>tout := (obs_timeout (e_le e) c, 0)\<rparr>) 1 s = (rc, tb, s1)" by (metis prod_cases3)
    then have "rc = C_OK \<Longrightarrow> timer_pending tb" using ec_timer_start_pending by blast
    with b show ?thesis by (simp add: ec_cli_start_obs_timer_def rearmed_def ticking_def ticked_cl_heap [OF ticked_timer_start [OF b]])
  qed
  with False show ?thesis by (simp add: cli_actions_def Let_def)
qed

lemma rearm_done:
  "post UNIV (rearmed EC_CLI_STATE_REQ_DONE s) (run_bind (ec_client_send_ack e cli s) (\<lambda>(_, s). Done (C_OK, cli, s)))"
proof -
  obtain p s1 where n: "ec_pdu_new_empty s = (p, s1)" by fastforce
  have h: "cl_heap s1 = cl_heap s" by (rule ticked_cl_heap [OF ticked_new_empty [OF n]])
  have "post UNIV (\<lambda>(_, s'). cl_heap s' = cl_heap s) (ec_client_send_ack e cli s)"
    by (auto simp: ec_client_send_ack_def n h split: option.split prod.split crc.split intro!: post_cases dest!: send_cl_heap)
  then show ?thesis by (rule post_cong_bind) (auto simp: rearmed_def fsm_simps)
qed

lemma rearm:
  assumes t: "ec_client_check_transition (cl_state cli) st = C_OK" and "ec_client_state_is_final st \<or> ticking cli"
  shows "post UNIV (rearmed st s) (cli_actions e con st cli s)"
proof -
  consider "st = EC_CLI_STATE_REQ_SENT" | "st = EC_CLI_STATE_WAIT_NFY" | "st = EC_CLI_STATE_REQ_ACKD" | "st = EC_CLI_STATE_REQ_DONE"
    | "st = EC_CLI_STATE_DNS_OK" | "st = EC_CLI_STATE_COAP_RETRY"
    | "ec_client_state_is_final st \<and> st \<noteq> EC_CLI_STATE_REQ_DONE" | "st = EC_CLI_STATE_NONE"
    by (cases st) (auto simp: fsm_simps)
  then show ?thesis
  proof cases
    case 1
    with assms rearm_req_sent show ?thesis by (auto simp: fsm_simps split: if_splits)
  next
    case 2
    with rearm_wait_nfy show ?thesis by simp
  next
    case 3
    with assms show ?thesis
      by (auto simp: cli_actions_def rearmed_def ticking_def fsm_simps ec_cli_stop_coap_timer_def split: if_splits)
  next
    case 4
    with rearm_done show ?thesis by (auto simp: cli_actions_def rearmed_def fsm_simps)
  next
    case 5
    then show ?thesis by (auto simp: cli_actions_def rearmed_def ticking_def)
  next
    case 6
    with assms show ?thesis by (auto simp: cli_actions_def rearmed_def ticking_def fsm_simps split: if_splits)
  next
    case 7
    then show ?thesis by (auto simp: cli_actions_def rearmed_def fsm_simps)
  next
    case 8
    with t show ?thesis by simp
  qed
qed

lemma alive_free: assumes "alive_but {a} s" shows "lives1 (ec_client_free a s)"
proof (rule post_cases)
  fix s' assume "ec_client_free a s = Done s'"
  then obtain s1 cli where u: "ec_client_unregister a s = Done s1" "get_cli a s1 = Done cli"
    "s' = note_closed (snd (ec_flow_term (cl_flow cli) False)) (s1\<lparr>cl_heap := (cl_heap s1)(a := None)\<rparr>)"
    by (auto simp: ec_client_free_def run_bind_Done_iff case_prod_beta)
  have "alive_but {a} s1"
    using u(1) assms
    by (auto simp: ec_client_unregister_def run_bind_Done_iff Let_def alive_but_def split: if_splits dest!: del_effect)
  then show "alive s'" by (auto simp: u(3) alive_but_def note_closed_def)
qed simp

lemma rst_heap: "post UNIV (\<lambda>(_, s'). cl_heap s' = cl_heap s \<and> cl_log s' = cl_log s) (ec_client_rst_peer e cli s)"
proof -
  obtain p s1 where n: "ec_pdu_new_empty s = (p, s1)" by fastforce
  have "cl_heap s1 = cl_heap s" "cl_log s1 = cl_log s" using base_step_ec [OF ticked_base_step [OF ticked_new_empty [OF n]]] by simp_all
  then show ?thesis
    by (auto simp: ec_client_rst_peer_def n split: option.split prod.split crc.split intro!: post_cases dest: pdu_send_cli_effect(1,2))
qed

lemma alive_notify:
  assumes "alive_but {a} s" and "ec_client_state_is_final (cl_state cli) \<or> ticking cli"
  shows "post UNIV (\<lambda>(fin, cli', s'). alive_but {a} s' \<and> (fin \<or> ticking cli')) (cli_notify e a cli s)"
proof -
  have "post UNIV (\<lambda>(_, s'). alive_but {a} s') (ec_client_rst_peer e cli s)"
    by (rule post_mono [OF rst_heap]) (auto intro: alive_heap [OF assms(1)])
  then have "post UNIV (\<lambda>(fin, cli', s'). alive_but {a} s' \<and> (fin \<or> ticking cli'))
      (run_bind (ec_client_rst_peer e cli s) (\<lambda>(_, s). Done (True, cli, s)))"
    by (rule post_cong_bind) auto
  with assms show ?thesis
    by (auto simp: cli_notify_def Let_def ec_client_invoke_user_callback_def ec_client_cancel_observation_def ticking_def
        simp del: post_bind split: option.split)
qed

lemma alive_dispose:
  assumes "alive_but {a} s" shows "lives1 (cli_dispose con a cli s)"
proof -
  define c where "c = ec_cli_stop_obs_timer (if con then ec_cli_stop_coap_timer (ec_cli_stop_app_timer cli) else ec_cli_stop_app_timer cli)"
  have k: "cl_userown c = cl_userown cli" "cl_state c = cl_state cli"
    using retimed_keeps(2,9) [OF retimed_dispose [of cli con]] by (simp_all add: c_def)
  have "lives1 (ec_client_free a (put_cli a c s))"
    by (rule alive_free) (use assms in \<open>simp add: alive_but_def\<close>)
  moreover have "cl_userown cli \<Longrightarrow> alive (put_cli a (c\<lparr>cl_res := []\<rparr>) s)"
    by (rule alive_put [OF assms]) (simp_all add: ticking_def k)
  ultimately show ?thesis by (simp add: cli_dispose_def Let_def c_def [symmetric] k)
qed

lemma lives_set_state:
  assumes "alive_but X s" and "X \<subseteq> {a}" and "X = {} \<or> ec_client_state_is_final st"
  shows "lives (ec_client_set_state e a st s)"
  unfolding ec_client_set_state_def
proof (rule get_cli_bind)
  fix cli assume c: "cl_heap s a = Some cli"
  have tick: "ec_client_state_is_final st \<or> ticking cli" using assms(1,3) alive_at c by blast
  let ?con = "ec_conn_get_confirmable (f_conn (cl_flow cli)) = Some True"
  have "lives (run_bind (cli_actions e ?con st cli s) (\<lambda>(rc, cli, s).
                 if rc = C_ERR then Fault Process_exit
                 else run_bind (cli_notify e a (cli\<lparr>cl_state := st\<rparr>) s) (\<lambda>(fin, cli, s).
                   if fin then run_bind (cli_dispose ?con a cli s) (\<lambda>s. Done (True, s))
                   else Done (False, put_cli a cli s))))"
    if "ec_client_check_transition (cl_state cli) st = C_OK"
  proof (rule post_cong_bind [OF rearm [OF that tick]], goal_cases)
    case (1 x)
    obtain rc cli1 s1 where x: "x = (rc, cli1, s1)" by (metis prod_cases3)
    have "lives (run_bind (cli_notify e a (cli1\<lparr>cl_state := st\<rparr>) s1) (\<lambda>(fin, cli, s).
                   if fin then run_bind (cli_dispose ?con a cli s) (\<lambda>s. Done (True, s))
                   else Done (False, put_cli a cli s)))" if rc: "rc = C_OK"
    proof (rule post_cong_bind [OF alive_notify], goal_cases)
      case 1
      show ?case by (rule alive_mono [OF alive_heap [OF assms(1)]]) (use x rc \<open>rearmed st s x\<close> assms(2) in \<open>auto simp: rearmed_def\<close>)
    next
      case 2
      show ?case using x rc \<open>rearmed st s x\<close> by (simp add: rearmed_def)
    next
      case (3 y)
      obtain fin cli2 s2 where y: "y = (fin, cli2, s2)" by (metis prod_cases3)
      with 3 have s2: "alive_but {a} s2" "fin \<or> ticking cli2" by simp_all
      then have "alive (put_cli a cli2 s2)" if "\<not> fin" using that by (intro alive_put [OF s2(1)]) auto
      with s2 show ?case by (auto simp: y simp del: post_bind intro!: lives1_bind [OF alive_dispose])
    qed
    then show ?case by (cases rc) (simp_all add: x del: post_bind)
  qed
  then show "lives (if ec_client_check_transition (cl_state cli) st = C_ERR then Fault Process_exit
       else let is_con = ?con
            in run_bind (cli_actions e is_con st cli s) (\<lambda>(rc, cli, s).
                 if rc = C_ERR then Fault Process_exit
                 else run_bind (cli_notify e a (cli\<lparr>cl_state := st\<rparr>) s) (\<lambda>(fin, cli, s).
                   if fin then run_bind (cli_dispose is_con a cli s) (\<lambda>s. Done (True, s))
                   else Done (False, put_cli a cli s))))"
    by (cases "ec_client_check_transition (cl_state cli) st") (simp_all add: Let_def del: post_bind)
qed

lemma lives_set: "alive s \<Longrightarrow> lives (ec_client_set_state e a st s)"
  by (rule lives_set_state [of "{}"]) auto

lemma lives1_set: "alive s \<Longrightarrow> lives1 (run_bind (ec_client_set_state e a st s) (\<lambda>(_, s). Done s))"
  by (rule lives_bind [OF lives_set]) simp_all

text \<open>A client whose state and timers are kept.\<close>

lemma alive_keep:
  assumes "alive s" and "cl_heap s a = Some cli" and "cl_state cli' = cl_state cli" and "cl_app cli' = cl_app cli"
    and "cl_obs cli' = cl_obs cli" and "cl_userown cli' = cl_userown cli"
  shows "alive (put_cli a cli' s)"
  by (rule alive_put [OF assms(1)]) (use alive_at [OF assms(1,2)] assms(3-6) in \<open>auto simp: ticking_def\<close>)

subsection \<open>Sending\<close>

lemma lives1_add: "alive s \<Longrightarrow> lives1 (ec_client_add a s)"
  unfolding ec_client_add_def by (rule get_cli_bind) (auto intro!: alive_keep)

lemma lives_register: assumes "alive s" shows "lives (ec_client_register e a s)"
proof -
  have "lives (run_bind (get_cli a (tick (tick s))) (\<lambda>cli.
      run_bind (ec_client_add a (put_cli a (cli\<lparr>cl_input := True\<rparr>) (tick (tick s)))) (\<lambda>s. Done (C_OK, s))))"
    by (rule get_cli_bind, rule lives1_bind [OF lives1_add]) (use assms in \<open>auto intro!: alive_keep\<close>)
  with assms show ?thesis by (simp add: ec_client_register_def Let_def del: post_bind)
qed

lemma lives1_registered: "alive s \<Longrightarrow> lives1 (dns_registered e a s)"
  unfolding dns_registered_def
  by (rule get_cli_bind) (auto simp del: post_bind intro!: lives1_set lives_bind [OF lives_register])

lemma lives_set_bind: "alive s \<Longrightarrow> (\<And>s. alive s \<Longrightarrow> post UNIV Q (f s)) \<Longrightarrow> post UNIV Q (run_bind (ec_client_set_state e a st s) (\<lambda>(_, s). f s))"
  by (rule lives_bind [OF lives_set])

lemma lives_try: "alive s \<Longrightarrow> lives (dns_try e a ais s)"
proof (induction ais arbitrary: s)
  case (Cons ai ais)
  obtain sd addr nb where ai: "ai = (sd, addr, nb)" by (metis prod_cases3)
  show ?case
    unfolding ai dns_try.simps
  proof (rule get_cli_bind, goal_cases)
    case (1 cli)
    let ?flow = "(cl_flow cli)\<lparr>f_conn := (f_conn (cl_flow cli))\<lparr>c_socket := sd\<rparr>\<rparr>"
    have upd: "alive (put_cli a (cli\<lparr>cl_flow := f\<rparr>) s)" "alive (put_cli a (cli\<lparr>cl_req := q, cl_flow := f\<rparr>) s)" for f q
      using Cons.prems 1 by (auto intro!: alive_keep)
    obtain rc req flow where p: "ec_pdu_set_peer (cl_req cli) ?flow addr = (rc, req, flow)" by (metis prod_cases3)
    let ?cli = "cli\<lparr>cl_req := req, cl_flow := flow\<rparr>"
    have "lives (run_bind (ec_pdu_send e req flow True (put_cli a ?cli s)) (\<lambda>(rc, s).
                   if rc = C_ERR then
                     dns_try e a ais (note_closed (Some sd)
                       (put_cli a (?cli\<lparr>cl_flow := flow\<lparr>f_conn := (f_conn flow)\<lparr>c_socket := -1\<rparr>\<rparr>\<rparr>) s))
                   else if \<not> nb then
                     run_bind (ec_client_set_state e a EC_CLI_STATE_INTERNAL_ERR s) (\<lambda>(_, s). Done (False, s))
                   else run_bind (ec_client_set_state e a EC_CLI_STATE_REQ_SENT s) (\<lambda>(_, s). Done (True, s))))"
    proof (rule post_cong_bind [OF lives_send [OF upd(2)]], goal_cases)
      case (1 x)
      then obtain rc s1 where x: "x = (rc, s1)" "alive s1" "cl_heap s1 a = Some ?cli" by (cases x) auto
      have "alive (put_cli a (?cli\<lparr>cl_flow := f\<rparr>) s1)" for f by (rule alive_keep [OF x(2,3)]) simp_all
      with x show ?case
        by (auto simp: note_closed_def simp del: post_bind intro!: Cons.IH lives_set_bind)
    qed
    with upd(1) Cons.IH show ?case by (simp add: Let_def p del: post_bind split: crc.split)
  qed
qed simp

lemma lives1_send: assumes "alive s" shows "lives1 (dns_send e a ais s)"
  unfolding dns_send_def
proof (rule get_cli_bind, goal_cases)
  case (1 cli)
  have "alive (put_cli a (cli\<lparr>cl_flow := f\<rparr>) s)" for f using assms 1 by (auto intro!: alive_keep)
  moreover have "lives1 (run_bind (ec_pdu_send e p f True s) (\<lambda>(rc, s).
           if rc = C_ERR then run_bind (ec_client_set_state e a EC_CLI_STATE_INTERNAL_ERR s) (\<lambda>(_, s). Done s)
           else run_bind (ec_client_set_state e a EC_CLI_STATE_REQ_SENT s) (\<lambda>(_, s). dns_registered e a s)))" for p f
    by (rule post_cong_bind [OF lives_send [OF assms]]) (auto simp del: post_bind intro!: lives1_set lives_set_bind lives1_registered)
  ultimately show ?case
    by (auto simp: Let_def simp del: post_bind intro!: lives_bind [OF lives_try] lives1_registered)
qed

lemma lives1_dns_cb: assumes "alive s" shows "lives1 (ec_client_dns_cb e ans a s)"
  unfolding ec_client_dns_cb_def
proof (rule get_cli_bind, goal_cases)
  case (1 cli)
  have a1: "alive (put_cli a (cli\<lparr>cl_dns_req := False\<rparr>) s)" using assms 1 by (auto intro!: alive_keep)
  have "lives1 (run_bind (get_cli a s1) (\<lambda>cli.
                case ec_pdu_encode_request e (cl_req cli) (cl_flow cli) s1 of
                  (rc, req, s) \<Rightarrow>
                    let s = put_cli a (cli\<lparr>cl_req := req\<rparr>) s
                    in if rc = C_ERR
                       then run_bind (ec_client_set_state e a EC_CLI_STATE_INTERNAL_ERR s) (\<lambda>(_, s). Done s)
                       else dns_send e a ais s))" if "alive s1" for s1 ais
  proof (rule get_cli_bind, goal_cases)
    case (1 cli)
    obtain rc req s2 where q: "ec_pdu_encode_request e (cl_req cli) (cl_flow cli) s1 = (rc, req, s2)" by (metis prod_cases3)
    then have "s2 = tick s1" by (auto simp: ec_pdu_encode_request_def Let_def split: prod.splits crc.splits option.splits)
    then have "alive (put_cli a (cli\<lparr>cl_req := req\<rparr>) s2)"
      using that 1 by (intro alive_keep [where cli = cli]) (auto simp: tick_def)
    then show ?case by (auto simp: q Let_def simp del: post_bind intro!: lives1_set lives1_send)
  qed
  then show ?case
    using a1 by (auto simp: Let_def simp del: post_bind split: dns_answer.split intro!: lives1_set lives_set_bind)
qed

lemma lives_go: assumes "alive s" shows "lives (ec_client_go e resolve a cb tmo s)"
  unfolding ec_client_go_def
proof (rule get_cli_bind, goal_cases)
  case (1 cli)
  have upd: "alive (put_cli a (cli\<lparr>cl_cb := cb, cl_app := (cl_app cli)\<lparr>tout := t\<rparr>\<rparr>) s)"
    "alive (put_cli a (cli\<lparr>cl_cb := cb, cl_app := (cl_app cli)\<lparr>tout := t\<rparr>, cl_dns_req := True\<rparr>) s)" for t
    using alive_at [OF assms 1] by (auto simp: ticking_def timer_pending_def intro!: alive_put [OF assms])
  show ?case
    using assms upd by (auto simp: Let_def simp del: post_bind split: option.split intro!: lives_set_bind lives1_bind [OF lives1_dns_cb])
qed

subsection \<open>Receiving and timers\<close>

lemma lives_deliver: assumes "alive s" shows "lives (cli_deliver e a s)"
proof -
  have obs: "lives (ec_client_handle_observation e a s)"
    unfolding ec_client_handle_observation_def
    by (rule get_cli_bind) (use assms in \<open>auto simp: Let_def split: option.split intro!: alive_keep simp: tick_def\<close>)
  have fin: "lives (run_bind (ec_client_set_state e a st s) (\<lambda>(fin, s).
           if fin then Done (EC_NET_CBRC_DEAD, s)
           else run_bind (get_cli a s) (\<lambda>cli.
             Done (EC_NET_CBRC_SUCCESS,
               if ec_client_is_observing cli then put_cli a (cli\<lparr>cl_res := []\<rparr>) s else s))))" if "alive s" for st s
    by (rule lives_bind [OF lives_set [OF that]]) (auto simp del: post_bind intro!: get_cli_bind alive_keep)
  show ?thesis
    unfolding cli_deliver_def
    by (rule lives_bind [OF obs]) (auto simp del: post_bind intro!: get_cli_bind fin)
qed

lemma lives_response: assumes "alive s" shows "lives (cli_response e a pdu raw n s)"
proof -
  have any: "post UNIV Q (run_bind m f)" if "\<And>x. post UNIV Q (f x)" for Q m f
    using that by (cases m) auto
  have "lives (run_bind (srv_payload e p raw n olen) (\<lambda>pdu.
       run_bind (get_cli a s) (\<lambda>cli.
         if \<not> token_echoed (p_opts pdu) (cl_flow cli) then Done (EC_NET_CBRC_ERROR, s)
         else case ec_flow_set_resp_code (cl_flow cli) (uint (h_code (p_hdr_bits pdu))) of
           (C_ERR, _) \<Rightarrow> Done (EC_NET_CBRC_ERROR, s)
         | (C_OK, flow) \<Rightarrow>
             cli_deliver e a (put_cli a (cli\<lparr>cl_flow := flow, cl_res := ec_res_set_add (cl_res cli) pdu\<rparr>) s))))" for p olen
    by (rule any, rule get_cli_bind) (use assms in \<open>auto split: prod.split crc.split intro!: lives_deliver alive_keep\<close>)
  then show ?thesis
    unfolding cli_response_def by (intro any) (use assms in \<open>auto simp del: post_bind\<close>)
qed

lemma lives_handle_pdu:
  fixes s :: "('m, 'z) ec_scheme"
  assumes "alive s" shows "lives (ec_client_handle_pdu e a sd raw n peer s)"
proof -
  obtain pdu s1 where p: "ec_pdu_new_empty s = (pdu, s1)" by fastforce
  have s1: "alive s1" by (rule alive_heap [OF assms ticked_cl_heap [OF ticked_new_empty [OF p]]])
  have sent: "cl_heap (snd (ec_net_send e h os osz q psz sd d b)) = cl_heap b" for b :: "('m, 'z) ec_scheme" and h os osz q psz d
    by (rule base_step_ec(2) [OF base_step_send [OF surjective_pairing]])
  have dup: "lives (ec_dups_handle_incoming_srvmsg e mid sd ss s1)" for mid ss
  proof (rule post_cases)
    fix x assume d: "ec_dups_handle_incoming_srvmsg e mid sd ss s1 = Done x"
    then have "cl_heap (snd x) = cl_heap s1"
      by (auto simp: ec_dups_handle_incoming_srvmsg_def ec_dups_insert_def ec_recvd_pdu_new_def Let_def send_cached_def
          ec_recvd_pdu_free_def tick_def sent split: option.splits if_splits prod.splits crc.splits)
    then show "case x of (_, s) \<Rightarrow> alive s" using s1 by (auto dest: alive_heap)
  qed simp
  have empty: "lives (run_bind (ec_client_handle_empty_pdu e a t s) (\<lambda>(rc, s). Done (r rc, s)))" if "alive s" for t r s
  proof -
    have "lives (ec_client_handle_empty_pdu e a t s)"
      using that by (auto simp: ec_client_handle_empty_pdu_def simp del: post_bind intro!: lives_set_bind)
    then show ?thesis by (rule lives_bind) simp
  qed
  show ?thesis
    using s1
    by (auto simp: ec_client_handle_pdu_def p Let_def simp del: post_bind split: prod.split crc.split
        intro!: get_cli_bind lives_bind [OF dup] empty lives_response)
qed

lemma lives1_timeout: "alive s \<Longrightarrow> lives1 (ec_cli_coap_timeout e a s)"
  unfolding ec_cli_coap_timeout_def
  by (rule get_cli_bind) (auto simp del: post_bind intro!: lives1_set lives_set_bind get_cli_bind post_cong_bind [OF lives_send])

lemma lives1_coap: "alive s \<Longrightarrow> lives1 (cli_coap_fires e a s)"
  unfolding cli_coap_fires_def by (rule get_cli_bind) (auto intro!: lives1_timeout alive_keep)

text \<open>The timers that end a client: theirs is not pending any more.\<close>

lemma lives1_ending:
  assumes "alive s" and "ec_client_state_is_final st"
  shows "lives1 (run_bind (ec_client_set_state e a st (put_cli a cli s)) (\<lambda>(_, s). Done s))"
proof -
  have "alive_but {a} (put_cli a cli s)" using assms(1) by (auto simp: alive_but_def)
  then show ?thesis by (intro lives_bind [OF lives_set_state [of "{a}"]]) (simp_all add: assms(2))
qed

lemma lives1_app: "alive s \<Longrightarrow> lives1 (cli_app_fires e a s)"
  unfolding cli_app_fires_def ec_cli_app_timeout_def
  by (rule get_cli_bind) (auto simp: fsm_simps simp del: post_bind intro!: lives1_ending)

lemma lives1_obs: assumes "alive s" shows "lives1 (cli_obs_fires e a s)"
  unfolding cli_obs_fires_def ec_cli_obs_timeout_def
proof (rule get_cli_bind, goal_cases)
  case (1 cli)
  let ?c = "cli\<lparr>cl_obs := timer_fired (cl_obs cli)\<rparr>"
  have "put_cli a x (put_cli a y s) = put_cli a x s" for x y by (simp add: put_cli_def)
  then show ?case
    using lives1_ending [OF assms, of EC_CLI_STATE_OBS_TIMEOUT] by (simp add: fsm_simps del: post_bind)
qed

lemma lives_new: assumes "alive s" shows "lives (ec_client_new e m uri con proxy own s)"
proof -
  obtain rc cli where p: "client_setup e m uri con proxy (client_zero s) = (rc, cli)" by fastforce
  have "alive_but {w_tick s} (put_cli (w_tick s) cli (tick s))" using assms by (auto simp: alive_but_def tick_def)
  then have "lives1 (ec_client_free (w_tick s) (put_cli (w_tick s) cli (tick s)))" by (rule alive_free)
  moreover have "alive (put_cli (w_tick s) (cli\<lparr>cl_base := True, cl_userown := own\<rparr>) (tick s))"
    by (rule alive_put [of "{}"]) (use assms setup_keeps(2) [OF p] in \<open>simp_all add: ticking_def client_zero_def\<close>)
  ultimately show ?thesis
    by (auto simp: ec_client_new_def Let_def p simp del: post_bind split: crc.split intro!: lives1_bind)
qed

lemma alive_exec: "alive s \<Longrightarrow> lives1 (cli_exec e ev s)"
proof (cases ev)
  case (Cl_forget a)
  assume "alive s"
  have "post UNIV (\<lambda>s'. cl_heap s' = cl_heap s) (ec_dup_zap e a s)"
    by (auto simp: ec_dup_zap_def ec_dups_delete_def ec_recvd_pdu_free_def split: option.split)
  then have "lives1 (ec_dup_zap e a s)" by (rule post_mono) (rule alive_heap [OF \<open>alive s\<close>])
  then show ?thesis by (simp add: Cl_forget)
qed (auto simp del: post_bind intro!: lives_bind lives_new lives_go lives1_dns_cb lives_handle_pdu lives1_coap lives1_app lives1_obs)

end
