(* ===== verification/Api.thy ===== *)
theory Api
  imports Cli_Engine
begin

text \<open>
  The rest of the user interface (\<open>lib/evcoap/src/evcoap.c\<close>): starting the engine, registering
  callbacks, setting up requests, and reading requests and responses. The setters for
  responses are in \<open>Srv_Engine\<close>.
\<close>

subsection \<open>The engine\<close>

text \<open>\<open>m\<close> is a new map of libu.\<close>

definition ec_init :: "'m \<Rightarrow> 'm ec" where
  "ec_init m =
     \<lparr>w_tick = 0, w_sent = [], d_map = m, d_recvd = (\<lambda>_. None), d_next = 0,
      ob_list = [], ob_heap = (\<lambda>_. None), sv_list = [], sv_heap = (\<lambda>_. None), sv_packs = [],
      resources = [], fallback = None, s_cfg = ec_cfg_init \<lparr>block_is_stateless = False, block_szx = 0\<rparr>,
      cl_list = [], cl_heap = (\<lambda>_. None), cl_log = [], cl_closed = []\<rparr>"

definition ec_register_fb :: "server_cb option \<Rightarrow> ('m, 'z) srv_st_scheme \<Rightarrow> ('m, 'z) srv_st_scheme" where
  "ec_register_fb fb s = s\<lparr>fallback := fb\<rparr>"

definition ec_unregister_fb :: "('m, 'z) srv_st_scheme \<Rightarrow> ('m, 'z) srv_st_scheme" where
  "ec_unregister_fb s = s\<lparr>fallback := None\<rparr>"

definition ec_register_cb :: "byte list \<Rightarrow> server_cb \<Rightarrow> ('m, 'z) srv_st_scheme \<Rightarrow> crc \<times> ('m, 'z) srv_st_scheme" where
  "ec_register_cb url cb s =
     (if list_ex (\<lambda>r. strcasecmp_eq (rc_path r) url) (resources s) then (C_ERR, s)
      else (C_OK, s\<lparr>resources := resources s @ [\<lparr>rc_path = url, rc_cb = cb\<rparr>]\<rparr>))"

text \<open>The first record with the path is removed.\<close>

fun remove_rescb :: "byte list \<Rightarrow> ec_rescb list \<Rightarrow> ec_rescb list option" where
  "remove_rescb url [] = None"
| "remove_rescb url (r # rs) =
     (if strcasecmp_eq (rc_path r) url then Some rs else map_option (\<lambda>rs. r # rs) (remove_rescb url rs))"

definition ec_unregister_cb :: "byte list \<Rightarrow> ('m, 'z) srv_st_scheme \<Rightarrow> crc \<times> ('m, 'z) srv_st_scheme" where
  "ec_unregister_cb url s =
     (case remove_rescb url (resources s) of None \<Rightarrow> (C_ERR, s) | Some rs \<Rightarrow> (C_OK, s\<lparr>resources := rs\<rparr>))"

definition ec_set_block_size :: "nat \<Rightarrow> ('m, 'z) srv_st_scheme \<Rightarrow> crc \<times> ('m, 'z) srv_st_scheme" where
  "ec_set_block_size val s = (case ec_cfg_set_block_sz (s_cfg s) val of (rc, cfg) \<Rightarrow> (rc, s\<lparr>s_cfg := cfg\<rparr>))"

definition ec_get_block_size :: "('m, 'z) srv_st_scheme \<Rightarrow> nat" where
  "ec_get_block_size s =
     (case ec_cfg_get_block_info (s_cfg s) of (is_stateless, szx) \<Rightarrow> if is_stateless then 0 else 2 ^ (szx + 4))"

definition ec_update_representation :: "byte list \<Rightarrow> byte list \<Rightarrow> nat \<Rightarrow> ec_mt \<Rightarrow> crc" where
  "ec_update_representation uri rep rep_len media_type = C_ERR"

subsection \<open>Setting up requests\<close>

definition ec_request_new ::
    "'m env \<Rightarrow> ec_method \<Rightarrow> byte list \<Rightarrow> bool \<Rightarrow> bool \<Rightarrow> ('m, 'z) ec_scheme \<Rightarrow> (nat option \<times> ('m, 'z) ec_scheme) run" where
  "ec_request_new e m uri is_con userown s = ec_client_new e m uri is_con None userown s"

definition ec_proxy_request_new ::
    "'m env \<Rightarrow> ec_method \<Rightarrow> byte list \<Rightarrow> bool \<Rightarrow> byte list \<times> u16 \<Rightarrow> bool \<Rightarrow> ('m, 'z) ec_scheme \<Rightarrow>
     (nat option \<times> ('m, 'z) ec_scheme) run" where
  "ec_proxy_request_new e m uri is_con proxy userown s = ec_client_new e m uri is_con (Some proxy) userown s"

definition ec_request_send ::
    "'m env \<Rightarrow> (byte list \<times> byte list \<Rightarrow> dns_answer option) \<Rightarrow> nat \<Rightarrow> client_cb option \<Rightarrow> timeval option \<Rightarrow>
     ('m, 'z) ec_scheme \<Rightarrow> (crc \<times> ('m, 'z) ec_scheme) run" where
  "ec_request_send e resolve a cb tmo s = ec_client_go e resolve a cb tmo s"

text \<open>A setter of request options.\<close>

definition on_req_opts :: "ec_client \<Rightarrow> (ec_opts \<Rightarrow> crc \<times> ec_opts) \<Rightarrow> crc \<times> ec_client" where
  "on_req_opts cli f =
     (case f (p_opts (cl_req cli)) of (rc, opts) \<Rightarrow> (rc, cli\<lparr>cl_req := (cl_req cli)\<lparr>p_opts := opts\<rparr>\<rparr>))"

definition ec_request_add_block :: "bool \<Rightarrow> ec_client \<Rightarrow> ec_opt_sym \<Rightarrow> u32 \<Rightarrow> bool \<Rightarrow> nat \<Rightarrow> crc \<times> ec_client" where
  "ec_request_add_block le cli which bnum m bsz = on_req_opts cli (\<lambda>opts. add_block le opts which bnum m bsz)"

definition ec_request_add_block1 :: "bool \<Rightarrow> ec_client \<Rightarrow> u32 \<Rightarrow> bool \<Rightarrow> nat \<Rightarrow> crc \<times> ec_client" where
  "ec_request_add_block1 le cli bnum m bsz = ec_request_add_block le cli EC_OPT_BLOCK1 bnum m bsz"

definition ec_request_add_block2 :: "bool \<Rightarrow> ec_client \<Rightarrow> u32 \<Rightarrow> bool \<Rightarrow> nat \<Rightarrow> crc \<times> ec_client" where
  "ec_request_add_block2 le cli bnum m bsz = ec_request_add_block le cli EC_OPT_BLOCK2 bnum m bsz"

definition ec_request_add_observe :: "bool \<Rightarrow> ec_client \<Rightarrow> crc \<times> ec_client" where
  "ec_request_add_observe le cli = on_req_opts cli (\<lambda>opts.
     if ec_opts_get_observe le opts \<noteq> None then (C_ERR, opts) else ec_opts_add_observe le opts 0)"

definition ec_request_add_publish :: "bool \<Rightarrow> ec_client \<Rightarrow> ec_method_mask \<Rightarrow> crc \<times> ec_client" where
  "ec_request_add_publish le cli allowed_methods = on_req_opts cli (\<lambda>opts.
     if ec_opts_get_publish le opts \<noteq> None then (C_ERR, opts) else ec_opts_add_publish le opts (ucast allowed_methods))"

definition ec_request_add_content_type :: "bool \<Rightarrow> ec_client \<Rightarrow> u16 \<Rightarrow> crc \<times> ec_client" where
  "ec_request_add_content_type le cli ct = on_req_opts cli (\<lambda>opts. ec_opts_add_content_type le opts ct)"

definition ec_request_add_max_age :: "bool \<Rightarrow> ec_client \<Rightarrow> u32 \<Rightarrow> crc \<times> ec_client" where
  "ec_request_add_max_age le cli ma = on_req_opts cli (\<lambda>opts. ec_opts_add_max_age le opts ma)"

definition ec_request_add_proxy_uri :: "'m env \<Rightarrow> ec_client \<Rightarrow> byte list \<Rightarrow> crc \<times> ec_client" where
  "ec_request_add_proxy_uri e cli pu = on_req_opts cli (\<lambda>opts. ec_opts_add_proxy_uri (e_uri_is_absolute e) opts pu)"

definition ec_request_add_etag :: "ec_client \<Rightarrow> byte list \<Rightarrow> nat \<Rightarrow> crc \<times> ec_client" where
  "ec_request_add_etag cli et et_len = on_req_opts cli (\<lambda>opts. ec_opts_add_etag opts et et_len)"

definition ec_request_add_uri_host :: "ec_client \<Rightarrow> byte list \<Rightarrow> crc \<times> ec_client" where
  "ec_request_add_uri_host cli uh = on_req_opts cli (\<lambda>opts. ec_opts_add_uri_host opts uh)"

definition ec_request_add_location_path :: "ec_client \<Rightarrow> byte list \<Rightarrow> crc \<times> ec_client" where
  "ec_request_add_location_path cli lp = on_req_opts cli (\<lambda>opts. ec_opts_add_location_path opts lp)"

definition ec_request_add_uri_port :: "bool \<Rightarrow> ec_client \<Rightarrow> u16 \<Rightarrow> crc \<times> ec_client" where
  "ec_request_add_uri_port le cli up = on_req_opts cli (\<lambda>opts. ec_opts_add_uri_port le opts up)"

definition ec_request_add_location_query :: "ec_client \<Rightarrow> byte list \<Rightarrow> crc \<times> ec_client" where
  "ec_request_add_location_query cli lq = on_req_opts cli (\<lambda>opts. ec_opts_add_location_query opts lq)"

definition ec_request_add_uri_path :: "ec_client \<Rightarrow> byte list \<Rightarrow> crc \<times> ec_client" where
  "ec_request_add_uri_path cli up = on_req_opts cli (\<lambda>opts. ec_opts_add_uri_path opts up)"

definition ec_request_add_accept :: "bool \<Rightarrow> ec_client \<Rightarrow> u16 \<Rightarrow> crc \<times> ec_client" where
  "ec_request_add_accept le cli a = on_req_opts cli (\<lambda>opts. ec_opts_add_accept le opts a)"

definition ec_request_add_if_match :: "ec_client \<Rightarrow> byte list \<Rightarrow> nat \<Rightarrow> crc \<times> ec_client" where
  "ec_request_add_if_match cli im im_len = on_req_opts cli (\<lambda>opts. ec_opts_add_if_match opts im im_len)"

definition ec_request_add_uri_query :: "ec_client \<Rightarrow> byte list \<Rightarrow> crc \<times> ec_client" where
  "ec_request_add_uri_query cli uq = on_req_opts cli (\<lambda>opts. ec_opts_add_uri_query opts uq)"

definition ec_request_add_if_none_match :: "ec_client \<Rightarrow> crc \<times> ec_client" where
  "ec_request_add_if_none_match cli = on_req_opts cli ec_opts_add_if_none_match"

text \<open>Without a token of the user, eight random bytes.\<close>

definition ec_request_add_token ::
    "'m env \<Rightarrow> ec_client \<Rightarrow> byte list option \<Rightarrow> nat \<Rightarrow> 'z world_scheme \<Rightarrow> (crc \<times> ec_client \<times> 'z world_scheme) run" where
  "ec_request_add_token e cli t t_len w =
     (let (tok, len, w) = (case t of
            Some tok \<Rightarrow> if t_len = 0 then (e_rng_bytes e (w_tick w) 8, 8, tick w) else (tok, t_len, w)
          | None \<Rightarrow> (e_rng_bytes e (w_tick w) 8, 8, tick w))
      in case on_req_opts cli (\<lambda>opts. ec_opts_add_token opts tok len) of
           (C_ERR, cli) \<Rightarrow> Done (C_ERR, cli, w)
         | (C_OK, cli) \<Rightarrow>
             run_bind (ec_flow_save_token (cl_flow cli) (Some tok) len) (\<lambda>flow. Done (C_OK, cli\<lparr>cl_flow := flow\<rparr>, w)))"

text \<open>The payload must fit the configured block size, if there is one.\<close>

definition ec_request_set_payload ::
    "'m env \<Rightarrow> ec_client \<Rightarrow> byte list \<Rightarrow> nat \<Rightarrow> ('m, 'z) srv_st_scheme \<Rightarrow> crc \<times> ec_client" where
  "ec_request_set_payload e cli payload sz s =
     (let bsz = ec_get_block_size s
      in if bsz \<noteq> 0 \<and> sz > bsz then (C_ERR, cli)
         else case ec_pdu_set_payload e (cl_req cli) payload sz of (rc, req) \<Rightarrow> (rc, cli\<lparr>cl_req := req\<rparr>))"

text \<open>A GET request with the Observe option.\<close>

definition ec_observer_new_cli ::
    "'m env \<Rightarrow> byte list \<Rightarrow> bool \<Rightarrow> (byte list \<times> u16) option \<Rightarrow> bool \<Rightarrow> ('m, 'z) ec_scheme \<Rightarrow>
     (nat option \<times> ('m, 'z) ec_scheme) run" where
  "ec_observer_new_cli e uri is_con proxy userown s =
     run_bind (ec_client_new e EC_COAP_GET uri is_con proxy userown s) (\<lambda>(r, s).
       case r of
         None \<Rightarrow> Done (None, s)
       | Some a \<Rightarrow>
           run_bind (get_cli a s) (\<lambda>cli.
             case ec_request_add_observe (e_le e) cli of
               (C_OK, cli) \<Rightarrow> Done (Some a, put_cli a cli s)
             | (C_ERR, cli) \<Rightarrow> run_bind (ec_client_free a (put_cli a cli s)) (\<lambda>s. Done (None, s))))"

definition ec_proxy_observe_new ::
    "'m env \<Rightarrow> byte list \<Rightarrow> bool \<Rightarrow> byte list \<times> u16 \<Rightarrow> bool \<Rightarrow> ('m, 'z) ec_scheme \<Rightarrow> (nat option \<times> ('m, 'z) ec_scheme) run" where
  "ec_proxy_observe_new e uri is_con proxy userown s = ec_observer_new_cli e uri is_con (Some proxy) userown s"

definition ec_observe_new ::
    "'m env \<Rightarrow> byte list \<Rightarrow> bool \<Rightarrow> bool \<Rightarrow> ('m, 'z) ec_scheme \<Rightarrow> (nat option \<times> ('m, 'z) ec_scheme) run" where
  "ec_observe_new e uri is_con userown s = ec_observer_new_cli e uri is_con None userown s"

subsection \<open>Reading requests\<close>

text \<open>
  The option getters write 8 or 16 bits through a pointer to a 32-bit enumeration that was set
  to 0 before: on a big-endian host they fill its upper part.
\<close>

definition store_low :: "bool \<Rightarrow> nat \<Rightarrow> u32 \<Rightarrow> u32 \<Rightarrow> u32" where
  "store_low le bits old v =
     (if le then (old AND NOT (mask bits)) OR v else (old AND mask (32 - bits)) OR push_bit (32 - bits) v)"

definition on_req :: "ec_server \<Rightarrow> (ec_opts \<Rightarrow> 'a option) \<Rightarrow> 'a option" where
  "on_req srv f = (case sv_req srv of None \<Rightarrow> None | Some req \<Rightarrow> f (p_opts req))"

definition ec_request_get_acceptable_media_types :: "bool \<Rightarrow> ec_server \<Rightarrow> nat \<Rightarrow> u32 list option" where
  "ec_request_get_acceptable_media_types le srv mta_sz = on_req srv (\<lambda>opts. ec_opts_get_accept_all le opts mta_sz)"

definition ec_request_get_if_none_match :: "ec_server \<Rightarrow> crc" where
  "ec_request_get_if_none_match srv = (case sv_req srv of None \<Rightarrow> C_ERR | Some req \<Rightarrow> ec_opts_get_if_none_match (p_opts req))"

definition ec_request_get_content_type :: "bool \<Rightarrow> ec_server \<Rightarrow> u32 option" where
  "ec_request_get_content_type le srv =
     on_req srv (\<lambda>opts. map_option (\<lambda>ct. store_low le 16 0 (ucast ct)) (ec_opts_get_content_type le opts))"

definition ec_request_get_publish :: "bool \<Rightarrow> ec_server \<Rightarrow> u32 option" where
  "ec_request_get_publish le srv =
     on_req srv (\<lambda>opts. map_option (\<lambda>m. store_low le 8 0 (ucast m)) (ec_opts_get_publish le opts))"

definition ec_request_get_observe :: "bool \<Rightarrow> ec_server \<Rightarrow> crc" where
  "ec_request_get_observe le srv =
     (case on_req srv (ec_opts_get_observe le) of None \<Rightarrow> C_ERR | Some _ \<Rightarrow> C_OK)"

definition ec_request_get_max_age :: "bool \<Rightarrow> ec_server \<Rightarrow> u32 option" where
  "ec_request_get_max_age le srv = on_req srv (ec_opts_get_max_age le)"

text \<open>Number, more flag and size in bytes of a block option.\<close>

definition block_of :: "(u32 \<times> bool \<times> byte) option \<Rightarrow> (u32 \<times> bool \<times> nat) option" where
  "block_of b = map_option (\<lambda>(bnum, m, szx). (bnum, m, 2 ^ (unat szx + 4))) b"

definition ec_request_get_block :: "bool \<Rightarrow> ec_server \<Rightarrow> ec_opt_sym \<Rightarrow> (u32 \<times> bool \<times> nat) option" where
  "ec_request_get_block le srv which = on_req srv (\<lambda>opts. block_of (ec_opts_get_block le opts which))"

definition ec_request_get_block1 :: "bool \<Rightarrow> ec_server \<Rightarrow> (u32 \<times> bool \<times> nat) option" where
  "ec_request_get_block1 le srv = ec_request_get_block le srv EC_OPT_BLOCK1"

definition ec_request_get_block2 :: "bool \<Rightarrow> ec_server \<Rightarrow> (u32 \<times> bool \<times> nat) option" where
  "ec_request_get_block2 le srv = ec_request_get_block le srv EC_OPT_BLOCK2"

definition ec_request_get_uri :: "'m env \<Rightarrow> ec_server \<Rightarrow> (byte list \<times> bool) option" where
  "ec_request_get_uri e srv = on_req srv (\<lambda>_. ec_flow_get_url e (sv_flow srv))"

definition ec_request_get_uri_origin :: "'m env \<Rightarrow> ec_server \<Rightarrow> byte list option \<times> ec_server" where
  "ec_request_get_uri_origin e srv =
     (if sv_req srv = None then (None, srv)
      else case ec_flow_get_uri_origin e (sv_flow srv) of (r, flow) \<Rightarrow> (r, srv\<lparr>sv_flow := flow\<rparr>))"

definition ec_request_get_uri_query :: "'m env \<Rightarrow> ec_server \<Rightarrow> byte list option" where
  "ec_request_get_uri_query e srv = on_req srv (\<lambda>_. ec_flow_get_uri_query e (sv_flow srv))"

definition ec_request_get_uri_path :: "'m env \<Rightarrow> ec_server \<Rightarrow> byte list option" where
  "ec_request_get_uri_path e srv = on_req srv (\<lambda>_. ec_flow_get_uri_path e (sv_flow srv))"

definition ec_request_via_proxy :: "ec_server \<Rightarrow> bool" where
  "ec_request_via_proxy srv = f_proxy_uri (sv_flow srv)"

definition ec_request_get_payload :: "ec_server \<Rightarrow> (byte list option \<times> nat) option" where
  "ec_request_get_payload srv = map_option (\<lambda>req. (p_payload req, p_payload_sz req)) (sv_req srv)"

subsection \<open>Reading responses\<close>

definition on_res :: "ec_client \<Rightarrow> (ec_opts \<Rightarrow> 'a option) \<Rightarrow> 'a option" where
  "on_res cli f = (case ec_client_get_response_options cli of None \<Rightarrow> None | Some opts \<Rightarrow> f opts)"

definition ec_response_get_code :: "ec_client \<Rightarrow> ec_rc" where
  "ec_response_get_code cli = ec_flow_get_resp_code (cl_flow cli)"

text \<open>Here the enumeration is not set to 0 before: \<open>ct\<close> is what it held.\<close>

definition ec_response_get_content_type :: "bool \<Rightarrow> ec_client \<Rightarrow> u32 \<Rightarrow> u32 option" where
  "ec_response_get_content_type le cli ct =
     on_res cli (\<lambda>opts. map_option (\<lambda>v. store_low le 16 ct (ucast v)) (ec_opts_get_content_type le opts))"

definition ec_response_get_observe :: "bool \<Rightarrow> ec_client \<Rightarrow> u16 option" where
  "ec_response_get_observe le cli = on_res cli (ec_opts_get_observe le)"

definition ec_response_get_max_age :: "bool \<Rightarrow> ec_client \<Rightarrow> u32 option" where
  "ec_response_get_max_age le cli = on_res cli (ec_opts_get_max_age le)"

definition ec_response_get_block1 :: "bool \<Rightarrow> ec_client \<Rightarrow> (u32 \<times> bool \<times> nat) option" where
  "ec_response_get_block1 le cli = on_res cli (\<lambda>opts. block_of (ec_opts_get_block1 le opts))"

definition ec_response_get_block2 :: "bool \<Rightarrow> ec_client \<Rightarrow> (u32 \<times> bool \<times> nat) option" where
  "ec_response_get_block2 le cli = on_res cli (\<lambda>opts. block_of (ec_opts_get_block2 le opts))"

definition ec_response_get_payload :: "ec_client \<Rightarrow> (byte list option \<times> nat) option" where
  "ec_response_get_payload cli = map_option (\<lambda>res. (p_payload res, p_payload_sz res)) (ec_client_get_response_pdu cli)"

subsection \<open>Fields of a transaction\<close>

text \<open>What callbacks and the other files of the library read and set through functions instead of the struct.\<close>

definition ec_server_get_request_pdu :: "ec_server \<Rightarrow> ec_pdu option" where
  "ec_server_get_request_pdu srv = sv_req srv"

definition ec_server_get_response_pdu :: "ec_server \<Rightarrow> ec_pdu option" where
  "ec_server_get_response_pdu srv = sv_res srv"

definition ec_server_get_request_options :: "ec_server \<Rightarrow> ec_opts option" where
  "ec_server_get_request_options srv = map_option p_opts (ec_server_get_request_pdu srv)"

definition ec_server_get_response_options :: "ec_server \<Rightarrow> ec_opts option" where
  "ec_server_get_response_options srv = map_option p_opts (ec_server_get_response_pdu srv)"

definition ec_server_set_req :: "ec_server \<Rightarrow> ec_pdu \<Rightarrow> ec_server" where
  "ec_server_set_req srv req = srv\<lparr>sv_req := Some req\<rparr>"

definition ec_server_get_url :: "ec_server \<Rightarrow> byte list" where
  "ec_server_get_url srv = ec_flow_get_urlstr (sv_flow srv)"

definition ec_server_get_method :: "ec_server \<Rightarrow> ec_method" where
  "ec_server_get_method srv = ec_flow_get_method (sv_flow srv)"

definition ec_server_set_msg_model :: "ec_server \<Rightarrow> bool \<Rightarrow> ec_server" where
  "ec_server_set_msg_model srv is_con =
     srv\<lparr>sv_flow := (sv_flow srv)\<lparr>f_conn := ec_conn_set_confirmable (f_conn (sv_flow srv)) is_con\<rparr>\<rparr>"

definition ec_client_get_state :: "ec_client \<Rightarrow> ec_cli_state" where
  "ec_client_get_state cli = cl_state cli"

definition ec_client_get_request_pdu :: "ec_client \<Rightarrow> ec_pdu" where
  "ec_client_get_request_pdu cli = cl_req cli"

text \<open>The set of the responses to a request; clearing it removes and frees its PDUs one by one.\<close>

definition ec_res_set_init :: "ec_pdu list" where
  "ec_res_set_init = []"

fun ec_res_set_clear :: "ec_pdu list \<Rightarrow> ec_pdu list" where
  "ec_res_set_clear (pdu # rset) = ec_res_set_clear rset"
| "ec_res_set_clear [] = ec_res_set_init"

text \<open>\<open>co_cancel\<close> is not initialised here: it keeps its value.\<close>

definition ec_cli_obs_init :: "ec_cli_obs \<Rightarrow> ec_cli_obs" where
  "ec_cli_obs_init ob = ob\<lparr>co_on := False, co_last_cnt := 0, co_last_ts := 0\<rparr>"

end
