(* ===== verification/Api_Spec.thy ===== *)
theory Api_Spec
  imports Api Store Cli_Props Srv_Props
begin

text \<open>
  The user interface: the engine starts in a state that satisfies the invariants of its
  components, the callback registry is a store with URLs that do not distinguish case,
  block sizes, and the token of a request.
\<close>

subsection \<open>Starting the engine\<close>

lemma ec_init_sel [simp]:
  "resources (ec_init m) = []" "fallback (ec_init m) = None" "sv_packs (ec_init m) = []" "cl_list (ec_init m) = []"
  "cl_heap (ec_init m) = (\<lambda>_. None)" "sv_heap (ec_init m) = (\<lambda>_. None)" "sv_list (ec_init m) = []" "ob_list (ec_init m) = []"
  "ob_heap (ec_init m) = (\<lambda>_. None)" "d_recvd (ec_init m) = (\<lambda>_. None)" "d_map (ec_init m) = m"
  by (simp_all add: ec_init_def)

lemma init_ok:
  assumes "e_hm_get e m = (\<lambda>_. None)"
  shows "engine_ok e {} (ec_init m) \<and> clients_ok {} (ec_init m)"
  using assms by (simp add: engine_ok_def dups_ok_def store_ok_def obs_ok_def srvs_ok_def cbs_ok_def clients_ok_def)

subsection \<open>The callback registry\<close>

definition paths_ok :: "ec_rescb list \<Rightarrow> bool" where
  "paths_ok rs \<longleftrightarrow> distinct (map (\<lambda>r. map byte_lower (rc_path r)) rs)"

lemma find_resource_append:
  "find_resource (rs @ [r]) url = (case find_resource rs url of Some cb \<Rightarrow> Some cb
     | None \<Rightarrow> if strcasecmp_eq (rc_path r) url then Some (rc_cb r) else None)"
  by (induction rs) auto

lemma strcase_equiv: "strcasecmp_eq a b \<Longrightarrow> strcasecmp_eq a c \<longleftrightarrow> strcasecmp_eq b c"
  by (simp add: strcasecmp_eq_def)

lemma find_resource_absent: "find_resource rs url = None \<longleftrightarrow> list_all (\<lambda>r. \<not> strcasecmp_eq (rc_path r) url) rs"
  by (induction rs) auto

lemma remove_rescb_find:
  "paths_ok rs \<Longrightarrow> remove_rescb url rs = Some rs' \<Longrightarrow>
   paths_ok rs' \<and> (\<forall>u. find_resource rs' u = (if strcasecmp_eq url u then None else find_resource rs u)) \<and> set rs' \<subseteq> set rs"
proof (induction url rs arbitrary: rs' rule: remove_rescb.induct)
  case (2 url r rs)
  show ?case
  proof (cases "strcasecmp_eq (rc_path r) url")
    case True
    have none: "find_resource rs u = None" if "strcasecmp_eq url u" for u
    proof -
      have "strcasecmp_eq (rc_path r) u" using True that by (simp add: strcasecmp_eq_def)
      then show ?thesis using 2(2) by (fastforce simp: find_resource_absent list_all_iff paths_ok_def strcasecmp_eq_def image_iff)
    qed
    have "strcasecmp_eq (rc_path r) u \<longleftrightarrow> strcasecmp_eq url u" for u using strcase_equiv [OF True] .
    then show ?thesis using True 2(2,3) none by (auto simp: paths_ok_def)
  next
    case False
    then obtain rs1 where r: "remove_rescb url rs = Some rs1" "rs' = r # rs1" using 2(3) by auto
    have p: "paths_ok rs" using 2(2) by (simp add: paths_ok_def)
    note ih = 2(1) [OF False p r(1)]
    have "\<not> strcasecmp_eq url u" if "strcasecmp_eq (rc_path r) u" for u
      using False that by (simp add: strcasecmp_eq_def)
    then show ?thesis using ih r(2) 2(2) by (auto simp: paths_ok_def)
  qed
qed simp

definition reg_put :: "byte list \<Rightarrow> server_cb \<Rightarrow> ('m, 'z) srv_st_scheme \<Rightarrow> ('m, 'z) srv_st_scheme option" where
  "reg_put url cb s = (case ec_register_cb url cb s of (C_OK, s') \<Rightarrow> Some s' | (C_ERR, _) \<Rightarrow> None)"

definition reg_del :: "byte list \<Rightarrow> ('m, 'z) srv_st_scheme \<Rightarrow> ('m, 'z) srv_st_scheme option" where
  "reg_del url s = (case ec_unregister_cb url s of (C_OK, s') \<Rightarrow> Some s' | (C_ERR, _) \<Rightarrow> None)"

lemma reg_put_effect:
  assumes "paths_ok (resources s)" and "reg_put url cb s = Some s'"
  shows "paths_ok (resources s') \<and> find_resource (resources s') u = (if strcasecmp_eq url u then Some cb else find_resource (resources s) u)"
proof -
  have n: "list_all (\<lambda>r. \<not> strcasecmp_eq (rc_path r) url) (resources s)"
    and s': "s' = s\<lparr>resources := resources s @ [\<lparr>rc_path = url, rc_cb = cb\<rparr>]\<rparr>"
    using assms(2) by (auto simp: reg_put_def ec_register_cb_def list_ex_iff list_all_iff split: if_splits)
  have "paths_ok (resources s')" using assms(1) n by (auto simp: s' paths_ok_def list_all_iff strcasecmp_eq_def)
  moreover have "find_resource (resources s) u = None" if "strcasecmp_eq url u"
    using n that by (auto simp: find_resource_absent list_all_iff strcasecmp_eq_def)
  ultimately show ?thesis by (auto simp: s' find_resource_append split: option.split)
qed

lemma reg_del_effect:
  assumes "paths_ok (resources s)" and "reg_del url s = Some s'"
  shows "paths_ok (resources s') \<and> find_resource (resources s') u = (if strcasecmp_eq url u then None else find_resource (resources s) u)"
  using assms remove_rescb_find [of "resources s" url] by (auto simp: reg_del_def ec_unregister_cb_def split: option.splits)

interpretation registry: keyed_store "\<lambda>s. paths_ok (resources s)" strcasecmp_eq "\<lambda>url s. find_resource (resources s) url" reg_put reg_del
  by unfold_locales (use reg_put_effect reg_del_effect in blast)+

text \<open>C28: After any sequence of registrations and removals of callbacks that were accepted, the URL of a
  request is dispatched to the callback registered last for it, without regard to the case of letters.\<close>

theorem registry_history:
  assumes "store_run reg_put reg_del ops s = Some s'" and "paths_ok (resources s)"
  shows "find_resource (resources s') url = latest strcasecmp_eq url ops (find_resource (resources s) url)"
  by (rule registry.history [OF assms])

theorem registry_history_witness:
  "\<exists>s'. store_run reg_put reg_del [Put [97] demo_cb, Put [98] demo_cb, Del [65]] (ec_init ([] :: (string \<times> nat) list)) = Some s' \<and>
     find_resource (resources s') [66] = Some demo_cb \<and> find_resource (resources s') [97] = None"
proof -
  have "\<exists>s'. store_run reg_put reg_del [Put [97] demo_cb, Put [98] demo_cb, Del [65]] (ec_init ([] :: (string \<times> nat) list)) = Some s'"
    by (simp add: reg_put_def reg_del_def ec_register_cb_def ec_unregister_cb_def strcasecmp_eq_def byte_lower_def)
  then obtain s' where r: "store_run reg_put reg_del [Put [97] demo_cb, Put [98] demo_cb, Del [65]] (ec_init ([] :: (string \<times> nat) list)) = Some s'"
    by blast
  from registry_history [OF r, of "[66]"] registry_history [OF r, of "[97]"] r show ?thesis
    by (simp add: paths_ok_def strcasecmp_eq_def byte_lower_def)
qed

lemma reg_put_engine_ok: "engine_ok e X s \<Longrightarrow> cb_ok cb \<Longrightarrow> reg_put url cb s = Some s' \<Longrightarrow> engine_ok e X s'"
  by (auto simp: reg_put_def ec_register_cb_def engine_ok_def dups_ok_def obs_ok_def srvs_ok_def cbs_ok_def split: if_splits)

subsection \<open>Block sizes\<close>

lemma nearest_block_range:
  "17 \<le> v \<Longrightarrow> v \<le> 1024 \<Longrightarrow> \<exists>szx. ec_nearest_block v = Some szx \<and> 2 ^ (szx + 4) < v \<and> v \<le> 2 * 2 ^ (szx + 4)"
  by (auto simp: ec_nearest_block_def nearest_block_from.simps)

text \<open>C29: A block size that is accepted is in fact replaced by one that is strictly smaller, by at most half;
  16 is refused, and so is 0, which the comment promises to mean unlimited.\<close>

theorem block_size_set:
  assumes "ec_set_block_size val s = (rc, s')"
  shows "(rc = C_OK \<longleftrightarrow> 17 \<le> val \<and> val \<le> 1024) \<and>
    (if rc = C_OK then ec_get_block_size s' < val \<and> val \<le> 2 * ec_get_block_size s' else s' = s)"
proof (cases "17 \<le> val \<and> val \<le> 1024")
  case True
  then obtain szx where "ec_nearest_block val = Some szx" "2 ^ (szx + 4) < val" "val \<le> 2 * 2 ^ (szx + 4)" using nearest_block_range by blast
  with True assms show ?thesis
    by (auto simp: ec_set_block_size_def ec_cfg_set_block_sz_def ec_get_block_size_def ec_cfg_get_block_info_def)
next
  case False
  then have "val < 16 \<or> val = 16 \<or> 1024 < val" by linarith
  then have "ec_cfg_set_block_sz (s_cfg s) val = (C_ERR, s_cfg s)"
    by (auto simp: ec_cfg_set_block_sz_def ec_nearest_block_def nearest_block_from.simps)
  with False assms show ?thesis by (auto simp: ec_set_block_size_def)
qed

theorem block_size_set_witness:
  "fst (ec_set_block_size 0 (ec_init ())) = C_ERR \<and> fst (ec_set_block_size 512 (ec_init ())) = C_OK \<and>
   ec_get_block_size (snd (ec_set_block_size 512 (ec_init ()))) < 512"
  using block_size_set [of 0 "ec_init ()"] block_size_set [of 512 "ec_init ()"]
  by (cases "ec_set_block_size 0 (ec_init ())"; cases "fst (ec_set_block_size 0 (ec_init ()))"; cases "ec_set_block_size 512 (ec_init ())") auto

subsection \<open>Tokens\<close>

lemma opt_new_opaque_mem:
  "ec_opt_new sy l v = Some o' \<Longrightarrow> ec_opt_sym2type sy = EC_OPT_TYPE_OPAQUE \<Longrightarrow> l \<le> length v \<Longrightarrow> l \<noteq> 0 \<Longrightarrow>
   opt_mem o' = take l v \<and> o_l o' = l"
  by (auto simp: ec_opt_new_def opt_mem_def split: if_splits)

text \<open>Setting the token of a request, or having eight random bytes chosen, never writes past the token array,
  and a response that echoes the Token option of the request passes the check of the client.\<close>

theorem request_token_echoed:
  assumes "wf_opts (p_opts (cl_req cli))" and "ec_opts_get (p_opts (cl_req cli)) EC_OPT_TOKEN = None"
    and "\<And>tok. t = Some tok \<Longrightarrow> n \<le> length tok" and "length (e_rng_bytes e (w_tick w) 8) = 8" and "length (f_token (cl_flow cli)) = 8"
  shows "\<exists>rc cli' w'. ec_request_add_token e cli t n w = Done (rc, cli', w') \<and>
    (rc = C_OK \<longleftrightarrow> (t = None \<or> n \<le> 8) \<and> noptions (p_opts (cl_req cli)) < 15) \<and>
    (rc = C_OK \<longrightarrow> (\<forall>opts. ec_opts_get opts EC_OPT_TOKEN = ec_opts_get (p_opts (cl_req cli')) EC_OPT_TOKEN \<longrightarrow> token_echoed opts (cl_flow cli')))"
proof -
  let ?req = "p_opts (cl_req cli)"
  obtain tk l w1 where sel: "(case t of
            Some tok \<Rightarrow> if n = 0 then (e_rng_bytes e (w_tick w) 8, 8, tick w) else (tok, n, w)
          | None \<Rightarrow> (e_rng_bytes e (w_tick w) 8, 8, tick w)) = (tk, l, w1)" by (rule prod_cases3)
  have l: "l \<le> length tk" "l \<noteq> 0" "l \<le> 8 \<longleftrightarrow> t = None \<or> n \<le> 8"
    using sel assms(3,4) by (auto split: option.splits if_splits)
  have add: "ec_opts_add_token ?req tk l = (if l \<le> 8 then ec_opts_add_raw ?req EC_OPT_TOKEN tk l else (C_ERR, ?req))"
    using l(2) by (simp add: ec_opts_add_token_def ec_opts_add_opaque_def opt_table_defs)
  show ?thesis
  proof (cases "l \<le> 8 \<and> noptions ?req < 15")
    case False
    then obtain opts1 where "ec_opts_add_token ?req tk l = (C_ERR, opts1)"
      using add ec_opts_add_raw_single [of l ?req EC_OPT_TOKEN tk] by (auto split: if_splits)
    with sel False l(3) show ?thesis by (auto simp: ec_request_add_token_def on_req_opts_def Let_def)
  next
    case True
    have none: "opts_of ?req EC_OPT_TOKEN = []" using assms(2) by (simp add: ec_opts_get_conv split: list.splits)
    obtain opts1 o' where o: "ec_opts_add_raw ?req EC_OPT_TOKEN tk l = (C_OK, opts1)" "ec_opt_new EC_OPT_TOKEN l tk = Some o'"
      "opts_of opts1 EC_OPT_TOKEN = [o']"
      using ec_opts_add_raw_new [OF assms(1), of EC_OPT_TOKEN l tk] l(1) True none by (auto simp: opt_table_defs)
    have m: "opt_mem o' = take l tk" "o_l o' = l"
      using opt_new_opaque_mem [OF o(2) _ l(1,2)] by (simp_all add: opt_table_defs)
    let ?flow = "(cl_flow cli)\<lparr>f_token := take l tk @ drop l (f_token (cl_flow cli)), f_token_sz := l\<rparr>"
    let ?cli = "cli\<lparr>cl_req := (cl_req cli)\<lparr>p_opts := opts1\<rparr>, cl_flow := ?flow\<rparr>"
    have "ec_flow_save_token (cl_flow cli) (Some tk) l = Done ?flow" using l(2) True by (simp add: ec_flow_save_token_def)
    then have "ec_request_add_token e cli t n w = Done (C_OK, ?cli, w1)"
      using sel add True o(1) by (simp add: ec_request_add_token_def on_req_opts_def Let_def)
    moreover have "token_echoed opts ?flow" if "ec_opts_get opts EC_OPT_TOKEN = ec_opts_get opts1 EC_OPT_TOKEN" for opts
      using that o(3) m l by (simp add: token_echoed_def ec_opts_get_conv)
    ultimately show ?thesis using True l(3) by (intro exI [of _ C_OK] exI [of _ ?cli] exI [of _ w1]) simp
  qed
qed

theorem request_token_echoed_witness:
  "\<exists>cli' w'. ec_request_add_token demo_env demo_client None 0 (ec_init ()) = Done (C_OK, cli', w') \<and>
     token_echoed (p_opts (cl_req cli')) (cl_flow cli')"
proof -
  have w: "wf_opts (p_opts (cl_req demo_client))" "ec_opts_get (p_opts (cl_req demo_client)) EC_OPT_TOKEN = None"
    "length (f_token (cl_flow demo_client)) = 8" "noptions (p_opts (cl_req demo_client)) = 0"
    by (simp_all add: demo_query_def ec_pdu_new_empty_def ec_opts_get_conv opts_of_def ec_opts_init_def demo_client_def wf_opts_def ec_flow_init_def)
  have "\<exists>rc cli' w'. ec_request_add_token demo_env demo_client None 0 (ec_init ()) = Done (rc, cli', w') \<and> rc = C_OK \<and>
      token_echoed (p_opts (cl_req cli')) (cl_flow cli')"
    using request_token_echoed [OF w(1,2) _ _ w(3), of None 0 demo_env "ec_init ()"] w(4) by (auto simp del: token_echoed_def)
  then show ?thesis by blast
qed

end
