(* ===== verification/System.thy ===== *)
theory System
  imports Sys_Frame Cli_Live Api_Spec
begin

text \<open>
  The engine as a whole: server and client events on one \<open>ec\<close> state, together with the calls that
  register callbacks, from the state that \<open>ec_init\<close> makes. The invariant is that of both sides, and
  each side's events keep the other's by the frame lemmas.
\<close>

subsection \<open>Events\<close>

datatype sys_event =
    Sys_srv srv_event
  | Sys_cli cli_event
  | Sys_register "byte list" server_cb
  | Sys_unregister "byte list"
  | Sys_fallback "server_cb option"
  | Sys_block_size nat

fun sys_exec :: "'m env \<Rightarrow> sys_event \<Rightarrow> ('m, 'z) ec_scheme \<Rightarrow> ('m, 'z) ec_scheme run" where
  "sys_exec e (Sys_srv ev) s = srv_exec e ev s"
| "sys_exec e (Sys_cli ev) s = cli_exec e ev s"
| "sys_exec e (Sys_register url cb) s = Done (snd (ec_register_cb url cb s))"
| "sys_exec e (Sys_unregister url) s = Done (snd (ec_unregister_cb url s))"
| "sys_exec e (Sys_fallback fb) s = Done (ec_register_fb fb s)"
| "sys_exec e (Sys_block_size n) s = Done (snd (ec_set_block_size n s))"

text \<open>The callbacks that are registered keep to the size of an ETag.\<close>

fun sys_enabled :: "'m env \<Rightarrow> sys_event \<Rightarrow> ('m, 'z) ec_scheme \<Rightarrow> bool" where
  "sys_enabled e (Sys_srv ev) s \<longleftrightarrow> srv_enabled ev s"
| "sys_enabled e (Sys_cli ev) s \<longleftrightarrow> cli_enabled e ev s"
| "sys_enabled e (Sys_register url cb) s \<longleftrightarrow> cb_ok cb"
| "sys_enabled e (Sys_fallback fb) s \<longleftrightarrow> (case fb of None \<Rightarrow> True | Some cb \<Rightarrow> cb_ok cb)"
| "sys_enabled e (Sys_unregister url) s \<longleftrightarrow> True"
| "sys_enabled e (Sys_block_size n) s \<longleftrightarrow> True"

fun sys_faults :: "sys_event \<Rightarrow> fault set" where
  "sys_faults (Sys_srv ev) = net_faults"
| "sys_faults (Sys_cli ev) = cli_faults ev"
| "sys_faults _ = {}"

subsection \<open>The invariant\<close>

definition sys_ok :: "'m env \<Rightarrow> ('m, 'z) ec_scheme \<Rightarrow> bool" where
  "sys_ok e s \<longleftrightarrow> engine_ok e {} s \<and> clients_ok {} s \<and> alive s \<and> paths_ok (resources s)"

lemma srv_step_clients:
  assumes "srv_step s s'"
  shows "cl_heap s' = cl_heap s" "cl_list s' = cl_list s" "cl_log s' = cl_log s" "cl_closed s' = cl_closed s"
    "resources s' = resources s" "w_tick s \<le> w_tick s'"
  using assms unfolding srv_step_def by (cases s; cases s'; simp)+

lemma post_sys_srv:
  assumes "hmap_laws e" and "sys_ok e s" and "srv_enabled ev s"
  shows "post net_faults (sys_ok e) (srv_exec e ev s)"
proof (rule post_cases)
  have i: "engine_ok e {} s" "clients_ok {} s" "alive s" "paths_ok (resources s)" using assms(2) by (simp_all add: sys_ok_def)
  note p = post_exec [OF assms(1) i(1) assms(3)]
  show "f \<in> net_faults" if "srv_exec e ev s = Fault f" for f using p that by simp
  show "sys_ok e s'" if d: "srv_exec e ev s = Done s'" for s'
  proof -
    note k = srv_step_clients [OF post_Done [OF srv_exec_frame d]]
    show ?thesis
      using post_Done [OF p d] clients_ok_mono [OF i(2) k(2,1,6)] alive_heap [OF i(3) k(1)] i(4) k(5) by (simp add: sys_ok_def)
  qed
qed

lemma post_sys_cli:
  assumes "hmap_laws e" and "\<And>t. e_ev_ok e t" and "sys_ok e s" and "cli_enabled e ev s"
  shows "post (cli_faults ev) (\<lambda>s'. sys_ok e s' \<and> cframe s s') (cli_exec e ev s)"
proof (rule post_cases)
  have i: "engine_ok e {} s" "clients_ok {} s" "alive s" "paths_ok (resources s)" using assms(3) by (simp_all add: sys_ok_def)
  then have c: "cl_inv e s {} s" by (simp add: cl_inv_def engine_ok_def)
  note p = post_cli_exec [OF assms(1,2) c assms(4)]
  show "f \<in> cli_faults ev" if "cli_exec e ev s = Fault f" for f using p that by simp
  show "sys_ok e s' \<and> cframe s s'" if d: "cli_exec e ev s = Done s'" for s'
  proof -
    have c': "cframe s s'" "dups_ok e s'" "clients_ok {} s'" using post_Done [OF p d] by (simp_all add: cl_inv_def)
    moreover have "alive s'" using post_Done [OF alive_exec [OF i(3)] d] by simp
    ultimately show ?thesis using cframe_engine [OF c'(1) i(1) c'(2)] i(4) by (simp add: sys_ok_def cframe_def)
  qed
qed

lemma sys_ok_upd:
  assumes "sys_ok e s" and "paths_ok rs" and "\<forall>r \<in> set rs. cb_ok (rc_cb r)" and "\<And>f. fb = Some f \<Longrightarrow> cb_ok f"
  shows "sys_ok e (s\<lparr>resources := rs, fallback := fb, s_cfg := cfg\<rparr>)"
  using assms
  by (auto simp: sys_ok_def engine_ok_def dups_ok_def obs_ok_def srvs_ok_def cbs_ok_def clients_ok_def alive_but_def)

lemma post_sys_calls:
  assumes "sys_ok e s" and "sys_enabled e ev s" and "\<And>ev'. ev \<noteq> Sys_srv ev'" and "\<And>ev'. ev \<noteq> Sys_cli ev'"
  shows "post {} (\<lambda>s'. sys_ok e s') (sys_exec e ev s)"
proof -
  have k: "paths_ok (resources s)" "\<forall>r \<in> set (resources s). cb_ok (rc_cb r)" "\<And>f. fallback s = Some f \<Longrightarrow> cb_ok f"
    using assms(1) by (simp_all add: sys_ok_def engine_ok_def cbs_ok_def)
  have upd: "sys_ok e (s\<lparr>resources := rs\<rparr>)" if "paths_ok rs" "\<forall>r \<in> set rs. cb_ok (rc_cb r)" for rs
    using sys_ok_upd [OF assms(1) that k(3), where fb = "fallback s" and cfg = "s_cfg s"] by simp
  show ?thesis
  proof (cases ev)
    case (Sys_register url cb)
    show ?thesis
    proof (cases "ec_register_cb url cb s")
      case (Pair rc s')
      then have s': "rc = C_ERR \<and> s' = s \<or> reg_put url cb s = Some s' \<and> s' = s\<lparr>resources := resources s @ [\<lparr>rc_path = url, rc_cb = cb\<rparr>]\<rparr>"
        by (auto simp: reg_put_def ec_register_cb_def split: if_splits)
      then show ?thesis
      proof
        assume "reg_put url cb s = Some s' \<and> s' = s\<lparr>resources := resources s @ [\<lparr>rc_path = url, rc_cb = cb\<rparr>]\<rparr>"
        with reg_put_effect [OF k(1), of url cb s'] upd [of "resources s'"] k(2) assms(2) Sys_register Pair show ?thesis by auto
      qed (use assms(1) Sys_register Pair in auto)
    qed
  next
    case (Sys_unregister url)
    have "sys_ok e (s\<lparr>resources := rs\<rparr>)" if "remove_rescb url (resources s) = Some rs" for rs
      using remove_rescb_find [OF k(1) that] k(2) by (intro upd) auto
    then show ?thesis using assms(1) Sys_unregister by (auto simp: ec_unregister_cb_def split: option.split)
  next
    case (Sys_fallback fb)
    then show ?thesis using sys_ok_upd [OF assms(1) k(1,2), where fb = fb and cfg = "s_cfg s"] assms(2) by (auto simp: ec_register_fb_def split: option.splits)
  next
    case (Sys_block_size n)
    then show ?thesis using sys_ok_upd [OF assms(1) k, where fb = "fallback s"] by (simp add: ec_set_block_size_def split: prod.split)
  qed (use assms(3,4) in auto)
qed

interpretation sys_events: event_system "sys_exec e" "sys_enabled e"
    "\<lambda>s. hmap_laws e \<and> (\<forall>t. e_ev_ok e t) \<and> sys_ok e s" sys_faults
  for e :: "'m env"
proof
  fix s :: "('m, 'z) ec_scheme" and ev
  assume ok: "hmap_laws e \<and> (\<forall>t. e_ev_ok e t) \<and> sys_ok e s" and en: "sys_enabled e ev s"
  have "post (sys_faults ev) (sys_ok e) (sys_exec e ev s)"
  proof (cases ev)
    case (Sys_srv ev')
    with ok en post_sys_srv [of e s ev'] show ?thesis by simp
  next
    case (Sys_cli ev')
    with ok en post_sys_cli [of e s ev'] show ?thesis by (auto elim!: post_mono)
  qed (use ok en post_sys_calls [of e s ev] in auto)
  then show "post (sys_faults ev) (\<lambda>s. hmap_laws e \<and> (\<forall>t. e_ev_ok e t) \<and> sys_ok e s) (sys_exec e ev s)"
    by (rule post_mono) (use ok in auto)
qed

abbreviation sys_reachable :: "'m env \<Rightarrow> ('m, 'z) ec_scheme \<Rightarrow> ('m, 'z) ec_scheme \<Rightarrow> bool" where
  "sys_reachable e \<equiv> reach (sys_exec e) (sys_enabled e)"

lemma init_sys_ok: "e_hm_get e m = (\<lambda>_. None) \<Longrightarrow> sys_ok e (ec_init m)"
  using init_ok [of e m] by (simp add: sys_ok_def alive_but_def paths_ok_def)


subsection \<open>Draining the queue of clients\<close>

lemma free_heap: assumes "ec_client_free a s = Done s'" shows "cl_heap s' = (cl_heap s)(a := None)"
proof -
  from assms obtain s1 cli where u: "ec_client_unregister a s = Done s1" "get_cli a s1 = Done cli"
    "s' = note_closed (snd (ec_flow_term (cl_flow cli) False)) (s1\<lparr>cl_heap := (cl_heap s1)(a := None)\<rparr>)"
    by (auto simp: ec_client_free_def run_bind_Done_iff case_prod_beta)
  have "(cl_heap s1)(a := None) = (cl_heap s)(a := None)"
    using u(1) by (auto simp: ec_client_unregister_def run_bind_Done_iff Let_def split: if_splits dest!: del_effect)
  with u(3) show ?thesis by (simp add: note_closed_def)
qed

text \<open>A final state that is not REQ_DONE, of a client that the engine owns.\<close>

lemma set_final_heap:
  assumes "ec_client_set_state e a st s = Done (fin, s')" and "cl_heap s a = Some cli" and "ec_client_state_is_final st"
    and "st \<noteq> EC_CLI_STATE_REQ_DONE" and "\<not> cl_userown cli"
  shows "cl_heap s' = (cl_heap s)(a := None) \<and> (\<exists>lg. cl_log s' = cl_log s @ lg)"
proof -
  have g: "get_cli a s = Done cli" using assms(2) by (simp add: get_cli_def)
  have act: "cli_actions e (is_con_cli cli) st cli s = Done (C_OK, cli, s)" by (rule final_no_action) (use assms(3,4) in auto)
  have "ec_client_check_transition (cl_state cli) st \<noteq> C_ERR" using assms(1) g by (auto simp: ec_client_set_state_def)
  with assms(1) g act obtain f2 cli2 s2 where n: "cli_notify e a (cli\<lparr>cl_state := st\<rparr>) s = Done (f2, cli2, s2)"
    and go: "(if f2 then run_bind (cli_dispose (is_con_cli cli) a cli2 s2) (\<lambda>s. Done (True, s)) else Done (False, put_cli a cli2 s2)) = Done (fin, s')"
    by (auto simp: ec_client_set_state_def Let_def is_con_cli_def [symmetric] run_bind_Done_iff [of "cli_notify e a c s" for c])
  have f2: "f2 \<and> cl_heap s2 = cl_heap s \<and> (\<exists>lg. cl_log s2 = cl_log s @ lg) \<and> cl_userown cli2 = cl_userown cli"
  proof (cases "co_cancel (cl_observe cli)")
    case True
    then have m: "cli_notify e a (cli\<lparr>cl_state := st\<rparr>) s =
        run_bind (ec_client_rst_peer e (cli\<lparr>cl_state := st\<rparr>) s) (\<lambda>(_, s). Done (True, cli\<lparr>cl_state := st\<rparr>, s))"
      using assms(3) by (simp add: cli_notify_def)
    show ?thesis
    proof (cases "ec_client_rst_peer e (cli\<lparr>cl_state := st\<rparr>) s")
      case (Done x)
      with post_Done [OF rst_heap Done] n show ?thesis unfolding m by (cases x) auto
    qed (use n in \<open>simp add: m\<close>)
  next
    case False
    then have m: "cli_notify e a (cli\<lparr>cl_state := st\<rparr>) s =
        (case ec_client_invoke_user_callback a (cli\<lparr>cl_state := st\<rparr>) s of (c, s) \<Rightarrow> Done (True, c, s))"
      using assms(3) by (simp add: cli_notify_def)
    show ?thesis
      using n unfolding m ec_client_invoke_user_callback_def
      by (cases "cl_cb cli") (auto simp: ec_client_cancel_observation_def split: if_splits)
  qed
  define c where "c = ec_cli_stop_obs_timer (if is_con_cli cli then ec_cli_stop_coap_timer (ec_cli_stop_app_timer cli2) else ec_cli_stop_app_timer cli2)"
  have "cl_userown c = cl_userown cli2" using retimed_keeps(2) [OF retimed_dispose [of cli2 "is_con_cli cli"]] by (simp add: c_def)
  then have "ec_client_free a (put_cli a c s2) = Done s'"
    using go f2 assms(5) by (auto simp: cli_dispose_def Let_def c_def [symmetric] run_bind_Done_iff)
  then have "cl_heap s' = (cl_heap s2)(a := None)" "cl_log s' = cl_log s2" using free_heap free_effect by fastforce+
  with f2 show ?thesis by simp
qed

text \<open>The timer that ends a waiting client.\<close>

definition last_timer :: "nat \<Rightarrow> ('m, 'z) ec_scheme \<Rightarrow> cli_event" where
  "last_timer a s = (case cl_heap s a of
     Some cli \<Rightarrow> if cl_state cli = EC_CLI_STATE_WAIT_NFY then Cl_obs a else Cl_app a | None \<Rightarrow> Cl_app a)"

lemma last_timer_ends:
  assumes "sys_ok e s" and "cl_heap s a = Some cli" and "cl_linked cli" and "\<And>t. e_ev_ok e t" and "hmap_laws e"
  shows "cli_enabled e (last_timer a s) s \<and>
    (\<exists>s'. cli_exec e (last_timer a s) s = Done s' \<and> sys_ok e s' \<and> cl_heap s' = (cl_heap s)(a := None) \<and> (\<exists>lg. cl_log s' = cl_log s @ lg) \<and>
      (cl_cb cli \<noteq> None \<and> \<not> co_cancel (cl_observe cli) \<longrightarrow>
         (\<exists>st. cl_log s' = cl_log s @ [(a, st, f_resp_code (cl_flow cli))] \<and> ec_client_state_is_final st)))"
proof -
  have c: "cl_inv e s {} s" using assms(1) by (simp add: sys_ok_def cl_inv_def engine_ok_def)
  have own: "\<not> cl_userown cli" using rest_cbusy(1) [OF c assms(2)] assms(2) by (auto elim!: cbusyE simp: cli_ok_def)
  have w: "cl_state cli \<in> {EC_CLI_STATE_REQ_SENT, EC_CLI_STATE_REQ_ACKD, EC_CLI_STATE_WAIT_NFY}"
    using rest_cbusy(2) [OF c assms(2)] assms(3) by (simp add: cli_waits_def)
  have "ticking cli" using assms(1,2) alive_at by (auto simp: sys_ok_def)
  with own w have p: "if cl_state cli = EC_CLI_STATE_WAIT_NFY then timer_pending (cl_obs cli) else timer_pending (cl_app cli)"
    by (auto simp: ticking_def)
  then have en: "cli_enabled e (last_timer a s) s" using assms(2) by (simp add: last_timer_def)
  have "cli_faults (last_timer a s) = {}" by (simp add: last_timer_def split: option.split)
  then obtain s' where d: "cli_exec e (last_timer a s) s = Done s'" "sys_ok e s'"
    using post_sys_cli [OF assms(5,4,1) en] by (auto simp: post_Done_iff)
  obtain cli1 st fin where x: "ec_client_set_state e a st (put_cli a cli1 s) = Done (fin, s')" "ec_client_state_is_final st"
    "st \<noteq> EC_CLI_STATE_REQ_DONE" "cl_userown cli1 = cl_userown cli" "cl_cb cli1 = cl_cb cli" "cl_flow cli1 = cl_flow cli"
    "co_cancel (cl_observe cli1) = co_cancel (cl_observe cli)"
  proof (cases "cl_state cli = EC_CLI_STATE_WAIT_NFY")
    case True
    let ?c = "cli\<lparr>cl_obs := timer_fired (cl_obs cli)\<rparr>"
    have "put_cli a y (put_cli a z s) = put_cli a y s" for y z by (simp add: put_cli_def)
    with True d(1) assms(2) obtain fin where "ec_client_set_state e a EC_CLI_STATE_OBS_TIMEOUT
        (put_cli a (?c\<lparr>cl_observe := (cl_observe ?c)\<lparr>co_on := False\<rparr>\<rparr>) s) = Done (fin, s')"
      by (auto simp: last_timer_def cli_obs_fires_def ec_cli_obs_timeout_def get_cli_def run_bind_Done_iff)
    then show ?thesis by (rule that) (simp_all add: fsm_simps)
  next
    case False
    with d(1) assms(2) obtain fin where "ec_client_set_state e a EC_CLI_STATE_APP_TIMEOUT
        (put_cli a (cli\<lparr>cl_app := timer_fired (cl_app cli)\<rparr>) s) = Done (fin, s')"
      by (auto simp: last_timer_def cli_app_fires_def ec_cli_app_timeout_def get_cli_def run_bind_Done_iff)
    then show ?thesis by (rule that) (simp_all add: fsm_simps)
  qed
  have h: "cl_heap (put_cli a cli1 s) a = Some cli1" by simp
  have "cl_heap s' = (cl_heap s)(a := None) \<and> (\<exists>lg. cl_log s' = cl_log s @ lg)"
    using set_final_heap [OF x(1) h x(2,3)] x(4) own by simp
  moreover have "cl_log s' = cl_log s @ [(a, st, f_resp_code (cl_flow cli))]" if "cl_cb cli \<noteq> None" "\<not> co_cancel (cl_observe cli)"
    using set_cli_final [OF x(1) h x(2)] x(3-7) own that by auto
  ultimately show ?thesis using en d x(2) by blast
qed

lemma linked_listed:
  "sys_ok e s \<Longrightarrow> distinct (cl_list s) \<and> set (cl_list s) = {a. \<exists>cli. cl_heap s a = Some cli \<and> cl_linked cli}"
  unfolding sys_ok_def clients_ok_def cli_ok_def by blast

text \<open>A client that has ended, and was told unless it had cancelled its observation.\<close>

definition ended :: "nat \<Rightarrow> ec_client \<Rightarrow> (nat \<times> ec_cli_state \<times> ec_rc) list \<Rightarrow> ('m, 'z) ec_scheme \<Rightarrow> bool" where
  "ended a cli lg s \<longleftrightarrow> cl_heap s a = None \<and>
     (cl_cb cli \<noteq> None \<and> \<not> co_cancel (cl_observe cli) \<longrightarrow>
       (\<exists>st. (a, st, f_resp_code (cl_flow cli)) \<in> set lg \<and> ec_client_state_is_final st))"

lemma drain:
  assumes "sys_ok e s" and "\<And>t. e_ev_ok e t" and "hmap_laws e"
  shows "\<exists>evs s' lg. run_events (sys_exec e) (sys_enabled e) (map Sys_cli evs) s = Done s' \<and> length evs = length (cl_list s) \<and>
    set evs \<subseteq> (\<Union>a \<in> set (cl_list s). {Cl_app a, Cl_obs a}) \<and> cl_list s' = [] \<and> cl_log s' = cl_log s @ lg \<and>
    (\<forall>a. cl_heap s a = None \<longrightarrow> cl_heap s' a = None) \<and>
    (\<forall>a cli. cl_heap s a = Some cli \<longrightarrow> cl_linked cli \<longrightarrow> ended a cli lg s')"
  using assms(1)
proof (induction "length (cl_list s)" arbitrary: s)
  case 0
  with linked_listed [OF 0(2)] show ?case by (intro exI [of _ "[]"] exI [of _ s]) auto
next
  case (Suc n)
  note ll = linked_listed [OF Suc.prems]
  obtain a where a: "a \<in> set (cl_list s)" using Suc(2) by (cases "cl_list s") auto
  then obtain cli where c: "cl_heap s a = Some cli" "cl_linked cli" using ll by blast
  obtain s1 lg1 where s1: "cli_enabled e (last_timer a s) s" "cli_exec e (last_timer a s) s = Done s1" "sys_ok e s1"
    "cl_heap s1 = (cl_heap s)(a := None)" "cl_log s1 = cl_log s @ lg1" "ended a cli lg1 s1"
    using last_timer_ends [OF Suc.prems c assms(2,3)] unfolding ended_def by fastforce
  note l1 = linked_listed [OF s1(3)]
  have set1: "set (cl_list s1) = set (cl_list s) - {a}" using ll l1 s1(4) by auto
  then have "length (cl_list s1) = n" using ll l1 a Suc(2) by (metis card_Diff_singleton diff_Suc_1 distinct_card)
  from Suc(1) [OF this [symmetric] s1(3)] obtain evs s' lg where r: "run_events (sys_exec e) (sys_enabled e) (map Sys_cli evs) s1 = Done s'"
    "length evs = length (cl_list s1)" "set evs \<subseteq> (\<Union>a \<in> set (cl_list s1). {Cl_app a, Cl_obs a})" "cl_list s' = []" "cl_log s' = cl_log s1 @ lg"
    "\<forall>b. cl_heap s1 b = None \<longrightarrow> cl_heap s' b = None" "\<forall>b cli. cl_heap s1 b = Some cli \<longrightarrow> cl_linked cli \<longrightarrow> ended b cli lg s'" by blast
  have ev: "last_timer a s \<in> {Cl_app a, Cl_obs a}" by (simp add: last_timer_def split: option.split)
  have "run_events (sys_exec e) (sys_enabled e) (map Sys_cli (last_timer a s # evs)) s = Done s'" using s1(1,2) r(1) by simp
  moreover have "length (last_timer a s # evs) = length (cl_list s)" using r(2) \<open>length (cl_list s1) = n\<close> Suc(2) by simp
  moreover have "set (last_timer a s # evs) \<subseteq> (\<Union>a \<in> set (cl_list s). {Cl_app a, Cl_obs a})" using r(3) set1 a ev by auto
  moreover have "cl_log s' = cl_log s @ lg1 @ lg" using r(5) s1(5) by simp
  moreover have "cl_heap s' b = None" if "cl_heap s b = None" for b using that r(6) s1(4) by simp
  moreover have "ended b d (lg1 @ lg) s'" if "cl_heap s b = Some d" "cl_linked d" for b d
  proof (cases "b = a")
    case True
    with that(1) c(1) r(6) s1(4,6) show ?thesis by (auto simp: ended_def)
  next
    case False
    with that s1(4) r(7) have "ended b d lg s'" by simp
    then show ?thesis by (auto simp: ended_def)
  qed
  ultimately show ?case using r(4) by blast
qed

subsection \<open>Properties\<close>

lemma demo_ec_sys_ok: "sys_ok demo_env (demo_ec demo_client [0])"
  using demo_ec_engine_ok demo_clients_ok
  by (simp add: sys_ok_def alive_but_def ticking_def paths_ok_def) (simp add: demo_ec_def demo_client_def timer_pending_def)







end
