(* ===== verification/Exchange.thy ===== *)
theory Exchange
  imports System Srv_Answers Cli_Exchange
begin

text \<open>
  Both engines in one exchange: what a request becomes at the server, from the bytes received to the lookup of its
  callback; and what the bytes of the answer do to the client that waits for them. The network is not part of it: it
  is the assumption that the bytes one side sent are the bytes the other side receives.
\<close>

subsection \<open>A request reaches the server\<close>

text \<open>The flow of the transaction of a confirmable request.\<close>

definition request_conn :: "int \<Rightarrow> sockaddr \<Rightarrow> ec_conn \<Rightarrow> bool" where
  "request_conn sd peer conn \<longleftrightarrow>
     c_socket conn = sd \<and> c_peer conn = copy_addr (the (ec_net_socklen peer)) peer sockaddr_zero \<and>
     \<not> c_is_multicast conn \<and> ec_conn_get_confirmable conn = Some True"

text \<open>
  What has to hold of a datagram for the server to look up a callback: \<open>pdu\<close> is its header, \<open>opts\<close> are its options,
  \<open>s1\<close> is the state in which its MID has been noted, \<open>url\<close> the URL without query that its options and the address of
  the server make up.
\<close>

definition confirmable_request ::
    "'m env \<Rightarrow> int \<Rightarrow> sockaddr \<Rightarrow> byte list \<Rightarrow> ec_pdu \<Rightarrow> ec_opts \<Rightarrow> ('m, 'z) srv_st_scheme \<Rightarrow> ('m, 'z) srv_st_scheme \<Rightarrow> bool" where
  "confirmable_request e sd peer raw pdu opts s s1 \<longleftrightarrow>
     sd \<noteq> -1 \<and> sd \<noteq> 0 \<and> ec_net_socklen peer \<noteq> None \<and>
     ec_pdu_decode_header (e_le e) (fst (ec_pdu_new_empty s)) raw (length raw) = (C_OK, pdu) \<and>
     EC_IS_METHOD (unat (h_code (p_hdr_bits pdu))) \<and> h_t (p_hdr_bits pdu) = EC_COAP_CON \<and>
     ec_dups_handle_incoming_climsg e (EC_PDU_MID pdu) sd peer (tick s) = Done (0, s1) \<and>
     (\<exists>olen. ec_opts_decode (p_opts pdu) raw (length raw) (unat (h_oc (p_hdr_bits pdu))) = Done (EC_RC_UNSET, opts, olen) \<and>
        olen + EC_COAP_HDR_SIZE \<le> length raw \<and> length raw < 2 ^ 64)"

definition saved_url :: "'m env \<Rightarrow> ec_opts \<Rightarrow> sockaddr \<Rightarrow> byte list \<Rightarrow> bool" where
  "saved_url e opts us url \<longleftrightarrow>
     (\<exists>u px. ec_opts_compose_url e opts us True = (Some u, px) \<and>
        (\<exists>q. e_strlcpy e (e_uri_query e u) (e_TOKEN_SZ e) = (C_OK, q)) \<and> e_uri_knead e (e_uri_set_query e u []) = Some url)"

lemma url_saved: "saved_url e opts us url \<Longrightarrow>
  \<exists>u px uri. ec_opts_compose_url e opts us True = (Some u, px) \<and>
    (\<forall>flow. ec_flow_save_url e flow (Some u) px = (C_OK, flow\<lparr>f_urlstr := url, f_uri := uri, f_proxy_uri := px\<rparr>))"
  by (fastforce simp: saved_url_def ec_flow_save_url_def Let_def)

text \<open>The token of the options, as the server keeps it.\<close>

definition carries_token :: "ec_opts \<Rightarrow> nat \<Rightarrow> byte list \<Rightarrow> bool" where
  "carries_token opts n tok \<longleftrightarrow>
     (case ec_opts_get opts EC_OPT_TOKEN of
        None \<Rightarrow> n = 0 \<and> tok = []
      | Some t \<Rightarrow> 0 < n \<and> n \<le> 8 \<and> o_l t = n \<and> length tok = n \<and> (\<exists>b. o_v t = Some b \<and> take n b = tok))"

lemma token_saved:
  assumes "carries_token opts n tok" and "length (f_token flow) = 8"
  shows "\<exists>m. (case ec_opts_get opts EC_OPT_TOKEN of
       None \<Rightarrow> ec_flow_save_token flow None 0
     | Some t \<Rightarrow> ec_flow_save_token flow (o_v t) (o_l t)) = Done (flow\<lparr>f_token := m, f_token_sz := n\<rparr>) \<and> take n m = tok \<and> length m = 8 \<and> n \<le> 8"
proof (cases "ec_opts_get opts EC_OPT_TOKEN")
  case None
  with assms show ?thesis by (intro exI [of _ "replicate 8 0"]) (simp add: carries_token_def ec_flow_save_token_def)
next
  case (Some t)
  with assms obtain b where "o_v t = Some b" "take n b = tok" "o_l t = n" "0 < n" "n \<le> 8" "length tok = n"
    by (auto simp: carries_token_def)
  with Some assms(2) show ?thesis
    by (intro exI [of _ "tok @ drop n (f_token flow)"]) (simp add: ec_flow_save_token_def)
qed

lemma climsg_quiet: "ec_dups_handle_incoming_climsg e mid sd ss b = Done (0, b') \<Longrightarrow> w_sent b' = w_sent b"
  by (auto simp: ec_dups_handle_incoming_climsg_def ec_dups_insert_def ec_recvd_pdu_new_def ec_recvd_pdu_free_def tick_def Let_def
      split: option.splits if_splits prod.splits crc.splits)

lemma decode_none: "EC_COAP_HDR_SIZE \<le> n \<Longrightarrow> (if h_oc h \<noteq> 0 then ec_opts_decode opts raw n (unat (h_oc h)) else Done (EC_RC_UNSET, opts, 0)) =
  ec_opts_decode opts raw n (unat (h_oc h))"
  by (simp add: ec_opts_decode_def)

lemma set_req_ok:
  assumes "sv_heap s a = Some srv" and "sv_state srv = EC_SRV_STATE_NONE"
  shows "ec_server_set_state e a EC_SRV_STATE_REQ_OK s = Done (put_srv a (srv\<lparr>sv_state := EC_SRV_STATE_REQ_OK\<rparr>) s)"
  using assms by (simp add: ec_server_set_state_def get_srv_def srv_state_timers_def ec_server_state_is_final_def)

text \<open>What the transaction is when its callback is looked up.\<close>

definition request_decoded ::
    "'m env \<Rightarrow> nat \<Rightarrow> int \<Rightarrow> sockaddr \<Rightarrow> u16 \<Rightarrow> nat \<Rightarrow> byte list \<Rightarrow> byte list \<Rightarrow> ('m, 'z) srv_st_scheme \<Rightarrow> bool" where
  "request_decoded e a sd peer mid n tok url s \<longleftrightarrow>
     busy e a False EC_SRV_STATE_REQ_OK s \<and>
     (\<exists>srv req res. sv_heap s a = Some srv \<and> sv_req srv = Some req \<and> EC_PDU_MID req = mid \<and> sv_res srv = Some res \<and>
        p_opts res = ec_opts_init \<and> p_sibling res = None \<and> p_payload res = None \<and>
        request_conn sd peer (f_conn (sv_flow srv)) \<and> f_urlstr (sv_flow srv) = url \<and> \<not> f_is_sep (sv_flow srv) \<and>
        f_token_sz (sv_flow srv) = n \<and> take n (f_token (sv_flow srv)) = tok \<and> length (f_token (sv_flow srv)) = 8)"

lemma request_reaches_lookup:
  assumes laws: "hmap_laws e" and ok: "engine_ok e {} s" and arr: "confirmable_request e sd peer raw pdu opts s s1"
    and tok: "carries_token opts n tok" and us: "\<And>t. e_getsockname e t sd = Some us" and url: "saved_url e opts us url"
  shows "\<exists>a s'. ec_server_handle_pdu e sd raw (length raw) peer s = srv_dispatch e a s' \<and>
    request_decoded e a sd peer (EC_PDU_MID pdu) n tok url s' \<and>
    w_sent s' = w_sent s \<and> resources s' = resources s \<and> fallback s' = fallback s \<and> same_dups s' s1"
proof -
  have h: "sd \<noteq> -1" "sd \<noteq> 0" "ec_pdu_decode_header (e_le e) (fst (ec_pdu_new_empty s)) raw (length raw) = (C_OK, pdu)"
    "EC_IS_METHOD (unat (h_code (p_hdr_bits pdu)))" "h_t (p_hdr_bits pdu) = EC_COAP_CON"
    "ec_dups_handle_incoming_climsg e (EC_PDU_MID pdu) sd peer (tick s) = Done (0, s1)"
    using arr by (simp_all add: confirmable_request_def)
  obtain k where k: "ec_net_socklen peer = Some k" using arr by (auto simp: confirmable_request_def)
  obtain olen where dec: "ec_opts_decode (p_opts pdu) raw (length raw) (unat (h_oc (p_hdr_bits pdu))) = Done (EC_RC_UNSET, opts, olen)"
    "olen + EC_COAP_HDR_SIZE \<le> length raw" "length raw < 2 ^ 64" using arr by (auto simp: confirmable_request_def)
  have code: "h_code (p_hdr_bits pdu) \<noteq> 0" using h(4) by (auto simp: EC_IS_METHOD_def)
  have i0: "engine_ok e {} (tick s)" by (rule inv_ticked [OF ticked_tick ok])
  have st: "base_step (tick s) s1 \<and> dups_ok e s1" using post_incoming [OF laws inv_parts(1) [OF i0], of "EC_PDU_MID pdu" sd peer] h(6) by simp
  have i1: "engine_ok e {} s1" using lower_inv [OF base_lower i0] inv_parts(2) [OF i0] st by blast
  obtain a s2 where new: "ec_server_new s1 = (a, s2)" by (cases "ec_server_new s1")
  have b2: "busy e a False EC_SRV_STATE_NONE s2" by (rule post_new [OF i1 new])
  have find: "srv_find e raw (length raw) sd peer s = Done (Srv_found a pdu, s2)"
    using h(3,4,6) code new by (simp add: srv_find_def ec_pdu_new_empty_def)
  define srv0 where "srv0 = \<lparr>sv_state = EC_SRV_STATE_NONE, sv_flow = ec_flow_init\<lparr>f_conn := ec_conn_init\<lparr>c_socket := 0\<rparr>\<rparr>,
         sv_req = None, sv_res = None, sv_octrl = None, sv_parent = False, sv_t_coap = timer_zero, sv_t_resched = timer_zero\<rparr>"
  have g2: "sv_heap s2 a = Some srv0" "get_srv a s2 = Done srv0" using new by (auto simp: ec_server_new_def srv0_def get_srv_def)
  define flow where "flow = ec_flow_init\<lparr>f_conn := ec_conn_init\<lparr>c_socket := sd, c_us := us, c_peer := copy_addr k peer sockaddr_zero\<rparr>\<rparr>"
  have en: "srv_endpoints e (sv_flow srv0) sd peer s2 = (C_OK, flow, tick s2)"
    using h(1,2) us k by (simp add: srv_endpoints_def srv0_def ec_conn_save_us_def ec_conn_save_peer_def flow_def ec_conn_init_def)
  define flow1 where "flow1 = flow\<lparr>f_conn := ec_conn_set_confirmable (f_conn flow) True\<rparr>"
  define s3 where "s3 = put_srv a (srv0\<lparr>sv_flow := flow1\<rparr>) (tick s2)"
  have b3: "busy e a False EC_SRV_STATE_NONE s3"
    unfolding s3_def by (rule busy_put [OF busy_ticked [OF ticked_tick b2]])
      (simp_all add: srv0_def flow1_def flow_def ec_flow_init_def timer_ok_def timer_zero_def)
  have hd: "ec_server_handle_pdu e sd raw (length raw) peer s = srv_request e a pdu raw (length raw) s3"
    using h(1) find g2 en code h(5) dec(2) by (auto simp: ec_server_handle_pdu_def s3_def flow1_def Let_def)
  obtain pdu' where pl: "srv_payload e (pdu\<lparr>p_opts := opts\<rparr>) raw (length raw) olen = Done pdu'" "p_opts pdu' = opts"
    "p_hdr_bits pdu' = p_hdr_bits pdu"
    using payload_attached [OF dec(2) _ dec(3), of raw e "pdu\<lparr>p_opts := opts\<rparr>"] by auto
  define flow2 where "flow2 = flow1\<lparr>f_method := unat (h_code (p_hdr_bits pdu))\<rparr>"
  have "length (f_token flow2) = 8" by (simp add: flow2_def flow1_def flow_def ec_flow_init_def)
  from token_saved [OF tok this] obtain m where m: "(case ec_opts_get opts EC_OPT_TOKEN of
       None \<Rightarrow> ec_flow_save_token flow2 None 0
     | Some t \<Rightarrow> ec_flow_save_token flow2 (o_v t) (o_l t)) = Done (flow2\<lparr>f_token := m, f_token_sz := n\<rparr>)"
     "take n m = tok" "length m = 8" "n \<le> 8" by blast
  obtain u px uri where u: "ec_opts_compose_url e opts us True = (Some u, px)"
    "\<And>flow. ec_flow_save_url e flow (Some u) px = (C_OK, flow\<lparr>f_urlstr := url, f_uri := uri, f_proxy_uri := px\<rparr>)"
    using url_saved [OF url] by blast
  define flow3 where "flow3 = flow2\<lparr>f_token := m, f_token_sz := n, f_urlstr := url, f_uri := uri, f_proxy_uri := px\<rparr>"
  define srv1 where "srv1 = srv0\<lparr>sv_flow := flow3, sv_req := Some pdu', sv_res := Some (fst (ec_pdu_new_empty s3))\<rparr>"
  define s4 where "s4 = put_srv a srv1 (tick s3)"
  have b4: "busy e a False EC_SRV_STATE_NONE s4"
    unfolding s4_def by (rule busy_put [OF busy_ticked [OF ticked_tick b3]])
      (simp_all add: srv1_def srv0_def flow3_def m(4) timer_ok_def timer_zero_def)
  have g4: "sv_heap s4 a = Some srv1" "sv_state srv1 = EC_SRV_STATE_NONE" by (simp_all add: s4_def srv1_def srv0_def)
  define s5 where "s5 = put_srv a (srv1\<lparr>sv_state := EC_SRV_STATE_REQ_OK\<rparr>) s4"
  have us2: "c_us (f_conn flow2) = us"
    by (simp add: flow2_def flow1_def flow_def ec_conn_set_confirmable_def)
  have g3: "get_srv a s3 = Done (srv0\<lparr>sv_flow := flow1\<rparr>)" by (simp add: s3_def get_srv_def)
  have nr: "ec_server_new_response (srv0\<lparr>sv_flow := flow2\<lparr>f_token := m, f_token_sz := n, f_urlstr := url, f_uri := uri, f_proxy_uri := px\<rparr>,
      sv_req := Some pdu'\<rparr>) s3 = (C_OK, srv1, tick s3)"
    by (simp add: ec_server_new_response_def ec_pdu_new_empty_def srv1_def flow3_def srv0_def)
  have sm: "ec_flow_set_method flow1 (unat (h_code (p_hdr_bits pdu))) = (C_OK, flow2)"
    using h(4) by (simp add: ec_flow_set_method_def flow2_def)
  have st5: "ec_server_set_state e a EC_SRV_STATE_REQ_OK (put_srv a srv1 (tick s3)) = Done s5"
    using set_req_ok [OF g4] by (simp add: s5_def s4_def)
  have ld: "EC_COAP_HDR_SIZE \<le> length raw" using dec(2) by simp
  have rq: "srv_request e a pdu raw (length raw) s3 = srv_dispatch e a s5"
    unfolding srv_request_def Let_def decode_none [OF ld] dec(1) run_bind.simps prod.case
    by (simp add: pl g3 sm m(1) us2 u nr st5)
  have b5: "busy e a False EC_SRV_STATE_REQ_OK s5"
    unfolding s5_def by (rule busy_put [OF b4]) (simp_all add: srv1_def srv0_def flow3_def m(4) timer_ok_def timer_zero_def)
  have "request_conn sd peer (f_conn flow3)"
    using k by (simp add: request_conn_def flow3_def flow2_def flow1_def flow_def ec_conn_set_confirmable_def ec_conn_get_confirmable_def
        ec_conn_init_def)
  then have "request_decoded e a sd peer (EC_PDU_MID pdu) n tok url s5"
    using b5 pl(3) m(2,3)
    by (simp add: request_decoded_def s5_def srv1_def srv0_def flow3_def ec_pdu_new_empty_def flow2_def flow1_def flow_def ec_flow_init_def)
  moreover have "same_dups s5 s1"
    using new by (auto simp: s5_def s4_def s3_def put_srv_def tick_def ec_server_new_def same_dups_def)
  moreover have "w_sent s5 = w_sent s \<and> resources s5 = resources s \<and> fallback s5 = fallback s"
    using climsg_quiet [OF h(6)] st new lower_keeps [OF base_lower [of "tick s" s1 e]] inv_parts(2) [OF i0]
    by (auto simp: s5_def s4_def s3_def put_srv_def tick_def ec_server_new_def)
  ultimately show ?thesis using hd rq by auto
qed

subsection \<open>The answer reaches the client\<close>

text \<open>A client that waits for the response to a request, and does not observe.\<close>

definition awaiting :: "nat \<Rightarrow> ec_client \<Rightarrow> ('m, 'z) ec_scheme \<Rightarrow> bool" where
  "awaiting a cli s \<longleftrightarrow>
     cl_heap s a = Some cli \<and> cl_state cli = EC_CLI_STATE_REQ_SENT \<and> cl_linked cli \<and> cl_cb cli \<noteq> None \<and> cl_res cli = [] \<and>
     \<not> co_on (cl_observe cli) \<and> \<not> co_cancel (cl_observe cli) \<and> ec_opts_get (p_opts (cl_req cli)) EC_OPT_OBSERVE = None \<and>
     \<not> c_is_multicast (f_conn (cl_flow cli))"

lemma token_recognised:
  assumes "wf_opts opts" and "abs_opts opts EC_OPT_TOKEN = (if n = 0 then [] else [take n tok])" and "length tok = 8" and "n \<le> 8"
    and "f_token_sz flow = n" and "take n (f_token flow) = take n tok"
  shows "token_echoed opts flow"
proof (cases "opts_of opts EC_OPT_TOKEN")
  case Nil
  then show ?thesis by (simp add: token_echoed_def ec_opts_get_conv)
next
  case (Cons t ts)
  have b: "opt_bytes t = take n tok" using assms(2) Cons by (auto simp: abs_opts_def split: if_splits)
  have "t \<in> set (opts_of opts EC_OPT_TOKEN)" using Cons by simp
  then have "t \<in> set (opts_bundle opts)" "o_sym t = EC_OPT_TOKEN" by (auto simp: opts_of_def)
  then have "wf_opt t" "o_sym t = EC_OPT_TOKEN" using assms(1) by (auto simp: wf_opts_def)
  then obtain v where v: "o_v t = Some v" "length v = o_l t"
    by (auto simp: wf_opt_def opt_table_defs split: option.splits)
  with b have "v = take n tok" by (simp add: opt_bytes_def)
  with v assms(3-6) Cons show ?thesis by (simp add: token_echoed_def ec_opts_get_conv opt_mem_def)
qed

lemma resp_code_byte: "EC_IS_RESP_CODE rc \<Longrightarrow> uint (word_of_int rc :: byte) = rc \<and> (31 :: byte) < word_of_int rc"
  by (auto simp: EC_IS_RESP_CODE_def word_less_def uint_word_of_int)

lemma response_size:
  assumes "encode_response le pdu flow EC_COAP_ACK rc mid = (C_OK, pdu')" and "EC_IS_RESP_CODE rc" and "readable (p_opts pdu)"
    and "length (enc (p_opts pdu)) = EC_OPTS_MAX_LEN" and "length (f_token flow) = 8" and "f_token_sz flow \<le> 8"
  shows "length (wire_bytes pdu') = EC_COAP_HDR_SIZE + enc_sz (p_opts pdu') + length (gather (p_payload pdu) (p_payload_sz pdu)) \<and>
    enc_sz (p_opts pdu') \<le> EC_OPTS_MAX_LEN"
proof -
  have nr: "rc \<noteq> EC_RC_UNSET" using assms(2) by (auto simp: EC_IS_RESP_CODE_def)
  obtain opts1 where o1: "(if f_token_sz flow \<noteq> 0 then ec_opts_add_token (p_opts pdu) (f_token flow) (f_token_sz flow)
      else (C_OK, p_opts pdu)) = (C_OK, opts1)"
    using assms(1) nr by (auto simp: encode_response_def split: prod.splits crc.splits if_splits)
  then obtain opts2 where o2: "ec_opts_encode opts1 = (C_OK, opts2)"
    and p': "pdu' = encode_header le (pdu\<lparr>p_opts := opts2\<rparr>) (word_of_int rc) EC_COAP_ACK mid"
    using assms(1) nr by (auto simp: encode_response_def split: prod.splits crc.splits)
  have ta: "readable opts1" "length (enc opts1) = EC_OPTS_MAX_LEN" using token_added [OF assms(3,5,6) o1] assms(4) by auto
  from encode_readable_fits [OF ta(1) o2 ta(2)] show ?thesis by (simp add: wire_bytes_def p')
qed

text \<open>What the payload of an answer becomes.\<close>

lemma answer_payload:
  assumes "ec_pdu_decode_header le (fst (ec_pdu_new_empty s)) bs (length bs) = (C_OK, rx)"
    and "srv_payload e (rx\<lparr>p_opts := opts\<rparr>) bs (length bs) olen = Done p" and "drop (EC_COAP_HDR_SIZE + olen) bs = pl"
    and "olen + EC_COAP_HDR_SIZE \<le> length bs" and "length bs < 2 ^ 64" and "pl \<noteq> [] \<Longrightarrow> memdup_copies e"
  shows "gather (p_payload p) (p_payload_sz p) = pl"
proof -
  have n: "p_payload rx = None"
    using assms(1) by (auto simp: ec_pdu_decode_header_def ec_pdu_new_empty_def Let_def split: if_splits)
  have l: "size_sub (length bs) (olen + EC_COAP_HDR_SIZE) = length pl" using assms(3-5) by auto
  show ?thesis
  proof (cases "pl = []")
    case True
    with assms(2) n l show ?thesis by (auto simp: srv_payload_def Let_def gather_def)
  next
    case False
    with assms(6) have "e_memdup e (Some pl) (length pl) = Some pl" by (simp add: memdup_copies_def)
    with assms(2,3) l False show ?thesis by (auto simp: srv_payload_def ec_pdu_set_payload_def Let_def gather_def)
  qed
qed

lemma answer_completes:
  assumes laws: "hmap_laws e" "\<And>t. e_ev_ok e t" and ok: "engine_ok e {} s" "clients_ok {} s" and aw: "awaiting a cli s"
    and bs: "answer_bytes (e_le e) fl rc mid pl bs" "EC_IS_RESP_CODE rc" "length (f_token fl) = 8" "f_token_sz fl \<le> 8"
      "length pl < 2 ^ 63" "pl \<noteq> [] \<Longrightarrow> memdup_copies e"
    and tok: "f_token_sz (cl_flow cli) = f_token_sz fl" "take (f_token_sz fl) (f_token (cl_flow cli)) = take (f_token_sz fl) (f_token fl)"
    and new: "ec_dups_handle_incoming_srvmsg e mid sd peer (tick s) = Done (0, s1)"
  shows "\<exists>s' p. ec_client_handle_pdu e a sd bs (length bs) peer s = Done (EC_NET_CBRC_DEAD, s') \<and> cl_heap s' a = None \<and>
    cl_log s' = cl_log s @ [(a, EC_CLI_STATE_REQ_DONE, rc)] \<and> told_response e a rc p s' \<and> gather (p_payload p) (p_payload_sz p) = pl"
proof -
  obtain res res' fl' where r: "p_opts res = ec_opts_init" "gather (p_payload res) (p_payload_sz res) = pl" "f_token fl' = f_token fl"
    "f_token_sz fl' = f_token_sz fl"
    "encode_response (e_le e) res fl' EC_COAP_ACK rc mid = (C_OK, res')" "noptions (p_opts res') \<le> 15" "bs = wire_bytes res'"
    using bs(1) by (auto simp: answer_bytes_def)
  have rd: "readable ec_opts_init" "length (enc ec_opts_init) = EC_OPTS_MAX_LEN"
    by (simp_all add: readable_def wf_opts_init) (simp_all add: ec_opts_init_def)
  let ?pdu0 = "fst (ec_pdu_new_empty s)"
  obtain rx opts where d: "ec_pdu_decode_header (e_le e) ?pdu0 bs (length bs) = (C_OK, rx)" "h_code (p_hdr_bits rx) = word_of_int rc"
    "EC_PDU_MID rx = mid"
    "ec_opts_decode ec_opts_init bs (length bs) (unat (h_oc (p_hdr_bits rx))) = Done (EC_RC_UNSET, opts, enc_sz (p_opts res'))"
    "abs_opts opts = with_token fl' (abs_opts (p_opts res))"
    "drop (EC_COAP_HDR_SIZE + enc_sz (p_opts res')) bs = gather (p_payload res) (p_payload_sz res)"
    using encode_response_decodes [of EC_COAP_ACK rc res fl' "e_le e" mid res' ?pdu0] r bs(2-4) rd by auto
  have po: "p_opts rx = ec_opts_init"
    using d(1) by (auto simp: ec_pdu_decode_header_def ec_pdu_new_empty_def Let_def split: if_splits)
  have "token_echoed opts (cl_flow cli)"
    using ec_opts_decode_wf [OF d(4) wf_opts_init] d(5) r(1,3,4) bs(3,4) tok
    by (intro token_recognised [where n = "f_token_sz fl" and tok = "f_token fl"])
      (simp_all add: with_token_def abs_add_def abs_opts_def opts_of_def ec_opts_init_def)
  moreover have sz: "enc_sz (p_opts res') + EC_COAP_HDR_SIZE \<le> length bs \<and> length bs < 2 ^ 64"
    using response_size [OF r(5)] bs(2-5) rd r by (simp add: EC_OPTS_MAX_LEN_def)
  ultimately have acc: "accepts e cli bs (length bs) rx opts"
    using d(2,4) po bs(2) resp_code_byte [OF bs(2)] by (simp add: accepts_def)
  have code: "uint (h_code (p_hdr_bits rx)) = rc" using d(2) resp_code_byte [OF bs(2)] by simp
  obtain cb where "cl_cb cli = Some cb" using aw by (auto simp: awaiting_def)
  then obtain s' p olen where s': "ec_client_handle_pdu e a sd bs (length bs) peer s = Done (EC_NET_CBRC_DEAD, s')" "cl_heap s' a = None"
    "cl_log s' = cl_log s @ [(a, EC_CLI_STATE_REQ_DONE, rc)]"
    "ec_opts_decode (p_opts rx) bs (length bs) (unat (h_oc (p_hdr_bits rx))) = Done (EC_RC_UNSET, opts, olen)"
    "srv_payload e (rx\<lparr>p_opts := opts\<rparr>) bs (length bs) olen = Done p" "told_response e a rc p s'"
    using completed_with_response [OF laws ok _ _ _ _ _ _ _ _ _ d(1) acc, of a cb sd peer s1] aw new d(3) code
    by (auto simp: awaiting_def)
  have "olen = enc_sz (p_opts res')" using s'(4) d(4) po by simp
  then have "gather (p_payload p) (p_payload_sz p) = pl"
    using answer_payload [OF d(1) s'(5)] d(6) r(2) sz bs(6) by simp
  with s' show ?thesis by blast
qed

subsection \<open>The whole exchange\<close>

lemma request_decodes:
  assumes enc: "ec_pdu_encode_request e req0 flow w = (C_OK, req, w')" and r: "readable (p_opts req0)" "length (enc (p_opts req0)) = EC_OPTS_MAX_LEN"
    and con: "ec_conn_get_confirmable (f_conn flow) = Some True" and n: "noptions (p_opts req) \<le> 15"
  shows "\<exists>pdu opts. ec_pdu_decode_header (e_le e) pdu0 (wire_bytes req) (length (wire_bytes req)) = (C_OK, pdu) \<and>
    h_t (p_hdr_bits pdu) = EC_COAP_CON \<and> h_code (p_hdr_bits pdu) = of_nat (f_method flow) \<and> h_mid (p_hdr_bits pdu) = e_rng16 e (w_tick w) \<and>
    p_opts pdu = p_opts pdu0 \<and>
    ec_opts_decode ec_opts_init (wire_bytes req) (length (wire_bytes req)) (unat (h_oc (p_hdr_bits pdu))) =
      Done (EC_RC_UNSET, opts, enc_sz (p_opts req)) \<and> opts_bundle opts = opts_bundle (p_opts req0) \<and>
    enc_sz (p_opts req) + EC_COAP_HDR_SIZE \<le> length (wire_bytes req)"
proof -
  obtain opts1 where o1: "ec_opts_encode (p_opts req0) = (C_OK, opts1)"
    and req: "req = encode_header (e_le e) (req0\<lparr>p_opts := opts1\<rparr>) (of_nat (f_method flow)) EC_COAP_CON (e_rng16 e (w_tick w))"
    using enc con by (auto simp: ec_pdu_encode_request_def Let_def split: prod.splits crc.splits)
  note b = encode_readable_fits [OF r(1) o1 r(2)]
  let ?h = "p_hdr (encode_header (e_le e) (req0\<lparr>p_opts := opts1\<rparr>) (of_nat (f_method flow)) EC_COAP_CON (e_rng16 e (w_tick w)))"
  let ?pl = "gather (p_payload req0) (p_payload_sz req0)"
  have w: "wire_bytes req = ?h @ take (enc_sz opts1) (enc opts1) @ ?pl" by (simp add: wire_bytes_def req)
  have sz: "EC_COAP_HDR_SIZE \<le> length (wire_bytes req)" by (simp add: w)
  obtain pdu where pdu: "ec_pdu_decode_header (e_le e) pdu0 (wire_bytes req) (length (wire_bytes req)) = (C_OK, pdu)"
    "h_t (p_hdr_bits pdu) = EC_COAP_CON" "unat (h_oc (p_hdr_bits pdu)) = noptions opts1"
    "h_code (p_hdr_bits pdu) = of_nat (f_method flow)" "h_mid (p_hdr_bits pdu) = e_rng16 e (w_tick w)"
    using header_codec [of "length (wire_bytes req)" "req0\<lparr>p_opts := opts1\<rparr>" EC_COAP_CON "e_le e" pdu0 "of_nat (f_method flow)"
        "e_rng16 e (w_tick w)" "take (enc_sz opts1) (enc opts1) @ ?pl"] sz n
    unfolding w by (auto simp: req)
  moreover have "p_opts pdu = p_opts pdu0"
    using pdu(1) by (auto simp: ec_pdu_decode_header_def Let_def split: if_splits)
  moreover obtain opts where "ec_opts_decode ec_opts_init (wire_bytes req) (length (wire_bytes req)) (noptions opts1) =
      Done (EC_RC_UNSET, opts, enc_sz opts1)" "opts_bundle opts = opts_bundle (p_opts req0)"
    using encode_decode_readable [OF r(1,2) o1 _ sz, of ?h ?pl] unfolding w by auto
  moreover have "enc_sz opts1 + EC_COAP_HDR_SIZE \<le> length (wire_bytes req)" using b by (simp add: w)
  ultimately show ?thesis by (auto simp: req)
qed

lemma compose_url_bundle: "opts_bundle a = opts_bundle b \<Longrightarrow> ec_opts_compose_url e a us x = ec_opts_compose_url e b us x"
  by (auto simp: ec_opts_compose_url_def compose_proxy_uri_def compose_uri_def split: option.split)

lemma saved_url_bundle: "opts_bundle a = opts_bundle b \<Longrightarrow> saved_url e a us url = saved_url e b us url"
  by (simp add: saved_url_def compose_url_bundle [of a b])

lemma carries_token_bundle: "opts_bundle a = opts_bundle b \<Longrightarrow> carries_token a n tok = carries_token b n tok"
  by (simp add: carries_token_def ec_opts_get_def ec_opts_get_nth_def)

text \<open>
  A request that a client has encoded: \<open>req\<close> is what is sent for \<open>req0\<close>, with the MID \<open>mid\<close>.
\<close>

definition request_sent :: "'m env \<Rightarrow> ec_client \<Rightarrow> ec_pdu \<Rightarrow> ec_pdu \<Rightarrow> u16 \<Rightarrow> bool" where
  "request_sent e cli req0 req mid \<longleftrightarrow>
     (\<exists>(w :: world) w'. ec_pdu_encode_request e req0 (cl_flow cli) w = (C_OK, req, w') \<and> mid = e_rng16 e (w_tick w)) \<and>
     readable (p_opts req0) \<and> length (enc (p_opts req0)) = EC_OPTS_MAX_LEN \<and> noptions (p_opts req) \<le> 15 \<and> length (wire_bytes req) < 2 ^ 64 \<and>
     ec_conn_get_confirmable (f_conn (cl_flow cli)) = Some True \<and> EC_IS_METHOD (f_method (cl_flow cli)) \<and>
     carries_token (p_opts req0) (f_token_sz (cl_flow cli)) (take (f_token_sz (cl_flow cli)) (f_token (cl_flow cli)))"

lemma copied_socklen: "ec_net_socklen peer \<noteq> None \<Longrightarrow> ec_net_socklen (copy_addr n peer x) = ec_net_socklen peer"
  by (simp add: ec_net_socklen_def copy_addr_def)

text \<open>A decoded request can be answered, and the answer goes to where the request came from.\<close>

lemma decoded_to_answer:
  assumes d: "request_decoded e b sd peer mid n tok url s" and peer: "sd \<noteq> -1" "ec_net_socklen peer \<noteq> None"
  shows "\<exists>srv q res. to_answer e b srv q res s \<and> EC_PDU_MID q = mid \<and> f_urlstr (sv_flow srv) = url \<and>
    c_socket (f_conn (sv_flow srv)) = sd \<and> c_peer (f_conn (sv_flow srv)) = copy_addr (the (ec_net_socklen peer)) peer sockaddr_zero \<and>
    f_token_sz (sv_flow srv) = n \<and> n \<le> 8 \<and> take n (f_token (sv_flow srv)) = tok"
proof -
  from d obtain srv q res where rd: "busy e b False EC_SRV_STATE_REQ_OK s" "sv_heap s b = Some srv" "sv_req srv = Some q" "EC_PDU_MID q = mid"
    "sv_res srv = Some res" "p_opts res = ec_opts_init" "p_sibling res = None" "p_payload res = None"
    "request_conn sd peer (f_conn (sv_flow srv))" "f_urlstr (sv_flow srv) = url" "\<not> f_is_sep (sv_flow srv)"
    "f_token_sz (sv_flow srv) = n" "take n (f_token (sv_flow srv)) = tok" "length (f_token (sv_flow srv)) = 8"
    unfolding request_decoded_def by blast
  have ans: "answerable (sv_flow srv)" "c_socket (f_conn (sv_flow srv)) = sd"
    "c_peer (f_conn (sv_flow srv)) = copy_addr (the (ec_net_socklen peer)) peer sockaddr_zero"
    using rd(9,11,14) peer by (auto simp: request_conn_def answerable_def copied_socklen)
  have "n \<le> 8" using busyE [OF rd(1)] rd(2,12) by (metis option.inject)
  moreover have "to_answer e b srv q res s" using rd(1-8) ans(1) by (simp add: to_answer_def)
  ultimately show ?thesis using rd(4,10,12,13) ans(2,3) by blast
qed

text \<open>The server up to the lookup of the callback.\<close>

lemma request_arrives:
  assumes laws: "hmap_laws e" and us: "\<And>t. e_getsockname e t sd = Some us" and sent: "request_sent e cli req0 req mid"
    and ok: "engine_ok e {} s" and sd: "sd \<notin> {-1, 0}" and peer: "ec_net_socklen peer \<noteq> None"
    and new: "ec_dups_handle_incoming_climsg e mid sd peer (tick s) = Done (0, s1)" and url: "saved_url e (p_opts req0) us url"
  shows "\<exists>b s2 srv q res. ec_server_handle_pdu e sd (wire_bytes req) (length (wire_bytes req)) peer s = srv_dispatch e b s2 \<and>
    to_answer e b srv q res s2 \<and> EC_PDU_MID q = mid \<and> f_urlstr (sv_flow srv) = url \<and>
    c_socket (f_conn (sv_flow srv)) = sd \<and> c_peer (f_conn (sv_flow srv)) = copy_addr (the (ec_net_socklen peer)) peer sockaddr_zero \<and>
    f_token_sz (sv_flow srv) = f_token_sz (cl_flow cli) \<and> f_token_sz (sv_flow srv) \<le> 8 \<and>
    take (f_token_sz (sv_flow srv)) (f_token (cl_flow cli)) = take (f_token_sz (sv_flow srv)) (f_token (sv_flow srv)) \<and>
    w_sent s2 = w_sent s \<and> resources s2 = resources s \<and> fallback s2 = fallback s"
proof -
  let ?n = "f_token_sz (cl_flow cli)" and ?tok = "take (f_token_sz (cl_flow cli)) (f_token (cl_flow cli))"
  from sent obtain w w' where rs: "ec_pdu_encode_request e req0 (cl_flow cli) (w :: world) = (C_OK, req, w')" "mid = e_rng16 e (w_tick w)"
    "readable (p_opts req0)" "length (enc (p_opts req0)) = EC_OPTS_MAX_LEN" "noptions (p_opts req) \<le> 15" "length (wire_bytes req) < 2 ^ 64"
    "ec_conn_get_confirmable (f_conn (cl_flow cli)) = Some True" "EC_IS_METHOD (f_method (cl_flow cli))" "carries_token (p_opts req0) ?n ?tok"
    by (auto simp: request_sent_def)
  obtain pdu opts where d: "ec_pdu_decode_header (e_le e) (fst (ec_pdu_new_empty s)) (wire_bytes req) (length (wire_bytes req)) = (C_OK, pdu)"
    "h_t (p_hdr_bits pdu) = EC_COAP_CON" "h_code (p_hdr_bits pdu) = of_nat (f_method (cl_flow cli))" "EC_PDU_MID pdu = mid"
    "p_opts pdu = ec_opts_init"
    "ec_opts_decode ec_opts_init (wire_bytes req) (length (wire_bytes req)) (unat (h_oc (p_hdr_bits pdu))) =
      Done (EC_RC_UNSET, opts, enc_sz (p_opts req))" "opts_bundle opts = opts_bundle (p_opts req0)"
    "enc_sz (p_opts req) + EC_COAP_HDR_SIZE \<le> length (wire_bytes req)"
    using request_decodes [OF rs(1,3,4,7,5), of "fst (ec_pdu_new_empty s)"] rs(2) by (auto simp: ec_pdu_new_empty_def)
  have "EC_IS_METHOD (unat (h_code (p_hdr_bits pdu)))"
    using d(3) rs(8) by (auto simp: EC_IS_METHOD_def unat_of_nat_byte)
  then have arr: "confirmable_request e sd peer (wire_bytes req) pdu opts s s1"
    using sd peer new d rs(6) by (auto simp: confirmable_request_def)
  have tok: "carries_token opts ?n ?tok" using rs(9) by (simp add: carries_token_bundle [OF d(7)])
  have "saved_url e opts us url" using url by (simp add: saved_url_bundle [OF d(7)])
  from request_reaches_lookup [OF laws ok arr tok us this] d(4) obtain b s2 where
    r: "ec_server_handle_pdu e sd (wire_bytes req) (length (wire_bytes req)) peer s = srv_dispatch e b s2"
    "request_decoded e b sd peer mid ?n ?tok url s2" "w_sent s2 = w_sent s" "resources s2 = resources s" "fallback s2 = fallback s"
    by blast
  from decoded_to_answer [OF r(2) _ peer] sd obtain srv q res where t: "to_answer e b srv q res s2" "EC_PDU_MID q = mid"
    "f_urlstr (sv_flow srv) = url" "c_socket (f_conn (sv_flow srv)) = sd"
    "c_peer (f_conn (sv_flow srv)) = copy_addr (the (ec_net_socklen peer)) peer sockaddr_zero"
    "f_token_sz (sv_flow srv) = ?n" "?n \<le> 8" "take ?n (f_token (sv_flow srv)) = ?tok" by blast
  have "take (f_token_sz (sv_flow srv)) (f_token (cl_flow cli)) = take (f_token_sz (sv_flow srv)) (f_token (sv_flow srv))"
    using t(6,8) by simp
  moreover have "f_token_sz (sv_flow srv) \<le> 8" using t(6,7) by simp
  ultimately show ?thesis using r(1,3-5) t(1-6) by blast
qed

text \<open>Both ends, for any way in which the server answers at once.\<close>

lemma exchange:
  fixes c :: "('m, 'z) ec_scheme" and s :: "('m, 'y) srv_st_scheme"
  assumes laws: "hmap_laws e" "\<And>t. e_ev_ok e t" and us: "\<And>t. e_getsockname e t sd = Some us"
    and cl: "engine_ok e {} c" "clients_ok {} c" "awaiting a cli c" and sent: "request_sent e cli req0 req mid"
    and ok: "engine_ok e {} s" "sd \<notin> {-1, 0}" "ec_net_socklen peer \<noteq> None"
      "ec_dups_handle_incoming_climsg e mid sd peer (tick s) = Done (0, s1)" "saved_url e (p_opts req0) us url"
    and new: "ec_dups_handle_incoming_srvmsg e mid csd from_addr (tick c) = Done (0, c1)"
    and rc: "EC_IS_RESP_CODE rc" "length pl < 2 ^ 63" "pl \<noteq> [] \<Longrightarrow> memdup_copies e"
    and disp: "\<And>b srv q res (s2 :: ('m, 'y) srv_st_scheme). to_answer e b srv q res s2 \<Longrightarrow> f_urlstr (sv_flow srv) = url \<Longrightarrow> resources s2 = resources s \<Longrightarrow>
      fallback s2 = fallback s \<Longrightarrow>
      \<exists>s'. srv_dispatch e b s2 = Done (EC_NET_CBRC_SUCCESS, s') \<and> sv_heap s' b = None \<and> engine_ok e {} s' \<and>
        answer_sent e (sv_flow srv) rc (EC_PDU_MID q) pl s2 s'"
  shows "\<exists>s' d c' p. ec_server_handle_pdu e sd (wire_bytes req) (length (wire_bytes req)) peer s = Done (EC_NET_CBRC_SUCCESS, s') \<and>
    engine_ok e {} s' \<and> w_sent s' = w_sent s @ [d] \<and> dg_sd d = sd \<and>
    dg_to d = copy_addr (the (ec_net_socklen peer)) peer sockaddr_zero \<and>
    ec_client_handle_pdu e a csd (dg_bytes d) (length (dg_bytes d)) from_addr c = Done (EC_NET_CBRC_DEAD, c') \<and>
    cl_heap c' a = None \<and> cl_log c' = cl_log c @ [(a, EC_CLI_STATE_REQ_DONE, rc)] \<and>
    told_response e a rc p c' \<and> gather (p_payload p) (p_payload_sz p) = pl"
proof -
  obtain b s2 srv q res where r: "ec_server_handle_pdu e sd (wire_bytes req) (length (wire_bytes req)) peer s = srv_dispatch e b s2"
    "to_answer e b srv q res s2" "EC_PDU_MID q = mid" "f_urlstr (sv_flow srv) = url"
    "c_socket (f_conn (sv_flow srv)) = sd" "c_peer (f_conn (sv_flow srv)) = copy_addr (the (ec_net_socklen peer)) peer sockaddr_zero"
    "f_token_sz (sv_flow srv) = f_token_sz (cl_flow cli)" "f_token_sz (sv_flow srv) \<le> 8"
    "take (f_token_sz (sv_flow srv)) (f_token (cl_flow cli)) = take (f_token_sz (sv_flow srv)) (f_token (sv_flow srv))"
    "w_sent s2 = w_sent s" "resources s2 = resources s" "fallback s2 = fallback s"
    using request_arrives [OF laws(1) us sent ok] by blast
  obtain s' where s': "srv_dispatch e b s2 = Done (EC_NET_CBRC_SUCCESS, s')" "engine_ok e {} s'" "answer_sent e (sv_flow srv) rc mid pl s2 s'"
    using disp [OF r(2,4,11,12)] r(3) by auto
  then obtain d where d: "w_sent s' = w_sent s2 @ [d]" "dg_to d = c_peer (f_conn (sv_flow srv))" "dg_sd d = c_socket (f_conn (sv_flow srv))"
    "answer_bytes (e_le e) (sv_flow srv) rc mid pl (dg_bytes d)" by (auto simp: answer_sent_def)
  have tok: "length (f_token (sv_flow srv)) = 8" using r(2) by (simp add: to_answer_def answerable_def)
  obtain c' p where c': "ec_client_handle_pdu e a csd (dg_bytes d) (length (dg_bytes d)) from_addr c = Done (EC_NET_CBRC_DEAD, c')"
    "cl_heap c' a = None" "cl_log c' = cl_log c @ [(a, EC_CLI_STATE_REQ_DONE, rc)]" "told_response e a rc p c'" "gather (p_payload p) (p_payload_sz p) = pl"
    using answer_completes [OF laws cl d(4) rc(1) tok r(8) rc(2,3) r(7) [symmetric] r(9) new] by blast
  show ?thesis by (intro exI conjI) (use s' c' d r in simp_all)
qed



definition demo_world :: world where
  "demo_world = \<lparr>w_tick = 0, w_sent = []\<rparr>"

lemma demo_request_sent: "\<exists>req. request_sent demo_env demo_client demo_query req 7"
proof -
  have q: "p_opts demo_query = ec_opts_init" "p_payload demo_query = None" by (simp_all add: demo_query_def ec_pdu_new_empty_def)
  have r: "readable ec_opts_init" "length (enc ec_opts_init) = EC_OPTS_MAX_LEN" "opts_bundle ec_opts_init = []"
    by (simp_all add: readable_def wf_opts_init) (simp_all add: ec_opts_init_def)
  have w: "wire_of ec_opts_init = []" using r(3) by (simp add: wire_of_def)
  obtain opts where o: "ec_opts_encode ec_opts_init = (C_OK, opts)" "noptions opts = 0" "enc_sz opts = 0"
    using ec_opts_encode_sendable [OF readable_sendable [OF r(1)]] w r(3) by simp
  have c: "ec_conn_get_confirmable (f_conn (cl_flow demo_client)) = Some True" "EC_IS_METHOD (f_method (cl_flow demo_client))"
    "f_token_sz (cl_flow demo_client) = 0"
    by (simp_all add: demo_client_def demo_conn_def ec_conn_get_confirmable_def EC_IS_METHOD_def ec_flow_init_def)
  have "ec_pdu_encode_request demo_env demo_query (cl_flow demo_client) demo_world =
      (C_OK, encode_header True (demo_query\<lparr>p_opts := opts\<rparr>) (of_nat (f_method (cl_flow demo_client))) EC_COAP_CON 7, tick demo_world)"
    using o q c by (simp add: ec_pdu_encode_request_def Let_def demo_world_def)
  moreover have "carries_token ec_opts_init 0 []" using r(3) by (simp add: carries_token_def ec_opts_get_conv opts_of_def)
  ultimately show ?thesis
    unfolding request_sent_def using q r o c
    by (intro exI conjI) (auto simp: demo_world_def wire_bytes_def gather_def)
qed

lemma demo_awaiting: "awaiting 0 demo_client (demo_ec demo_client [0])"
  by (simp add: awaiting_def demo_ec_def demo_client_def demo_conn_def ec_conn_init_def demo_query_def ec_pdu_new_empty_def
      ec_opts_get_conv opts_of_def ec_opts_init_def)

lemma demo_answer_new: "\<exists>c1. ec_dups_handle_incoming_srvmsg demo_env 7 5 demo_peer (tick (demo_ec demo_client [0])) = Done (0, c1)"
  by (simp add: ec_dups_handle_incoming_srvmsg_def ec_dups_search_def ec_dups_insert_def ec_dup_key_new_def demo_ec_def tick_def
      ec_recvd_pdu_new_def Let_def split: option.split)

lemma demo_saved_url: "saved_url demo_env (p_opts demo_query) us [47]"
  by (simp add: saved_url_def demo_query_def ec_pdu_new_empty_def ec_opts_init_def ec_opts_compose_url_def compose_proxy_uri_def
      compose_uri_def demo_env_def uri_bufs_empty_def demo_strlcpy_def) (rule exI [of _ False], simp)


text \<open>The same request to a server whose only resource is \<open>/\<close>, which says \<open>hi\<close>.\<close>

definition demo_hello :: server_cb where
  "demo_hello = (\<lambda>_ _ _ _. (EC_CBRC_READY, (0, 0), [U_set_code EC_CONTENT, U_set_payload [104, 105] 2]))"

definition demo_server :: "(string \<times> nat) list ec" where
  "demo_server = (ec_init [])\<lparr>resources := [\<lparr>rc_path = [47], rc_cb = demo_hello\<rparr>]\<rparr>"

lemma demo_server_ok: "engine_ok demo_env {} demo_server"
  by (simp add: engine_ok_def dups_ok_def store_ok_def obs_ok_def srvs_ok_def cbs_ok_def demo_server_def ec_init_def cb_ok_def demo_hello_def)


end
