(* ===== verification/Replay.thy ===== *)
theory Replay
  imports Exchange
begin

text \<open>
  A request that arrives again: the record that the duplicate cache makes when the request arrives first, the answer
  that sending puts into it, and what the same bytes do afterwards.
\<close>

text \<open>The header does not depend on the PDU it is decoded into.\<close>

lemma decode_header_again:
  "ec_pdu_decode_header le p raw n = (C_OK, pdu) \<Longrightarrow>
   \<exists>pdu'. ec_pdu_decode_header le p' raw n = (C_OK, pdu') \<and> p_hdr_bits pdu' = p_hdr_bits pdu"
  by (auto simp: ec_pdu_decode_header_def split: if_splits)

lemma climsg_noted:
  assumes "hmap_laws e" and "dups_ok e b" and "ec_dups_handle_incoming_climsg e mid sd peer b = Done (0, b')"
  shows "ec_dups_search e mid peer b' \<noteq> None"
proof -
  have "ec_dups_search e mid peer b = None" and ins: "ec_dups_insert e peer mid b = (C_OK, b')"
    using assms(3) by (auto simp: ec_dups_handle_incoming_climsg_def split: option.splits prod.splits crc.splits if_splits)
  from ec_dups_insert_ok [OF assms(1,2) ins this(1)] show ?thesis by (metis ec_dups_search_def fun_upd_same option.distinct(1) option.simps(5))
qed

text \<open>A datagram whose MID is noted with an answer is answered before a transaction is made for it.\<close>

lemma kept_handled:
  assumes "kept e (EC_PDU_MID pdu) peer bs t" and "ec_pdu_decode_header (e_le e) p raw (length raw) = (C_OK, pdu)"
    and "sd \<noteq> -1" and "ec_net_socklen peer \<noteq> None" and "\<And>t. e_send_ok e t"
  shows "\<exists>t'. ec_server_handle_pdu e sd raw (length raw) peer t = Done (EC_NET_CBRC_SUCCESS, t') \<and>
    t' = t\<lparr>w_tick := w_tick t', w_sent := w_sent t @ [\<lparr>dg_sd = sd, dg_to = peer, dg_bytes = bs\<rparr>]\<rparr>"
proof -
  obtain q t1 where n: "ec_pdu_new_empty t = (q, t1)" by fastforce
  then have t1: "t1 = tick t" by (simp add: ec_pdu_new_empty_def)
  obtain pdu' where d: "ec_pdu_decode_header (e_le e) q raw (length raw) = (C_OK, pdu')" "p_hdr_bits pdu' = p_hdr_bits pdu"
    using decode_header_again [OF assms(2)] by blast
  have "kept e (EC_PDU_MID pdu') peer bs t1" using kept_same_dups [OF same_dups_tick assms(1)] d(2) t1 by simp
  from kept_replayed [OF this assms(3-5)] d n have "srv_find e raw (length raw) sd peer t =
      Done (Srv_stop EC_NET_CBRC_SUCCESS, (tick t1)\<lparr>w_sent := w_sent t1 @ [\<lparr>dg_sd = sd, dg_to = peer, dg_bytes = bs\<rparr>]\<rparr>)"
    by (simp add: srv_find_def)
  moreover have "length raw \<noteq> 0" using assms(2) by (auto simp: ec_pdu_decode_header_def)
  ultimately show ?thesis using assms(3) t1 by (simp add: ec_server_handle_pdu_def tick_def)
qed

text \<open>C7: A confirmable request that arrives again is not processed again. When it arrives first, the callback
  answers it, with one datagram. When the same bytes come from the same peer again, while the duplicate cache is as it
  was then, exactly the bytes of that datagram are sent once more, and nothing else of the state changes: there
  is no transaction, no callback, no observation.\<close>

theorem repeated_request:
  fixes s :: "('m, 'z) srv_st_scheme"
  assumes "hmap_laws e" and "\<forall>t. e_send_ok e t \<and> e_getsockname e t sd = Some us" and "memdup_copies e" and "engine_ok e {} s"
    and "confirmable_request e sd peer raw pdu opts s s1"
    and "e_fmt_addr e (copy_addr (the (ec_net_socklen peer)) peer sockaddr_zero) = e_fmt_addr e peer"
    and "carries_token opts n tok" and "saved_url e opts us url"
    and "find_resource (resources s) url = Some cb" and "answers_with cb rc pl k"
  shows "\<exists>s' d. ec_server_handle_pdu e sd raw (length raw) peer s = Done (EC_NET_CBRC_SUCCESS, s') \<and>
    w_sent s' = w_sent s @ [d] \<and> dg_sd d = sd \<and> dg_to d = copy_addr (the (ec_net_socklen peer)) peer sockaddr_zero \<and>
    (\<forall>t :: ('m, 'z) srv_st_scheme. same_dups t s' \<longrightarrow>
       (\<exists>t'. ec_server_handle_pdu e sd raw (length raw) peer t = Done (EC_NET_CBRC_SUCCESS, t') \<and>
          t' = t\<lparr>w_tick := w_tick t', w_sent := w_sent t @ [\<lparr>dg_sd = sd, dg_to = peer, dg_bytes = dg_bytes d\<rparr>]\<rparr>))"
proof -
  have send: "e_send_ok e t" and us: "e_getsockname e t sd = Some us" for t using assms(2) by blast+
  have arr: "sd \<noteq> -1" "ec_net_socklen peer \<noteq> None"
    "ec_pdu_decode_header (e_le e) (fst (ec_pdu_new_empty s)) raw (length raw) = (C_OK, pdu)"
    "ec_dups_handle_incoming_climsg e (EC_PDU_MID pdu) sd peer (tick s) = Done (0, s1)"
    using assms(5) by (simp_all add: confirmable_request_def)
  have same_key: "ec_dups_search e mid (copy_addr (the (ec_net_socklen peer)) peer sockaddr_zero) b = ec_dups_search e mid peer b"
    for mid and b :: "('m, 'z) srv_st_scheme" using assms(6) by (simp add: ec_dups_search_def ec_dup_key_new_def)
  obtain b s2 where r: "ec_server_handle_pdu e sd raw (length raw) peer s = srv_dispatch e b s2"
    "request_decoded e b sd peer (EC_PDU_MID pdu) n tok url s2" "w_sent s2 = w_sent s" "resources s2 = resources s" "same_dups s2 s1"
    using request_reaches_lookup [OF assms(1,4,5,7) us assms(8)] by blast
  from decoded_to_answer [OF r(2) arr(1,2)] obtain srv q res where t: "to_answer e b srv q res s2" "EC_PDU_MID q = EC_PDU_MID pdu"
    "f_urlstr (sv_flow srv) = url" "c_socket (f_conn (sv_flow srv)) = sd"
    "c_peer (f_conn (sv_flow srv)) = copy_addr (the (ec_net_socklen peer)) peer sockaddr_zero" by blast
  have found: "find_resource (resources s2) (f_urlstr (sv_flow srv)) = Some cb" using assms(9) r(4) t(3) by simp
  from dispatch_answered_kept [OF t(1) send assms(3) found assms(10)] obtain s' where
    s': "srv_dispatch e b s2 = Done (EC_NET_CBRC_SUCCESS, s')" "answer_sent e (sv_flow srv) rc (EC_PDU_MID q) (take k pl) s2 s'"
    "answer_kept e (sv_flow srv) (EC_PDU_MID q) s2 s'" by blast
  obtain d where d: "w_sent s' = w_sent s2 @ [d]" "dg_sd d = sd" "dg_to d = copy_addr (the (ec_net_socklen peer)) peer sockaddr_zero"
    using s'(2) t(4,5) by (auto simp: answer_sent_def)
  have "dups_ok e (tick s)" using assms(4) by (simp add: engine_ok_def same_dups_ok [OF same_dups_tick])
  then have "ec_dups_search e (EC_PDU_MID pdu) peer s2 \<noteq> None"
    using climsg_noted [OF assms(1) _ arr(4)] same_dups_search [OF r(5)] by metis
  then have k: "kept e (EC_PDU_MID pdu) peer (dg_bytes d) s'"
    using s'(3) d(1) t(2,5) same_key by (auto simp: answer_kept_def kept_def)
  have "\<exists>t'. ec_server_handle_pdu e sd raw (length raw) peer t = Done (EC_NET_CBRC_SUCCESS, t') \<and>
      t' = t\<lparr>w_tick := w_tick t', w_sent := w_sent t @ [\<lparr>dg_sd = sd, dg_to = peer, dg_bytes = dg_bytes d\<rparr>]\<rparr>"
    if "same_dups t s'" for t :: "('m, 'z) srv_st_scheme"
    by (rule kept_handled [OF kept_same_dups [OF that k] arr(3,1,2) send])
  with r(1,3) s'(1) d show ?thesis by auto
qed

text \<open>\<open>GET /\<close> with the MID 7, sent twice to the server that says \<open>hi\<close>.\<close>

definition demo_get :: "byte list" where
  "demo_get = [0x40, 1, 7, 0]"

definition demo_get_pdu :: ec_pdu where
  "demo_get_pdu = (fst (ec_pdu_new_empty demo_server))\<lparr>p_hdr_bits := \<lparr>h_t = EC_COAP_CON, h_oc = 0, h_code = 1, h_mid = 7\<rparr>, p_hdr := demo_get\<rparr>"

definition demo_sender :: sockaddr where
  "demo_sender = \<lparr>ss_family = AF_INET, ss_body = replicate 14 9 @ replicate 112 0\<rparr>"

lemma demo_decode_get: "ec_pdu_decode_header True (fst (ec_pdu_new_empty demo_server)) demo_get 4 = (C_OK, demo_get_pdu)"
  by (simp add: ec_pdu_decode_header_def demo_get_pdu_def demo_get_def ec_pdu_new_empty_def) code_simp

lemma demo_get_arrives: "\<exists>s1. confirmable_request demo_env 5 demo_sender demo_get demo_get_pdu ec_opts_init demo_server s1"
proof -
  obtain s1 where "ec_dups_handle_incoming_climsg demo_env 7 5 demo_sender (tick demo_server) = Done (0, s1)"
    by (simp add: ec_dups_handle_incoming_climsg_def ec_dups_search_def ec_dups_insert_def ec_dup_key_new_def demo_server_def ec_init_def tick_def
        ec_recvd_pdu_new_def Let_def split: option.split)
  moreover have "length demo_get = 4" by (simp add: demo_get_def)
  ultimately show ?thesis
    using demo_decode_get
    by (auto simp: confirmable_request_def demo_sender_def ec_net_socklen_def demo_get_pdu_def EC_IS_METHOD_def ec_pdu_new_empty_def
        ec_opts_decode_def)
qed

theorem repeated_request_witness:
  "\<exists>s' t' d. ec_server_handle_pdu demo_env 5 demo_get 4 demo_sender demo_server = Done (EC_NET_CBRC_SUCCESS, s') \<and> w_sent s' = [d] \<and>
    ec_server_handle_pdu demo_env 5 demo_get 4 demo_sender s' = Done (EC_NET_CBRC_SUCCESS, t') \<and> w_sent t' = [d, d] \<and>
    sv_heap t' = sv_heap s'"
proof -
  obtain s1 where arr: "confirmable_request demo_env 5 demo_sender demo_get demo_get_pdu ec_opts_init demo_server s1"
    using demo_get_arrives by blast
  have ev: "\<forall>t. e_send_ok demo_env t \<and> e_getsockname demo_env t 5 = Some \<lparr>ss_family = AF_INET, ss_body = replicate 126 1\<rparr>" by simp
  have dup: "memdup_copies demo_env" by (simp add: memdup_copies_def)
  have addr: "copy_addr (the (ec_net_socklen demo_sender)) demo_sender sockaddr_zero = demo_sender"
    by (simp add: copy_addr_def demo_sender_def ec_net_socklen_def sockaddr_zero_def)
  then have fmt: "e_fmt_addr demo_env (copy_addr (the (ec_net_socklen demo_sender)) demo_sender sockaddr_zero) = e_fmt_addr demo_env demo_sender"
    by simp
  have tok: "carries_token ec_opts_init 0 []"
    by (simp add: carries_token_def ec_opts_get_conv opts_of_def) (simp add: ec_opts_init_def)
  have url: "saved_url demo_env ec_opts_init us [47]" for us using demo_saved_url by (simp add: demo_query_def ec_pdu_new_empty_def)
  have res: "find_resource (resources demo_server) [47] = Some demo_hello" "w_sent demo_server = []" "length demo_get = 4"
    by (simp_all add: demo_server_def ec_init_def strcasecmp_eq_def demo_get_def)
  have cb: "answers_with demo_hello EC_CONTENT [104, 105] 2" by (simp add: answers_with_def demo_hello_def EC_IS_RESP_CODE_def)
  note run = repeated_request [OF demo_env_laws(1) ev dup demo_server_ok arr fmt tok url res(1) cb, unfolded res(2,3) addr append_Nil]
  obtain s' d where s': "ec_server_handle_pdu demo_env 5 demo_get 4 demo_sender demo_server = Done (EC_NET_CBRC_SUCCESS, s')"
    "w_sent s' = [d]" "dg_sd d = 5" "dg_to d = demo_sender"
    "\<forall>t :: (string \<times> nat) list ec. same_dups t s' \<longrightarrow> (\<exists>t'. ec_server_handle_pdu demo_env 5 demo_get 4 demo_sender t = Done (EC_NET_CBRC_SUCCESS, t') \<and>
      t' = t\<lparr>w_tick := w_tick t', w_sent := w_sent t @ [\<lparr>dg_sd = 5, dg_to = demo_sender, dg_bytes = dg_bytes d\<rparr>]\<rparr>)"
    using run by blast
  obtain t' where t: "ec_server_handle_pdu demo_env 5 demo_get 4 demo_sender s' = Done (EC_NET_CBRC_SUCCESS, t')"
    and t': "t' = s'\<lparr>w_tick := w_tick t', w_sent := w_sent s' @ [\<lparr>dg_sd = 5, dg_to = demo_sender, dg_bytes = dg_bytes d\<rparr>]\<rparr>"
    using s'(5) same_dups_refl by blast
  have "\<lparr>dg_sd = 5, dg_to = demo_sender, dg_bytes = dg_bytes d\<rparr> = d" using s'(3,4) by simp
  then have "w_sent t' = [d, d]" "sv_heap t' = sv_heap s'" by (subst t', simp add: s'(2))+
  with s'(1,2) t show ?thesis by blast
qed

end
