(* ===== verification/Lifecycle.thy ===== *)
theory Lifecycle
  imports Api
begin

text \<open>
  Listening and shutting down: \<open>ec_bind_socket\<close> and \<open>ec_term\<close> of \<open>lib/evcoap/src/evcoap.c\<close>, the listeners and
  \<open>ec_dups_term\<close> of \<open>evcoap_base.c\<close>, \<open>ec_net_bind_socket\<close> of \<open>evcoap_net.c\<close>, and \<open>ec_servers_term\<close> of
  \<open>evcoap_srv.c\<close>. \<open>open_sds\<close> are the sockets that this code opened and has not closed; \<open>coap_live\<close> says
  whether the engine has been freed. The socket calls are the parameter \<open>sock_env\<close>.
\<close>

record ec_listener =
  ls_sd :: int
  ls_input :: bool

record 'm coap = "'m ec" +
  listeners :: "ec_listener list"
  open_sds :: "int list"
  coap_live :: bool

text \<open>
  Printing address and port into 1024 bytes, parsing that, and the results of \<open>socket\<close> (by time and address family),
  \<open>bind\<close> and making a socket non-blocking.
\<close>

record sock_env =
  se_addrport :: "byte list \<Rightarrow> u16 \<Rightarrow> byte list option"
  se_parse :: "byte list \<Rightarrow> sockaddr option"
  se_socket :: "nat \<Rightarrow> nat \<Rightarrow> int"
  se_bind :: "int \<Rightarrow> sockaddr \<Rightarrow> bool"
  se_nonblocking :: "int \<Rightarrow> bool"

subsection \<open>Listening\<close>

definition ec_listener_new ::
    "'m env \<Rightarrow> int \<Rightarrow> ('m, 'z) coap_scheme \<Rightarrow> ec_listener option \<times> ('m, 'z) coap_scheme" where
  "ec_listener_new e sd s =
     (if sd = -1 then (None, s)
      else if \<not> e_ev_ok e (w_tick s) then (None, tick s)
      else let s = tick s
           in if \<not> e_ev_ok e (w_tick s) then (None, tick s) else (Some \<lparr>ls_sd = sd, ls_input = True\<rparr>, tick s))"

definition ec_listeners_add :: "'m env \<Rightarrow> int \<Rightarrow> ('m, 'z) coap_scheme \<Rightarrow> crc \<times> ('m, 'z) coap_scheme" where
  "ec_listeners_add e sd s =
     (if sd = -1 then (C_ERR, s)
      else case ec_listener_new e sd s of
        (None, s) \<Rightarrow> (C_ERR, s)
      | (Some l, s) \<Rightarrow> (C_OK, s\<lparr>listeners := listeners s @ [l]\<rparr>))"

text \<open>The socket, or -1. When binding fails, the socket is not closed.\<close>

definition ec_net_bind_socket :: "sock_env \<Rightarrow> sockaddr \<Rightarrow> ('m, 'z) coap_scheme \<Rightarrow> int \<times> ('m, 'z) coap_scheme" where
  "ec_net_bind_socket se ss s =
     (let sd = se_socket se (w_tick s) (ss_family ss); s = tick s
      in if sd = -1 then (-1, s)
         else let s = s\<lparr>open_sds := open_sds s @ [sd]\<rparr>
              in if \<not> se_bind se sd ss then (-1, s) else (sd, s))"

definition closesocket :: "int \<Rightarrow> ('m, 'z) coap_scheme \<Rightarrow> ('m, 'z) coap_scheme" where
  "closesocket sd s = s\<lparr>open_sds := filter (\<lambda>d. d \<noteq> sd) (open_sds s)\<rparr>"

definition ec_bind_socket ::
    "'m env \<Rightarrow> sock_env \<Rightarrow> byte list \<Rightarrow> u16 \<Rightarrow> ('m, 'z) coap_scheme \<Rightarrow> crc \<times> ('m, 'z) coap_scheme" where
  "ec_bind_socket e se addr port s =
     (case se_addrport se addr (if port = 0 then of_nat EC_COAP_DEFAULT_PORT else port) of
        None \<Rightarrow> (C_ERR, s)
      | Some ap \<Rightarrow>
          (case se_parse se ap of
             None \<Rightarrow> (C_ERR, s)
           | Some ss \<Rightarrow>
               (case ec_net_bind_socket se ss s of
                  (sd, s) \<Rightarrow>
                    if sd = -1 then (C_ERR, s)
                    else if \<not> se_nonblocking se sd then (C_ERR, closesocket sd s)
                    else case ec_listeners_add e sd s of
                      (C_ERR, s) \<Rightarrow> (C_ERR, closesocket sd s)
                    | (C_OK, s) \<Rightarrow> (C_OK, s))))"

subsection \<open>Shutting down\<close>

text \<open>Freeing the map of duplicates frees the records it has.\<close>

definition ec_dups_term :: "'m env \<Rightarrow> ('m, 'z) base_scheme \<Rightarrow> ('m, 'z) base_scheme" where
  "ec_dups_term e s = fold ec_recvd_pdu_free (e_hm_vals e (d_map s)) s"

definition ec_term :: "'m env \<Rightarrow> ('m, 'z) coap_scheme \<Rightarrow> ('m, 'z) coap_scheme" where
  "ec_term e s = (ec_dups_term e s)\<lparr>coap_live := False\<rparr>"

definition ec_server_del :: "nat \<Rightarrow> ('m, 'z) srv_st_scheme \<Rightarrow> ('m, 'z) srv_st_scheme run" where
  "ec_server_del a s =
     run_bind (get_srv a s) (\<lambda>srv.
       Done (put_srv a (srv\<lparr>sv_parent := False\<rparr>) (s\<lparr>sv_list := remove1 a (sv_list s)\<rparr>)))"

text \<open>The loop removes the first of the queue each time.\<close>

fun servers_term_walk :: "nat list \<Rightarrow> ('m, 'z) srv_st_scheme \<Rightarrow> ('m, 'z) srv_st_scheme run" where
  "servers_term_walk [] s = Done s"
| "servers_term_walk (a # as) s =
     run_bind (ec_server_del a s) (\<lambda>s.
     run_bind (get_srv a s) (\<lambda>srv. servers_term_walk as (ec_server_free a srv s)))"

definition ec_servers_term :: "('m, 'z) srv_st_scheme \<Rightarrow> ('m, 'z) srv_st_scheme run" where
  "ec_servers_term s = servers_term_walk (sv_list s) s"

end
