(* ===== verification/Lifecycle_Spec.thy ===== *)
theory Lifecycle_Spec
  imports Lifecycle System
begin

text \<open>
  What listening and shutting down leave behind: the sockets and listeners after \<open>ec_bind_socket\<close>, and the
  transactions after the two functions that release them all.
\<close>

subsection \<open>Listening\<close>

lemma filter_absent: "sd \<notin> set l \<Longrightarrow> filter (\<lambda>d. d \<noteq> sd) l = l"
  by (induction l) auto

text \<open>Listening on an address either succeeds, with one new socket that has one listener waiting for input, or fails
  without a listener; then no socket stays open, unless it was binding that failed: that socket is never closed.\<close>

theorem bind_socket_outcome:
  assumes "ec_bind_socket e se addr port s = (rc, s')" and "\<forall>t f. se_socket se t f \<notin> set (open_sds s)"
  shows "case rc of
      C_OK \<Rightarrow> \<exists>sd. sd \<noteq> -1 \<and> open_sds s' = open_sds s @ [sd] \<and> listeners s' = listeners s @ [\<lparr>ls_sd = sd, ls_input = True\<rparr>]
    | C_ERR \<Rightarrow> listeners s' = listeners s \<and>
        (open_sds s' = open_sds s \<or> (\<exists>sd ss. \<not> se_bind se sd ss \<and> sd \<noteq> -1 \<and> open_sds s' = open_sds s @ [sd]))"
proof (cases rc)
  case C_OK
  with assms show ?thesis
    by (auto simp: ec_bind_socket_def ec_net_bind_socket_def ec_listeners_add_def ec_listener_new_def Let_def tick_def
        split: option.splits prod.splits if_splits)
next
  case C_ERR
  with assms show ?thesis
    by (auto simp: ec_bind_socket_def ec_net_bind_socket_def ec_listeners_add_def ec_listener_new_def Let_def tick_def closesocket_def
        filter_absent split: option.splits prod.splits if_splits)
qed

subsection \<open>Shutting down\<close>

lemma servers_walk_frees:
  "sv_list s = as \<Longrightarrow> distinct as \<Longrightarrow> \<forall>a \<in> set as. sv_heap s a \<noteq> None \<Longrightarrow>
   servers_term_walk as s = Done (s\<lparr>sv_list := [], sv_heap := (\<lambda>a. if a \<in> set as then None else sv_heap s a)\<rparr>)"
proof (induction as arbitrary: s)
  case (Cons a as)
  then obtain srv where srv: "sv_heap s a = Some srv" by auto
  let ?s = "s\<lparr>sv_heap := (sv_heap s)(a := None), sv_list := as\<rparr>"
  have step: "servers_term_walk (a # as) s = servers_term_walk as ?s"
    using srv Cons.prems(1) by (simp add: ec_server_del_def get_srv_def put_srv_def ec_server_free_def)
  have IH: "servers_term_walk as ?s = Done (?s\<lparr>sv_list := [], sv_heap := (\<lambda>b. if b \<in> set as then None else sv_heap ?s b)\<rparr>)"
    using Cons.prems(2,3) by (intro Cons.IH) auto
  have eq: "(\<lambda>b. if b \<in> set as then None else sv_heap ?s b) = (\<lambda>b. if b \<in> set (a # as) then None else sv_heap s b)" by auto
  show ?case unfolding step IH eq by simp
qed simp

text \<open>What releasing a client may change.\<close>

definition cl_step :: "('m, 'z) ec_scheme \<Rightarrow> ('m, 'z) ec_scheme \<Rightarrow> bool" where
  "cl_step s s' \<longleftrightarrow> cl_log s' = cl_log s \<and> w_sent s' = w_sent s \<and> sv_list s' = sv_list s \<and> sv_heap s' = sv_heap s \<and>
     sv_packs s' = sv_packs s"

lemma client_freed:
  assumes "cl_heap s a = Some cli" and "cl_base cli" and "cl_linked cli" and "cl_list s = a # as" and "a \<notin> set as"
  shows "\<exists>s'. run_bind (ec_client_del a s) (ec_client_free a) = Done s' \<and> cl_list s' = as \<and> cl_heap s' = (cl_heap s)(a := None) \<and>
    cl_step s s'"
proof -
  obtain flow closed where f: "ec_flow_term (cl_flow cli) False = (flow, closed)" by (cases "ec_flow_term (cl_flow cli) False")
  show ?thesis
    using assms f
    by (cases "as = []")
      (auto simp: ec_client_del_def get_cli_def ec_client_free_def ec_client_unregister_def put_cli_def note_closed_def cl_step_def
        Let_def)
qed

lemma clients_walk_frees:
  "cl_list s = as \<Longrightarrow> distinct as \<Longrightarrow> \<forall>a \<in> set as. \<exists>cli. cl_heap s a = Some cli \<and> cl_base cli \<and> cl_linked cli \<Longrightarrow>
   \<exists>s'. clients_term_walk as s = Done s' \<and> cl_list s' = [] \<and> cl_heap s' = (\<lambda>a. if a \<in> set as then None else cl_heap s a) \<and>
     cl_step s s'"
proof (induction as arbitrary: s)
  case (Cons a as)
  then obtain cli where c: "cl_heap s a = Some cli" "cl_base cli" "cl_linked cli" by auto
  from client_freed [OF c Cons.prems(1)] Cons.prems(2) obtain s1 where
    s1: "run_bind (ec_client_del a s) (ec_client_free a) = Done s1" "cl_list s1 = as" "cl_heap s1 = (cl_heap s)(a := None)" "cl_step s s1"
    by auto
  have "\<forall>b \<in> set as. \<exists>cli. cl_heap s1 b = Some cli \<and> cl_base cli \<and> cl_linked cli"
    using Cons.prems(2,3) s1(3) by auto
  from Cons.IH [OF s1(2) _ this] Cons.prems(2) obtain s' where
    s': "clients_term_walk as s1 = Done s'" "cl_list s' = []" "cl_heap s' = (\<lambda>b. if b \<in> set as then None else cl_heap s1 b)" "cl_step s1 s'"
    by auto
  obtain t where t: "ec_client_del a s = Done t" "ec_client_free a t = Done s1" using s1(1) by (auto simp: run_bind_Done_iff)
  with s' have "clients_term_walk (a # as) s = Done s'" by simp
  moreover have "cl_heap s' = (\<lambda>b. if b \<in> set (a # as) then None else cl_heap s b)" using s'(3) s1(3) by auto
  moreover have "cl_step s s'" using s1(4) s'(4) by (simp add: cl_step_def)
  ultimately show ?case using s'(2) by blast
qed (simp add: cl_step_def)


definition demo_sock_env :: sock_env where
  "demo_sock_env = \<lparr>se_addrport = (\<lambda>a p. Some a), se_parse = (\<lambda>_. Some demo_peer), se_socket = (\<lambda>t f. int t + 3),
     se_bind = (\<lambda>_ _. False), se_nonblocking = (\<lambda>_. True)\<rparr>"

definition demo_coap :: "(string \<times> nat) list coap" where
  "demo_coap = ec.extend (ec_init []) \<lparr>listeners = [], open_sds = [], coap_live = True\<rparr>"

theorem bind_socket_outcome_witness:
  "\<exists>s'. ec_bind_socket demo_env demo_sock_env [58] 0 demo_coap = (C_ERR, s') \<and> listeners s' = [] \<and>
    (open_sds s' = [] \<or> (\<exists>sd. sd \<noteq> -1 \<and> open_sds s' = [sd]))"
proof -
  obtain s' where s': "ec_bind_socket demo_env demo_sock_env [58] 0 demo_coap = (C_ERR, s')"
    by (simp add: ec_bind_socket_def ec_net_bind_socket_def demo_sock_env_def Let_def)
  moreover have "open_sds demo_coap = []" "listeners demo_coap = []" by (simp_all add: demo_coap_def ec.defs)
  ultimately show ?thesis using bind_socket_outcome [OF s'] by auto
qed


end
