(* ===== verification/Kache.thy ===== *)
theory Kache
  imports Enums Flow
begin

text \<open>
  The cache of the bridge (\<open>include/kache.h\<close>, \<open>include/kache_obj.h\<close>, \<open>lib/kache/src/kache.c\<close>,
  \<open>lib/kache/src/kache_obj.c\<close>): objects by key in a bounded libu map, each with a queue of
  representations. \<open>ko_heap\<close> and \<open>kr_heap\<close> are the live objects and representations by address.
  The two functions of \<open>lib/kache/src/kache_evcoap.c\<close> that translate media types are here too.
\<close>

subsection \<open>Pointers to data on the heap\<close>

text \<open>A pointer field that owns its data: NULL, allocated, or left pointing to freed memory.\<close>

datatype 'a owned = Null | Owned 'a | Dangling

definition u_free :: "'a owned \<Rightarrow> 'a owned run" where
  "u_free p = (case p of Null \<Rightarrow> Done Null | Owned _ \<Rightarrow> Done Dangling | Dangling \<Rightarrow> Fault Use_after_free)"

text \<open>The length of a C string in the memory \<open>m\<close>, which has to hold its terminator.\<close>

fun c_strlen :: "byte list \<Rightarrow> nat run" where
  "c_strlen [] = Fault Overread"
| "c_strlen (b # bs) = (if b = 0 then Done 0 else run_bind (c_strlen bs) (\<lambda>n. Done (n + 1)))"

text \<open>
  \<open>strncpy\<close> of \<open>n\<close> bytes of the string at the start of \<open>m\<close>, then a terminator at position \<open>n\<close>, into a
  new buffer of \<open>sz\<close> bytes. Exactly \<open>n\<close> bytes are written before the terminator.
\<close>

definition copy_terminated :: "byte list \<Rightarrow> nat \<Rightarrow> nat \<Rightarrow> nat \<Rightarrow> byte list run" where
  "copy_terminated m len n sz =
     (if n \<ge> sz then Fault Overwrite
      else Done (take n (take len m @ replicate (n - len) 0) @ [0]))"

subsection \<open>State\<close>

datatype kache_protocol_type = COAP | HTTP

datatype kache_media_type = KACHE_TEXT | KACHE_APPLICATION

datatype kache_media_subtype =
  KACHE_XML | KACHE_OCTET_STREAM | KACHE_EXI | KACHE_JSON | KACHE_LINK_FORMAT | KACHE_PLAIN

record kache_content_type =
  ct_type :: kache_media_type
  ct_subtype :: kache_media_subtype

record kache_keyval =
  kv_key :: "byte list"
  kv_key_sz :: nat
  kv_value :: "byte list"
  kv_value_sz :: nat

text \<open>\<open>kr_timer\<close> is the argument that the timer event of the representation was created with.\<close>

record kache_rep =
  kr_keyvalq :: "kache_keyval list"
  kr_payload :: "byte list owned"
  kr_payload_size :: nat
  kr_ETag :: "byte list owned"
  kr_media_type :: "kache_content_type option"
  kr_ts :: "timeval owned"
  kr_max_age :: u32
  kr_data :: "nat owned"
  kr_timer :: "nat option"

record kache_obj =
  ko_protocol_type :: kache_protocol_type
  ko_key :: "byte list owned"
  ko_reps :: "nat list"

datatype discard_policy = U_HMAP_PCY_LFU | U_HMAP_PCY_CUSTOM

record hmap_opts =
  ho_policy :: discard_policy
  ho_max :: int
  ho_size :: "int option"
  ho_cmp :: "(nat \<Rightarrow> nat \<Rightarrow> int) option"

text \<open>
  \<open>k_set_procedure\<close> and \<open>k_free_obj\<close>: is there such a callback? \<open>k_told\<close> are the objects the set
  procedure was called with, \<open>k_pending\<close> the pending timer events: the representation they belong
  to, and for each its argument and delay.
\<close>

record 'm kache = world +
  k_hmap :: 'm
  k_opts :: hmap_opts
  k_set_procedure :: bool
  k_free_obj :: bool
  ko_heap :: "nat \<Rightarrow> kache_obj option"
  kr_heap :: "nat \<Rightarrow> kache_rep option"
  k_told :: "nat list"
  k_pending :: "nat \<Rightarrow> (nat \<times> int) option"

text \<open>
  The bounded map of libu. Reading may change the statistics of the discard policy; inserting may
  discard other entries. \<open>ke_null\<close> is the NULL map, which the operations are called with before
  \<open>kache_init_data_structure\<close>.
\<close>

record 'm kenv =
  ke_null :: 'm
  ke_opts_ok :: bool
  ke_new :: "hmap_opts \<Rightarrow> 'm option"
  ke_get :: "'m \<Rightarrow> string \<Rightarrow> nat option \<times> 'm"
  ke_put :: "'m \<Rightarrow> string \<Rightarrow> nat \<Rightarrow> bool \<times> 'm"
  ke_del :: "'m \<Rightarrow> string \<Rightarrow> (nat \<times> 'm) option"
  ke_vals :: "'m \<Rightarrow> nat list"
  ke_size_ok :: "int \<Rightarrow> bool"
  ke_max_ok :: "int \<Rightarrow> bool"

definition get_kobj :: "nat \<Rightarrow> ('m, 'z) kache_scheme \<Rightarrow> kache_obj run" where
  "get_kobj a s = (case ko_heap s a of None \<Rightarrow> Fault Use_after_free | Some obj \<Rightarrow> Done obj)"

definition get_krep :: "nat \<Rightarrow> ('m, 'z) kache_scheme \<Rightarrow> kache_rep run" where
  "get_krep r s = (case kr_heap s r of None \<Rightarrow> Fault Use_after_free | Some rep \<Rightarrow> Done rep)"

definition put_krep :: "nat \<Rightarrow> kache_rep \<Rightarrow> ('m, 'z) kache_scheme \<Rightarrow> ('m, 'z) kache_scheme" where
  "put_krep r rep s = s\<lparr>kr_heap := (kr_heap s)(r \<mapsto> rep)\<rparr>"

definition put_kobj :: "nat \<Rightarrow> kache_obj \<Rightarrow> ('m, 'z) kache_scheme \<Rightarrow> ('m, 'z) kache_scheme" where
  "put_kobj a obj s = s\<lparr>ko_heap := (ko_heap s)(a \<mapsto> obj)\<rparr>"

subsection \<open>Representations\<close>

text \<open>
  The buffers are as long as the strings, but what is written to them is as long as the given
  sizes say. The sizes are not stored.
\<close>

definition kache_add_key_val ::
    "nat \<Rightarrow> byte list \<Rightarrow> nat \<Rightarrow> byte list \<Rightarrow> nat \<Rightarrow> ('m, 'z) kache_scheme \<Rightarrow> (crc \<times> ('m, 'z) kache_scheme) run" where
  "kache_add_key_val r key key_sz val val_sz s =
     run_bind (c_strlen key) (\<lambda>kl.
     run_bind (c_strlen val) (\<lambda>vl.
     run_bind (copy_terminated key kl key_sz (kl + 1)) (\<lambda>k.
     run_bind (copy_terminated val vl val_sz (vl + 1)) (\<lambda>v.
     run_bind (get_krep r s) (\<lambda>rep.
       Done (C_OK, put_krep r (rep\<lparr>kr_keyvalq := kr_keyvalq rep @
         [\<lparr>kv_key = k, kv_key_sz = 0, kv_value = v, kv_value_sz = 0\<rparr>]\<rparr>) s))))))"

definition kache_add_key_val_no_sz ::
    "nat \<Rightarrow> byte list \<Rightarrow> byte list \<Rightarrow> ('m, 'z) kache_scheme \<Rightarrow> (crc \<times> ('m, 'z) kache_scheme) run" where
  "kache_add_key_val_no_sz r key val s =
     run_bind (c_strlen key) (\<lambda>kl. run_bind (c_strlen val) (\<lambda>vl. kache_add_key_val r key kl val vl s))"

definition kache_add_rep :: "nat \<Rightarrow> nat \<Rightarrow> ('m, 'z) kache_scheme \<Rightarrow> (crc \<times> ('m, 'z) kache_scheme) run" where
  "kache_add_rep a r s =
     run_bind (get_kobj a s) (\<lambda>obj.
       if r \<in> set (ko_reps obj) then Fault Relinked
       else run_bind (get_krep r s) (\<lambda>_. Done (C_OK, put_kobj a (obj\<lparr>ko_reps := ko_reps obj @ [r]\<rparr>) s)))"

text \<open>Removing a representation that is not in the queue is left out: the callers never do.\<close>

definition kache_remove_rep :: "nat \<Rightarrow> nat \<Rightarrow> ('m, 'z) kache_scheme \<Rightarrow> (crc \<times> ('m, 'z) kache_scheme) run" where
  "kache_remove_rep a r s =
     run_bind (get_kobj a s) (\<lambda>obj.
     run_bind (get_krep r s) (\<lambda>_. Done (C_OK, put_kobj a (obj\<lparr>ko_reps := remove1 r (ko_reps obj)\<rparr>) s)))"

definition kache_init_kache_obj :: "('m, 'z) kache_scheme \<Rightarrow> nat \<times> ('m, 'z) kache_scheme" where
  "kache_init_kache_obj s =
     (w_tick s, put_kobj (w_tick s) \<lparr>ko_protocol_type = COAP, ko_key = Null, ko_reps = []\<rparr> (tick s))"

definition kache_init_kache_rep :: "('m, 'z) kache_scheme \<Rightarrow> nat \<times> ('m, 'z) kache_scheme" where
  "kache_init_kache_rep s =
     (w_tick s, put_krep (w_tick s)
        \<lparr>kr_keyvalq = [], kr_payload = Null, kr_payload_size = 0, kr_ETag = Null, kr_media_type = None, kr_ts = Null,
         kr_max_age = 0, kr_data = Null, kr_timer = None\<rparr> (tick s))"

definition kache_peak_rep :: "kache_obj \<Rightarrow> nat option" where
  "kache_peak_rep obj = (case ko_reps obj of [] \<Rightarrow> None | r # rs \<Rightarrow> Some r)"

text \<open>A negative index never gets to 0.\<close>

fun rep_nth :: "nat list \<Rightarrow> int \<Rightarrow> nat option" where
  "rep_nth [] i = None"
| "rep_nth (r # rs) i = (if i = 0 then Some r else rep_nth rs (i - 1))"

definition kache_get_rep_nth :: "kache_obj \<Rightarrow> int \<Rightarrow> nat option" where
  "kache_get_rep_nth obj index = rep_nth (ko_reps obj) index"

text \<open>The link to the next representation is read after \<open>f\<close> has had the representation.\<close>

fun rep_walk ::
    "(nat \<Rightarrow> ('m, 'z) kache_scheme \<Rightarrow> (crc \<times> ('m, 'z) kache_scheme) run) \<Rightarrow> nat list \<Rightarrow> ('m, 'z) kache_scheme \<Rightarrow>
     (crc \<times> ('m, 'z) kache_scheme) run" where
  "rep_walk f [] s = Done (C_OK, s)"
| "rep_walk f (r # rs) s =
     run_bind (f r s) (\<lambda>(rc, s).
       if rc = C_ERR then Done (C_ERR, s)
       else run_bind (get_krep r s) (\<lambda>_. rep_walk f rs s))"

definition kache_rep_foreach ::
    "(nat \<Rightarrow> ('m, 'z) kache_scheme \<Rightarrow> (crc \<times> ('m, 'z) kache_scheme) run) \<Rightarrow> nat \<Rightarrow> ('m, 'z) kache_scheme \<Rightarrow>
     (crc \<times> ('m, 'z) kache_scheme) run" where
  "kache_rep_foreach f a s = run_bind (get_kobj a s) (\<lambda>obj. rep_walk f (ko_reps obj) s)"

fun media_walk ::
    "('m, 'z) kache_scheme \<Rightarrow> kache_content_type \<Rightarrow> nat list \<Rightarrow> nat option run" where
  "media_walk s mt [] = Done None"
| "media_walk s mt (r # rs) =
     run_bind (get_krep r s) (\<lambda>rep.
       case kr_media_type rep of
         None \<Rightarrow> Fault Null_deref
       | Some ct \<Rightarrow>
           if ct_type ct = ct_type mt \<and> ct_subtype ct = ct_subtype mt then Done (Some r) else media_walk s mt rs)"

definition kache_get_rep_by_media_type ::
    "nat \<Rightarrow> kache_content_type \<Rightarrow> ('m, 'z) kache_scheme \<Rightarrow> nat option run" where
  "kache_get_rep_by_media_type a mt s = run_bind (get_kobj a s) (\<lambda>obj. media_walk s mt (ko_reps obj))"

subsection \<open>Releasing\<close>

text \<open>The fields keep pointing to what they pointed to.\<close>

definition kache_clear_kache_rep :: "nat \<Rightarrow> ('m, 'z) kache_scheme \<Rightarrow> ('m, 'z) kache_scheme run" where
  "kache_clear_kache_rep r s =
     run_bind (get_krep r s) (\<lambda>rep.
     run_bind (u_free (kr_payload rep)) (\<lambda>p.
     run_bind (u_free (kr_ETag rep)) (\<lambda>et.
     run_bind (u_free (kr_ts rep)) (\<lambda>ts.
       Done (put_krep r (rep\<lparr>kr_payload := p, kr_ETag := et, kr_keyvalq := [], kr_ts := ts\<rparr>) s)))))"

text \<open>With \<open>data\<close>, the protocol data is handed to the caller, otherwise it is freed. The timer event stays.\<close>

definition kache_free_kache_rep_with_data ::
    "nat \<Rightarrow> bool \<Rightarrow> ('m, 'z) kache_scheme \<Rightarrow> (nat owned \<times> ('m, 'z) kache_scheme) run" where
  "kache_free_kache_rep_with_data r data s =
     run_bind (kache_clear_kache_rep r s) (\<lambda>s.
     run_bind (get_krep r s) (\<lambda>rep.
     run_bind (if data then Done (kr_data rep) else u_free (kr_data rep)) (\<lambda>d.
       Done (d, s\<lparr>kr_heap := (kr_heap s)(r := None)\<rparr>))))"

definition kache_free_kache_rep :: "nat \<Rightarrow> ('m, 'z) kache_scheme \<Rightarrow> (crc \<times> ('m, 'z) kache_scheme) run" where
  "kache_free_kache_rep r s = run_bind (kache_free_kache_rep_with_data r False s) (\<lambda>(_, s). Done (C_OK, s))"

text \<open>The representations are not freed.\<close>

definition kache_free_kache_obj :: "nat \<Rightarrow> ('m, 'z) kache_scheme \<Rightarrow> ('m, 'z) kache_scheme run" where
  "kache_free_kache_obj a s =
     run_bind (get_kobj a s) (\<lambda>obj.
     run_bind (u_free (ko_key obj)) (\<lambda>_. Done (s\<lparr>ko_heap := (ko_heap s)(a := None)\<rparr>)))"

text \<open>A timer that exists keeps its callback and argument.\<close>

definition kache_set_rep_timer ::
    "bool \<Rightarrow> nat \<Rightarrow> int \<Rightarrow> nat \<Rightarrow> ('m, 'z) kache_scheme \<Rightarrow> (crc \<times> ('m, 'z) kache_scheme) run" where
  "kache_set_rep_timer base r seconds arg s =
     (if \<not> base then Done (C_ERR, s)
      else run_bind (get_krep r s) (\<lambda>rep.
        let arg = (case kr_timer rep of Some old \<Rightarrow> old | None \<Rightarrow> arg)
        in Done (C_OK, (put_krep r (rep\<lparr>kr_timer := Some arg\<rparr>) s)\<lparr>k_pending := (k_pending s)(r \<mapsto> (arg, seconds))\<rparr>)))"

subsection \<open>The cache\<close>

abbreviation (input) DEFAULT_MAX :: int where "DEFAULT_MAX \<equiv> 50"

definition kache_init :: "'m kenv \<Rightarrow> 'm kache option" where
  "kache_init e =
     (if \<not> ke_opts_ok e then None
      else Some \<lparr>w_tick = 0, w_sent = [], k_hmap = ke_null e,
        k_opts = \<lparr>ho_policy = U_HMAP_PCY_LFU, ho_max = DEFAULT_MAX, ho_size = None, ho_cmp = None\<rparr>,
        k_set_procedure = False, k_free_obj = False, ko_heap = (\<lambda>_. None), kr_heap = (\<lambda>_. None), k_told = [],
        k_pending = (\<lambda>_. None)\<rparr>)"

definition kache_init_data_structure :: "'m kenv \<Rightarrow> ('m, 'z) kache_scheme \<Rightarrow> crc \<times> ('m, 'z) kache_scheme" where
  "kache_init_data_structure e s =
     (case ke_new e (k_opts s) of None \<Rightarrow> (C_ERR, s) | Some m \<Rightarrow> (C_OK, s\<lparr>k_hmap := m\<rparr>))"

definition kache_set_max_size :: "'m kenv \<Rightarrow> int \<Rightarrow> ('m, 'z) kache_scheme \<Rightarrow> crc \<times> ('m, 'z) kache_scheme" where
  "kache_set_max_size e n s =
     (if \<not> ke_size_ok e n then (C_ERR, s)
      else let s = s\<lparr>k_opts := (k_opts s)\<lparr>ho_size := Some n\<rparr>\<rparr>
           in if \<not> ke_max_ok e n then (C_ERR, s) else (C_OK, s\<lparr>k_opts := (k_opts s)\<lparr>ho_max := n\<rparr>\<rparr>))"

definition kache_set_free_obj_func :: "bool \<Rightarrow> ('m, 'z) kache_scheme \<Rightarrow> ('m, 'z) kache_scheme" where
  "kache_set_free_obj_func f s = s\<lparr>k_free_obj := f\<rparr>"

definition kache_attach_set_procedure :: "bool \<Rightarrow> ('m, 'z) kache_scheme \<Rightarrow> crc \<times> ('m, 'z) kache_scheme" where
  "kache_attach_set_procedure p s = (C_OK, s\<lparr>k_set_procedure := p\<rparr>)"

definition kache_set_custom_discard_policy ::
    "(nat \<Rightarrow> nat \<Rightarrow> int) \<Rightarrow> ('m, 'z) kache_scheme \<Rightarrow> crc \<times> ('m, 'z) kache_scheme" where
  "kache_set_custom_discard_policy cmp s =
     (C_OK, s\<lparr>k_opts := (k_opts s)\<lparr>ho_policy := U_HMAP_PCY_CUSTOM, ho_cmp := Some cmp\<rparr>\<rparr>)"

text \<open>
  \<open>ow\<close> is NULL or what the variable it points to holds; the result has its value afterwards.
\<close>

definition kache_set ::
    "'m kenv \<Rightarrow> string \<Rightarrow> nat \<Rightarrow> nat option option \<Rightarrow> ('m, 'z) kache_scheme \<Rightarrow>
     crc \<times> nat option option \<times> ('m, 'z) kache_scheme" where
  "kache_set e key obj ow s =
     (case ke_get e (k_hmap s) key of
        (old, m) \<Rightarrow>
          let ow = (case (old, ow) of (Some a, Some _) \<Rightarrow> Some (Some a) | _ \<Rightarrow> ow)
          in (case ke_put e m key obj of
                (False, m) \<Rightarrow> (C_ERR, ow, s\<lparr>k_hmap := m\<rparr>)
              | (True, m) \<Rightarrow>
                  (C_OK, ow, s\<lparr>k_hmap := m, k_told := (if k_set_procedure s then k_told s @ [obj] else k_told s)\<rparr>)))"

definition kache_unset ::
    "'m kenv \<Rightarrow> string \<Rightarrow> nat option option \<Rightarrow> ('m, 'z) kache_scheme \<Rightarrow> crc \<times> nat option option \<times> ('m, 'z) kache_scheme" where
  "kache_unset e key del s =
     (case ke_del e (k_hmap s) key of
        None \<Rightarrow> (C_ERR, del, s)
      | Some (a, m) \<Rightarrow> (C_OK, map_option (\<lambda>_. Some a) del, s\<lparr>k_hmap := m\<rparr>))"

definition kache_get :: "'m kenv \<Rightarrow> string \<Rightarrow> ('m, 'z) kache_scheme \<Rightarrow> nat option \<times> ('m, 'z) kache_scheme" where
  "kache_get e key s = (case ke_get e (k_hmap s) key of (r, m) \<Rightarrow> (r, s\<lparr>k_hmap := m\<rparr>))"

text \<open>Releasing one object, and all of them: the callback for that is never called.\<close>

definition kache_default_free_func :: "nat \<Rightarrow> ('m, 'z) kache_scheme \<Rightarrow> ('m, 'z) kache_scheme run" where
  "kache_default_free_func a s =
     run_bind (kache_rep_foreach kache_free_kache_rep a s) (\<lambda>(_, s). kache_free_kache_obj a s)"

fun free_walk :: "nat list \<Rightarrow> ('m, 'z) kache_scheme \<Rightarrow> ('m, 'z) kache_scheme run" where
  "free_walk [] s = Done s"
| "free_walk (a # as) s = run_bind (kache_default_free_func a s) (free_walk as)"

definition kache_free :: "'m kenv \<Rightarrow> ('m, 'z) kache_scheme \<Rightarrow> ('m, 'z) kache_scheme run" where
  "kache_free e s =
     run_bind (if k_free_obj s then Done s else free_walk (ke_vals e (k_hmap s)) s) (\<lambda>s.
       Done (s\<lparr>k_hmap := ke_null e\<rparr>))"

subsection \<open>Media types of CoAP\<close>

definition kache_ct_from_ecct :: "u16 \<Rightarrow> kache_content_type" where
  "kache_ct_from_ecct ct =
     (let t = unat ct
      in if t = EC_MT_TEXT_PLAIN then \<lparr>ct_type = KACHE_TEXT, ct_subtype = KACHE_PLAIN\<rparr>
         else if t = EC_MT_APPLICATION_LINK_FORMAT then \<lparr>ct_type = KACHE_APPLICATION, ct_subtype = KACHE_LINK_FORMAT\<rparr>
         else if t = EC_MT_APPLICATION_XML then \<lparr>ct_type = KACHE_APPLICATION, ct_subtype = KACHE_XML\<rparr>
         else if t = EC_MT_APPLICATION_OCTET_STREAM then \<lparr>ct_type = KACHE_APPLICATION, ct_subtype = KACHE_OCTET_STREAM\<rparr>
         else if t = EC_MT_APPLICATION_EXI then \<lparr>ct_type = KACHE_APPLICATION, ct_subtype = KACHE_EXI\<rparr>
         else if t = EC_MT_APPLICATION_JSON then \<lparr>ct_type = KACHE_APPLICATION, ct_subtype = KACHE_JSON\<rparr>
         else \<lparr>ct_type = KACHE_APPLICATION, ct_subtype = KACHE_XML\<rparr>)"

definition kache_get_ecct_from_ct :: "kache_content_type \<Rightarrow> u16" where
  "kache_get_ecct_from_ct mt = of_nat
     (if ct_type mt = KACHE_TEXT \<and> ct_subtype mt = KACHE_PLAIN then EC_MT_TEXT_PLAIN
      else if ct_type mt = KACHE_APPLICATION \<and> ct_subtype mt = KACHE_LINK_FORMAT then EC_MT_APPLICATION_LINK_FORMAT
      else if ct_type mt = KACHE_APPLICATION \<and> ct_subtype mt = KACHE_XML then EC_MT_APPLICATION_XML
      else if ct_type mt = KACHE_APPLICATION \<and> ct_subtype mt = KACHE_OCTET_STREAM then EC_MT_APPLICATION_OCTET_STREAM
      else if ct_type mt = KACHE_APPLICATION \<and> ct_subtype mt = KACHE_EXI then EC_MT_APPLICATION_EXI
      else if ct_type mt = KACHE_APPLICATION \<and> ct_subtype mt = KACHE_JSON then EC_MT_APPLICATION_JSON
      else EC_MT_APPLICATION_XML)"

end
