(* ===== verification/Kache_Evcoap.thy ===== *)
theory Kache_Evcoap
  imports Kache Api Filesys
begin

text \<open>
  Caching CoAP responses (\<open>lib/kache/src/kache_evcoap.c\<close>, \<open>include/kache_evcoap.h\<close>): storing the response
  of a client as a representation, the timer that ends it, and answering a request from the cache.

  As it stands, the file needs three repairs to compile: \<open>kache_timer_arg_t\<close> is declared nowhere (its
  fields are taken to be the three that are used), the header declares \<open>kache_store_evcoap_response\<close>
  without the URI, and the undeclared variable \<open>max_age\<close>, which nothing reads, is assigned. The
  translations of media types are in \<open>Kache\<close>.
\<close>

subsection \<open>State\<close>

text \<open>The argument of a timer; the cache in it is the one of the state.\<close>

record kache_timer_arg =
  ka_rep :: nat
  ka_obj :: nat

text \<open>\<open>kx_base\<close>: is there an event base? \<open>kx_args\<close> are the arguments of timers, which are never freed.\<close>

record 'm kache_evcoap = "'m kache" +
  kx_base :: bool
  kx_args :: "nat \<Rightarrow> kache_timer_arg option"

definition kache_init_evcoap :: "'m kache \<Rightarrow> bool \<Rightarrow> 'm kache_evcoap" where
  "kache_init_evcoap s base = kache.extend s \<lparr>kx_base = base, kx_args = (\<lambda>_. None)\<rparr>"

definition kache_init_evcoap_data :: "('m, 'z) kache_evcoap_scheme \<Rightarrow> nat \<times> ('m, 'z) kache_evcoap_scheme" where
  "kache_init_evcoap_data s = (w_tick s, tick s)"

definition kache_free_evcoap_data :: "nat owned \<Rightarrow> nat owned run" where
  "kache_free_evcoap_data data = (if data = Null then Done Null else u_free data)"

text \<open>The string that a pointer to memory that is owned points to.\<close>

definition key_string :: "byte list owned \<Rightarrow> string run" where
  "key_string p = (case p of
     Null \<Rightarrow> Fault Null_deref
   | Dangling \<Rightarrow> Fault Use_after_free
   | Owned m \<Rightarrow> run_bind (c_strlen m) (\<lambda>n. Done (bytes_key (take n m))))"

subsection \<open>Answering from the cache\<close>

text \<open>
  The content type, payload, Max-Age and ETag of a representation (\<open>rep\<close>, or NULL) are put into \<open>pdu\<close>.
\<close>

definition kache_rep_to_evcoap_pdu ::
    "'e env \<Rightarrow> nat option \<Rightarrow> ec_pdu \<Rightarrow> ('m, 'z) kache_evcoap_scheme \<Rightarrow> (crc \<times> ec_pdu) run" where
  "kache_rep_to_evcoap_pdu e r pdu s =
     (case r of
        None \<Rightarrow> Fault Null_deref
      | Some r \<Rightarrow>
          run_bind (get_krep r s) (\<lambda>rep.
            case kr_media_type rep of
              None \<Rightarrow> Fault Null_deref
            | Some mt \<Rightarrow>
                (case ec_opts_add_content_type (e_le e) (p_opts pdu) (kache_get_ecct_from_ct mt) of
                   (C_ERR, opts) \<Rightarrow> Done (C_ERR, pdu\<lparr>p_opts := opts\<rparr>)
                 | (C_OK, opts) \<Rightarrow>
                     (let pdu = pdu\<lparr>p_opts := opts\<rparr>
                      in run_bind
                           (case kr_payload rep of
                              Null \<Rightarrow> Done (C_OK, pdu)
                            | Dangling \<Rightarrow> Fault Use_after_free
                            | Owned pl \<Rightarrow> Done (ec_pdu_set_payload e pdu pl (kr_payload_size rep)))
                           (\<lambda>(rc, pdu).
                              if rc = C_ERR then Done (C_ERR, pdu)
                              else case ec_opts_add_max_age (e_le e) (p_opts pdu) (kr_max_age rep) of
                                (C_ERR, opts) \<Rightarrow> Done (C_ERR, pdu\<lparr>p_opts := opts\<rparr>)
                              | (C_OK, opts) \<Rightarrow>
                                  (let pdu = pdu\<lparr>p_opts := opts\<rparr>
                                   in case kr_ETag rep of
                                        Null \<Rightarrow> Done (C_OK, pdu)
                                      | Dangling \<Rightarrow> Fault Use_after_free
                                      | Owned et \<Rightarrow>
                                          run_bind (c_strlen et) (\<lambda>n.
                                            case ec_opts_add_etag (p_opts pdu) et n of
                                              (rc, opts) \<Rightarrow> Done (rc, pdu\<lparr>p_opts := opts\<rparr>))))))))"

text \<open>
  The variable for the content type is not initialised, and the new PDU is what its memory held
  (\<open>garbage\<close>) but for its options.
\<close>

definition kache_get_evcoap_response ::
    "'e env \<Rightarrow> 'm kenv \<Rightarrow> ec_pdu \<Rightarrow> ec_client \<Rightarrow> string \<Rightarrow> ('m, 'z) kache_evcoap_scheme \<Rightarrow>
     (ec_pdu option \<times> ('m, 'z) kache_evcoap_scheme) run" where
  "kache_get_evcoap_response e ke garbage cli uri s =
     (case kache_get ke uri s of
        (None, s) \<Rightarrow> Done (None, s)
      | (Some a, s) \<Rightarrow>
          (let pdu = garbage\<lparr>p_opts := ec_opts_init\<rparr>
           in case ec_opts_get_content_type (e_le e) (p_opts (cl_req cli)) of
                None \<Rightarrow> Fault Uninitialised
              | Some ct \<Rightarrow>
                  run_bind (kache_get_rep_by_media_type a (kache_ct_from_ecct ct) s) (\<lambda>r.
                  run_bind (kache_rep_to_evcoap_pdu e r pdu s) (\<lambda>(rc, pdu).
                    Done (if rc = C_ERR then (None, s) else (Some pdu, s))))))"

subsection \<open>Storing a response\<close>

text \<open>The first \<open>n\<close> bytes of the memory \<open>m\<close>.\<close>

definition read_bytes :: "byte list \<Rightarrow> nat \<Rightarrow> byte list run" where
  "read_bytes m n = (if n > length m then Fault Overread else Done (take n m))"

definition store_option ::
    "bool \<Rightarrow> ec_opts \<Rightarrow> nat \<Rightarrow> ec_opt_sym \<Rightarrow> ('m, 'z) kache_evcoap_scheme \<Rightarrow> ('m, 'z) kache_evcoap_scheme run" where
  "store_option le opts r sy s =
     (case sy of
        EC_OPT_MAX_AGE \<Rightarrow>
          (case ec_opts_get_max_age le opts of
             None \<Rightarrow> Done s
           | Some ma \<Rightarrow> run_bind (get_krep r s) (\<lambda>rep. Done (put_krep r (rep\<lparr>kr_max_age := ma\<rparr>) s)))
      | EC_OPT_ETAG \<Rightarrow>
          (case ec_opts_get_etag_nth opts 0 of
             Some (Some et, et_sz) \<Rightarrow>
               run_bind (read_bytes et et_sz) (\<lambda>b.
               run_bind (get_krep r s) (\<lambda>rep. Done (put_krep r (rep\<lparr>kr_ETag := Owned (b @ [0])\<rparr>) s)))
           | _ \<Rightarrow> Done s)
      | EC_OPT_TOKEN \<Rightarrow>
          (case ec_opts_get_token opts of
             Some (Some token, token_sz) \<Rightarrow>
               run_bind (kache_add_key_val r [84, 111, 107, 101, 110, 0] 5 token token_sz s) (\<lambda>(_, s). Done s)
           | _ \<Rightarrow> Done s)
      | _ \<Rightarrow> Done s)"

fun store_options ::
    "bool \<Rightarrow> ec_opts \<Rightarrow> nat \<Rightarrow> ec_opt_sym list \<Rightarrow> ('m, 'z) kache_evcoap_scheme \<Rightarrow> ('m, 'z) kache_evcoap_scheme run" where
  "store_options le opts r [] s = Done s"
| "store_options le opts r (sy # sys) s = run_bind (store_option le opts r sy s) (store_options le opts r sys)"

text \<open>The symbols from the first to the last, in the order of the enumeration.\<close>

definition visited_syms :: "ec_opt_sym list" where
  "visited_syms =
     [EC_OPT_CONTENT_TYPE, EC_OPT_MAX_AGE, EC_OPT_PROXY_URI, EC_OPT_ETAG, EC_OPT_URI_HOST, EC_OPT_LOCATION_PATH,
      EC_OPT_URI_PORT, EC_OPT_LOCATION_QUERY, EC_OPT_URI_PATH, EC_OPT_OBSERVE, EC_OPT_TOKEN, EC_OPT_ACCEPT,
      EC_OPT_IF_MATCH, EC_OPT_URI_QUERY, EC_OPT_BLOCK2, EC_OPT_BLOCK1, EC_OPT_IF_NONE_MATCH, EC_OPT_PUBLISH]"

definition kache_store_ec_options_to_rep ::
    "bool \<Rightarrow> ec_opts \<Rightarrow> nat \<Rightarrow> ('m, 'z) kache_evcoap_scheme \<Rightarrow> (crc \<times> ('m, 'z) kache_evcoap_scheme) run" where
  "kache_store_ec_options_to_rep le opts r s =
     run_bind (store_options le opts r visited_syms s) (\<lambda>s. Done (C_OK, s))"

text \<open>
  The object and the representation to store into: those of the cache, the representation out of its
  queue and cleared, or new ones. A new object is put into the cache under the key \<open>uri\<close>, those three
  letters.
\<close>

definition target_rep ::
    "'m kenv \<Rightarrow> kache_content_type \<Rightarrow> string \<Rightarrow> nat option \<Rightarrow> ('m, 'z) kache_evcoap_scheme \<Rightarrow>
     (nat \<times> nat \<times> ('m, 'z) kache_evcoap_scheme) run" where
  "target_rep ke mt uri hit s =
     (case hit of
        Some a \<Rightarrow>
          run_bind (kache_get_rep_by_media_type a mt s) (\<lambda>q.
            case q of
              Some r \<Rightarrow>
                run_bind (kache_remove_rep a r s) (\<lambda>(_, s).
                run_bind (kache_clear_kache_rep r s) (\<lambda>s. Done (a, r, s)))
            | None \<Rightarrow> (case kache_init_kache_rep s of (r, s) \<Rightarrow> Done (a, r, s)))
      | None \<Rightarrow>
          (case kache_init_kache_obj s of
             (a, s) \<Rightarrow>
               (let s = put_kobj a \<lparr>ko_protocol_type = COAP, ko_key = Owned (map of_char uri @ [0]), ko_reps = []\<rparr> s
                in case kache_init_kache_rep s of
                     (r, s) \<Rightarrow> (case kache_set ke ''uri'' a None s of (_, _, s) \<Rightarrow> Done (a, r, s)))))"

definition store_payload ::
    "ec_client \<Rightarrow> kache_content_type \<Rightarrow> nat \<Rightarrow> ('m, 'z) kache_evcoap_scheme \<Rightarrow> ('m, 'z) kache_evcoap_scheme run" where
  "store_payload cli mt r s =
     run_bind (get_krep r s) (\<lambda>rep.
       let rep = rep\<lparr>kr_media_type := Some mt\<rparr>
       in case ec_response_get_payload cli of
            Some (Some pl, pl_sz) \<Rightarrow>
              run_bind (read_bytes pl pl_sz) (\<lambda>b.
                Done (put_krep r (rep\<lparr>kr_payload := Owned b, kr_payload_size := pl_sz\<rparr>) s))
          | _ \<Rightarrow> Done (put_krep r rep s))"

text \<open>A Max-Age of 0 becomes 60 seconds; the timer takes it as an \<open>int\<close>.\<close>

definition store_lifetime :: "nat \<Rightarrow> nat \<Rightarrow> ('m, 'z) kache_evcoap_scheme \<Rightarrow> ('m, 'z) kache_evcoap_scheme run" where
  "store_lifetime a r s =
     run_bind (get_krep r s) (\<lambda>rep.
       let rep = (if kr_max_age rep = 0 then rep\<lparr>kr_max_age := 60\<rparr> else rep);
           s = put_krep r rep s; arg = w_tick s;
           s = (tick s)\<lparr>kx_args := (kx_args s)(arg \<mapsto> \<lparr>ka_rep = r, ka_obj = a\<rparr>)\<rparr>
       in run_bind (kache_set_rep_timer (kx_base s) r (sint (kr_max_age rep)) arg s) (\<lambda>(_, s).
          case kache_init_evcoap_data s of
            (data, s) \<Rightarrow> run_bind (get_krep r s) (\<lambda>rep. Done (put_krep r (rep\<lparr>kr_data := Owned data\<rparr>) s))))"

text \<open>On an error the object is freed, which the cache may still have, and the representation.\<close>

definition drop_both :: "nat \<Rightarrow> nat \<Rightarrow> ('m, 'z) kache_evcoap_scheme \<Rightarrow> ('m, 'z) kache_evcoap_scheme" where
  "drop_both a r s = s\<lparr>ko_heap := (ko_heap s)(a := None), kr_heap := (kr_heap s)(r := None)\<rparr>"

text \<open>The time stamp, the options, the timer and the queue; \<open>now\<close> is what \<open>gettimeofday\<close> says, if anything.\<close>

definition finish_store ::
    "bool \<Rightarrow> timeval option \<Rightarrow> ec_opts \<Rightarrow> nat \<Rightarrow> nat \<Rightarrow> ('m, 'z) kache_evcoap_scheme \<Rightarrow>
     (crc \<times> ('m, 'z) kache_evcoap_scheme) run" where
  "finish_store le now opts a r s =
     (case now of
        None \<Rightarrow> Done (C_ERR, drop_both a r s)
      | Some tv \<Rightarrow>
          run_bind (get_krep r s) (\<lambda>rep.
          run_bind (kache_store_ec_options_to_rep le opts r (put_krep r (rep\<lparr>kr_ts := Owned tv\<rparr>) s)) (\<lambda>(rc, s).
            if rc = C_ERR then Done (C_ERR, drop_both a r s)
            else run_bind (store_lifetime a r s) (\<lambda>s.
                 run_bind (kache_add_rep a r s) (\<lambda>(rc, s).
                   Done (if rc = C_ERR then (C_ERR, drop_both a r s) else (C_OK, s)))))))"

definition kache_store_evcoap_response ::
    "'e env \<Rightarrow> 'm kenv \<Rightarrow> timeval option \<Rightarrow> ec_client \<Rightarrow> string \<Rightarrow> ('m, 'z) kache_evcoap_scheme \<Rightarrow>
     (crc \<times> ('m, 'z) kache_evcoap_scheme) run" where
  "kache_store_evcoap_response e ke now cli uri s =
     (case kache_get ke uri s of
        (hit, s) \<Rightarrow>
          (case ec_client_get_response_options cli of
             None \<Rightarrow> Fault Uninitialised
           | Some opts \<Rightarrow>
               (case ec_opts_get_content_type (e_le e) opts of
                  None \<Rightarrow> Fault Uninitialised
                | Some ct \<Rightarrow>
                    run_bind (target_rep ke (kache_ct_from_ecct ct) uri hit s) (\<lambda>(a, r, s).
                    run_bind (store_payload cli (kache_ct_from_ecct ct) r s) (\<lambda>s.
                      finish_store (e_le e) now opts a r s)))))"

subsection \<open>The end of a representation\<close>

text \<open>An object without representations is taken out of the cache, under its own key, and freed.\<close>

definition drop_empty :: "'m kenv \<Rightarrow> nat \<Rightarrow> ('m, 'z) kache_evcoap_scheme \<Rightarrow> ('m, 'z) kache_evcoap_scheme run" where
  "drop_empty ke a s =
     run_bind (get_kobj a s) (\<lambda>obj.
       if kache_peak_rep obj \<noteq> None then Done s
       else run_bind (key_string (ko_key obj)) (\<lambda>key.
            case kache_unset ke key None s of (_, _, s) \<Rightarrow> kache_free_kache_obj a s))"

definition kache_evcoap_timer_cb ::
    "'m kenv \<Rightarrow> nat \<Rightarrow> ('m, 'z) kache_evcoap_scheme \<Rightarrow> ('m, 'z) kache_evcoap_scheme run" where
  "kache_evcoap_timer_cb ke arg s =
     (case kx_args s arg of
        None \<Rightarrow> Fault Use_after_free
      | Some ka \<Rightarrow>
          run_bind (kache_remove_rep (ka_obj ka) (ka_rep ka) s) (\<lambda>(_, s).
          run_bind (drop_empty ke (ka_obj ka) s) (\<lambda>s.
          run_bind (kache_free_kache_rep_with_data (ka_rep ka) True s) (\<lambda>(data, s).
          run_bind (kache_free_evcoap_data data) (\<lambda>_. Done s)))))"

end
