(* ===== verification/Kache_Spec.thy ===== *)
theory Kache_Spec
  imports Kache Store
begin

text \<open>
  What the cache promises. Insertions may discard other entries, so a lookup that finds nothing says
  nothing; but what it finds is what was last stored under that key. The contract of such a store is
  the locale \<open>lossy_store\<close>, provided by \<open>kache_set\<close>, \<open>kache_unset\<close> and \<open>kache_get\<close>. Then: releasing
  the cache, and the representations of an object.
\<close>

subsection \<open>A store that may forget\<close>

datatype ('k, 'v) cache_call = Set_call 'k 'v | Unset_call 'k | Get_call 'k

text \<open>
  A sequence of calls, with the log of the insertions and removals that were accepted. A rejected
  insertion may have discarded entries.
\<close>

fun cache_calls ::
    "('k \<Rightarrow> 'v \<Rightarrow> 's \<Rightarrow> bool \<times> 's) \<Rightarrow> ('k \<Rightarrow> 's \<Rightarrow> bool \<times> 's) \<Rightarrow> ('k \<Rightarrow> 's \<Rightarrow> 'v option \<times> 's) \<Rightarrow>
     ('k, 'v) cache_call list \<Rightarrow> 's \<Rightarrow> ('k, 'v) store_op list \<times> 's" where
  "cache_calls put del get [] s = ([], s)"
| "cache_calls put del get (Set_call k v # cs) s =
     (case put k v s of (b, s) \<Rightarrow> case cache_calls put del get cs s of (l, s) \<Rightarrow> (if b then Put k v # l else l, s))"
| "cache_calls put del get (Unset_call k # cs) s =
     (case del k s of (b, s) \<Rightarrow> case cache_calls put del get cs s of (l, s) \<Rightarrow> (if b then Del k # l else l, s))"
| "cache_calls put del get (Get_call k # cs) s = (case get k s of (_, s) \<Rightarrow> cache_calls put del get cs s)"

locale lossy_store =
  fixes ok :: "'s \<Rightarrow> bool" and put :: "'k \<Rightarrow> 'v \<Rightarrow> 's \<Rightarrow> bool \<times> 's" and del :: "'k \<Rightarrow> 's \<Rightarrow> bool \<times> 's"
    and get :: "'k \<Rightarrow> 's \<Rightarrow> 'v option \<times> 's"
  assumes put_ok: "ok s \<Longrightarrow> put k v s = (b, s') \<Longrightarrow> ok s'"
    and del_ok: "ok s \<Longrightarrow> del k s = (b, s') \<Longrightarrow> ok s'"
    and get_ok: "ok s \<Longrightarrow> get k s = (r, s') \<Longrightarrow> ok s'"
    and put_same: "ok s \<Longrightarrow> put k v s = (True, s') \<Longrightarrow> fst (get k s') = Some v"
    and put_other: "ok s \<Longrightarrow> put k v s = (b, s') \<Longrightarrow> j \<noteq> k \<or> \<not> b \<Longrightarrow> fst (get j s') \<in> {None, fst (get j s)}"
    and del_same: "ok s \<Longrightarrow> del k s = (True, s') \<Longrightarrow> fst (get k s') = None"
    and del_other: "ok s \<Longrightarrow> del k s = (b, s') \<Longrightarrow> j \<noteq> k \<or> \<not> b \<Longrightarrow> fst (get j s') = fst (get j s)"
    and get_keeps: "ok s \<Longrightarrow> get k s = (r, s') \<Longrightarrow> fst (get j s') = fst (get j s)"
begin

text \<open>\<open>r\<close> is the last word before the calls; the lookup may have forgotten it.\<close>

lemma calls_sound:
  "cache_calls put del get cs s = (l, s') \<Longrightarrow> ok s \<Longrightarrow> fst (get j s) \<in> {None, r} \<Longrightarrow>
   ok s' \<and> fst (get j s') \<in> {None, latest (=) j l r}"
proof (induction cs arbitrary: s l r)
  case (Cons c cs)
  show ?case
  proof (cases c)
    case (Set_call k v)
    obtain b s1 where p: "put k v s = (b, s1)" by (cases "put k v s")
    obtain l1 where t: "cache_calls put del get cs s1 = (l1, s')" and l: "l = (if b then Put k v # l1 else l1)"
      using Cons.prems(1) p by (auto simp: Set_call split: prod.splits)
    have "fst (get j s1) \<in> {None, if b \<and> k = j then Some v else r}"
    proof (cases "b \<and> k = j")
      case True
      with p put_same [OF Cons.prems(2)] show ?thesis by simp
    next
      case False
      with put_other [OF Cons.prems(2) p, of j] Cons.prems(3) show ?thesis by auto
    qed
    from Cons.IH [OF t put_ok [OF Cons.prems(2) p] this] show ?thesis by (cases "b \<and> k = j"; auto simp: l)
  next
    case (Unset_call k)
    obtain b s1 where p: "del k s = (b, s1)" by (cases "del k s")
    obtain l1 where t: "cache_calls put del get cs s1 = (l1, s')" and l: "l = (if b then Del k # l1 else l1)"
      using Cons.prems(1) p by (auto simp: Unset_call split: prod.splits)
    have "fst (get j s1) \<in> {None, if b \<and> k = j then None else r}"
    proof (cases "b \<and> k = j")
      case True
      with p del_same [OF Cons.prems(2)] show ?thesis by simp
    next
      case False
      with del_other [OF Cons.prems(2) p, of j] Cons.prems(3) show ?thesis by auto
    qed
    from Cons.IH [OF t del_ok [OF Cons.prems(2) p] this] show ?thesis by (cases "b \<and> k = j"; auto simp: l)
  next
    case (Get_call k)
    obtain q s1 where p: "get k s = (q, s1)" by (cases "get k s")
    have "fst (get j s1) \<in> {None, r}" using get_keeps [OF Cons.prems(2) p] Cons.prems(3) by simp
    moreover have "cache_calls put del get cs s1 = (l, s')" using Cons.prems(1) p by (simp add: Get_call)
    ultimately show ?thesis using Cons.IH get_ok [OF Cons.prems(2) p] by blast
  qed
qed simp

lemma hit_is_latest:
  "cache_calls put del get cs s = (l, s') \<Longrightarrow> ok s \<Longrightarrow> fst (get j s') = Some v \<Longrightarrow>
   latest (=) j l (fst (get j s)) = Some v"
  using calls_sound [of cs s l s' j "fst (get j s)"] by simp

end

subsection \<open>The map of libu\<close>

text \<open>
  What the cache relies on: \<open>look\<close> is what a lookup returns and \<open>good\<close> holds of the maps that libu
  made. An insertion may discard entries, of which it reports nothing.
\<close>

definition kenv_laws :: "'m kenv \<Rightarrow> ('m \<Rightarrow> bool) \<Rightarrow> ('m \<Rightarrow> string \<Rightarrow> nat option) \<Rightarrow> bool" where
  "kenv_laws e good look \<longleftrightarrow>
     (\<forall>o' m. ke_new e o' = Some m \<longrightarrow> good m \<and> look m = (\<lambda>_. None)) \<and>
     (\<forall>m k. good m \<longrightarrow> fst (ke_get e m k) = look m k \<and> good (snd (ke_get e m k)) \<and> look (snd (ke_get e m k)) = look m) \<and>
     (\<forall>m k a b m'. good m \<longrightarrow> ke_put e m k a = (b, m') \<longrightarrow>
        good m' \<and> (b \<longrightarrow> look m' k = Some a) \<and> (\<forall>j. j \<noteq> k \<or> \<not> b \<longrightarrow> look m' j \<in> {None, look m j})) \<and>
     (\<forall>m k a m'. good m \<longrightarrow> ke_del e m k = Some (a, m') \<longrightarrow>
        good m' \<and> look m k = Some a \<and> look m' = (look m)(k := None))"

lemma kenv_new: "kenv_laws e good look \<Longrightarrow> ke_new e op = Some m \<Longrightarrow> good m \<and> look m = (\<lambda>_. None)"
  unfolding kenv_laws_def by (drule conjunct1, drule spec [of _ op], drule spec [of _ m], drule (1) mp)

lemma kenv_get: "kenv_laws e good look \<Longrightarrow> good m \<Longrightarrow>
    fst (ke_get e m k) = look m k \<and> good (snd (ke_get e m k)) \<and> look (snd (ke_get e m k)) = look m"
  unfolding kenv_laws_def by blast

lemma kenv_put: "kenv_laws e good look \<Longrightarrow> good m \<Longrightarrow> ke_put e m k a = (b, m') \<Longrightarrow>
    good m' \<and> (b \<longrightarrow> look m' k = Some a) \<and> (\<forall>j. j \<noteq> k \<or> \<not> b \<longrightarrow> look m' j \<in> {None, look m j})"
  unfolding kenv_laws_def by blast

lemma kenv_del: "kenv_laws e good look \<Longrightarrow> good m \<Longrightarrow> ke_del e m k = Some (a, m') \<Longrightarrow>
    good m' \<and> look m k = Some a \<and> look m' = (look m)(k := None)"
  unfolding kenv_laws_def by blast

definition set_call :: "'m kenv \<Rightarrow> string \<Rightarrow> nat \<Rightarrow> ('m, 'z) kache_scheme \<Rightarrow> bool \<times> ('m, 'z) kache_scheme" where
  "set_call e k a s = (case kache_set e k a None s of (rc, _, s) \<Rightarrow> (rc = C_OK, s))"

definition unset_call :: "'m kenv \<Rightarrow> string \<Rightarrow> ('m, 'z) kache_scheme \<Rightarrow> bool \<times> ('m, 'z) kache_scheme" where
  "unset_call e k s = (case kache_unset e k None s of (rc, _, s) \<Rightarrow> (rc = C_OK, s))"

definition kache_ok ::
    "'m kenv \<Rightarrow> ('m \<Rightarrow> bool) \<Rightarrow> ('m \<Rightarrow> string \<Rightarrow> nat option) \<Rightarrow> ('m, 'z) kache_scheme \<Rightarrow> bool" where
  "kache_ok e good look s \<longleftrightarrow> kenv_laws e good look \<and> good (k_hmap s)"

lemma kache_get_look: "kache_ok e good look s \<Longrightarrow> fst (kache_get e k s) = look (k_hmap s) k"
  using kenv_get [of e good look "k_hmap s" k] by (auto simp: kache_ok_def kache_get_def split: prod.splits)

lemma kache_get_ok:
  "kache_ok e good look s \<Longrightarrow> kache_get e k s = (r, s') \<Longrightarrow> kache_ok e good look s' \<and> look (k_hmap s') = look (k_hmap s)"
  using kenv_get [of e good look "k_hmap s" k] by (auto simp: kache_ok_def kache_get_def split: prod.splits)

lemma set_call_ok:
  assumes "kache_ok e good look s" and "set_call e k a s = (b, s')"
  shows "kache_ok e good look s' \<and> (b \<longrightarrow> look (k_hmap s') k = Some a) \<and>
    (\<forall>j. j \<noteq> k \<or> \<not> b \<longrightarrow> look (k_hmap s') j \<in> {None, look (k_hmap s) j})"
proof -
  have L: "kenv_laws e good look" and I: "good (k_hmap s)" using assms(1) by (simp_all add: kache_ok_def)
  obtain old m where g: "ke_get e (k_hmap s) k = (old, m)" by (cases "ke_get e (k_hmap s) k")
  have m: "good m" "look m = look (k_hmap s)" using kenv_get [OF L I, of k] by (simp_all add: g)
  obtain c m' where p: "ke_put e m k a = (c, m')" by (cases "ke_put e m k a")
  have "k_hmap s' = m' \<and> b = c"
    using assms(2) by (cases c) (auto simp: set_call_def kache_set_def g p Let_def)
  with kenv_put [OF L m(1) p] m L show ?thesis by (simp add: kache_ok_def)
qed

lemma unset_call_ok:
  assumes "kache_ok e good look s" and "unset_call e k s = (b, s')"
  shows "kache_ok e good look s' \<and> look (k_hmap s') = (if b then (look (k_hmap s))(k := None) else look (k_hmap s))"
proof (cases "ke_del e (k_hmap s) k")
  case None
  with assms show ?thesis by (auto simp: unset_call_def kache_unset_def)
next
  case (Some p)
  obtain a m where am: "p = (a, m)" by (cases p)
  with assms Some show ?thesis using kenv_del [of e good look "k_hmap s" k a m]
    by (auto simp: unset_call_def kache_unset_def kache_ok_def)
qed

interpretation kc: lossy_store "kache_ok e good look" "set_call e" "unset_call e" "kache_get e" for e good look
proof (unfold_locales, goal_cases)
  case (1 s k v b s')
  then show ?case using set_call_ok by blast
next
  case (2 s k b s')
  then show ?case using unset_call_ok by blast
next
  case (3 s k r s')
  then show ?case using kache_get_ok by blast
next
  case (4 s k v s')
  from set_call_ok [OF this] show ?case by (simp add: kache_get_look [of e good look])
next
  case (5 s k v b s' j)
  from set_call_ok [OF 5(1,2)] 5(1,3) show ?case by (simp add: kache_get_look [of e good look])
next
  case (6 s k s')
  from unset_call_ok [OF this] show ?case by (simp add: kache_get_look [of e good look])
next
  case (7 s k b s' j)
  from unset_call_ok [OF 7(1,2)] 7(1,3) show ?case by (auto simp: kache_get_look [of e good look])
next
  case (8 s k r s' j)
  from kache_get_ok [OF this] 8(1) show ?case by (simp add: kache_get_look [of e good look])
qed

lemma fresh_kache:
  assumes "kenv_laws e good look" and "kache_init e = Some s0" and "kache_init_data_structure e s0 = (C_OK, s)"
  shows "kache_ok e good look s \<and> look (k_hmap s) = (\<lambda>_. None)"
proof -
  obtain m where "ke_new e (k_opts s0) = Some m" "s = s0\<lparr>k_hmap := m\<rparr>"
    using assms(3) by (auto simp: kache_init_data_structure_def split: option.splits)
  with assms(1) kenv_new [of e good look "k_opts s0" m] show ?thesis by (simp add: kache_ok_def)
qed

text \<open>C30: The cache never answers with the wrong object: in a cache that was just made, after any sequence of
  \<open>kache_set\<close>, \<open>kache_unset\<close> and \<open>kache_get\<close>, whatever the discard policy threw away in between and
  whichever insertions it refused, the object that a lookup of a key finds is the one that the last accepted
  insertion under this key stored, with no accepted removal of the key after it.\<close>

theorem cache_sound:
  assumes "kenv_laws e good look" and "kache_init e = Some s0" and "kache_init_data_structure e s0 = (C_OK, s)"
    and "cache_calls (set_call e) (unset_call e) (kache_get e) cs s = (l, s')" and "fst (kache_get e k s') = Some a"
  shows "latest (=) k l None = Some a"
proof -
  from fresh_kache [OF assms(1-3)] have ok: "kache_ok e good look s" and "fst (kache_get e k s) = None"
    by (simp_all add: kache_get_look [of e good look])
  with kc.hit_is_latest [OF assms(4) ok assms(5)] show ?thesis by simp
qed

text \<open>A map of at most two entries, which forgets the one that was inserted first.\<close>

definition demo_kenv :: "(string \<times> nat) list kenv" where
  "demo_kenv = \<lparr>ke_null = [], ke_opts_ok = True, ke_new = (\<lambda>_. Some []), ke_get = (\<lambda>m k. (map_of m k, m)),
     ke_put = (\<lambda>m k a. (True, (k, a) # take 1 (filter (\<lambda>x. fst x \<noteq> k) m))),
     ke_del = (\<lambda>m k. case map_of m k of None \<Rightarrow> None | Some a \<Rightarrow> Some (a, filter (\<lambda>x. fst x \<noteq> k) m)),
     ke_vals = (\<lambda>m. map snd m), ke_size_ok = (\<lambda>n. n > 0), ke_max_ok = (\<lambda>n. n > 0)\<rparr>"

lemma map_of_others: "map_of (filter (\<lambda>x. fst x \<noteq> k) m) j = (if j = k then None else map_of m j)"
  by (induction m) auto

lemma map_of_take: "map_of (take n m) j \<in> {None, map_of m j}"
  by (induction m arbitrary: n) (auto simp: take_Cons split: nat.splits)

lemma demo_kenv_laws: "kenv_laws demo_kenv (\<lambda>_. True) (\<lambda>m. map_of m)"
proof -
  have "map_of (take 1 (filter (\<lambda>x. fst x \<noteq> k) m)) j \<in> {None, map_of m j}" for k :: string and m :: "(string \<times> nat) list" and j
    using map_of_take [of 1 "filter (\<lambda>x. fst x \<noteq> k) m" j] by (auto simp: map_of_others split: if_splits)
  then show ?thesis unfolding kenv_laws_def demo_kenv_def
    by (auto simp: map_of_others fun_eq_iff split: option.splits)
qed

definition demo_kache :: "(string \<times> nat) list kache" where
  "demo_kache = the (kache_init demo_kenv)"

lemma demo_kache_init: "kache_init demo_kenv = Some demo_kache"
  by (simp add: demo_kache_def kache_init_def demo_kenv_def)

lemma demo_kache_data: "kache_init_data_structure demo_kenv demo_kache = (C_OK, demo_kache)"
  by (simp add: demo_kache_def kache_init_data_structure_def kache_init_def demo_kenv_def)

theorem cache_sound_witness:
  "latest (=) ''b'' [Put ''a'' 1, Put ''b'' 2, Put ''a'' 3, Put ''b'' 4 :: (string, nat) store_op] None = Some 4"
  by (rule cache_sound [OF demo_kenv_laws demo_kache_init demo_kache_data, where
        cs = "[Set_call ''a'' 1, Set_call ''b'' 2, Set_call ''a'' 3, Get_call ''a'', Set_call ''b'' 4]"
        and s' = "demo_kache\<lparr>k_hmap := [(''b'', 4), (''a'', 3)]\<rparr>"])
    (simp_all add: set_call_def kache_set_def kache_get_def demo_kenv_def demo_kache_def kache_init_def)

subsection \<open>Releasing the cache\<close>

lemma get_krep_fault: "get_krep r s = Fault f \<Longrightarrow> f = Use_after_free"
  by (auto simp: get_krep_def split: option.splits)

lemma u_free_fault: "u_free p = Fault f \<Longrightarrow> f = Use_after_free"
  by (auto simp: u_free_def split: owned.splits)

lemma free_rep_fault: "kache_free_kache_rep r s = Fault f \<Longrightarrow> f = Use_after_free"
  by (auto simp: kache_free_kache_rep_def kache_free_kache_rep_with_data_def kache_clear_kache_rep_def
      run_bind_Fault_iff dest: get_krep_fault u_free_fault)

lemma free_rep_gone: "kache_free_kache_rep r s = Done (rc, s') \<Longrightarrow> rc = C_OK \<and> kr_heap s' r = None"
  by (auto simp: kache_free_kache_rep_def kache_free_kache_rep_with_data_def run_bind_Done_iff)

text \<open>The link of the representation is read when it has been freed.\<close>

lemma free_reps_faults: "rep_walk kache_free_kache_rep (r # rs) s = Fault Use_after_free"
proof (cases "kache_free_kache_rep r s")
  case (Fault f)
  with free_rep_fault show ?thesis by auto
next
  case (Done p)
  obtain rc s1 where p: "p = (rc, s1)" by (cases p)
  from free_rep_gone [of r s rc s1] Done p have "rc = C_OK" "kr_heap s1 r = None" by simp_all
  with Done p show ?thesis by (simp add: get_krep_def)
qed

lemma default_free:
  assumes "ko_heap s a = Some obj" and "ko_key obj \<noteq> Dangling"
  shows "kache_default_free_func a s =
    (if ko_reps obj \<noteq> [] then Fault Use_after_free else Done (s\<lparr>ko_heap := (ko_heap s)(a := None)\<rparr>))"
proof (cases "ko_reps obj")
  case Nil
  with assms show ?thesis
    by (cases "ko_key obj")
      (simp_all add: kache_default_free_func_def kache_rep_foreach_def kache_free_kache_obj_def get_kobj_def u_free_def)
next
  case (Cons r rs)
  with assms free_reps_faults [of r rs s] show ?thesis
    by (simp add: kache_default_free_func_def kache_rep_foreach_def get_kobj_def del: rep_walk.simps)
qed

definition has_reps :: "('m, 'z) kache_scheme \<Rightarrow> nat \<Rightarrow> bool" where
  "has_reps s a = (case ko_heap s a of None \<Rightarrow> False | Some obj \<Rightarrow> ko_reps obj \<noteq> [])"

definition obj_live :: "('m, 'z) kache_scheme \<Rightarrow> nat \<Rightarrow> bool" where
  "obj_live s a = (case ko_heap s a of None \<Rightarrow> False | Some obj \<Rightarrow> ko_key obj \<noteq> Dangling)"

lemma free_walk_outcome:
  "distinct as \<Longrightarrow> list_all (obj_live s) as \<Longrightarrow>
   free_walk as s =
     (if list_ex (has_reps s) as then Fault Use_after_free
      else Done (s\<lparr>ko_heap := (\<lambda>a. if a \<in> set as then None else ko_heap s a)\<rparr>))"
proof (induction as arbitrary: s)
  case (Cons a as)
  then obtain obj where o: "ko_heap s a = Some obj" "ko_key obj \<noteq> Dangling"
    by (auto simp: obj_live_def split: option.splits)
  let ?s = "s\<lparr>ko_heap := (ko_heap s)(a := None)\<rparr>"
  have same: "obj_live ?s b = obj_live s b" "has_reps ?s b = has_reps s b" if "b \<in> set as" for b
    using that Cons.prems(1) by (auto simp: obj_live_def has_reps_def)
  have "list_all (obj_live ?s) as" using Cons.prems(2) same(1) by (simp add: list_all_iff)
  moreover have "list_ex (has_reps ?s) as = list_ex (has_reps s) as" using same(2) by (simp add: list_ex_iff)
  ultimately have IH: "free_walk as ?s = (if list_ex (has_reps s) as then Fault Use_after_free
      else Done (?s\<lparr>ko_heap := (\<lambda>b. if b \<in> set as then None else ko_heap ?s b)\<rparr>))"
    using Cons.IH [of ?s] Cons.prems(1) by simp
  have h: "has_reps s a \<longleftrightarrow> ko_reps obj \<noteq> []" using o by (simp add: has_reps_def)
  have "(\<lambda>b. if b \<in> set as then None else ko_heap ?s b) = (\<lambda>b. if b \<in> set (a # as) then None else ko_heap s b)"
    by auto
  with IH show ?case by (simp add: default_free [OF o] h)
qed simp

text \<open>Releasing a cache whose objects are live, without a callback for it, is sound only when no cached object
  has a representation: then exactly the cached objects are freed and nothing else changes; with a representation,
  the queue link is read from the representation that has just been freed. With a callback, which is never called,
  every object stays on the heap.\<close>

theorem kache_free_outcome:
  assumes "distinct (ke_vals e (k_hmap s))" and "list_all (obj_live s) (ke_vals e (k_hmap s))"
  shows "kache_free e s =
    (if k_free_obj s then Done (s\<lparr>k_hmap := ke_null e\<rparr>)
     else if list_ex (has_reps s) (ke_vals e (k_hmap s)) then Fault Use_after_free
     else Done (s\<lparr>k_hmap := ke_null e,
       ko_heap := (\<lambda>a. if a \<in> set (ke_vals e (k_hmap s)) then None else ko_heap s a)\<rparr>))"
  by (simp add: kache_free_def free_walk_outcome [OF assms])

definition demo_cached :: "(string \<times> nat) list kache" where
  "demo_cached = demo_kache\<lparr>k_hmap := [(''a'', 1), (''b'', 2)],
     ko_heap := [1 \<mapsto> \<lparr>ko_protocol_type = COAP, ko_key = Null, ko_reps = []\<rparr>,
                 2 \<mapsto> \<lparr>ko_protocol_type = COAP, ko_key = Owned [98, 0], ko_reps = [3]\<rparr>]\<rparr>"

theorem kache_free_outcome_witness: "kache_free demo_kenv demo_cached = Fault Use_after_free"
  by (subst kache_free_outcome)
    (simp_all add: demo_kenv_def demo_cached_def demo_kache_def kache_init_def obj_live_def has_reps_def)

subsection \<open>Representations of an object\<close>

definition rep_sound :: "kache_rep \<Rightarrow> bool" where
  "rep_sound rep \<longleftrightarrow>
     kr_payload rep \<noteq> Dangling \<and> kr_ETag rep \<noteq> Dangling \<and> kr_ts rep \<noteq> Dangling \<and> kr_data rep \<noteq> Dangling"

text \<open>Clearing a representation and releasing it afterwards, as the two functions are offered side by side,
  frees memory twice exactly when the representation owned a payload, an ETag or a time stamp: clearing leaves the
  pointers in place. Of a representation that owned none of them, both calls together leave what releasing alone does.\<close>

theorem clear_then_free:
  assumes "kr_heap s r = Some rep" and "rep_sound rep"
  shows "run_bind (kache_clear_kache_rep r s) (kache_free_kache_rep r) =
    (if kr_payload rep = Null \<and> kr_ETag rep = Null \<and> kr_ts rep = Null then kache_free_kache_rep r s
     else Fault Use_after_free)"
  using assms
  by (cases "kr_payload rep"; cases "kr_ETag rep"; cases "kr_ts rep")
    (simp_all add: rep_sound_def kache_free_kache_rep_def kache_free_kache_rep_with_data_def kache_clear_kache_rep_def
      get_krep_def put_krep_def u_free_def)

definition demo_rep :: kache_rep where
  "demo_rep = \<lparr>kr_keyvalq = [], kr_payload = Owned [116, 0], kr_payload_size = 2, kr_ETag = Null,
     kr_media_type = Some \<lparr>ct_type = KACHE_TEXT, ct_subtype = KACHE_PLAIN\<rparr>, kr_ts = Null, kr_max_age = 60,
     kr_data = Null, kr_timer = None\<rparr>"

theorem clear_then_free_witness:
  "run_bind (kache_clear_kache_rep 3 (demo_cached\<lparr>kr_heap := [3 \<mapsto> demo_rep]\<rparr>)) (kache_free_kache_rep 3) =
    Fault Use_after_free"
  by (subst clear_then_free [where rep = demo_rep]) (simp_all add: demo_rep_def rep_sound_def)

text \<open>The first representation of the queue that has the media type.\<close>

definition has_type :: "('m, 'z) kache_scheme \<Rightarrow> kache_content_type \<Rightarrow> nat \<Rightarrow> bool" where
  "has_type s mt r = (case kr_heap s r of None \<Rightarrow> False | Some rep \<Rightarrow> kr_media_type rep = Some mt)"

definition typed_rep :: "('m, 'z) kache_scheme \<Rightarrow> nat \<Rightarrow> bool" where
  "typed_rep s r = (case kr_heap s r of None \<Rightarrow> False | Some rep \<Rightarrow> kr_media_type rep \<noteq> None)"

lemma same_content_type: "ct_type a = ct_type b \<and> ct_subtype a = ct_subtype b \<longleftrightarrow> a = (b :: kache_content_type)"
  by auto

lemma media_walk_find: "list_all (typed_rep s) rs \<Longrightarrow> media_walk s mt rs = Done (find (has_type s mt) rs)"
  by (induction rs)
    (auto simp: typed_rep_def has_type_def get_krep_def same_content_type split: option.splits)

lemma find_snoc: "find P (xs @ [x]) = (case find P xs of Some y \<Rightarrow> Some y | None \<Rightarrow> if P x then Some x else None)"
  by (induction xs) auto

text \<open>Looking up a representation by its media type finds the first one of the queue that has it, and none
  when there is none, as long as every representation of the object has been given a type; adding a representation
  changes the answer only when there was none, and then to the new one if it has that type.\<close>

theorem media_lookup_after_add:
  assumes "ko_heap s a = Some obj" and "list_all (typed_rep s) (ko_reps obj)" and "typed_rep s r"
    and "kache_add_rep a r s = Done (C_OK, s')"
  shows "kache_get_rep_by_media_type a mt s = Done (find (has_type s mt) (ko_reps obj)) \<and>
    kache_get_rep_by_media_type a mt s' =
      Done (case find (has_type s mt) (ko_reps obj) of Some q \<Rightarrow> Some q
            | None \<Rightarrow> if has_type s mt r then Some r else None)"
proof -
  have s': "s' = put_kobj a (obj\<lparr>ko_reps := ko_reps obj @ [r]\<rparr>) s"
    using assms(1,4) by (auto simp: kache_add_rep_def get_kobj_def run_bind_Done_iff split: if_splits)
  have "typed_rep s' = typed_rep s" "has_type s' = has_type s"
    by (auto simp: s' put_kobj_def typed_rep_def has_type_def fun_eq_iff)
  then show ?thesis
    using assms(1-3) by (simp add: find_snoc kache_get_rep_by_media_type_def get_kobj_def media_walk_find s' put_kobj_def)
qed

definition demo_object :: "(string \<times> nat) list kache" where
  "demo_object = demo_kache\<lparr>ko_heap := [1 \<mapsto> \<lparr>ko_protocol_type = COAP, ko_key = Null, ko_reps = [3]\<rparr>],
     kr_heap := [3 \<mapsto> demo_rep,
       4 \<mapsto> demo_rep\<lparr>kr_media_type := Some \<lparr>ct_type = KACHE_APPLICATION, ct_subtype = KACHE_JSON\<rparr>\<rparr>]\<rparr>"

theorem media_lookup_after_add_witness:
  "kache_get_rep_by_media_type 1 \<lparr>ct_type = KACHE_APPLICATION, ct_subtype = KACHE_JSON\<rparr>
     (put_kobj 1 \<lparr>ko_protocol_type = COAP, ko_key = Null, ko_reps = [3, 4]\<rparr> demo_object) = Done (Some 4)"
  using media_lookup_after_add [of demo_object 1 "\<lparr>ko_protocol_type = COAP, ko_key = Null, ko_reps = [3]\<rparr>" 4
      "put_kobj 1 \<lparr>ko_protocol_type = COAP, ko_key = Null, ko_reps = [3, 4]\<rparr> demo_object"
      "\<lparr>ct_type = KACHE_APPLICATION, ct_subtype = KACHE_JSON\<rparr>"]
  by (simp add: demo_object_def demo_rep_def typed_rep_def has_type_def kache_add_rep_def get_kobj_def get_krep_def)

lemma of_unat: "unat (w :: 'a :: len word) = n \<Longrightarrow> of_nat n = w"
  by auto

text \<open>Translating a media type of CoAP for the cache and back loses nothing for the six types the cache knows;
  every other number comes back as \<open>application/xml\<close>. In the other direction a type survives exactly when it is one
  of the six pairs that the two enumerations mean to form.\<close>

theorem content_type_roundtrip:
  "kache_get_ecct_from_ct (kache_ct_from_ecct ct) =
     (if unat ct \<in> {EC_MT_TEXT_PLAIN, EC_MT_APPLICATION_LINK_FORMAT, EC_MT_APPLICATION_XML,
        EC_MT_APPLICATION_OCTET_STREAM, EC_MT_APPLICATION_EXI, EC_MT_APPLICATION_JSON} then ct
      else of_nat EC_MT_APPLICATION_XML) \<and>
   (kache_ct_from_ecct (kache_get_ecct_from_ct mt) = mt \<longleftrightarrow> ((ct_type mt = KACHE_TEXT) = (ct_subtype mt = KACHE_PLAIN)))"
proof
  show "kache_get_ecct_from_ct (kache_ct_from_ecct ct) =
     (if unat ct \<in> {EC_MT_TEXT_PLAIN, EC_MT_APPLICATION_LINK_FORMAT, EC_MT_APPLICATION_XML,
        EC_MT_APPLICATION_OCTET_STREAM, EC_MT_APPLICATION_EXI, EC_MT_APPLICATION_JSON} then ct
      else of_nat EC_MT_APPLICATION_XML)"
    by (auto simp: kache_ct_from_ecct_def kache_get_ecct_from_ct_def Let_def dest: of_unat)
  show "kache_ct_from_ecct (kache_get_ecct_from_ct mt) = mt \<longleftrightarrow> ((ct_type mt = KACHE_TEXT) = (ct_subtype mt = KACHE_PLAIN))"
    by (cases mt; cases "ct_type mt"; cases "ct_subtype mt") (simp_all add: kache_ct_from_ecct_def kache_get_ecct_from_ct_def Let_def)
qed

lemma c_strlen_le: "c_strlen m = Done n \<Longrightarrow> n < length m"
  by (induction m arbitrary: n) (auto simp: run_bind_Done_iff split: if_splits)

lemma copy_exact:
  "c_strlen m = Done l \<Longrightarrow> copy_terminated m l n (l + 1) = (if n \<le> l then Done (take n m @ [0]) else Fault Overwrite)"
  using c_strlen_le [of m l] by (auto simp: copy_terminated_def min_def)

text \<open>Adding a key and a value with sizes of the caller stores exactly the leading bytes of each, terminated,
  when both sizes are within the strings, and writes outside the new buffers otherwise; the stored sizes stay 0.\<close>

theorem add_key_val_bounds:
  assumes "c_strlen key = Done kl" and "c_strlen val = Done vl" and "kr_heap s r = Some rep"
  shows "kache_add_key_val r key key_sz val val_sz s =
    (if key_sz \<le> kl \<and> val_sz \<le> vl then
       Done (C_OK, put_krep r (rep\<lparr>kr_keyvalq := kr_keyvalq rep @
         [\<lparr>kv_key = take key_sz key @ [0], kv_key_sz = 0, kv_value = take val_sz val @ [0], kv_value_sz = 0\<rparr>]\<rparr>) s)
     else Fault Overwrite)"
  using assms
  by (simp add: kache_add_key_val_def copy_exact [OF assms(1), simplified] copy_exact [OF assms(2), simplified] get_krep_def)

theorem add_key_val_bounds_witness:
  "kache_add_key_val 3 [97, 0] 1 [98, 99, 0] 3 demo_object = Fault Overwrite"
  by (subst add_key_val_bounds [where kl = 1 and vl = 2 and rep = demo_rep])
    (simp_all add: demo_object_def demo_kache_def kache_init_def demo_kenv_def)

end
