(* ===== verification/Kache_Evcoap_Spec.thy ===== *)
theory Kache_Evcoap_Spec
  imports Kache_Evcoap Kache_Spec Api_Spec
begin

text \<open>
  What the cache of CoAP responses does. A response that was stored can be asked for under one key only, the
  three letters \<open>uri\<close>, whatever its URI was; asked for under that key it comes back as it was received. A
  response with a Token cannot be stored.
\<close>

subsection \<open>Under which key a response is found\<close>

text \<open>Calls of the two functions, and timers that fire.\<close>

datatype kx_call =
    Kx_store "timeval option" ec_client string
  | Kx_respond ec_pdu ec_client string
  | Kx_fire nat

fun kx_run :: "'e env \<Rightarrow> 'm kenv \<Rightarrow> kx_call list \<Rightarrow> 'm kache_evcoap \<Rightarrow> 'm kache_evcoap run" where
  "kx_run e ke [] s = Done s"
| "kx_run e ke (Kx_store now cli uri # cs) s =
     run_bind (kache_store_evcoap_response e ke now cli uri s) (\<lambda>(_, s). kx_run e ke cs s)"
| "kx_run e ke (Kx_respond garbage cli uri # cs) s =
     run_bind (kache_get_evcoap_response e ke garbage cli uri s) (\<lambda>(_, s). kx_run e ke cs s)"
| "kx_run e ke (Kx_fire r # cs) s =
     (case k_pending s r of
        None \<Rightarrow> kx_run e ke cs s
      | Some (arg, _) \<Rightarrow>
          run_bind (kache_evcoap_timer_cb ke arg (s\<lparr>k_pending := (k_pending s)(r := None)\<rparr>)) (kx_run e ke cs))"

definition literal_only ::
    "'m kenv \<Rightarrow> ('m \<Rightarrow> bool) \<Rightarrow> ('m \<Rightarrow> string \<Rightarrow> nat option) \<Rightarrow> ('m, 'z) kache_scheme \<Rightarrow> bool" where
  "literal_only ke good look s \<longleftrightarrow> kache_ok ke good look s \<and> (\<forall>j. j \<noteq> ''uri'' \<longrightarrow> look (k_hmap s) j = None)"

lemma literal_only_map: "k_hmap s' = k_hmap s \<Longrightarrow> literal_only ke good look s' = literal_only ke good look s"
  by (simp add: literal_only_def kache_ok_def)

lemma get_literal: "literal_only ke good look s \<Longrightarrow> kache_get ke uri s = (q, s') \<Longrightarrow> literal_only ke good look s'"
  unfolding literal_only_def using kache_get_ok by metis

lemma get_literal_miss:
  "literal_only ke good look s \<Longrightarrow> uri \<noteq> ''uri'' \<Longrightarrow> kache_get ke uri s = (q, s') \<Longrightarrow> q = None"
  using kache_get_look [of ke good look s uri] by (simp add: literal_only_def)

lemma set_literal:
  assumes "literal_only ke good look s" and "kache_set ke ''uri'' a None s = (rc, ow, s')"
  shows "literal_only ke good look s'"
proof -
  have "set_call ke ''uri'' a s = (rc = C_OK, s')" using assms(2) by (simp add: set_call_def)
  with set_call_ok [of ke good look s "''uri''" a] assms(1) show ?thesis
    unfolding literal_only_def by fastforce
qed

lemma unset_literal:
  assumes "literal_only ke good look s" and "kache_unset ke key None s = (rc, del, s')"
  shows "literal_only ke good look s'"
proof -
  have "unset_call ke key s = (rc = C_OK, s')" using assms(2) by (simp add: unset_call_def)
  with unset_call_ok [of ke good look s key] assms(1) show ?thesis
    unfolding literal_only_def by (auto split: if_splits)
qed

named_theorems kx_map \<open>operations that leave the map of the cache alone\<close>

lemma put_map [kx_map]: "k_hmap (put_krep r rep s) = k_hmap s" "k_hmap (put_kobj a obj s) = k_hmap s" "k_hmap (tick s) = k_hmap s"
  by (simp_all add: put_krep_def put_kobj_def tick_def)

lemma clear_map [kx_map]: "kache_clear_kache_rep r s = Done s' \<Longrightarrow> k_hmap s' = k_hmap s"
  by (auto simp: kache_clear_kache_rep_def run_bind_Done_iff kx_map)

lemma free_with_data_map [kx_map]: "kache_free_kache_rep_with_data r b s = Done (d, s') \<Longrightarrow> k_hmap s' = k_hmap s"
  by (auto simp: kache_free_kache_rep_with_data_def run_bind_Done_iff dest: clear_map)

lemma free_obj_map [kx_map]: "kache_free_kache_obj a s = Done s' \<Longrightarrow> k_hmap s' = k_hmap s"
  by (auto simp: kache_free_kache_obj_def run_bind_Done_iff)

lemma rep_queue_map [kx_map]:
  "kache_remove_rep a r s = Done (rc, s') \<Longrightarrow> k_hmap s' = k_hmap s"
  "kache_add_rep a r s = Done (rc, s') \<Longrightarrow> k_hmap s' = k_hmap s"
  by (auto simp: kache_remove_rep_def kache_add_rep_def run_bind_Done_iff kx_map split: if_splits)

lemma add_key_val_map [kx_map]: "kache_add_key_val r k n v m s = Done (rc, s') \<Longrightarrow> k_hmap s' = k_hmap s"
  by (auto simp: kache_add_key_val_def run_bind_Done_iff kx_map)

lemma store_option_map [kx_map]: "store_option le opts r sy s = Done s' \<Longrightarrow> k_hmap s' = k_hmap s"
  by (auto simp: store_option_def run_bind_Done_iff kx_map dest: add_key_val_map split: ec_opt_sym.splits option.splits)

lemma store_options_map [kx_map]: "store_options le opts r sys s = Done s' \<Longrightarrow> k_hmap s' = k_hmap s"
  by (induction sys arbitrary: s) (auto simp: run_bind_Done_iff dest: store_option_map)

lemma store_payload_map [kx_map]: "store_payload cli mt r s = Done s' \<Longrightarrow> k_hmap s' = k_hmap s"
  by (cases "ec_response_get_payload cli"; cases "fst (the (ec_response_get_payload cli))")
    (auto simp: store_payload_def run_bind_Done_iff Let_def kx_map)

lemma rep_timer_map [kx_map]: "kache_set_rep_timer b r n arg s = Done (rc, s') \<Longrightarrow> k_hmap s' = k_hmap s"
  by (auto simp: kache_set_rep_timer_def run_bind_Done_iff Let_def kx_map split: if_splits)

lemma store_lifetime_map [kx_map]: "store_lifetime a r s = Done s' \<Longrightarrow> k_hmap s' = k_hmap s"
  by (auto simp: store_lifetime_def run_bind_Done_iff Let_def kx_map kache_init_evcoap_data_def dest!: rep_timer_map)

lemma drop_both_map [kx_map]: "k_hmap (drop_both a r s) = k_hmap s"
  by (simp add: drop_both_def)

lemma target_literal:
  assumes "literal_only ke good look s" and "target_rep ke mt uri hit s = Done (a, r, s')"
  shows "literal_only ke good look s'"
proof (cases hit)
  case None
  obtain a1 s1 where o: "kache_init_kache_obj s = (a1, s1)" by (cases "kache_init_kache_obj s")
  define s2 where "s2 = put_kobj a1 \<lparr>ko_protocol_type = COAP, ko_key = Owned (map of_char uri @ [0]), ko_reps = []\<rparr> s1"
  obtain r1 s3 where r: "kache_init_kache_rep s2 = (r1, s3)" by (cases "kache_init_kache_rep s2")
  obtain rc ow where p: "kache_set ke ''uri'' a1 None s3 = (rc, ow, s')"
    using assms(2) None o r by (auto simp: target_rep_def Let_def s2_def split: prod.splits)
  have "k_hmap s3 = k_hmap s"
    using o r by (auto simp: kache_init_kache_obj_def kache_init_kache_rep_def s2_def kx_map)
  with assms(1) have "literal_only ke good look s3" by (simp add: literal_only_def kache_ok_def)
  from set_literal [OF this p] show ?thesis .
next
  case (Some b)
  with assms(2) obtain q where q: "kache_get_rep_by_media_type b mt s = Done q"
    by (auto simp: target_rep_def run_bind_Done_iff)
  have "k_hmap s' = k_hmap s"
  proof (cases q)
    case None
    with assms(2) Some q show ?thesis by (auto simp: target_rep_def kache_init_kache_rep_def tick_def put_krep_def)
  next
    case (Some p)
    with assms(2) \<open>hit = Some b\<close> q obtain rc s1 where "kache_remove_rep b p s = Done (rc, s1)" "kache_clear_kache_rep p s1 = Done s'"
      by (auto simp: target_rep_def run_bind_Done_iff)
    then show ?thesis using rep_queue_map(1) clear_map by metis
  qed
  with assms(1) show ?thesis by (simp add: literal_only_def kache_ok_def)
qed

lemma finish_store_map [kx_map]:
  assumes "finish_store le now opts a r s = Done (rc, s')"
  shows "k_hmap s' = k_hmap s"
proof (cases now)
  case None
  with assms show ?thesis by (auto simp: finish_store_def kx_map)
next
  case (Some tv)
  with assms obtain rep rc1 s1 s2 rc2 s3 where
    o: "kache_store_ec_options_to_rep le opts r (put_krep r (rep\<lparr>kr_ts := Owned tv\<rparr>) s) = Done (rc1, s1)"
    and f: "s' = drop_both a r s1 \<or> store_lifetime a r s1 = Done s2 \<and> kache_add_rep a r s2 = Done (rc2, s3) \<and>
      (s' = s3 \<or> s' = drop_both a r s3)"
    by (fastforce simp: finish_store_def run_bind_Done_iff split: if_splits)
  have "k_hmap s1 = k_hmap s"
    using o store_options_map by (fastforce simp: kache_store_ec_options_to_rep_def run_bind_Done_iff kx_map)
  with f show ?thesis using store_lifetime_map rep_queue_map(2) by (metis drop_both_map)
qed

lemma store_literal:
  assumes "literal_only ke good look s" and "kache_store_evcoap_response e ke now cli uri s = Done (rc, s')"
  shows "literal_only ke good look s'"
proof -
  obtain hit s1 where g: "kache_get ke uri s = (hit, s1)" by (cases "kache_get ke uri s")
  obtain mt a r s2 s3 opts where t: "target_rep ke mt uri hit s1 = Done (a, r, s2)" and p: "store_payload cli mt r s2 = Done s3"
    and f: "finish_store (e_le e) now opts a r s3 = Done (rc, s')"
    using assms(2) g by (auto simp: kache_store_evcoap_response_def run_bind_Done_iff split: option.splits)
  from target_literal [OF get_literal [OF assms(1) g] t] store_payload_map [OF p] finish_store_map [OF f]
  show ?thesis by (simp add: literal_only_def kache_ok_def)
qed

lemma respond_literal:
  assumes "literal_only ke good look s" and "kache_get_evcoap_response e ke garbage cli uri s = Done (p, s')"
  shows "literal_only ke good look s'"
proof -
  obtain q s1 where g: "kache_get ke uri s = (q, s1)" by (cases "kache_get ke uri s")
  have "s' = s1" using assms(2) g
    by (auto simp: kache_get_evcoap_response_def Let_def run_bind_Done_iff split: option.splits if_splits)
  with get_literal [OF assms(1) g] show ?thesis by simp
qed

lemma drop_empty_literal:
  assumes "literal_only ke good look s" and "drop_empty ke a s = Done s'"
  shows "literal_only ke good look s'"
proof -
  obtain obj where o: "get_kobj a s = Done obj" using assms(2) by (auto simp: drop_empty_def run_bind_Done_iff)
  show ?thesis
  proof (cases "kache_peak_rep obj")
    case None
    obtain key where key: "key_string (ko_key obj) = Done key"
      using assms(2) o None by (auto simp: drop_empty_def run_bind_Done_iff)
    obtain rc d s1 where u: "kache_unset ke key None s = (rc, d, s1)" by (cases "kache_unset ke key None s")
    with assms(2) o None key have f: "kache_free_kache_obj a s1 = Done s'" by (simp add: drop_empty_def)
    from unset_literal [OF assms(1) u] free_obj_map [OF f] show ?thesis by (simp add: literal_only_def kache_ok_def)
  qed (use assms o in \<open>simp add: drop_empty_def\<close>)
qed

lemma timer_literal:
  assumes "literal_only ke good look s" and "kache_evcoap_timer_cb ke arg s = Done s'"
  shows "literal_only ke good look s'"
proof -
  obtain a r rc s1 s2 data where k: "kache_remove_rep a r s = Done (rc, s1)" "drop_empty ke a s1 = Done s2"
    "kache_free_kache_rep_with_data r True s2 = Done (data, s')"
    using assms(2) by (auto simp: kache_evcoap_timer_cb_def run_bind_Done_iff split: option.splits)
  have "literal_only ke good look s1" using assms(1) rep_queue_map(1) [OF k(1)] by (simp add: literal_only_def kache_ok_def)
  from drop_empty_literal [OF this k(2)] free_with_data_map [OF k(3)] show ?thesis by (simp add: literal_only_def kache_ok_def)
qed

lemma kx_run_literal: "kx_run e ke cs s = Done s' \<Longrightarrow> literal_only ke good look s \<Longrightarrow> literal_only ke good look s'"
proof (induction cs arbitrary: s)
  case (Cons c cs)
  show ?case
  proof (cases c)
    case (Kx_fire r)
    show ?thesis
    proof (cases "k_pending s r")
      case None
      with Cons Kx_fire show ?thesis by simp
    next
      case (Some p)
      obtain arg n where p: "p = (arg, n)" by (cases p)
      let ?s = "s\<lparr>k_pending := (k_pending s)(r := None)\<rparr>"
      obtain s1 where s1: "kache_evcoap_timer_cb ke arg ?s = Done s1" "kx_run e ke cs s1 = Done s'"
        using Cons.prems(1) Some p Kx_fire by (auto simp: run_bind_Done_iff)
      have "literal_only ke good look ?s" using Cons.prems(2) by (simp add: literal_only_def kache_ok_def)
      from Cons.IH [OF s1(2) timer_literal [OF this s1(1)]] show ?thesis .
    qed
  qed (use Cons in \<open>auto simp: run_bind_Done_iff dest: store_literal respond_literal\<close>)
qed simp

text \<open>C31: No CoAP response is ever found again under its own URI: in a cache that was just made, after any stored
  responses, requests and expired timers, asking for any key other than the three letters \<open>uri\<close> answers nothing,
  without a fault, also for a URI whose response was stored last and has not expired.\<close>

theorem response_never_found:
  assumes "kenv_laws ke good look" and "kache_init ke = Some k0" and "kache_init_data_structure ke k0 = (C_OK, k)"
    and "kx_run e ke cs (kache_init_evcoap k base) = Done s" and "uri \<noteq> ''uri''"
  shows "\<exists>s'. kache_get_evcoap_response e ke garbage cli uri s = Done (None, s')"
proof -
  have "literal_only ke good look (kache_init_evcoap k base)"
    using fresh_kache [OF assms(1-3)] by (simp add: literal_only_def kache_ok_def kache_init_evcoap_def kache.defs)
  with kx_run_literal [OF assms(4)] have l: "literal_only ke good look s" by blast
  obtain q s1 where g: "kache_get ke uri s = (q, s1)" by (cases "kache_get ke uri s")
  from get_literal_miss [OF l assms(5) g] g show ?thesis by (simp add: kache_get_evcoap_response_def)
qed

subsection \<open>What is stored and served\<close>

text \<open>A response of the client with a content type, an ETag without zero bytes, a payload and no Token.\<close>

definition cacheable :: "bool \<Rightarrow> ec_client \<Rightarrow> u16 \<Rightarrow> byte list \<Rightarrow> byte list \<Rightarrow> u32 \<Rightarrow> bool" where
  "cacheable le cli ct pl et ma \<longleftrightarrow>
     (\<exists>opts. ec_client_get_response_options cli = Some opts \<and> ec_opts_get_content_type le opts = Some ct \<and>
        ec_opts_get_max_age le opts = Some ma \<and> ec_opts_get_etag_nth opts 0 = Some (Some et, length et) \<and>
        ec_opts_get_token opts = None) \<and>
     ec_response_get_payload cli = Some (Some pl, length pl) \<and> pl \<noteq> [] \<and> et \<noteq> [] \<and> length et \<le> 8 \<and> 0 \<notin> set et"

text \<open>The representation of such a response.\<close>

definition stored_rep :: "u16 \<Rightarrow> byte list \<Rightarrow> byte list \<Rightarrow> u32 \<Rightarrow> timeval \<Rightarrow> nat \<Rightarrow> nat \<Rightarrow> kache_rep" where
  "stored_rep ct pl et ma tv data arg =
     \<lparr>kr_keyvalq = [], kr_payload = Owned pl, kr_payload_size = length pl, kr_ETag = Owned (et @ [0]),
      kr_media_type = Some (kache_ct_from_ecct ct), kr_ts = Owned tv, kr_max_age = (if ma = 0 then 60 else ma),
      kr_data = Owned data, kr_timer = Some arg\<rparr>"

lemma get_put_krep [simp]: "get_krep r (put_krep r rep s) = Done rep"
  by (simp add: get_krep_def put_krep_def)

lemma put_put_krep [simp]: "put_krep r x (put_krep r y s) = put_krep r x s"
  by (simp add: put_krep_def)

lemma kache_set_heaps:
  "kache_set e k a ow s = (rc, ow', s') \<Longrightarrow>
   ko_heap s' = ko_heap s \<and> kr_heap s' = kr_heap s \<and> w_tick s' = w_tick s \<and> k_pending s' = k_pending s"
  by (auto simp: kache_set_def Let_def split: prod.splits bool.splits)

lemma kache_set_base: "kache_set e k a ow s = (rc, ow', s') \<Longrightarrow> kx_base s' = kx_base s \<and> kx_args s' = kx_args s"
  by (auto simp: kache_set_def Let_def split: prod.splits bool.splits)

text \<open>A new object, with its key, and a new representation.\<close>

lemma target_new:
  obtains s0 rc ow s' rep where "target_rep ke mt uri None s = Done (w_tick s, w_tick s + 1, s')"
    "kache_set ke ''uri'' (w_tick s) None s0 = (rc, ow, s')" "k_hmap s0 = k_hmap s"
    "ko_heap s' = (ko_heap s)(w_tick s \<mapsto> \<lparr>ko_protocol_type = COAP, ko_key = Owned (map of_char uri @ [0]), ko_reps = []\<rparr>)"
    "kr_heap s' (w_tick s + 1) = Some rep" "kr_keyvalq rep = []" "kr_timer rep = None" "kr_ETag rep = Null"
    "w_tick s' = w_tick s + 2" "kx_base s' = kx_base s" "k_pending s' = k_pending s"
proof -
  define obj where "obj = \<lparr>ko_protocol_type = COAP, ko_key = Owned (map of_char uri @ [0]), ko_reps = []\<rparr>"
  define s0 where "s0 = snd (kache_init_kache_rep (put_kobj (w_tick s) obj (snd (kache_init_kache_obj s))))"
  obtain rc ow s' where p: "kache_set ke ''uri'' (w_tick s) None s0 = (rc, ow, s')" by (rule prod_cases3)
  have t: "target_rep ke mt uri None s = Done (w_tick s, w_tick s + 1, s')"
    using p by (simp add: target_rep_def s0_def obj_def kache_init_kache_obj_def kache_init_kache_rep_def Let_def put_kobj_def tick_def)
  have h: "ko_heap s0 = (ko_heap s)(w_tick s \<mapsto> obj)" "k_hmap s0 = k_hmap s" "w_tick s0 = w_tick s + 2" "kx_base s0 = kx_base s"
      "k_pending s0 = k_pending s"
    by (simp_all add: s0_def kache_init_kache_obj_def kache_init_kache_rep_def put_kobj_def put_krep_def tick_def)
  obtain rep where "kr_heap s0 (w_tick s + 1) = Some rep" "kr_keyvalq rep = []" "kr_timer rep = None" "kr_ETag rep = Null"
    by (simp add: s0_def kache_init_kache_obj_def kache_init_kache_rep_def put_kobj_def put_krep_def tick_def)
  with that [OF t p] h kache_set_heaps [OF p] kache_set_base [OF p] show ?thesis by (simp add: obj_def)
qed

lemma options_stored:
  assumes "ec_opts_get_max_age le opts = Some ma" and "ec_opts_get_etag_nth opts 0 = Some (Some et, length et)"
    and "ec_opts_get_token opts = None"
  shows "kache_store_ec_options_to_rep le opts r (put_krep r rep s) =
    Done (C_OK, put_krep r (rep\<lparr>kr_max_age := ma, kr_ETag := Owned (et @ [0])\<rparr>) s)"
  using assms by (simp add: kache_store_ec_options_to_rep_def visited_syms_def store_option_def read_bytes_def)

lemma lifetime_stored:
  assumes "kx_base s"
  shows "store_lifetime a r (put_krep r rep s) =
    Done (put_krep r (rep\<lparr>kr_max_age := (if kr_max_age rep = 0 then 60 else kr_max_age rep), 
        kr_timer := Some (case kr_timer rep of Some old \<Rightarrow> old | None \<Rightarrow> w_tick s), kr_data := Owned (w_tick s + 1)\<rparr>)
      (s\<lparr>w_tick := w_tick s + 2, kx_args := (kx_args s)(w_tick s \<mapsto> \<lparr>ka_rep = r, ka_obj = a\<rparr>),
         k_pending := (k_pending s)(r \<mapsto> (case kr_timer rep of Some old \<Rightarrow> old | None \<Rightarrow> w_tick s,
           sint (if kr_max_age rep = 0 then 60 else kr_max_age rep)))\<rparr>))"
  using assms
  by (simp add: store_lifetime_def kache_set_rep_timer_def kache_init_evcoap_data_def Let_def put_krep_def tick_def get_krep_def
      split: option.splits)

lemma stored_new_object:
  fixes s :: "('m, 'z) kache_evcoap_scheme"
  assumes "cacheable (e_le e) cli ct pl et ma" and "kache_get ke uri s = (None, s1)" and "kx_base s"
  obtains s0 :: "('m, 'z) kache_evcoap_scheme" and rc ow s2 s' arg data where "kache_store_evcoap_response e ke (Some tv) cli uri s = Done (C_OK, s')"
    "kache_set ke ''uri'' (w_tick s) None s0 = (rc, ow, s2)" "k_hmap s0 = k_hmap s1" "k_hmap s' = k_hmap s2"
    "ko_heap s' (w_tick s) = Some \<lparr>ko_protocol_type = COAP, ko_key = Owned (map of_char uri @ [0]), ko_reps = [w_tick s + 1]\<rparr>"
    "kr_heap s' (w_tick s + 1) = Some (stored_rep ct pl et ma tv data arg)"
    "k_pending s' = (k_pending s)(w_tick s + 1 \<mapsto> (arg, sint (if ma = 0 then 60 else ma)))"
    "kx_args s' arg = Some \<lparr>ka_rep = w_tick s + 1, ka_obj = w_tick s\<rparr>"
proof -
  obtain opts where o: "ec_client_get_response_options cli = Some opts" "ec_opts_get_content_type (e_le e) opts = Some ct"
    "ec_opts_get_max_age (e_le e) opts = Some ma" "ec_opts_get_etag_nth opts 0 = Some (Some et, length et)" "ec_opts_get_token opts = None"
    and pl: "ec_response_get_payload cli = Some (Some pl, length pl)"
    using assms(1) by (auto simp: cacheable_def)
  have s1: "w_tick s1 = w_tick s" "kx_base s1" "k_pending s1 = k_pending s"
    using assms(2,3) by (auto simp: kache_get_def split: prod.splits)
  from target_new [of ke "kache_ct_from_ecct ct" uri s1] obtain s0 rc ow s2 rep where
    t: "target_rep ke (kache_ct_from_ecct ct) uri None s1 = Done (w_tick s, w_tick s + 1, s2)"
      "kache_set ke ''uri'' (w_tick s) None s0 = (rc, ow, s2)" "k_hmap s0 = k_hmap s1"
      "ko_heap s2 = (ko_heap s1)(w_tick s \<mapsto> \<lparr>ko_protocol_type = COAP, ko_key = Owned (map of_char uri @ [0]), ko_reps = []\<rparr>)"
      "kr_heap s2 (w_tick s + 1) = Some rep" "kr_keyvalq rep = []" "kr_timer rep = None"
      "w_tick s2 = w_tick s + 2" "kx_base s2" "k_pending s2 = k_pending s"
    using s1 by metis
  let ?r = "w_tick s + 1"
  define rep1 where "rep1 = rep\<lparr>kr_media_type := Some (kache_ct_from_ecct ct), kr_payload := Owned pl, kr_payload_size := length pl\<rparr>"
  have p: "store_payload cli (kache_ct_from_ecct ct) ?r s2 = Done (put_krep ?r rep1 s2)"
    using t(5) pl by (simp add: store_payload_def get_krep_def read_bytes_def rep1_def)
  define rep2 where "rep2 = rep1\<lparr>kr_ts := Owned tv, kr_max_age := ma, kr_ETag := Owned (et @ [0])\<rparr>"
  define rep3 where "rep3 = stored_rep ct pl et ma tv (w_tick s + 3) (w_tick s + 2)"
  have r3: "rep2\<lparr>kr_max_age := (if kr_max_age rep2 = 0 then 60 else kr_max_age rep2),
        kr_timer := Some (case kr_timer rep2 of Some old \<Rightarrow> old | None \<Rightarrow> w_tick s2), kr_data := Owned (w_tick s2 + 1)\<rparr> = rep3"
    using t(6-8) by (simp add: rep3_def rep2_def rep1_def stored_rep_def)
  have m2: "kr_max_age rep2 = ma" "kr_timer rep2 = None" using t(7) by (simp_all add: rep2_def rep1_def)
  define s3 where "s3 = put_krep ?r rep3 (s2\<lparr>w_tick := w_tick s2 + 2, kx_args := (kx_args s2)(w_tick s2 \<mapsto> \<lparr>ka_rep = ?r, ka_obj = w_tick s\<rparr>),
         k_pending := (k_pending s2)(?r \<mapsto> (w_tick s2, sint (if ma = 0 then 60 else ma)))\<rparr>)"
  have l: "store_lifetime (w_tick s) ?r (put_krep ?r rep2 s2) = Done s3"
    unfolding lifetime_stored [OF t(9)] r3 unfolding s3_def m2 by simp
  have o2: "kache_store_ec_options_to_rep (e_le e) opts ?r (put_krep ?r (rep1\<lparr>kr_ts := Owned tv\<rparr>) s2) = Done (C_OK, put_krep ?r rep2 s2)"
    using options_stored [OF o(3-5)] by (simp add: rep2_def)
  define s' where "s' = put_kobj (w_tick s) \<lparr>ko_protocol_type = COAP, ko_key = Owned (map of_char uri @ [0]), ko_reps = [?r]\<rparr> s3"
  have q: "kache_add_rep (w_tick s) ?r s3 = Done (C_OK, s')"
    using t(4) by (simp add: kache_add_rep_def get_kobj_def s3_def s'_def get_krep_def put_krep_def)
  have f: "finish_store (e_le e) (Some tv) opts (w_tick s) ?r (put_krep ?r rep1 s2) = Done (C_OK, s')"
    using o2 l q by (simp add: finish_store_def)
  have "kache_store_evcoap_response e ke (Some tv) cli uri s = Done (C_OK, s')"
    using assms(2) o t(1) p f by (simp add: kache_store_evcoap_response_def)
  then show ?thesis
    by (rule that [OF _ t(2,3), of s' "w_tick s + 3" "w_tick s + 2"])
      (simp_all add: s'_def s3_def put_kobj_def put_krep_def rep3_def t(8,10))
qed

text \<open>The options of the served PDU.\<close>

lemma add_uint_new:
  assumes "wf_opts opts" and "ec_opt_sym2type sy = EC_OPT_TYPE_UINT" and "opts_of opts sy = []" and "noptions opts < EC_PROTO_MAX_OPTIONS"
  shows "\<exists>opts'. ec_opts_add_uint le opts sy v = (C_OK, opts') \<and> wf_opts opts' \<and> ec_opts_get_uint le opts' sy = Some v \<and>
    noptions opts' = noptions opts + 1 \<and> (\<forall>k. k \<noteq> sy \<longrightarrow> opts_of opts' k = opts_of opts k)"
proof -
  obtain opts' where o: "ec_opts_add_uint le opts sy v = (C_OK, opts')" "wf_opts opts'" "ec_opts_get_uint le opts' sy = Some v"
    using ec_opts_uint_roundtrip [OF assms] by metis
  obtain en where en: "ec_opt_encode_uint le v 8 = Some en" using encode_uint_total by blast
  have "length en \<le> 8" using encode_uint_length [OF en] pick_size_range [of v] by simp
  moreover have "EC_OPT_SYM_VALID sy" using assms(2) sym2type_valid [of sy] by simp
  ultimately have "\<exists>opts' o'. ec_opts_add_raw opts sy en (length en) = (C_OK, opts') \<and> ec_opt_new sy (length en) en = Some o' \<and>
    wf_opts opts' \<and> opts_of opts' sy = opts_of opts sy @ [o'] \<and> noptions opts' = noptions opts + 1 \<and>
    (\<forall>k. k \<noteq> sy \<longrightarrow> opts_of opts' k = opts_of opts k)"
    using ec_opts_add_raw_new [of opts sy "length en" en] assms by simp
  moreover have "ec_opts_add_raw opts sy en (length en) = (C_OK, opts')"
    using o(1) assms(2) en by (simp add: ec_opts_add_uint_def)
  ultimately show ?thesis using o by auto
qed

lemma get_uint_opts_of: "opts_of a sy = opts_of b sy \<Longrightarrow> ec_opts_get_uint le a sy = ec_opts_get_uint le b sy"
  by (simp add: ec_opts_get_uint_def ec_opts_get_conv)

lemma add_etag_new:
  assumes "wf_opts opts" and "opts_of opts EC_OPT_ETAG = []" and "noptions opts < EC_PROTO_MAX_OPTIONS"
    and "et \<noteq> []" and "length et \<le> 8"
  shows "\<exists>opts'. ec_opts_add_etag opts (et @ [0]) (length et) = (C_OK, opts') \<and>
    ec_opts_get_etag_nth opts' 0 = Some (Some et, length et) \<and> (\<forall>k. k \<noteq> EC_OPT_ETAG \<longrightarrow> opts_of opts' k = opts_of opts k)"
proof -
  have "\<exists>opts' o'. ec_opts_add_raw opts EC_OPT_ETAG (et @ [0]) (length et) = (C_OK, opts') \<and>
    ec_opt_new EC_OPT_ETAG (length et) (et @ [0]) = Some o' \<and> wf_opts opts' \<and>
    opts_of opts' EC_OPT_ETAG = opts_of opts EC_OPT_ETAG @ [o'] \<and> noptions opts' = noptions opts + 1 \<and>
    (\<forall>k. k \<noteq> EC_OPT_ETAG \<longrightarrow> opts_of opts' k = opts_of opts k)"
    using ec_opts_add_raw_new [of opts EC_OPT_ETAG "length et" "et @ [0]"] assms by (simp add: sym_valid_cases)
  then obtain opts' o' where r: "ec_opts_add_raw opts EC_OPT_ETAG (et @ [0]) (length et) = (C_OK, opts')"
    "ec_opt_new EC_OPT_ETAG (length et) (et @ [0]) = Some o'" "opts_of opts' EC_OPT_ETAG = [o']"
    "\<forall>k. k \<noteq> EC_OPT_ETAG \<longrightarrow> opts_of opts' k = opts_of opts k"
    using assms(2) by auto
  have "o_v o' = Some et" "o_l o' = length et" using r(2) by (auto simp: ec_opt_new_def opt_table_defs split: if_splits)
  then have "ec_opts_get_etag_nth opts' 0 = Some (Some et, length et)"
    using r(3) by (simp add: ec_opts_get_etag_nth_def ec_opts_get_nth_conv)
  moreover have "ec_opts_add_etag opts (et @ [0]) (length et) = (C_OK, opts')"
    using r(1) assms(4,5) by (simp add: ec_opts_add_etag_def ec_opts_add_opaque_def opt_table_defs)
  ultimately show ?thesis using r(4) by blast
qed

text \<open>A smaller word that was widened is within its bound and is narrowed back.\<close>

lemma unat_widened: "LENGTH('a) \<le> LENGTH('b) \<Longrightarrow> unat (ucast (c :: 'a :: len word) :: 'b :: len word) = unat c"
  by transfer (simp add: take_bit_nat_def take_bit_int_eq_self min_def)

lemma widened:
  "\<not> (0xffff :: u64) < ucast (c :: u16)" "ucast (ucast c :: u64) = c"
  "\<not> (0xffffffff :: u64) < ucast (d :: u32)" "ucast (ucast d :: u64) = d"
  using unsigned_less [of c, where ?'a = nat] unsigned_less [of d, where ?'a = nat]
  by (simp_all add: word_less_nat_alt unat_widened bit_eq_iff bit_ucast_iff)

lemma c_strlen_terminated: "0 \<notin> set m \<Longrightarrow> c_strlen (m @ 0 # rest) = Done (length m)"
  by (induction m) auto

text \<open>What the PDU of a stored response has.\<close>

definition serves :: "bool \<Rightarrow> u16 \<Rightarrow> byte list \<Rightarrow> byte list \<Rightarrow> u32 \<Rightarrow> ec_pdu \<Rightarrow> bool" where
  "serves le ct pl et ma pdu \<longleftrightarrow>
     ec_opts_get_content_type le (p_opts pdu) = Some (kache_get_ecct_from_ct (kache_ct_from_ecct ct)) \<and>
     ec_opts_get_max_age le (p_opts pdu) = Some (if ma = 0 then 60 else ma) \<and>
     ec_opts_get_etag_nth (p_opts pdu) 0 = Some (Some et, length et) \<and>
     p_payload pdu = Some pl \<and> p_payload_sz pdu = length pl"

lemma stored_rep_served:
  assumes "kr_heap s r = Some (stored_rep ct pl et ma tv data arg)" and "pl \<noteq> []" and "et \<noteq> []" and "length et \<le> 8" and "0 \<notin> set et"
    and "e_memdup e (Some pl) (length pl) = Some pl"
  shows "\<exists>opts. kache_rep_to_evcoap_pdu e (Some r) (garbage\<lparr>p_opts := ec_opts_init\<rparr>) s =
      Done (C_OK, garbage\<lparr>p_opts := opts, p_payload := Some pl, p_payload_sz := length pl\<rparr>) \<and>
    serves (e_le e) ct pl et ma (garbage\<lparr>p_opts := opts, p_payload := Some pl, p_payload_sz := length pl\<rparr>)"
proof -
  let ?c = "kache_get_ecct_from_ct (kache_ct_from_ecct ct)" and ?m = "if ma = 0 then 60 else ma"
  have init: "opts_of ec_opts_init k = []" "noptions ec_opts_init = 0" for k by (simp_all add: opts_of_def ec_opts_init_def)
  obtain o1 where o1: "ec_opts_add_content_type (e_le e) ec_opts_init ?c = (C_OK, o1)" "wf_opts o1" "noptions o1 = 1"
    "ec_opts_get_uint (e_le e) o1 EC_OPT_CONTENT_TYPE = Some (ucast ?c)" "\<forall>k. k \<noteq> EC_OPT_CONTENT_TYPE \<longrightarrow> opts_of o1 k = []"
    using add_uint_new [OF wf_opts_init, of EC_OPT_CONTENT_TYPE "e_le e" "ucast ?c"] init
    by (auto simp: ec_opts_add_content_type_def opt_table_defs)
  obtain o2 where o2: "ec_opts_add_max_age (e_le e) o1 ?m = (C_OK, o2)" "wf_opts o2" "noptions o2 = 2"
    "ec_opts_get_uint (e_le e) o2 EC_OPT_MAX_AGE = Some (ucast ?m)" "\<forall>k. k \<noteq> EC_OPT_MAX_AGE \<longrightarrow> opts_of o2 k = opts_of o1 k"
    using add_uint_new [OF o1(2), of EC_OPT_MAX_AGE "e_le e" "ucast ?m"] o1(3,5)
    by (auto simp: ec_opts_add_max_age_def opt_table_defs)
  obtain o3 where o3: "ec_opts_add_etag o2 (et @ [0]) (length et) = (C_OK, o3)" "ec_opts_get_etag_nth o3 0 = Some (Some et, length et)"
    "\<forall>k. k \<noteq> EC_OPT_ETAG \<longrightarrow> opts_of o3 k = opts_of o2 k"
    using add_etag_new [OF o2(2) _ _ assms(3,4)] o1(5) o2(3,5) by auto
  have "ec_opts_get_uint (e_le e) o3 EC_OPT_CONTENT_TYPE = Some (ucast ?c)"
    using o1(4) o2(5) o3(3) get_uint_opts_of [of o3 EC_OPT_CONTENT_TYPE o1] by simp
  moreover have "ec_opts_get_uint (e_le e) o3 EC_OPT_MAX_AGE = Some (ucast ?m)"
    using o2(4) o3(3) get_uint_opts_of [of o3 EC_OPT_MAX_AGE o2] by simp
  ultimately have "serves (e_le e) ct pl et ma (garbage\<lparr>p_opts := o3, p_payload := Some pl, p_payload_sz := length pl\<rparr>)"
    using o3(2) by (simp add: serves_def widened ec_opts_get_content_type_def ec_opts_get_max_age_def)
  moreover have "kache_rep_to_evcoap_pdu e (Some r) (garbage\<lparr>p_opts := ec_opts_init\<rparr>) s =
      Done (C_OK, garbage\<lparr>p_opts := o3, p_payload := Some pl, p_payload_sz := length pl\<rparr>)"
    using assms o1(1) o2(1) o3(1)
    by (simp add: kache_rep_to_evcoap_pdu_def get_krep_def stored_rep_def ec_pdu_set_payload_def c_strlen_terminated Let_def)
  ultimately show ?thesis by blast
qed

lemma cacheable_size: "cacheable le cli ct pl et ma \<Longrightarrow> pl \<noteq> [] \<and> et \<noteq> [] \<and> length et \<le> 8 \<and> 0 \<notin> set et"
  by (simp add: cacheable_def)

lemma stored_under_literal:
  assumes "kache_ok ke good look s1" and "k_hmap s0 = k_hmap s1" and "kache_set ke ''uri'' a None s0 = (rc, ow, s2)"
    and "k_hmap s' = k_hmap s2" and "\<forall>m k a. fst (ke_put ke m k a)"
  shows "kache_ok ke good look s' \<and> look (k_hmap s') ''uri'' = Some a"
proof -
  obtain old m where g: "ke_get ke (k_hmap s0) ''uri'' = (old, m)" by (cases "ke_get ke (k_hmap s0) ''uri''")
  obtain m' where p: "ke_put ke m ''uri'' a = (True, m')" using assms(5) by (metis (full_types) prod.collapse)
  have "rc = C_OK" using assms(3) g p by (simp add: kache_set_def Let_def)
  then have "set_call ke ''uri'' a s0 = (True, s2)" using assms(3) by (simp add: set_call_def)
  moreover have "kache_ok ke good look s0" using assms(1,2) by (simp add: kache_ok_def)
  ultimately have "kache_ok ke good look s2 \<and> look (k_hmap s2) ''uri'' = Some a"
    using set_call_ok [of ke good look s0 "''uri''" a True s2] by simp
  with assms(4) show ?thesis by (simp add: kache_ok_def)
qed

text \<open>C32: A response with a payload, an ETag without zero bytes and no Token, of a URI of which nothing is cached, is
  stored; a request under the key \<open>uri\<close> with a Content-Type of the same kind is then answered with its payload, its ETag,
  its Max-Age (60 instead of 0) and its content type, or what the six types the cache knows make of it. The rest of the
  answer, the header in particular, is whatever the allocated memory held.\<close>

theorem stored_response_served:
  fixes s :: "('m, 'z) kache_evcoap_scheme"
  assumes "kache_ok ke good look s" and "look (k_hmap s) uri = None" and "\<forall>m k a. fst (ke_put ke m k a)" and "kx_base s"
    and "cacheable (e_le e) cli ct pl et ma" and "e_memdup e (Some pl) (length pl) = Some pl"
    and "ec_opts_get_content_type (e_le e) (p_opts (cl_req cli')) = Some ct'" and "kache_ct_from_ecct ct' = kache_ct_from_ecct ct"
  shows "\<exists>s' pdu s''. kache_store_evcoap_response e ke (Some tv) cli uri s = Done (C_OK, s') \<and>
    kache_get_evcoap_response e ke garbage cli' ''uri'' s' = Done (Some pdu, s'') \<and>
    serves (e_le e) ct pl et ma pdu \<and> p_hdr pdu = p_hdr garbage \<and> p_hdr_bits pdu = p_hdr_bits garbage"
proof -
  obtain q s1 where g: "kache_get ke uri s = (q, s1)" by (cases "kache_get ke uri s")
  have "q = None" using kache_get_look [OF assms(1), of uri] g assms(2) by simp
  with g have g: "kache_get ke uri s = (None, s1)" by simp
  have ok1: "kache_ok ke good look s1" using kache_get_ok [OF assms(1) g] by blast
  obtain s0 :: "('m, 'z) kache_evcoap_scheme" and rc ow s2 s' arg data where
    st: "kache_store_evcoap_response e ke (Some tv) cli uri s = Done (C_OK, s')"
    "kache_set ke ''uri'' (w_tick s) None s0 = (rc, ow, s2)" "k_hmap s0 = k_hmap s1" "k_hmap s' = k_hmap s2"
    "ko_heap s' (w_tick s) = Some \<lparr>ko_protocol_type = COAP, ko_key = Owned (map of_char uri @ [0]), ko_reps = [w_tick s + 1]\<rparr>"
    "kr_heap s' (w_tick s + 1) = Some (stored_rep ct pl et ma tv data arg)"
    "k_pending s' = (k_pending s)(w_tick s + 1 \<mapsto> (arg, sint (if ma = 0 then 60 else ma)))"
    "kx_args s' arg = Some \<lparr>ka_rep = w_tick s + 1, ka_obj = w_tick s\<rparr>"
    by (rule stored_new_object [OF assms(5) g assms(4)])
  have lk: "kache_ok ke good look s'" "look (k_hmap s') ''uri'' = Some (w_tick s)"
    using stored_under_literal [OF ok1 st(3,2,4) assms(3)] by simp_all
  obtain q s'' where g2: "kache_get ke ''uri'' s' = (q, s'')" by (cases "kache_get ke ''uri'' s'")
  have q: "q = Some (w_tick s)" using kache_get_look [OF lk(1), of "''uri''"] g2 lk(2) by simp
  have h: "ko_heap s'' = ko_heap s'" "kr_heap s'' = kr_heap s'" using g2 by (auto simp: kache_get_def split: prod.splits)
  obtain opts where r: "kache_rep_to_evcoap_pdu e (Some (w_tick s + 1)) (garbage\<lparr>p_opts := ec_opts_init\<rparr>) s'' =
      Done (C_OK, garbage\<lparr>p_opts := opts, p_payload := Some pl, p_payload_sz := length pl\<rparr>)"
    and sv: "serves (e_le e) ct pl et ma (garbage\<lparr>p_opts := opts, p_payload := Some pl, p_payload_sz := length pl\<rparr>)"
    using stored_rep_served [of s'' "w_tick s + 1" ct pl et ma tv data arg e garbage] cacheable_size [OF assms(5)] st(6) h assms(6)
    by metis
  have "kache_get_rep_by_media_type (w_tick s) (kache_ct_from_ecct ct') s'' = Done (Some (w_tick s + 1))"
    using st(5,6) h assms(8) by (simp add: kache_get_rep_by_media_type_def get_kobj_def get_krep_def stored_rep_def)
  with g2 q r assms(7) have "kache_get_evcoap_response e ke garbage cli' ''uri'' s' =
      Done (Some (garbage\<lparr>p_opts := opts, p_payload := Some pl, p_payload_sz := length pl\<rparr>), s'')"
    by (simp add: kache_get_evcoap_response_def Let_def)
  with st(1) sv show ?thesis by auto
qed

lemma char_of_byte: "char_of (unat (of_char c :: byte)) = c"
proof -
  have "(of_char c :: nat) < 256" by (metis of_char_mod_256 mod_less_divisor zero_less_numeral)
  then have "unat (of_nat (of_char c) :: byte) = of_char c" by (simp add: unat_of_nat take_bit_nat_eq_self)
  then show ?thesis by (simp add: of_nat_of_char)
qed

lemma bytes_key_of_char: "bytes_key (map of_char cs) = cs"
  by (induction cs) (simp_all add: bytes_key_def char_of_byte)

lemma of_char_zero: "of_char c = (0 :: byte) \<Longrightarrow> c = CHR 0x00"
  using char_of_byte [of c] by (simp add: char_of_def)

text \<open>When such a representation expires, its object is freed, but taken out of the cache under its own key, under
  which it is not: the cache keeps the freed object under the key \<open>uri\<close>, and the next request for that key uses it.\<close>

theorem expired_object_stays:
  fixes s :: "('m, 'z) kache_evcoap_scheme"
  assumes "literal_only ke good look s" and "uri \<noteq> ''uri''" and "CHR 0x00 \<notin> set uri" and "\<forall>m k a. fst (ke_put ke m k a)" and "kx_base s"
    and "cacheable (e_le e) cli ct pl et ma" and "ec_opts_get_content_type (e_le e) (p_opts (cl_req cli')) = Some ct'"
  shows "\<exists>s' arg s''. kache_store_evcoap_response e ke (Some tv) cli uri s = Done (C_OK, s') \<and>
    k_pending s' (w_tick s + 1) = Some (arg, sint (if ma = 0 then 60 else ma)) \<and> kache_evcoap_timer_cb ke arg s' = Done s'' \<and>
    kache_get_evcoap_response e ke garbage cli' ''uri'' s'' = Fault Use_after_free"
proof -
  obtain q s1 where g: "kache_get ke uri s = (q, s1)" by (cases "kache_get ke uri s")
  with get_literal_miss [OF assms(1,2) g] have g: "kache_get ke uri s = (None, s1)" by simp
  have ok1: "kache_ok ke good look s1" using get_literal [OF assms(1) g] by (simp add: literal_only_def)
  let ?obj = "\<lparr>ko_protocol_type = COAP, ko_key = Owned (map of_char uri @ [0]), ko_reps = [w_tick s + 1]\<rparr>"
  obtain s0 :: "('m, 'z) kache_evcoap_scheme" and rc ow s2 s' arg data where
    st: "kache_store_evcoap_response e ke (Some tv) cli uri s = Done (C_OK, s')"
    "kache_set ke ''uri'' (w_tick s) None s0 = (rc, ow, s2)" "k_hmap s0 = k_hmap s1" "k_hmap s' = k_hmap s2"
    "ko_heap s' (w_tick s) = Some \<lparr>ko_protocol_type = COAP, ko_key = Owned (map of_char uri @ [0]), ko_reps = [w_tick s + 1]\<rparr>"
    "kr_heap s' (w_tick s + 1) = Some (stored_rep ct pl et ma tv data arg)"
    "k_pending s' = (k_pending s)(w_tick s + 1 \<mapsto> (arg, sint (if ma = 0 then 60 else ma)))"
    "kx_args s' arg = Some \<lparr>ka_rep = w_tick s + 1, ka_obj = w_tick s\<rparr>"
    by (rule stored_new_object [OF assms(6) g assms(5)])
  have lk: "kache_ok ke good look s'" "look (k_hmap s') ''uri'' = Some (w_tick s)"
    using stored_under_literal [OF ok1 st(3,2,4) assms(4)] by simp_all
  have ns: "literal_only ke good look s'" using store_literal [OF assms(1) st(1)] .
  define s3 where "s3 = put_kobj (w_tick s) (?obj\<lparr>ko_reps := []\<rparr>) s'"
  have r: "kache_remove_rep (w_tick s) (w_tick s + 1) s' = Done (C_OK, s3)"
    using st(5,6) by (simp add: kache_remove_rep_def get_kobj_def get_krep_def s3_def)
  have "0 \<notin> set (map of_char uri :: byte list)"
    using assms(3) by (auto dest: of_char_zero)
  then have k: "key_string (Owned (map of_char uri @ [0])) = Done uri"
    using c_strlen_terminated [of "map of_char uri" "[]"] by (simp add: key_string_def bytes_key_of_char)
  have "look (k_hmap s3) uri = None" "kache_ok ke good look s3"
    using ns assms(2) by (simp_all add: literal_only_def s3_def kx_map kache_ok_def)
  then have "ke_del ke (k_hmap s3) uri = None"
    using kenv_del [of ke good look "k_hmap s3" uri] by (cases "ke_del ke (k_hmap s3) uri") (auto simp: kache_ok_def)
  then have "drop_empty ke (w_tick s) s3 = Done (s3\<lparr>ko_heap := (ko_heap s3)(w_tick s := None)\<rparr>)"
    using k by (simp add: drop_empty_def get_kobj_def s3_def put_kobj_def kache_peak_rep_def kache_unset_def kache_free_kache_obj_def u_free_def)
  moreover define s4 where "s4 = s3\<lparr>ko_heap := (ko_heap s3)(w_tick s := None)\<rparr>"
  moreover obtain s'' where fr: "kache_free_kache_rep_with_data (w_tick s + 1) True s4 = Done (Owned data, s'')"
      "ko_heap s'' = ko_heap s4" "k_hmap s'' = k_hmap s4"
    using st(6) by (simp add: kache_free_kache_rep_with_data_def kache_clear_kache_rep_def get_krep_def s4_def s3_def put_kobj_def
        put_krep_def stored_rep_def u_free_def)
  ultimately have cb: "kache_evcoap_timer_cb ke arg s' = Done s''"
    using st(8) r by (simp add: kache_evcoap_timer_cb_def kache_free_evcoap_data_def u_free_def)
  have "kache_ok ke good look s''" "look (k_hmap s'') ''uri'' = Some (w_tick s)"
    using lk fr(3) by (simp_all add: s4_def s3_def kx_map kache_ok_def)
  moreover obtain q s5 where g2: "kache_get ke ''uri'' s'' = (q, s5)" by (cases "kache_get ke ''uri'' s''")
  ultimately have q: "q = Some (w_tick s)" using kache_get_look [of ke good look s'' "''uri''"] by simp
  have "ko_heap s5 (w_tick s) = None" using g2 fr(2) by (auto simp: kache_get_def s4_def split: prod.splits)
  with g2 q assms(7) have "kache_get_evcoap_response e ke garbage cli' ''uri'' s'' = Fault Use_after_free"
    by (simp add: kache_get_evcoap_response_def Let_def kache_get_rep_by_media_type_def get_kobj_def)
  with st(1,7) cb show ?thesis by auto
qed

subsection \<open>Responses with a Token\<close>

lemma token_overwrites: "kache_add_key_val r key 5 tok (length tok) s = Done x \<Longrightarrow> tok = []"
  using c_strlen_le [of tok] by (auto simp: kache_add_key_val_def run_bind_Done_iff copy_terminated_def split: if_splits)

lemma token_option_faults:
  assumes "ec_opts_get_token opts = Some (Some tok, length tok)" and "tok \<noteq> []" and "EC_OPT_TOKEN \<in> set sys"
  shows "store_options le opts r sys s \<noteq> Done s'"
  using assms(3)
proof (induction sys arbitrary: s)
  case (Cons sy sys)
  show ?case
  proof (cases "sy = EC_OPT_TOKEN")
    case True
    with assms(1,2) show ?thesis by (auto simp: store_option_def run_bind_Done_iff dest: token_overwrites)
  next
    case False
    with Cons show ?thesis by (auto simp: run_bind_Done_iff)
  qed
qed simp

text \<open>No response that carries a Token is ever stored: its bytes, which are not terminated, are taken for a C string, and
  copied with a size that is not less than its length. Either the end of the token is passed or the new buffer is
  overrun; only when the clock has failed before does the function return, with an error.\<close>

theorem token_not_stored:
  assumes "ec_client_get_response_options cli = Some opts" and "ec_opts_get_token opts = Some (Some tok, length tok)" and "tok \<noteq> []"
    and "kache_store_evcoap_response e ke now cli uri s = Done (rc, s')"
  shows "rc = C_ERR \<and> now = None"
proof -
  from assms(1,4) obtain a r s3 where f: "finish_store (e_le e) now opts a r s3 = Done (rc, s')"
    by (auto simp: kache_store_evcoap_response_def run_bind_Done_iff split: option.splits prod.splits)
  show ?thesis
  proof (cases now)
    case None
    with f show ?thesis by (auto simp: finish_store_def)
  next
    case (Some tv)
    have "store_options (e_le e) opts r visited_syms s4 \<noteq> Done s5" for s4 s5
      by (rule token_option_faults [OF assms(2,3)]) (simp add: visited_syms_def)
    with f Some show ?thesis
      by (auto simp: finish_store_def run_bind_Done_iff kache_store_ec_options_to_rep_def)
  qed
qed

subsection \<open>Concrete instances\<close>

definition demo_opts :: "ec_opt list \<Rightarrow> ec_opts" where
  "demo_opts os = ec_opts_init\<lparr>opts_bundle := os, noptions := length os\<rparr>"

definition demo_json :: ec_opts where
  "demo_json = demo_opts [\<lparr>o_sym = EC_OPT_CONTENT_TYPE, o_t = EC_OPT_TYPE_UINT, o_l = 1, o_v = Some [50]\<rparr>,
     \<lparr>o_sym = EC_OPT_ETAG, o_t = EC_OPT_TYPE_OPAQUE, o_l = 2, o_v = Some [1, 2]\<rparr>]"

definition demo_served :: ec_client where
  "demo_served = demo_client\<lparr>cl_req := (cl_req demo_client)\<lparr>p_opts := demo_json\<rparr>,
     cl_res := [(cl_req demo_client)\<lparr>p_opts := demo_json, p_payload := Some [123, 125], p_payload_sz := 2\<rparr>]\<rparr>"

lemma demo_json_type: "ec_opts_get_content_type True demo_json = Some 50"
  by code_simp

lemma demo_cacheable: "cacheable True demo_served 50 [123, 125] [1, 2] 3600"
proof -
  have "ec_client_get_response_pdu demo_served = Some ((cl_req demo_client)\<lparr>p_opts := demo_json, p_payload := Some [123, 125], p_payload_sz := 2\<rparr>)"
    by (simp add: ec_client_get_response_pdu_def demo_served_def demo_client_def ec_flow_init_def demo_conn_def ec_conn_init_def)
  moreover have "ec_opts_get_max_age True demo_json = Some 3600" "ec_opts_get_etag_nth demo_json 0 = Some (Some [1, 2], 2)"
    "ec_opts_get_token demo_json = None"
    by code_simp+
  ultimately show ?thesis
    using demo_json_type by (simp add: cacheable_def ec_client_get_response_options_def ec_response_get_payload_def)
qed

definition demo_ke :: "(string \<times> nat) list kache_evcoap" where
  "demo_ke = kache_init_evcoap demo_kache True"

lemma demo_ke_ok: "literal_only demo_kenv (\<lambda>_. True) map_of demo_ke" "kx_base demo_ke"
  using fresh_kache [OF demo_kenv_laws demo_kache_init demo_kache_data]
  by (simp_all add: demo_ke_def literal_only_def kache_ok_def kache_init_evcoap_def kache.defs)

theorem response_never_found_witness:
  "\<exists>s s'. kache_store_evcoap_response demo_env demo_kenv (Some (0, 0)) demo_served ''a'' demo_ke = Done (C_OK, s) \<and>
    kache_get_evcoap_response demo_env demo_kenv demo_query demo_served ''a'' s = Done (None, s')"
proof -
  have g: "kache_get demo_kenv ''a'' demo_ke = (None, demo_ke)"
    by (simp add: kache_get_def demo_ke_def kache_init_evcoap_def kache.defs demo_kenv_def demo_kache_def kache_init_def)
  obtain s where s: "kache_store_evcoap_response demo_env demo_kenv (Some (0, 0)) demo_served ''a'' demo_ke = Done (C_OK, s)"
    using stored_new_object [of demo_env demo_served 50 "[123, 125]" "[1, 2]" 3600 demo_kenv "''a''" demo_ke demo_ke "(0, 0)"]
      demo_cacheable g demo_ke_ok(2) by (auto simp: demo_env_sel)
  then have "kx_run demo_env demo_kenv [Kx_store (Some (0, 0)) demo_served ''a''] (kache_init_evcoap demo_kache True) = Done s"
    by (simp add: demo_ke_def)
  from response_never_found [OF demo_kenv_laws demo_kache_init demo_kache_data this, of "''a''" demo_query demo_served] s
  show ?thesis by auto
qed

theorem stored_response_served_witness:
  "\<exists>s' pdu s''. kache_store_evcoap_response demo_env demo_kenv (Some (0, 0)) demo_served ''a'' demo_ke = Done (C_OK, s') \<and>
    kache_get_evcoap_response demo_env demo_kenv demo_query demo_served ''uri'' s' = Done (Some pdu, s'') \<and>
    serves True 50 [123, 125] [1, 2] 3600 pdu"
  using stored_response_served [of demo_kenv "\<lambda>_. True" map_of demo_ke "''a''" demo_env demo_served 50 "[123, 125]" "[1, 2]" 3600
      demo_served 50 "(0, 0)" demo_query] demo_ke_ok demo_cacheable demo_json_type
  by (auto simp: demo_env_sel literal_only_def demo_served_def demo_kenv_def)

theorem expired_object_stays_witness:
  "\<exists>s' arg s''. kache_store_evcoap_response demo_env demo_kenv (Some (0, 0)) demo_served ''a'' demo_ke = Done (C_OK, s') \<and>
    kache_evcoap_timer_cb demo_kenv arg s' = Done s'' \<and>
    kache_get_evcoap_response demo_env demo_kenv demo_query demo_served ''uri'' s'' = Fault Use_after_free"
  using expired_object_stays [of demo_kenv "\<lambda>_. True" map_of demo_ke "''a''" demo_env demo_served 50 "[123, 125]" "[1, 2]" 3600
      demo_served 50 "(0, 0)" demo_query] demo_ke_ok demo_cacheable demo_json_type
  by (auto simp: demo_env_sel demo_served_def demo_kenv_def)

end
