(* ===== verification/Pubapi.thy ===== *)
theory Pubapi
  imports Enums
begin

text \<open>
  The publishing interface: services (\<open>include/svc.h\<close>, \<open>lib/pubapi/src/svc.c\<close>), their database
  (\<open>lib/pubapi/src/s_sqlite.c\<close>) and the interface over it (\<open>include/pubapi.h\<close>,
  \<open>lib/pubapi/src/pubapi.c\<close>). SQLite, the configuration, and the URIs and maps of libu are the
  parameters \<open>db_env\<close> and \<open>svc_env\<close>.
\<close>

subsection \<open>Numbers as text\<close>

definition is_digit :: "char \<Rightarrow> bool" where
  "is_digit c \<longleftrightarrow> 48 \<le> (of_char c :: nat) \<and> (of_char c :: nat) \<le> 57"

definition is_space :: "char \<Rightarrow> bool" where
  "is_space c \<longleftrightarrow> (of_char c :: nat) = 32 \<or> (9 \<le> (of_char c :: nat) \<and> (of_char c :: nat) \<le> 13)"

definition digits_value :: "string \<Rightarrow> int" where
  "digits_value s = foldl (\<lambda>n c. 10 * n + (of_char c - 48)) 0 (takeWhile is_digit s)"

text \<open>\<open>atoi\<close>; what it returns for numbers that are no \<open>int\<close> is undefined in C, here it wraps.\<close>

definition atoi :: "string \<Rightarrow> int" where
  "atoi s = signed_take_bit 31
     (case dropWhile is_space s of
        [] \<Rightarrow> 0
      | c # cs \<Rightarrow> if c = CHR ''-'' then - digits_value cs else if c = CHR ''+'' then digits_value cs
          else digits_value (c # cs))"

definition atoi_ptr :: "string option \<Rightarrow> int run" where
  "atoi_ptr p = (case p of None \<Rightarrow> Fault Null_deref | Some s \<Rightarrow> Done (atoi s))"

subsection \<open>Services\<close>

record ('u, 'h) svc =
  svc_uri_p :: "'u option"
  svc_attrs_p :: "'h option"

text \<open>
  URIs: a new one, and the setters of its parts; \<open>sv_put\<close> and \<open>sv_get\<close> insert and look up the
  value of an attribute.
\<close>

record ('u, 'h) svc_env =
  sv_uri_new :: "'u option"
  sv_set_scheme :: "string \<Rightarrow> 'u \<Rightarrow> 'u"
  sv_set_host :: "string \<Rightarrow> 'u \<Rightarrow> 'u"
  sv_set_port :: "string \<Rightarrow> 'u \<Rightarrow> 'u"
  sv_set_path :: "string option \<Rightarrow> 'u \<Rightarrow> 'u"
  sv_attrs_new :: "'h option"
  sv_put :: "'h \<Rightarrow> string \<Rightarrow> string \<Rightarrow> 'h option"
  sv_get :: "'h \<Rightarrow> string \<Rightarrow> string option"

definition with_uri :: "('u \<Rightarrow> 'u) \<Rightarrow> ('u, 'h) svc \<Rightarrow> ('u, 'h) svc run" where
  "with_uri f v = (case svc_uri_p v of None \<Rightarrow> Fault Null_deref | Some u \<Rightarrow> Done (v\<lparr>svc_uri_p := Some (f u)\<rparr>))"

text \<open>A decimal number fits the 32 bytes it is printed to.\<close>

definition svc_set_origin ::
    "('u, 'h) svc_env \<Rightarrow> ('u, 'h) svc option \<Rightarrow> string option \<Rightarrow> string option \<Rightarrow> int \<Rightarrow> (crc \<times> ('u, 'h) svc option) run" where
  "svc_set_origin e svc schema ip port =
     (case (svc, schema, ip) of
        (Some v, Some schema, Some ip) \<Rightarrow>
          run_bind (with_uri (sv_set_scheme e schema) v) (\<lambda>v.
          run_bind (with_uri (sv_set_host e ip) v) (\<lambda>v.
          run_bind (if port \<noteq> 0 then with_uri (sv_set_port e (print_int port)) v else Done v) (\<lambda>v.
            Done (C_OK, Some v))))
      | _ \<Rightarrow> Done (C_ERR, svc))"

definition svc_set_uri ::
    "('u, 'h) svc_env \<Rightarrow> ('u, 'h) svc option \<Rightarrow> string option \<Rightarrow> string option \<Rightarrow> int \<Rightarrow> string option \<Rightarrow>
     (crc \<times> ('u, 'h) svc option) run" where
  "svc_set_uri e svc schema ip port path =
     (if svc = None \<or> schema = None \<or> ip = None then Done (C_ERR, svc)
      else run_bind (svc_set_origin e svc schema ip port) (\<lambda>(rc, svc).
        case (rc, svc) of
          (C_OK, Some v) \<Rightarrow> run_bind (with_uri (sv_set_path e path) v) (\<lambda>v. Done (C_OK, Some v))
        | _ \<Rightarrow> Done (C_ERR, svc)))"

definition svc_set_attr ::
    "('u, 'h) svc_env \<Rightarrow> ('u, 'h) svc option \<Rightarrow> string option \<Rightarrow> string option \<Rightarrow> (crc \<times> ('u, 'h) svc option) run" where
  "svc_set_attr e svc name val =
     (case (svc, name, val) of
        (Some v, Some name, Some val) \<Rightarrow>
          (case svc_attrs_p v of
             None \<Rightarrow> Fault Null_deref
           | Some h \<Rightarrow>
               (case sv_put e h name val of
                  None \<Rightarrow> Done (C_ERR, svc)
                | Some h \<Rightarrow> Done (C_OK, Some (v\<lparr>svc_attrs_p := Some h\<rparr>))))
      | _ \<Rightarrow> Done (C_ERR, svc))"

definition svc_uri :: "('u, 'h) svc option \<Rightarrow> 'u option" where
  "svc_uri svc = (case svc of None \<Rightarrow> None | Some v \<Rightarrow> svc_uri_p v)"

definition svc_attrs :: "('u, 'h) svc option \<Rightarrow> 'h option" where
  "svc_attrs svc = (case svc of None \<Rightarrow> None | Some v \<Rightarrow> svc_attrs_p v)"

definition svc_attr :: "('u, 'h) svc_env \<Rightarrow> ('u, 'h) svc \<Rightarrow> string \<Rightarrow> string option run" where
  "svc_attr e v name = (case svc_attrs_p v of None \<Rightarrow> Fault Null_deref | Some h \<Rightarrow> Done (sv_get e h name))"

text \<open>What a service owns goes with it.\<close>

definition svc_free :: "('u, 'h) svc option \<Rightarrow> crc \<times> ('u, 'h) svc option" where
  "svc_free svc = (if svc = None then (C_ERR, None) else (C_OK, None))"

definition svc_create :: "('u, 'h) svc_env \<Rightarrow> ('u, 'h) svc option" where
  "svc_create e =
     (case sv_uri_new e of
        None \<Rightarrow> None
      | Some u \<Rightarrow>
          (case sv_attrs_new e of
             None \<Rightarrow> None
           | Some h \<Rightarrow> Some \<lparr>svc_uri_p = Some u, svc_attrs_p = Some h\<rparr>))"

subsection \<open>The rows of a query\<close>

text \<open>The columns that the query of the services selects; any can be NULL.\<close>

record origin_row =
  or_oid :: "string option"
  or_pid :: "string option"
  or_aid :: "string option"
  or_schema :: "string option"
  or_ip :: "string option"
  or_port :: "string option"
  or_path :: "string option"
  or_name :: "string option"
  or_value :: "string option"

text \<open>The service being assembled. The callback of the client is a parameter; \<open>'w\<close> is the client's state.\<close>

record ('u, 'h) qctx =
  q_origin_id :: int
  q_path_id :: int
  q_svc :: "('u, 'h) svc option"

definition s_sqlite_svc_ready :: "(('u, 'h) svc \<Rightarrow> 'w \<Rightarrow> 'w) \<Rightarrow> ('u, 'h) qctx \<times> 'w \<Rightarrow> ('u, 'h) qctx \<times> 'w" where
  "s_sqlite_svc_ready fun = (\<lambda>(qc, w). case q_svc qc of None \<Rightarrow> (qc, w) | Some v \<Rightarrow> (qc, fun v w))"

text \<open>A service that is complete is handed over and freed.\<close>

definition finish_svc :: "(('u, 'h) svc \<Rightarrow> 'w \<Rightarrow> 'w) \<Rightarrow> ('u, 'h) qctx \<times> 'w \<Rightarrow> ('u, 'h) qctx \<times> 'w" where
  "finish_svc fun s =
     (if q_svc (fst s) = None then s
      else case s_sqlite_svc_ready fun s of (qc, w) \<Rightarrow> (qc\<lparr>q_svc := snd (svc_free (q_svc qc))\<rparr>, w))"

definition begin_svc ::
    "('u, 'h) svc_env \<Rightarrow> origin_row \<Rightarrow> int \<Rightarrow> string option \<Rightarrow> (crc \<times> ('u, 'h) svc option) run" where
  "begin_svc e row port attr_val =
     (case svc_create e of
        None \<Rightarrow> Done (C_ERR, None)
      | Some v \<Rightarrow>
          run_bind (svc_set_uri e (Some v) (or_schema row) (or_ip row) port (or_path row)) (\<lambda>(rc, v).
            if rc = C_ERR then Done (C_ERR, v) else svc_set_attr e v (or_name row) attr_val))"

definition s_origins_cb ::
    "('u, 'h) svc_env \<Rightarrow> (('u, 'h) svc \<Rightarrow> 'w \<Rightarrow> 'w) \<Rightarrow> origin_row \<Rightarrow> ('u, 'h) qctx \<times> 'w \<Rightarrow>
     (crc \<times> ('u, 'h) qctx \<times> 'w) run" where
  "s_origins_cb e fun row s =
     run_bind (atoi_ptr (or_oid row)) (\<lambda>origin_id.
     run_bind (atoi_ptr (or_pid row)) (\<lambda>path_id.
     run_bind (atoi_ptr (or_aid row)) (\<lambda>attr_id.
       let port = (case or_port row of Some p \<Rightarrow> atoi p | None \<Rightarrow> 0);
           attr_val = (case or_value row of Some v \<Rightarrow> Some v | None \<Rightarrow> Some [])
       in if q_origin_id (fst s) = origin_id \<and> q_path_id (fst s) = path_id then
            run_bind (svc_set_attr e (q_svc (fst s)) (or_name row) attr_val) (\<lambda>(rc, v).
              Done (rc, (fst s)\<lparr>q_svc := v\<rparr>, snd s))
          else
            case finish_svc fun s of (qc, w) \<Rightarrow>
              run_bind (begin_svc e row port attr_val) (\<lambda>(rc, v).
                if rc = C_ERR then Done (C_ERR, qc\<lparr>q_svc := v\<rparr>, w)
                else Done (C_OK, qc\<lparr>q_svc := v, q_origin_id := origin_id, q_path_id := path_id\<rparr>, w)))))"

definition qctx_create :: "('u, 'h) qctx" where
  "qctx_create = \<lparr>q_origin_id = 0, q_path_id = 0, q_svc = None\<rparr>"

subsection \<open>The database\<close>

text \<open>
  \<open>db_rows d q\<close> and \<open>db_meta_rows d q\<close> are the rows that a query yields and whether it ends without an
  error; \<open>db_mprintf\<close> formats a query; \<open>db_open_file\<close> gives a handle even with an error, or none.
  \<open>cf_value\<close> and \<open>cf_subkey\<close> read the configuration.
\<close>

record ('d, 'c) db_env =
  db_rows :: "'d \<Rightarrow> string \<Rightarrow> origin_row list \<times> crc"
  db_meta_rows :: "'d \<Rightarrow> string \<Rightarrow> string option list \<times> crc"
  db_mprintf :: "string \<Rightarrow> string list \<Rightarrow> string option"
  db_open_file :: "string \<Rightarrow> crc \<times> 'd option"
  db_close_ok :: "'d \<Rightarrow> bool"
  cf_value :: "'c \<Rightarrow> string \<Rightarrow> string option"
  cf_subkey :: "'c \<Rightarrow> string \<Rightarrow> 'c option"

text \<open>How \<open>sqlite3_exec\<close> hands the rows to its callback: until one of the calls returns an error.\<close>

fun exec_rows :: "('r \<Rightarrow> 's \<Rightarrow> (crc \<times> 's) run) \<Rightarrow> 'r list \<Rightarrow> crc \<Rightarrow> 's \<Rightarrow> (crc \<times> 's) run" where
  "exec_rows cb [] rc s = Done (rc, s)"
| "exec_rows cb (r # rs) rc s =
     run_bind (cb r s) (\<lambda>(c, s). if c = C_ERR then Done (C_ERR, s) else exec_rows cb rs rc s)"

definition all_services :: string where
  "all_services =
     ''select o.id,p.id,a.id,o.schema,o.ip,o.port,p.path,a.name,a.value '' @
     ''from attribute a left join path p on a.path_id=p.id left '' @
     ''join origin o on p.origin_id=o.id''"

definition services_query :: "('d, 'c) db_env \<Rightarrow> string option \<Rightarrow> string option \<Rightarrow> string option" where
  "services_query d name sub_str =
     (case (name, sub_str) of
        (Some n, Some s) \<Rightarrow>
          db_mprintf d (''%s where p.id in (select path_id from attribute where name='%q' and '' @
            ''value like '%%%q%%') order by o.id,p.id,a.id'') [all_services, n, s]
      | (Some n, None) \<Rightarrow>
          db_mprintf d (''%s where p.id in (select path_id from attribute where name='%q') '' @
            ''order by o.id,p.id,a.id'') [all_services, n]
      | (None, _) \<Rightarrow> db_mprintf d ''%s order by o.id,p.id,a.id'' [all_services])"

definition s_sqlite3_fetch_services_by_attr ::
    "('u, 'h) svc_env \<Rightarrow> ('d, 'c) db_env \<Rightarrow> 'd \<Rightarrow> (('u, 'h) svc \<Rightarrow> 'w \<Rightarrow> 'w) \<Rightarrow> string option \<Rightarrow> string option \<Rightarrow> 'w \<Rightarrow>
     (crc \<times> 'w) run" where
  "s_sqlite3_fetch_services_by_attr e d db fun name sub_str w =
     (case services_query d name sub_str of
        None \<Rightarrow> Done (C_ERR, w)
      | Some q \<Rightarrow>
          (case db_rows d db q of (rows, rc) \<Rightarrow>
             run_bind (exec_rows (s_origins_cb e fun) rows rc (qctx_create, w)) (\<lambda>(rc, s).
               if rc = C_ERR then Done (C_ERR, snd s) else Done (C_OK, snd (s_sqlite_svc_ready fun s)))))"

definition s_sqlite3_fetch_services ::
    "('u, 'h) svc_env \<Rightarrow> ('d, 'c) db_env \<Rightarrow> 'd \<Rightarrow> (('u, 'h) svc \<Rightarrow> 'w \<Rightarrow> 'w) \<Rightarrow> 'w \<Rightarrow> (crc \<times> 'w) run" where
  "s_sqlite3_fetch_services e d db fun w = s_sqlite3_fetch_services_by_attr e d db fun None None w"

definition s_meta_cb :: "string option \<Rightarrow> string option \<Rightarrow> (crc \<times> string option) run" where
  "s_meta_cb res value = Done (C_OK, res)"

text \<open>The second result is the value, when there is no error.\<close>

definition s_sqlite3_meta_get :: "('d, 'c) db_env \<Rightarrow> 'd \<Rightarrow> string \<Rightarrow> (crc \<times> string option) run" where
  "s_sqlite3_meta_get d db name =
     (case db_mprintf d ''select value from meta where name='%q' limit 1'' [name] of
        None \<Rightarrow> Done (C_ERR, None)
      | Some q \<Rightarrow>
          (case db_meta_rows d db q of (rows, rc) \<Rightarrow>
             run_bind (exec_rows s_meta_cb rows rc None) (\<lambda>(rc, value).
               if rc = C_ERR then Done (C_ERR, None) else Done (C_OK, value))))"

text \<open>The state is the handles that are open.\<close>

definition s_sqlite3_close :: "('d, 'c) db_env \<Rightarrow> 'd option \<Rightarrow> 'd list \<Rightarrow> crc \<times> 'd list" where
  "s_sqlite3_close d db w =
     (case db of
        None \<Rightarrow> (C_ERR, w)
      | Some h \<Rightarrow> if db_close_ok d h then (C_OK, remove1 h w) else (C_ERR, w))"

definition s_sqlite3_open :: "('d, 'c) db_env \<Rightarrow> string \<Rightarrow> 'd list \<Rightarrow> 'd option \<times> 'd list" where
  "s_sqlite3_open d fqn w =
     (case db_open_file d fqn of
        (rc, None) \<Rightarrow> (None, w)
      | (rc, Some h) \<Rightarrow>
          let w = w @ [h]
          in if rc = C_OK then (Some h, w) else (None, snd (s_sqlite3_close d (Some h) w)))"

definition s_sqlite3_connect :: "('d, 'c) db_env \<Rightarrow> 'c \<Rightarrow> 'd list \<Rightarrow> 'd option \<times> 'd list" where
  "s_sqlite3_connect d c w = (case cf_value d c ''file'' of None \<Rightarrow> (None, w) | Some file \<Rightarrow> s_sqlite3_open d file w)"

subsection \<open>The interface\<close>

text \<open>There is one driver.\<close>

record 'd pubapi =
  pa_db :: 'd

definition pubapi_last_update :: "('d, 'c) db_env \<Rightarrow> 'd pubapi \<Rightarrow> (crc \<times> int option) run" where
  "pubapi_last_update d pa =
     run_bind (s_sqlite3_meta_get d (pa_db pa) ''last_update'') (\<lambda>(rc, value).
       case (rc, value) of
         (C_OK, Some v) \<Rightarrow> Done (C_OK, Some (atoi v))
       | _ \<Rightarrow> Done (C_ERR, None))"

definition pubapi_fetch_services ::
    "('u, 'h) svc_env \<Rightarrow> ('d, 'c) db_env \<Rightarrow> 'd pubapi \<Rightarrow> (('u, 'h) svc \<Rightarrow> 'w \<Rightarrow> 'w) \<Rightarrow> 'w \<Rightarrow> (crc \<times> 'w) run" where
  "pubapi_fetch_services e d pa fun w = s_sqlite3_fetch_services e d (pa_db pa) fun w"

definition pubapi_fetch_services_by_attr ::
    "('u, 'h) svc_env \<Rightarrow> ('d, 'c) db_env \<Rightarrow> 'd pubapi \<Rightarrow> (('u, 'h) svc \<Rightarrow> 'w \<Rightarrow> 'w) \<Rightarrow> string option \<Rightarrow> string option \<Rightarrow> 'w \<Rightarrow>
     (crc \<times> 'w) run" where
  "pubapi_fetch_services_by_attr e d pa fun name sub_str w =
     s_sqlite3_fetch_services_by_attr e d (pa_db pa) fun name sub_str w"

text \<open>The database stays open.\<close>

definition pubapi_close :: "'d pubapi option \<Rightarrow> 'd list \<Rightarrow> crc \<times> 'd list" where
  "pubapi_close pa w = (if pa = None then (C_ERR, w) else (C_OK, w))"

definition pubapi_connect :: "('d, 'c) db_env \<Rightarrow> 'c \<Rightarrow> 'd list \<Rightarrow> 'd pubapi option \<times> 'd list" where
  "pubapi_connect d c w =
     (case cf_value d c ''database'' of
        None \<Rightarrow> (None, w)
      | Some database \<Rightarrow>
          (case cf_subkey d c database of
             None \<Rightarrow> (None, w)
           | Some db_conf \<Rightarrow>
               (case cf_value d db_conf ''type'' of
                  None \<Rightarrow> (None, w)
                | Some db_type \<Rightarrow>
                    if str_case_eq db_type ''sqlite'' then
                      (case s_sqlite3_connect d db_conf w of
                         (None, w) \<Rightarrow> (None, w)
                       | (Some h, w) \<Rightarrow> (Some \<lparr>pa_db = h\<rparr>, w))
                    else (None, w))))"

end
