(* ===== verification/Pubapi_Spec.thy ===== *)
theory Pubapi_Spec
  imports Pubapi
begin

text \<open>
  What the publishing interface promises: the rows of a query become services, one for each run of
  rows with the same origin and path, delivered once and in order; and the arguments of a query
  cannot leave the string literals they are put in.
\<close>

subsection \<open>Services from rows\<close>

definition row_ids :: "origin_row \<Rightarrow> int \<times> int" where
  "row_ids row = (atoi (the (or_oid row)), atoi (the (or_pid row)))"

definition ids_present :: "origin_row \<Rightarrow> bool" where
  "ids_present row \<longleftrightarrow> or_oid row \<noteq> None \<and> or_pid row \<noteq> None \<and> or_aid row \<noteq> None"

text \<open>The runs of rows with the same ids.\<close>

fun row_groups :: "origin_row list \<Rightarrow> origin_row list list" where
  "row_groups [] = []"
| "row_groups (r # rs) =
     (case row_groups rs of
        [] \<Rightarrow> [[r]]
      | g # gs \<Rightarrow> if row_ids (hd g) = row_ids r then (r # g) # gs else [r] # g # gs)"

definition row_value :: "origin_row \<Rightarrow> string" where
  "row_value row = (case or_value row of Some v \<Rightarrow> v | None \<Rightarrow> [])"

definition row_port :: "origin_row \<Rightarrow> int" where
  "row_port row = (case or_port row of Some p \<Rightarrow> atoi p | None \<Rightarrow> 0)"

text \<open>The URI of a row and the attributes of rows, as the operations of libu build them.\<close>

definition row_uri :: "('u, 'h) svc_env \<Rightarrow> origin_row \<Rightarrow> 'u option" where
  "row_uri e row =
     (case (sv_uri_new e, or_schema row, or_ip row) of
        (Some u, Some schema, Some ip) \<Rightarrow>
          Some (sv_set_path e (or_path row)
            ((if row_port row \<noteq> 0 then sv_set_port e (print_int (row_port row)) else id)
              (sv_set_host e ip (sv_set_scheme e schema u))))
      | _ \<Rightarrow> None)"

fun put_attrs :: "('u, 'h) svc_env \<Rightarrow> 'h \<Rightarrow> origin_row list \<Rightarrow> 'h option" where
  "put_attrs e h [] = Some h"
| "put_attrs e h (r # rs) =
     (case or_name r of
        None \<Rightarrow> None
      | Some n \<Rightarrow> (case sv_put e h n (row_value r) of None \<Rightarrow> None | Some h \<Rightarrow> put_attrs e h rs))"

definition service_of :: "('u, 'h) svc_env \<Rightarrow> origin_row list \<Rightarrow> ('u, 'h) svc option" where
  "service_of e g =
     (case (row_uri e (hd g), sv_attrs_new e) of
        (Some u, Some h) \<Rightarrow> map_option (\<lambda>h. \<lparr>svc_uri_p = Some u, svc_attrs_p = Some h\<rparr>) (put_attrs e h g)
      | _ \<Rightarrow> None)"

lemma row_groups_Cons: "\<exists>g gs. row_groups (r # rs) = (r # g) # gs"
  by (auto split: list.splits)

lemma put_attr_step:
  "put_attrs e h (r # g) = Some h' \<Longrightarrow> svc_attrs_p v = Some h \<Longrightarrow>
   \<exists>h1. svc_set_attr e (Some v) (or_name r) (Some (row_value r)) = Done (C_OK, Some (v\<lparr>svc_attrs_p := Some h1\<rparr>)) \<and>
     put_attrs e h1 g = Some h'"
  by (auto simp: svc_set_attr_def split: option.splits)

lemma begin_step:
  assumes "service_of e (r # g) = Some v"
  shows "\<exists>h1. begin_svc e r (row_port r) (Some (row_value r)) =
      Done (C_OK, Some \<lparr>svc_uri_p = svc_uri_p v, svc_attrs_p = Some h1\<rparr>) \<and>
    (\<exists>h2. put_attrs e h1 g = Some h2 \<and> v = \<lparr>svc_uri_p = svc_uri_p v, svc_attrs_p = Some h2\<rparr>)"
proof -
  obtain u h h2 where u: "row_uri e r = Some u" and h: "sv_attrs_new e = Some h" and
    p: "put_attrs e h (r # g) = Some h2" and v: "v = \<lparr>svc_uri_p = Some u, svc_attrs_p = Some h2\<rparr>"
    using assms by (auto simp: service_of_def split: option.splits)
  from u h have "\<exists>u0. svc_create e = Some \<lparr>svc_uri_p = Some u0, svc_attrs_p = Some h\<rparr> \<and>
      svc_set_uri e (Some \<lparr>svc_uri_p = Some u0, svc_attrs_p = Some h\<rparr>) (or_schema r) (or_ip r) (row_port r) (or_path r) =
        Done (C_OK, Some \<lparr>svc_uri_p = Some u, svc_attrs_p = Some h\<rparr>)"
    by (auto simp: row_uri_def svc_create_def svc_set_uri_def svc_set_origin_def with_uri_def split: option.splits)
  moreover from put_attr_step [OF p, of "\<lparr>svc_uri_p = Some u, svc_attrs_p = Some h\<rparr>"]
  obtain h1 where "svc_set_attr e (Some \<lparr>svc_uri_p = Some u, svc_attrs_p = Some h\<rparr>) (or_name r) (Some (row_value r)) =
      Done (C_OK, Some \<lparr>svc_uri_p = Some u, svc_attrs_p = Some h1\<rparr>)" "put_attrs e h1 g = Some h2" by auto
  ultimately show ?thesis by (auto simp: begin_svc_def v)
qed

text \<open>One row, with the service \<open>v\<close> in progress.\<close>

lemma cb_same:
  assumes "ids_present r" and "row_ids r = (q_origin_id qc, q_path_id qc)"
  shows "s_origins_cb e fun r (qc, w) =
    run_bind (svc_set_attr e (q_svc qc) (or_name r) (Some (row_value r))) (\<lambda>(rc, v). Done (rc, qc\<lparr>q_svc := v\<rparr>, w))"
  using assms by (auto simp: s_origins_cb_def ids_present_def atoi_ptr_def row_ids_def row_value_def split: option.splits)

lemma cb_new:
  assumes "ids_present r" and "row_ids r \<noteq> (q_origin_id qc, q_path_id qc)"
    and "begin_svc e r (row_port r) (Some (row_value r)) = Done (C_OK, Some v)"
  shows "s_origins_cb e fun r (qc, w) =
    Done (C_OK, \<lparr>q_origin_id = fst (row_ids r), q_path_id = snd (row_ids r), q_svc = Some v\<rparr>,
      case q_svc qc of None \<Rightarrow> w | Some old \<Rightarrow> fun old w)"
proof -
  have "begin_svc e r (case or_port r of None \<Rightarrow> 0 | Some p \<Rightarrow> atoi p)
      (case or_value r of None \<Rightarrow> Some [] | Some v \<Rightarrow> Some v) = Done (C_OK, Some v)"
    using assms(3) by (simp add: row_port_def row_value_def option.case_distrib [where h = Some])
  with assms(1,2) show ?thesis
    by (auto simp: s_origins_cb_def ids_present_def atoi_ptr_def row_ids_def Let_def finish_svc_def
        s_sqlite_svc_ready_def svc_free_def)
qed

text \<open>What is still to be delivered: the service in progress, completed by the rows that continue it, and the others.\<close>

definition pending_services ::
    "('u, 'h) svc_env \<Rightarrow> int \<times> int \<Rightarrow> ('u, 'h) svc \<Rightarrow> 'h \<Rightarrow> origin_row list \<Rightarrow> ('u, 'h) svc option list" where
  "pending_services e ids v h rows =
     (case row_groups rows of
        [] \<Rightarrow> [Some v]
      | g # gs \<Rightarrow>
          if row_ids (hd g) = ids then map_option (\<lambda>h. v\<lparr>svc_attrs_p := Some h\<rparr>) (put_attrs e h g) # map (service_of e) gs
          else Some v # map (service_of e) (g # gs))"

lemma row_groups_nonempty: "row_groups rs \<noteq> [] # gs"
  by (cases rs) (auto split: list.splits)

lemma pending_after:
  assumes G: "row_groups (r # rs) = (r # g) # gs" and p: "put_attrs e h1 g = Some h2"
    and m: "map (service_of e) gs = map Some vs" and v: "svc_attrs_p v = Some h1"
  shows "pending_services e (row_ids r) v h1 rs = map Some (v\<lparr>svc_attrs_p := Some h2\<rparr> # vs)"
proof (cases "g = []")
  case True
  with p v have "v\<lparr>svc_attrs_p := Some h2\<rparr> = v" by simp
  moreover from G True have "gs = row_groups rs" and "\<forall>g' gs'. row_groups rs = g' # gs' \<longrightarrow> row_ids (hd g') \<noteq> row_ids r"
    by (auto simp: row_groups_nonempty split: list.splits if_splits)
  ultimately show ?thesis using m by (auto simp: pending_services_def split: list.splits)
next
  case False
  with G have "row_groups rs = g # gs" and "row_ids (hd g) = row_ids r" by (auto split: list.splits if_splits)
  with p m show ?thesis by (simp add: pending_services_def)
qed

lemma run_services:
  assumes "list_all ids_present rows" and "svc_attrs_p v = Some h"
    and "pending_services e ids v h rows = map Some vs"
  shows "\<exists>qc w'. exec_rows (s_origins_cb e fun) rows C_OK (\<lparr>q_origin_id = fst ids, q_path_id = snd ids, q_svc = Some v\<rparr>, w) =
      Done (C_OK, qc, w') \<and> snd (s_sqlite_svc_ready fun (qc, w')) = fold fun vs w"
  using assms
proof (induction rows arbitrary: v h ids w vs)
  case Nil
  then show ?case by (auto simp: pending_services_def s_sqlite_svc_ready_def)
next
  case (Cons r rs)
  obtain g gs where G: "row_groups (r # rs) = (r # g) # gs" using row_groups_Cons by blast
  have P: "ids_present r" "list_all ids_present rs" using Cons.prems(1) by simp_all
  show ?case
  proof (cases "row_ids r = ids")
    case True
    from Cons.prems(3) obtain h2 vs' where h2: "put_attrs e h (r # g) = Some h2"
      and vs: "vs = v\<lparr>svc_attrs_p := Some h2\<rparr> # vs'" "map (service_of e) gs = map Some vs'"
      by (auto simp: pending_services_def G True Cons_eq_map_conv simp del: row_groups.simps put_attrs.simps)
    from put_attr_step [OF h2 Cons.prems(2)] obtain h1 where
      s: "svc_set_attr e (Some v) (or_name r) (Some (row_value r)) = Done (C_OK, Some (v\<lparr>svc_attrs_p := Some h1\<rparr>))"
      and p: "put_attrs e h1 g = Some h2" by blast
    have "pending_services e ids (v\<lparr>svc_attrs_p := Some h1\<rparr>) h1 rs = map Some vs"
      using pending_after [OF G p vs(2), of "v\<lparr>svc_attrs_p := Some h1\<rparr>"] True by (simp add: vs(1))
    from Cons.IH [OF P(2) _ this] show ?thesis
      using cb_same [OF P(1), of "\<lparr>q_origin_id = fst ids, q_path_id = snd ids, q_svc = Some v\<rparr>" e "fun" w] s True by simp
  next
    case False
    from Cons.prems(3) obtain v1 vs' where v1: "service_of e (r # g) = Some v1"
      and vs: "vs = v # v1 # vs'" "map (service_of e) gs = map Some vs'"
      by (auto simp: pending_services_def G False Cons_eq_map_conv simp del: row_groups.simps)
    from begin_step [OF v1] obtain h1 h2 where
      b: "begin_svc e r (row_port r) (Some (row_value r)) = Done (C_OK, Some \<lparr>svc_uri_p = svc_uri_p v1, svc_attrs_p = Some h1\<rparr>)"
      and p: "put_attrs e h1 g = Some h2" "v1 = \<lparr>svc_uri_p = svc_uri_p v1, svc_attrs_p = Some h2\<rparr>" by blast
    let ?v = "\<lparr>svc_uri_p = svc_uri_p v1, svc_attrs_p = Some h1\<rparr>"
    have "?v\<lparr>svc_attrs_p := Some h2\<rparr> = v1" by (subst p(2)) simp
    then have "pending_services e (row_ids r) ?v h1 rs = map Some (v1 # vs')"
      using pending_after [OF G p(1) vs(2), of ?v] by simp
    from Cons.IH [OF P(2) _ this] show ?thesis
      using cb_new [OF P(1) _ b, of "\<lparr>q_origin_id = fst ids, q_path_id = snd ids, q_svc = Some v\<rparr>" "fun" w] False
      by (simp add: vs(1) prod_eq_iff)
  qed
qed

text \<open>C33: Fetching services delivers, once and in the order of the rows, one service for every run of rows that
  have the same origin and path: its URI is that of the first row and its attributes are those of all rows of the run,
  a NULL value as the empty string. This holds when no row lacks an id, the first ids are not both 0 (with which the
  first row is taken for a continuation), and libu can build every one of the services.\<close>

theorem services_delivered:
  assumes "services_query d name sub_str = Some q" and "db_rows d db q = (rows, C_OK)"
    and "list_all ids_present rows" and "rows \<noteq> []" and "row_ids (hd rows) \<noteq> (0, 0)"
    and "map (service_of e) (row_groups rows) = map Some vs"
  shows "s_sqlite3_fetch_services_by_attr e d db fun name sub_str w = Done (C_OK, fold fun vs w)"
proof -
  obtain r rs where R: "rows = r # rs" using assms(4) by (cases rows) auto
  obtain g gs where G: "row_groups (r # rs) = (r # g) # gs" using row_groups_Cons by blast
  from assms(6) obtain v1 vs' where v1: "service_of e (r # g) = Some v1" and vs: "vs = v1 # vs'"
    "map (service_of e) gs = map Some vs'" by (auto simp: R G Cons_eq_map_conv simp del: row_groups.simps)
  from begin_step [OF v1] obtain h1 h2 where
    b: "begin_svc e r (row_port r) (Some (row_value r)) = Done (C_OK, Some \<lparr>svc_uri_p = svc_uri_p v1, svc_attrs_p = Some h1\<rparr>)"
    and p: "put_attrs e h1 g = Some h2" "v1 = \<lparr>svc_uri_p = svc_uri_p v1, svc_attrs_p = Some h2\<rparr>" by blast
  let ?v = "\<lparr>svc_uri_p = svc_uri_p v1, svc_attrs_p = Some h1\<rparr>"
  have "?v\<lparr>svc_attrs_p := Some h2\<rparr> = v1" by (subst p(2)) simp
  then have "pending_services e (row_ids r) ?v h1 rs = map Some vs"
    using pending_after [OF G p(1) vs(2), of ?v] by (simp add: vs(1))
  from run_services [OF _ _ this, of "fun" w] assms(3) obtain qc w' where
    x: "exec_rows (s_origins_cb e fun) rs C_OK (\<lparr>q_origin_id = fst (row_ids r), q_path_id = snd (row_ids r), q_svc = Some ?v\<rparr>, w) =
      Done (C_OK, qc, w')" "snd (s_sqlite_svc_ready fun (qc, w')) = fold fun vs w" by (auto simp: R)
  have "s_origins_cb e fun r (qctx_create, w) =
      Done (C_OK, \<lparr>q_origin_id = fst (row_ids r), q_path_id = snd (row_ids r), q_svc = Some ?v\<rparr>, w)"
    using cb_new [OF _ _ b, of qctx_create "fun" w] assms(3,5) by (simp add: R qctx_create_def)
  with x assms(1,2) show ?thesis by (simp add: s_sqlite3_fetch_services_by_attr_def R)
qed

text \<open>A database with two services, of which the first has two attributes.\<close>

definition demo_row :: "string \<Rightarrow> string \<Rightarrow> string option \<Rightarrow> string option \<Rightarrow> origin_row" where
  "demo_row pid name value port =
     \<lparr>or_oid = Some ''1'', or_pid = Some pid, or_aid = Some ''1'', or_schema = Some ''coap'', or_ip = Some ''::1'',
      or_port = port, or_path = Some ''/s'', or_name = Some name, or_value = value\<rparr>"

definition demo_rows :: "origin_row list" where
  "demo_rows = [demo_row ''1'' ''rt'' (Some ''t'') (Some ''61616''), demo_row ''1'' ''if'' None (Some ''61616''),
     demo_row ''2'' ''rt'' (Some ''u'') None]"

definition demo_svc_env :: "(string option list, (string \<times> string) list) svc_env" where
  "demo_svc_env = \<lparr>sv_uri_new = Some [], sv_set_scheme = (\<lambda>s u. u @ [Some s]), sv_set_host = (\<lambda>s u. u @ [Some s]),
     sv_set_port = (\<lambda>s u. u @ [Some s]), sv_set_path = (\<lambda>s u. u @ [s]), sv_attrs_new = Some [],
     sv_put = (\<lambda>h n v. Some (h @ [(n, v)])), sv_get = (\<lambda>h n. map_of h n)\<rparr>"

definition demo_services :: "(string option list, (string \<times> string) list) svc list" where
  "demo_services =
     [\<lparr>svc_uri_p = Some [Some ''coap'', Some ''::1'', Some ''61616'', Some ''/s''],
       svc_attrs_p = Some [(''rt'', ''t''), (''if'', [])]\<rparr>,
      \<lparr>svc_uri_p = Some [Some ''coap'', Some ''::1'', Some ''/s''], svc_attrs_p = Some [(''rt'', ''u'')]\<rparr>]"

definition demo_db :: "origin_row list \<Rightarrow> (nat, unit) db_env" where
  "demo_db rows = \<lparr>db_rows = (\<lambda>_ _. (rows, C_OK)), db_meta_rows = (\<lambda>_ _. ([], C_OK)), db_mprintf = (\<lambda>_ _. Some []),
     db_open_file = (\<lambda>_. (C_OK, Some 7)), db_close_ok = (\<lambda>_. True), cf_value = (\<lambda>_ _. None), cf_subkey = (\<lambda>_ _. None)\<rparr>"

lemma digits_1: "n < 10 \<Longrightarrow> digits n = [char_of (48 + n)]"
  by (simp add: digits.simps)

lemma digits_more: "\<not> n < 10 \<Longrightarrow> digits n = digits (n div 10) @ [char_of (48 + n mod 10)]"
  by (simp add: digits.simps)

lemma atoi_demo: "atoi ''1'' = 1" "atoi ''2'' = 2" "atoi ''61616'' = 61616"
  by (simp_all add: atoi_def is_space_def digits_value_def is_digit_def signed_take_bit_eq_take_bit_shift take_bit_eq_mod)

lemma print_demo: "print_int 61616 = ''61616''"
  by (simp add: print_int_def digits_more digits_1 char_of_def bit_0)

lemma demo_groups: "map (service_of demo_svc_env) (row_groups demo_rows) = map Some demo_services"
  by (simp add: demo_rows_def demo_row_def demo_services_def demo_svc_env_def service_of_def row_uri_def row_ids_def
      row_value_def row_port_def atoi_demo print_demo)

theorem services_delivered_witness:
  "s_sqlite3_fetch_services_by_attr demo_svc_env (demo_db demo_rows) 7 (\<lambda>v w. w @ [v]) None None [] =
    Done (C_OK, demo_services)"
proof -
  have "fold (\<lambda>v w. w @ [v]) demo_services [] = demo_services" by (simp add: demo_services_def)
  with services_delivered [of "demo_db demo_rows" None None "[]" 7 demo_rows demo_svc_env demo_services "\<lambda>v w. w @ [v]" "[]"]
  show ?thesis using demo_groups
    by (simp add: demo_db_def services_query_def demo_rows_def demo_row_def ids_present_def row_ids_def atoi_demo)
qed

text \<open>An attribute that belongs to no path, which the schema allows and the outer join returns as a row without
  origin and path, makes fetching dereference NULL when its row is reached, whatever was delivered before.\<close>

theorem orphan_attribute_faults:
  assumes "or_oid row = None \<or> or_pid row = None"
  shows "s_origins_cb e fun row s = Fault Null_deref \<and>
    (services_query d name sub_str = Some q \<longrightarrow> db_rows d db q = (row # rows, rc) \<longrightarrow>
     s_sqlite3_fetch_services_by_attr e d db fun name sub_str w = Fault Null_deref)"
  using assms
  by (auto simp: s_origins_cb_def atoi_ptr_def s_sqlite3_fetch_services_by_attr_def split: option.splits)

definition demo_orphan :: origin_row where
  "demo_orphan = (demo_row ''1'' ''rt'' None None)\<lparr>or_oid := None, or_pid := None\<rparr>"

theorem orphan_attribute_faults_witness:
  "s_sqlite3_fetch_services_by_attr demo_svc_env (demo_db (demo_orphan # demo_rows)) 7 (\<lambda>v w. w @ [v]) None None [] =
    Fault Null_deref"
  using orphan_attribute_faults [of demo_orphan demo_svc_env "\<lambda>v w. w @ [v]" "(qctx_create, [])"
      "demo_db (demo_orphan # demo_rows)" None None "[]" 7 demo_rows C_OK "[]"]
  by (simp add: demo_orphan_def demo_db_def services_query_def)

subsection \<open>Queries\<close>

text \<open>What the documentation of \<open>sqlite3_mprintf\<close> says of \<open>%s\<close>, \<open>%q\<close> and \<open>%%\<close>.\<close>

fun quoted :: "string \<Rightarrow> string" where
  "quoted [] = []"
| "quoted (c # cs) = (if c = CHR 0x27 then CHR 0x27 # CHR 0x27 # quoted cs else c # quoted cs)"

fun sql_format :: "string \<Rightarrow> string list \<Rightarrow> string" where
  "sql_format (c # d # f) args =
     (if c \<noteq> CHR ''%'' then c # sql_format (d # f) args
      else if d = CHR ''%'' then d # sql_format f args
      else case args of
        [] \<Rightarrow> sql_format f args
      | a # as \<Rightarrow> (if d = CHR ''q'' then quoted a else a) @ sql_format f as)"
| "sql_format f args = f"

definition mprintf_laws :: "('d, 'c) db_env \<Rightarrow> bool" where
  "mprintf_laws d \<longleftrightarrow> (\<forall>f args. db_mprintf d f args \<in> {None, Some (sql_format f args)})"

text \<open>A query as SQL reads it: the text outside string literals, and the contents of the literals.\<close>

datatype sql_part = Code string | Literal string

fun sql_lit :: "string \<Rightarrow> (string \<times> string) option" where
  "sql_lit [] = None"
| "sql_lit (c # cs) =
     (if c \<noteq> CHR 0x27 then map_option (apfst ((#) c)) (sql_lit cs)
      else if cs \<noteq> [] \<and> hd cs = CHR 0x27 then map_option (apfst ((#) c)) (sql_lit (tl cs))
      else Some ([], cs))"

lemma sql_lit_shorter: "sql_lit s = Some (l, r) \<Longrightarrow> length r < length s"
proof (induction s arbitrary: l rule: sql_lit.induct)
  case (2 c cs)
  consider (plain) "c \<noteq> CHR 0x27" | (twice) "c = CHR 0x27" "cs \<noteq> [] \<and> hd cs = CHR 0x27"
    | (ends) "c = CHR 0x27" "\<not> (cs \<noteq> [] \<and> hd cs = CHR 0x27)" by blast
  then show ?case
  proof cases
    case plain
    with 2(3) obtain l' where "sql_lit cs = Some (l', r)" by auto
    from 2(1) [OF plain this] show ?thesis by simp
  next
    case twice
    with 2(3) obtain l' where l: "sql_lit (tl cs) = Some (l', r)" by auto
    from twice have "length (tl cs) \<le> length cs" by simp
    moreover have "length r < length (tl cs)" using 2(2) [OF _ twice(2) l] twice(1) by simp
    ultimately show ?thesis by simp
  qed (use 2(3) in \<open>auto split: if_splits\<close>)
qed simp

function sql_parts :: "string \<Rightarrow> string \<Rightarrow> sql_part list option" where
  "sql_parts [] acc = Some [Code acc]"
| "sql_parts (c # cs) acc =
     (if c = CHR 0x27 then
        (case sql_lit cs of None \<Rightarrow> None | Some (l, r) \<Rightarrow> map_option (\<lambda>ps. Code acc # Literal l # ps) (sql_parts r []))
      else sql_parts cs (acc @ [c]))"
  by pat_completeness auto
termination by (relation "measure (length \<circ> fst)") (auto dest!: sql_lit_shorter)

lemma sql_lit_quoted:
  "r = [] \<or> hd r \<noteq> CHR 0x27 \<Longrightarrow> sql_lit (quoted s @ CHR 0x27 # r) = Some (s, r)"
  by (induction s) auto

lemma sql_parts_code: "CHR 0x27 \<notin> set p \<Longrightarrow> sql_parts (p @ s) acc = sql_parts s (acc @ p)"
  by (induction p arbitrary: acc) auto

lemma all_services_plain: "CHR 0x27 \<notin> set all_services"
  by (simp add: all_services_def)

lemma quoted_append: "quoted (a @ b) = quoted a @ quoted b"
  by (induction a) auto

text \<open>One literal, whatever its contents, between pieces of code.\<close>

lemma sql_parts_literal:
  assumes "CHR 0x27 \<notin> set p" and "r = [] \<or> hd r \<noteq> CHR 0x27"
  shows "sql_parts (p @ CHR 0x27 # quoted s @ CHR 0x27 # r) [] = map_option (\<lambda>ps. Code p # Literal s # ps) (sql_parts r [])"
  by (simp add: sql_parts_code [OF assms(1)] sql_lit_quoted [OF assms(2)])

abbreviation (input) by_name :: string where
  "by_name \<equiv> all_services @ '' where p.id in (select path_id from attribute where name=''"

lemma by_name_plain: "CHR 0x27 \<notin> set by_name"
  by (simp add: all_services_plain)

lemma format_by_name:
  "sql_format (''%s where p.id in (select path_id from attribute where name='%q') '' @ ''order by o.id,p.id,a.id'')
     [all_services, n] = by_name @ CHR 0x27 # quoted n @ CHR 0x27 # '') order by o.id,p.id,a.id''"
  by simp

lemma format_by_value:
  "sql_format (''%s where p.id in (select path_id from attribute where name='%q' and '' @
      ''value like '%%%q%%') order by o.id,p.id,a.id'') [all_services, n, s] =
   by_name @ CHR 0x27 # quoted n @ CHR 0x27 # '' and value like '' @
     CHR 0x27 # quoted (CHR ''%'' # s @ ''%'') @ CHR 0x27 # '') order by o.id,p.id,a.id''"
  by (simp add: quoted_append)

lemma services_query_format:
  assumes "mprintf_laws d" and "services_query d (Some n) s = Some q"
  shows "q = (case s of
      None \<Rightarrow> by_name @ CHR 0x27 # quoted n @ CHR 0x27 # '') order by o.id,p.id,a.id''
    | Some s \<Rightarrow> by_name @ CHR 0x27 # quoted n @ CHR 0x27 # '' and value like '' @
        CHR 0x27 # quoted (CHR ''%'' # s @ ''%'') @ CHR 0x27 # '') order by o.id,p.id,a.id'')"
proof -
  have f: "db_mprintf d f args = Some q \<Longrightarrow> q = sql_format f args" for f args
    using assms(1) unfolding mprintf_laws_def by (metis insertE option.distinct(1) option.inject singletonD)
  show ?thesis
  proof (cases s)
    case None
    have "db_mprintf d (''%s where p.id in (select path_id from attribute where name='%q') '' @ ''order by o.id,p.id,a.id'')
        [all_services, n] = Some q" using assms(2) None by (simp only: services_query_def prod.case option.case)
    from f [OF this] show ?thesis unfolding None option.case format_by_name .
  next
    case (Some v)
    have "db_mprintf d (''%s where p.id in (select path_id from attribute where name='%q' and '' @
        ''value like '%%%q%%') order by o.id,p.id,a.id'') [all_services, n, v] = Some q"
      using assms(2) Some by (simp only: services_query_def prod.case option.case)
    from f [OF this] show ?thesis unfolding Some option.case format_by_value .
  qed
qed

text \<open>C34: No argument of a query can change the query: whatever attribute name and substring the client passes,
  quotes included, SQL reads the query as the same code with two string literals, the name and the substring between
  percent signs; or with one literal when the client asks by name alone.\<close>

theorem query_not_injectable:
  assumes "mprintf_laws d" and "services_query d (Some n) s = Some q"
  shows "sql_parts q [] = Some (case s of
      None \<Rightarrow> [Code by_name, Literal n, Code '') order by o.id,p.id,a.id'']
    | Some s \<Rightarrow> [Code by_name, Literal n, Code '' and value like '', Literal (CHR ''%'' # s @ ''%''),
        Code '') order by o.id,p.id,a.id''])"
proof -
  have e: "sql_parts '') order by o.id,p.id,a.id'' [] = Some [Code '') order by o.id,p.id,a.id'']" by simp
  have "sql_parts ('' and value like '' @ CHR 0x27 # quoted (CHR ''%'' # v @ ''%'') @ CHR 0x27 # '') order by o.id,p.id,a.id'') [] =
      Some [Code '' and value like '', Literal (CHR ''%'' # v @ ''%''), Code '') order by o.id,p.id,a.id'']" for v
    by (subst sql_parts_literal) (simp_all add: e)
  moreover have "r \<noteq> [] \<and> hd r \<noteq> CHR 0x27 \<Longrightarrow> sql_parts (by_name @ CHR 0x27 # quoted n @ CHR 0x27 # r) [] =
      map_option (\<lambda>ps. Code by_name # Literal n # ps) (sql_parts r [])" for r
    using sql_parts_literal [OF by_name_plain] by blast
  ultimately show ?thesis
    unfolding services_query_format [OF assms] using e by (cases s) simp_all
qed

theorem query_not_injectable_witness:
  "sql_parts (sql_format (''%s where p.id in (select path_id from attribute where name='%q') '' @ ''order by o.id,p.id,a.id'')
      [all_services, [CHR 0x27]]) [] = Some [Code by_name, Literal [CHR 0x27], Code '') order by o.id,p.id,a.id'']"
proof -
  define d :: "(nat, unit) db_env" where "d = (demo_db [])\<lparr>db_mprintf := (\<lambda>f args. Some (sql_format f args))\<rparr>"
  have m: "db_mprintf d = (\<lambda>f args. Some (sql_format f args))" by (simp add: d_def)
  then have "mprintf_laws d" by (simp add: mprintf_laws_def)
  moreover have "services_query d (Some [CHR 0x27]) None = Some (sql_format
      (''%s where p.id in (select path_id from attribute where name='%q') '' @ ''order by o.id,p.id,a.id'')
      [all_services, [CHR 0x27]])" by (simp only: services_query_def prod.case option.case m)
  ultimately show ?thesis using query_not_injectable [of d "[CHR 0x27]" None] by (simp only: option.case)
qed

end
