(* ===== verification/Dump.thy ===== *)
theory Dump
  imports Pdu Opt_Api
begin

text \<open>
  The debug dump of a PDU (\<open>ec_pdu_dump\<close>, the end of \<open>lib/evcoap/src/evcoap_pdu.c\<close>). The formats of C are functions
  to bytes; \<open>u_snprintf\<close> of libu, which copies the formatted text to a buffer if there is room, and opening a
  file are parameters. A file that could be opened takes what is written.
\<close>

subsection \<open>Formats\<close>

definition hex_digit :: "nat \<Rightarrow> byte" where
  "hex_digit n = (if n < 10 then of_nat (48 + n) else of_nat (87 + n))"

text \<open>\<open>%02x\<close> of a number of 16 bits: leading zeros down to two digits are left out.\<close>

definition hex_digits :: "nat \<Rightarrow> byte list" where
  "hex_digits n =
     (let ds = [n div 4096 mod 16, n div 256 mod 16, n div 16 mod 16, n mod 16]
      in map hex_digit (if n < 256 then drop 2 ds else if n < 4096 then drop 1 ds else ds))"

definition decimal :: "nat \<Rightarrow> byte list" where
  "decimal n = ascii (digits n)"

subsection \<open>Writing\<close>

text \<open>
  \<open>de_snprintf sz txt\<close> is the result of printing \<open>txt\<close> into \<open>sz\<close> bytes, and the string they hold then.
\<close>

record dump_env =
  de_snprintf :: "nat \<Rightarrow> byte list \<Rightarrow> crc \<times> byte list"
  de_fopen :: "byte list \<Rightarrow> bool"
  de_PATH_MAX :: nat

record dump_st =
  ds_pnum :: nat
  ds_files :: "byte list \<rightharpoonup> byte list"

abbreviation (input) MAX_STR :: nat where "MAX_STR \<equiv> 256"

text \<open>What has been written so far, and whether to go on.\<close>

type_synonym dumped = "crc \<times> byte list"

definition and_then :: "dumped \<Rightarrow> (byte list \<Rightarrow> dumped) \<Rightarrow> dumped" where
  "and_then m g = (case m of (C_ERR, f) \<Rightarrow> (C_ERR, f) | (C_OK, f) \<Rightarrow> g f)"

text \<open>\<open>fwrite\<close> of one object of no bytes writes no object: 0 is less than 1, an error.\<close>

definition fwrite_str :: "byte list \<Rightarrow> byte list \<Rightarrow> dumped" where
  "fwrite_str s f = (if length s = 0 then (C_ERR, f) else (C_OK, f @ s))"

definition fwrite_print :: "dump_env \<Rightarrow> byte list \<Rightarrow> byte list \<Rightarrow> dumped" where
  "fwrite_print d txt f =
     (case de_snprintf d MAX_STR txt of (C_ERR, _) \<Rightarrow> (C_ERR, f) | (C_OK, s) \<Rightarrow> fwrite_str s f)"

fun hex_loop :: "dump_env \<Rightarrow> byte list \<Rightarrow> byte list \<Rightarrow> dumped" where
  "hex_loop d [] f = (C_OK, f)"
| "hex_loop d (b # bs) f = and_then (fwrite_print d (hex_digits (unat b)) f) (hex_loop d bs)"

definition fwrite_hex :: "dump_env \<Rightarrow> byte list \<Rightarrow> byte list \<Rightarrow> dumped" where
  "fwrite_hex d bs f = and_then (fwrite_print d (ascii ''0x'') f) (hex_loop d bs)"

text \<open>The size that is passed for the buffer is that of a pointer.\<close>

definition wrap_null_str :: "dump_env \<Rightarrow> string \<Rightarrow> string option \<Rightarrow> nat \<Rightarrow> byte list" where
  "wrap_null_str d prefix s c =
     (case s of Some s \<Rightarrow> ascii s | None \<Rightarrow> snd (de_snprintf d 8 (ascii prefix @ decimal c)))"

subsection \<open>The dump\<close>

definition dump_value :: "bool \<Rightarrow> dump_env \<Rightarrow> ec_opt \<Rightarrow> byte list \<Rightarrow> dumped" where
  "dump_value le d o' f =
     (case o_t o' of
        EC_OPT_TYPE_STRING \<Rightarrow> fwrite_print d (cstr (opt_mem o')) f
      | EC_OPT_TYPE_UINT \<Rightarrow>
          (case ec_opt_decode_uint le (opt_mem o') (o_l o') of
             None \<Rightarrow> (C_ERR, f)
           | Some ui \<Rightarrow> fwrite_print d (decimal (unat ui)) f)
      | EC_OPT_TYPE_INVALID \<Rightarrow> (C_OK, f)
      | EC_OPT_TYPE_EMPTY \<Rightarrow> (C_OK, f)
      | EC_OPT_TYPE_OPAQUE \<Rightarrow> fwrite_hex d (take (o_l o') (opt_mem o')) f)"

definition dump_label :: "dump_env \<Rightarrow> ec_opt \<Rightarrow> byte list" where
  "dump_label d o' = ascii ''  '' @ wrap_null_str d ''o'' (ec_opt_sym2str (o_sym o')) (sym_index (o_sym o')) @ ascii '': ''"

fun dump_options :: "bool \<Rightarrow> dump_env \<Rightarrow> ec_opt list \<Rightarrow> byte list \<Rightarrow> dumped" where
  "dump_options le d [] f = (C_OK, f)"
| "dump_options le d (o' # os) f =
     and_then (fwrite_print d (dump_label d o') f) (\<lambda>f.
     and_then (dump_value le d o' f) (\<lambda>f.
     and_then (fwrite_print d [10] f) (dump_options le d os)))"

text \<open>The results of writing constant strings are not looked at.\<close>

definition dump_header :: "dump_env \<Rightarrow> ec_pdu \<Rightarrow> byte list \<Rightarrow> dumped" where
  "dump_header d pdu f =
     (let h = p_hdr_bits pdu
      in and_then (fwrite_hex d (p_hdr pdu) (f @ [10] @ ascii ''Header: '')) (\<lambda>f.
         and_then (fwrite_print d (ascii ''  T: '' @ wrap_null_str d ''t'' (ec_model_str (h_t h)) (unat (h_t h)) @ [10]) (f @ [10])) (\<lambda>f.
         and_then (fwrite_print d (ascii ''  OC: '' @ decimal (unat (h_oc h)) @ [10]) f) (\<lambda>f.
         and_then (fwrite_print d (ascii ''  Code: '' @ wrap_null_str d ''c'' (ec_code_str (unat (h_code h))) (unat (h_code h)) @ [10]) f) (\<lambda>f.
         and_then (fwrite_print d (ascii ''  MID: 0x'' @ hex_digits (unat (h_mid h)) @ [10]) f)
           (fwrite_print d [10]))))))"

definition dump_payload :: "dump_env \<Rightarrow> ec_pdu \<Rightarrow> byte list \<Rightarrow> dumped" where
  "dump_payload d pdu f =
     (if p_payload_sz pdu \<noteq> 0 then
        and_then (fwrite_hex d (gather (p_payload pdu) (p_payload_sz pdu)) (f @ ascii ''Payload: '')) (fwrite_print d [10, 10])
      else (C_OK, f))"

definition dump_text :: "bool \<Rightarrow> dump_env \<Rightarrow> ec_pdu \<Rightarrow> dumped" where
  "dump_text le d pdu =
     and_then (dump_header d pdu []) (\<lambda>f.
     and_then (dump_options le d (opts_bundle (p_opts pdu)) (f @ ascii ''Options:'' @ [10])) (\<lambda>f.
     and_then (fwrite_print d [10] f) (dump_payload d pdu)))"

definition dump_name :: "nat \<Rightarrow> bool \<Rightarrow> byte list" where
  "dump_name n srv = ascii ''./'' @ decimal n @ ascii ''-'' @ ascii (if srv then ''srv'' else ''cli'') @ ascii ''.dump''"

text \<open>The number of the dump counts up even when the dump fails; the file is truncated when it is opened.\<close>

definition ec_pdu_dump :: "bool \<Rightarrow> dump_env \<Rightarrow> ec_pdu \<Rightarrow> bool \<Rightarrow> dump_st \<Rightarrow> dump_st" where
  "ec_pdu_dump le d pdu srv st =
     (let st' = st\<lparr>ds_pnum := ds_pnum st + 1\<rparr>
      in case de_snprintf d (de_PATH_MAX d) (dump_name (ds_pnum st) srv) of
           (C_ERR, _) \<Rightarrow> st'
         | (C_OK, fname) \<Rightarrow>
             if \<not> de_fopen d fname then st'
             else st'\<lparr>ds_files := (ds_files st')(fname \<mapsto> snd (dump_text le d pdu))\<rparr>)"

end
