(* ===== verification/Dump_Spec.thy ===== *)
theory Dump_Spec
  imports Dump
begin

text \<open>
  The dump as one text: writing step by step, with an early end at each error, gives the lines of a rendering of the
  PDU, up to the first option whose value cannot be printed.
\<close>

subsection \<open>Writing\<close>

text \<open>\<open>u_snprintf\<close>: text that leaves room for its terminator is copied, other text is an error.\<close>

definition snprintf_laws :: "dump_env \<Rightarrow> bool" where
  "snprintf_laws d \<longleftrightarrow>
     (\<forall>sz txt. (length txt < sz \<longrightarrow> de_snprintf d sz txt = (C_OK, txt)) \<and> (sz \<le> length txt \<longrightarrow> fst (de_snprintf d sz txt) = C_ERR))"

lemma and_then_simps [simp]: "and_then (C_OK, f) g = g f" "and_then (C_ERR, f) g = (C_ERR, f)"
  by (simp_all add: and_then_def)

lemma fwrite_print_fits: "snprintf_laws d \<Longrightarrow> txt \<noteq> [] \<Longrightarrow> length txt < 256 \<Longrightarrow> fwrite_print d txt f = (C_OK, f @ txt)"
  by (simp add: snprintf_laws_def fwrite_print_def fwrite_str_def)

lemma fwrite_print_ends:
  assumes "snprintf_laws d" and "txt = [] \<or> 256 \<le> length txt"
  shows "fwrite_print d txt f = (C_ERR, f)"
proof (cases "txt = []")
  case True
  with assms(1) show ?thesis by (simp add: snprintf_laws_def fwrite_print_def fwrite_str_def)
next
  case False
  with assms have "fst (de_snprintf d 256 txt) = C_ERR" by (simp add: snprintf_laws_def)
  then show ?thesis by (auto simp: fwrite_print_def split: prod.split crc.split)
qed

lemma length_hex: "hex_digits n \<noteq> [] \<and> length (hex_digits n) \<le> 4"
  by (simp add: hex_digits_def Let_def)

lemma length_decimal: "n < 10 ^ 20 \<Longrightarrow> length (decimal n) \<le> 20"
  using length_digits [of n 20] by (simp add: decimal_def)

lemma decimal_nonempty [simp]: "decimal n \<noteq> []"
  by (simp add: decimal_def)

lemma wrap_null_str_text:
  assumes "snprintf_laws d" and "length prefix = 1" and "c < 10 ^ 5"
  shows "wrap_null_str d prefix s c = (case s of Some s \<Rightarrow> ascii s | None \<Rightarrow> ascii prefix @ decimal c)"
  using assms length_digits [of c 5] by (auto simp: wrap_null_str_def snprintf_laws_def decimal_def split: option.split)

lemma hex_loop_text: "snprintf_laws d \<Longrightarrow> hex_loop d bs f = (C_OK, f @ concat (map (\<lambda>b. hex_digits (unat b)) bs))"
proof (induction bs arbitrary: f)
  case (Cons b bs)
  with length_hex [of "unat b"] show ?case by (simp add: fwrite_print_fits)
qed simp

definition hex_text :: "byte list \<Rightarrow> byte list" where
  "hex_text bs = ascii ''0x'' @ concat (map (\<lambda>b. hex_digits (unat b)) bs)"

lemma fwrite_hex_text: "snprintf_laws d \<Longrightarrow> fwrite_hex d bs f = (C_OK, f @ hex_text bs)"
  by (simp add: fwrite_hex_def fwrite_print_fits hex_loop_text hex_text_def)

subsection \<open>The rendering\<close>

definition header_text :: "ec_pdu \<Rightarrow> byte list" where
  "header_text pdu =
     (let h = p_hdr_bits pdu;
          name = (\<lambda>prefix s n. case s of Some s \<Rightarrow> ascii s | None \<Rightarrow> ascii prefix @ decimal n)
      in [10] @ ascii ''Header: '' @ hex_text (p_hdr pdu) @ [10] @
         ascii ''  T: '' @ name ''t'' (ec_model_str (h_t h)) (unat (h_t h)) @ [10] @
         ascii ''  OC: '' @ decimal (unat (h_oc h)) @ [10] @
         ascii ''  Code: '' @ name ''c'' (ec_code_str (unat (h_code h))) (unat (h_code h)) @ [10] @
         ascii ''  MID: 0x'' @ hex_digits (unat (h_mid h)) @ [10] @ [10])"

definition label_text :: "ec_opt \<Rightarrow> byte list" where
  "label_text o' = ascii ''  '' @ ascii (the (ec_opt_sym2str (o_sym o'))) @ ascii '': ''"

definition value_text :: "bool \<Rightarrow> ec_opt \<Rightarrow> byte list" where
  "value_text le o' =
     (case o_t o' of
        EC_OPT_TYPE_STRING \<Rightarrow> cstr (opt_mem o')
      | EC_OPT_TYPE_UINT \<Rightarrow> decimal (unat (the (ec_opt_decode_uint le (opt_mem o') (o_l o'))))
      | EC_OPT_TYPE_OPAQUE \<Rightarrow> hex_text (take (o_l o') (opt_mem o'))
      | _ \<Rightarrow> [])"

text \<open>A string with nothing to print, or more than the buffer holds, or a number of more than eight bytes.\<close>

definition printable :: "ec_opt \<Rightarrow> bool" where
  "printable o' \<longleftrightarrow>
     (case o_t o' of
        EC_OPT_TYPE_STRING \<Rightarrow> cstr (opt_mem o') \<noteq> [] \<and> length (cstr (opt_mem o')) < 256
      | EC_OPT_TYPE_UINT \<Rightarrow> o_l o' \<le> 8
      | _ \<Rightarrow> True)"

definition payload_text :: "ec_pdu \<Rightarrow> byte list" where
  "payload_text pdu =
     (if p_payload_sz pdu = 0 then [] else ascii ''Payload: '' @ hex_text (gather (p_payload pdu) (p_payload_sz pdu)) @ [10, 10])"

definition lines_text :: "bool \<Rightarrow> ec_opt list \<Rightarrow> byte list" where
  "lines_text le os = concat (map (\<lambda>o'. label_text o' @ value_text le o' @ [10]) os)"

definition rendering :: "bool \<Rightarrow> ec_pdu \<Rightarrow> byte list" where
  "rendering le pdu =
     (let os = opts_bundle (p_opts pdu)
      in header_text pdu @ ascii ''Options:'' @ [10] @ lines_text le (takeWhile printable os) @
         (case dropWhile printable os of
            [] \<Rightarrow> [10] @ payload_text pdu
          | o' # _ \<Rightarrow> label_text o'))"

subsection \<open>The dump is the rendering\<close>

lemma sym2str_wf: "wf_opt o' \<Longrightarrow> \<exists>s. ec_opt_sym2str (o_sym o') = Some s \<and> length s \<le> 20"
  using wf_opt_valid [of o'] by (cases "o_sym o'") (auto simp: ec_opt_sym2str_def g_opts_def EC_OPT_SYM_VALID_def)

lemma dump_label_text: "wf_opt o' \<Longrightarrow> dump_label d o' = label_text o'"
  using sym2str_wf [of o'] by (auto simp: dump_label_def label_text_def wrap_null_str_def)

lemma length_label: "wf_opt o' \<Longrightarrow> label_text o' \<noteq> [] \<and> length (label_text o') < 256"
  using sym2str_wf [of o'] by (auto simp: label_text_def)

lemma dump_value_text:
  assumes "snprintf_laws d" and "wf_opt o'"
  shows "dump_value le d o' f = (if printable o' then (C_OK, f @ value_text le o') else (C_ERR, f))"
proof -
  have n: "length (decimal (unat ui)) < 256" for ui :: u64
  proof -
    have "unat ui < 2 ^ LENGTH(64)" by (rule unsigned_less)
    then show ?thesis using length_decimal [of "unat ui"] by simp
  qed
  from assms show ?thesis
    by (auto simp: dump_value_def printable_def value_text_def fwrite_print_fits fwrite_print_ends fwrite_hex_text n
        ec_opt_decode_uint_def split: ec_opt_type.split)
qed

lemma dump_options_text:
  assumes "snprintf_laws d" and "\<forall>o' \<in> set os. wf_opt o'"
  shows "dump_options le d os f =
    (case dropWhile printable os of
       [] \<Rightarrow> (C_OK, f @ lines_text le os)
     | o' # _ \<Rightarrow> (C_ERR, f @ lines_text le (takeWhile printable os) @ label_text o'))"
  using assms(2)
proof (induction os arbitrary: f)
  case (Cons o' os)
  have l: "fwrite_print d (label_text o') g = (C_OK, g @ label_text o')" for g
    using length_label Cons.prems by (intro fwrite_print_fits [OF assms(1)]) auto
  have v: "dump_value le d o' g = (if printable o' then (C_OK, g @ value_text le o') else (C_ERR, g))" for g
    using Cons.prems by (intro dump_value_text [OF assms(1)]) auto
  from Cons show ?case
    by (simp add: dump_label_text l v fwrite_print_fits [OF assms(1)] lines_text_def split: list.split) (metis dropWhile_eq_Nil_conv list.distinct(1))
qed (simp add: lines_text_def)

lemma model_str_short: "ec_model_str m = Some s \<Longrightarrow> length s < 100"
  by (auto simp: ec_model_str_def split: if_splits)

lemma code_str_short: "ec_code_str c = Some s \<Longrightarrow> length s < 100"
  by (auto simp: ec_code_str_def ec_method_str_def ec_rc_str_def rc_names_def split: if_splits option.splits dest!: map_of_SomeD)

lemma fwrite_line: "snprintf_laws d \<Longrightarrow> length p \<le> 20 \<Longrightarrow> length x \<le> 100 \<Longrightarrow>
    fwrite_print d (ascii p @ x @ [10]) f = (C_OK, f @ ascii p @ x @ [10])"
  by (rule fwrite_print_fits) simp_all

lemma dump_header_text:
  assumes "snprintf_laws d"
  shows "dump_header d pdu [] = (C_OK, header_text pdu)"
proof -
  have b: "unat x < 10 ^ 5" "length (decimal (unat x)) \<le> 20" for x :: byte
  proof -
    have l: "unat x < 256" by (rule less_le_trans [OF unsigned_less]) simp
    show "unat x < 10 ^ 5" by (rule less_trans [OF l]) simp
    show "length (decimal (unat x)) \<le> 20" by (intro length_decimal less_trans [OF l]) simp
  qed
  have n: "length (case ec_model_str x of None \<Rightarrow> ascii ''t'' @ decimal (unat x) | Some s \<Rightarrow> ascii s) \<le> 100"
    "length (case ec_code_str (unat x) of None \<Rightarrow> ascii ''c'' @ decimal (unat x) | Some s \<Rightarrow> ascii s) \<le> 100"
    "length (decimal (unat x)) \<le> 100" for x :: byte
    using model_str_short [of x] code_str_short [of "unat x"] b(2) [of x] by (auto split: option.split)
  have h: "length (hex_digits k) \<le> 100" for k using length_hex [of k] by simp
  have w: "wrap_null_str d ''t'' s (unat x) = (case s of Some s \<Rightarrow> ascii s | None \<Rightarrow> ascii ''t'' @ decimal (unat x))"
    "wrap_null_str d ''c'' s (unat x) = (case s of Some s \<Rightarrow> ascii s | None \<Rightarrow> ascii ''c'' @ decimal (unat x))" for s and x :: byte
    by (rule wrap_null_str_text [OF assms _ b(1)], simp)+
  show ?thesis
    by (simp add: dump_header_def header_text_def Let_def fwrite_hex_text [OF assms] w fwrite_line [OF assms] n h
        fwrite_print_fits [OF assms, of "[10]"])
qed

text \<open>C14: For a PDU whose options are well-formed, a dump whose file can be opened writes the rendering: the lines of the
  header, one line per option and the payload, but nothing after the name of the first option that is a string without
  text or of 256 bytes or more, because the writing of an empty string counts as an error.\<close>

theorem dump_is_rendering:
  assumes "snprintf_laws d" and "\<forall>o' \<in> set (opts_bundle (p_opts pdu)). wf_opt o'"
    and "length (dump_name (ds_pnum st) srv) < de_PATH_MAX d" and "de_fopen d (dump_name (ds_pnum st) srv)"
  shows "ec_pdu_dump le d pdu srv st = st\<lparr>ds_pnum := ds_pnum st + 1,
    ds_files := (ds_files st)(dump_name (ds_pnum st) srv \<mapsto> rendering le pdu)\<rparr>"
proof -
  have n: "de_snprintf d (de_PATH_MAX d) (dump_name (ds_pnum st) srv) = (C_OK, dump_name (ds_pnum st) srv)"
    using assms(1,3) by (simp add: snprintf_laws_def)
  have p: "dump_payload d pdu f = (C_OK, f @ payload_text pdu)" for f
    by (simp add: dump_payload_def payload_text_def fwrite_hex_text [OF assms(1)] fwrite_print_fits [OF assms(1)])
  have "snd (dump_text le d pdu) = rendering le pdu"
    by (simp add: dump_text_def dump_header_text [OF assms(1)] dump_options_text [OF assms(1,2)] rendering_def Let_def
        fwrite_print_fits [OF assms(1)] p split: list.split) (metis dropWhile_eq_Nil_conv list.distinct(1) takeWhile_eq_all_conv)
  with n assms(4) show ?thesis by (simp add: ec_pdu_dump_def Let_def)
qed

definition demo_dump_env :: dump_env where
  "demo_dump_env = \<lparr>de_snprintf = (\<lambda>sz txt. if length txt < sz then (C_OK, txt) else (C_ERR, [])), de_fopen = (\<lambda>_. True), de_PATH_MAX = 1024\<rparr>"

text \<open>A GET with the host \<open>h\<close>, an empty path segment and a payload.\<close>

definition demo_dumped :: ec_pdu where
  "demo_dumped = (fst (ec_pdu_new_empty \<lparr>w_tick = 0, w_sent = []\<rparr>))
     \<lparr>p_hdr := [0x42, 1, 0x12, 0x34], p_hdr_bits := \<lparr>h_t = 0, h_oc = 2, h_code = 1, h_mid = 0x1234\<rparr>, p_payload := Some [1], p_payload_sz := 1,
      p_opts := ec_opts_init\<lparr>opts_bundle :=
        [\<lparr>o_sym = EC_OPT_URI_HOST, o_t = EC_OPT_TYPE_STRING, o_l = 1, o_v = Some [104, 0]\<rparr>,
         \<lparr>o_sym = EC_OPT_URI_PATH, o_t = EC_OPT_TYPE_STRING, o_l = 0, o_v = Some [0]\<rparr>], noptions := 2\<rparr>\<rparr>"

lemma of_char_char_of: "of_char (char_of n) = (of_nat (n mod 256) :: byte)"
  by (metis of_char_of of_nat_of_char)

theorem dump_is_rendering_witness:
  "ds_files (ec_pdu_dump True demo_dump_env demo_dumped True \<lparr>ds_pnum = 1, ds_files = Map.empty\<rparr>) (ascii ''./1-srv.dump'') =
   Some ([10] @ ascii ''Header: 0x42011234'' @ [10] @ ascii ''  T: CON'' @ [10] @ ascii ''  OC: 2'' @ [10] @ ascii ''  Code: GET'' @ [10] @
     ascii ''  MID: 0x1234'' @ [10, 10] @ ascii ''Options:'' @ [10] @ ascii ''  URI-Host: h'' @ [10] @ ascii ''  URI-Path: '')"
proof -
  have "snprintf_laws demo_dump_env" by (simp add: snprintf_laws_def demo_dump_env_def)
  moreover have "list_all wf_opt (opts_bundle (p_opts demo_dumped))" by code_simp
  then have "\<forall>o' \<in> set (opts_bundle (p_opts demo_dumped)). wf_opt o'" by (simp add: list_all_iff)
  moreover have n: "dump_name 1 True = ascii ''./1-srv.dump''" by code_simp
  moreover have "rendering True demo_dumped =
    [10] @ ascii ''Header: 0x42011234'' @ [10] @ ascii ''  T: CON'' @ [10] @ ascii ''  OC: 2'' @ [10] @ ascii ''  Code: GET'' @ [10] @
     ascii ''  MID: 0x1234'' @ [10, 10] @ ascii ''Options:'' @ [10] @ ascii ''  URI-Host: h'' @ [10] @ ascii ''  URI-Path: ''"
    by (simp add: rendering_def header_text_def demo_dumped_def ec_pdu_new_empty_def hex_text_def hex_digits_def hex_digit_def decimal_def
        digits.simps of_char_char_of ascii_def lines_text_def label_text_def value_text_def printable_def cstr_def opt_mem_def ec_model_str_def
        ec_code_str_def ec_method_str_def ec_opt_sym2str_def g_opts_def EC_OPT_SYM_VALID_def less_ec_opt_sym_def)
  ultimately show ?thesis
    using dump_is_rendering [of demo_dump_env demo_dumped "\<lparr>ds_pnum = 1, ds_files = Map.empty\<rparr>" True True]
    by (simp add: demo_dump_env_def)
qed

end
