(* ===== verification/Proxy.thy ===== *)
theory Proxy
  imports Api
begin

text \<open>
  The HTTP to CoAP proxy (\<open>bridge/sw/proxy/main.c\<close>). Its state extends the engine's by the global
  \<open>g_ctx\<close> and by what it does to the HTTP side: the headers added to each response and the replies,
  by the address of the HTTP request. evhttp and the base 64 coder of libu are the parameter
  \<open>proxy_env\<close>.

  The engine calls \<open>process_coap_response\<close> with the client whose transaction is over; in the engine's
  own theories the invocation of a callback is an entry of \<open>cl_log\<close>.
\<close>

subsection \<open>State\<close>

datatype evhttp_type =
    EVHTTP_REQ_GET | EVHTTP_REQ_POST | EVHTTP_REQ_HEAD | EVHTTP_REQ_PUT | EVHTTP_REQ_DELETE | EVHTTP_REQ_OTHER

record http_req =
  hr_type :: evhttp_type
  hr_uri :: "byte list"
  hr_headers :: "(string \<times> string) list"
  hr_body :: "byte list"

text \<open>
  \<open>px_args\<close>: the HTTP request that a client was given as its callback argument. A reply has the status code and the
  body; sending it takes what is in the buffer.
\<close>

record 'm proxy = "'m ec" +
  px_cli :: "nat option"
  px_curi :: "byte list"
  px_buf :: "byte list option"
  px_block_no :: u32
  px_more :: bool
  px_block_sz :: nat
  px_args :: "nat \<Rightarrow> nat option"
  px_out :: "nat \<Rightarrow> (string \<times> string) list"
  px_replies :: "(nat \<times> int \<times> byte list) list"

record proxy_env =
  pe_find_header :: "(string \<times> string) list \<Rightarrow> string \<Rightarrow> string option"
  pe_b64 :: "byte list \<Rightarrow> string option"

abbreviation (input) HTTP_OK :: int where "HTTP_OK \<equiv> 200"
abbreviation (input) HTTP_CREATED :: int where "HTTP_CREATED \<equiv> 201"
abbreviation (input) HTTP_NOCONTENT :: int where "HTTP_NOCONTENT \<equiv> 204"
abbreviation (input) HTTP_NOTFOUND :: int where "HTTP_NOTFOUND \<equiv> 404"
abbreviation (input) HTTP_BADMETHOD :: int where "HTTP_BADMETHOD \<equiv> 405"
abbreviation (input) HTTP_INTERNAL :: int where "HTTP_INTERNAL \<equiv> 500"
abbreviation (input) HTTP_NOTIMPLEMENTED :: int where "HTTP_NOTIMPLEMENTED \<equiv> 501"

text \<open>The global context as it is at the start.\<close>

definition g_ctx :: "'m ec \<Rightarrow> 'm proxy" where
  "g_ctx coap = ec.extend coap
     \<lparr>px_cli = None, px_curi = [], px_buf = None, px_block_no = 0, px_more = False, px_block_sz = 0,
      px_args = (\<lambda>_. None), px_out = (\<lambda>_. []), px_replies = []\<rparr>"

definition evhttp_add_header :: "nat \<Rightarrow> string \<Rightarrow> string \<Rightarrow> ('m, 'z) proxy_scheme \<Rightarrow> ('m, 'z) proxy_scheme" where
  "evhttp_add_header req key val s = s\<lparr>px_out := (px_out s)(req := px_out s req @ [(key, val)])\<rparr>"

definition evhttp_send_reply :: "nat \<Rightarrow> int \<Rightarrow> bool \<Rightarrow> ('m, 'z) proxy_scheme \<Rightarrow> ('m, 'z) proxy_scheme" where
  "evhttp_send_reply req code with_buf s =
     (case (if with_buf then px_buf s else None) of
        None \<Rightarrow> s\<lparr>px_replies := px_replies s @ [(req, code, [])]\<rparr>
      | Some b \<Rightarrow> s\<lparr>px_replies := px_replies s @ [(req, code, b)], px_buf := Some []\<rparr>)"

subsection \<open>Headers\<close>

text \<open>The loop over the headers of the HTTP request ends at the first error.\<close>

fun coap_headers :: "bool \<Rightarrow> evhttp_type \<Rightarrow> (string \<times> string) list \<Rightarrow> ec_client \<Rightarrow> crc \<times> ec_client" where
  "coap_headers le rc [] cli = (C_OK, cli)"
| "coap_headers le rc ((key, value) # hs) cli =
     (if key = ''Content-Type'' then
        (case ec_mt_from_string value of
           (C_OK, Some pmt) \<Rightarrow>
             (case ec_request_add_content_type le cli (of_nat pmt) of
                (C_ERR, cli) \<Rightarrow> (C_ERR, cli)
              | (C_OK, cli) \<Rightarrow> coap_headers le rc hs cli)
         | _ \<Rightarrow> (C_ERR, cli))
      else if key = ''Accept'' \<and> rc \<noteq> EVHTTP_REQ_PUT \<and> rc \<noteq> EVHTTP_REQ_POST then
        (case ec_mt_from_string value of
           (C_OK, Some pmt) \<Rightarrow>
             (case ec_request_add_accept le cli (of_nat pmt) of
                (C_ERR, cli) \<Rightarrow> (C_ERR, cli)
              | (C_OK, cli) \<Rightarrow> coap_headers le rc hs cli)
         | _ \<Rightarrow> (C_ERR, cli))
      else coap_headers le rc hs cli)"

definition process_set_coap_headers ::
    "'m env \<Rightarrow> http_req \<Rightarrow> evhttp_type \<Rightarrow> ('m, 'z) proxy_scheme \<Rightarrow> (crc \<times> ('m, 'z) proxy_scheme) run" where
  "process_set_coap_headers e req rc s =
     (case px_cli s of
        None \<Rightarrow> Fault Null_deref
      | Some a \<Rightarrow>
          run_bind (get_cli a s) (\<lambda>cli.
            case coap_headers (e_le e) rc (hr_headers req) cli of (rc, cli) \<Rightarrow> Done (rc, put_cli a cli s)))"

definition content_type_header :: "u64 \<Rightarrow> string" where
  "content_type_header tmp =
     (let t = unat (ucast tmp :: u32)
      in if t = EC_MT_TEXT_PLAIN then ''text/plain; charset=UTF-8''
         else if t = EC_MT_APPLICATION_LINK_FORMAT then ''application/link-format''
         else if t = EC_MT_APPLICATION_XML then ''application/xml''
         else if t = EC_MT_APPLICATION_OCTET_STREAM then ''application/octet-stream''
         else if t = EC_MT_APPLICATION_EXI then ''application/exi''
         else if t = EC_MT_APPLICATION_JSON then ''application/json''
         else ''application/xml'')"

text \<open>The ETags from the \<open>i\<close>th on; their number is at most the number of options.\<close>

fun etag_headers :: "proxy_env \<Rightarrow> ec_opts \<Rightarrow> nat list \<Rightarrow> (string \<times> string) list" where
  "etag_headers pe opts [] = []"
| "etag_headers pe opts (i # is) =
     (case ec_opts_get_etag_nth opts i of
        Some (Some et, et_sz) \<Rightarrow>
          (if et_sz = 0 then []
           else case pe_b64 pe (take et_sz et) of None \<Rightarrow> [] | Some s \<Rightarrow> [(''ETag'', s)]) @ etag_headers pe opts is
      | _ \<Rightarrow> [])"

text \<open>The headers for the options, up to the first one that is not a number.\<close>

fun option_headers :: "bool \<Rightarrow> proxy_env \<Rightarrow> ec_opts \<Rightarrow> ec_opt list \<Rightarrow> (string \<times> string) list" where
  "option_headers le pe opts [] = []"
| "option_headers le pe opts (o' # os) =
     (case ec_opts_get_uint le opts (o_sym o') of
        None \<Rightarrow> []
      | Some tmp \<Rightarrow>
          (if o_sym o' = EC_OPT_PROXY_URI \<or> o_sym o' = EC_OPT_CONTENT_TYPE
             then [(''Content-Type'', content_type_header tmp)]
           else if o_sym o' = EC_OPT_MAX_AGE \<or> o_sym o' = EC_OPT_ETAG
             then etag_headers pe opts [0..<length (opts_bundle opts)]
           else []) @ option_headers le pe opts os)"

text \<open>The response is looked up in the client of the last HTTP request.\<close>

definition process_set_http_headers ::
    "'m env \<Rightarrow> proxy_env \<Rightarrow> nat \<Rightarrow> ('m, 'z) proxy_scheme \<Rightarrow> ('m, 'z) proxy_scheme run" where
  "process_set_http_headers e pe req s =
     (case px_cli s of
        None \<Rightarrow> Done s
      | Some a \<Rightarrow>
          run_bind (get_cli a s) (\<lambda>cli.
            case ec_client_get_response_options cli of
              None \<Rightarrow> Done s
            | Some opts \<Rightarrow>
                Done (foldl (\<lambda>s (k, v). evhttp_add_header req k v s) s
                  (option_headers (e_le e) pe opts (opts_bundle opts)))))"

subsection \<open>From HTTP to CoAP\<close>

definition coap_method :: "evhttp_type \<Rightarrow> ec_method option" where
  "coap_method t =
     (case t of
        EVHTTP_REQ_HEAD \<Rightarrow> Some EC_COAP_GET
      | EVHTTP_REQ_GET \<Rightarrow> Some EC_COAP_GET
      | EVHTTP_REQ_PUT \<Rightarrow> Some EC_COAP_PUT
      | EVHTTP_REQ_POST \<Rightarrow> Some EC_COAP_POST
      | EVHTTP_REQ_DELETE \<Rightarrow> Some EC_COAP_DELETE
      | EVHTTP_REQ_OTHER \<Rightarrow> None)"

text \<open>\<open>g_ctx.cli\<close> is the new client, or NULL; the result says whether there is one.\<close>

definition new_request ::
    "'m env \<Rightarrow> ec_method \<Rightarrow> ('m, 'z) proxy_scheme \<Rightarrow> (crc \<times> ('m, 'z) proxy_scheme) run" where
  "new_request e m s =
     run_bind (ec_request_new e m (px_curi s) True False s) (\<lambda>(r, s).
       Done (if r = None then C_ERR else C_OK, s\<lparr>px_cli := r\<rparr>))"

text \<open>The results of adding headers and the payload are not looked at.\<close>

definition with_headers ::
    "'m env \<Rightarrow> http_req \<Rightarrow> ('m, 'z) proxy_scheme \<Rightarrow> ('m, 'z) proxy_scheme run" where
  "with_headers e req s =
     run_bind (if hr_type req = EVHTTP_REQ_DELETE then Done (C_OK, s) else process_set_coap_headers e req (hr_type req) s)
       (\<lambda>(_, s).
          if hr_type req = EVHTTP_REQ_PUT \<or> hr_type req = EVHTTP_REQ_POST then
            (case px_cli s of
               None \<Rightarrow> Fault Null_deref
             | Some a \<Rightarrow>
                 run_bind (get_cli a s) (\<lambda>cli.
                   Done (put_cli a (snd (ec_request_set_payload e cli (hr_body req) (length (hr_body req)) s)) s)))
          else Done s)"

text \<open>Sending to NULL is an error. The callback argument is the HTTP request.\<close>

definition send_request ::
    "'m env \<Rightarrow> (byte list \<times> byte list \<Rightarrow> dns_answer option) \<Rightarrow> nat \<Rightarrow> ('m, 'z) proxy_scheme \<Rightarrow>
     (crc \<times> ('m, 'z) proxy_scheme) run" where
  "send_request e resolve req s =
     (case px_cli s of
        None \<Rightarrow> Done (C_ERR, s)
      | Some a \<Rightarrow>
          ec_request_send e resolve a (Some (\<lambda>_ _ _. False)) (Some (3, 0)) (s\<lparr>px_args := (px_args s)(a := Some req)\<rparr>))"

text \<open>
  A new HTTP request \<open>hr\<close> at the address \<open>req\<close>. Printing a header that is not there is undefined; the URI is cut to
  the 1024 bytes of its buffer.
\<close>

definition process_http_request ::
    "'m env \<Rightarrow> proxy_env \<Rightarrow> (byte list \<times> byte list \<Rightarrow> dns_answer option) \<Rightarrow> nat \<Rightarrow> http_req \<Rightarrow>
     ('m, 'z) proxy_scheme \<Rightarrow> ('m, 'z) proxy_scheme run" where
  "process_http_request e pe resolve req hr s =
     (let s = s\<lparr>px_block_no := 0, px_more := False, px_block_sz := 0, px_curi := [], px_buf := Some []\<rparr>
      in case pe_find_header pe (hr_headers hr) ''Host'' of
           None \<Rightarrow> Fault Null_deref
         | Some host \<Rightarrow>
             (case e_uri_crumble e (take 1023 (ascii ''http://'' @ ascii host @ hr_uri hr)) of
                None \<Rightarrow> Done s
              | Some u \<Rightarrow>
                  (case e_uri_knead e (e_uri_set_host e (e_uri_set_scheme e u (ascii ''coap'')) (ascii ''mote'')) of
                     None \<Rightarrow> Done s
                   | Some curi \<Rightarrow>
                       let s = s\<lparr>px_curi := curi\<rparr>
                       in run_bind (case coap_method (hr_type hr) of None \<Rightarrow> Done (C_OK, s) | Some m \<Rightarrow> new_request e m s)
                            (\<lambda>(rc, s).
                               if rc = C_ERR then Done s
                               else run_bind (if coap_method (hr_type hr) = None then Done s else with_headers e hr s) (\<lambda>s.
                                 run_bind (send_request e resolve req s) (\<lambda>(_, s). Done s))))))"

subsection \<open>From CoAP to HTTP\<close>

text \<open>The string that the 1024 bytes of the local buffer hold in the end.\<close>

definition payload_string :: "byte list \<Rightarrow> nat \<Rightarrow> byte list run" where
  "payload_string pl pl_sz =
     (if pl_sz \<ge> 1024 then Fault Overwrite else Done (takeWhile (\<lambda>b. b \<noteq> 0) (take pl_sz pl)))"

text \<open>The reply of the codes that need no more than a status.\<close>

definition status_of :: "ec_rc \<Rightarrow> int option" where
  "status_of rc =
     (if rc = EC_CHANGED \<or> rc = EC_DELETED then Some HTTP_NOCONTENT
      else if rc = EC_NOT_FOUND then Some HTTP_NOTFOUND
      else if rc = EC_METHOD_NOT_ALLOWED then Some HTTP_BADMETHOD
      else if rc = EC_NOT_IMPLEMENTED then Some HTTP_NOTIMPLEMENTED
      else None)"

definition reply_error :: "nat \<Rightarrow> ('m, 'z) proxy_scheme \<Rightarrow> ('m, 'z) proxy_scheme" where
  "reply_error req s = evhttp_send_reply req HTTP_INTERNAL False s"

text \<open>Ask for the next block.\<close>

definition next_block ::
    "'m env \<Rightarrow> (byte list \<times> byte list \<Rightarrow> dns_answer option) \<Rightarrow> nat \<Rightarrow> ('m, 'z) proxy_scheme \<Rightarrow>
     ('m, 'z) proxy_scheme run" where
  "next_block e resolve req s =
     run_bind (new_request e EC_COAP_GET s) (\<lambda>(rc, s).
       case px_cli s of
         None \<Rightarrow> Done (reply_error req s)
       | Some a \<Rightarrow>
           run_bind (get_cli a s) (\<lambda>cli.
             let s = s\<lparr>px_block_no := px_block_no s + 1\<rparr>
             in case ec_request_add_block2 (e_le e) cli (px_block_no s) False (px_block_sz s) of
                  (rc, cli) \<Rightarrow>
                    let s = put_cli a cli s
                    in if rc = C_ERR then Done (reply_error req s)
                       else run_bind (send_request e resolve req s) (\<lambda>(rc, s).
                         Done (if rc = C_ERR then reply_error req s else s))))"

text \<open>A body to pass on. With 2.05 it is the payload.\<close>

definition pass_on ::
    "'m env \<Rightarrow> (byte list \<times> byte list \<Rightarrow> dns_answer option) \<Rightarrow> nat \<Rightarrow> ec_client \<Rightarrow> ec_rc \<Rightarrow>
     ('m, 'z) proxy_scheme \<Rightarrow> ('m, 'z) proxy_scheme run" where
  "pass_on e resolve req cli rc s =
     (let b2 = ec_response_get_block2 (e_le e) cli;
          s' = (case b2 of None \<Rightarrow> s | Some (bnum, m, bsz) \<Rightarrow> s\<lparr>px_more := m, px_block_sz := bsz\<rparr>)
      in if (case b2 of None \<Rightarrow> False | Some (bnum, _) \<Rightarrow> bnum \<noteq> px_block_no s) then Done (reply_error req s')
         else case (if rc = EC_CONTENT then ec_response_get_payload cli else Some (Some [], 0)) of
           Some (Some pl, pl_sz) \<Rightarrow>
             run_bind (payload_string pl pl_sz) (\<lambda>payload.
               let s = evhttp_add_header req ''Cache-Control'' ''no-cache''
                         (evhttp_add_header req ''Access-Control-Allow-Origin'' ''*'' s')
               in case px_buf s of
                    None \<Rightarrow> Fault Null_deref
                  | Some b \<Rightarrow>
                      let s = s\<lparr>px_buf := Some (b @ payload)\<rparr>
                      in if \<not> px_more s then Done (evhttp_send_reply req HTTP_OK True s)
                         else next_block e resolve req s)
         | _ \<Rightarrow> Done (reply_error req s'))"

definition process_coap_response ::
    "'m env \<Rightarrow> proxy_env \<Rightarrow> (byte list \<times> byte list \<Rightarrow> dns_answer option) \<Rightarrow> nat \<Rightarrow> ('m, 'z) proxy_scheme \<Rightarrow>
     ('m, 'z) proxy_scheme run" where
  "process_coap_response e pe resolve a s =
     run_bind (get_cli a s) (\<lambda>cli.
       case px_args s a of
         None \<Rightarrow> Fault Null_deref
       | Some req \<Rightarrow>
           run_bind (process_set_http_headers e pe req s) (\<lambda>s.
             let rc = ec_response_get_code cli
             in if cl_state cli \<noteq> EC_CLI_STATE_REQ_DONE then Done (reply_error req s)
                else if rc = EC_RC_UNSET then Done (reply_error req s)
                else case status_of rc of
                  Some code \<Rightarrow> Done (evhttp_send_reply req code True s)
                | None \<Rightarrow>
                    let s = (if rc = EC_CREATED then evhttp_send_reply req HTTP_CREATED True s else s)
                    in pass_on e resolve req cli rc s))"

end
