(* ===== verification/Proxy_Demo.thy ===== *)
theory Proxy_Demo
  imports Proxy
begin

text \<open>
  The first form of the proxy (\<open>bridge/sw/proxy/demo.c\<close>). Its context and its callbacks are those of \<open>Proxy\<close>, but every
  HTTP request becomes a GET, with a random Token, and every response is passed on as text with status 200, whatever
  its code.
\<close>

subsection \<open>From HTTP to CoAP\<close>

text \<open>The new client gets a Token of its own before it is sent; at the first error no reply is given.\<close>

definition demo_tokened ::
    "'m env \<Rightarrow> (byte list \<times> byte list \<Rightarrow> dns_answer option) \<Rightarrow> nat \<Rightarrow> ('m, 'z) proxy_scheme \<Rightarrow> ('m, 'z) proxy_scheme run" where
  "demo_tokened e resolve req s =
     (case px_cli s of
        None \<Rightarrow> Done s
      | Some a \<Rightarrow>
          run_bind (get_cli a s) (\<lambda>cli.
          run_bind (ec_request_add_token e cli None 0 s) (\<lambda>(rc, cli, s).
            let s = put_cli a cli s
            in if rc = C_ERR then Done s
               else run_bind (send_request e resolve req s) (\<lambda>(_, s). Done s))))"

definition demo_http_request ::
    "'m env \<Rightarrow> proxy_env \<Rightarrow> (byte list \<times> byte list \<Rightarrow> dns_answer option) \<Rightarrow> nat \<Rightarrow> http_req \<Rightarrow>
     ('m, 'z) proxy_scheme \<Rightarrow> ('m, 'z) proxy_scheme run" where
  "demo_http_request e pe resolve req hr s =
     (let s = s\<lparr>px_block_no := 0, px_more := False, px_block_sz := 0, px_curi := [], px_buf := Some []\<rparr>
      in case pe_find_header pe (hr_headers hr) ''Host'' of
           None \<Rightarrow> Fault Null_deref
         | Some host \<Rightarrow>
             (case e_uri_crumble e (take 1023 (ascii ''http://'' @ ascii host @ hr_uri hr)) of
                None \<Rightarrow> Done s
              | Some u \<Rightarrow>
                  (case e_uri_knead e (e_uri_set_host e (e_uri_set_scheme e u (ascii ''coap'')) (ascii ''mote'')) of
                     None \<Rightarrow> Done s
                   | Some curi \<Rightarrow>
                       run_bind (new_request e EC_COAP_GET (s\<lparr>px_curi := curi\<rparr>)) (\<lambda>(rc, s).
                         if rc = C_ERR then Done s else demo_tokened e resolve req s))))"

subsection \<open>From CoAP to HTTP\<close>

text \<open>Collect the payload, and reply or ask for the next block.\<close>

definition demo_pass_on ::
    "'m env \<Rightarrow> (byte list \<times> byte list \<Rightarrow> dns_answer option) \<Rightarrow> nat \<Rightarrow> ec_client \<Rightarrow> ec_rc \<Rightarrow>
     ('m, 'z) proxy_scheme \<Rightarrow> ('m, 'z) proxy_scheme run" where
  "demo_pass_on e resolve req cli rc s =
     (let b2 = ec_response_get_block2 (e_le e) cli;
          s = (case b2 of None \<Rightarrow> s | Some (_, m, bsz) \<Rightarrow> s\<lparr>px_more := m, px_block_sz := bsz\<rparr>)
      in if (case b2 of None \<Rightarrow> False | Some (bnum, _) \<Rightarrow> bnum \<noteq> px_block_no s) then Done (reply_error req s)
         else case (if rc = EC_CONTENT then ec_response_get_payload cli else Some (Some [], 0)) of
           Some (Some pl, pl_sz) \<Rightarrow>
             run_bind (payload_string pl pl_sz) (\<lambda>payload.
               let s = evhttp_add_header req ''Content-Type'' ''text/plain; charset=UTF-8'' s;
                   s = evhttp_add_header req ''Access-Control-Allow-Origin'' ''*'' s;
                   s = evhttp_add_header req ''Cache-Control'' ''no-cache'' s
               in case px_buf s of
                    None \<Rightarrow> Fault Null_deref
                  | Some b \<Rightarrow>
                      let s = s\<lparr>px_buf := Some (b @ payload)\<rparr>
                      in if \<not> px_more s then Done (evhttp_send_reply req HTTP_OK True s)
                         else next_block e resolve req s)
         | _ \<Rightarrow> Done (reply_error req s))"

definition demo_coap_response ::
    "'m env \<Rightarrow> (byte list \<times> byte list \<Rightarrow> dns_answer option) \<Rightarrow> nat \<Rightarrow> ('m, 'z) proxy_scheme \<Rightarrow> ('m, 'z) proxy_scheme run" where
  "demo_coap_response e resolve a s =
     run_bind (get_cli a s) (\<lambda>cli.
       case px_args s a of
         None \<Rightarrow> Fault Null_deref
       | Some req \<Rightarrow>
           (let rc = ec_response_get_code cli
            in if cl_state cli \<noteq> EC_CLI_STATE_REQ_DONE then Done (reply_error req s)
               else if rc = EC_RC_UNSET then Done (reply_error req s)
               else demo_pass_on e resolve req cli rc s))"

end
