(* ===== verification/Proxy_Spec.thy ===== *)
theory Proxy_Spec
  imports Proxy Cli_Props
begin

text \<open>
  What the proxy does with a response: the status and body of its reply, the next block of a
  large body, and what happens when two HTTP requests are under way.
\<close>

lemma headers_sel [simp]:
  "px_cli (evhttp_add_header req k v s) = px_cli s" "px_replies (evhttp_add_header req k v s) = px_replies s"
  "px_buf (evhttp_add_header req k v s) = px_buf s" "px_more (evhttp_add_header req k v s) = px_more s"
  "px_block_no (evhttp_add_header req k v s) = px_block_no s" "px_block_sz (evhttp_add_header req k v s) = px_block_sz s"
  "px_curi (evhttp_add_header req k v s) = px_curi s" "px_args (evhttp_add_header req k v s) = px_args s"
  "cl_heap (evhttp_add_header req k v s) = cl_heap s" "w_tick (evhttp_add_header req k v s) = w_tick s"
  by (simp_all add: evhttp_add_header_def)

text \<open>Setting headers changes the headers of this HTTP request and nothing else.\<close>

lemma add_headers: "foldl (\<lambda>s (k, v). evhttp_add_header req k v s) s hs = s\<lparr>px_out := (px_out s)(req := px_out s req @ hs)\<rparr>"
  by (induction hs arbitrary: s) (auto simp: evhttp_add_header_def fun_upd_idem)

lemma http_headers_live:
  assumes "px_cli s = Some b" and "cl_heap s b = Some c"
  obtains hs where "process_set_http_headers e pe req s = Done (s\<lparr>px_out := (px_out s)(req := px_out s req @ hs)\<rparr>)"
proof (cases "ec_client_get_response_options c")
  case None
  with assms that [of "[]"] show thesis by (simp add: process_set_http_headers_def get_cli_def)
next
  case (Some opts)
  with assms that [of "option_headers (e_le e) pe opts (opts_bundle opts)"] show thesis
    by (simp add: process_set_http_headers_def get_cli_def add_headers)
qed

subsection \<open>A response that is not split\<close>

text \<open>The replies, in order, to a response with code \<open>rc\<close>, when the buffer holds \<open>b\<close>.\<close>

definition http_replies :: "nat \<Rightarrow> ec_rc \<Rightarrow> byte list \<Rightarrow> byte list \<Rightarrow> (nat \<times> int \<times> byte list) list" where
  "http_replies req rc b pl =
     (if rc = EC_CHANGED \<or> rc = EC_DELETED then [(req, 204, b)]
      else if rc = EC_NOT_FOUND then [(req, 404, b)]
      else if rc = EC_METHOD_NOT_ALLOWED then [(req, 405, b)]
      else if rc = EC_NOT_IMPLEMENTED then [(req, 501, b)]
      else if rc = EC_CREATED then [(req, 201, b), (req, 200, [])]
      else if rc = EC_CONTENT then [(req, 200, b @ takeWhile (\<lambda>x. x \<noteq> 0) pl)]
      else [(req, 200, b)])"

lemma single_response_run:
  assumes "cl_heap s a = Some cli" and "px_args s a = Some req" and "px_cli s = Some a"
    and "cl_state cli = EC_CLI_STATE_REQ_DONE" and "ec_response_get_code cli \<noteq> EC_RC_UNSET"
    and "ec_response_get_block2 (e_le e) cli = None" and "\<not> px_more s" and "px_buf s = Some b"
    and "ec_response_get_payload cli = Some (Some pl, n)" and "ec_response_get_code cli = EC_CONTENT \<longrightarrow> n < 1024"
  shows "\<exists>s'. process_coap_response e pe resolve a s = Done s' \<and>
    px_replies s' = px_replies s @ http_replies req (ec_response_get_code cli) b (take n pl) \<and>
    cl_heap s' = cl_heap s \<and> cl_list s' = cl_list s \<and> px_cli s' = px_cli s \<and> px_args s' = px_args s"
proof -
  obtain hs where h: "process_set_http_headers e pe req s = Done (s\<lparr>px_out := (px_out s)(req := px_out s req @ hs)\<rparr>)"
    using http_headers_live [OF assms(3,1)] by blast
  show ?thesis
    using assms(1,2,4-10)
    by (auto simp: process_coap_response_def get_cli_def h status_of_def pass_on_def http_replies_def Let_def
        evhttp_send_reply_def payload_string_def evhttp_add_header_def split: if_splits)
qed


subsection \<open>Two requests\<close>

lemma unregister_frame:
  assumes "ec_client_unregister a s = Done s'"
  shows "(\<exists>c. cl_heap s' = (cl_heap s)(a \<mapsto> c)) \<and> px_cli s' = px_cli s \<and> px_args s' = px_args s"
  using assms
  by (auto simp: ec_client_unregister_def ec_client_del_def get_cli_def put_cli_def Let_def split: option.splits if_splits)

lemma free_frame:
  assumes "ec_client_free a s = Done s'"
  shows "cl_heap s' = (cl_heap s)(a := None) \<and> px_cli s' = px_cli s \<and> px_args s' = px_args s"
proof -
  obtain s1 where u: "ec_client_unregister a s = Done s1" using assms by (auto simp: ec_client_free_def run_bind_Done_iff)
  from unregister_frame [OF u] obtain c where c: "cl_heap s1 = (cl_heap s)(a \<mapsto> c)" "px_cli s1 = px_cli s" "px_args s1 = px_args s"
    by blast
  obtain flow closed where "ec_flow_term (cl_flow c) False = (flow, closed)" by (cases "ec_flow_term (cl_flow c) False")
  with assms u c show ?thesis by (auto simp: ec_client_free_def get_cli_def note_closed_def)
qed

text \<open>C40: When two HTTP requests are under way and the later one, whose client \<open>a\<close> is \<open>g_ctx.cli\<close>, is answered first,
  then, once the engine has released its client, the response to the earlier one reads freed memory: the headers are
  taken from \<open>g_ctx.cli\<close> and not from the client that has the response.\<close>

theorem earlier_request_faults:
  assumes "cl_heap s a = Some cli" and "px_args s a = Some req" and "px_cli s = Some a"
    and "cl_state cli = EC_CLI_STATE_REQ_DONE" and "ec_response_get_code cli \<noteq> EC_RC_UNSET"
    and "ec_response_get_block2 (e_le e) cli = None" and "\<not> px_more s" and "px_buf s = Some b"
    and "ec_response_get_payload cli = Some (Some pl, n)" and "n < 1024"
    and "c \<noteq> a" and "cl_heap s c = Some first" and "px_args s c = Some req1"
    and "run_bind (process_coap_response e pe resolve a s) (ec_client_free a) = Done s'"
  shows "process_coap_response e pe resolve c s' = Fault Use_after_free"
proof -
  from single_response_run [OF assms(1-9), of pe resolve] assms(10) obtain s1 where
    s1: "process_coap_response e pe resolve a s = Done s1" "cl_heap s1 = cl_heap s" "px_cli s1 = Some a" "px_args s1 = px_args s"
    using assms(3) by auto
  with assms(14) have "ec_client_free a s1 = Done s'" by simp
  from free_frame [OF this] s1 assms(11-13) show ?thesis
    by (simp add: process_coap_response_def process_set_http_headers_def get_cli_def)
qed

text \<open>An engine with two clients, of which the second has a 2.05 response without options.\<close>

definition demo_answered :: ec_client where
  "demo_answered = demo_client\<lparr>cl_state := EC_CLI_STATE_REQ_DONE,
     cl_flow := (cl_flow demo_client)\<lparr>f_resp_code := EC_CONTENT\<rparr>,
     cl_res := [demo_query\<lparr>p_payload := Some [104, 105], p_payload_sz := 2\<rparr>]\<rparr>"

definition demo_proxy :: "(string \<times> nat) list proxy" where
  "demo_proxy = (g_ctx ((demo_ec demo_client [0, 1])\<lparr>cl_heap := [0 \<mapsto> demo_client, 1 \<mapsto> demo_answered]\<rparr>))
     \<lparr>px_cli := Some 1, px_buf := Some [], px_args := [0 \<mapsto> 70, 1 \<mapsto> 71]\<rparr>"

definition demo_proxy_env :: proxy_env where
  "demo_proxy_env = \<lparr>pe_find_header = (\<lambda>hs k. map_of hs k), pe_b64 = (\<lambda>_. None)\<rparr>"

lemma demo_proxy_sel [simp]:
  "cl_heap demo_proxy = [0 \<mapsto> demo_client, 1 \<mapsto> demo_answered]" "px_cli demo_proxy = Some 1" "px_buf demo_proxy = Some []"
  "px_args demo_proxy = [0 \<mapsto> 70, 1 \<mapsto> 71]" "px_replies demo_proxy = []" "px_more demo_proxy = False" "cl_list demo_proxy = [0, 1]"
  by (simp_all add: demo_proxy_def g_ctx_def ec.defs demo_ec_def)

lemma demo_answered_sel [simp]:
  "cl_state demo_answered = EC_CLI_STATE_REQ_DONE" "ec_response_get_code demo_answered = EC_CONTENT"
  "ec_response_get_payload demo_answered = Some (Some [104, 105], 2)" "cl_base demo_answered = True"
  "ec_response_get_block2 True demo_answered = None"
  by (simp_all add: demo_answered_def ec_response_get_code_def ec_flow_get_resp_code_def ec_response_get_payload_def
      ec_client_get_response_pdu_def demo_client_def demo_conn_def ec_conn_init_def ec_response_get_block2_def on_res_def
      ec_client_get_response_options_def demo_query_def ec_pdu_new_empty_def ec_opts_init_def block_of_def
      ec_opts_get_block2_def ec_opts_get_block_def ec_opts_get_uint_def ec_opts_get_def ec_opts_get_nth_def)


theorem earlier_request_faults_witness:
  "\<exists>s'. run_bind (process_coap_response demo_env demo_proxy_env (\<lambda>_. None) 1 demo_proxy) (ec_client_free 1) = Done s' \<and>
    process_coap_response demo_env demo_proxy_env (\<lambda>_. None) 0 s' = Fault Use_after_free"
proof -
  from single_response_run [of demo_proxy 1 demo_answered 71 demo_env "[]" "[104, 105]" 2 demo_proxy_env "\<lambda>_. None"]
  obtain s1 where s1: "process_coap_response demo_env demo_proxy_env (\<lambda>_. None) 1 demo_proxy = Done s1"
    "cl_heap s1 = cl_heap demo_proxy" "cl_list s1 = [0, 1]" by auto
  obtain flow closed where "ec_flow_term (cl_flow demo_answered) False = (flow, closed)"
    by (cases "ec_flow_term (cl_flow demo_answered) False")
  with s1(2,3) have "\<exists>s'. ec_client_free 1 s1 = Done s'"
    by (simp add: ec_client_free_def ec_client_unregister_def ec_client_del_def get_cli_def put_cli_def Let_def)
  then obtain s' where s': "run_bind (process_coap_response demo_env demo_proxy_env (\<lambda>_. None) 1 demo_proxy) (ec_client_free 1) = Done s'"
    using s1(1) by auto
  from earlier_request_faults [OF _ _ _ _ _ _ _ _ _ _ _ _ _ s', of demo_answered 71 "[]" "[104, 105]" 2 0 demo_client 70] s'
  show ?thesis by simp
qed

subsection \<open>A response in blocks\<close>

lemma client_zero_tick: "w_tick (s' :: 'y world_scheme) = w_tick (s :: 'z world_scheme) \<Longrightarrow> client_zero s' = client_zero s"
  by (simp add: client_zero_def ec_pdu_new_empty_def)

text \<open>The client as it waits for its destination to be resolved.\<close>

definition sent_client :: "ec_client \<Rightarrow> ec_client" where
  "sent_client c = c\<lparr>cl_cb := Some (\<lambda>_ _ _. False), cl_app := (cl_app c)\<lparr>tout := (3, 0)\<rparr>, cl_dns_req := True\<rparr>"

lemma next_block_asked:
  assumes "client_setup e EC_COAP_GET (px_curi s) True None (client_zero s) = (C_OK, fresh)"
    and "ec_request_add_block2 (e_le e) (fresh\<lparr>cl_base := True, cl_userown := False\<rparr>) (px_block_no s + 1) False (px_block_sz s) = (C_OK, asks)"
    and "cl_state asks = EC_CLI_STATE_NONE" and "client_dest e asks = Some dest"
  shows "next_block e (\<lambda>_. None) req s = Done ((put_cli (w_tick s) (sent_client asks) (tick s))
    \<lparr>px_cli := Some (w_tick s), px_block_no := px_block_no s + 1, px_args := (px_args s)(w_tick s := Some req)\<rparr>)"
  using assms
  by (simp add: next_block_def new_request_def ec_request_new_def ec_client_new_def get_cli_def send_request_def ec_request_send_def
      ec_client_go_def sent_client_def put_cli_def tick_def Let_def)


definition demo_px_env :: "(string \<times> nat) list env" where
  "demo_px_env = demo_env\<lparr>e_uri_scheme := (\<lambda>u. str_coap)\<rparr>"

text \<open>Block 0 of 64 bytes, with more to come.\<close>

definition demo_block :: ec_client where
  "demo_block = demo_answered\<lparr>cl_res := [demo_query\<lparr>p_payload := Some [104, 105], p_payload_sz := 2,
     p_opts := ec_opts_init\<lparr>opts_bundle := [\<lparr>o_sym = EC_OPT_BLOCK2, o_t = EC_OPT_TYPE_UINT, o_l = 1, o_v = Some [10]\<rparr>]\<rparr>\<rparr>]\<rparr>"

definition demo_blocks :: "(string \<times> nat) list proxy" where
  "demo_blocks = demo_proxy\<lparr>cl_heap := [1 \<mapsto> demo_block], px_curi := [115], w_tick := 2\<rparr>"

abbreviation (input) demo_clock :: world where
  "demo_clock \<equiv> \<lparr>w_tick = 2, w_sent = []\<rparr>"

definition demo_asks :: ec_client where
  "demo_asks = snd (client_setup demo_px_env EC_COAP_GET [115] True None (client_zero demo_clock))"

definition demo_asks_block :: ec_client where
  "demo_asks_block = snd (ec_request_add_block2 True (demo_asks\<lparr>cl_base := True, cl_userown := False\<rparr>) 1 False 64)"

lemma demo_asks_run:
  "case client_setup demo_px_env EC_COAP_GET [115] True None (client_zero demo_clock) of (rc, c) \<Rightarrow>
     rc = C_OK \<and>
     (case ec_request_add_block2 True (c\<lparr>cl_base := True, cl_userown := False\<rparr>) 1 False 64 of (rc, d) \<Rightarrow>
        rc = C_OK \<and> cl_state d = EC_CLI_STATE_NONE \<and> client_dest demo_px_env d \<noteq> None)"
  by code_simp

lemma demo_asks_ok:
  "client_setup demo_px_env EC_COAP_GET [115] True None (client_zero demo_clock) = (C_OK, demo_asks)"
  "ec_request_add_block2 True (demo_asks\<lparr>cl_base := True, cl_userown := False\<rparr>) 1 False 64 = (C_OK, demo_asks_block)"
  "cl_state demo_asks_block = EC_CLI_STATE_NONE" "client_dest demo_px_env demo_asks_block \<noteq> None"
  using demo_asks_run by (auto simp: demo_asks_def demo_asks_block_def prod_eq_iff split: prod.splits)

lemma demo_block_sel:
  "ec_response_get_block2 True demo_block = Some (0, True, 64)" "ec_response_get_payload demo_block = Some (Some [104, 105], 2)"
  "ec_response_get_code demo_block = EC_CONTENT" "cl_state demo_block = EC_CLI_STATE_REQ_DONE"
proof -
  have "block_of (ec_opts_get_block2 True (ec_opts_init\<lparr>opts_bundle :=
      [\<lparr>o_sym = EC_OPT_BLOCK2, o_t = EC_OPT_TYPE_UINT, o_l = 1, o_v = Some [10]\<rparr>]\<rparr>)) = Some (0, True, 64)" by code_simp
  then show "ec_response_get_block2 True demo_block = Some (0, True, 64)"
    by (simp add: demo_block_def demo_answered_def ec_response_get_block2_def on_res_def ec_client_get_response_options_def
        ec_client_get_response_pdu_def demo_client_def demo_conn_def ec_conn_init_def)
qed (simp_all add: demo_block_def demo_answered_def ec_response_get_payload_def ec_client_get_response_pdu_def demo_client_def
  demo_conn_def ec_conn_init_def ec_response_get_code_def ec_flow_get_resp_code_def)

lemma demo_blocks_sel:
  "cl_heap demo_blocks = [1 \<mapsto> demo_block]" "px_args demo_blocks = [0 \<mapsto> 70, 1 \<mapsto> 71]" "px_cli demo_blocks = Some 1"
  "px_buf demo_blocks = Some []" "px_block_no demo_blocks = 0" "w_tick demo_blocks = 2" "px_curi demo_blocks = [115]"
  "px_replies demo_blocks = []"
  by (simp_all add: demo_blocks_def) (simp add: demo_proxy_def g_ctx_def ec.defs demo_ec_def)


end
