(* ===== verification/Demo_Spec.thy ===== *)
theory Demo_Spec
  imports Proxy_Demo Proxy_Spec
begin

text \<open>
  The demo against the proxy: on which responses the two do the same, and the Token that the demo gives each request.
\<close>

subsection \<open>Responses\<close>

text \<open>Two outcomes that differ at most in the headers added to replies.\<close>

definition same_but_headers :: "('m, 'z) proxy_scheme run \<Rightarrow> ('m, 'z) proxy_scheme run \<Rightarrow> bool" where
  "same_but_headers r r' \<longleftrightarrow>
     (case (r, r') of
        (Done s, Done s') \<Rightarrow> s' = s\<lparr>px_out := px_out s'\<rparr>
      | (Fault f, Fault f') \<Rightarrow> f = f'
      | _ \<Rightarrow> False)"

text \<open>The response ends the body: neither its own block nor, without one, the last block announced more.\<close>

definition ends_body :: "bool \<Rightarrow> ec_client \<Rightarrow> ('m, 'z) proxy_scheme \<Rightarrow> bool" where
  "ends_body le cli s \<longleftrightarrow> \<not> (case ec_response_get_block2 le cli of None \<Rightarrow> px_more s | Some (_, m, _) \<Rightarrow> m)"

lemma same_done [simp]:
  "same_but_headers (Done s) (Done s') \<longleftrightarrow> s' = s\<lparr>px_out := px_out s'\<rparr>" "same_but_headers (Fault f) (Fault f') \<longleftrightarrow> f = f'"
  by (simp_all add: same_but_headers_def)

text \<open>The common end of the two callbacks, once it is clear which block the response has.\<close>

lemma ending_agrees:
  assumes "\<not> px_more s"
  shows "same_but_headers
     (case pl of
        Some (Some b, n) \<Rightarrow>
          run_bind (payload_string b n) (\<lambda>t. case px_buf s of
            None \<Rightarrow> Fault Null_deref
          | Some buf \<Rightarrow> Done (evhttp_send_reply req HTTP_OK True (s\<lparr>px_out := h, px_buf := Some (buf @ t)\<rparr>)))
      | _ \<Rightarrow> Done (reply_error req (s\<lparr>px_out := h1\<rparr>)))
     (case pl of
        Some (Some b, n) \<Rightarrow>
          run_bind (payload_string b n) (\<lambda>t. case px_buf s of
            None \<Rightarrow> Fault Null_deref
          | Some buf \<Rightarrow> Done (evhttp_send_reply req HTTP_OK True (s\<lparr>px_out := h', px_buf := Some (buf @ t)\<rparr>)))
      | _ \<Rightarrow> Done (reply_error req s))"
  by (auto simp: payload_string_def reply_error_def evhttp_send_reply_def split: option.split)

lemma pass_on_agrees:
  assumes "ends_body (e_le e) cli s"
  shows "same_but_headers (pass_on e resolve req cli rc (s\<lparr>px_out := h\<rparr>)) (demo_pass_on e resolve req cli rc s)"
proof (cases "ec_response_get_block2 (e_le e) cli")
  case None
  then have m: "\<not> px_more s" using assms by (simp add: ends_body_def)
  show ?thesis
    unfolding pass_on_def demo_pass_on_def Let_def None option.case if_False evhttp_add_header_def
    using ending_agrees [OF m] m by (simp cong: option.case_cong)
next
  case (Some b)
  then obtain bnum bsz where b: "ec_response_get_block2 (e_le e) cli = Some (bnum, False, bsz)"
    using assms by (cases b) (simp add: ends_body_def)
  show ?thesis
  proof (cases "bnum = px_block_no s")
    case True
    let ?s = "s\<lparr>px_more := False, px_block_sz := bsz\<rparr>"
    have m: "\<not> px_more ?s" by simp
    have c: "s\<lparr>px_out := h, px_more := False, px_block_sz := bsz\<rparr> = ?s\<lparr>px_out := h\<rparr>" for h by simp
    show ?thesis
      unfolding pass_on_def demo_pass_on_def Let_def b option.case prod.case evhttp_add_header_def
      using ending_agrees [OF m] True by (simp add: c cong: option.case_cong)
  next
    case False
    then show ?thesis by (simp add: pass_on_def demo_pass_on_def b reply_error_def evhttp_send_reply_def)
  qed
qed

text \<open>The demo and the proxy treat a response that ends the body alike, up to the headers they add to the reply, unless its
  code is one that the proxy translates to a status of its own, or 2.01: they give the same replies, also to failed
  requests and to blocks out of order, ask for nothing more, and go wrong on the same responses.\<close>

theorem demo_agrees:
  assumes "cl_heap s a = Some cli" and "px_args s a = Some req" and "px_cli s = Some c" and "cl_heap s c = Some cli1"
    and "ends_body (e_le e) cli s" and "status_of (ec_response_get_code cli) = None" and "ec_response_get_code cli \<noteq> EC_CREATED"
  shows "same_but_headers (process_coap_response e pe resolve a s) (demo_coap_response e resolve a s)"
proof -
  obtain hs where h: "process_set_http_headers e pe req s = Done (s\<lparr>px_out := (px_out s)(req := px_out s req @ hs)\<rparr>)"
    using http_headers_live [OF assms(3,4)] by blast
  have g: "get_cli a s = Done cli" using assms(1) by (simp add: get_cli_def)
  show ?thesis
  proof (cases "cl_state cli \<noteq> EC_CLI_STATE_REQ_DONE \<or> ec_response_get_code cli = EC_RC_UNSET")
    case True
    with g h assms(2,6,7) show ?thesis
      by (auto simp: process_coap_response_def demo_coap_response_def same_but_headers_def reply_error_def evhttp_send_reply_def Let_def)
  next
    case False
    with g h assms(2,6,7) pass_on_agrees [OF assms(5), of resolve req "ec_response_get_code cli"] show ?thesis
      by (simp add: process_coap_response_def demo_coap_response_def Let_def)
  qed
qed

theorem demo_agrees_witness:
  "same_but_headers (process_coap_response demo_env demo_proxy_env (\<lambda>_. None) 1 demo_proxy)
     (demo_coap_response demo_env (\<lambda>_. None) 1 demo_proxy)"
  by (rule demo_agrees [of demo_proxy 1 demo_answered 71 1 demo_answered])
    (simp_all add: ends_body_def status_of_def)

end
