(* ===== verification/Spec2Isabelle.thy ===== *)
theory Spec2Isabelle
  imports Opt_Spec Srv_Answers Cli_Errors Res_Spec System Replay Lifecycle_Spec Kache_Evcoap_Spec Pubapi_Spec Dump_Spec Demo_Spec
begin

text \<open>
  The bridge of WebThings (\<^verbatim>\<open>src/bridge/sw\<close>): the CoAP engine evcoap, the HTTP cache kache, the
  publishing interface pubapi and the HTTP to CoAP proxy.

  \<^bold>\<open>The program.\<close> evcoap (\<^verbatim>\<open>lib/evcoap/src\<close>, headers in \<^verbatim>\<open>include\<close>) runs inside a libevent loop.
  A datagram is received by \<^verbatim>\<open>evcoap_net.c\<close>, checked against the cache of duplicates of
  \<^verbatim>\<open>evcoap_base.c\<close>, decoded by \<^verbatim>\<open>evcoap_pdu.c\<close> and \<^verbatim>\<open>evcoap_opt.c\<close>, and given to a server
  transaction (\<^verbatim>\<open>evcoap_srv.c\<close>) or to the client transaction that waits for it
  (\<^verbatim>\<open>evcoap_cli.c\<close>). A server transaction recomposes the URI, looks up a callback and lets it set
  the response; a GET with Observe becomes an observation (\<^verbatim>\<open>evcoap_observe.c\<close>). A client
  transaction resolves a name, retransmits, and reports to a callback. The application can keep its
  resources in a file system of resources (\<^verbatim>\<open>evcoap_resource.c\<close>, \<^verbatim>\<open>evcoap_filesys.c\<close>).
  \<^verbatim>\<open>evcoap.c\<close> is the interface to all that. The proxy (\<^verbatim>\<open>proxy/main.c\<close>) is an application of this
  interface; kache and pubapi stand alone.

  \<^bold>\<open>Model and code.\<close> A struct is a record whose fields carry a prefix of their own, an enumeration is
  a datatype, or a number where the code computes with it. Structs that the code links into queues
  live in a heap, a partial function from addresses, and the queue is the list of addresses; freeing
  takes the address out of the heap, so that using it later is the fault \<open>Use_after_free\<close>. The state
  of the engine grows along the layers by record extension: \<open>world\<close> (what was sent, and a clock that
  counts the calls to the environment) in \<open>Net\<close>, \<open>base\<close> (the cache of duplicates) in \<open>Dups\<close>, the
  observations in \<open>Observe\<close>, the server transactions in \<open>Server\<close>, the client transactions in
  \<open>Client\<close> (\<open>ec\<close>), and the context of the proxy in \<open>Proxy\<close>; an operation is polymorphic in the
  extension it does not touch. An \<open>int\<close> result of 0 or -1 is \<open>C_OK\<close> or \<open>C_ERR\<close>. What C leaves
  undefined, and a call of \<^verbatim>\<open>errx\<close>, is a \<open>Fault\<close>. Sizes that can wrap do so (\<open>size_sub\<close>), 8 to 64
  bit values are words.

  \<^bold>\<open>Parameters.\<close> libu, libevent, evdns, sockets, the clock and random numbers are not under \<^verbatim>\<open>src\<close>:
  they are the fields of \<open>env\<close>, indexed by the clock of the world where their answers can differ
  from call to call. What is relied on is stated where it is needed: \<open>hmap_laws\<close> (the map of libu is
  a map), \<open>kenv_laws\<close> (the bounded map of libu, which may forget), \<open>fills_exactly\<close> (\<^verbatim>\<open>u_strlcpy\<close>),
  \<open>mprintf_laws\<close> (\<^verbatim>\<open>sqlite3_mprintf\<close>). \<open>Demo_Env\<close> and, outside \<open>Proxy_Demo\<close>, the definitions named \<open>demo_\<close> are concrete
  instances, on which every hypothesis is shown to be satisfiable.

  \<^bold>\<open>The theories, in the order of the layers.\<close>
  \<^item> Shared: \<open>Prelude\<close> (machine types, faults, \<open>size_t\<close>), \<open>Post\<close> (reasoning about calls that may
    fault), and the contracts below.
  \<^item> Options: \<open>Enums\<close>, \<open>Opt\<close> (table and bundle), \<open>Opt_Bundle\<close> (its order), \<open>Opt_Uint\<close> and \<open>Opt_Api\<close>
    (integers and typed accessors), \<open>Opt_Codec\<close> (wire format), \<open>Opt_Url\<close> (the URI of a request).
    \<open>Opt_Spec\<close>: adding an option refines a map from symbols to lists of values; integers, blocks and
    whole bundles round trip, but for values of exactly 15 bytes, which are decoded wrongly; decoding
    never leaves an ill-formed bundle, but reads past the end of a message.
  \<^item> Messages: \<open>Net\<close>, \<open>Flow\<close> (timers, flows), \<open>Dups\<close> and \<open>Pdu\<close>, with \<open>Dups_Spec\<close> (a message is
    processed once) and \<open>Pdu_Spec\<close> (what a response looks like to its receiver). \<open>Dump\<close>, \<open>Dump_Spec\<close>: the debug
    dump of a PDU, as a rendering that ends at the first option it cannot print.
  \<^item> Observations: \<open>Observe\<close>, \<open>Obs_Spec\<close> (queue and records stay consistent; what a registration, a
    reset and a round of notifications do), \<open>Run_Logic\<close> (which fields the lower layers change).
  \<^item> Server: \<open>Server\<close>, \<open>Srv_Engine\<close>; \<open>Srv_Spec\<close> is the invariant between events, \<open>Srv_Reach\<close> shows that
    every event keeps it, \<open>Srv_Props\<close> and \<open>Srv_Answers\<close> have the properties.
  \<^item> Client: \<open>Client\<close>, \<open>Cli_Engine\<close>, and likewise \<open>Cli_Spec\<close>, \<open>Cli_Reach\<close>, \<open>Cli_Props\<close>; \<open>Cli_Exchange\<close>
    follows exchanges to the bytes and callbacks they result in, \<open>Cli_Errors\<close> has the uses on which
    the client goes wrong, \<open>Cli_Live\<close> shows that a waiting client always has a timer pending.
  \<^item> Resources: \<open>Resource\<close>, \<open>Filesys\<close>, with \<open>Fs_Spec\<close> (lookup, update, the list of resources) and
    \<open>Res_Spec\<close> (the types of what the fixed-size arrays hold).
  \<^item> Interface and system: \<open>Api\<close>, \<open>Api_Spec\<close>; \<open>Sys_Frame\<close> and \<open>System\<close> run both engines and the
    calls of the application on one state: safety of every event from every reachable state, the
    isolation of the two sides, and the end of every request. \<open>Exchange\<close> joins the two ends of the network: the
    bytes of a request, to an unknown resource or to one whose callback answers at once, through the server to
    its answer, and these to the callback of the client (the network itself is the assumption that bytes
    received were sent). \<open>Replay\<close> is the same request arriving again: the answer is sent again and nothing else
    happens. \<open>Lifecycle\<close>, \<open>Lifecycle_Spec\<close>: listening on an address, and what shutting down releases and
    leaves behind.
  \<^item> \<open>Kache\<close>, \<open>Kache_Spec\<close> (a hit is what was stored last; release), \<open>Kache_Evcoap\<close>, \<open>Kache_Evcoap_Spec\<close>
    (CoAP responses in the cache: which key finds them, what is served, what expires), \<open>Pubapi\<close>, \<open>Pubapi_Spec\<close> (services
    from rows; queries cannot be changed by their arguments), \<open>Proxy\<close>, \<open>Proxy_Spec\<close> (the replies to a
    CoAP response, blocks, two requests at a time); \<open>Proxy_Demo\<close>, \<open>Demo_Spec\<close> (its first form, and where they agree).

  \<^bold>\<open>Interfaces.\<close> \<open>sorted_bag\<close> (a stable ordered container) is provided by the option bundle and used by the
  codec; \<open>transaction_fsm\<close> by the tables of server and client transactions; \<open>retransmitter\<close> by the
  timers of both; \<open>event_system\<close> by the events of the server, of the client and of the system;
  \<open>keyed_store\<close> by the callback registry and the file system of resources; \<open>lossy_store\<close> by kache.

  \<^bold>\<open>Bounds and termination.\<close> No definition uses fuel: loops are recursion over the list they walk, the
  digits of a number or the bytes left. A confirmable message is sent at most five times, over at most
  62 seconds. An execution of the system is a finite list of events; \<open>Cli_Live\<close> and \<open>System\<close> show that
  from any reachable state as many timer events as there are waiting requests end them all.

  \<^bold>\<open>Not modelled.\<close> The wrapper of \<^verbatim>\<open>recvmsg\<close> and creating, running and leaving the event loop
  (system and library calls; a received datagram is an event); failing heap allocation. Callbacks of the application are functions of what they may read, and their calls
  into the library are a list of \<open>user_call\<close>. \<^verbatim>\<open>kache_evcoap.c\<close> is modelled with the three repairs that it needs to compile,
  named in \<open>Kache_Evcoap\<close>; \<^verbatim>\<open>kache_history.c\<close>, which is not built, uses variables that are declared
  nowhere and lacks a comma. \<^verbatim>\<open>sqlite3.h\<close> and \<^verbatim>\<open>sqlite3ext.h\<close> are vendored declarations; the
  command line client of pubapi and the test programs parse arguments and print; \<^verbatim>\<open>discopub\<close>, \<^verbatim>\<open>urlmap\<close> and the build probes
  are empty. In \<open>Proxy\<close> the engine's invocation of the callback is not wired to the engine's own
  step: \<open>process_coap_response\<close> is stated on the state in which it is called.
\<close>

end
